(* ===== verification/Comedi_Prelude.thy ===== *)
theory Comedi_Prelude
  imports Main "HOL-Library.Word" "HOL-Library.Monad_Syntax"
begin

text \<open>
  What the components share: the machine types of the C code, the error numbers its functions
  return, the option monad in which \<^term>\<open>None\<close> stands for code that does not return
  normally (a \<open>BUG()\<close>, a trap such as a division by zero or an access outside an object, or a
  loop that never ends), and the lemmas on wrapping counters and on byte rings that the
  buffer proofs rest on.
\<close>

unbundle bit_operations_syntax

section \<open>Machine types and error numbers\<close>

type_synonym u8 = "8 word"
type_synonym u16 = "16 word"
type_synonym u32 = "32 word"
type_synonym u64 = "64 word"

abbreviation (input) EPERM :: int where "EPERM \<equiv> 1"
abbreviation (input) EIO :: int where "EIO \<equiv> 5"
abbreviation (input) EAGAIN :: int where "EAGAIN \<equiv> 11"
abbreviation (input) ENOMEM :: int where "ENOMEM \<equiv> 12"
abbreviation (input) EACCES :: int where "EACCES \<equiv> 13"
abbreviation (input) EFAULT :: int where "EFAULT \<equiv> 14"
abbreviation (input) EBUSY :: int where "EBUSY \<equiv> 16"
abbreviation (input) ENODEV :: int where "ENODEV \<equiv> 19"
abbreviation (input) EINVAL :: int where "EINVAL \<equiv> 22"
abbreviation (input) ENOTTY :: int where "ENOTTY \<equiv> 25"
abbreviation (input) EPIPE :: int where "EPIPE \<equiv> 32"
abbreviation (input) ENOSYS :: int where "ENOSYS \<equiv> 38"
abbreviation (input) ERESTARTSYS :: int where "ERESTARTSYS \<equiv> 512"

named_theorems comedi_split \<open>case splits of the option monad and of the records' pointers\<close>
named_theorems ring_simps \<open>arithmetic of the wrapping byte counters\<close>
named_theorems frame_simps \<open>fields that an operation leaves alone\<close>

section \<open>Code that may not return\<close>

definition bug_on :: "bool \<Rightarrow> unit option" where
  "bug_on c = (if c then None else Some ())"

definition load_nth :: "'a list \<Rightarrow> nat \<Rightarrow> 'a option" where
  "load_nth xs i = (if i < length xs then Some (xs ! i) else None)"

lemma bug_on_simps [simp]: "bug_on True = None" "bug_on False = Some ()"
  by (simp_all add: bug_on_def)

lemma bug_on_eq_Some [simp]: "bug_on c = Some u \<longleftrightarrow> \<not> c"
  by (simp add: bug_on_def)

lemma load_nth_less [simp]: "i < length xs \<Longrightarrow> load_nth xs i = Some (xs ! i)"
  by (simp add: load_nth_def)

lemma load_nth_eq_Some: "load_nth xs i = Some x \<longleftrightarrow> i < length xs \<and> x = xs ! i"
  by (auto simp: load_nth_def)

lemma load_nth_eq_None [simp]: "load_nth xs i = None \<longleftrightarrow> length xs \<le> i"
  by (auto simp: load_nth_def)

lemma load_nth_Suc_Cons [simp]: "load_nth (x # xs) (Suc i) = load_nth xs i"
  by (simp add: load_nth_def)

lemma load_nth_0_Cons [simp]: "load_nth (x # xs) 0 = Some x"
  by (simp add: load_nth_def)

declare option.splits [comedi_split] prod.splits [comedi_split] if_splits [comedi_split]

lemma bind_SomeE:
  assumes "Option.bind m f = Some y"
  obtains x where "m = Some x" and "f x = Some y"
  using assms by (auto simp: bind_eq_Some_conv)

section \<open>Signed tests on wrapping counters\<close>

text \<open>
  The buffer code compares byte counters with \<open>(int)(a + n - b) > 0\<close>: the difference of two
  wrapping 32-bit counters, read as a signed number.
\<close>

lemma sint_u32: "sint (w :: u32) = (if unat w < 2147483648 then int (unat w) else int (unat w) - 4294967296)"
proof -
  have b: "uint w < 4294967296" using uint_bounded[of w] by simp
  have u: "int (unat w) = uint w" by simp
  show ?thesis
  proof (cases "unat w < 2147483648")
    case True
    then have "uint w < 2147483648" using u by linarith
    then have "signed_take_bit 31 (uint w) = uint w"
      by (simp add: signed_take_bit_int_eq_self_iff order_trans[OF _ uint_ge_0])
    then show ?thesis using True by (simp add: sint_uint)
  next
    case False
    then have ge: "2147483648 \<le> uint w" using u by linarith
    have "(uint w + 2147483648) mod 4294967296 = (uint w - 2147483648 + 4294967296) mod 4294967296"
      by (simp add: add.commute)
    also have "\<dots> = uint w - 2147483648"
      using ge b by (simp only: mod_add_self2) (simp add: mod_pos_pos_trivial)
    finally have sh: "(uint w + 2147483648) mod 4294967296 = uint w - 2147483648" .
    have "signed_take_bit 31 (uint w) = uint w - 4294967296"
      using sh by (simp add: signed_take_bit_eq_take_bit_shift take_bit_eq_mod)
    then show ?thesis using False by (simp add: sint_uint)
  qed
qed

lemma unat_u32_less: "unat (w :: u32) < 4294967296"
  using unsigned_less[of w, where ?'a = nat] by simp

lemma sless_0_u32: "0 <s (w :: u32) \<longleftrightarrow> 0 < unat w \<and> unat w < 2147483648"
  using unat_u32_less[of w] by (auto simp add: word_sless_alt sint_u32 simp del: of_nat_unat)

lemma sle_u32_small [ring_simps]:
  "unat (a :: u32) < 2147483648 \<Longrightarrow> unat (b :: u32) < 2147483648 \<Longrightarrow> a \<le>s b \<longleftrightarrow> unat a \<le> unat b"
  by (simp add: word_sle_eq sint_u32 del: of_nat_unat)

lemma sless_u32_small [ring_simps]:
  "unat (a :: u32) < 2147483648 \<Longrightarrow> unat (b :: u32) < 2147483648 \<Longrightarrow> a <s b \<longleftrightarrow> unat a < unat b"
  by (simp add: word_sless_alt sint_u32 del: of_nat_unat)

lemma unat_u32_of_u64: "unat (x :: u64) < 4294967296 \<Longrightarrow> unat (ucast x :: u32) = unat x"
  by (simp add: unsigned_ucast_eq take_bit_eq_mod)

lemma unat_u64_of_u32 [simp]: "unat (ucast (x :: u32) :: u64) = unat x"
proof -
  have "unat x < 18446744073709551616" using unat_u32_less[of x] by linarith
  then show ?thesis by (simp add: unsigned_ucast_eq take_bit_eq_mod)
qed

lemma unat_add_u32: "unat (a + b) = unat a + unat b" if "unat a + unat b < 4294967296" for a b :: u32
  using that by (simp add: unat_plus_if')

lemma unat_sub_u32: "unat (a - b) = unat a - unat b" if "unat b \<le> unat a" for a b :: u32
  using that by (simp add: unat_sub_if')

lemma counter_exceeds:
  fixes x n c :: u32
  assumes "unat x \<le> unat c" and "unat c < 2147483648" and "unat n < 2147483648"
  shows "0 <s (x + n - c) \<longleftrightarrow> unat c < unat x + unat n"
proof -
  have xn: "unat (x + n) = unat x + unat n"
    using assms by (intro unat_add_u32) linarith
  show ?thesis
  proof (cases "unat c \<le> unat x + unat n")
    case True
    then have "unat (x + n - c) = unat x + unat n - unat c"
      by (simp add: unat_sub_u32 xn)
    then show ?thesis using assms True by (auto simp: sless_0_u32)
  next
    case False
    then have "unat (x + n - c) = unat x + unat n + 4294967296 - unat c"
      using unat_sub_if'[of "x + n" c] xn by simp
    then show ?thesis using assms False by (auto simp: sless_0_u32)
  qed
qed

lemmas u32_arith [ring_simps] = unat_add_u32 unat_sub_u32

section \<open>Byte rings\<close>

text \<open>
  \<open>ring_get b p k\<close> reads \<open>k\<close> elements of the buffer \<open>b\<close> from position \<open>p\<close> on, going round
  its end; \<open>ring_put b p xs\<close> writes \<open>xs\<close> there. \<open>overwrite\<close> is one \<open>memcpy\<close> into the buffer.
\<close>

definition ring_get :: "'a list \<Rightarrow> nat \<Rightarrow> nat \<Rightarrow> 'a list" where
  "ring_get b p k = map (\<lambda>i. b ! ((p + i) mod length b)) [0..<k]"

fun ring_put :: "'a list \<Rightarrow> nat \<Rightarrow> 'a list \<Rightarrow> 'a list" where
  "ring_put b p [] = b"
| "ring_put b p (x # xs) = ring_put (b[p mod length b := x]) (Suc p) xs"

definition overwrite :: "'a list \<Rightarrow> nat \<Rightarrow> 'a list \<Rightarrow> 'a list" where
  "overwrite b off xs = take off b @ xs @ drop (off + length xs) b"

lemma length_ring_get [simp]: "length (ring_get b p k) = k"
  by (simp add: ring_get_def)

lemma ring_get_0 [simp]: "ring_get b p 0 = []"
  by (simp add: ring_get_def)

lemma ring_get_nth: "i < k \<Longrightarrow> ring_get b p k ! i = b ! ((p + i) mod length b)"
  by (simp add: ring_get_def)

lemma ring_get_add: "ring_get b p (j + k) = ring_get b p j @ ring_get b (p + j) k"
proof -
  have "[0..<j + k] = [0..<j] @ map (\<lambda>i. i + j) [0..<k]"
    by (simp add: upt_add_eq_append[of 0 j k] map_add_upt add.commute)
  then show ?thesis
    by (simp add: ring_get_def ac_simps)
qed

lemma ring_get_mod: "ring_get b (p mod length b) k = ring_get b p k"
  by (simp add: ring_get_def mod_add_left_eq)

lemma take_ring_get: "take j (ring_get b p k) = ring_get b p (min j k)"
  by (simp add: ring_get_def take_map take_upt min_def)

lemma drop_ring_get: "drop j (ring_get b p k) = ring_get b (p + j) (k - j)"
proof (cases "j \<le> k")
  case True
  then show ?thesis using ring_get_add[of b p j "k - j"] by simp
qed simp

lemma ring_get_linear: "p + k \<le> length b \<Longrightarrow> ring_get b p k = take k (drop p b)"
  by (rule nth_equalityI) (auto simp: ring_get_nth)

lemma length_ring_put [simp]: "length (ring_put b p xs) = length b"
  by (induction b p xs rule: ring_put.induct) simp_all

lemma ring_put_append: "ring_put b p (xs @ ys) = ring_put (ring_put b p xs) (p + length xs) ys"
  by (induction b p xs rule: ring_put.induct) simp_all

lemma mod_ne_of_less:
  fixes p i j n :: nat
  assumes "i < n" and "j < n" and "i \<noteq> j"
  shows "(p + i) mod n \<noteq> (p + j) mod n"
  using assms
proof (induction i j rule: linorder_wlog)
  case (le i j)
  then have "\<not> n dvd (p + j) - (p + i)"
    by (auto dest: dvd_imp_le)
  then show ?case
    using le by (metis add_left_mono mod_eq_dvd_iff_nat)
next
  case (sym i j)
  then show ?case by metis
qed

lemma ring_put_nth_other:
  assumes "k < length b" and "\<And>i. i < length xs \<Longrightarrow> (p + i) mod length b \<noteq> k"
  shows "ring_put b p xs ! k = b ! k"
  using assms
proof (induction b p xs rule: ring_put.induct)
  case (2 b p x xs)
  have "p mod length b \<noteq> k"
    using "2.prems"(2)[of 0] by simp
  moreover have "(Suc p + i) mod length b \<noteq> k" if "i < length xs" for i
    using "2.prems"(2)[of "Suc i"] that by simp
  ultimately show ?case
    using "2.IH" "2.prems"(1) by simp
qed simp

lemma ring_put_nth_same:
  assumes "length xs \<le> length b" and "i < length xs"
  shows "ring_put b p xs ! ((p + i) mod length b) = xs ! i"
  using assms
proof (induction b p xs arbitrary: i rule: ring_put.induct)
  case (2 b p x xs)
  show ?case
  proof (cases i)
    case 0
    have "(Suc p + j) mod length b \<noteq> p mod length b" if "j < length xs" for j
      using mod_ne_of_less[of "Suc j" "length b" 0 p] that "2.prems" by (cases b) auto
    moreover have "p mod length b < length b"
      using "2.prems" by (intro mod_less_divisor) linarith
    ultimately have "ring_put (b[p mod length b := x]) (Suc p) xs ! (p mod length b) = x"
      by (subst ring_put_nth_other) auto
    then show ?thesis using 0 by simp
  next
    case (Suc j)
    then show ?thesis
      using "2.IH"[of j] "2.prems" by simp
  qed
qed simp

lemma ring_get_put_same:
  assumes "length xs \<le> length b"
  shows "ring_get (ring_put b p xs) p (length xs) = xs"
  using assms by (intro nth_equalityI) (auto simp: ring_get_nth ring_put_nth_same)

lemma ring_get_put_before:
  assumes "k \<le> j" and "j + length xs \<le> length b"
  shows "ring_get (ring_put b (p + j) xs) p k = ring_get b p k"
proof (rule nth_equalityI)
  fix i assume "i < length (ring_get (ring_put b (p + j) xs) p k)"
  then have i: "i < k" by simp
  have "(p + j + l) mod length b \<noteq> (p + i) mod length b" if "l < length xs" for l
    using mod_ne_of_less[of "j + l" "length b" i p] that i assms by (simp add: ac_simps)
  then have "ring_put b (p + j) xs ! ((p + i) mod length b) = b ! ((p + i) mod length b)"
    using i assms by (intro ring_put_nth_other) (auto intro: mod_less_divisor)
  then show "ring_get (ring_put b (p + j) xs) p k ! i = ring_get b p k ! i"
    using i by (simp add: ring_get_nth)
qed simp

lemma ring_get_put_after:
  assumes "length xs + k \<le> length b"
  shows "ring_get (ring_put b p xs) (p + length xs) k = ring_get b (p + length xs) k"
proof (rule nth_equalityI)
  fix i assume "i < length (ring_get (ring_put b p xs) (p + length xs) k)"
  then have i: "i < k" by simp
  have "(p + l) mod length b \<noteq> (p + length xs + i) mod length b" if "l < length xs" for l
    using mod_ne_of_less[of l "length b" "length xs + i" p] that i assms by (simp add: ac_simps)
  then have "ring_put b p xs ! ((p + length xs + i) mod length b) = b ! ((p + length xs + i) mod length b)"
    using i assms by (intro ring_put_nth_other) (auto intro: mod_less_divisor)
  then show "ring_get (ring_put b p xs) (p + length xs) k ! i = ring_get b (p + length xs) k ! i"
    using i by (simp add: ring_get_nth)
qed simp

lemma ring_get_put_append:
  assumes "j + length xs \<le> length b"
  shows "ring_get (ring_put b (p + j) xs) p (j + length xs) = ring_get b p j @ xs"
  using assms by (simp add: ring_get_add ring_get_put_before ring_get_put_same)

lemma ring_put_mod: "ring_put b (p mod length b) xs = ring_put b p xs"
proof (induction xs arbitrary: b p)
  case (Cons x xs)
  let ?b = "b[p mod length b := x]"
  have "ring_put ?b (Suc (p mod length b)) xs = ring_put ?b (Suc (p mod length b) mod length ?b) xs"
    by (rule Cons.IH [symmetric])
  also have "\<dots> = ring_put ?b (Suc p mod length ?b) xs"
    by (simp add: mod_Suc_eq)
  also have "\<dots> = ring_put ?b (Suc p) xs"
    by (rule Cons.IH)
  finally show ?case by simp
qed simp

lemma length_overwrite [simp]:
  "off + length xs \<le> length b \<Longrightarrow> length (overwrite b off xs) = length b"
  by (simp add: overwrite_def)

lemma overwrite_ring_put:
  assumes "off + length xs \<le> length b"
  shows "overwrite b off xs = ring_put b off xs"
proof (rule nth_equalityI)
  show "length (overwrite b off xs) = length (ring_put b off xs)" using assms by simp
next
  fix i assume "i < length (overwrite b off xs)"
  then have i: "i < length b" using assms by simp
  show "overwrite b off xs ! i = ring_put b off xs ! i"
  proof (cases "off \<le> i \<and> i < off + length xs")
    case True
    then show ?thesis
      using assms i ring_put_nth_same[of xs b "i - off" off]
      by (auto simp: overwrite_def nth_append)
  next
    case False
    then show ?thesis
      using assms i by (subst ring_put_nth_other) (auto simp: overwrite_def nth_append)
  qed
qed
end
