(* ===== verification/Comedi_Types.thy ===== *)
theory Comedi_Types
  imports Comedi_Prelude
begin

text \<open>
  The data of the core: the constants, packed words and structures of \<open>include/linux/comedi.h\<close>
  and \<open>include/linux/comedidev.h\<close>. A C \<open>int\<close> field that the code also compares as unsigned is a
  32-bit word, read with \<open>sint\<close> or compared with \<open><s\<close> where the code compares it as signed. A
  pointer that may be \<open>NULL\<close> is an option; a function pointer is the number of the function,
  which \<open>driver_ops\<close> interprets; \<open>void *\<close> driver data has the type parameter \<open>'p\<close>, and \<open>'h\<close> is the
  state of the hardware that the driver's callbacks reach through the device.
\<close>

unbundle bit_operations_syntax

type_synonym lsampl_t = u32
type_synonym sampl_t = u16
type_synonym fnptr = nat

section \<open>Constants\<close>

definition INSN_MASK_WRITE :: u32 where "INSN_MASK_WRITE = 0x8000000"
definition INSN_MASK_READ :: u32 where "INSN_MASK_READ = 0x4000000"
definition INSN_MASK_SPECIAL :: u32 where "INSN_MASK_SPECIAL = 0x2000000"
definition INSN_READ :: u32 where "INSN_READ = (0 OR INSN_MASK_READ)"
definition INSN_WRITE :: u32 where "INSN_WRITE = (1 OR INSN_MASK_WRITE)"
definition INSN_BITS :: u32 where "INSN_BITS = (2 OR INSN_MASK_READ OR INSN_MASK_WRITE)"
definition INSN_CONFIG :: u32 where "INSN_CONFIG = (3 OR INSN_MASK_READ OR INSN_MASK_WRITE)"
definition INSN_GTOD :: u32 where "INSN_GTOD = (4 OR INSN_MASK_READ OR INSN_MASK_SPECIAL)"
definition INSN_WAIT :: u32 where "INSN_WAIT = (5 OR INSN_MASK_WRITE OR INSN_MASK_SPECIAL)"
definition INSN_INTTRIG :: u32 where "INSN_INTTRIG = (6 OR INSN_MASK_WRITE OR INSN_MASK_SPECIAL)"

lemmas INSN_defs = INSN_MASK_WRITE_def INSN_MASK_READ_def INSN_MASK_SPECIAL_def INSN_READ_def
  INSN_WRITE_def INSN_BITS_def INSN_CONFIG_def INSN_GTOD_def INSN_WAIT_def INSN_INTTRIG_def

definition TRIG_BOGUS :: u32 where "TRIG_BOGUS = 0x0001"
definition TRIG_WAKE_EOS :: u32 where "TRIG_WAKE_EOS = 0x0020"
definition TRIG_RT :: u32 where "TRIG_RT = 0x00000008"
definition CMDF_RAWDATA :: u32 where "CMDF_RAWDATA = 0x00000080"
definition TRIG_ROUND_MASK :: u32 where "TRIG_ROUND_MASK = 0x00030000"
definition TRIG_ROUND_NEAREST :: u32 where "TRIG_ROUND_NEAREST = 0x00000000"
definition TRIG_ROUND_DOWN :: u32 where "TRIG_ROUND_DOWN = 0x00010000"
definition TRIG_ROUND_UP :: u32 where "TRIG_ROUND_UP = 0x00020000"
definition TRIG_NONE :: u32 where "TRIG_NONE = 0x00000001"
definition TRIG_NOW :: u32 where "TRIG_NOW = 0x00000002"
definition TRIG_FOLLOW :: u32 where "TRIG_FOLLOW = 0x00000004"
definition TRIG_TIMER :: u32 where "TRIG_TIMER = 0x00000010"
definition TRIG_COUNT :: u32 where "TRIG_COUNT = 0x00000020"
definition TRIG_EXT :: u32 where "TRIG_EXT = 0x00000040"
definition TRIG_INT :: u32 where "TRIG_INT = 0x00000080"
definition TRIG_OTHER :: u32 where "TRIG_OTHER = 0x00000100"

lemmas TRIG_defs = TRIG_BOGUS_def TRIG_WAKE_EOS_def TRIG_RT_def CMDF_RAWDATA_def
  TRIG_ROUND_MASK_def TRIG_ROUND_NEAREST_def TRIG_ROUND_DOWN_def TRIG_ROUND_UP_def
  TRIG_NONE_def TRIG_NOW_def TRIG_FOLLOW_def TRIG_TIMER_def TRIG_COUNT_def TRIG_EXT_def
  TRIG_INT_def TRIG_OTHER_def

definition SDF_BUSY :: u32 where "SDF_BUSY = 0x0001"
definition SDF_BUSY_OWNER :: u32 where "SDF_BUSY_OWNER = 0x0002"
definition SDF_LOCKED :: u32 where "SDF_LOCKED = 0x0004"
definition SDF_LOCK_OWNER :: u32 where "SDF_LOCK_OWNER = 0x0008"
definition SDF_MAXDATA :: u32 where "SDF_MAXDATA = 0x0010"
definition SDF_FLAGS :: u32 where "SDF_FLAGS = 0x0020"
definition SDF_RANGETYPE :: u32 where "SDF_RANGETYPE = 0x0040"
definition SDF_CMD :: u32 where "SDF_CMD = 0x1000"
definition SDF_CMD_WRITE :: u32 where "SDF_CMD_WRITE = 0x4000"
definition SDF_CMD_READ :: u32 where "SDF_CMD_READ = 0x8000"
definition SDF_READABLE :: u32 where "SDF_READABLE = 0x00010000"
definition SDF_WRITABLE :: u32 where "SDF_WRITABLE = 0x00020000"
definition SDF_GROUND :: u32 where "SDF_GROUND = 0x00100000"
definition SDF_RUNNING :: u32 where "SDF_RUNNING = 0x08000000"
definition SDF_LSAMPL :: u32 where "SDF_LSAMPL = 0x10000000"

lemmas SDF_defs = SDF_BUSY_def SDF_BUSY_OWNER_def SDF_LOCKED_def SDF_LOCK_OWNER_def
  SDF_MAXDATA_def SDF_FLAGS_def SDF_RANGETYPE_def SDF_CMD_def SDF_CMD_WRITE_def
  SDF_CMD_READ_def SDF_READABLE_def SDF_WRITABLE_def SDF_GROUND_def SDF_RUNNING_def
  SDF_LSAMPL_def

definition COMEDI_CB_EOS :: u32 where "COMEDI_CB_EOS = 1"
definition COMEDI_CB_EOA :: u32 where "COMEDI_CB_EOA = 2"
definition COMEDI_CB_BLOCK :: u32 where "COMEDI_CB_BLOCK = 4"
definition COMEDI_CB_ERROR :: u32 where "COMEDI_CB_ERROR = 16"
definition COMEDI_CB_OVERFLOW :: u32 where "COMEDI_CB_OVERFLOW = 32"

lemmas COMEDI_CB_defs = COMEDI_CB_EOS_def COMEDI_CB_EOA_def COMEDI_CB_BLOCK_def
  COMEDI_CB_ERROR_def COMEDI_CB_OVERFLOW_def

definition SRF_USER :: u32 where "SRF_USER = 0x00000001"
definition SRF_RT :: u32 where "SRF_RT = 0x00000002"
definition SRF_ERROR :: u32 where "SRF_ERROR = 0x00000004"
definition SRF_RUNNING :: u32 where "SRF_RUNNING = 0x08000000"

lemmas SRF_defs = SRF_USER_def SRF_RT_def SRF_ERROR_def SRF_RUNNING_def

definition COMEDI_NUM_MINORS :: nat where "COMEDI_NUM_MINORS = 0x100"
definition COMEDI_NUM_BOARD_MINORS :: nat where "COMEDI_NUM_BOARD_MINORS = 0x30"
definition COMEDI_FIRST_SUBDEVICE_MINOR :: nat where
  "COMEDI_FIRST_SUBDEVICE_MINOR = COMEDI_NUM_BOARD_MINORS"
definition COMEDI_NAMELEN :: nat where "COMEDI_NAMELEN = 20"

definition COMEDI_DEVCONF_AUX_DATA_HI :: nat where "COMEDI_DEVCONF_AUX_DATA_HI = 29"
definition COMEDI_DEVCONF_AUX_DATA_LO :: nat where "COMEDI_DEVCONF_AUX_DATA_LO = 30"
definition COMEDI_DEVCONF_AUX_DATA_LENGTH :: nat where "COMEDI_DEVCONF_AUX_DATA_LENGTH = 31"

text \<open>A copy of a C string into a field of \<open>n\<close> bytes, which ends with a zero byte.\<close>

definition strlcpy :: "string \<Rightarrow> nat \<Rightarrow> string" where
  "strlcpy src n = take (n - 1) src"

lemmas COMEDI_MINOR_defs = COMEDI_NUM_MINORS_def COMEDI_NUM_BOARD_MINORS_def
  COMEDI_FIRST_SUBDEVICE_MINOR_def

definition PAGE_SHIFT :: nat where "PAGE_SHIFT = 12"
definition PAGE_SIZE :: u64 where "PAGE_SIZE = 4096"
definition PAGE_MASK :: u64 where "PAGE_MASK = NOT (PAGE_SIZE - 1)"

section \<open>Channel specifications\<close>

definition CR_PACK :: "u32 \<Rightarrow> u32 \<Rightarrow> u32 \<Rightarrow> u32" where
  "CR_PACK chan rng aref =
     (push_bit 24 (aref AND 0x3) OR push_bit 16 (rng AND 0xff) OR chan)"

definition CR_CHAN :: "u32 \<Rightarrow> u32" where "CR_CHAN a = a AND 0xffff"
definition CR_RANGE :: "u32 \<Rightarrow> u32" where "CR_RANGE a = (drop_bit 16 a) AND 0xff"
definition CR_AREF :: "u32 \<Rightarrow> u32" where "CR_AREF a = (drop_bit 24 a) AND 0x03"

definition RANGE_LENGTH :: "u32 \<Rightarrow> u32" where "RANGE_LENGTH b = b AND 0xffff"

section \<open>Configuration instruction ids\<close>

definition INSN_CONFIG_DIO_INPUT :: u32 where "INSN_CONFIG_DIO_INPUT = 0"
definition INSN_CONFIG_DIO_OUTPUT :: u32 where "INSN_CONFIG_DIO_OUTPUT = 1"
definition INSN_CONFIG_ANALOG_TRIG :: u32 where "INSN_CONFIG_ANALOG_TRIG = 16"
definition INSN_CONFIG_ALT_SOURCE :: u32 where "INSN_CONFIG_ALT_SOURCE = 20"
definition INSN_CONFIG_DIGITAL_TRIG :: u32 where "INSN_CONFIG_DIGITAL_TRIG = 21"
definition INSN_CONFIG_BLOCK_SIZE :: u32 where "INSN_CONFIG_BLOCK_SIZE = 22"
definition INSN_CONFIG_FILTER :: u32 where "INSN_CONFIG_FILTER = 24"
definition INSN_CONFIG_SERIAL_CLOCK :: u32 where "INSN_CONFIG_SERIAL_CLOCK = 26"
definition INSN_CONFIG_BIDIRECTIONAL_DATA :: u32 where "INSN_CONFIG_BIDIRECTIONAL_DATA = 27"
definition INSN_CONFIG_DIO_QUERY :: u32 where "INSN_CONFIG_DIO_QUERY = 28"
definition COMEDI_INPUT :: u32 where "COMEDI_INPUT = 0"
definition COMEDI_OUTPUT :: u32 where "COMEDI_OUTPUT = 1"
definition INSN_CONFIG_PWM_OUTPUT :: u32 where "INSN_CONFIG_PWM_OUTPUT = 29"
definition INSN_CONFIG_ARM :: u32 where "INSN_CONFIG_ARM = 31"
definition INSN_CONFIG_DISARM :: u32 where "INSN_CONFIG_DISARM = 32"
definition INSN_CONFIG_GET_COUNTER_STATUS :: u32 where "INSN_CONFIG_GET_COUNTER_STATUS = 33"
definition INSN_CONFIG_RESET :: u32 where "INSN_CONFIG_RESET = 34"
definition INSN_CONFIG_SET_GATE_SRC :: u32 where "INSN_CONFIG_SET_GATE_SRC = 2001"
definition INSN_CONFIG_GET_GATE_SRC :: u32 where "INSN_CONFIG_GET_GATE_SRC = 2002"
definition INSN_CONFIG_SET_CLOCK_SRC :: u32 where "INSN_CONFIG_SET_CLOCK_SRC = 2003"
definition INSN_CONFIG_GET_CLOCK_SRC :: u32 where "INSN_CONFIG_GET_CLOCK_SRC = 2004"
definition INSN_CONFIG_SET_OTHER_SRC :: u32 where "INSN_CONFIG_SET_OTHER_SRC = 2005"
definition INSN_CONFIG_GET_HARDWARE_BUFFER_SIZE :: u32 where
  "INSN_CONFIG_GET_HARDWARE_BUFFER_SIZE = 2006"
definition INSN_CONFIG_SET_COUNTER_MODE :: u32 where "INSN_CONFIG_SET_COUNTER_MODE = 4097"
definition INSN_CONFIG_8254_READ_STATUS :: u32 where "INSN_CONFIG_8254_READ_STATUS = 4098"
definition INSN_CONFIG_SET_ROUTING :: u32 where "INSN_CONFIG_SET_ROUTING = 4099"
definition INSN_CONFIG_GET_ROUTING :: u32 where "INSN_CONFIG_GET_ROUTING = 4109"
definition INSN_CONFIG_PWM_SET_PERIOD :: u32 where "INSN_CONFIG_PWM_SET_PERIOD = 5000"
definition INSN_CONFIG_PWM_GET_PERIOD :: u32 where "INSN_CONFIG_PWM_GET_PERIOD = 5001"
definition INSN_CONFIG_GET_PWM_STATUS :: u32 where "INSN_CONFIG_GET_PWM_STATUS = 5002"
definition INSN_CONFIG_PWM_SET_H_BRIDGE :: u32 where "INSN_CONFIG_PWM_SET_H_BRIDGE = 5003"
definition INSN_CONFIG_PWM_GET_H_BRIDGE :: u32 where "INSN_CONFIG_PWM_GET_H_BRIDGE = 5004"

lemmas INSN_CONFIG_defs = INSN_CONFIG_DIO_INPUT_def INSN_CONFIG_DIO_OUTPUT_def
  INSN_CONFIG_ANALOG_TRIG_def INSN_CONFIG_ALT_SOURCE_def INSN_CONFIG_DIGITAL_TRIG_def
  INSN_CONFIG_BLOCK_SIZE_def INSN_CONFIG_FILTER_def INSN_CONFIG_SERIAL_CLOCK_def
  INSN_CONFIG_BIDIRECTIONAL_DATA_def INSN_CONFIG_DIO_QUERY_def INSN_CONFIG_PWM_OUTPUT_def
  INSN_CONFIG_ARM_def INSN_CONFIG_DISARM_def INSN_CONFIG_GET_COUNTER_STATUS_def
  INSN_CONFIG_RESET_def INSN_CONFIG_SET_GATE_SRC_def INSN_CONFIG_GET_GATE_SRC_def
  INSN_CONFIG_SET_CLOCK_SRC_def INSN_CONFIG_GET_CLOCK_SRC_def INSN_CONFIG_SET_OTHER_SRC_def
  INSN_CONFIG_GET_HARDWARE_BUFFER_SIZE_def INSN_CONFIG_SET_COUNTER_MODE_def
  INSN_CONFIG_8254_READ_STATUS_def INSN_CONFIG_SET_ROUTING_def INSN_CONFIG_GET_ROUTING_def
  INSN_CONFIG_PWM_SET_PERIOD_def INSN_CONFIG_PWM_GET_PERIOD_def
  INSN_CONFIG_GET_PWM_STATUS_def INSN_CONFIG_PWM_SET_H_BRIDGE_def
  INSN_CONFIG_PWM_GET_H_BRIDGE_def

section \<open>Structures shared with user space\<close>

text \<open>
  A \<open>chanlist\<close> pointer is \<open>NULL\<close>, a user-space address or the address of a kernel allocation;
  the model keeps the contents of the allocation in place of its address, so that a kernel
  pointer can never be mistaken for a user one.
\<close>

datatype chan_ptr = Null_ptr | User_ptr u64 | Kern_ptr "u32 list"

record comedi_cmd =
  cmd_subdev :: u32
  cmd_flags :: u32
  start_src :: u32
  start_arg :: u32
  scan_begin_src :: u32
  scan_begin_arg :: u32
  convert_src :: u32
  convert_arg :: u32
  scan_end_src :: u32
  scan_end_arg :: u32
  stop_src :: u32
  stop_arg :: u32
  chanlist :: chan_ptr
  chanlist_len :: u32
  cmd_data :: u64
  cmd_data_len :: u32

record comedi_insn =
  insn_insn :: u32
  insn_n :: u32
  insn_data :: u64
  insn_subdev :: u32
  insn_chanspec :: u32

record comedi_chaninfo =
  ci_subdev :: u32
  ci_maxdata_list :: u64
  ci_flaglist :: u64
  ci_rangelist :: u64

record comedi_rangeinfo =
  ri_range_type :: u32
  ri_range_ptr :: u64

record comedi_krange =
  kr_min :: u32
  kr_max :: u32
  kr_flags :: u32

record comedi_subdinfo =
  si_type :: u32
  si_n_chan :: u32
  si_subd_flags :: u32
  si_timer_type :: u32
  si_len_chanlist :: u32
  si_maxdata :: u32
  si_flags :: u32
  si_range_type :: u32
  si_settling_time_0 :: u32
  si_insn_bits_support :: u32

record comedi_devinfo =
  di_version_code :: u32
  di_n_subdevs :: u32
  di_driver_name :: string
  di_board_name :: string
  di_read_subdevice :: int
  di_write_subdevice :: int

record comedi_devconfig =
  dc_board_name :: string
  dc_options :: "u32 list"

record comedi_bufconfig =
  bc_subdevice :: u32
  bc_flags :: u32
  bc_maximum_size :: u32
  bc_size :: u32

record comedi_bufinfo =
  bi_subdevice :: u32
  bi_bytes_read :: u32
  bi_buf_write_ptr :: u32
  bi_buf_read_ptr :: u32
  bi_buf_write_count :: u32
  bi_buf_read_count :: u32
  bi_bytes_written :: u32

section \<open>Kernel structures\<close>

datatype comedi_subdevice_type =
    COMEDI_SUBD_UNUSED
  | COMEDI_SUBD_AI
  | COMEDI_SUBD_AO
  | COMEDI_SUBD_DI
  | COMEDI_SUBD_DO
  | COMEDI_SUBD_DIO
  | COMEDI_SUBD_COUNTER
  | COMEDI_SUBD_TIMER
  | COMEDI_SUBD_MEMORY
  | COMEDI_SUBD_CALIB
  | COMEDI_SUBD_PROC
  | COMEDI_SUBD_SERIAL
  | COMEDI_SUBD_PWM

fun subd_type_code :: "comedi_subdevice_type \<Rightarrow> u32" where
  "subd_type_code COMEDI_SUBD_UNUSED = 0"
| "subd_type_code COMEDI_SUBD_AI = 1"
| "subd_type_code COMEDI_SUBD_AO = 2"
| "subd_type_code COMEDI_SUBD_DI = 3"
| "subd_type_code COMEDI_SUBD_DO = 4"
| "subd_type_code COMEDI_SUBD_DIO = 5"
| "subd_type_code COMEDI_SUBD_COUNTER = 6"
| "subd_type_code COMEDI_SUBD_TIMER = 7"
| "subd_type_code COMEDI_SUBD_MEMORY = 8"
| "subd_type_code COMEDI_SUBD_CALIB = 9"
| "subd_type_code COMEDI_SUBD_PROC = 10"
| "subd_type_code COMEDI_SUBD_SERIAL = 11"
| "subd_type_code COMEDI_SUBD_PWM = 12"

record comedi_lrange =
  lr_length :: u32
  lr_range :: "comedi_krange list"

text \<open>
  The pages of a streaming buffer are the numbers of the page frames the allocator handed out;
  \<open>None\<close> is a \<open>NULL\<close> \<open>virt_addr\<close>. The mapped buffer itself is its list of bytes.
\<close>

record comedi_async =
  prealloc_buf :: "u8 list option"
  prealloc_bufsz :: u32
  buf_page_list :: "nat option list option"
  n_buf_pages :: u32
  max_bufsize :: u32
  mmap_count :: u32
  buf_write_count :: u32
  buf_write_alloc_count :: u32
  buf_read_count :: u32
  buf_read_alloc_count :: u32
  buf_write_ptr :: u32
  buf_read_ptr :: u32
  cur_chan :: u32
  scan_progress :: u32
  munge_chan :: u32
  munge_count :: u32
  munge_ptr :: u32
  events :: u32
  cmd :: comedi_cmd
  cb_mask :: u32
  cb_func :: "fnptr option"
  cb_arg :: u64
  inttrig :: "fnptr option"

text \<open>
  The owner stored in \<open>s->busy\<close> and \<open>s->lock\<close>: an open file, the function \<open>parse_insn\<close> itself (the
  address the code stores while a synchronous instruction runs), or a kcomedilib handle.
\<close>

datatype owner = Owner_file nat | Owner_parse_insn | Owner_klib nat

datatype insn_fn = Insn_inval | Insn_rw_emulate_bits | Insn_driver fnptr

datatype poll_fn = Poll_invalid | Poll_driver fnptr

datatype dma_data_direction = DMA_BIDIRECTIONAL | DMA_TO_DEVICE | DMA_FROM_DEVICE | DMA_NONE

record 'p comedi_subdevice =
  sd_type :: comedi_subdevice_type
  sd_n_chan :: u32
  sd_subdev_flags :: u32
  sd_len_chanlist :: u32
  sd_private :: "'p option"
  sd_async :: "comedi_async option"
  sd_lock :: "owner option"
  sd_busy :: "owner option"
  sd_runflags :: u32
  sd_io_bits :: u32
  sd_maxdata :: lsampl_t
  sd_maxdata_list :: "lsampl_t list option"
  sd_flags :: u32
  sd_flaglist :: "u32 list option"
  sd_settling_time_0 :: u32
  sd_range_table :: "comedi_lrange option"
  sd_range_table_list :: "comedi_lrange list option"
  sd_insn_read :: "insn_fn option"
  sd_insn_write :: "insn_fn option"
  sd_insn_bits :: "insn_fn option"
  sd_insn_config :: "insn_fn option"
  sd_do_cmd :: "fnptr option"
  sd_do_cmdtest :: "fnptr option"
  sd_poll :: "poll_fn option"
  sd_cancel :: "fnptr option"
  sd_buf_change :: "fnptr option"
  sd_munge :: "fnptr option"
  sd_async_dma_dir :: dma_data_direction
  sd_state :: u32
  sd_class_dev :: bool
  sd_minor :: int

record comedi_driver =
  drv_id :: nat
  driver_name :: string
  drv_module :: nat
  drv_attach :: fnptr
  drv_detach :: fnptr
  drv_board_names :: "string list"

record ('p, 'h) comedi_device =
  dv_use_count :: int
  dv_driver :: "comedi_driver option"
  dv_private :: "'p option"
  dv_class_dev :: bool
  dv_minor :: int
  dv_hw_dev :: "nat option"
  dv_board_name :: "string option"
  dv_board_ptr :: "nat option"
  dv_attached :: bool
  dv_rt :: bool
  dv_in_request_module :: bool
  dv_n_subdevices :: u32
  dv_subdevices :: "'p comedi_subdevice list"
  dv_iobase :: u64
  dv_irq :: u32
  dv_read_subdev :: "nat option"
  dv_write_subdev :: "nat option"
  dv_open :: "fnptr option"
  dv_close :: "fnptr option"
  dv_hw :: 'h

section \<open>What the function pointers stand for\<close>

text \<open>
  The callbacks of the low-level drivers, by function number: each gets the device, the index of
  the subdevice and the other arguments of its C prototype, and returns its return code with the
  new state (\<^term>\<open>None\<close> if it does not return). A munge callback rewrites a chunk of the buffer,
  given the position in the channel list at which the chunk starts.
\<close>

record ('p, 'h) driver_ops =
  op_insn :: "fnptr \<Rightarrow> ('p, 'h) comedi_device \<Rightarrow> nat \<Rightarrow> comedi_insn \<Rightarrow> lsampl_t list \<Rightarrow>
    (int \<times> ('p, 'h) comedi_device \<times> comedi_insn \<times> lsampl_t list) option"
  op_do_cmd :: "fnptr \<Rightarrow> ('p, 'h) comedi_device \<Rightarrow> nat \<Rightarrow> (int \<times> ('p, 'h) comedi_device) option"
  op_do_cmdtest :: "fnptr \<Rightarrow> ('p, 'h) comedi_device \<Rightarrow> nat \<Rightarrow> comedi_cmd \<Rightarrow>
    (int \<times> ('p, 'h) comedi_device \<times> comedi_cmd) option"
  op_poll :: "fnptr \<Rightarrow> ('p, 'h) comedi_device \<Rightarrow> nat \<Rightarrow> (int \<times> ('p, 'h) comedi_device) option"
  op_cancel :: "fnptr \<Rightarrow> ('p, 'h) comedi_device \<Rightarrow> nat \<Rightarrow> (int \<times> ('p, 'h) comedi_device) option"
  op_buf_change :: "fnptr \<Rightarrow> ('p, 'h) comedi_device \<Rightarrow> nat \<Rightarrow> u64 \<Rightarrow>
    (int \<times> ('p, 'h) comedi_device) option"
  op_munge :: "fnptr \<Rightarrow> ('p, 'h) comedi_device \<Rightarrow> nat \<Rightarrow> u8 list \<Rightarrow> u32 \<Rightarrow> u8 list"
  op_inttrig :: "fnptr \<Rightarrow> ('p, 'h) comedi_device \<Rightarrow> nat \<Rightarrow> u32 \<Rightarrow>
    (int \<times> ('p, 'h) comedi_device) option"
  op_attach :: "fnptr \<Rightarrow> ('p, 'h) comedi_device \<Rightarrow> comedi_devconfig \<Rightarrow>
    (int \<times> ('p, 'h) comedi_device) option"
  op_detach :: "fnptr \<Rightarrow> ('p, 'h) comedi_device \<Rightarrow> (int \<times> ('p, 'h) comedi_device) option"
  op_open :: "fnptr \<Rightarrow> ('p, 'h) comedi_device \<Rightarrow> (int \<times> ('p, 'h) comedi_device) option"
  op_close :: "fnptr \<Rightarrow> ('p, 'h) comedi_device \<Rightarrow> ('p, 'h) comedi_device option"

definition bytes_per_sample :: "'p comedi_subdevice \<Rightarrow> u32" where
  "bytes_per_sample s = (if sd_subdev_flags s AND SDF_LSAMPL \<noteq> 0 then 4 else 2)"

text \<open>Access to a subdevice of a device through \<open>dev->subdevices + i\<close>.\<close>

definition subd :: "('p, 'h) comedi_device \<Rightarrow> nat \<Rightarrow> 'p comedi_subdevice option" where
  "subd dev i = load_nth (dv_subdevices dev) i"

definition set_subd ::
  "nat \<Rightarrow> 'p comedi_subdevice \<Rightarrow> ('p, 'h) comedi_device \<Rightarrow> ('p, 'h) comedi_device" where
  "set_subd i s dev = dev\<lparr>dv_subdevices := (dv_subdevices dev)[i := s]\<rparr>"

lemma subd_eq_Some: "subd dev i = Some s \<longleftrightarrow> i < length (dv_subdevices dev) \<and> s = dv_subdevices dev ! i"
  by (simp add: subd_def load_nth_eq_Some)

lemma subd_set_subd_same [simp]: "subd dev i = Some s0 \<Longrightarrow> subd (set_subd i s dev) i = Some s"
  by (simp add: subd_eq_Some set_subd_def)

lemma subd_set_subd_other [simp]: "i \<noteq> j \<Longrightarrow> subd (set_subd i s dev) j = subd dev j"
  by (simp add: subd_def load_nth_def set_subd_def)

lemma set_subd_set_subd [simp]: "set_subd i s (set_subd i s' dev) = set_subd i s dev"
  by (simp add: set_subd_def)

lemma set_subd_id [simp]: "subd dev i = Some s \<Longrightarrow> set_subd i s dev = dev"
  by (cases dev) (simp add: subd_eq_Some set_subd_def)

lemma set_subd_frame [frame_simps, simp]:
  "dv_use_count (set_subd i s dev) = dv_use_count dev"
  "dv_driver (set_subd i s dev) = dv_driver dev"
  "dv_attached (set_subd i s dev) = dv_attached dev"
  "dv_minor (set_subd i s dev) = dv_minor dev"
  "dv_rt (set_subd i s dev) = dv_rt dev"
  "dv_n_subdevices (set_subd i s dev) = dv_n_subdevices dev"
  "length (dv_subdevices (set_subd i s dev)) = length (dv_subdevices dev)"
  "dv_read_subdev (set_subd i s dev) = dv_read_subdev dev"
  "dv_write_subdev (set_subd i s dev) = dv_write_subdev dev"
  "dv_private (set_subd i s dev) = dv_private dev"
  "dv_hw (set_subd i s dev) = dv_hw dev"
  by (simp_all add: set_subd_def)

end
