(* ===== verification/Async_Buffer.thy ===== *)
theory Async_Buffer
  imports Comedi_Types
begin

text \<open>
  The streaming buffer of a subdevice (\<open>comedi/drivers.c\<close>, \<open>comedi_buf_*\<close>): a byte ring between
  the driver and user space, with wrapping 32-bit byte counters for what each side has allocated
  and completed, and a munge stage between them. The functions reach the subdevice through
  \<open>async->subdevice\<close> only for its munge callback and its sample size; \<open>munge_ctx\<close> holds the two.
\<close>

unbundle bit_operations_syntax

section \<open>Memory of the ring\<close>

record munge_ctx =
  mc_munge :: "(u8 list \<Rightarrow> u32 \<Rightarrow> u8 list) option"
  mc_sample_bytes :: u32

definition load_bytes :: "comedi_async \<Rightarrow> u32 \<Rightarrow> u32 \<Rightarrow> u8 list option" where
  "load_bytes a p n =
     do {
       b \<leftarrow> prealloc_buf a;
       if unat p + unat n \<le> length b then Some (take (unat n) (drop (unat p) b)) else None
     }"

definition store_bytes :: "comedi_async \<Rightarrow> u32 \<Rightarrow> u8 list \<Rightarrow> comedi_async option" where
  "store_bytes a p xs =
     do {
       b \<leftarrow> prealloc_buf a;
       if unat p + length xs \<le> length b
       then Some (a\<lparr>prealloc_buf := Some (overwrite b (unat p) xs)\<rparr>) else None
     }"

definition umod :: "u32 \<Rightarrow> u32 \<Rightarrow> u32 option" where
  "umod x n = (if n = 0 then None else Some (x mod n))"

definition udiv :: "u32 \<Rightarrow> u32 \<Rightarrow> u32 option" where
  "udiv x n = (if n = 0 then None else Some (x div n))"

definition sampl_of_bytes :: "u8 list \<Rightarrow> sampl_t" where
  "sampl_of_bytes bs = (ucast (bs ! 0) OR push_bit 8 (ucast (bs ! 1)))"

definition bytes_of_sampl :: "sampl_t \<Rightarrow> u8 list" where
  "bytes_of_sampl x = [ucast x, ucast (drop_bit 8 x)]"

definition lsampl_of_bytes :: "u8 list \<Rightarrow> lsampl_t" where
  "lsampl_of_bytes bs = (ucast (bs ! 0) OR push_bit 8 (ucast (bs ! 1)) OR
     push_bit 16 (ucast (bs ! 2)) OR push_bit 24 (ucast (bs ! 3)))"

definition bytes_of_lsampl :: "lsampl_t \<Rightarrow> u8 list" where
  "bytes_of_lsampl x = [ucast x, ucast (drop_bit 8 x), ucast (drop_bit 16 x), ucast (drop_bit 24 x)]"

section \<open>Munging\<close>

definition munge_block ::
  "(u8 list \<Rightarrow> u32 \<Rightarrow> u8 list) \<Rightarrow> u32 \<Rightarrow> u32 \<Rightarrow> comedi_async \<Rightarrow> comedi_async option" where
  "munge_block f num_sample_bytes block_size a =
     do {
       xs \<leftarrow> load_bytes a (munge_ptr a) block_size;
       a \<leftarrow> store_bytes a (munge_ptr a) (f xs (munge_chan a));
       k \<leftarrow> udiv block_size num_sample_bytes;
       chan \<leftarrow> umod (munge_chan a + k) (chanlist_len (cmd a));
       ptr \<leftarrow> umod (munge_ptr a + block_size) (prealloc_bufsz a);
       Some (a\<lparr>munge_chan := chan, munge_count := munge_count a + block_size,
               munge_ptr := ptr\<rparr>)
     }"

partial_function (option) munge_loop ::
  "(u8 list \<Rightarrow> u32 \<Rightarrow> u8 list) \<Rightarrow> u32 \<Rightarrow> u32 \<Rightarrow> u32 \<Rightarrow> comedi_async \<Rightarrow>
    (u32 \<times> comedi_async) option" where
  "munge_loop f num_sample_bytes num_bytes count a =
     (if count < num_bytes then
        let block_size = num_bytes - count in
        if block_size <s 0 then Some (count, a)
        else
          let block_size =
            (if 0 <s (munge_ptr a + block_size - prealloc_bufsz a)
             then prealloc_bufsz a - munge_ptr a else block_size)
          in Option.bind (munge_block f num_sample_bytes block_size a)
               (\<lambda>a. munge_loop f num_sample_bytes num_bytes (count + block_size) a)
      else Some (count, a))"

declare munge_loop.simps [code]

definition comedi_buf_munge ::
  "munge_ctx \<Rightarrow> comedi_async \<Rightarrow> u32 \<Rightarrow> (u32 \<times> comedi_async) option" where
  "comedi_buf_munge mc a num_bytes =
     (let num_sample_bytes = mc_sample_bytes mc in
      case mc_munge mc of
        Some f \<Rightarrow>
          if cmd_flags (cmd a) AND CMDF_RAWDATA \<noteq> 0 then
            do {
              a \<leftarrow> Some (a\<lparr>munge_count := munge_count a + num_bytes\<rparr>);
              bug_on (0 <s (munge_count a - buf_write_count a));
              Some (num_bytes, a)
            }
          else
            do {
              r \<leftarrow> umod num_bytes num_sample_bytes;
              (count, a) \<leftarrow> munge_loop f num_sample_bytes (num_bytes - r) 0 a;
              bug_on (0 <s (munge_count a - buf_write_count a));
              Some (count, a)
            }
      | None \<Rightarrow>
          do {
            a \<leftarrow> Some (a\<lparr>munge_count := munge_count a + num_bytes\<rparr>);
            bug_on (0 <s (munge_count a - buf_write_count a));
            Some (num_bytes, a)
          })"

section \<open>The writer\<close>

definition comedi_buf_write_n_available :: "munge_ctx \<Rightarrow> comedi_async option \<Rightarrow> u32 option" where
  "comedi_buf_write_n_available mc async =
     (case async of
        None \<Rightarrow> Some 0
      | Some a \<Rightarrow>
          let free_end = buf_read_count a + prealloc_bufsz a;
              nbytes = free_end - buf_write_alloc_count a
          in do { r \<leftarrow> umod nbytes (mc_sample_bytes mc); Some (nbytes - r) })"

definition comedi_buf_write_alloc :: "comedi_async \<Rightarrow> u32 \<Rightarrow> u32 \<times> comedi_async" where
  "comedi_buf_write_alloc a nbytes =
     (let free_end = buf_read_count a + prealloc_bufsz a;
          nbytes = (if 0 <s (buf_write_alloc_count a + nbytes - free_end)
                    then free_end - buf_write_alloc_count a else nbytes)
      in (nbytes, a\<lparr>buf_write_alloc_count := buf_write_alloc_count a + nbytes\<rparr>))"

definition comedi_buf_write_alloc_strict :: "comedi_async \<Rightarrow> u32 \<Rightarrow> u32 \<times> comedi_async" where
  "comedi_buf_write_alloc_strict a nbytes =
     (let free_end = buf_read_count a + prealloc_bufsz a;
          nbytes = (if 0 <s (buf_write_alloc_count a + nbytes - free_end) then 0 else nbytes)
      in (nbytes, a\<lparr>buf_write_alloc_count := buf_write_alloc_count a + nbytes\<rparr>))"

definition comedi_buf_write_n_allocated :: "comedi_async \<Rightarrow> u32" where
  "comedi_buf_write_n_allocated a = buf_write_alloc_count a - buf_write_count a"

definition comedi_buf_write_free ::
  "munge_ctx \<Rightarrow> comedi_async \<Rightarrow> u32 \<Rightarrow> (u32 \<times> comedi_async) option" where
  "comedi_buf_write_free mc a nbytes =
     (let nbytes = (if 0 <s (buf_write_count a + nbytes - buf_write_alloc_count a)
                    then buf_write_alloc_count a - buf_write_count a else nbytes)
      in do {
           a \<leftarrow> Some (a\<lparr>buf_write_count := buf_write_count a + nbytes,
                        buf_write_ptr := buf_write_ptr a + nbytes\<rparr>);
           (_, a) \<leftarrow> comedi_buf_munge mc a (buf_write_count a - munge_count a);
           if prealloc_bufsz a \<le> buf_write_ptr a then
             do {
               ptr \<leftarrow> umod (buf_write_ptr a) (prealloc_bufsz a);
               Some (nbytes, a\<lparr>buf_write_ptr := ptr\<rparr>)
             }
           else Some (nbytes, a)
         })"

section \<open>The reader\<close>

definition comedi_buf_read_alloc :: "comedi_async \<Rightarrow> u32 \<Rightarrow> u32 \<times> comedi_async" where
  "comedi_buf_read_alloc a nbytes =
     (let nbytes = (if 0 <s (buf_read_alloc_count a + nbytes - munge_count a)
                    then munge_count a - buf_read_alloc_count a else nbytes)
      in (nbytes, a\<lparr>buf_read_alloc_count := buf_read_alloc_count a + nbytes\<rparr>))"

definition comedi_buf_read_n_allocated :: "comedi_async \<Rightarrow> u32" where
  "comedi_buf_read_n_allocated a = buf_read_alloc_count a - buf_read_count a"

definition comedi_buf_read_free :: "comedi_async \<Rightarrow> u32 \<Rightarrow> (u32 \<times> comedi_async) option" where
  "comedi_buf_read_free a nbytes =
     (let nbytes = (if 0 <s (buf_read_count a + nbytes - buf_read_alloc_count a)
                    then buf_read_alloc_count a - buf_read_count a else nbytes)
      in do {
           ptr \<leftarrow> umod (buf_read_ptr a + nbytes) (prealloc_bufsz a);
           Some (nbytes, a\<lparr>buf_read_count := buf_read_count a + nbytes, buf_read_ptr := ptr\<rparr>)
         })"

definition comedi_buf_read_n_available :: "comedi_async option \<Rightarrow> u32" where
  "comedi_buf_read_n_available async =
     (case async of None \<Rightarrow> 0 | Some a \<Rightarrow> munge_count a - buf_read_count a)"

section \<open>Copying\<close>

partial_function (option) memcpy_to_loop ::
  "u32 \<Rightarrow> u8 list \<Rightarrow> u32 \<Rightarrow> comedi_async \<Rightarrow> comedi_async option" where
  "memcpy_to_loop write_ptr data num_bytes a =
     (if num_bytes = 0 then Some a
      else
        let block_size =
          (if prealloc_bufsz a < write_ptr + num_bytes then prealloc_bufsz a - write_ptr
           else num_bytes)
        in if length data < unat block_size then None
           else Option.bind (store_bytes a write_ptr (take (unat block_size) data))
                  (\<lambda>a. memcpy_to_loop 0 (drop (unat block_size) data) (num_bytes - block_size) a))"

declare memcpy_to_loop.simps [code]

definition comedi_buf_memcpy_to ::
  "comedi_async \<Rightarrow> u32 \<Rightarrow> u8 list \<Rightarrow> u32 \<Rightarrow> comedi_async option" where
  "comedi_buf_memcpy_to a offset data num_bytes =
     (let write_ptr = buf_write_ptr a + offset in
      do {
        write_ptr \<leftarrow> (if prealloc_bufsz a \<le> write_ptr then umod write_ptr (prealloc_bufsz a)
                      else Some write_ptr);
        memcpy_to_loop write_ptr data num_bytes a
      })"

partial_function (option) memcpy_from_loop ::
  "u32 \<Rightarrow> u8 list \<Rightarrow> u32 \<Rightarrow> comedi_async \<Rightarrow> u8 list option" where
  "memcpy_from_loop read_ptr dest nbytes a =
     (if nbytes = 0 then Some dest
      else
        let block_size =
          (if prealloc_bufsz a - read_ptr \<le> nbytes then prealloc_bufsz a - read_ptr else nbytes)
        in Option.bind (load_bytes a read_ptr block_size)
             (\<lambda>xs. memcpy_from_loop 0 (dest @ xs) (nbytes - block_size) a))"

declare memcpy_from_loop.simps [code]

definition comedi_buf_memcpy_from :: "comedi_async \<Rightarrow> u32 \<Rightarrow> u32 \<Rightarrow> u8 list option" where
  "comedi_buf_memcpy_from a offset nbytes =
     (let read_ptr = buf_read_ptr a + offset in
      do {
        read_ptr \<leftarrow> (if prealloc_bufsz a \<le> read_ptr then umod read_ptr (prealloc_bufsz a)
                     else Some read_ptr);
        memcpy_from_loop read_ptr [] nbytes a
      })"

section \<open>Single samples, reset\<close>

definition comedi_buf_get :: "comedi_async \<Rightarrow> (int \<times> sampl_t option \<times> comedi_async) option" where
  "comedi_buf_get a =
     (let n = comedi_buf_read_n_available (Some a) in
      if n < 2 then Some (0, None, a)
      else
        do {
          (_, a) \<leftarrow> Some (comedi_buf_read_alloc a 2);
          bs \<leftarrow> load_bytes a (buf_read_ptr a) 2;
          (_, a) \<leftarrow> comedi_buf_read_free a 2;
          Some (1, Some (sampl_of_bytes bs), a)
        })"

definition comedi_buf_put ::
  "munge_ctx \<Rightarrow> comedi_async \<Rightarrow> sampl_t \<Rightarrow> (int \<times> comedi_async) option" where
  "comedi_buf_put mc a x =
     (case comedi_buf_write_alloc_strict a 2 of (n, a) \<Rightarrow>
      if n < 2 then Some (0, a\<lparr>events := events a OR COMEDI_CB_ERROR\<rparr>)
      else
        do {
          a \<leftarrow> store_bytes a (buf_write_ptr a) (bytes_of_sampl x);
          (_, a) \<leftarrow> comedi_buf_write_free mc a 2;
          Some (1, a)
        })"

definition comedi_reset_async_buf :: "comedi_async \<Rightarrow> comedi_async" where
  "comedi_reset_async_buf a =
     a\<lparr>buf_write_alloc_count := 0, buf_write_count := 0, buf_read_alloc_count := 0,
       buf_read_count := 0, buf_write_ptr := 0, buf_read_ptr := 0, cur_chan := 0,
       scan_progress := 0, munge_chan := 0, munge_count := 0, munge_ptr := 0, events := 0\<rparr>"

end
