(* ===== verification/Ring_Invariant.thy ===== *)
theory Ring_Invariant
  imports Async_Buffer
begin

text \<open>
  The invariant of the streaming buffer and what each \<open>comedi_buf_*\<close> operation does under it.
  Counters are compared relative to \<open>buf_read_count\<close> (\<open>rd\<close>), where they are ordered
  \<open>read \<le> read_alloc \<le> munge \<le> write \<le> write_alloc \<le> read + bufsz\<close> although the 32-bit words
  themselves wrap. The locale \<open>munge_contract\<close> is what the core needs of a driver's munge callback.
\<close>

unbundle bit_operations_syntax

section \<open>The invariant\<close>

definition rd :: "comedi_async \<Rightarrow> u32 \<Rightarrow> nat" where
  "rd a x = unat (x - buf_read_count a)"

definition buf_ok :: "comedi_async \<Rightarrow> bool" where
  "buf_ok a \<longleftrightarrow>
     prealloc_buf a \<noteq> None \<and> length (the (prealloc_buf a)) = unat (prealloc_bufsz a) \<and>
     0 < unat (prealloc_bufsz a) \<and> unat (prealloc_bufsz a) < 2147483648"

definition counters_ok :: "comedi_async \<Rightarrow> bool" where
  "counters_ok a \<longleftrightarrow>
     rd a (buf_read_alloc_count a) \<le> rd a (munge_count a) \<and>
     rd a (munge_count a) \<le> rd a (buf_write_count a) \<and>
     rd a (buf_write_count a) \<le> rd a (buf_write_alloc_count a) \<and>
     rd a (buf_write_alloc_count a) \<le> unat (prealloc_bufsz a)"

definition positions_ok :: "comedi_async \<Rightarrow> bool" where
  "positions_ok a \<longleftrightarrow>
     unat (buf_read_ptr a) < unat (prealloc_bufsz a) \<and>
     unat (buf_write_ptr a) =
       (unat (buf_read_ptr a) + rd a (buf_write_count a)) mod unat (prealloc_bufsz a)"

definition ring_ok :: "comedi_async \<Rightarrow> bool" where
  "ring_ok a \<longleftrightarrow> buf_ok a \<and> counters_ok a \<and> positions_ok a"

lemma ring_okE:
  assumes "ring_ok a"
  obtains b where "prealloc_buf a = Some b" and "length b = unat (prealloc_bufsz a)"
    and "0 < unat (prealloc_bufsz a)" and "unat (prealloc_bufsz a) < 2147483648"
    and "rd a (buf_read_alloc_count a) \<le> rd a (munge_count a)"
    and "rd a (munge_count a) \<le> rd a (buf_write_count a)"
    and "rd a (buf_write_count a) \<le> rd a (buf_write_alloc_count a)"
    and "rd a (buf_write_alloc_count a) \<le> unat (prealloc_bufsz a)"
    and "unat (buf_read_ptr a) < unat (prealloc_bufsz a)"
    and "unat (buf_write_ptr a) =
       (unat (buf_read_ptr a) + rd a (buf_write_count a)) mod unat (prealloc_bufsz a)"
  using assms
  by (auto simp: ring_ok_def buf_ok_def counters_ok_def positions_ok_def split: option.splits)

lemma rd_frame [simp, frame_simps]:
  "rd (prealloc_buf_update g_prealloc_buf a) = rd a"
  "rd (prealloc_bufsz_update g_prealloc_bufsz a) = rd a"
  "rd (buf_page_list_update g_buf_page_list a) = rd a"
  "rd (n_buf_pages_update g_n_buf_pages a) = rd a"
  "rd (max_bufsize_update g_max_bufsize a) = rd a"
  "rd (mmap_count_update g_mmap_count a) = rd a"
  "rd (buf_write_count_update g_buf_write_count a) = rd a"
  "rd (buf_write_alloc_count_update g_buf_write_alloc_count a) = rd a"
  "rd (buf_read_alloc_count_update g_buf_read_alloc_count a) = rd a"
  "rd (buf_write_ptr_update g_buf_write_ptr a) = rd a"
  "rd (buf_read_ptr_update g_buf_read_ptr a) = rd a"
  "rd (cur_chan_update g_cur_chan a) = rd a"
  "rd (scan_progress_update g_scan_progress a) = rd a"
  "rd (munge_chan_update g_munge_chan a) = rd a"
  "rd (munge_count_update g_munge_count a) = rd a"
  "rd (munge_ptr_update g_munge_ptr a) = rd a"
  "rd (events_update g_events a) = rd a"
  "rd (cmd_update g_cmd a) = rd a"
  "rd (cb_mask_update g_cb_mask a) = rd a"
  "rd (cb_func_update g_cb_func a) = rd a"
  "rd (cb_arg_update g_cb_arg a) = rd a"
  "rd (inttrig_update g_inttrig a) = rd a"
  by (simp_all add: rd_def fun_eq_iff)

lemma rd_add:
  assumes "rd a x + unat n < 4294967296"
  shows "rd a (x + n) = rd a x + unat n"
proof -
  have eq: "x + n - buf_read_count a = (x - buf_read_count a) + n" by (simp add: algebra_simps)
  show ?thesis using assms unfolding rd_def by (subst eq) (rule unat_add_u32)
qed

lemma rd_diff: "rd a y \<le> rd a x \<Longrightarrow> unat (x - y) = rd a x - rd a y"
proof -
  assume le: "rd a y \<le> rd a x"
  have eq: "x - y = (x - buf_read_count a) - (y - buf_read_count a)" by (simp add: algebra_simps)
  show ?thesis using le unfolding rd_def by (subst eq) (rule unat_sub_u32)
qed

lemma rd_exceeds:
  assumes "rd a x \<le> rd a c" and "rd a c < 2147483648" and "unat n < 2147483648"
  shows "0 <s (x + n - c) \<longleftrightarrow> rd a c < rd a x + unat n"
proof -
  have eq: "x + n - c = (x - buf_read_count a) + n - (c - buf_read_count a)" by (simp add: algebra_simps)
  show ?thesis using assms unfolding rd_def by (subst eq) (rule counter_exceeds)
qed

lemma rd_free_end: "rd a (buf_read_count a + prealloc_bufsz a) = unat (prealloc_bufsz a)"
  by (simp add: rd_def)

lemma write_alloc_spec:
  assumes "ring_ok a" and "unat n < 2147483648"
  obtains k where "comedi_buf_write_alloc a n = (k, a\<lparr>buf_write_alloc_count := buf_write_alloc_count a + k\<rparr>)"
    and "unat k = min (unat n) (unat (prealloc_bufsz a) - rd a (buf_write_alloc_count a))"
proof -
  let ?fe = "buf_read_count a + prealloc_bufsz a"
  obtain b where *: "unat (prealloc_bufsz a) < 2147483648"
    "rd a (buf_write_alloc_count a) \<le> unat (prealloc_bufsz a)"
    using assms(1) by (elim ring_okE) blast
  have test: "0 <s (buf_write_alloc_count a + n - ?fe) \<longleftrightarrow>
      unat (prealloc_bufsz a) < rd a (buf_write_alloc_count a) + unat n"
    using * assms(2) by (subst rd_exceeds[of a]) (simp_all add: rd_free_end)
  have "unat (?fe - buf_write_alloc_count a) = unat (prealloc_bufsz a) - rd a (buf_write_alloc_count a)"
    using * by (subst rd_diff[of a]) (simp_all add: rd_free_end)
  then show ?thesis
    using test * by (intro that) (auto simp: comedi_buf_write_alloc_def Let_def)
qed

lemma mem_pos_mod: "p < N \<Longrightarrow> (p + k) mod N = (if p + k < N then p + k else p + k - N)" if "k \<le> N" for p k N :: nat
  using that by (auto simp: mod_if)

lemma load_bytes_ring:
  assumes "prealloc_buf a = Some b" and "unat p + unat n \<le> length b"
  shows "load_bytes a p n = Some (ring_get b (unat p) (unat n))"
  using assms by (simp add: load_bytes_def ring_get_linear)

lemma store_bytes_ring:
  assumes "prealloc_buf a = Some b" and "unat p + length xs \<le> length b"
  shows "store_bytes a p xs = Some (a\<lparr>prealloc_buf := Some (ring_put b (unat p) xs)\<rparr>)"
  using assms by (simp add: store_bytes_def overwrite_ring_put)

lemma unat_of_nat_mod_u32: "0 < m \<Longrightarrow> m < 4294967296 \<Longrightarrow> unat (of_nat (k mod m) :: u32) = k mod m"
proof -
  assume "0 < m" "m < 4294967296"
  then have "k mod m < 4294967296" by (rule order_less_trans[OF mod_less_divisor])
  then show ?thesis by (simp add: unat_of_nat)
qed

text \<open>What a munge callback promises.\<close>

locale munge_contract =
  fixes f :: "u8 list \<Rightarrow> u32 \<Rightarrow> u8 list" and sz L :: u32
  assumes munge_length: "length (f xs c) = length xs"
    and munge_split: "length xs = k * unat sz \<Longrightarrow> unat c < unat L \<Longrightarrow>
      f (xs @ ys) c = f xs c @ f ys (of_nat ((unat c + k) mod unat L))"
    and sz_pos: "0 < unat sz"
    and L_bound: "0 < unat L" "unat L < 2147483648"
begin

lemma munge_block_spec:
  assumes buf: "prealloc_buf a = Some b" "length b = unat (prealloc_bufsz a)"
    and N: "unat (prealloc_bufsz a) < 2147483648"
    and L: "chanlist_len (cmd a) = L" and c: "unat (munge_chan a) < unat L"
    and fits: "unat (munge_ptr a) + unat n \<le> unat (prealloc_bufsz a)" and n: "0 < unat n"
  shows "munge_block f sz n a = Some (a\<lparr>
      prealloc_buf := Some (ring_put b (unat (munge_ptr a)) (f (ring_get b (unat (munge_ptr a)) (unat n)) (munge_chan a))),
      munge_chan := of_nat ((unat (munge_chan a) + unat n div unat sz) mod unat L),
      munge_count := munge_count a + n,
      munge_ptr := of_nat ((unat (munge_ptr a) + unat n) mod unat (prealloc_bufsz a))\<rparr>)"
proof -
  have "unat n div unat sz \<le> unat n" by (rule div_le_dividend)
  then have lt: "unat (munge_chan a) + unat n div unat sz < 4294967296"
    using c L_bound(2) N fits by linarith
  have "unat (munge_chan a + n div sz) = unat (munge_chan a) + unat n div unat sz"
    using lt by (subst unat_add_u32) (simp_all add: unat_div_distrib)
  moreover have "(unat (munge_chan a) + unat n div unat sz) mod unat L < 4294967296"
    using L_bound by (intro order_less_trans[OF mod_less_divisor]) simp_all
  ultimately have chan: "(munge_chan a + n div sz) mod L =
      of_nat ((unat (munge_chan a) + unat n div unat sz) mod unat L)"
    by (intro word_unat_eq_iff[THEN iffD2]) (simp add: unat_mod_distrib unat_of_nat)
  have "(unat (munge_ptr a) + unat n) mod unat (prealloc_bufsz a) < 4294967296"
    using N fits n by (intro order_less_trans[OF mod_less_divisor]) simp_all
  then have ptr: "(munge_ptr a + n) mod prealloc_bufsz a =
      of_nat ((unat (munge_ptr a) + unat n) mod unat (prealloc_bufsz a))"
    using fits N by (intro word_unat_eq_iff[THEN iffD2])
      (simp add: unat_mod_distrib unat_add_u32 unat_of_nat)
  have nz: "sz \<noteq> 0" "L \<noteq> 0" "prealloc_bufsz a \<noteq> 0"
    using sz_pos L_bound fits n by auto
  show ?thesis
    using buf fits nz L chan ptr
    by (simp add: munge_block_def load_bytes_ring store_bytes_ring munge_length udiv_def umod_def)
qed


lemma munge_loop_done: "munge_loop f sz n n a = Some (n, a)"
  by (simp add: munge_loop.simps)

lemma munge_loop_step:
  assumes "unat count < unat n" and "unat n \<le> unat (prealloc_bufsz a)"
    and N: "unat (prealloc_bufsz a) < 2147483648"
    and ptr: "unat (munge_ptr a) < unat (prealloc_bufsz a)"
  obtains bs where "unat bs = min (unat n - unat count) (unat (prealloc_bufsz a) - unat (munge_ptr a))"
    and "munge_loop f sz n count a = Option.bind (munge_block f sz bs a) (munge_loop f sz n (count + bs))"
proof -
  let ?r = "n - count"
  have r: "unat ?r = unat n - unat count" using assms(1) by (intro unat_sub_u32) simp
  have lt: "count < n" using assms(1) by (simp add: word_less_nat_alt)
  have pos: "\<not> ?r <s 0" using r assms(2) N by (simp add: word_sless_alt sint_u32)
  have test: "0 <s (munge_ptr a + ?r - prealloc_bufsz a) \<longleftrightarrow>
      unat (prealloc_bufsz a) < unat (munge_ptr a) + unat ?r"
    using ptr N r assms(2) by (intro counter_exceeds) simp_all
  have d: "unat (prealloc_bufsz a - munge_ptr a) = unat (prealloc_bufsz a) - unat (munge_ptr a)"
    using ptr by (intro unat_sub_u32) simp
  show thesis
  proof (cases "unat (prealloc_bufsz a) < unat (munge_ptr a) + unat ?r")
    case True
    show thesis
      by (rule that[of "prealloc_bufsz a - munge_ptr a"])
        (use True d r in simp, subst munge_loop.simps, simp add: lt pos test True Let_def)
  next
    case False
    show thesis
      by (rule that[of ?r])
        (use False d r in simp, subst munge_loop.simps, simp add: lt pos test False Let_def)
  qed
qed

text \<open>The state after munging \<open>k\<close> bytes.\<close>

lemma munge_loop_spec:
  assumes buf: "prealloc_buf a = Some b" "length b = unat (prealloc_bufsz a)"
    and N: "unat (prealloc_bufsz a) < 2147483648"
    and L: "chanlist_len (cmd a) = L" and c: "unat (munge_chan a) < unat L"
    and ptr: "unat (munge_ptr a) < unat (prealloc_bufsz a)"
    and le: "unat n \<le> unat (prealloc_bufsz a)"
    and dvd: "unat sz dvd unat n" "unat sz dvd unat (prealloc_bufsz a)" "unat sz dvd unat (munge_ptr a)"
  shows "munge_loop f sz n 0 a = Some (n, a\<lparr>
      prealloc_buf := Some (ring_put b (unat (munge_ptr a)) (f (ring_get b (unat (munge_ptr a)) (unat n)) (munge_chan a))),
      munge_chan := of_nat ((unat (munge_chan a) + unat n div unat sz) mod unat L),
      munge_count := munge_count a + n,
      munge_ptr := of_nat ((unat (munge_ptr a) + unat n) mod unat (prealloc_bufsz a))\<rparr>)"
proof (cases "unat n = 0")
  case True
  then have "n = 0" by (simp add: word_unat_eq_iff)
  moreover have "f [] (munge_chan a) = []" using munge_length[of "[]"] by simp
  ultimately show ?thesis
    using munge_loop_done[of 0 a] c ptr buf by simp
next
  case False
  let ?N = "unat (prealloc_bufsz a)" and ?p = "unat (munge_ptr a)"
  obtain bs where bs: "unat bs = min (unat n) (?N - ?p)"
    and step: "munge_loop f sz n 0 a = Option.bind (munge_block f sz bs a) (munge_loop f sz n (0 + bs))"
    using munge_loop_step[of 0 n a] False le N ptr by auto
  have bs0: "0 < unat bs" and bsfit: "?p + unat bs \<le> ?N" using bs False ptr by auto
  note block = munge_block_spec[OF buf N L c bsfit bs0]
  show ?thesis
  proof (cases "unat n \<le> ?N - ?p")
    case True
    then have "bs = n" using bs by (simp add: word_unat_eq_iff)
    then show ?thesis using step block by (simp add: munge_loop_done)
  next
    case over: False
    then have bsN: "unat bs = ?N - ?p" using bs by simp
    define y where "y = f (ring_get b ?p (unat bs)) (munge_chan a)"
    define a1 where "a1 = a\<lparr>prealloc_buf := Some (ring_put b ?p y),
      munge_chan := of_nat ((unat (munge_chan a) + unat bs div unat sz) mod unat L),
      munge_count := munge_count a + bs, munge_ptr := 0\<rparr>"
    have leny: "length y = unat bs" by (simp add: y_def munge_length)
    have b1: "munge_block f sz bs a = Some a1"
      using block bsN ptr by (simp add: a1_def y_def)
    have r: "unat (n - bs) = unat n - unat bs" using bs by (intro unat_sub_u32) simp
    have bs': "unat bs < unat n" using over bsN by simp
    obtain cs where cs: "unat cs = min (unat n - unat bs) (?N - 0)"
      and step2: "munge_loop f sz n bs a1 = Option.bind (munge_block f sz cs a1) (munge_loop f sz n (bs + cs))"
      using munge_loop_step[of bs n a1] bs' le N ptr by (auto simp: a1_def)
    have csn: "unat cs = unat n - unat bs" using cs le by simp
    have cs_eq: "bs + cs = n"
    proof -
      have "unat cs = unat (n - bs)" using csn r by simp
      then have "cs = n - bs" by (simp only: word_unat_eq_iff)
      then show ?thesis by simp
    qed
    have sb: "unat sz dvd unat bs" using dvd(2,3) bsN by (simp add: dvd_diff_nat)
    have m: "munge_chan a1 = of_nat ((unat (munge_chan a) + unat bs div unat sz) mod unat L)"
      by (simp add: a1_def)
    have chan1: "unat (munge_chan a1) = (unat (munge_chan a) + unat bs div unat sz) mod unat L"
      unfolding m using L_bound by (intro unat_of_nat_mod_u32) linarith+
    have c1: "unat (munge_chan a1) < unat L" using chan1 L_bound by simp
    define z where "z = f (ring_get b 0 (unat cs)) (munge_chan a1)"
    have g: "ring_get (ring_put b ?p y) 0 (unat cs) = ring_get b 0 (unat cs)"
      using ring_get_put_after[of y "unat cs" b ?p] leny csn bsN le ptr buf(2)
        ring_get_mod[of b "?N" "unat cs"] ring_get_mod[of "ring_put b ?p y" "?N" "unat cs"]
      by simp
    have block2: "munge_block f sz cs a1 = Some (a1\<lparr>
      prealloc_buf := Some (ring_put (ring_put b ?p y) 0 z),
      munge_chan := of_nat ((unat (munge_chan a1) + unat cs div unat sz) mod unat L),
      munge_count := munge_count a1 + cs,
      munge_ptr := of_nat ((0 + unat cs) mod ?N)\<rparr>)"
      using munge_block_spec[of a1 "ring_put b ?p y" cs] buf N L c1 csn le bs' g
      by (simp add: a1_def z_def)
    have len_get: "length (ring_get b ?p (unat bs)) = (unat bs div unat sz) * unat sz"
      using sb by simp
    have wrap: "(?p + unat bs) mod ?N = 0" using bsN ptr by simp
    have yz: "f (ring_get b ?p (unat n)) (munge_chan a) = y @ z"
    proof -
      have "ring_get b ?p (unat n) = ring_get b ?p (unat bs) @ ring_get b 0 (unat cs)"
        using ring_get_add[of b ?p "unat bs" "unat cs"] csn bs' ring_get_mod[of b "?p + unat bs" "unat cs"]
          wrap buf(2) by simp
      then show ?thesis
        using munge_split[OF len_get c] m by (simp add: y_def z_def)
    qed
    have put: "ring_put (ring_put b ?p y) 0 z = ring_put b ?p (y @ z)"
      using ring_put_mod[of "ring_put b ?p y" "?p + unat bs" z] wrap buf(2) leny
      by (simp add: ring_put_append)
    have div_add: "unat bs div unat sz + unat cs div unat sz = unat n div unat sz"
      using csn bs' by (subst div_plus_div_distrib_dvd_left[OF sb, symmetric]) simp
    have chan2: "(unat (munge_chan a1) + unat cs div unat sz) mod unat L
        = (unat (munge_chan a) + unat n div unat sz) mod unat L"
      unfolding chan1 by (simp add: mod_add_left_eq add.assoc div_add)
    have ptr2: "unat cs mod ?N = (?p + unat n) mod ?N"
    proof -
      have "?p + unat n = ?N + unat cs" using csn bsN bs' ptr by simp
      then show ?thesis by simp
    qed
    show ?thesis
      using step b1 step2 block2
      by (simp add: cs_eq munge_loop_done yz put chan2 ptr2)
        (simp add: a1_def add.assoc cs_eq)
  qed
qed
end
end
