(* ===== verification/Ring_Operations.thy ===== *)
theory Ring_Operations
  imports Ring_Invariant
begin

text \<open>
  What each operation of the streaming buffer returns and does to a buffer that satisfies the
  invariant, for requests below \<open>2 ^ 31\<close> bytes: the amount granted is exactly the minimum of the
  request and what is there, and \<open>ring_ok\<close> is kept. \<open>stream_ok\<close> adds where the munge pointer and the
  munge channel stand when a driver's munge callback is in use.
\<close>

unbundle bit_operations_syntax

section \<open>The invariant with munging\<close>

definition munging :: "munge_ctx \<Rightarrow> comedi_async \<Rightarrow> bool" where
  "munging mc a \<longleftrightarrow> mc_munge mc \<noteq> None \<and> cmd_flags (cmd a) AND CMDF_RAWDATA = 0"

definition munge_pos_ok :: "u32 \<Rightarrow> comedi_async \<Rightarrow> bool" where
  "munge_pos_ok sz a \<longleftrightarrow>
     0 < unat sz \<and> unat sz dvd unat (prealloc_bufsz a) \<and> unat sz dvd unat (munge_ptr a) \<and>
     unat (munge_ptr a) = (unat (buf_read_ptr a) + rd a (munge_count a)) mod unat (prealloc_bufsz a) \<and>
     unat (munge_chan a) < unat (chanlist_len (cmd a)) \<and> unat (chanlist_len (cmd a)) < 2147483648"

definition stream_ok :: "munge_ctx \<Rightarrow> comedi_async \<Rightarrow> bool" where
  "stream_ok mc a \<longleftrightarrow> ring_ok a \<and> (munging mc a \<longrightarrow> munge_pos_ok (mc_sample_bytes mc) a)"

lemma munge_pos_frame [simp]:
  "munge_pos_ok sz (a\<lparr>buf_write_count := x, buf_write_ptr := p\<rparr>) = munge_pos_ok sz a"
  "munge_pos_ok sz (a\<lparr>buf_write_alloc_count := x\<rparr>) = munge_pos_ok sz a"
  "munge_pos_ok sz (a\<lparr>buf_read_alloc_count := x\<rparr>) = munge_pos_ok sz a"
  by (simp_all add: munge_pos_ok_def rd_def)

section \<open>The reader's operations\<close>

lemma rd_self [simp]: "rd a (buf_read_count a) = 0"
  by (simp add: rd_def)

lemma read_alloc_spec:
  assumes "ring_ok a" and "unat n < 2147483648"
  obtains k where "comedi_buf_read_alloc a n = (k, a\<lparr>buf_read_alloc_count := buf_read_alloc_count a + k\<rparr>)"
    and "unat k = min (unat n) (rd a (munge_count a) - rd a (buf_read_alloc_count a))"
proof -
  obtain b where *: "unat (prealloc_bufsz a) < 2147483648"
    "rd a (buf_read_alloc_count a) \<le> rd a (munge_count a)"
    "rd a (munge_count a) \<le> unat (prealloc_bufsz a)"
    using assms(1) by (elim ring_okE) (meson order_trans)
  have test: "0 <s (buf_read_alloc_count a + n - munge_count a) \<longleftrightarrow>
      rd a (munge_count a) < rd a (buf_read_alloc_count a) + unat n"
    using * assms(2) by (intro rd_exceeds) simp_all
  have "unat (munge_count a - buf_read_alloc_count a) = rd a (munge_count a) - rd a (buf_read_alloc_count a)"
    using * by (intro rd_diff) simp
  then show ?thesis
    using test * by (intro that) (auto simp: comedi_buf_read_alloc_def Let_def)
qed

lemma read_free_spec:
  assumes "ring_ok a" and "unat n < 2147483648"
  obtains k where "comedi_buf_read_free a n =
      Some (k, a\<lparr>buf_read_count := buf_read_count a + k,
        buf_read_ptr := of_nat ((unat (buf_read_ptr a) + unat k) mod unat (prealloc_bufsz a))\<rparr>)"
    and "unat k = min (unat n) (rd a (buf_read_alloc_count a))"
proof -
  obtain b where *: "0 < unat (prealloc_bufsz a)" "unat (prealloc_bufsz a) < 2147483648"
    "rd a (buf_read_alloc_count a) \<le> unat (prealloc_bufsz a)"
    "unat (buf_read_ptr a) < unat (prealloc_bufsz a)"
    using assms(1) by (elim ring_okE) (meson order_trans)
  let ?k = "if 0 <s (buf_read_count a + n - buf_read_alloc_count a)
            then buf_read_alloc_count a - buf_read_count a else n"
  have test: "0 <s (buf_read_count a + n - buf_read_alloc_count a) \<longleftrightarrow>
      rd a (buf_read_alloc_count a) < unat n"
    using * assms(2) rd_exceeds[of a "buf_read_count a" "buf_read_alloc_count a" n] by simp
  have "unat (buf_read_alloc_count a - buf_read_count a) = rd a (buf_read_alloc_count a)"
    by (simp add: rd_def)
  then have k: "unat ?k = min (unat n) (rd a (buf_read_alloc_count a))"
    using test by simp
  have "(unat (buf_read_ptr a) + unat ?k) mod unat (prealloc_bufsz a) < 4294967296"
    using * by (intro order_less_trans[OF mod_less_divisor]) simp_all
  moreover have "unat (buf_read_ptr a) + unat ?k < 4294967296" using * k by linarith
  ultimately have p: "(buf_read_ptr a + ?k) mod prealloc_bufsz a =
      of_nat ((unat (buf_read_ptr a) + unat ?k) mod unat (prealloc_bufsz a))"
    by (intro word_unat_eq_iff[THEN iffD2]) (simp add: unat_mod_distrib unat_add_u32 unat_of_nat)
  have "prealloc_bufsz a \<noteq> 0" using * by auto
  then show ?thesis
    using p k by (intro that[of ?k]) (simp_all add: comedi_buf_read_free_def umod_def Let_def)
qed

text \<open>Moving the reader's own counter by \<open>k\<close> shifts every relative counter down by \<open>k\<close>.\<close>

lemma rd_shift:
  "unat k \<le> rd a x \<Longrightarrow>
    unat (x - (buf_read_count a + k)) = rd a x - unat k"
proof -
  assume le: "unat k \<le> rd a x"
  have eq: "x - (buf_read_count a + k) = (x - buf_read_count a) - k" by (simp add: algebra_simps)
  show ?thesis using le unfolding rd_def by (subst eq) (rule unat_sub_u32)
qed

lemma ring_ok_read_alloc:
  assumes "ring_ok a" and "unat k \<le> rd a (munge_count a) - rd a (buf_read_alloc_count a)"
  shows "ring_ok (a\<lparr>buf_read_alloc_count := buf_read_alloc_count a + k\<rparr>)"
  using assms(1)
proof (rule ring_okE)
  fix b assume *: "prealloc_buf a = Some b" "length b = unat (prealloc_bufsz a)"
    "0 < unat (prealloc_bufsz a)" "unat (prealloc_bufsz a) < 2147483648"
    "rd a (buf_read_alloc_count a) \<le> rd a (munge_count a)"
    "rd a (munge_count a) \<le> rd a (buf_write_count a)"
    "rd a (buf_write_count a) \<le> rd a (buf_write_alloc_count a)"
    "rd a (buf_write_alloc_count a) \<le> unat (prealloc_bufsz a)"
    "unat (buf_read_ptr a) < unat (prealloc_bufsz a)"
    "unat (buf_write_ptr a) =
       (unat (buf_read_ptr a) + rd a (buf_write_count a)) mod unat (prealloc_bufsz a)"
  have "rd a (buf_read_alloc_count a + k) = rd a (buf_read_alloc_count a) + unat k"
    using * assms(2) by (intro rd_add) linarith
  then show ?thesis
    using * assms(2) unfolding ring_ok_def buf_ok_def counters_ok_def positions_ok_def rd_def
    by simp
qed

lemma ring_ok_read_free:
  assumes "ring_ok a" and k: "unat k \<le> rd a (buf_read_alloc_count a)"
    and ptr: "unat p = (unat (buf_read_ptr a) + unat k) mod unat (prealloc_bufsz a)"
  shows "ring_ok (a\<lparr>buf_read_count := buf_read_count a + k, buf_read_ptr := p\<rparr>)"
proof -
  obtain b where *: "prealloc_buf a = Some b" "length b = unat (prealloc_bufsz a)"
    "0 < unat (prealloc_bufsz a)" "unat (prealloc_bufsz a) < 2147483648"
    "rd a (buf_read_alloc_count a) \<le> rd a (munge_count a)"
    "rd a (munge_count a) \<le> rd a (buf_write_count a)"
    "rd a (buf_write_count a) \<le> rd a (buf_write_alloc_count a)"
    "rd a (buf_write_alloc_count a) \<le> unat (prealloc_bufsz a)"
    "unat (buf_read_ptr a) < unat (prealloc_bufsz a)"
    "unat (buf_write_ptr a) =
       (unat (buf_read_ptr a) + rd a (buf_write_count a)) mod unat (prealloc_bufsz a)"
    using assms(1) by (rule ring_okE)
  let ?a = "a\<lparr>buf_read_count := buf_read_count a + k, buf_read_ptr := p\<rparr>"
  have rd: "rd (a\<lparr>buf_read_count := buf_read_count a + k\<rparr>) x = rd a x - unat k"
    if "unat k \<le> rd a x" for x
    using rd_shift[OF that] by (simp add: rd_def)
  have c: "unat k \<le> rd a (munge_count a)" "unat k \<le> rd a (buf_write_count a)"
    "unat k \<le> rd a (buf_write_alloc_count a)" using * k by linarith+
  have "(unat p + (rd a (buf_write_count a) - unat k)) mod unat (prealloc_bufsz a) =
      (unat (buf_read_ptr a) + unat k + (rd a (buf_write_count a) - unat k)) mod unat (prealloc_bufsz a)"
    unfolding ptr by (rule mod_add_left_eq)
  also have "\<dots> = unat (buf_write_ptr a)" using c * by simp
  finally have "unat (buf_write_ptr a) =
      (unat p + (rd a (buf_write_count a) - unat k)) mod unat (prealloc_bufsz a)" ..
  then show ?thesis
    using * c k ptr
    by (simp add: ring_ok_def buf_ok_def counters_ok_def positions_ok_def rd diff_le_mono)
qed

lemma ring_ok_write_alloc:
  assumes "ring_ok a" and k: "unat k \<le> unat (prealloc_bufsz a) - rd a (buf_write_alloc_count a)"
  shows "ring_ok (a\<lparr>buf_write_alloc_count := buf_write_alloc_count a + k\<rparr>)"
proof -
  have *: "rd a (buf_write_alloc_count a) \<le> unat (prealloc_bufsz a)"
    "unat (prealloc_bufsz a) < 2147483648"
    "rd a (buf_write_count a) \<le> rd a (buf_write_alloc_count a)" using assms(1) by (rule ring_okE, simp)+
  then have rd: "rd a (buf_write_alloc_count a + k) = rd a (buf_write_alloc_count a) + unat k"
    using k by (intro rd_add) linarith
  have "rd a (buf_write_count a) \<le> rd a (buf_write_alloc_count a) + unat k"
    "rd a (buf_write_alloc_count a) + unat k \<le> unat (prealloc_bufsz a)"
    using * k by linarith+
  then show ?thesis
    using assms(1) by (simp add: ring_ok_def buf_ok_def counters_ok_def positions_ok_def rd)
qed

lemma ring_ok_write_advance:
  assumes "ring_ok a" and k: "unat k \<le> rd a (buf_write_alloc_count a) - rd a (buf_write_count a)"
    and ptr: "unat p = (unat (buf_write_ptr a) + unat k) mod unat (prealloc_bufsz a)"
  shows "ring_ok (a\<lparr>buf_write_count := buf_write_count a + k, buf_write_ptr := p\<rparr>)"
proof -
  have *: "rd a (buf_write_count a) \<le> rd a (buf_write_alloc_count a)"
    "rd a (munge_count a) \<le> rd a (buf_write_count a)"
    "rd a (buf_write_alloc_count a) \<le> unat (prealloc_bufsz a)"
    "unat (prealloc_bufsz a) < 2147483648"
    and wp: "unat (buf_write_ptr a) =
       (unat (buf_read_ptr a) + rd a (buf_write_count a)) mod unat (prealloc_bufsz a)"
    using assms(1) by (rule ring_okE, simp)+
  then have rd: "rd a (buf_write_count a + k) = rd a (buf_write_count a) + unat k"
    using k by (intro rd_add) linarith
  have p: "unat p = (unat (buf_read_ptr a) + (rd a (buf_write_count a) + unat k)) mod unat (prealloc_bufsz a)"
    unfolding ptr wp by (simp add: mod_add_left_eq add.assoc)
  have "rd a (munge_count a) \<le> rd a (buf_write_count a) + unat k"
    "rd a (buf_write_count a) + unat k \<le> rd a (buf_write_alloc_count a)"
    using * k by linarith+
  then show ?thesis
    using assms(1) p by (simp add: ring_ok_def buf_ok_def counters_ok_def positions_ok_def rd)
qed

lemma ring_ok_munge_advance:
  assumes "ring_ok a" and k: "unat k \<le> rd a (buf_write_count a) - rd a (munge_count a)"
    and "length b = unat (prealloc_bufsz a)"
  shows "ring_ok (a\<lparr>prealloc_buf := Some b, munge_count := munge_count a + k\<rparr>)"
proof -
  have *: "rd a (munge_count a) \<le> rd a (buf_write_count a)"
    "rd a (buf_read_alloc_count a) \<le> rd a (munge_count a)"
    "rd a (buf_write_count a) \<le> rd a (buf_write_alloc_count a)"
    "rd a (buf_write_alloc_count a) \<le> unat (prealloc_bufsz a)"
    "unat (prealloc_bufsz a) < 2147483648"
    using assms(1) by (rule ring_okE, simp)+
  then have rd: "rd a (munge_count a + k) = rd a (munge_count a) + unat k"
    using k by (intro rd_add) linarith
  have "rd a (buf_read_alloc_count a) \<le> rd a (munge_count a) + unat k"
    "rd a (munge_count a) + unat k \<le> rd a (buf_write_count a)"
    using * k by linarith+
  then show ?thesis
    using assms by (simp add: ring_ok_def buf_ok_def counters_ok_def positions_ok_def rd)
qed

section \<open>The writer's completion\<close>

lemma ring_ok_sizes:
  assumes "ring_ok a"
  shows "0 < unat (prealloc_bufsz a)" and "unat (prealloc_bufsz a) < 2147483648"
    and "unat (buf_write_ptr a) < unat (prealloc_bufsz a)"
    and "rd a (buf_write_alloc_count a) \<le> unat (prealloc_bufsz a)"
  using assms by (rule ring_okE, simp)+

lemma write_free_amount:
  assumes "ring_ok a" and "unat n < 2147483648"
  obtains k where "(if 0 <s (buf_write_count a + n - buf_write_alloc_count a)
      then buf_write_alloc_count a - buf_write_count a else n) = k"
    and "unat k = min (unat n) (rd a (buf_write_alloc_count a) - rd a (buf_write_count a))"
proof -
  have *: "rd a (buf_write_count a) \<le> rd a (buf_write_alloc_count a)"
    "rd a (buf_write_alloc_count a) < 2147483648"
    using assms(1) by (rule ring_okE, linarith)+
  have "0 <s (buf_write_count a + n - buf_write_alloc_count a) \<longleftrightarrow>
      rd a (buf_write_alloc_count a) < rd a (buf_write_count a) + unat n"
    using * assms(2) by (intro rd_exceeds)
  moreover have "unat (buf_write_alloc_count a - buf_write_count a) =
      rd a (buf_write_alloc_count a) - rd a (buf_write_count a)"
    using * by (intro rd_diff)
  ultimately show ?thesis by (intro that[OF refl]) auto
qed

lemma wrap_write_ptr:
  fixes p k N :: u32
  assumes "unat p < unat N" and "unat k \<le> unat N" and "unat N < 2147483648"
  shows "(if N \<le> p + k then (p + k) mod N else p + k) = of_nat ((unat p + unat k) mod unat N)"
proof -
  have s: "unat (p + k) = unat p + unat k" using assms by (intro unat_add_u32) linarith
  have m: "(unat p + unat k) mod unat N < 4294967296"
    using assms by (intro order_less_trans[OF mod_less_divisor]) simp_all
  show ?thesis
    using s m by (intro word_unat_eq_iff[THEN iffD2])
      (auto simp: unat_mod_distrib unat_of_nat word_le_nat_alt not_le)
qed

lemma munge_idle:
  assumes "\<not> munging mc a" and "munge_count a + n = buf_write_count a"
  shows "comedi_buf_munge mc a n = Some (n, a\<lparr>munge_count := munge_count a + n\<rparr>)"
  using assms
  by (cases "mc_munge mc") (auto simp: munging_def comedi_buf_munge_def word_sless_alt Let_def)

lemma write_free_idle_spec:
  assumes ok: "ring_ok a" and n: "unat n < 2147483648" and idle: "\<not> munging mc a"
  obtains k where "comedi_buf_write_free mc a n = Some (k, a\<lparr>
      buf_write_count := buf_write_count a + k,
      buf_write_ptr := of_nat ((unat (buf_write_ptr a) + unat k) mod unat (prealloc_bufsz a)),
      munge_count := buf_write_count a + k\<rparr>)"
    and "unat k = min (unat n) (rd a (buf_write_alloc_count a) - rd a (buf_write_count a))"
proof -
  obtain k where keq: "(if 0 <s (buf_write_count a + n - buf_write_alloc_count a)
      then buf_write_alloc_count a - buf_write_count a else n) = k"
    and k: "unat k = min (unat n) (rd a (buf_write_alloc_count a) - rd a (buf_write_count a))"
    using ok n by (rule write_free_amount)
  note * = ring_ok_sizes[OF ok]
  have kN: "unat k \<le> unat (prealloc_bufsz a)" using k *(4) by linarith
  let ?a = "a\<lparr>buf_write_count := buf_write_count a + k, buf_write_ptr := buf_write_ptr a + k\<rparr>"
  have m: "comedi_buf_munge mc ?a (buf_write_count a + k - munge_count a) =
      Some (buf_write_count a + k - munge_count a, ?a\<lparr>munge_count := buf_write_count a + k\<rparr>)"
    using idle by (subst munge_idle) (auto simp: munging_def)
  have nz: "prealloc_bufsz a \<noteq> 0" using * by auto
  have "comedi_buf_write_free mc a n = Some (k, ?a\<lparr>munge_count := buf_write_count a + k,
      buf_write_ptr := (if prealloc_bufsz a \<le> buf_write_ptr a + k
        then (buf_write_ptr a + k) mod prealloc_bufsz a else buf_write_ptr a + k)\<rparr>)"
    using m nz by (simp add: comedi_buf_write_free_def keq umod_def)
  then show ?thesis
    using k by (intro that) (simp_all add: wrap_write_ptr[OF *(3) kN *(2)])
qed

text \<open>The buffer after \<open>k\<close> more bytes are written and \<open>w\<close> bytes munged.\<close>

definition munged_free ::
  "(u8 list \<Rightarrow> u32 \<Rightarrow> u8 list) \<Rightarrow> u32 \<Rightarrow> u32 \<Rightarrow> u8 list \<Rightarrow> u32 \<Rightarrow> u32 \<Rightarrow> comedi_async \<Rightarrow> comedi_async" where
  "munged_free f sz L b k w a = a\<lparr>
      prealloc_buf := Some (ring_put b (unat (munge_ptr a)) (f (ring_get b (unat (munge_ptr a)) (unat w)) (munge_chan a))),
      buf_write_count := buf_write_count a + k,
      buf_write_ptr := of_nat ((unat (buf_write_ptr a) + unat k) mod unat (prealloc_bufsz a)),
      munge_chan := of_nat ((unat (munge_chan a) + unat w div unat sz) mod unat L),
      munge_count := munge_count a + w,
      munge_ptr := of_nat ((unat (munge_ptr a) + unat w) mod unat (prealloc_bufsz a))\<rparr>"

context munge_contract
begin

lemma munge_active:
  assumes ok: "buf_ok a" "counters_ok a" and "munge_pos_ok sz a" and L: "chanlist_len (cmd a) = L"
    and m: "unat n = rd a (buf_write_count a) - rd a (munge_count a)"
    and act: "mc_munge mc = Some f" "cmd_flags (cmd a) AND CMDF_RAWDATA = 0"
      "mc_sample_bytes mc = sz" and buf: "prealloc_buf a = Some b"
  obtains w where "unat w = unat n - unat n mod unat sz" and "comedi_buf_munge mc a n = Some (w, a\<lparr>
      prealloc_buf := Some (ring_put b (unat (munge_ptr a)) (f (ring_get b (unat (munge_ptr a)) (unat w)) (munge_chan a))),
      munge_chan := of_nat ((unat (munge_chan a) + unat w div unat sz) mod unat L),
      munge_count := munge_count a + w,
      munge_ptr := of_nat ((unat (munge_ptr a) + unat w) mod unat (prealloc_bufsz a))\<rparr>)"
proof -
  let ?N = "unat (prealloc_bufsz a)"
  have b: "length b = ?N" and N: "0 < ?N" "?N < 2147483648"
    and le: "rd a (munge_count a) \<le> rd a (buf_write_count a)"
    "rd a (buf_write_count a) \<le> rd a (buf_write_alloc_count a)"
    "rd a (buf_write_alloc_count a) \<le> ?N"
    using ok buf by (simp_all add: buf_ok_def counters_ok_def)
  have pos: "unat sz dvd ?N" "unat sz dvd unat (munge_ptr a)" "unat (munge_chan a) < unat L"
    "unat (munge_ptr a) = (unat (buf_read_ptr a) + rd a (munge_count a)) mod ?N"
    using assms(3) unfolding munge_pos_ok_def L by blast+
  then have mp: "unat (munge_ptr a) < ?N" using N by simp
  define w where "w = n - n mod sz"
  have w: "unat w = unat n - unat n mod unat sz"
    unfolding w_def by (subst unat_sub_u32) (simp_all add: unat_mod_distrib)
  have wle: "unat w \<le> ?N" using w m le by linarith
  have dvd: "unat sz dvd unat w" unfolding w by (simp add: dvd_minus_mod)
  note loop = munge_loop_spec[OF buf b N(2) L pos(3) mp wle dvd pos(1,2)]
  have wm: "rd a (munge_count a + w) = rd a (munge_count a) + unat w"
    using w m le N by (intro rd_add) linarith
  have bug: "\<not> 0 <s (munge_count a + w - buf_write_count a)"
    using rd_exceeds[of a "munge_count a" "buf_write_count a" w] le N w m wle by simp
  have nz: "sz \<noteq> 0" using sz_pos by auto
  show ?thesis
    using loop bug nz act(2) by (intro that[OF w]) (simp add: comedi_buf_munge_def act(1,3) umod_def w_def)
qed

lemma write_free_munge_spec:
  assumes ok: "ring_ok a" and pos: "munge_pos_ok sz a" and L: "chanlist_len (cmd a) = L"
    and n: "unat n < 2147483648"
    and act: "mc_munge mc = Some f" "cmd_flags (cmd a) AND CMDF_RAWDATA = 0"
      "mc_sample_bytes mc = sz" and buf: "prealloc_buf a = Some b"
  obtains k w d where
    "unat k = min (unat n) (rd a (buf_write_alloc_count a) - rd a (buf_write_count a))"
    and "d = rd a (buf_write_count a) + unat k - rd a (munge_count a)"
    and "unat w = d - d mod unat sz"
    and "comedi_buf_write_free mc a n = Some (k, munged_free f sz L b k w a)"
proof -
  obtain k where keq: "(if 0 <s (buf_write_count a + n - buf_write_alloc_count a)
      then buf_write_alloc_count a - buf_write_count a else n) = k"
    and k: "unat k = min (unat n) (rd a (buf_write_alloc_count a) - rd a (buf_write_count a))"
    using ok n by (rule write_free_amount)
  note * = ring_ok_sizes[OF ok]
  have kN: "unat k \<le> unat (prealloc_bufsz a)" using k *(4) by linarith
  define p where "p = (of_nat ((unat (buf_write_ptr a) + unat k) mod unat (prealloc_bufsz a)) :: u32)"
  have p: "unat p = (unat (buf_write_ptr a) + unat k) mod unat (prealloc_bufsz a)"
    unfolding p_def using * by (intro unat_of_nat_mod_u32) linarith+
  let ?a = "a\<lparr>buf_write_count := buf_write_count a + k, buf_write_ptr := p\<rparr>"
  let ?a' = "a\<lparr>buf_write_count := buf_write_count a + k, buf_write_ptr := buf_write_ptr a + k\<rparr>"
  let ?m = "buf_write_count a + k - munge_count a"
  have "ring_ok ?a" using k by (intro ring_ok_write_advance[OF ok _ p]) simp
  then have ok': "buf_ok ?a'" "counters_ok ?a'"
    by (simp_all add: ring_ok_def buf_ok_def counters_ok_def)
  have le: "rd a (munge_count a) \<le> rd a (buf_write_count a)" using ok by (rule ring_okE)
  have "rd a (buf_write_count a) \<le> rd a (buf_write_alloc_count a)" using ok by (rule ring_okE)
  then have "rd a (buf_write_count a + k) = rd a (buf_write_count a) + unat k"
    using * k by (intro rd_add) linarith
  moreover from this have m: "unat ?m = rd a (buf_write_count a) + unat k - rd a (munge_count a)"
    using le by (subst rd_diff[of a]) simp_all
  ultimately have m': "unat ?m = rd ?a' (buf_write_count ?a') - rd ?a' (munge_count ?a')"
    by simp
  have pos': "munge_pos_ok sz ?a'" using pos by simp
  obtain w where w: "unat w = unat ?m - unat ?m mod unat sz"
    and mu: "comedi_buf_munge mc ?a' ?m = Some (w, ?a'\<lparr>
      prealloc_buf := Some (ring_put b (unat (munge_ptr ?a')) (f (ring_get b (unat (munge_ptr ?a')) (unat w)) (munge_chan ?a'))),
      munge_chan := of_nat ((unat (munge_chan ?a') + unat w div unat sz) mod unat L),
      munge_count := munge_count ?a' + w,
      munge_ptr := of_nat ((unat (munge_ptr ?a') + unat w) mod unat (prealloc_bufsz ?a'))\<rparr>)"
    by (rule munge_active[OF ok' pos' _ m' act(1) _ act(3)]) (simp add: L, simp add: act, simp add: buf, blast)
  have nz: "prealloc_bufsz a \<noteq> 0" using * by auto
  have wrap: "(if prealloc_bufsz a \<le> buf_write_ptr a + k
        then (buf_write_ptr a + k) mod prealloc_bufsz a else buf_write_ptr a + k) = p"
    unfolding p_def by (rule wrap_write_ptr[OF *(3) kN *(2)])
  have "comedi_buf_write_free mc a n = Some (k, munged_free f sz L b k w a)"
    using mu nz
    by (simp add: comedi_buf_write_free_def keq umod_def wrap[symmetric] munged_free_def flip: p_def)
  with that[OF k refl] w m show ?thesis by (simp only: p_def)
qed

end

end
