(* ===== verification/Ring_Copy.thy ===== *)
theory Ring_Copy
  imports Ring_Operations
begin

text \<open>
  The two copying loops of \<open>comedi_buf_memcpy_to\<close> and \<open>comedi_buf_memcpy_from\<close> are the ring write
  and the ring read, round the end of the buffer.
\<close>

section \<open>Copying in and out of the ring\<close>

lemma memcpy_to_loop_0 [simp]: "memcpy_to_loop p d 0 a = Some a"
  by (simp add: memcpy_to_loop.simps)

lemma memcpy_to_loop_spec:
  assumes buf: "prealloc_buf a = Some b" "length b = unat (prealloc_bufsz a)"
    and N: "unat (prealloc_bufsz a) < 2147483648"
    and p: "unat p < unat (prealloc_bufsz a)" and n: "unat n \<le> unat (prealloc_bufsz a)" "length xs = unat n"
  shows "memcpy_to_loop p xs n a = Some (a\<lparr>prealloc_buf := Some (ring_put b (unat p) xs)\<rparr>)"
proof (cases "n = 0")
  case True
  then show ?thesis using n buf by simp
next
  case False
  let ?N = "unat (prealloc_bufsz a)"
  have pn: "unat (p + n) = unat p + unat n" using p n N by (intro unat_add_u32) linarith
  show ?thesis
  proof (cases "unat p + unat n \<le> ?N")
    case True
    have "\<not> prealloc_bufsz a < p + n" using True pn by (simp add: word_less_nat_alt)
    then show ?thesis
      using False True buf n by (subst memcpy_to_loop.simps) (simp add: store_bytes_ring Let_def)
  next
    case over: False
    have gt: "prealloc_bufsz a < p + n" using over pn by (simp add: word_less_nat_alt)
    have bs: "unat (prealloc_bufsz a - p) = ?N - unat p" using p by (intro unat_sub_u32) simp
    let ?bs = "prealloc_bufsz a - p" and ?k = "?N - unat p"
    have bsn: "?k < unat n" using over p by linarith
    have r: "unat (n - ?bs) = unat n - ?k" using bs bsn by (subst unat_sub_u32) simp_all
    let ?b = "ring_put b (unat p) (take ?k xs)"
    let ?a = "a\<lparr>prealloc_buf := Some ?b\<rparr>"
    have fit: "unat p + length (take ?k xs) \<le> length b" using p n bsn buf by simp
    have "n - ?bs \<noteq> 0" using r bsn by (auto simp: unat_eq_0)
    moreover have "\<not> prealloc_bufsz a < n - ?bs" using r n by (simp add: word_less_nat_alt)
    ultimately have second: "memcpy_to_loop 0 (drop ?k xs) (n - ?bs) ?a =
        Some (a\<lparr>prealloc_buf := Some (ring_put ?b 0 (drop ?k xs))\<rparr>)"
      using r n buf by (subst memcpy_to_loop.simps) (simp add: store_bytes_ring Let_def)
    have "ring_put ?b 0 (drop ?k xs) = ring_put ?b (unat p + ?k) (drop ?k xs)"
      using ring_put_mod[of ?b "unat p + ?k" "drop ?k xs"] p buf by simp
    also have "\<dots> = ring_put b (unat p) xs"
      using ring_put_append[of b "unat p" "take ?k xs" "drop ?k xs"] n bsn by simp
    finally show ?thesis
      using False gt bs second n bsn store_bytes_ring[OF buf(1) fit]
      by (subst memcpy_to_loop.simps) (simp add: Let_def)
  qed
qed

lemma memcpy_from_loop_0 [simp]: "memcpy_from_loop p d 0 a = Some d"
  by (simp add: memcpy_from_loop.simps)

lemma memcpy_from_loop_spec:
  assumes buf: "prealloc_buf a = Some b" "length b = unat (prealloc_bufsz a)"
    and N: "unat (prealloc_bufsz a) < 2147483648"
    and p: "unat p < unat (prealloc_bufsz a)" and n: "unat n \<le> unat (prealloc_bufsz a)"
  shows "memcpy_from_loop p d n a = Some (d @ ring_get b (unat p) (unat n))"
proof (cases "n = 0")
  case True
  then show ?thesis by simp
next
  case False
  let ?N = "unat (prealloc_bufsz a)" and ?bs = "prealloc_bufsz a - p"
  have bs: "unat ?bs = ?N - unat p" using p by (intro unat_sub_u32) simp
  show ?thesis
  proof (cases "unat n < ?N - unat p")
    case True
    then have "\<not> ?bs \<le> n" using bs by (simp add: word_le_nat_alt)
    then show ?thesis
      using False True buf n by (subst memcpy_from_loop.simps) (simp add: load_bytes_ring Let_def)
  next
    case over: False
    then have le: "?bs \<le> n" using bs by (simp add: word_le_nat_alt)
    have r: "unat (n - ?bs) = unat n - (?N - unat p)" using bs over by (subst unat_sub_u32) simp_all
    have rN: "unat (n - ?bs) \<le> ?N" using r n by simp
    have get: "ring_get b (unat p) (unat n) = ring_get b (unat p) (?N - unat p) @ ring_get b 0 (unat (n - ?bs))"
      using ring_get_add[of b "unat p" "?N - unat p" "unat (n - ?bs)"] r over p buf
        ring_get_mod[of b ?N "unat (n - ?bs)"] by simp
    have second: "memcpy_from_loop 0 d' (n - ?bs) a = Some (d' @ ring_get b 0 (unat (n - ?bs)))" for d'
    proof (cases "n - ?bs = 0")
      case False
      then show ?thesis
      proof (cases "prealloc_bufsz a \<le> n - ?bs")
        case True
        then have eq: "n - ?bs = prealloc_bufsz a" using rN by (simp add: word_le_nat_alt word_unat_eq_iff)
        have "prealloc_bufsz a \<noteq> 0" using p by auto
        then show ?thesis
          unfolding eq using buf by (subst memcpy_from_loop.simps) (simp add: load_bytes_ring Let_def)
      next
        case False
        then show ?thesis
          using \<open>n - ?bs \<noteq> 0\<close> buf rN by (subst memcpy_from_loop.simps) (simp add: load_bytes_ring Let_def)
      qed
    qed simp
    show ?thesis
      using False le bs buf p get second
      by (subst memcpy_from_loop.simps) (simp add: load_bytes_ring Let_def)
  qed
qed

lemma memcpy_to_spec:
  assumes ok: "ring_ok a" and buf: "prealloc_buf a = Some b" and n: "unat n \<le> unat (prealloc_bufsz a)" "length xs = unat n"
  shows "comedi_buf_memcpy_to a 0 xs n =
    Some (a\<lparr>prealloc_buf := Some (ring_put b (unat (buf_write_ptr a)) xs)\<rparr>)"
proof -
  have "length b = unat (prealloc_bufsz a)" using ok buf by (elim ring_okE) simp
  moreover note ring_ok_sizes[OF ok]
  moreover from this have "\<not> prealloc_bufsz a \<le> buf_write_ptr a" by (simp add: word_le_nat_alt)
  ultimately show ?thesis
    using memcpy_to_loop_spec[OF buf _ _ _ n] by (simp add: comedi_buf_memcpy_to_def)
qed

lemma memcpy_from_spec:
  assumes ok: "ring_ok a" and buf: "prealloc_buf a = Some b" and n: "unat n \<le> unat (prealloc_bufsz a)"
  shows "comedi_buf_memcpy_from a 0 n = Some (ring_get b (unat (buf_read_ptr a)) (unat n))"
proof -
  have "length b = unat (prealloc_bufsz a)" and p: "unat (buf_read_ptr a) < unat (prealloc_bufsz a)"
    using ok buf by (elim ring_okE, simp)+
  moreover note ring_ok_sizes[OF ok]
  moreover from p have "\<not> prealloc_bufsz a \<le> buf_read_ptr a" by (simp add: word_le_nat_alt)
  ultimately show ?thesis
    using memcpy_from_loop_spec[OF buf _ _ _ n] by (simp add: comedi_buf_memcpy_from_def)
qed
end
