(* ===== verification/Stream_Content.thy ===== *)
theory Stream_Content
  imports Ring_Copy
begin

text \<open>
  The bytes a streaming buffer holds: \<open>readable\<close>, munged and ready for the reader, and \<open>unmunged\<close>,
  written but not yet a whole sample. The operations of the writer and of the reader append to and
  take from the two lists, wherever the ring wraps.
\<close>

unbundle bit_operations_syntax

section \<open>What the buffer holds\<close>

definition readable :: "comedi_async \<Rightarrow> u8 list" where
  "readable a = (case prealloc_buf a of None \<Rightarrow> []
     | Some b \<Rightarrow> ring_get b (unat (buf_read_ptr a)) (rd a (munge_count a)))"

definition unmunged :: "comedi_async \<Rightarrow> u8 list" where
  "unmunged a = (case prealloc_buf a of None \<Rightarrow> []
     | Some b \<Rightarrow> ring_get b (unat (buf_read_ptr a) + rd a (munge_count a))
                  (rd a (buf_write_count a) - rd a (munge_count a)))"

lemma content_frame [simp, frame_simps]:
  "readable (scan_progress_update g_scan_progress a) = readable a"
  "readable (events_update g_events a) = readable a"
  "readable (cur_chan_update g_cur_chan a) = readable a"
  "readable (cb_mask_update g_cb_mask a) = readable a"
  "readable (cb_func_update g_cb_func a) = readable a"
  "readable (cb_arg_update g_cb_arg a) = readable a"
  "readable (inttrig_update g_inttrig a) = readable a"
  "readable (mmap_count_update g_mmap_count a) = readable a"
  "readable (max_bufsize_update g_max_bufsize a) = readable a"
  "unmunged (scan_progress_update g_scan_progress a) = unmunged a"
  "unmunged (events_update g_events a) = unmunged a"
  "unmunged (cur_chan_update g_cur_chan a) = unmunged a"
  "unmunged (cb_mask_update g_cb_mask a) = unmunged a"
  "unmunged (cb_func_update g_cb_func a) = unmunged a"
  "unmunged (cb_arg_update g_cb_arg a) = unmunged a"
  "unmunged (inttrig_update g_inttrig a) = unmunged a"
  "unmunged (mmap_count_update g_mmap_count a) = unmunged a"
  "unmunged (max_bufsize_update g_max_bufsize a) = unmunged a"
  "readable (buf_write_alloc_count_update g_buf_write_alloc_count a) = readable a"
  "unmunged (buf_write_alloc_count_update g_buf_write_alloc_count a) = unmunged a"
  "readable (buf_read_alloc_count_update g_buf_read_alloc_count a) = readable a"
  "unmunged (buf_read_alloc_count_update g_buf_read_alloc_count a) = unmunged a"
  by (simp_all add: readable_def unmunged_def split: option.split)

lemma ring_ok_frame [simp, frame_simps]:
  "ring_ok (scan_progress_update g_scan_progress a) = ring_ok a"
  "ring_ok (munge_chan_update g_chan a) = ring_ok a"
  "ring_ok (munge_ptr_update g_ptr a) = ring_ok a"
  "ring_ok (events_update g_events a) = ring_ok a"
  "ring_ok (cur_chan_update g_cur_chan a) = ring_ok a"
  "ring_ok (cb_mask_update g_cb_mask a) = ring_ok a"
  "ring_ok (cb_func_update g_cb_func a) = ring_ok a"
  "ring_ok (cb_arg_update g_cb_arg a) = ring_ok a"
  "ring_ok (inttrig_update g_inttrig a) = ring_ok a"
  "ring_ok (mmap_count_update g_mmap_count a) = ring_ok a"
  "ring_ok (max_bufsize_update g_max_bufsize a) = ring_ok a"
  by (simp_all add: ring_ok_def buf_ok_def counters_ok_def positions_ok_def)

lemma munge_pos_scan_frame [simp, frame_simps]:
  "munge_pos_ok sz (scan_progress_update g_scan_progress a) = munge_pos_ok sz a"
  "munge_pos_ok sz (prealloc_buf_update g_buf a) = munge_pos_ok sz a"
  "munge_pos_ok sz (events_update g_events a) = munge_pos_ok sz a"
  "munge_pos_ok sz (cur_chan_update g_cur_chan a) = munge_pos_ok sz a"
  "munge_pos_ok sz (cb_mask_update g_cb_mask a) = munge_pos_ok sz a"
  "munge_pos_ok sz (cb_func_update g_cb_func a) = munge_pos_ok sz a"
  "munge_pos_ok sz (cb_arg_update g_cb_arg a) = munge_pos_ok sz a"
  "munge_pos_ok sz (inttrig_update g_inttrig a) = munge_pos_ok sz a"
  "munge_pos_ok sz (mmap_count_update g_mmap_count a) = munge_pos_ok sz a"
  "munge_pos_ok sz (max_bufsize_update g_max_bufsize a) = munge_pos_ok sz a"
  by (simp_all add: munge_pos_ok_def)

lemma munging_cmd: "cmd a' = cmd a \<Longrightarrow> munging mc a' = munging mc a"
  by (simp add: munging_def)

section \<open>Taking from the buffer\<close>

lemma stream_pull:
  assumes ok: "ring_ok a" and none: "buf_read_alloc_count a = buf_read_count a"
    and n: "unat n < 2147483648"
  obtains k a1 a' where "comedi_buf_read_alloc a n = (k, a1)"
    and "unat k = min (unat n) (length (readable a))"
    and "comedi_buf_memcpy_from a1 0 k = Some (take (unat n) (readable a))"
    and "comedi_buf_read_free a1 k = Some (k, a')"
    and "ring_ok a'" and "readable a' = drop (unat n) (readable a)" and "unmunged a' = unmunged a"
    and "buf_read_alloc_count a' = buf_read_count a'" and "munge_chan a' = munge_chan a"
    and "cmd a' = cmd a" and "munge_count a' = munge_count a" and "buf_write_count a' = buf_write_count a"
    and "\<And>sz. munge_pos_ok sz a \<Longrightarrow> munge_pos_ok sz a'"
proof -
  let ?N = "unat (prealloc_bufsz a)" and ?rp = "unat (buf_read_ptr a)" and ?m = "rd a (munge_count a)"
  obtain b where b: "prealloc_buf a = Some b" "length b = ?N"
    and N: "0 < ?N" "?N < 2147483648"
    and le: "?m \<le> rd a (buf_write_count a)" "rd a (buf_write_count a) \<le> rd a (buf_write_alloc_count a)"
      "rd a (buf_write_alloc_count a) \<le> ?N"
    using ok by (rule ring_okE)
  obtain k where alloc: "comedi_buf_read_alloc a n =
      (k, a\<lparr>buf_read_alloc_count := buf_read_alloc_count a + k\<rparr>)"
    and k: "unat k = min (unat n) (?m - rd a (buf_read_alloc_count a))"
    using ok n by (rule read_alloc_spec)
  have ra: "rd a (buf_read_alloc_count a) = 0" by (simp add: none)
  then have k: "unat k = min (unat n) ?m" using k by simp
  let ?a1 = "a\<lparr>buf_read_alloc_count := buf_read_alloc_count a + k\<rparr>"
  have ok1: "ring_ok ?a1" using k ra by (intro ring_ok_read_alloc[OF ok]) simp
  have k31: "unat k < 2147483648" and kN: "unat k \<le> ?N" using k n le by linarith+
  have copy: "comedi_buf_memcpy_from ?a1 0 k = Some (take (unat n) (readable a))"
    using memcpy_from_spec[OF ok1, of b k] b kN k
    by (simp add: readable_def take_ring_get)
  have ra1: "rd a (buf_read_count a + k) = unat k"
    using rd_add[of a "buf_read_count a" k] k31 by simp
  define p where "p = (of_nat ((?rp + unat k) mod ?N) :: u32)"
  have p: "unat p = (?rp + unat k) mod ?N"
    unfolding p_def using N by (intro unat_of_nat_mod_u32) linarith+
  define a' where "a' = ?a1\<lparr>buf_read_count := buf_read_count a + k, buf_read_ptr := p\<rparr>"
  have free: "comedi_buf_read_free ?a1 k = Some (k, a')"
  proof -
    obtain j where "comedi_buf_read_free ?a1 k =
      Some (j, ?a1\<lparr>buf_read_count := buf_read_count a + j,
        buf_read_ptr := of_nat ((?rp + unat j) mod ?N)\<rparr>)" and "unat j = unat k"
      using read_free_spec[OF ok1 k31] by (auto simp: none ra1)
    moreover from this have "j = k" by (simp add: word_unat_eq_iff)
    ultimately show ?thesis by (simp add: a'_def p_def)
  qed
  have ok': "ring_ok a'"
    using ring_ok_read_free[OF ok1, of k p] p by (simp add: a'_def none ra1)
  have rd': "rd a' x = rd a x - unat k" if "unat k \<le> rd a x" for x
    using rd_shift[OF that] by (simp add: rd_def a'_def)
  have kw: "unat k \<le> ?m" "unat k \<le> rd a (buf_write_count a)" using k le by linarith+
  have rest: "rd a' (munge_count a) = ?m - unat k"
    "rd a' (buf_write_count a) = rd a (buf_write_count a) - unat k" using kw rd' by blast+
  have shift: "(unat p + i) mod ?N = (?rp + unat k + i) mod ?N" for i
    unfolding p by (rule mod_add_left_eq)
  have get': "ring_get b (unat p + i) j = ring_get b (?rp + unat k + i) j" for i j
    using ring_get_mod[of b "unat p + i" j] ring_get_mod[of b "?rp + unat k + i" j] b shift by simp
  have read: "readable a' = drop (unat n) (readable a)"
    using b rest kw k get'[of 0] by (simp add: readable_def a'_def drop_ring_get min_def)
  have un: "unmunged a' = unmunged a"
    using b rest kw le get'[of "?m - unat k"] by (simp add: unmunged_def a'_def)
  have "(unat p + (?m - unat k)) mod ?N = (?rp + ?m) mod ?N"
    using shift[of "?m - unat k"] kw by simp
  moreover have "prealloc_bufsz a' = prealloc_bufsz a" "munge_ptr a' = munge_ptr a"
    "munge_chan a' = munge_chan a" "buf_read_ptr a' = p" "munge_count a' = munge_count a"
    "cmd a' = cmd a" by (simp_all add: a'_def)
  ultimately have pos: "munge_pos_ok sz a'" if "munge_pos_ok sz a" for sz
    using that unfolding munge_pos_ok_def by (metis rest(1))
  show ?thesis
    by (rule that[OF alloc _ copy free ok' read un _ _ _ _ _ pos])
      (use k b in \<open>simp_all add: a'_def none readable_def\<close>)
qed

section \<open>Appending without munging\<close>

lemma idle_append:
  assumes ok: "ring_ok a" and idle: "\<not> munging mc a" "munge_count a = buf_write_count a"
    and n: "unat n \<le> rd a (buf_write_alloc_count a) - rd a (buf_write_count a)" "length xs = unat n"
  obtains a1 a' where "comedi_buf_memcpy_to a 0 xs n = Some a1"
    and "comedi_buf_write_free mc a1 n = Some (n, a')"
    and "ring_ok a'" and "cmd a' = cmd a" and "munge_count a' = buf_write_count a'"
    and "buf_read_count a' = buf_read_count a" and "buf_read_alloc_count a' = buf_read_alloc_count a"
    and "readable a' = readable a @ xs"
    and "prealloc_bufsz a' = prealloc_bufsz a" and "buf_read_ptr a' = buf_read_ptr a"
proof -
  let ?N = "unat (prealloc_bufsz a)" and ?rp = "unat (buf_read_ptr a)"
  obtain b where b: "prealloc_buf a = Some b" "length b = ?N"
    and N: "0 < ?N" "?N < 2147483648"
    and le: "rd a (buf_write_count a) \<le> rd a (buf_write_alloc_count a)"
      "rd a (buf_write_alloc_count a) \<le> ?N"
    and wp: "unat (buf_write_ptr a) = (?rp + rd a (buf_write_count a)) mod ?N"
    using ok by (rule ring_okE)
  have nN: "unat n \<le> ?N" using n le by linarith
  let ?b = "ring_put b (unat (buf_write_ptr a)) xs"
  let ?a1 = "a\<lparr>prealloc_buf := Some ?b\<rparr>"
  have copy: "comedi_buf_memcpy_to a 0 xs n = Some ?a1"
    using memcpy_to_spec[OF ok b(1) nN n(2)] .
  have rd1: "rd ?a1 = rd a" by (simp add: rd_def fun_eq_iff)
  have ok1: "ring_ok ?a1"
    using ok b by (simp add: ring_ok_def buf_ok_def counters_ok_def positions_ok_def rd1)
  have idle1: "\<not> munging mc ?a1" using idle(1) by (simp add: munging_def)
  have n31: "unat n < 2147483648" using nN N by linarith
  define p where "p = (of_nat ((unat (buf_write_ptr a) + unat n) mod ?N) :: u32)"
  have p: "unat p = (unat (buf_write_ptr a) + unat n) mod ?N"
    unfolding p_def using N by (intro unat_of_nat_mod_u32) linarith+
  define a2 where "a2 = ?a1\<lparr>buf_write_count := buf_write_count a + n, buf_write_ptr := p\<rparr>"
  define a3 where "a3 = a2\<lparr>prealloc_buf := Some ?b, munge_count := munge_count a2 + n\<rparr>"
  have free: "comedi_buf_write_free mc ?a1 n = Some (n, a3)"
  proof -
    obtain k where "comedi_buf_write_free mc ?a1 n = Some (k, ?a1\<lparr>
      buf_write_count := buf_write_count a + k,
      buf_write_ptr := of_nat ((unat (buf_write_ptr a) + unat k) mod ?N),
      munge_count := buf_write_count a + k\<rparr>)" and "unat k = unat n"
      using write_free_idle_spec[OF ok1 n31 idle1] n rd1 by auto
    moreover from this have "k = n" by (simp add: word_unat_eq_iff)
    ultimately show ?thesis by (simp add: a3_def a2_def p_def idle(2))
  qed
  have ok2: "ring_ok a2"
    unfolding a2_def using n rd1 p by (intro ring_ok_write_advance[OF ok1, simplified]) simp_all
  have w2: "rd a (buf_write_count a + n) = rd a (buf_write_count a) + unat n"
    using n le N by (intro rd_add) linarith
  have rd2: "rd a2 = rd a" by (simp add: a2_def rd1)
  have ok3: "ring_ok a3"
    unfolding a3_def using ok2 b n w2
    by (intro ring_ok_munge_advance) (simp_all add: rd2, simp_all add: a2_def idle(2))
  have rd3: "rd a3 = rd a" by (simp add: a3_def rd2)
  have "readable a3 = ring_get ?b ?rp (rd a (buf_write_count a) + unat n)"
    by (simp add: readable_def rd3, simp add: a3_def a2_def idle(2) w2)
  also have "\<dots> = ring_get b ?rp (rd a (buf_write_count a)) @ xs"
    using ring_get_put_append[of "rd a (buf_write_count a)" xs b ?rp] n le b
      ring_put_mod[of b "?rp + rd a (buf_write_count a)" xs] wp by simp
  also have "\<dots> = readable a @ xs" using b idle by (simp add: readable_def)
  finally have read: "readable a3 = readable a @ xs" .
  show ?thesis
    by (rule that[OF copy free ok3 _ _ _ _ read]) (simp_all add: a3_def a2_def idle(2))
qed

section \<open>Appending through a munge callback\<close>

definition munge_trans ::
  "(u8 list \<Rightarrow> u32 \<Rightarrow> u8 list) \<Rightarrow> nat \<Rightarrow> nat \<Rightarrow> u8 list \<times> nat \<Rightarrow> u8 list \<Rightarrow> u8 list" where
  "munge_trans f sz L q xs =
     (let ys = fst q @ xs in f (take (length ys - length ys mod sz) ys) (of_nat (snd q mod L)))"

definition munge_adv :: "nat \<Rightarrow> nat \<Rightarrow> u8 list \<times> nat \<Rightarrow> u8 list \<Rightarrow> u8 list \<times> nat" where
  "munge_adv sz L q xs =
     (let ys = fst q @ xs in
      (drop (length ys - length ys mod sz) ys, (snd q + length ys div sz) mod L))"

definition munge_phase :: "comedi_async \<Rightarrow> u8 list \<times> nat" where
  "munge_phase a = (unmunged a, unat (munge_chan a))"

lemma whole_samples_append:
  fixes k m sz :: nat
  assumes "0 < sz"
  shows "k - k mod sz + ((k mod sz + m) - (k mod sz + m) mod sz) = k + m - (k + m) mod sz"
    and "k div sz + (k mod sz + m) div sz = (k + m) div sz"
proof -
  have e: "k + m = (k div sz) * sz + (k mod sz + m)" by simp
  then have r: "(k + m) mod sz = (k mod sz + m) mod sz" by (metis mod_mult_self3)
  have le: "(k mod sz + m) mod sz \<le> k mod sz + m" "k mod sz \<le> k" by simp_all
  show "k - k mod sz + ((k mod sz + m) - (k mod sz + m) mod sz) = k + m - (k + m) mod sz"
    unfolding r using le by linarith
  show "k div sz + (k mod sz + m) div sz = (k + m) div sz"
    using e assms by (metis div_mult_self3 neq0_conv)
qed

lemma drop_past: "e \<le> length Q \<Longrightarrow> drop (e + w) (Q @ ys) = drop w (drop e Q @ ys)"
  using drop_drop[of w e "Q @ ys"] by (simp add: add.commute)

lemma take_past: "e \<le> length Q \<Longrightarrow> take (e + w) (Q @ ys) = take e Q @ take w (drop e Q @ ys)"
  using take_add[of e w "Q @ ys"] by simp

context munge_contract
begin

lemma munge_Nil [simp]: "f [] c = []"
  using munge_length[of "[]"] by simp

lemma munge_adv_append:
  "munge_adv (unat sz) (unat L) q (xs @ ys) =
   munge_adv (unat sz) (unat L) (munge_adv (unat sz) (unat L) q xs) ys"
proof -
  let ?s = "unat sz"
  obtain r c where q: "q = (r, c)" by (cases q)
  define Q k m where "Q = r @ xs" and "k = length Q" and "m = length ys"
  note w = whole_samples_append[OF sz_pos, of k m]
  let ?e = "k - k mod ?s"
  have l: "length (drop ?e Q @ ys) = k mod ?s + m" by (simp add: k_def m_def)
  have "drop (k + m - (k + m) mod ?s) (Q @ ys) =
      drop (k mod ?s + m - (k mod ?s + m) mod ?s) (drop ?e Q @ ys)"
    by (subst w(1)[symmetric], rule drop_past) (simp add: k_def)
  moreover have "(c + (k + m) div ?s) mod unat L =
      ((c + k div ?s) mod unat L + (k mod ?s + m) div ?s) mod unat L"
    by (simp add: mod_add_left_eq add.assoc w(2))
  moreover have "munge_adv ?s (unat L) q (xs @ ys) =
      (drop (k + m - (k + m) mod ?s) (Q @ ys), (c + (k + m) div ?s) mod unat L)"
    by (simp only: munge_adv_def Let_def q fst_conv snd_conv Q_def k_def m_def append_assoc length_append add.assoc)
  moreover have "munge_adv ?s (unat L) (munge_adv ?s (unat L) q xs) ys =
      (drop (k mod ?s + m - (k mod ?s + m) mod ?s) (drop ?e Q @ ys),
       ((c + k div ?s) mod unat L + (k mod ?s + m) div ?s) mod unat L)"
    by (simp only: munge_adv_def Let_def q fst_conv snd_conv Q_def [symmetric] k_def [symmetric] l)
  ultimately show ?thesis by simp
qed

lemma munge_trans_append:
  "munge_trans f (unat sz) (unat L) q (xs @ ys) =
   munge_trans f (unat sz) (unat L) q xs @
   munge_trans f (unat sz) (unat L) (munge_adv (unat sz) (unat L) q xs) ys"
proof -
  let ?s = "unat sz"
  obtain r c where q: "q = (r, c)" by (cases q)
  define Q k m where "Q = r @ xs" and "k = length Q" and "m = length ys"
  note w = whole_samples_append[OF sz_pos, of k m]
  let ?e = "k - k mod ?s" and ?w = "k mod ?s + m - (k mod ?s + m) mod ?s"
  have l: "length (drop ?e Q @ ys) = k mod ?s + m" by (simp add: k_def m_def)
  have split: "take (k + m - (k + m) mod ?s) (Q @ ys) = take ?e Q @ take ?w (drop ?e Q @ ys)"
    by (subst w(1)[symmetric], rule take_past) (simp add: k_def)
  have len: "length (take ?e Q) = k div ?s * ?s"
    by (simp add: k_def minus_mod_eq_div_mult)
  have c: "unat (of_nat (c mod unat L) :: u32) = c mod unat L"
    using L_bound by (intro unat_of_nat_mod_u32) linarith+
  have "f (take ?e Q @ take ?w (drop ?e Q @ ys)) (of_nat (c mod unat L)) =
      f (take ?e Q) (of_nat (c mod unat L)) @
      f (take ?w (drop ?e Q @ ys)) (of_nat ((c + k div ?s) mod unat L))"
    by (subst munge_split[OF len]) (simp_all add: c L_bound mod_add_left_eq)
  moreover have "munge_trans f ?s (unat L) q (xs @ ys) =
      f (take (k + m - (k + m) mod ?s) (Q @ ys)) (of_nat (c mod unat L))"
    by (simp only: munge_trans_def Let_def q fst_conv snd_conv Q_def k_def m_def append_assoc length_append add.assoc)
  moreover have "munge_trans f ?s (unat L) q xs = f (take ?e Q) (of_nat (c mod unat L))"
    by (simp only: munge_trans_def Let_def q Q_def k_def fst_conv snd_conv)
  moreover have "munge_trans f ?s (unat L) (munge_adv ?s (unat L) q xs) ys =
      f (take ?w (drop ?e Q @ ys)) (of_nat ((c + k div ?s) mod unat L))"
    by (simp only: munge_trans_def munge_adv_def Let_def q fst_conv snd_conv
      Q_def [symmetric] k_def [symmetric] l mod_mod_trivial)
  ultimately show ?thesis using split by simp
qed

lemma munge_append:
  assumes ok: "ring_ok a" and pos: "munge_pos_ok sz a" and L: "chanlist_len (cmd a) = L"
    and act: "mc_munge mc = Some f" "cmd_flags (cmd a) AND CMDF_RAWDATA = 0"
      "mc_sample_bytes mc = sz"
    and n: "unat n \<le> rd a (buf_write_alloc_count a) - rd a (buf_write_count a)" "length xs = unat n"
  obtains a1 a' where "comedi_buf_memcpy_to a 0 xs n = Some a1"
    and "comedi_buf_write_free mc a1 n = Some (n, a')"
    and "ring_ok a'" and "munge_pos_ok sz a'" and "cmd a' = cmd a"
    and "buf_read_count a' = buf_read_count a" and "buf_read_alloc_count a' = buf_read_alloc_count a"
    and "readable a' = readable a @ munge_trans f (unat sz) (unat L) (munge_phase a) xs"
    and "munge_phase a' = munge_adv (unat sz) (unat L) (munge_phase a) xs"
proof -
  let ?N = "unat (prealloc_bufsz a)" and ?rp = "unat (buf_read_ptr a)" and ?mp = "unat (munge_ptr a)"
  let ?m = "rd a (munge_count a)" and ?w = "rd a (buf_write_count a)"
  obtain b where b: "prealloc_buf a = Some b" "length b = ?N"
    and N: "0 < ?N" "?N < 2147483648"
    and le: "?m \<le> ?w" "?w \<le> rd a (buf_write_alloc_count a)" "rd a (buf_write_alloc_count a) \<le> ?N"
    and wp: "unat (buf_write_ptr a) = (?rp + ?w) mod ?N"
    using ok by (rule ring_okE)
  have nN: "unat n \<le> ?N" using n le by linarith
  define b1 where "b1 = ring_put b (unat (buf_write_ptr a)) xs"
  let ?a1 = "a\<lparr>prealloc_buf := Some b1\<rparr>"
  have b1': "b1 = ring_put b (?rp + ?w) xs" unfolding b1_def wp b(2)[symmetric] by (rule ring_put_mod)
  have lb1: "length b1 = ?N" by (simp add: b1_def b)
  have copy: "comedi_buf_memcpy_to a 0 xs n = Some ?a1"
    using memcpy_to_spec[OF ok b(1) nN n(2)] by (simp add: b1_def)
  have ok1: "ring_ok ?a1"
    using ok b lb1 by (simp add: ring_ok_def buf_ok_def counters_ok_def positions_ok_def)
  have mp: "?mp = (?rp + ?m) mod ?N" and dvd: "unat sz dvd ?N" "unat sz dvd ?mp"
    and ch: "unat (munge_chan a) < unat L"
    using pos unfolding munge_pos_ok_def L by blast+
  have pos1: "munge_pos_ok sz ?a1" using pos by simp
  have n31: "unat n < 2147483648" using nN N by linarith
  define c where "c = munge_chan a"
  obtain k v d where "unat k = min (unat n) (rd ?a1 (buf_write_alloc_count ?a1) - rd ?a1 (buf_write_count ?a1))"
    and d: "d = rd ?a1 (buf_write_count ?a1) + unat k - rd ?a1 (munge_count ?a1)"
    and v: "unat v = d - d mod unat sz"
    and free: "comedi_buf_write_free mc ?a1 n = Some (k, munged_free f sz L b1 k v ?a1)"
    by (rule write_free_munge_spec[OF ok1 pos1 _ n31 act(1) _ act(3)])
      (simp add: L, simp add: act, simp, rule that)
  then have "unat k = unat n" using n by simp
  then have kn: "k = n" by (simp add: word_unat_eq_iff)
  have d: "d = ?w + unat n - ?m" using d kn by simp
  have vd: "unat v \<le> d" using v by simp
  define Y where "Y = ring_get b1 ?mp (unat v)"
  define b2 where "b2 = ring_put b1 ?mp (f Y c)"
  define p ch' mp' :: u32 where "p = of_nat ((unat (buf_write_ptr a) + unat n) mod ?N)"
    and "ch' = of_nat ((unat c + unat v div unat sz) mod unat L)"
    and "mp' = of_nat ((?mp + unat v) mod ?N)"
  define a' where "a' = a\<lparr>prealloc_buf := Some b2, buf_write_count := buf_write_count a + n,
    buf_write_ptr := p, munge_chan := ch', munge_count := munge_count a + v, munge_ptr := mp'\<rparr>"
  have free': "comedi_buf_write_free mc ?a1 n = Some (n, a')"
    using free by (simp add: munged_free_def kn a'_def b2_def Y_def p_def ch'_def mp'_def c_def)
  have p: "unat p = (unat (buf_write_ptr a) + unat n) mod ?N"
    unfolding p_def using N by (intro unat_of_nat_mod_u32) linarith+
  have ch'1: "unat ch' = (unat c + unat v div unat sz) mod unat L"
    unfolding ch'_def using L_bound by (intro unat_of_nat_mod_u32) linarith+
  have mp'1: "unat mp' = (?mp + unat v) mod ?N"
    unfolding mp'_def using N by (intro unat_of_nat_mod_u32) linarith+
  have wn: "rd a (buf_write_count a + n) = ?w + unat n" using n le N by (intro rd_add) linarith
  have mv: "rd a (munge_count a + v) = ?m + unat v" using vd d n le N by (intro rd_add) linarith
  have ok': "ring_ok a'"
  proof -
    let ?a2 = "?a1\<lparr>buf_write_count := buf_write_count ?a1 + n, buf_write_ptr := p\<rparr>"
    have ok2: "ring_ok ?a2" using n p by (intro ring_ok_write_advance[OF ok1]) simp_all
    have "ring_ok (?a2\<lparr>prealloc_buf := Some b2, munge_count := munge_count ?a2 + v\<rparr>)"
      using vd d lb1 by (intro ring_ok_munge_advance[OF ok2]) (simp_all add: wn b2_def)
    then have "ring_ok (munge_chan_update (\<lambda>_. ch') (munge_ptr_update (\<lambda>_. mp')
        (?a2\<lparr>prealloc_buf := Some b2, munge_count := munge_count ?a2 + v\<rparr>)))"
      by (simp only: ring_ok_frame)
    moreover have "munge_chan_update (\<lambda>_. ch') (munge_ptr_update (\<lambda>_. mp')
        (?a2\<lparr>prealloc_buf := Some b2, munge_count := munge_count ?a2 + v\<rparr>)) = a'"
      by (rule comedi_async.equality) (simp_all add: a'_def)
    ultimately show ?thesis by metis
  qed
  have ptr': "unat mp' = (?rp + (?m + unat v)) mod ?N"
    unfolding mp'1 mp by (simp add: mod_add_left_eq add.assoc)
  have "unat sz dvd unat v" using v by (simp add: dvd_minus_mod)
  then have "unat sz dvd unat mp'" unfolding mp'1 using dvd by (simp add: dvd_mod)
  then have pos': "munge_pos_ok sz a'"
    using dvd(1) ptr' ch'1 L_bound sz_pos
    unfolding munge_pos_ok_def a'_def by (simp add: mv L)
  define Z where "Z = ring_get b1 (?rp + ?m) d"
  have all1: "ring_get b1 ?rp (?m + d) = ring_get b ?rp ?w @ xs"
    using ring_get_put_append[of ?w xs b ?rp] n le b d by (simp add: b1')
  have all0: "ring_get b ?rp ?w = readable a @ unmunged a"
    using ring_get_add[of b ?rp ?m "?w - ?m"] le b by (simp add: readable_def unmunged_def)
  have "ring_get b1 ?rp ?m @ Z = readable a @ (unmunged a @ xs)"
    using all1 unfolding all0 ring_get_add[of b1 ?rp ?m d] Z_def by simp
  moreover have lr: "length (ring_get b1 ?rp ?m) = length (readable a)" using b by (simp add: readable_def)
  ultimately have old: "ring_get b1 ?rp ?m = readable a" and Z: "Z = unmunged a @ xs"
    using append_eq_append_conv by blast+
  have lZ: "length Z = d" by (simp add: Z_def)
  have Y: "Y = take (unat v) Z"
    using ring_get_mod[of b1 "?rp + ?m" "unat v"] vd lb1 unfolding Y_def Z_def mp
    by (simp add: take_ring_get min_absorb1)
  have lY: "length (f Y c) = unat v" by (simp add: munge_length Y_def)
  have b2: "b2 = ring_put b1 (?rp + ?m) (f Y c)"
    unfolding b2_def mp lb1[symmetric] by (rule ring_put_mod)
  have fit: "?m + unat v \<le> ?N" "unat v + (d - unat v) \<le> ?N" using vd d n le by linarith+
  have r': "readable a' = ring_get b2 ?rp (?m + unat v)"
    by (simp add: readable_def a'_def mv)
  also have "\<dots> = readable a @ f Y c"
    using ring_get_put_append[of ?m "f Y c" b1 ?rp] fit lb1 lY by (simp add: b2 old)
  finally have read: "readable a' = readable a @ f Y c" .
  have dle: "?w + unat n - (?m + unat v) = d - unat v" using d by simp
  have un: "unmunged a' = drop (unat v) Z"
    using ring_get_put_after[of "f Y c" "d - unat v" b1 "?rp + ?m"] fit lb1 lY
    by (simp add: unmunged_def a'_def mv wn dle b2 Z_def drop_ring_get add.assoc)
  have c0: "of_nat (unat c mod unat L) = c" using ch by (simp add: c_def)
  have dv: "unat v = length Z - length Z mod unat sz" "unat v div unat sz = length Z div unat sz"
    using v sz_pos by (simp_all add: lZ minus_mod_eq_div_mult)
  have trans: "f Y c = munge_trans f (unat sz) (unat L) (munge_phase a) xs"
    unfolding munge_trans_def munge_phase_def Let_def fst_conv snd_conv Z[symmetric] Y
    using c0 dv(1) by (simp add: c_def)
  have adv: "munge_phase a' = munge_adv (unat sz) (unat L) (munge_phase a) xs"
    unfolding munge_adv_def munge_phase_def Let_def fst_conv snd_conv Z[symmetric] un
    using dv ch'1 by (simp add: a'_def c_def)
  show ?thesis
    by (rule that[OF copy free' ok' pos' _ _ _ read[unfolded trans] adv]) (simp_all add: a'_def)
qed

end

end
