(* ===== verification/Byte_Channel.thy ===== *)
theory Byte_Channel
  imports Comedi_Prelude
begin

text \<open>
  What the two ends of a streaming buffer may rely on, as a locale: nothing that goes in is lost,
  duplicated or reordered on its way out, over any interleaving of the two ends.
\<close>

section \<open>A byte channel\<close>

text \<open>
  The contract of a channel that transforms what passes through it: \<open>put\<close> accepts a prefix of what
  it is given, which is queued transformed by \<open>trans\<close> from the phase the earlier input left; \<open>get\<close>
  delivers a prefix of the queue.
\<close>

locale byte_channel =
  fixes inv :: "'s \<Rightarrow> bool" and queued :: "'s \<Rightarrow> 'b list" and phase :: "'s \<Rightarrow> 'q"
    and put :: "'b list \<Rightarrow> 's \<Rightarrow> (nat \<times> 's) option" and get :: "nat \<Rightarrow> 's \<Rightarrow> ('b list \<times> 's) option"
    and trans :: "'q \<Rightarrow> 'b list \<Rightarrow> 'b list" and adv :: "'q \<Rightarrow> 'b list \<Rightarrow> 'q" and limit :: nat
  assumes put_ok: "inv s \<Longrightarrow> length xs < limit \<Longrightarrow>
      \<exists>n s'. put xs s = Some (n, s') \<and> inv s' \<and> n \<le> length xs \<and>
        queued s' = queued s @ trans (phase s) (take n xs) \<and> phase s' = adv (phase s) (take n xs)"
    and get_ok: "inv s \<Longrightarrow> n < limit \<Longrightarrow>
      \<exists>out s'. get n s = Some (out, s') \<and> inv s' \<and> length out \<le> n \<and>
        out @ queued s' = queued s \<and> phase s' = phase s \<and> (out = [] \<longrightarrow> n = 0 \<or> queued s = [])"
    and trans_append: "trans p (xs @ ys) = trans p xs @ trans (adv p xs) ys"
    and adv_append: "adv p (xs @ ys) = adv (adv p xs) ys"
    and trans_Nil: "inv s \<Longrightarrow> trans (phase s) [] = []"
    and adv_Nil: "inv s \<Longrightarrow> adv (phase s) [] = phase s"

datatype 'b stream_op = Put "'b list" | Get nat

fun op_size :: "'b stream_op \<Rightarrow> nat" where
  "op_size (Put xs) = length xs"
| "op_size (Get n) = n"

text \<open>A run of operations: what was accepted, what was delivered, the final state.\<close>

fun run_stream ::
  "('b list \<Rightarrow> 's \<Rightarrow> (nat \<times> 's) option) \<Rightarrow> (nat \<Rightarrow> 's \<Rightarrow> ('b list \<times> 's) option) \<Rightarrow>
    'b stream_op list \<Rightarrow> 's \<Rightarrow> ('b list \<times> 'b list \<times> 's) option" where
  "run_stream put get [] s = Some ([], [], s)"
| "run_stream put get (Put xs # ops) s =
     do {
       (n, s) \<leftarrow> put xs s;
       (acc, out, s) \<leftarrow> run_stream put get ops s;
       Some (take n xs @ acc, out, s)
     }"
| "run_stream put get (Get n # ops) s =
     do {
       (d, s) \<leftarrow> get n s;
       (acc, out, s) \<leftarrow> run_stream put get ops s;
       Some (acc, d @ out, s)
     }"

context byte_channel
begin

lemma run_conserves:
  assumes "inv s" and "\<And>op. op \<in> set ops \<Longrightarrow> op_size op < limit"
  shows "\<exists>acc out s'. run_stream put get ops s = Some (acc, out, s') \<and> inv s' \<and>
    out @ queued s' = queued s @ trans (phase s) acc \<and> phase s' = adv (phase s) acc"
  using assms
proof (induction ops arbitrary: s)
  case Nil
  then show ?case by (simp add: trans_Nil adv_Nil)
next
  case (Cons op ops)
  show ?case
  proof (cases op)
    case (Put xs)
    then have "length xs < limit" using Cons.prems(2)[of op] by simp
    then obtain n s1 where p: "put xs s = Some (n, s1)" "inv s1"
      "queued s1 = queued s @ trans (phase s) (take n xs)" "phase s1 = adv (phase s) (take n xs)"
      using put_ok[OF Cons.prems(1)] by blast
    obtain acc out s2 where r: "run_stream put get ops s1 = Some (acc, out, s2)" "inv s2"
      "out @ queued s2 = queued s1 @ trans (phase s1) acc" "phase s2 = adv (phase s1) acc"
      using Cons.IH[OF p(2)] Cons.prems(2) by (meson list.set_intros(2))
    show ?thesis using Put p r by (simp add: trans_append adv_append)
  next
    case (Get n)
    then have "n < limit" using Cons.prems(2)[of op] by simp
    then obtain d s1 where g: "get n s = Some (d, s1)" "inv s1" "d @ queued s1 = queued s"
      "phase s1 = phase s"
      using get_ok[OF Cons.prems(1)] by blast
    obtain acc out s2 where r: "run_stream put get ops s1 = Some (acc, out, s2)" "inv s2"
      "out @ queued s2 = queued s1 @ trans (phase s1) acc" "phase s2 = adv (phase s1) acc"
      using Cons.IH[OF g(2)] Cons.prems(2) by (meson list.set_intros(2))
    show ?thesis using Get g r by (simp flip: g(3))
  qed
qed

end

end
