(* ===== verification/Subdevice_State.thy ===== *)
theory Subdevice_State
  imports Async_Buffer
begin

text \<open>
  The state machine of a subdevice (\<open>comedi/comedi_fops.c\<close>): its run flags, what a driver's event does
  to them, how it becomes idle, and the LOCK, UNLOCK, CANCEL and POLL ioctls with the two pointers
  \<open>lock\<close> and \<open>busy\<close> that say who owns it. Wake-ups, signals and callbacks are returned as the list of
  notices the code sends. Real-time support is not configured.
\<close>

unbundle bit_operations_syntax

datatype notice =
    Wake_up nat
  | Sigio_in
  | Sigio_out
  | Callback fnptr u32 u64

section \<open>Run flags\<close>

definition comedi_set_subdevice_runflags ::
  "'p comedi_subdevice \<Rightarrow> u32 \<Rightarrow> u32 \<Rightarrow> 'p comedi_subdevice" where
  "comedi_set_subdevice_runflags s m bits =
     s\<lparr>sd_runflags := (sd_runflags s AND NOT m) OR (bits AND m)\<rparr>"

definition comedi_get_subdevice_runflags :: "'p comedi_subdevice \<Rightarrow> u32" where
  "comedi_get_subdevice_runflags s = sd_runflags s"

definition running :: "'p comedi_subdevice \<Rightarrow> bool" where
  "running s \<longleftrightarrow> comedi_get_subdevice_runflags s AND SRF_RUNNING \<noteq> 0"

definition in_error :: "'p comedi_subdevice \<Rightarrow> bool" where
  "in_error s \<longleftrightarrow> comedi_get_subdevice_runflags s AND SRF_ERROR \<noteq> 0"

section \<open>Events\<close>

definition event_notices ::
  "('p, 'h) comedi_device \<Rightarrow> nat \<Rightarrow> 'p comedi_subdevice \<Rightarrow> comedi_async \<Rightarrow> notice list" where
  "event_notices dev i s a =
     (if cb_mask a AND events a \<noteq> 0 then
        if comedi_get_subdevice_runflags s AND SRF_USER \<noteq> 0 then
          if dv_rt dev then []
          else [Wake_up i] @
            (if sd_subdev_flags s AND SDF_CMD_READ \<noteq> 0 then [Sigio_in] else []) @
            (if sd_subdev_flags s AND SDF_CMD_WRITE \<noteq> 0 then [Sigio_out] else [])
        else
          (case cb_func a of Some f \<Rightarrow> [Callback f (events a) (cb_arg a)] | None \<Rightarrow> [])
      else [])"

definition comedi_event ::
  "('p, 'h) comedi_device \<Rightarrow> nat \<Rightarrow> (notice list \<times> ('p, 'h) comedi_device) option" where
  "comedi_event dev i =
     do {
       s \<leftarrow> subd dev i;
       if comedi_get_subdevice_runflags s AND SRF_RUNNING = 0 then Some ([], dev)
       else do {
         a \<leftarrow> sd_async s;
         let mask1 = (if events a AND (COMEDI_CB_EOA OR COMEDI_CB_ERROR OR COMEDI_CB_OVERFLOW) \<noteq> 0
                      then SRF_RUNNING else 0);
             (flags_mask, bits) =
               (if events a AND (COMEDI_CB_ERROR OR COMEDI_CB_OVERFLOW) \<noteq> 0
                then (mask1 OR SRF_ERROR, SRF_ERROR) else (mask1, 0));
             s = (if flags_mask \<noteq> 0 then comedi_set_subdevice_runflags s flags_mask bits else s);
             notices = event_notices dev i s a
         in Some (notices, set_subd i (s\<lparr>sd_async := Some (a\<lparr>events := 0\<rparr>)\<rparr>) dev)
       }
     }"

section \<open>Becoming idle\<close>

definition kfree_chanlist :: "chan_ptr \<Rightarrow> unit option" where
  "kfree_chanlist p = (case p of Null_ptr \<Rightarrow> Some () | Kern_ptr _ \<Rightarrow> Some () | User_ptr _ \<Rightarrow> None)"

definition do_become_nonbusy :: "'p comedi_subdevice \<Rightarrow> 'p comedi_subdevice option" where
  "do_become_nonbusy s =
     (let s = comedi_set_subdevice_runflags s SRF_RUNNING 0 in
      do {
        s \<leftarrow> (case sd_async s of
               Some a \<Rightarrow>
                 let a = (comedi_reset_async_buf a)\<lparr>inttrig := None\<rparr> in
                 do {
                   kfree_chanlist (chanlist (cmd a));
                   Some (s\<lparr>sd_async := Some (a\<lparr>cmd := (cmd a)\<lparr>chanlist := Null_ptr\<rparr>\<rparr>)\<rparr>)
                 }
             | None \<Rightarrow> Some s);
        Some (s\<lparr>sd_busy := None\<rparr>)
      })"

definition do_cancel ::
  "('p, 'h) driver_ops \<Rightarrow> ('p, 'h) comedi_device \<Rightarrow> nat \<Rightarrow> (int \<times> ('p, 'h) comedi_device) option" where
  "do_cancel ops dev i =
     do {
       s \<leftarrow> subd dev i;
       (ret, dev) \<leftarrow>
         (if comedi_get_subdevice_runflags s AND SRF_RUNNING \<noteq> 0 then
            case sd_cancel s of Some f \<Rightarrow> op_cancel ops f dev i | None \<Rightarrow> Some (0, dev)
          else Some (0, dev));
       s \<leftarrow> subd dev i;
       s \<leftarrow> do_become_nonbusy s;
       Some (ret, set_subd i s dev)
     }"

primrec busy_from :: "('p, 'h) comedi_device \<Rightarrow> nat \<Rightarrow> nat \<Rightarrow> int option" where
  "busy_from dev i 0 = Some 0"
| "busy_from dev i (Suc k) =
     do {
       s \<leftarrow> subd dev i;
       if sd_busy s \<noteq> None then Some 1
       else if (case sd_async s of Some a \<Rightarrow> mmap_count a \<noteq> 0 | None \<Rightarrow> False) then Some 1
       else busy_from dev (Suc i) k
     }"

definition is_device_busy :: "('p, 'h) comedi_device \<Rightarrow> int option" where
  "is_device_busy dev =
     (if \<not> dv_attached dev then Some 0
      else busy_from dev 0 (nat (sint (dv_n_subdevices dev))))"

section \<open>LOCK, UNLOCK, CANCEL, POLL\<close>

definition do_lock_ioctl ::
  "('p, 'h) comedi_device \<Rightarrow> u32 \<Rightarrow> owner \<Rightarrow> (int \<times> ('p, 'h) comedi_device) option" where
  "do_lock_ioctl dev arg fil =
     (if dv_n_subdevices dev \<le> arg then Some (- EINVAL, dev)
      else do {
        s \<leftarrow> subd dev (unat arg);
        if sd_busy s \<noteq> None \<or> sd_lock s \<noteq> None then Some (- EBUSY, dev)
        else Some (0, set_subd (unat arg) (s\<lparr>sd_lock := Some fil\<rparr>) dev)
      })"

definition do_unlock_ioctl ::
  "('p, 'h) comedi_device \<Rightarrow> u32 \<Rightarrow> owner \<Rightarrow> (int \<times> ('p, 'h) comedi_device) option" where
  "do_unlock_ioctl dev arg fil =
     (if dv_n_subdevices dev \<le> arg then Some (- EINVAL, dev)
      else do {
        s \<leftarrow> subd dev (unat arg);
        if sd_busy s \<noteq> None then Some (- EBUSY, dev)
        else if sd_lock s \<noteq> None \<and> sd_lock s \<noteq> Some fil then Some (- EACCES, dev)
        else if sd_lock s = Some fil
        then Some (0, set_subd (unat arg) (s\<lparr>sd_lock := None\<rparr>) dev)
        else Some (0, dev)
      })"

definition do_cancel_ioctl ::
  "('p, 'h) driver_ops \<Rightarrow> ('p, 'h) comedi_device \<Rightarrow> u32 \<Rightarrow> owner \<Rightarrow>
    (int \<times> notice list \<times> ('p, 'h) comedi_device) option" where
  "do_cancel_ioctl ops dev arg fil =
     (if dv_n_subdevices dev \<le> arg then Some (- EINVAL, [], dev)
      else do {
        s \<leftarrow> subd dev (unat arg);
        if sd_async s = None then Some (- EINVAL, [], dev)
        else if sd_lock s \<noteq> None \<and> sd_lock s \<noteq> Some fil then Some (- EACCES, [], dev)
        else if sd_busy s = None then Some (0, [], dev)
        else if sd_busy s \<noteq> Some fil then Some (- EBUSY, [], dev)
        else do {
          (ret, dev) \<leftarrow> do_cancel ops dev (unat arg);
          s \<leftarrow> subd dev (unat arg);
          Some (ret,
            (if comedi_get_subdevice_runflags s AND SRF_USER \<noteq> 0 \<and> \<not> dv_rt dev
             then [Wake_up (unat arg)] else []),
            dev)
        }
      })"

definition call_poll ::
  "('p, 'h) driver_ops \<Rightarrow> poll_fn \<Rightarrow> ('p, 'h) comedi_device \<Rightarrow> nat \<Rightarrow>
    (int \<times> ('p, 'h) comedi_device) option" where
  "call_poll ops f dev i =
     (case f of Poll_invalid \<Rightarrow> Some (- EINVAL, dev) | Poll_driver g \<Rightarrow> op_poll ops g dev i)"

definition do_poll_ioctl ::
  "('p, 'h) driver_ops \<Rightarrow> ('p, 'h) comedi_device \<Rightarrow> u32 \<Rightarrow> owner \<Rightarrow>
    (int \<times> ('p, 'h) comedi_device) option" where
  "do_poll_ioctl ops dev arg fil =
     (if dv_n_subdevices dev \<le> arg then Some (- EINVAL, dev)
      else do {
        s \<leftarrow> subd dev (unat arg);
        if sd_lock s \<noteq> None \<and> sd_lock s \<noteq> Some fil then Some (- EACCES, dev)
        else if sd_busy s = None then Some (0, dev)
        else if sd_busy s \<noteq> Some fil then Some (- EBUSY, dev)
        else
          case sd_poll s of Some f \<Rightarrow> call_poll ops f dev (unat arg) | None \<Rightarrow> Some (- EINVAL, dev)
      })"

end
