(* ===== verification/Comedi_Fc.thy ===== *)
theory Comedi_Fc
  imports Subdevice_State
begin

text \<open>
  The helpers through which low-level drivers fill and drain the streaming buffer
  (\<open>comedi/drivers/comedi_fc.c\<close> and \<open>comedi_fc.h\<close>).
\<close>

unbundle bit_operations_syntax

section \<open>The helpers of the low-level drivers\<close>

definition cfc_bytes_per_scan :: "'p comedi_subdevice \<Rightarrow> comedi_async \<Rightarrow> u32" where
  "cfc_bytes_per_scan s a =
     (let num_samples =
        (case sd_type s of
           COMEDI_SUBD_DI \<Rightarrow>
             let bits_per_sample = 8 * bytes_per_sample s in
             (chanlist_len (cmd a) + bits_per_sample - 1) div bits_per_sample
         | COMEDI_SUBD_DO \<Rightarrow>
             let bits_per_sample = 8 * bytes_per_sample s in
             (chanlist_len (cmd a) + bits_per_sample - 1) div bits_per_sample
         | COMEDI_SUBD_DIO \<Rightarrow>
             let bits_per_sample = 8 * bytes_per_sample s in
             (chanlist_len (cmd a) + bits_per_sample - 1) div bits_per_sample
         | _ \<Rightarrow> chanlist_len (cmd a))
      in num_samples * bytes_per_sample s)"

definition increment_scan_progress ::
  "'p comedi_subdevice \<Rightarrow> comedi_async \<Rightarrow> u32 \<Rightarrow> comedi_async option" where
  "increment_scan_progress s a num_bytes =
     (let scan_length = cfc_bytes_per_scan s a;
          progress = scan_progress a + num_bytes
      in if scan_length \<le> progress then
           do {
             progress \<leftarrow> umod progress scan_length;
             Some (a\<lparr>scan_progress := progress, events := events a OR COMEDI_CB_EOS\<rparr>)
           }
         else Some (a\<lparr>scan_progress := progress\<rparr>))"

definition cfc_write_array_to_buffer ::
  "munge_ctx \<Rightarrow> 'p comedi_subdevice \<Rightarrow> u8 list \<Rightarrow> u32 \<Rightarrow> (u32 \<times> 'p comedi_subdevice) option" where
  "cfc_write_array_to_buffer mc s data num_bytes =
     do {
       a \<leftarrow> sd_async s;
       if num_bytes = 0 then Some (0, s)
       else
         case comedi_buf_write_alloc a num_bytes of (retval, a) \<Rightarrow>
         if retval \<noteq> num_bytes then
           Some (0, s\<lparr>sd_async := Some (a\<lparr>events := events a OR COMEDI_CB_OVERFLOW\<rparr>)\<rparr>)
         else
           do {
             a \<leftarrow> comedi_buf_memcpy_to a 0 data num_bytes;
             (_, a) \<leftarrow> comedi_buf_write_free mc a num_bytes;
             a \<leftarrow> increment_scan_progress s a num_bytes;
             Some (num_bytes, s\<lparr>sd_async := Some (a\<lparr>events := events a OR COMEDI_CB_BLOCK\<rparr>)\<rparr>)
           }
     }"

definition cfc_read_array_from_buffer ::
  "'p comedi_subdevice \<Rightarrow> u32 \<Rightarrow> (u32 \<times> u8 list \<times> 'p comedi_subdevice) option" where
  "cfc_read_array_from_buffer s num_bytes =
     do {
       a \<leftarrow> sd_async s;
       if num_bytes = 0 then Some (0, [], s)
       else
         case comedi_buf_read_alloc a num_bytes of (num_bytes, a) \<Rightarrow>
         do {
           data \<leftarrow> comedi_buf_memcpy_from a 0 num_bytes;
           (_, a) \<leftarrow> comedi_buf_read_free a num_bytes;
           a \<leftarrow> increment_scan_progress s a num_bytes;
           Some (num_bytes, data, s\<lparr>sd_async := Some (a\<lparr>events := events a OR COMEDI_CB_BLOCK\<rparr>)\<rparr>)
         }
     }"

definition cfc_write_to_buffer ::
  "munge_ctx \<Rightarrow> 'p comedi_subdevice \<Rightarrow> sampl_t \<Rightarrow> (u32 \<times> 'p comedi_subdevice) option" where
  "cfc_write_to_buffer mc s data = cfc_write_array_to_buffer mc s (bytes_of_sampl data) 2"

definition cfc_write_long_to_buffer ::
  "munge_ctx \<Rightarrow> 'p comedi_subdevice \<Rightarrow> lsampl_t \<Rightarrow> (u32 \<times> 'p comedi_subdevice) option" where
  "cfc_write_long_to_buffer mc s data = cfc_write_array_to_buffer mc s (bytes_of_lsampl data) 4"

definition cfc_handle_events ::
  "('p, 'h) driver_ops \<Rightarrow> ('p, 'h) comedi_device \<Rightarrow> nat \<Rightarrow>
    (u32 \<times> notice list \<times> ('p, 'h) comedi_device) option" where
  "cfc_handle_events ops dev i =
     do {
       s \<leftarrow> subd dev i;
       a \<leftarrow> sd_async s;
       let evs = events a
       in if evs = 0 then Some (evs, [], dev)
          else do {
            dev \<leftarrow> (if evs AND (COMEDI_CB_EOA OR COMEDI_CB_ERROR OR COMEDI_CB_OVERFLOW) \<noteq> 0
                    then do { f \<leftarrow> sd_cancel s; (_, dev) \<leftarrow> op_cancel ops f dev i; Some dev }
                    else Some dev);
            (notices, dev) \<leftarrow> comedi_event dev i;
            Some (evs, notices, dev)
          }
     }"

lemma increment_scan_progress_ok:
  assumes "cfc_bytes_per_scan s a \<noteq> 0"
  obtains p e where "increment_scan_progress s a n = Some (a\<lparr>scan_progress := p, events := e\<rparr>)"
proof (cases "cfc_bytes_per_scan s a \<le> scan_progress a + n")
  case True
  then show ?thesis using assms by (intro that) (auto simp: increment_scan_progress_def umod_def Let_def)
next
  case False
  then show ?thesis
    by (intro that[of "events a" "scan_progress a + n"]) (simp add: increment_scan_progress_def Let_def)
qed

lemma cfc_bytes_per_scan_cmd: "cmd a' = cmd a \<Longrightarrow> cfc_bytes_per_scan s a' = cfc_bytes_per_scan s a"
  by (cases "sd_type s") (simp_all add: cfc_bytes_per_scan_def)

end
