(* ===== verification/Stream_Channel.thy ===== *)
theory Stream_Channel
  imports Stream_Content Byte_Channel Comedi_Fc
begin

text \<open>
  The two helpers of \<open>comedi_fc.c\<close> are the ends of a byte channel: without munging the bytes come out
  as they went in; with a munge callback that keeps \<open>munge_contract\<close> they come out as the callback
  makes of the whole logical stream, wherever the ring wraps.
\<close>

unbundle bit_operations_syntax

definition fc_put :: "munge_ctx \<Rightarrow> u8 list \<Rightarrow> 'p comedi_subdevice \<Rightarrow> (nat \<times> 'p comedi_subdevice) option" where
  "fc_put mc xs s =
     map_option (\<lambda>(n, s). (unat n, s)) (cfc_write_array_to_buffer mc s xs (of_nat (length xs)))"

definition fc_get :: "nat \<Rightarrow> 'p comedi_subdevice \<Rightarrow> (u8 list \<times> 'p comedi_subdevice) option" where
  "fc_get n s = map_option (\<lambda>(_, xs, s). (xs, s)) (cfc_read_array_from_buffer s (of_nat n))"

definition on_async :: "('p comedi_subdevice \<Rightarrow> comedi_async \<Rightarrow> 'x) \<Rightarrow> 'x \<Rightarrow> 'p comedi_subdevice \<Rightarrow> 'x" where
  "on_async h d s = (case sd_async s of None \<Rightarrow> d | Some a \<Rightarrow> h s a)"

definition fc_idle :: "munge_ctx \<Rightarrow> 'p comedi_subdevice \<Rightarrow> bool" where
  "fc_idle mc = on_async (\<lambda>s a. ring_ok a \<and> buf_read_alloc_count a = buf_read_count a \<and>
     cfc_bytes_per_scan s a \<noteq> 0 \<and> \<not> munging mc a \<and> munge_count a = buf_write_count a) False"

definition fc_munging :: "munge_ctx \<Rightarrow> u32 \<Rightarrow> u32 \<Rightarrow> 'p comedi_subdevice \<Rightarrow> bool" where
  "fc_munging mc sz L = on_async (\<lambda>s a. ring_ok a \<and> buf_read_alloc_count a = buf_read_count a \<and>
     cfc_bytes_per_scan s a \<noteq> 0 \<and> munging mc a \<and> munge_pos_ok sz a \<and> mc_sample_bytes mc = sz \<and>
     chanlist_len (cmd a) = L \<and> length (unmunged a) < unat sz) False"

definition fc_queued :: "'p comedi_subdevice \<Rightarrow> u8 list" where
  "fc_queued = on_async (\<lambda>s. readable) []"

definition fc_phase :: "'p comedi_subdevice \<Rightarrow> u8 list \<times> nat" where
  "fc_phase = on_async (\<lambda>s. munge_phase) ([], 0)"

lemma u32_of_nat: "n < 2147483648 \<Longrightarrow> unat (of_nat n :: u32) = n"
  by (simp add: unat_of_nat)

lemma scan_async_frame [simp]:
  "cfc_bytes_per_scan (s\<lparr>sd_async := x\<rparr>) a = cfc_bytes_per_scan s a"
  by (cases "sd_type s") (simp_all add: cfc_bytes_per_scan_def bytes_per_sample_def)

text \<open>A write either does not fit, and changes nothing but the allocation and the overflow event,
  or goes through the copy and the completion.\<close>

lemma fc_put_cases:
  assumes a: "sd_async s = Some a" and ok: "ring_ok a" and scan: "cfc_bytes_per_scan s a \<noteq> 0"
    and n: "length xs < 2147483648" "xs \<noteq> []"
  obtains (full) c e where
      "fc_put mc xs s = Some (0, s\<lparr>sd_async := Some (a\<lparr>buf_write_alloc_count := c, events := e\<rparr>)\<rparr>)"
      and "ring_ok (a\<lparr>buf_write_alloc_count := c\<rparr>)"
  | (fits) a0 where "a0 = a\<lparr>buf_write_alloc_count := buf_write_alloc_count a + of_nat (length xs)\<rparr>"
      and "ring_ok a0"
      and "length xs \<le> rd a0 (buf_write_alloc_count a0) - rd a0 (buf_write_count a0)"
      and "\<And>a1 a'. comedi_buf_memcpy_to a0 0 xs (of_nat (length xs)) = Some a1 \<Longrightarrow>
        comedi_buf_write_free mc a1 (of_nat (length xs)) = Some (of_nat (length xs), a') \<Longrightarrow>
        cmd a' = cmd a \<Longrightarrow>
        \<exists>p e. fc_put mc xs s = Some (length xs, s\<lparr>sd_async := Some (a'\<lparr>scan_progress := p, events := e\<rparr>)\<rparr>)"
proof -
  let ?n = "of_nat (length xs) :: u32"
  have un: "unat ?n = length xs" using n by (simp add: u32_of_nat)
  have nz: "?n \<noteq> 0" using un n by (metis length_0_conv unat_0)
  have n31: "unat ?n < 2147483648" using un n by simp
  obtain k where alloc: "comedi_buf_write_alloc a ?n = (k, a\<lparr>buf_write_alloc_count := buf_write_alloc_count a + k\<rparr>)"
    and k: "unat k = min (unat ?n) (unat (prealloc_bufsz a) - rd a (buf_write_alloc_count a))"
    using ok n31 by (rule write_alloc_spec)
  have ok0: "ring_ok (a\<lparr>buf_write_alloc_count := buf_write_alloc_count a + k\<rparr>)"
    using k by (intro ring_ok_write_alloc[OF ok]) simp
  show thesis
  proof (cases "k = ?n")
    case False
    then show thesis
      using full[of "events a OR COMEDI_CB_OVERFLOW" "buf_write_alloc_count a + k"] ok0 a nz alloc
      by (simp add: fc_put_def cfc_write_array_to_buffer_def)
  next
    case True
    let ?a0 = "a\<lparr>buf_write_alloc_count := buf_write_alloc_count a + ?n\<rparr>"
    have le: "rd a (buf_write_count a) \<le> rd a (buf_write_alloc_count a)" using ok by (rule ring_okE)
    have "rd a (buf_write_alloc_count a + ?n) = rd a (buf_write_alloc_count a) + unat ?n"
      using ring_ok_sizes[OF ok] n31 by (intro rd_add) linarith
    then have room: "length xs \<le> rd ?a0 (buf_write_alloc_count ?a0) - rd ?a0 (buf_write_count ?a0)"
      using le un by simp
    show thesis
    proof (rule fits[OF refl _ room])
      show "ring_ok ?a0" using ok0 True by simp
      fix a1 a'
      assume r: "comedi_buf_memcpy_to ?a0 0 xs ?n = Some a1"
        "comedi_buf_write_free mc a1 ?n = Some (?n, a')" "cmd a' = cmd a"
      obtain p e where "increment_scan_progress s a' ?n = Some (a'\<lparr>scan_progress := p, events := e\<rparr>)"
        using scan cfc_bytes_per_scan_cmd[OF r(3), of s] increment_scan_progress_ok[of s a'] by metis
      then show "\<exists>p e. fc_put mc xs s =
          Some (length xs, s\<lparr>sd_async := Some (a'\<lparr>scan_progress := p, events := e\<rparr>)\<rparr>)"
        using a nz alloc True r un
        by (intro exI[of _ p] exI[of _ "e OR COMEDI_CB_BLOCK"])
          (simp add: fc_put_def cfc_write_array_to_buffer_def)
    qed
  qed
qed

lemma fc_put_Nil: "sd_async s = Some a \<Longrightarrow> fc_put mc [] s = Some (0, s)"
  by (simp add: fc_put_def cfc_write_array_to_buffer_def)

lemma fc_get_spec:
  assumes a: "sd_async s = Some a" and ok: "ring_ok a" and scan: "cfc_bytes_per_scan s a \<noteq> 0"
    and none: "buf_read_alloc_count a = buf_read_count a" and n: "n < 2147483648"
  obtains a' where "fc_get n s = Some (take n (readable a), s\<lparr>sd_async := Some a'\<rparr>)"
    and "ring_ok a'" and "readable a' = drop n (readable a)" and "unmunged a' = unmunged a"
    and "buf_read_alloc_count a' = buf_read_count a'" and "munge_chan a' = munge_chan a"
    and "cmd a' = cmd a" and "munge_count a' = munge_count a" and "buf_write_count a' = buf_write_count a"
    and "\<And>sz. munge_pos_ok sz a \<Longrightarrow> munge_pos_ok sz a'"
proof (cases "n = 0")
  case True
  have "s\<lparr>sd_async := Some a\<rparr> = s" using a by (cases s) simp
  then show thesis
    using that[of a] a ok none True by (simp add: fc_get_def cfc_read_array_from_buffer_def)
next
  case False
  let ?n = "of_nat n :: u32"
  have un: "unat ?n = n" using n by (simp add: u32_of_nat)
  then have nz: "?n \<noteq> 0" using False by (metis unat_0)
  obtain k a1 a2 where r: "comedi_buf_read_alloc a ?n = (k, a1)"
    "comedi_buf_memcpy_from a1 0 k = Some (take (unat ?n) (readable a))"
    "comedi_buf_read_free a1 k = Some (k, a2)"
    and a2: "ring_ok a2" "readable a2 = drop (unat ?n) (readable a)" "unmunged a2 = unmunged a"
    "buf_read_alloc_count a2 = buf_read_count a2" "munge_chan a2 = munge_chan a"
    "cmd a2 = cmd a" "munge_count a2 = munge_count a" "buf_write_count a2 = buf_write_count a"
    "\<And>sz. munge_pos_ok sz a \<Longrightarrow> munge_pos_ok sz a2"
    using stream_pull[OF ok none, of ?n] n un by metis
  obtain p e where "increment_scan_progress s a2 k = Some (a2\<lparr>scan_progress := p, events := e\<rparr>)"
    using scan cfc_bytes_per_scan_cmd[OF a2(6), of s] increment_scan_progress_ok[of s a2] by metis
  then have "fc_get n s = Some (take n (readable a),
      s\<lparr>sd_async := Some (a2\<lparr>scan_progress := p, events := e OR COMEDI_CB_BLOCK\<rparr>)\<rparr>)"
    using a nz r un by (simp add: fc_get_def cfc_read_array_from_buffer_def)
  then show thesis by (rule that) (use a2 un in simp_all)
qed

section \<open>The buffer is a byte channel\<close>

lemma fc_idle_put:
  assumes "fc_idle mc s" and "length xs < 2147483648"
  shows "\<exists>n s'. fc_put mc xs s = Some (n, s') \<and> fc_idle mc s' \<and> n \<le> length xs \<and>
    fc_queued s' = fc_queued s @ take n xs \<and> s' = s\<lparr>sd_async := sd_async s'\<rparr> \<and>
    map_option cmd (sd_async s') = map_option cmd (sd_async s)"
proof -
  obtain a where a: "sd_async s = Some a" and ok: "ring_ok a" and scan: "cfc_bytes_per_scan s a \<noteq> 0"
    and none: "buf_read_alloc_count a = buf_read_count a"
    and idle: "\<not> munging mc a" "munge_count a = buf_write_count a"
    using assms(1) by (auto simp: fc_idle_def on_async_def split: option.splits)
  show ?thesis
  proof (cases "xs = []")
    case True
    then show ?thesis using assms(1) fc_put_Nil[OF a] by simp
  next
    case False
    show ?thesis
    proof (rule fc_put_cases[OF a ok scan assms(2) False, of mc])
      fix c e
      assume "fc_put mc xs s = Some (0, s\<lparr>sd_async := Some (a\<lparr>buf_write_alloc_count := c, events := e\<rparr>)\<rparr>)"
        and "ring_ok (a\<lparr>buf_write_alloc_count := c\<rparr>)"
      then show ?thesis
        using none idle scan a
          cfc_bytes_per_scan_cmd[of "a\<lparr>buf_write_alloc_count := c, events := e\<rparr>" a s]
        by (simp add: fc_idle_def fc_queued_def on_async_def munging_def)
    next
      fix a0
      let ?n = "of_nat (length xs) :: u32"
      assume a0: "a0 = a\<lparr>buf_write_alloc_count := buf_write_alloc_count a + ?n\<rparr>" and ok0: "ring_ok a0"
        and room: "length xs \<le> rd a0 (buf_write_alloc_count a0) - rd a0 (buf_write_count a0)"
        and res: "\<And>a1 a'. comedi_buf_memcpy_to a0 0 xs ?n = Some a1 \<Longrightarrow>
          comedi_buf_write_free mc a1 ?n = Some (?n, a') \<Longrightarrow> cmd a' = cmd a \<Longrightarrow>
          \<exists>p e. fc_put mc xs s = Some (length xs, s\<lparr>sd_async := Some (a'\<lparr>scan_progress := p, events := e\<rparr>)\<rparr>)"
      have idle0: "\<not> munging mc a0" "munge_count a0 = buf_write_count a0"
        using idle by (simp_all add: a0 munging_def)
      obtain a1 a' where r: "comedi_buf_memcpy_to a0 0 xs ?n = Some a1"
        "comedi_buf_write_free mc a1 ?n = Some (?n, a')"
        and a': "ring_ok a'" "cmd a' = cmd a0" "munge_count a' = buf_write_count a'"
        "buf_read_count a' = buf_read_count a0" "buf_read_alloc_count a' = buf_read_alloc_count a0"
        "readable a' = readable a0 @ xs"
        using idle_append[OF ok0 idle0, of ?n xs] room assms(2) by (metis u32_of_nat)
      then obtain p e where "fc_put mc xs s =
          Some (length xs, s\<lparr>sd_async := Some (a'\<lparr>scan_progress := p, events := e\<rparr>)\<rparr>)"
        using res[OF r] a0 by auto
      then show ?thesis
        using a' none idle scan a
          cfc_bytes_per_scan_cmd[of "a'\<lparr>scan_progress := p, events := e\<rparr>" a s]
        by (simp add: fc_idle_def fc_queued_def on_async_def munging_def a0)
    qed
  qed
qed

lemma fc_idle_get:
  assumes "fc_idle mc s" and "n < 2147483648"
  shows "\<exists>s'. fc_get n s = Some (take n (fc_queued s), s') \<and> fc_idle mc s' \<and>
    fc_queued s' = drop n (fc_queued s)"
proof -
  obtain a where a: "sd_async s = Some a" and ok: "ring_ok a" and scan: "cfc_bytes_per_scan s a \<noteq> 0"
    and none: "buf_read_alloc_count a = buf_read_count a"
    and idle: "\<not> munging mc a" "munge_count a = buf_write_count a"
    using assms(1) by (auto simp: fc_idle_def on_async_def split: option.splits)
  obtain a' where r: "fc_get n s = Some (take n (readable a), s\<lparr>sd_async := Some a'\<rparr>)"
    and a': "ring_ok a'" "readable a' = drop n (readable a)" "buf_read_alloc_count a' = buf_read_count a'"
      "cmd a' = cmd a" "munge_count a' = munge_count a" "buf_write_count a' = buf_write_count a"
    using fc_get_spec[OF a ok scan none assms(2)] by metis
  then show ?thesis
    using a idle scan cfc_bytes_per_scan_cmd[of a' a s]
    by (simp add: fc_idle_def fc_queued_def on_async_def munging_def)
qed

interpretation plain: byte_channel "fc_idle mc" fc_queued "\<lambda>_. ()" "fc_put mc" fc_get
  "\<lambda>_ xs. xs" "\<lambda>_ _. ()" 2147483648 for mc
proof (unfold_locales, goal_cases)
  case (1 s xs)
  then show ?case using fc_idle_put by fastforce
next
  case (2 s n)
  then obtain s' where "fc_get n s = Some (take n (fc_queued s), s')" "fc_idle mc s'"
    "fc_queued s' = drop n (fc_queued s)" using fc_idle_get by blast
  then show ?case by auto
qed simp_all

text \<open>With a munge callback that keeps its contract, the channel is the callback over whole samples.\<close>

lemma length_munge_adv: "0 < sz \<Longrightarrow> length (fst (munge_adv sz L q xs)) < sz"
proof -
  assume "0 < sz"
  let ?k = "length (fst q @ xs)"
  have "?k - (?k - ?k mod sz) = ?k mod sz" by (rule diff_diff_cancel) (rule mod_less_eq_dividend)
  then have "length (fst (munge_adv sz L q xs)) = ?k mod sz"
    by (simp only: munge_adv_def Let_def fst_conv length_drop)
  then show ?thesis using \<open>0 < sz\<close> by simp
qed

lemma munge_adv_Nil: "length (fst q) < sz \<Longrightarrow> snd q < L \<Longrightarrow> munge_adv sz L q [] = q"
  by (cases q) (simp add: munge_adv_def)

context munge_contract
begin

abbreviation "mctx \<equiv> \<lparr>mc_munge = Some f, mc_sample_bytes = sz\<rparr>"

lemma fc_mungingE:
  assumes "fc_munging mctx sz L s"
  obtains a where "sd_async s = Some a" and "ring_ok a" and "cfc_bytes_per_scan s a \<noteq> 0"
    and "buf_read_alloc_count a = buf_read_count a" and "cmd_flags (cmd a) AND CMDF_RAWDATA = 0"
    and "munge_pos_ok sz a" and "chanlist_len (cmd a) = L" and "length (unmunged a) < unat sz"
    and "fc_queued s = readable a" and "fc_phase s = munge_phase a"
  using assms
  by (auto simp: fc_munging_def on_async_def munging_def fc_queued_def fc_phase_def split: option.splits)

lemma fc_munging_Nil:
  assumes "fc_munging mctx sz L s"
  shows "munge_trans f (unat sz) (unat L) (fc_phase s) [] = []"
    and "munge_adv (unat sz) (unat L) (fc_phase s) [] = fc_phase s"
proof -
  obtain a where a: "munge_pos_ok sz a" "chanlist_len (cmd a) = L" "length (unmunged a) < unat sz"
    "fc_phase s = munge_phase a" using assms by (rule fc_mungingE)
  then show "munge_trans f (unat sz) (unat L) (fc_phase s) [] = []"
    by (simp add: munge_trans_def munge_phase_def)
  show "munge_adv (unat sz) (unat L) (fc_phase s) [] = fc_phase s"
    using a by (intro munge_adv_Nil) (auto simp: munge_phase_def munge_pos_ok_def)
qed

lemma fc_munging_put:
  assumes inv: "fc_munging mctx sz L s" and "length xs < 2147483648"
  shows "\<exists>n s'. fc_put mctx xs s = Some (n, s') \<and> fc_munging mctx sz L s' \<and> n \<le> length xs \<and>
    fc_queued s' = fc_queued s @ munge_trans f (unat sz) (unat L) (fc_phase s) (take n xs) \<and>
    fc_phase s' = munge_adv (unat sz) (unat L) (fc_phase s) (take n xs)"
proof -
  note nil = fc_munging_Nil[OF inv]
  obtain a where a: "sd_async s = Some a" and ok: "ring_ok a" and scan: "cfc_bytes_per_scan s a \<noteq> 0"
    and none: "buf_read_alloc_count a = buf_read_count a"
    and raw: "cmd_flags (cmd a) AND CMDF_RAWDATA = 0" and pos: "munge_pos_ok sz a"
    and L: "chanlist_len (cmd a) = L" and un: "length (unmunged a) < unat sz"
    and q: "fc_queued s = readable a" "fc_phase s = munge_phase a"
    using inv by (rule fc_mungingE)
  show ?thesis
  proof (cases "xs = []")
    case True
    then show ?thesis using inv fc_put_Nil[OF a] nil by simp
  next
    case False
    show ?thesis
    proof (rule fc_put_cases[OF a ok scan assms(2) False, of mctx])
      fix c e
      let ?a = "a\<lparr>buf_write_alloc_count := c, events := e\<rparr>"
      assume "fc_put mctx xs s = Some (0, s\<lparr>sd_async := Some ?a\<rparr>)"
        and "ring_ok (a\<lparr>buf_write_alloc_count := c\<rparr>)"
      moreover have "munge_phase ?a = munge_phase a" by (simp add: munge_phase_def)
      ultimately show ?thesis
        using none raw pos L un scan q nil cfc_bytes_per_scan_cmd[of ?a a s]
        by (simp add: fc_munging_def fc_queued_def fc_phase_def on_async_def munging_def)
    next
      fix a0
      let ?n = "of_nat (length xs) :: u32"
      assume a0: "a0 = a\<lparr>buf_write_alloc_count := buf_write_alloc_count a + ?n\<rparr>" and ok0: "ring_ok a0"
        and room: "length xs \<le> rd a0 (buf_write_alloc_count a0) - rd a0 (buf_write_count a0)"
        and res: "\<And>a1 a'. comedi_buf_memcpy_to a0 0 xs ?n = Some a1 \<Longrightarrow>
          comedi_buf_write_free mctx a1 ?n = Some (?n, a') \<Longrightarrow> cmd a' = cmd a \<Longrightarrow>
          \<exists>p e. fc_put mctx xs s = Some (length xs, s\<lparr>sd_async := Some (a'\<lparr>scan_progress := p, events := e\<rparr>)\<rparr>)"
      have pos0: "munge_pos_ok sz a0" and cmd0: "cmd a0 = cmd a"
        and L0: "chanlist_len (cmd a0) = L" and raw0: "cmd_flags (cmd a0) AND CMDF_RAWDATA = 0"
        and n: "length xs = unat ?n"
        using pos L raw assms(2) by (simp_all add: a0 u32_of_nat)
      have keep: "readable a0 = readable a" "munge_phase a0 = munge_phase a"
        "buf_read_alloc_count a0 = buf_read_count a0"
        using none by (simp_all add: a0 munge_phase_def)
      obtain a1 a' where r: "comedi_buf_memcpy_to a0 0 xs ?n = Some a1"
        "comedi_buf_write_free mctx a1 ?n = Some (?n, a')"
        and a': "ring_ok a'" "munge_pos_ok sz a'" "cmd a' = cmd a0"
        "buf_read_count a' = buf_read_count a0" "buf_read_alloc_count a' = buf_read_alloc_count a0"
        "readable a' = readable a0 @ munge_trans f (unat sz) (unat L) (munge_phase a0) xs"
        "munge_phase a' = munge_adv (unat sz) (unat L) (munge_phase a0) xs"
        by (rule munge_append[OF ok0 pos0 L0 _ raw0 _ _ n, of mctx]) (simp, simp, use room n in simp, rule that)
      then obtain p e where put: "fc_put mctx xs s =
          Some (length xs, s\<lparr>sd_async := Some (a'\<lparr>scan_progress := p, events := e\<rparr>)\<rparr>)"
        using res[OF r] cmd0 by auto
      let ?a' = "a'\<lparr>scan_progress := p, events := e\<rparr>"
      have "munge_phase ?a' = munge_phase a'" by (simp add: munge_phase_def)
      moreover have "length (unmunged a') < unat sz"
        using length_munge_adv[OF sz_pos, of "unat L" "munge_phase a0" xs]
        unfolding a'(7)[symmetric] by (simp add: munge_phase_def)
      ultimately show ?thesis
        using put a' keep raw L scan q cmd0 cfc_bytes_per_scan_cmd[of ?a' a s]
        by (simp add: fc_munging_def fc_queued_def fc_phase_def on_async_def munging_def)
    qed
  qed
qed

lemma fc_munging_get:
  assumes inv: "fc_munging mctx sz L s" and n: "n < 2147483648"
  shows "\<exists>s'. fc_get n s = Some (take n (fc_queued s), s') \<and> fc_munging mctx sz L s' \<and>
    fc_queued s' = drop n (fc_queued s) \<and> fc_phase s' = fc_phase s"
proof -
  obtain a where a: "sd_async s = Some a" and ok: "ring_ok a" and scan: "cfc_bytes_per_scan s a \<noteq> 0"
    and none: "buf_read_alloc_count a = buf_read_count a"
    and raw: "cmd_flags (cmd a) AND CMDF_RAWDATA = 0" and pos: "munge_pos_ok sz a"
    and L: "chanlist_len (cmd a) = L" and un: "length (unmunged a) < unat sz"
    and q: "fc_queued s = readable a" "fc_phase s = munge_phase a"
    using inv by (rule fc_mungingE)
  obtain a' where "fc_get n s = Some (take n (readable a), s\<lparr>sd_async := Some a'\<rparr>)"
    and "ring_ok a'" and "readable a' = drop n (readable a)" and "unmunged a' = unmunged a"
    and "buf_read_alloc_count a' = buf_read_count a'" and "munge_chan a' = munge_chan a"
    and "cmd a' = cmd a" and "munge_pos_ok sz a'"
    using fc_get_spec[OF a ok scan none n] pos by metis
  then show ?thesis
    using q raw L un scan cfc_bytes_per_scan_cmd[of a' a s]
    by (simp add: fc_munging_def fc_queued_def fc_phase_def on_async_def munging_def munge_phase_def)
qed

end

sublocale munge_contract \<subseteq> munged: byte_channel
  "fc_munging \<lparr>mc_munge = Some f, mc_sample_bytes = sz\<rparr> sz L" fc_queued fc_phase
  "fc_put \<lparr>mc_munge = Some f, mc_sample_bytes = sz\<rparr>" fc_get
  "munge_trans f (unat sz) (unat L)" "munge_adv (unat sz) (unat L)" 2147483648
proof (unfold_locales, goal_cases)
  case (1 s xs)
  then show ?case by (rule fc_munging_put)
next
  case (2 s n)
  then obtain s' where "fc_get n s = Some (take n (fc_queued s), s')" "fc_munging mctx sz L s'"
    "fc_queued s' = drop n (fc_queued s)" "fc_phase s' = fc_phase s" using fc_munging_get by blast
  then show ?case by auto
qed (simp_all add: munge_trans_append munge_adv_append fc_munging_Nil)

end
