(* ===== verification/Driver_Munge.thy ===== *)
theory Driver_Munge
  imports Stream_Channel
begin

text \<open>
  The munge callbacks of the low-level drivers, each with the driver data it reads as arguments, on a
  little-endian host (where \<open>le16_to_cpu\<close> and \<open>cpu_to_le16\<close> are the identity and \<open>be16_to_cpu\<close> swaps
  the bytes). All of them keep \<open>munge_contract\<close>.
\<close>

unbundle bit_operations_syntax

section \<open>The sample loops\<close>

text \<open>
  The common loop: \<open>g\<close> rewrites the samples in place, knowing the channel index, which goes round the
  channel list; a trailing partial sample is left alone.
\<close>

fun munge_sampls :: "(u32 \<Rightarrow> sampl_t \<Rightarrow> sampl_t) \<Rightarrow> u32 \<Rightarrow> u8 list \<Rightarrow> u32 \<Rightarrow> u8 list" where
  "munge_sampls g len (b0 # b1 # bs) chan_index =
     bytes_of_sampl (g chan_index (sampl_of_bytes [b0, b1])) @
     munge_sampls g len bs ((chan_index + 1) mod len)"
| "munge_sampls g len bs chan_index = bs"

fun munge_lsampls :: "(u32 \<Rightarrow> lsampl_t \<Rightarrow> lsampl_t) \<Rightarrow> u32 \<Rightarrow> u8 list \<Rightarrow> u32 \<Rightarrow> u8 list" where
  "munge_lsampls g len (b0 # b1 # b2 # b3 # bs) chan_index =
     bytes_of_lsampl (g chan_index (lsampl_of_bytes [b0, b1, b2, b3])) @
     munge_lsampls g len bs ((chan_index + 1) mod len)"
| "munge_lsampls g len bs chan_index = bs"

section \<open>The drivers' callbacks\<close>

definition ni_ai_munge :: "(u32 \<Rightarrow> u32) \<Rightarrow> bool \<Rightarrow> u32 \<Rightarrow> u8 list \<Rightarrow> u32 \<Rightarrow> u8 list" where
  "ni_ai_munge ai_offset lsampl len =
     (if lsampl then munge_lsampls (\<lambda>chan_index x. x + ai_offset chan_index) len
      else munge_sampls (\<lambda>chan_index x. ucast ((ucast x :: u32) + ai_offset chan_index)) len)"

definition ni_ao_munge :: "nat \<Rightarrow> bool \<Rightarrow> u32 list \<Rightarrow> u32 \<Rightarrow> u8 list \<Rightarrow> u32 \<Rightarrow> u8 list" where
  "ni_ao_munge aobits ao_unipolar chans len =
     munge_sampls (\<lambda>chan_index x.
       let offset = push_bit (aobits - 1) 1;
           rng = CR_RANGE (chans ! unat chan_index)
       in if \<not> ao_unipolar \<or> rng AND 1 = 0 then ucast ((ucast x :: u32) - offset) else x)
     len"

definition be16_to_cpu :: "sampl_t \<Rightarrow> sampl_t" where
  "be16_to_cpu x = (push_bit 8 x OR drop_bit 8 x)"

definition pci9118_ai_munge :: "bool \<Rightarrow> bool \<Rightarrow> u32 \<Rightarrow> u8 list \<Rightarrow> u32 \<Rightarrow> u8 list" where
  "pci9118_ai_munge usedma ai16bits len =
     munge_sampls (\<lambda>_ x.
       let x = (if usedma then be16_to_cpu x else x)
       in if ai16bits then x XOR 0x8000 else drop_bit 4 x AND 0x0fff)
     len"

definition das16_ai_munge :: "nat \<Rightarrow> u32 \<Rightarrow> u8 list \<Rightarrow> u32 \<Rightarrow> u8 list" where
  "das16_ai_munge ai_nbits len =
     munge_sampls (\<lambda>_ x. if ai_nbits = 12 then drop_bit 4 x AND 0xfff else x) len"

definition pci9111_ai_munge :: "nat \<Rightarrow> u32 \<Rightarrow> u8 list \<Rightarrow> u32 \<Rightarrow> u8 list" where
  "pci9111_ai_munge resolution len =
     munge_sampls (\<lambda>_ x.
       if resolution = 16 then (x AND 0xFFFF) XOR 0x8000
       else (drop_bit 4 x AND 0x0FFF) XOR 0x0800)
     len"

definition pci9112_ai_munge :: "nat \<Rightarrow> u32 \<Rightarrow> u8 list \<Rightarrow> u32 \<Rightarrow> u8 list" where
  "pci9112_ai_munge resolution len =
     munge_sampls (\<lambda>_ x.
       if resolution = 16 then (x AND 0xFFFF) XOR 0x8000
       else (drop_bit 4 x AND 0x0FFF) XOR 0x0800)
     len"

definition pci224_ao_munge :: "nat \<Rightarrow> bool \<Rightarrow> u32 \<Rightarrow> u8 list \<Rightarrow> u32 \<Rightarrow> u8 list" where
  "pci224_ao_munge ao_bits unipolar len =
     munge_sampls (\<lambda>_ x.
       let offset = (if unipolar then 0 else 32768)
       in ucast (push_bit (16 - ao_bits) (ucast x :: u32) - offset))
     len"

section \<open>The contract\<close>

lemma length_munge_sampls [simp]: "length (munge_sampls g len bs c) = length bs"
  by (induction g len bs c rule: munge_sampls.induct) (simp_all add: bytes_of_sampl_def)

lemma length_munge_lsampls [simp]: "length (munge_lsampls g len bs c) = length bs"
  by (induction g len bs c rule: munge_lsampls.induct) (simp_all add: bytes_of_lsampl_def)

lemma next_chan:
  fixes c len :: u32
  assumes "unat c < unat len" and "unat len < 2147483648"
  shows "unat ((c + 1) mod len) = (unat c + 1) mod unat len"
proof -
  have "unat (c + 1) = unat c + 1" using assms by (subst unat_add_u32) simp_all
  then show ?thesis by (simp add: unat_mod_distrib)
qed

lemma munge_sampls_append:
  assumes "length xs = k * 2" and "unat c < unat len" and "unat len < 2147483648"
  shows "munge_sampls g len (xs @ ys) c =
    munge_sampls g len xs c @ munge_sampls g len ys (of_nat ((unat c + k) mod unat len))"
  using assms
proof (induction k arbitrary: xs c)
  case 0
  then show ?case by simp
next
  case (Suc k)
  then obtain b0 b1 bs where xs: "xs = b0 # b1 # bs" and len: "length bs = k * 2"
    by (cases xs rule: list.exhaust; cases "tl xs") auto
  let ?c = "(c + 1) mod len"
  have c': "unat ?c = (unat c + 1) mod unat len" using Suc.prems by (intro next_chan)
  then have lt: "unat ?c < unat len" using Suc.prems(2) by simp
  have "(unat ?c + k) mod unat len = (unat c + Suc k) mod unat len"
    unfolding c' by (simp add: mod_add_left_eq)
  then show ?case
    using Suc.IH[OF len lt Suc.prems(3)] by (simp add: xs)
qed

lemma munge_lsampls_append:
  assumes "length xs = k * 4" and "unat c < unat len" and "unat len < 2147483648"
  shows "munge_lsampls g len (xs @ ys) c =
    munge_lsampls g len xs c @ munge_lsampls g len ys (of_nat ((unat c + k) mod unat len))"
  using assms
proof (induction k arbitrary: xs c)
  case 0
  then show ?case by simp
next
  case (Suc k)
  have "length xs = Suc (Suc (Suc (Suc (k * 4))))" using Suc.prems(1) by simp
  then obtain b0 b1 b2 b3 bs where xs: "xs = b0 # b1 # b2 # b3 # bs" and len: "length bs = k * 4"
    by (auto simp: length_Suc_conv)
  let ?c = "(c + 1) mod len"
  have c': "unat ?c = (unat c + 1) mod unat len" using Suc.prems by (intro next_chan)
  then have lt: "unat ?c < unat len" using Suc.prems(2) by simp
  have "(unat ?c + k) mod unat len = (unat c + Suc k) mod unat len"
    unfolding c' by (simp add: mod_add_left_eq)
  then show ?case
    using Suc.IH[OF len lt Suc.prems(3)] by (simp add: xs)
qed

lemma sampls_contract:
  assumes "0 < unat len" and "unat len < 2147483648"
  shows "munge_contract (munge_sampls g len) 2 len"
proof (unfold_locales, goal_cases)
  case (2 xs k c ys)
  then show ?case using assms by (intro munge_sampls_append) simp_all
qed (use assms in simp_all)

lemma lsampls_contract:
  assumes "0 < unat len" and "unat len < 2147483648"
  shows "munge_contract (munge_lsampls g len) 4 len"
proof (unfold_locales, goal_cases)
  case (2 xs k c ys)
  then show ?case using assms by (intro munge_lsampls_append) simp_all
qed (use assms in simp_all)

lemma driver_munge_contracts:
  assumes "0 < unat len" and "unat len < 2147483648"
  shows "munge_contract (ni_ai_munge offs ls len) (if ls then 4 else 2) len"
    and "munge_contract (ni_ao_munge aobits uni chans len) 2 len"
    and "munge_contract (pci9118_ai_munge dma ai16 len) 2 len"
    and "munge_contract (das16_ai_munge nbits len) 2 len"
    and "munge_contract (pci9111_ai_munge res len) 2 len"
    and "munge_contract (pci9112_ai_munge res len) 2 len"
    and "munge_contract (pci224_ao_munge aobits uni len) 2 len"
  using sampls_contract[OF assms] lsampls_contract[OF assms]
  by (auto simp: ni_ai_munge_def ni_ao_munge_def pci9118_ai_munge_def das16_ai_munge_def
    pci9111_ai_munge_def pci9112_ai_munge_def pci224_ao_munge_def)

text \<open>A scan of 512 channels is as long as the offset table of the NI boards; a single channel the least.\<close>

interpretation ni_ai: munge_contract "ni_ai_munge offs False 512" 2 512 for offs
  using driver_munge_contracts(1)[of 512 offs False] by simp

interpretation pci9118: munge_contract "pci9118_ai_munge dma ai16 16" 2 16 for dma ai16
  by (rule driver_munge_contracts) simp_all

end
