(* ===== verification/Example_State.thy ===== *)
theory Example_State
  imports Comedi_Types
begin

text \<open>
  A small device to try the theorems on: one analog input subdevice with a buffer of \<open>n\<close> bytes, and
  callbacks that do nothing but succeed.
\<close>

section \<open>A fresh device\<close>

definition fresh_cmd :: comedi_cmd where
  "fresh_cmd = \<lparr>cmd_subdev = 0, cmd_flags = 0, start_src = 0, start_arg = 0, scan_begin_src = 0,
     scan_begin_arg = 0, convert_src = 0, convert_arg = 0, scan_end_src = 0, scan_end_arg = 0,
     stop_src = 0, stop_arg = 0, chanlist = Null_ptr, chanlist_len = 16, cmd_data = 0, cmd_data_len = 0\<rparr>"

definition fresh_async :: "nat \<Rightarrow> comedi_async" where
  "fresh_async n = \<lparr>prealloc_buf = Some (replicate n 0), prealloc_bufsz = of_nat n,
     buf_page_list = None, n_buf_pages = 0, max_bufsize = 65536, mmap_count = 0,
     buf_write_count = 0, buf_write_alloc_count = 0, buf_read_count = 0, buf_read_alloc_count = 0,
     buf_write_ptr = 0, buf_read_ptr = 0, cur_chan = 0, scan_progress = 0, munge_chan = 0,
     munge_count = 0, munge_ptr = 0, events = 0, cmd = fresh_cmd, cb_mask = 0, cb_func = None,
     cb_arg = 0, inttrig = None\<rparr>"

definition paged_async :: comedi_async where
  "paged_async = (fresh_async 4096)\<lparr>buf_page_list := Some [Some 7], n_buf_pages := 1,
     max_bufsize := 0xFFFFFFFF\<rparr>"

definition fresh_subd :: "nat \<Rightarrow> nat comedi_subdevice" where
  "fresh_subd n = \<lparr>sd_type = COMEDI_SUBD_AI, sd_n_chan = 16, sd_subdev_flags = 0,
     sd_len_chanlist = 16, sd_private = None, sd_async = Some (fresh_async n), sd_lock = None,
     sd_busy = None, sd_runflags = 0, sd_io_bits = 0, sd_maxdata = 4095, sd_maxdata_list = None,
     sd_flags = 0, sd_flaglist = None, sd_settling_time_0 = 0, sd_range_table = None,
     sd_range_table_list = None, sd_insn_read = None, sd_insn_write = None, sd_insn_bits = None,
     sd_insn_config = None, sd_do_cmd = None, sd_do_cmdtest = None, sd_poll = None,
     sd_cancel = None, sd_buf_change = None, sd_munge = None, sd_async_dma_dir = DMA_NONE,
     sd_state = 0, sd_class_dev = False, sd_minor = -1\<rparr>"

definition fresh_dev :: "nat comedi_subdevice list \<Rightarrow> (nat, nat) comedi_device" where
  "fresh_dev subds = \<lparr>dv_use_count = 0, dv_driver = None, dv_private = None, dv_class_dev = False,
     dv_minor = 0, dv_hw_dev = None, dv_board_name = None, dv_board_ptr = None, dv_attached = True,
     dv_rt = False, dv_in_request_module = False, dv_n_subdevices = of_nat (length subds),
     dv_subdevices = subds, dv_iobase = 0, dv_irq = 0, dv_read_subdev = None,
     dv_write_subdev = None, dv_open = None, dv_close = None, dv_hw = 0\<rparr>"

definition idle_ops :: "(nat, nat) driver_ops" where
  "idle_ops = \<lparr>op_insn = (\<lambda>_ dev _ insn data. Some (sint (insn_n insn), dev, insn, data)),
     op_do_cmd = (\<lambda>_ dev _. Some (0, dev)), op_do_cmdtest = (\<lambda>_ dev _ c. Some (0, dev, c)),
     op_poll = (\<lambda>_ dev _. Some (0, dev)), op_cancel = (\<lambda>_ dev _. Some (0, dev)),
     op_buf_change = (\<lambda>_ dev _ _. Some (0, dev)), op_munge = (\<lambda>_ _ _ xs _. xs),
     op_inttrig = (\<lambda>_ dev _ _. Some (1, dev)), op_attach = (\<lambda>_ dev _. Some (0, dev)),
     op_detach = (\<lambda>_ dev. Some (0, dev)), op_open = (\<lambda>_ dev. Some (0, dev)),
     op_close = (\<lambda>_ dev. Some dev)\<rparr>"

lemma subd_fresh_dev [simp]: "subd (fresh_dev [s]) 0 = Some s"
  by (simp add: subd_def fresh_dev_def)

end
