(* ===== verification/Buffer_Properties.thy ===== *)
theory Buffer_Properties
  imports Driver_Munge Example_State
begin

text \<open>
  The properties of the streaming buffer: the invariant, the amounts granted, the integrity of the
  stream, and what requests of \<open>2 ^ 31\<close> bytes and more do to it.
\<close>

unbundle bit_operations_syntax

section \<open>A fresh buffer\<close>

lemma ring_ok_fresh: "0 < n \<Longrightarrow> n < 2147483648 \<Longrightarrow> ring_ok (fresh_async n)"
  by (simp add: ring_ok_def buf_ok_def counters_ok_def positions_ok_def rd_def fresh_async_def u32_of_nat)

lemma fc_idle_fresh: "0 < n \<Longrightarrow> n < 2147483648 \<Longrightarrow> fc_idle \<lparr>mc_munge = None, mc_sample_bytes = 2\<rparr> (fresh_subd n)"
  using ring_ok_fresh[of n]
  by (simp add: fc_idle_def on_async_def fresh_subd_def munging_def cfc_bytes_per_scan_def bytes_per_sample_def fresh_cmd_def fresh_async_def)

lemma fc_munging_fresh:
  "fc_munging \<lparr>mc_munge = Some f, mc_sample_bytes = 2\<rparr> 2 16 (fresh_subd 8)"
  using ring_ok_fresh[of 8]
  by (simp add: fc_munging_def on_async_def fresh_subd_def munging_def munge_pos_ok_def unmunged_def
      cfc_bytes_per_scan_def bytes_per_sample_def rd_def, simp add: fresh_async_def fresh_cmd_def)

context munge_contract
begin

lemma munged_run:
  assumes "fc_munging \<lparr>mc_munge = Some f, mc_sample_bytes = sz\<rparr> sz L s"
    and "\<And>op. op \<in> set ops \<Longrightarrow> op_size op < 2147483648"
  shows "\<exists>acc out s'. run_stream (fc_put \<lparr>mc_munge = Some f, mc_sample_bytes = sz\<rparr>) fc_get ops s =
      Some (acc, out, s') \<and>
    out @ fc_queued s' = fc_queued s @ munge_trans f (unat sz) (unat L) (fc_phase s) acc"
  using munged.run_conserves[OF assms] by blast

end

section \<open>The properties\<close>

lemma write_alloc_strict_spec:
  assumes "ring_ok a" and "unat n < 2147483648"
  shows "comedi_buf_write_alloc_strict a n =
    (if rd a (buf_write_alloc_count a) + unat n \<le> unat (prealloc_bufsz a)
     then (n, a\<lparr>buf_write_alloc_count := buf_write_alloc_count a + n\<rparr>) else (0, a))"
proof -
  let ?fe = "buf_read_count a + prealloc_bufsz a"
  have "0 <s (buf_write_alloc_count a + n - ?fe) \<longleftrightarrow>
      unat (prealloc_bufsz a) < rd a (buf_write_alloc_count a) + unat n"
    using ring_ok_sizes[OF assms(1)] assms(2) by (subst rd_exceeds[of a]) (simp_all add: rd_free_end)
  then show ?thesis by (auto simp: comedi_buf_write_alloc_strict_def Let_def)
qed

lemma ring_ok_after_alloc:
  assumes ok: "ring_ok a" and n: "unat n < 2147483648"
  shows "ring_ok (snd (comedi_buf_write_alloc a n))"
    and "ring_ok (snd (comedi_buf_write_alloc_strict a n))"
    and "ring_ok (snd (comedi_buf_read_alloc a n))"
proof -
  show "ring_ok (snd (comedi_buf_write_alloc a n))"
    by (rule write_alloc_spec[OF ok n]) (simp add: ring_ok_write_alloc[OF ok])
  show "ring_ok (snd (comedi_buf_write_alloc_strict a n))"
    using ok by (simp add: write_alloc_strict_spec[OF ok n] ring_ok_write_alloc)
  show "ring_ok (snd (comedi_buf_read_alloc a n))"
    by (rule read_alloc_spec[OF ok n]) (simp add: ring_ok_read_alloc[OF ok])
qed

lemma ring_ok_after_read_free:
  assumes ok: "ring_ok a" and n: "unat n < 2147483648"
  shows "\<exists>k a'. comedi_buf_read_free a n = Some (k, a') \<and> ring_ok a'"
proof -
  obtain k where r: "comedi_buf_read_free a n =
      Some (k, a\<lparr>buf_read_count := buf_read_count a + k,
        buf_read_ptr := of_nat ((unat (buf_read_ptr a) + unat k) mod unat (prealloc_bufsz a))\<rparr>)"
    and k: "unat k = min (unat n) (rd a (buf_read_alloc_count a))"
    using ok n by (rule read_free_spec)
  have "ring_ok (a\<lparr>buf_read_count := buf_read_count a + k,
        buf_read_ptr := of_nat ((unat (buf_read_ptr a) + unat k) mod unat (prealloc_bufsz a))\<rparr>)"
    using k ring_ok_sizes[OF ok] by (intro ring_ok_read_free[OF ok]) (simp_all add: unat_of_nat_mod_u32)
  with r show ?thesis by blast
qed

lemma ring_ok_after_write_free:
  assumes ok: "ring_ok a" and n: "unat n < 2147483648" and idle: "\<not> munging mc a"
  shows "\<exists>k a'. comedi_buf_write_free mc a n = Some (k, a') \<and> ring_ok a'"
proof -
  obtain k where r: "comedi_buf_write_free mc a n = Some (k, a\<lparr>
      buf_write_count := buf_write_count a + k,
      buf_write_ptr := of_nat ((unat (buf_write_ptr a) + unat k) mod unat (prealloc_bufsz a)),
      munge_count := buf_write_count a + k\<rparr>)"
    and k: "unat k = min (unat n) (rd a (buf_write_alloc_count a) - rd a (buf_write_count a))"
    using ok n idle by (rule write_free_idle_spec)
  define p where "p = (of_nat ((unat (buf_write_ptr a) + unat k) mod unat (prealloc_bufsz a)) :: u32)"
  define a1 where "a1 = a\<lparr>buf_write_count := buf_write_count a + k, buf_write_ptr := p\<rparr>"
  have ok1: "ring_ok a1"
    using k ring_ok_sizes[OF ok] unfolding a1_def
    by (intro ring_ok_write_advance[OF ok]) (simp_all add: p_def unat_of_nat_mod_u32)
  obtain b where b: "prealloc_buf a = Some b" "length b = unat (prealloc_bufsz a)"
    and le: "rd a (munge_count a) \<le> rd a (buf_write_count a)"
      "rd a (buf_write_count a) \<le> rd a (buf_write_alloc_count a)"
    using ok by (rule ring_okE)
  have "rd a (buf_write_count a + k) = rd a (buf_write_count a) + unat k"
    using k le ring_ok_sizes[OF ok] by (intro rd_add) linarith
  then have "unat (buf_write_count a + k - munge_count a) =
      rd a1 (buf_write_count a1) - rd a1 (munge_count a1)"
    using le by (subst rd_diff[of a]) (simp_all add: a1_def)
  then have "ring_ok (a1\<lparr>prealloc_buf := Some b,
      munge_count := munge_count a1 + (buf_write_count a + k - munge_count a)\<rparr>)"
    using b by (intro ring_ok_munge_advance[OF ok1]) (simp_all add: a1_def)
  moreover have "a1\<lparr>prealloc_buf := Some b,
      munge_count := munge_count a1 + (buf_write_count a + k - munge_count a)\<rparr> =
      a1\<lparr>munge_count := buf_write_count a + k\<rparr>"
    using b by (intro comedi_async.equality) (simp_all add: a1_def)
  ultimately show ?thesis using r by (simp add: a1_def p_def)
qed



text \<open>
  An allocation grants exactly the minimum of the request and what is there: free space for the
  writer, munged and unclaimed data for the reader, although the counters have wrapped.
\<close>

theorem write_alloc_grants_minimum:
  assumes "ring_ok a" and "unat n < 2147483648"
  shows "unat (fst (comedi_buf_write_alloc a n)) =
      min (unat n) (unat (prealloc_bufsz a) - unat (buf_write_alloc_count a - buf_read_count a)) \<and>
    unat (fst (comedi_buf_read_alloc a n)) =
      min (unat n) (unat (munge_count a - buf_read_alloc_count a))"
proof
  show "unat (fst (comedi_buf_write_alloc a n)) =
      min (unat n) (unat (prealloc_bufsz a) - unat (buf_write_alloc_count a - buf_read_count a))"
    by (rule write_alloc_spec[OF assms]) (simp add: rd_def)
  have "rd a (buf_read_alloc_count a) \<le> rd a (munge_count a)" using assms(1) by (rule ring_okE)
  then have "unat (munge_count a - buf_read_alloc_count a) =
      rd a (munge_count a) - rd a (buf_read_alloc_count a)" by (rule rd_diff)
  then show "unat (fst (comedi_buf_read_alloc a n)) =
      min (unat n) (unat (munge_count a - buf_read_alloc_count a))"
    by (rule_tac read_alloc_spec[OF assms]) simp
qed

text \<open>
  C2. Over any sequence of writes and reads through the driver helpers, on a stream without munging,
  every operation returns and what has been delivered, followed by what is still queued, is what was
  queued before followed by everything accepted: no byte is lost, duplicated or reordered, wherever
  the ring wraps.
\<close>

theorem plain_stream_integrity:
  assumes "fc_idle mc s" and "\<And>op. op \<in> set ops \<Longrightarrow> op_size op < 2147483648"
  shows "\<exists>acc out s'. run_stream (fc_put mc) fc_get ops s = Some (acc, out, s') \<and> fc_idle mc s' \<and>
    out @ fc_queued s' = fc_queued s @ acc"
  using plain.run_conserves[OF assms] by blast

theorem plain_stream_integrity_witness:
  "\<exists>acc out s'. run_stream (fc_put \<lparr>mc_munge = None, mc_sample_bytes = 2\<rparr>) fc_get
     [Put [1, 2, 3, 4, 5, 6], Get 4, Put [7, 8, 9, 10, 11], Get 9] (fresh_subd 8) = Some (acc, out, s') \<and>
     out @ fc_queued s' = fc_queued (fresh_subd 8) @ acc"
proof -
  have "fc_idle \<lparr>mc_munge = None, mc_sample_bytes = 2\<rparr> (fresh_subd 8)" by (rule fc_idle_fresh) simp_all
  then show ?thesis
    using plain_stream_integrity[of _ "fresh_subd 8" "[Put [1, 2, 3, 4, 5, 6], Get 4, Put [7, 8, 9, 10, 11], Get 9]"]
    by fastforce
qed

text \<open>
  C3. With any munge callback that keeps the munge contract, the same holds with the accepted bytes
  replaced by the callback applied to all the whole samples of the logical stream, with the channel
  index going round the channel list across calls and across the wrap of the ring.
\<close>

theorem munged_stream_integrity:
  assumes "munge_contract f sz L"
    and "fc_munging \<lparr>mc_munge = Some f, mc_sample_bytes = sz\<rparr> sz L s"
    and "\<And>op. op \<in> set ops \<Longrightarrow> op_size op < 2147483648"
  shows "\<exists>acc out s'. run_stream (fc_put \<lparr>mc_munge = Some f, mc_sample_bytes = sz\<rparr>) fc_get ops s =
      Some (acc, out, s') \<and>
    out @ fc_queued s' = fc_queued s @ munge_trans f (unat sz) (unat L) (fc_phase s) acc"
  using munge_contract.munged_run[OF assms] by blast

theorem munged_stream_integrity_witness:
  "\<exists>acc out s'. run_stream (fc_put \<lparr>mc_munge = Some (pci9118_ai_munge True False 16), mc_sample_bytes = 2\<rparr>)
     fc_get [Put [1, 2, 3, 4, 5], Get 4, Put [6, 7, 8], Get 4] (fresh_subd 8) = Some (acc, out, s')"
  using munged_stream_integrity[OF driver_munge_contracts(3)[of 16 True False] fc_munging_fresh,
      of "[Put [1, 2, 3, 4, 5], Get 4, Put [6, 7, 8], Get 4]"] by fastforce

theorem write_alloc_grants_minimum_witness:
  "unat (fst (comedi_buf_write_alloc (fresh_async 8) 9)) = 8"
  using write_alloc_grants_minimum[OF ring_ok_fresh, of 8 9] by (simp add: fresh_async_def)

section \<open>Single samples\<close>

lemma sampl_bytes [simp]: "sampl_of_bytes (bytes_of_sampl x) = x"
  by (rule bit_word_eqI)
    (auto simp: sampl_of_bytes_def bytes_of_sampl_def bit_simps)

lemma even_fit: "even (p :: nat) \<Longrightarrow> even N \<Longrightarrow> p < N \<Longrightarrow> p + 2 \<le> N"
  by presburger

lemma ring_ok_write_even:
  assumes "ring_ok a" and "even (unat (prealloc_bufsz a))" and "even (unat (buf_write_ptr a))"
  shows "unat (buf_write_ptr a) + 2 \<le> unat (prealloc_bufsz a)"
  using assms ring_ok_sizes[OF assms(1)] by (intro even_fit) simp_all

lemma buf_put_appends:
  assumes ok: "ring_ok a" and idle: "\<not> munging mc a" "munge_count a = buf_write_count a"
    and even: "even (unat (prealloc_bufsz a))" "even (unat (buf_write_ptr a))"
    and room: "rd a (buf_write_alloc_count a) + 2 \<le> unat (prealloc_bufsz a)"
  obtains a' where "comedi_buf_put mc a x = Some (1, a')" and "ring_ok a'"
    and "readable a' = readable a @ bytes_of_sampl x" and "buf_read_count a' = buf_read_count a"
    and "buf_read_alloc_count a' = buf_read_alloc_count a" and "munge_count a' = buf_write_count a'"
    and "cmd a' = cmd a" and "prealloc_bufsz a' = prealloc_bufsz a" and "buf_read_ptr a' = buf_read_ptr a"
proof -
  have two: "unat (2 :: u32) < 2147483648" "length (bytes_of_sampl x) = unat (2 :: u32)"
    by (simp_all add: bytes_of_sampl_def)
  let ?a0 = "a\<lparr>buf_write_alloc_count := buf_write_alloc_count a + 2\<rparr>"
  have alloc: "comedi_buf_write_alloc_strict a 2 = (2, ?a0)"
    using write_alloc_strict_spec[OF ok two(1)] room by simp
  have ok0: "ring_ok ?a0" using ring_ok_after_alloc(2)[OF ok two(1)] by (simp add: alloc)
  have le: "rd a (buf_write_count a) \<le> rd a (buf_write_alloc_count a)" using ok by (rule ring_okE)
  have "rd a (buf_write_alloc_count a + 2) = rd a (buf_write_alloc_count a) + unat (2 :: u32)"
    using room ring_ok_sizes[OF ok] by (intro rd_add) simp
  then have room0: "unat (2 :: u32) \<le> rd ?a0 (buf_write_alloc_count ?a0) - rd ?a0 (buf_write_count ?a0)"
    using le by simp
  have idle0: "\<not> munging mc ?a0" "munge_count ?a0 = buf_write_count ?a0"
    using idle by (simp_all add: munging_def)
  obtain a1 a' where r: "comedi_buf_memcpy_to ?a0 0 (bytes_of_sampl x) 2 = Some a1"
    "comedi_buf_write_free mc a1 2 = Some (2, a')"
    and a': "ring_ok a'" "cmd a' = cmd ?a0" "munge_count a' = buf_write_count a'"
    "buf_read_count a' = buf_read_count ?a0" "buf_read_alloc_count a' = buf_read_alloc_count ?a0"
    "readable a' = readable ?a0 @ bytes_of_sampl x"
    "prealloc_bufsz a' = prealloc_bufsz ?a0" "buf_read_ptr a' = buf_read_ptr ?a0"
    using idle_append[OF ok0 idle0 room0 two(2)] by metis
  obtain b where b: "prealloc_buf a = Some b" "length b = unat (prealloc_bufsz a)" using ok by (rule ring_okE)
  have two_le: "unat (2 :: u32) \<le> unat (prealloc_bufsz ?a0)" using room by simp
  have "store_bytes ?a0 (buf_write_ptr ?a0) (bytes_of_sampl x) = Some a1"
    using memcpy_to_spec[OF ok0 _ two_le two(2), of b] r(1) b
      ring_ok_write_even[OF ok even] two(2) by (subst store_bytes_ring) auto
  then have "comedi_buf_put mc a x = Some (1, a')"
    using alloc r(2) by (simp add: comedi_buf_put_def)
  then show thesis by (rule that) (use a' in simp_all)
qed

lemma buf_get_takes:
  assumes ok: "ring_ok a" and none: "buf_read_alloc_count a = buf_read_count a"
    and even: "even (unat (prealloc_bufsz a))" "even (unat (buf_read_ptr a))"
    and some: "2 \<le> length (readable a)"
  obtains a' where "comedi_buf_get a = Some (1, Some (sampl_of_bytes (take 2 (readable a))), a')"
    and "ring_ok a'" and "readable a' = drop 2 (readable a)"
proof -
  have two: "unat (2 :: u32) < 2147483648" by simp
  obtain k a1 a' where r: "comedi_buf_read_alloc a 2 = (k, a1)"
    "unat k = min (unat (2 :: u32)) (length (readable a))"
    "comedi_buf_memcpy_from a1 0 k = Some (take (unat (2 :: u32)) (readable a))"
    "comedi_buf_read_free a1 k = Some (k, a')"
    and a': "ring_ok a'" "readable a' = drop (unat (2 :: u32)) (readable a)"
    using stream_pull[OF ok none two] by metis
  have k: "k = 2" using r(2) some by (simp add: word_unat_eq_iff)
  have a1: "a1 = a\<lparr>buf_read_alloc_count := buf_read_alloc_count a + 2\<rparr>"
    using r(1) k by (auto simp: comedi_buf_read_alloc_def Let_def diff_eq_eq add.commute split: if_splits)
  obtain b where b: "prealloc_buf a = Some b" "length b = unat (prealloc_bufsz a)"
    and rp: "unat (buf_read_ptr a) < unat (prealloc_bufsz a)" using ok by (rule ring_okE)
  have len: "length (readable a) = rd a (munge_count a)" using b by (simp add: readable_def)
  have "unat (buf_read_ptr a) + 2 \<le> length b" using even_fit[OF even(2,1) rp] b by simp
  then have load: "load_bytes a1 (buf_read_ptr a1) 2 = Some (take 2 (readable a))"
    using load_bytes_ring[of a1 b "buf_read_ptr a1" 2] b some len
    by (simp add: a1 readable_def take_ring_get min_def)
  have "\<not> munge_count a - buf_read_count a < 2"
    using some len by (simp add: rd_def word_less_nat_alt)
  then have "comedi_buf_get a = Some (1, Some (sampl_of_bytes (take 2 (readable a))), a')"
    using r(1,4) load by (simp add: comedi_buf_get_def comedi_buf_read_n_available_def k)
  then show thesis by (rule that) (use a' in simp_all)
qed

text \<open>
  A sample put into an empty, idle buffer with an even size and write position comes out of the next
  get unchanged, and the buffer is empty again.
\<close>

theorem buf_put_get_roundtrip:
  assumes "ring_ok a" and "\<not> munging mc a" and "munge_count a = buf_write_count a"
    and "even (unat (prealloc_bufsz a))" and "even (unat (buf_write_ptr a))"
    and "rd a (buf_write_alloc_count a) + 2 \<le> unat (prealloc_bufsz a)"
    and "buf_read_alloc_count a = buf_read_count a" and "readable a = []"
  shows "\<exists>a1 a2. comedi_buf_put mc a x = Some (1, a1) \<and> comedi_buf_get a1 = Some (1, Some x, a2) \<and>
    ring_ok a2 \<and> readable a2 = []"
proof -
  obtain a1 where put: "comedi_buf_put mc a x = Some (1, a1)" and ok1: "ring_ok a1"
    and read: "readable a1 = readable a @ bytes_of_sampl x"
    and keep: "buf_read_count a1 = buf_read_count a" "buf_read_alloc_count a1 = buf_read_alloc_count a"
      "prealloc_bufsz a1 = prealloc_bufsz a" "buf_read_ptr a1 = buf_read_ptr a"
    using buf_put_appends[OF assms(1-6)] by metis
  obtain b where "prealloc_buf a = Some b" and rp: "unat (buf_read_ptr a) < unat (prealloc_bufsz a)"
    and wp: "unat (buf_write_ptr a) =
       (unat (buf_read_ptr a) + rd a (buf_write_count a)) mod unat (prealloc_bufsz a)"
    using assms(1) by (rule ring_okE)
  then have "rd a (buf_write_count a) = 0"
    using assms(3,8) by (simp add: readable_def) (metis length_0_conv length_ring_get)
  then have "even (unat (buf_read_ptr a1))" using wp rp assms(5) keep by simp
  then obtain a2 where "comedi_buf_get a1 = Some (1, Some (sampl_of_bytes (take 2 (readable a1))), a2)"
    and "ring_ok a2" and "readable a2 = drop 2 (readable a1)"
    using buf_get_takes[OF ok1] assms(4,7,8) keep read by (auto simp: bytes_of_sampl_def)
  then show ?thesis
    using put read assms(8) sampl_bytes[of x] by (simp add: bytes_of_sampl_def)
qed

theorem buf_put_get_roundtrip_witness:
  "\<exists>a1 a2. comedi_buf_put \<lparr>mc_munge = None, mc_sample_bytes = 2\<rparr> (fresh_async 8) 0x1234 = Some (1, a1) \<and>
    comedi_buf_get a1 = Some (1, Some 0x1234, a2)"
  using buf_put_get_roundtrip[of "fresh_async 8" "\<lparr>mc_munge = None, mc_sample_bytes = 2\<rparr>" "0x1234"]
    ring_ok_fresh[of 8]
  by (auto simp: fresh_async_def munging_def rd_def readable_def)

section \<open>Requests of 2 GB and more\<close>

text \<open>
  A request of \<open>2 ^ 31\<close> bytes passes the signed overflow test of \<open>comedi_buf_read_alloc\<close> on an empty
  buffer of eight bytes, is granted whole and breaks the invariant.
\<close>

theorem huge_request_breaks_ring:
  "ring_ok (fresh_async 8) \<and>
   comedi_buf_read_alloc (fresh_async 8) 0x80000000 =
     (0x80000000, (fresh_async 8)\<lparr>buf_read_alloc_count := 0x80000000\<rparr>) \<and>
   \<not> ring_ok ((fresh_async 8)\<lparr>buf_read_alloc_count := 0x80000000\<rparr>)"
  by (simp add: ring_ok_fresh)
    (simp add: comedi_buf_read_alloc_def fresh_async_def ring_ok_def counters_ok_def rd_def word_sless_alt)

text \<open>
  C4. A write of \<open>2 ^ 31 + 8\<close> bytes to an empty buffer of eight bytes with a munge callback is granted
  whole, and completing it runs into the \<open>BUG()\<close> of \<open>comedi_buf_munge\<close>.
\<close>

theorem huge_request_is_a_bug:
  "fst (comedi_buf_write_alloc (fresh_async 8) 0x80000008) = 0x80000008 \<and>
   comedi_buf_write_free \<lparr>mc_munge = Some (pci224_ao_munge 12 False 16), mc_sample_bytes = 2\<rparr>
     (snd (comedi_buf_write_alloc (fresh_async 8) 0x80000008)) 0x80000008 = None"
  by (simp add: comedi_buf_write_alloc_def fresh_async_def fresh_cmd_def comedi_buf_write_free_def
    comedi_buf_munge_def umod_def munge_loop.simps word_sless_alt)
end
