(* ===== verification/Buffer_Alloc.thy ===== *)
theory Buffer_Alloc
  imports Async_Buffer Example_State "HOL-Library.Multiset"
begin

text \<open>
  Allocation of the streaming buffer (\<open>comedi_buf_alloc\<close> of \<open>comedi/drivers.c\<close>) and its resizing
  (\<open>resize_async_buffer\<close> of \<open>comedi/comedi_fops.c\<close>), on a 64-bit kernel. The allocator is an argument:
  \<open>alloc_env\<close> says which of the calls succeed, which page frame the i-th request gets and what the
  mapped pages hold. The functions return the frames taken and the frames given back, so that leaks
  and double frees can be stated.
\<close>

unbundle bit_operations_syntax

record alloc_env =
  ae_list_ok :: bool
  ae_pages_ok :: bool
  ae_frame :: "nat \<Rightarrow> nat option"
  ae_vmap_ok :: bool
  ae_content :: "nat \<Rightarrow> u8"

record page_flow =
  pages_taken :: "nat list"
  pages_freed :: "nat list"

section \<open>Allocation\<close>

definition page_round_up :: "u64 \<Rightarrow> u64" where
  "page_round_up new_size = (new_size + PAGE_SIZE - 1) AND PAGE_MASK"

definition free_buf_pages :: "comedi_async \<Rightarrow> (nat list \<times> comedi_async) option" where
  "free_buf_pages a =
     (case buf_page_list a of
        None \<Rightarrow> Some ([], a)
      | Some pages \<Rightarrow>
          if length pages < unat (n_buf_pages a) then None
          else Some (List.map_filter id (take (unat (n_buf_pages a)) pages),
                 a\<lparr>buf_page_list := None, n_buf_pages := 0\<rparr>))"

fun get_pages :: "(nat \<Rightarrow> nat option) \<Rightarrow> nat \<Rightarrow> nat \<Rightarrow> nat list" where
  "get_pages fr i 0 = []"
| "get_pages fr i (Suc k) =
     (case fr i of None \<Rightarrow> [] | Some p \<Rightarrow> p # get_pages fr (Suc i) k)"

definition unmap_buf :: "comedi_async \<Rightarrow> comedi_async" where
  "unmap_buf a =
     (if prealloc_buf a \<noteq> None then a\<lparr>prealloc_buf := None, prealloc_bufsz := 0\<rparr> else a)"

definition alloc_buf_pages ::
  "alloc_env \<Rightarrow> comedi_async \<Rightarrow> u64 \<Rightarrow> nat list \<Rightarrow> int \<times> comedi_async \<times> page_flow" where
  "alloc_buf_pages env a new_size freed =
     (let n_pages = (ucast (drop_bit PAGE_SHIFT new_size) :: u32);
          n = unat n_pages;
          frames = (if ae_list_ok env \<and> ae_pages_ok env then get_pages (ae_frame env) 0 n else [])
      in if length frames = n \<and> ae_vmap_ok env
         then (0, a\<lparr>
             prealloc_buf := Some (map (ae_content env) [0..<unat new_size]),
             prealloc_bufsz := ucast new_size,
             buf_page_list := Some (map Some frames), n_buf_pages := n_pages\<rparr>,
             \<lparr>pages_taken = frames, pages_freed = freed\<rparr>)
         else (- ENOMEM, a\<lparr>buf_page_list := None\<rparr>,
             \<lparr>pages_taken = frames, pages_freed = freed @ frames\<rparr>))"

definition comedi_buf_alloc ::
  "alloc_env \<Rightarrow> comedi_async \<Rightarrow> u64 \<Rightarrow> (int \<times> comedi_async \<times> page_flow) option" where
  "comedi_buf_alloc env a new_size =
     (let new_size = page_round_up new_size in
      if prealloc_buf a \<noteq> None \<and> ucast (prealloc_bufsz a) = new_size
      then Some (0, a, \<lparr>pages_taken = [], pages_freed = []\<rparr>)
      else do {
        (freed, a) \<leftarrow> free_buf_pages (unmap_buf a);
        Some (if new_size = 0
              then (0, a\<lparr>prealloc_bufsz := ucast new_size\<rparr>,
                    \<lparr>pages_taken = [], pages_freed = freed\<rparr>)
              else alloc_buf_pages env a new_size freed)
      })"

section \<open>Resizing\<close>

definition resize_async_buffer ::
  "('p, 'h) driver_ops \<Rightarrow> alloc_env \<Rightarrow> ('p, 'h) comedi_device \<Rightarrow> nat \<Rightarrow> u32 \<Rightarrow>
    (int \<times> ('p, 'h) comedi_device \<times> page_flow) option" where
  "resize_async_buffer ops env dev i new_size =
     (let none = \<lparr>pages_taken = [], pages_freed = []\<rparr> in
      do {
        s \<leftarrow> subd dev i;
        a \<leftarrow> sd_async s;
        if max_bufsize a < new_size then Some (- EPERM, dev, none)
        else if sd_busy s \<noteq> None then Some (- EBUSY, dev, none)
        else if mmap_count a \<noteq> 0 then Some (- EBUSY, dev, none)
        else if prealloc_buf a = None then Some (- EINVAL, dev, none)
        else do {
          let new_size = (ucast (page_round_up (ucast new_size)) :: u32)
          in do {
            (retval, a, flow) \<leftarrow> comedi_buf_alloc env a (ucast new_size);
            let dev = set_subd i (s\<lparr>sd_async := Some a\<rparr>) dev
            in if retval < 0 then Some (retval, dev, flow)
               else
                 case sd_buf_change s of
                   None \<Rightarrow> Some (0, dev, flow)
                 | Some f \<Rightarrow>
                     do {
                       (retval, dev) \<leftarrow> op_buf_change ops f dev i (ucast new_size);
                       Some (if retval < 0 then retval else 0, dev, flow)
                     }
          }
        }
      })"

section \<open>What the allocator does\<close>

text \<open>The page frames a buffer owns, and what a consistent page list looks like.\<close>

definition owned_pages :: "comedi_async \<Rightarrow> nat list" where
  "owned_pages a = (case buf_page_list a of None \<Rightarrow> [] | Some ps \<Rightarrow> List.map_filter id ps)"

definition pages_ok :: "comedi_async \<Rightarrow> bool" where
  "pages_ok a \<longleftrightarrow>
     (case buf_page_list a of
        None \<Rightarrow> prealloc_buf a = None
      | Some ps \<Rightarrow> length ps = unat (n_buf_pages a) \<and> None \<notin> set ps \<and>
          (case prealloc_buf a of None \<Rightarrow> False | Some b \<Rightarrow> length b = unat (prealloc_bufsz a)) \<and>
          unat (prealloc_bufsz a) = 4096 * length ps)"

lemma length_get_pages: "length (get_pages fr i k) \<le> k"
  by (induction fr i k rule: get_pages.induct) (auto split: option.split)

lemma map_filter_Some [simp]: "List.map_filter id (map Some xs) = xs"
  by (induction xs) (simp_all add: List.map_filter_simps)

lemma mask_eq_decr_exp_12: "(4095 :: u64) = mask 12"
  by (simp add: mask_eq_exp_minus_1)

lemma page_mask: "x AND PAGE_MASK = x div 4096 * 4096"
proof -
  have "x AND PAGE_MASK = push_bit 12 (drop_bit 12 x)"
    by (rule bit_word_eqI) (auto simp: bit_simps PAGE_MASK_def PAGE_SIZE_def mask_eq_decr_exp_12)
  then show ?thesis by (simp add: push_bit_eq_mult drop_bit_eq_div)
qed

lemma unat_page_floor: "unat (x div 4096 * 4096 :: u64) = unat x div 4096 * 4096"
proof -
  have le: "unat x div 4096 * 4096 \<le> unat x" by simp
  have lt: "unat x < 18446744073709551616" using unsigned_less[of x, where ?'a = nat] by simp
  have d: "unat (x div 4096) = unat x div 4096" by (simp add: unat_div_distrib)
  show ?thesis
    using le lt by (simp add: unat_word_ariths d mod_less)
qed

lemma page_round_up_spec:
  assumes "unat n \<le> 18446744073709547520"
  shows "unat (page_round_up n) = (unat n + 4095) div 4096 * 4096"
proof -
  have s: "unat (n + 4095) = unat n + 4095"
    using assms by (simp add: unat_plus_if')
  have "n + PAGE_SIZE - 1 = n + 4095" by (simp add: PAGE_SIZE_def)
  then have "page_round_up n = (n + 4095) div 4096 * 4096"
    by (simp only: page_round_up_def page_mask)
  then show ?thesis by (simp only: unat_page_floor s)
qed


lemma free_buf_pages_spec:
  assumes "buf_page_list a = None \<or> length (the (buf_page_list a)) = unat (n_buf_pages a)"
  shows "free_buf_pages a = Some (owned_pages a,
    if buf_page_list a = None then a else a\<lparr>buf_page_list := None, n_buf_pages := 0\<rparr>)"
  using assms by (auto simp: free_buf_pages_def owned_pages_def split: option.splits)

lemma n_pages_of_size:
  fixes S :: u64
  assumes "unat S < 4294967296" and "4096 dvd unat S"
  shows "4096 * unat (ucast (drop_bit PAGE_SHIFT S) :: u32) = unat S"
    and "unat (ucast S :: u32) = unat S"
proof -
  show sz: "unat (ucast S :: u32) = unat S"
    using assms(1) by (rule unat_u32_of_u64)
  have "unat (drop_bit PAGE_SHIFT S) = unat S div 4096"
    by (simp add: PAGE_SHIFT_def drop_bit_eq_div unat_div_distrib)
  moreover have "unat S div 4096 < 4294967296" using assms(1) by simp
  ultimately have "unat (ucast (drop_bit PAGE_SHIFT S) :: u32) = unat S div 4096"
    by (subst unat_u32_of_u64) simp_all
  then show "4096 * unat (ucast (drop_bit PAGE_SHIFT S) :: u32) = unat S" using assms(2) by simp
qed

lemma free_unmapped_spec:
  assumes "pages_ok a"
  obtains a2 where "free_buf_pages (unmap_buf a) = Some (owned_pages a, a2)"
    and "buf_page_list a2 = None" and "prealloc_buf a2 = None"
proof -
  have "buf_page_list (unmap_buf a) = None \<or>
      length (the (buf_page_list (unmap_buf a))) = unat (n_buf_pages (unmap_buf a))"
    using assms by (auto simp: unmap_buf_def pages_ok_def split: option.splits)
  from free_buf_pages_spec[OF this]
  have "free_buf_pages (unmap_buf a) = Some (owned_pages a,
      if buf_page_list (unmap_buf a) = None then unmap_buf a
      else (unmap_buf a)\<lparr>buf_page_list := None, n_buf_pages := 0\<rparr>)"
    by (simp add: owned_pages_def unmap_buf_def)
  then show thesis by (rule that) (simp_all add: unmap_buf_def)
qed

lemma alloc_buf_pages_spec:
  assumes S32: "unat S < 4294967296" and dvd: "4096 dvd unat S"
    and a: "buf_page_list a = None" "prealloc_buf a = None"
  shows "\<exists>ret a' flow. alloc_buf_pages env a S freed = (ret, a', flow) \<and> pages_ok a' \<and>
    mset freed + mset (pages_taken flow) = mset (owned_pages a') + mset (pages_freed flow) \<and>
    (ret = 0 \<and> unat (prealloc_bufsz a') = unat S \<or>
     ret = - ENOMEM \<and> owned_pages a' = [] \<and> prealloc_buf a' = None)"
proof -
  note n = n_pages_of_size[OF S32 dvd]
  let ?n = "ucast (drop_bit PAGE_SHIFT S) :: u32"
  define fr where "fr = (if ae_list_ok env \<and> ae_pages_ok env then get_pages (ae_frame env) 0 (unat ?n) else [])"
  show ?thesis
  proof (cases "length fr = unat ?n \<and> ae_vmap_ok env")
    case True
    then have "alloc_buf_pages env a S freed = (0, a\<lparr>
        prealloc_buf := Some (map (ae_content env) [0..<unat S]), prealloc_bufsz := ucast S,
        buf_page_list := Some (map Some fr), n_buf_pages := ?n\<rparr>,
        \<lparr>pages_taken = fr, pages_freed = freed\<rparr>)"
      unfolding alloc_buf_pages_def Let_def fr_def[symmetric] by simp
    then show ?thesis using True n by (auto simp: pages_ok_def owned_pages_def)
  next
    case False
    then have "alloc_buf_pages env a S freed = (- ENOMEM, a\<lparr>buf_page_list := None\<rparr>,
        \<lparr>pages_taken = fr, pages_freed = freed @ fr\<rparr>)"
      unfolding alloc_buf_pages_def Let_def fr_def[symmetric] by auto
    then show ?thesis using a by (simp add: pages_ok_def owned_pages_def)
  qed
qed


lemma pages_ok_paged: "pages_ok paged_async"
  by (simp add: pages_ok_def paged_async_def fresh_async_def)


section \<open>A resize that loses the buffer\<close>

lemma page_round_up_4G: "(ucast (page_round_up (ucast (0xFFFFFFFF :: u32))) :: u32) = 0"
  by (simp add: page_round_up_def PAGE_SIZE_def PAGE_MASK_def)

text \<open>
  A request of \<open>2 ^ 32 - 1\<close> bytes within the configured maximum rounds up to a size that does not
  fit 32 bits: \<open>resize_async_buffer\<close> then frees the buffer, allocates none, and reports success.
\<close>

theorem resize_4G_loses_buffer:
  assumes "subd dev i = Some s" and "sd_async s = Some a" and "sd_busy s = None"
    and "mmap_count a = 0" and "prealloc_buf a \<noteq> None" and "prealloc_bufsz a \<noteq> 0" and "pages_ok a"
    and "max_bufsize a = 0xFFFFFFFF" and "sd_buf_change s = None"
  shows "\<exists>a' flow. resize_async_buffer ops env dev i 0xFFFFFFFF =
      Some (0, set_subd i (s\<lparr>sd_async := Some a'\<rparr>) dev, flow) \<and>
    prealloc_buf a' = None \<and> prealloc_bufsz a' = 0 \<and> pages_freed flow = owned_pages a"
proof -
  have z: "page_round_up 0 = 0" by (simp add: page_round_up_def PAGE_SIZE_def PAGE_MASK_def)
  have nz: "(ucast (prealloc_bufsz a) :: u64) \<noteq> 0"
    using assms(6) by (metis unat_0 unat_eq_0 unat_u64_of_u32)
  obtain a2 where free: "free_buf_pages (unmap_buf a) = Some (owned_pages a, a2)"
    "buf_page_list a2 = None" "prealloc_buf a2 = None" using assms(7) by (rule free_unmapped_spec)
  then have "comedi_buf_alloc env a 0 = Some (0, a2\<lparr>prealloc_bufsz := 0\<rparr>,
      \<lparr>pages_taken = [], pages_freed = owned_pages a\<rparr>)"
    using nz by (simp add: comedi_buf_alloc_def z)
  then show ?thesis
    using assms free page_round_up_4G
    by (intro exI[of _ "a2\<lparr>prealloc_bufsz := 0\<rparr>"]) (simp add: resize_async_buffer_def Let_def)
qed

definition no_memory :: alloc_env where
  "no_memory = \<lparr>ae_list_ok = False, ae_pages_ok = False, ae_frame = (\<lambda>_. None), ae_vmap_ok = False,
     ae_content = (\<lambda>_. 0)\<rparr>"

theorem resize_4G_loses_buffer_witness:
  "\<exists>a' flow. resize_async_buffer idle_ops no_memory (fresh_dev [(fresh_subd 8)\<lparr>sd_async := Some paged_async\<rparr>]) 0
      0xFFFFFFFF = Some (0, set_subd 0 ((fresh_subd 8)\<lparr>sd_async := Some a'\<rparr>)
        (fresh_dev [(fresh_subd 8)\<lparr>sd_async := Some paged_async\<rparr>]), flow) \<and>
    prealloc_buf a' = None"
  using resize_4G_loses_buffer[OF subd_fresh_dev, of "(fresh_subd 8)\<lparr>sd_async := Some paged_async\<rparr>"
      paged_async idle_ops no_memory] pages_ok_paged
  by (auto simp: fresh_subd_def paged_async_def fresh_async_def)

end
