(* ===== verification/Minors.thy ===== *)
theory Minors
  imports Buffer_Alloc
begin

text \<open>
  The table of device files (\<open>comedi_file_info_table\<close> of \<open>comedi/comedi_fops.c\<close>) and the minor numbers of
  the streaming subdevices. \<open>comedi_state\<close> is what the module keeps: the table, the devices by
  address, the registered drivers and the module reference counts; \<open>cs_flow\<close> remembers the page
  frames that the buffers took and gave back. Calls into the class device and sysfs interfaces are
  arguments (\<open>minor_env\<close>).
\<close>

unbundle bit_operations_syntax

record file_info =
  fi_device :: nat
  fi_read_subdevice :: "nat option"
  fi_write_subdevice :: "nat option"

record ('p, 'h) comedi_state =
  cs_table :: "file_info option list"
  cs_devices :: "nat \<Rightarrow> ('p, 'h) comedi_device option"
  cs_drivers :: "comedi_driver list"
  cs_refs :: "nat \<Rightarrow> int"
  cs_flow :: page_flow

definition put_dev ::
  "nat \<Rightarrow> ('p, 'h) comedi_device \<Rightarrow> ('p, 'h) comedi_state \<Rightarrow> ('p, 'h) comedi_state" where
  "put_dev d dev st = st\<lparr>cs_devices := (cs_devices st)(d := Some dev)\<rparr>"

definition log_flow :: "page_flow \<Rightarrow> ('p, 'h) comedi_state \<Rightarrow> ('p, 'h) comedi_state" where
  "log_flow f st = st\<lparr>cs_flow :=
     \<lparr>pages_taken = pages_taken (cs_flow st) @ pages_taken f,
      pages_freed = pages_freed (cs_flow st) @ pages_freed f\<rparr>\<rparr>"

text \<open>
  The environment of a minor number's creation: whether \<open>kmalloc\<close> succeeds, whether the class device
  is created, and the return codes of the attribute files.
\<close>

record minor_env =
  mn_info_ok :: bool
  mn_create_ok :: bool
  mn_files :: "int list"

section \<open>The table\<close>

definition comedi_get_device_file_info :: "('p, 'h) comedi_state \<Rightarrow> nat \<Rightarrow> file_info option option" where
  "comedi_get_device_file_info st minor =
     do {
       bug_on (COMEDI_NUM_MINORS \<le> minor);
       load_nth (cs_table st) minor
     }"

definition comedi_get_read_subdevice :: "('p, 'h) comedi_state \<Rightarrow> file_info \<Rightarrow> nat option option" where
  "comedi_get_read_subdevice st info =
     (case fi_read_subdevice info of
        Some i \<Rightarrow> Some (Some i)
      | None \<Rightarrow> do { dev \<leftarrow> cs_devices st (fi_device info); Some (dv_read_subdev dev) })"

definition comedi_get_write_subdevice :: "('p, 'h) comedi_state \<Rightarrow> file_info \<Rightarrow> nat option option" where
  "comedi_get_write_subdevice st info =
     (case fi_write_subdevice info of
        Some i \<Rightarrow> Some (Some i)
      | None \<Rightarrow> do { dev \<leftarrow> cs_devices st (fi_device info); Some (dv_write_subdev dev) })"

text \<open>The search for a free slot, from \<open>i\<close> on, in at most \<open>k\<close> slots.\<close>

primrec find_free :: "file_info option list \<Rightarrow> nat \<Rightarrow> nat \<Rightarrow> nat option" where
  "find_free tab i 0 = None"
| "find_free tab i (Suc k) = (if tab ! i = None then Some i else find_free tab (Suc i) k)"

text \<open>The attribute files are created in order until one fails.\<close>

fun first_error :: "int list \<Rightarrow> int" where
  "first_error [] = 0"
| "first_error (r # rs) = (if r \<noteq> 0 then r else first_error rs)"

section \<open>Minor numbers of subdevices\<close>

definition comedi_free_subdevice_minor ::
  "('p, 'h) comedi_state \<Rightarrow> 'p comedi_subdevice \<Rightarrow>
    ('p comedi_subdevice \<times> ('p, 'h) comedi_state) option" where
  "comedi_free_subdevice_minor st s =
     (if sd_minor s < 0 then Some (s, st)
      else do {
        bug_on (int COMEDI_NUM_MINORS \<le> sd_minor s);
        bug_on (sd_minor s < int COMEDI_FIRST_SUBDEVICE_MINOR);
        Some (s\<lparr>sd_class_dev := False\<rparr>, st\<lparr>cs_table := (cs_table st)[nat (sd_minor s) := None]\<rparr>)
      })"

text \<open>
  A class device that cannot be created is an error pointer, which the code goes on to dereference
  when it stores the driver data.
\<close>

definition comedi_alloc_subdevice_minor ::
  "minor_env \<Rightarrow> ('p, 'h) comedi_state \<Rightarrow> nat \<Rightarrow> 'p comedi_subdevice \<Rightarrow> nat \<Rightarrow>
    (int \<times> 'p comedi_subdevice \<times> ('p, 'h) comedi_state) option" where
  "comedi_alloc_subdevice_minor env st d s i =
     (if \<not> mn_info_ok env then Some (- ENOMEM, s, st)
      else
        let info = \<lparr>fi_device = d, fi_read_subdevice = Some i, fi_write_subdevice = Some i\<rparr> in
        case find_free (cs_table st) COMEDI_FIRST_SUBDEVICE_MINOR
               (COMEDI_NUM_MINORS - COMEDI_FIRST_SUBDEVICE_MINOR) of
          None \<Rightarrow> Some (- EBUSY, s, st)
        | Some m \<Rightarrow>
            let st = st\<lparr>cs_table := (cs_table st)[m := Some info]\<rparr>;
                s = s\<lparr>sd_minor := int m\<rparr>
            in
            if \<not> mn_create_ok env then None
            else
              let s = s\<lparr>sd_class_dev := True\<rparr>;
                  retval = first_error (take 4 (mn_files env))
              in if retval \<noteq> 0
                 then do { (s, st) \<leftarrow> comedi_free_subdevice_minor st s; Some (retval, s, st) }
                 else Some (int m, s, st))"

section \<open>What the search finds\<close>

lemma find_free_interval:
  "find_free tab i k = Some m \<Longrightarrow>
    i \<le> m \<and> m < i + k \<and> tab ! m = None \<and> (\<forall>j. i \<le> j \<longrightarrow> j < m \<longrightarrow> tab ! j \<noteq> None)"
proof (induction k arbitrary: i)
  case (Suc k)
  show ?case
  proof (cases "tab ! i = None")
    case True
    then show ?thesis using Suc.prems by simp
  next
    case False
    then have "find_free tab (Suc i) k = Some m" using Suc.prems by auto
    note IH = Suc.IH[OF this]
    then have m: "i \<le> m \<and> m < i + Suc k \<and> tab ! m = None"
      and before: "\<forall>j. Suc i \<le> j \<longrightarrow> j < m \<longrightarrow> tab ! j \<noteq> None" by auto
    have "tab ! j \<noteq> None" if "i \<le> j" "j < m" for j
      using before that False by (cases "j = i") auto
    then show ?thesis using m by simp
  qed
qed simp

lemma find_free_None:
  "find_free tab i k = None \<Longrightarrow> i \<le> j \<Longrightarrow> j < i + k \<Longrightarrow> tab ! j \<noteq> None"
proof (induction k arbitrary: i)
  case (Suc k)
  then show ?case by (cases "j = i") (auto split: if_splits)
qed simp

lemma put_dev_frame [frame_simps, simp]:
  "cs_table (put_dev d dev st) = cs_table st"
  "cs_drivers (put_dev d dev st) = cs_drivers st"
  "cs_refs (put_dev d dev st) = cs_refs st"
  "cs_flow (put_dev d dev st) = cs_flow st"
  "cs_devices (put_dev d dev st) = (cs_devices st)(d := Some dev)"
  by (simp_all add: put_dev_def)

lemma log_flow_frame [frame_simps, simp]:
  "cs_table (log_flow f st) = cs_table st"
  "cs_drivers (log_flow f st) = cs_drivers st"
  "cs_refs (log_flow f st) = cs_refs st"
  "cs_devices (log_flow f st) = cs_devices st"
  by (simp_all add: log_flow_def)

end
