(* ===== verification/Attach.thy ===== *)
theory Attach
  imports Minors Subdevice_State
begin

text \<open>
  Attaching a driver to a device and detaching it (\<open>comedi/drivers.c\<close>): the registered drivers, the
  match of a board name, the completion of the subdevices after the driver's attach routine, and the
  release of everything the device holds. \<open>live\<close> says whether \<open>try_module_get\<close> succeeds on a module.
\<close>

unbundle bit_operations_syntax

section \<open>Allocation of subdevices\<close>

definition zero_cmd :: comedi_cmd where
  "zero_cmd = \<lparr>cmd_subdev = 0, cmd_flags = 0, start_src = 0, start_arg = 0, scan_begin_src = 0,
     scan_begin_arg = 0, convert_src = 0, convert_arg = 0, scan_end_src = 0, scan_end_arg = 0,
     stop_src = 0, stop_arg = 0, chanlist = Null_ptr, chanlist_len = 0, cmd_data = 0, cmd_data_len = 0\<rparr>"

definition zero_async :: comedi_async where
  "zero_async = \<lparr>prealloc_buf = None, prealloc_bufsz = 0, buf_page_list = None, n_buf_pages = 0,
     max_bufsize = 0, mmap_count = 0, buf_write_count = 0, buf_write_alloc_count = 0,
     buf_read_count = 0, buf_read_alloc_count = 0, buf_write_ptr = 0, buf_read_ptr = 0, cur_chan = 0,
     scan_progress = 0, munge_chan = 0, munge_count = 0, munge_ptr = 0, events = 0, cmd = zero_cmd,
     cb_mask = 0, cb_func = None, cb_arg = 0, inttrig = None\<rparr>"

definition zero_subd :: "'p comedi_subdevice" where
  "zero_subd = \<lparr>sd_type = COMEDI_SUBD_UNUSED, sd_n_chan = 0, sd_subdev_flags = 0, sd_len_chanlist = 0,
     sd_private = None, sd_async = None, sd_lock = None, sd_busy = None, sd_runflags = 0, sd_io_bits = 0,
     sd_maxdata = 0, sd_maxdata_list = None, sd_flags = 0, sd_flaglist = None, sd_settling_time_0 = 0,
     sd_range_table = None, sd_range_table_list = None, sd_insn_read = None, sd_insn_write = None,
     sd_insn_bits = None, sd_insn_config = None, sd_do_cmd = None, sd_do_cmdtest = None, sd_poll = None,
     sd_cancel = None, sd_buf_change = None, sd_munge = None, sd_async_dma_dir = DMA_NONE, sd_state = 0,
     sd_class_dev = False, sd_minor = -1\<rparr>"

definition alloc_subdevices ::
  "bool \<Rightarrow> ('p, 'h) comedi_device \<Rightarrow> nat \<Rightarrow> int \<times> ('p, 'h) comedi_device" where
  "alloc_subdevices alloc_ok dev n =
     (let dev = dev\<lparr>dv_n_subdevices := of_nat n,
            dv_subdevices := (if alloc_ok then replicate n zero_subd else [])\<rparr>
      in (if alloc_ok then 0 else - ENOMEM, dev))"

definition alloc_private :: "'p option \<Rightarrow> ('p, 'h) comedi_device \<Rightarrow> int \<times> ('p, 'h) comedi_device" where
  "alloc_private mem dev = (if mem = None then - ENOMEM else 0, dev\<lparr>dv_private := mem\<rparr>)"

section \<open>Cleaning up and detaching\<close>

primrec free_subdevices ::
  "('p, 'h) comedi_state \<Rightarrow> ('p, 'h) comedi_device \<Rightarrow> nat \<Rightarrow> nat \<Rightarrow> ('p, 'h) comedi_state option" where
  "free_subdevices st dev i 0 = Some st"
| "free_subdevices st dev i (Suc k) =
     do {
       s \<leftarrow> subd dev i;
       (s, st) \<leftarrow> comedi_free_subdevice_minor st s;
       st \<leftarrow> (case sd_async s of
                None \<Rightarrow> Some st
              | Some a \<Rightarrow> do { (_, _, flow) \<leftarrow> comedi_buf_alloc no_memory a 0; Some (log_flow flow st) });
       free_subdevices st dev (Suc i) k
     }"

definition cleanup_device ::
  "('p, 'h) comedi_state \<Rightarrow> nat \<Rightarrow> ('p, 'h) comedi_state option" where
  "cleanup_device st d =
     do {
       dev \<leftarrow> cs_devices st d;
       (st, dev) \<leftarrow>
         (if dv_subdevices dev \<noteq> [] then do {
            st \<leftarrow> free_subdevices st dev 0 (nat (sint (dv_n_subdevices dev)));
            Some (st, dev\<lparr>dv_subdevices := [], dv_n_subdevices := 0\<rparr>)
          }
          else Some (st, dev));
       Some (put_dev d (dev\<lparr>dv_private := None, dv_driver := None, dv_board_name := None,
         dv_board_ptr := None, dv_iobase := 0, dv_irq := 0, dv_read_subdev := None,
         dv_write_subdev := None, dv_open := None, dv_close := None, dv_hw_dev := None\<rparr>) st)
     }"

definition detach_device ::
  "('p, 'h) driver_ops \<Rightarrow> ('p, 'h) comedi_state \<Rightarrow> nat \<Rightarrow> ('p, 'h) comedi_state option" where
  "detach_device ops st d =
     do {
       dev \<leftarrow> cs_devices st d;
       let dev = dev\<lparr>dv_attached := False\<rparr>
       in do {
         dev \<leftarrow> (case dv_driver dev of
                  Some drv \<Rightarrow> do { (_, dev) \<leftarrow> op_detach ops (drv_detach drv) dev; Some dev }
                | None \<Rightarrow> Some dev);
         cleanup_device (put_dev d dev st) d
       }
     }"

definition comedi_device_detach ::
  "('p, 'h) driver_ops \<Rightarrow> ('p, 'h) comedi_state \<Rightarrow> nat \<Rightarrow> ('p, 'h) comedi_state option" where
  "comedi_device_detach ops st d =
     do {
       dev \<leftarrow> cs_devices st d;
       if \<not> dv_attached dev then Some st else detach_device ops st d
     }"

section \<open>Completing the subdevices\<close>

definition range_unknown :: comedi_lrange where
  "range_unknown = \<lparr>lr_length = 1, lr_range = [\<lparr>kr_min = 0, kr_max = 1000000, kr_flags = 2\<rparr>]\<rparr>"

record post_env =
  po_async_ok :: "nat \<Rightarrow> bool"
  po_buf :: "nat \<Rightarrow> alloc_env"
  po_minor :: "nat \<Rightarrow> minor_env"

definition DEFAULT_BUF_MAXSIZE :: u32 where "DEFAULT_BUF_MAXSIZE = (64*1024)"
definition DEFAULT_BUF_SIZE :: u64 where "DEFAULT_BUF_SIZE = (64*1024)"

definition post_async ::
  "('p, 'h) driver_ops \<Rightarrow> post_env \<Rightarrow> ('p, 'h) comedi_state \<Rightarrow> nat \<Rightarrow> nat \<Rightarrow>
    (int \<times> ('p, 'h) comedi_state) option" where
  "post_async ops env st d i =
     do {
       dev \<leftarrow> cs_devices st d;
       s \<leftarrow> subd dev i;
       bug_on (sd_subdev_flags s AND (SDF_CMD_READ OR SDF_CMD_WRITE) = 0);
       bug_on (sd_do_cmdtest s = None);
       if \<not> po_async_ok env i then Some (- ENOMEM, st)
       else do {
         (ret, a, flow) \<leftarrow>
           comedi_buf_alloc (po_buf env i) (zero_async\<lparr>max_bufsize := DEFAULT_BUF_MAXSIZE\<rparr>) DEFAULT_BUF_SIZE;
         let s = s\<lparr>sd_async := Some a\<rparr>;
             dev = set_subd i s dev;
             st = log_flow flow (put_dev d dev st)
         in
         if ret < 0 then Some (- ENOMEM, st)
         else do {
           (ret, dev) \<leftarrow>
             (case sd_buf_change s of
                None \<Rightarrow> Some (0, dev)
              | Some f \<Rightarrow> op_buf_change ops f dev i DEFAULT_BUF_SIZE);
           if ret < 0 then Some (ret, put_dev d dev st)
           else do {
             s \<leftarrow> subd dev i;
             (_, s, st) \<leftarrow> comedi_alloc_subdevice_minor (po_minor env i) st d s i;
             Some (0, put_dev d (set_subd i s dev) st)
           }
         }
       }
     }"

definition post_defaults :: "'p comedi_subdevice \<Rightarrow> 'p comedi_subdevice" where
  "post_defaults s =
     (let s = (if sd_range_table s = None \<and> sd_range_table_list s = None
               then s\<lparr>sd_range_table := Some range_unknown\<rparr> else s);
          s = (if sd_insn_read s = None \<and> sd_insn_bits s \<noteq> None
               then s\<lparr>sd_insn_read := Some Insn_rw_emulate_bits\<rparr> else s);
          s = (if sd_insn_write s = None \<and> sd_insn_bits s \<noteq> None
               then s\<lparr>sd_insn_write := Some Insn_rw_emulate_bits\<rparr> else s);
          s = (if sd_insn_read s = None then s\<lparr>sd_insn_read := Some Insn_inval\<rparr> else s);
          s = (if sd_insn_write s = None then s\<lparr>sd_insn_write := Some Insn_inval\<rparr> else s);
          s = (if sd_insn_bits s = None then s\<lparr>sd_insn_bits := Some Insn_inval\<rparr> else s);
          s = (if sd_insn_config s = None then s\<lparr>sd_insn_config := Some Insn_inval\<rparr> else s)
      in if sd_poll s = None then s\<lparr>sd_poll := Some Poll_invalid\<rparr> else s)"

primrec post_loop ::
  "('p, 'h) driver_ops \<Rightarrow> post_env \<Rightarrow> ('p, 'h) comedi_state \<Rightarrow> nat \<Rightarrow> nat \<Rightarrow> nat \<Rightarrow>
    (int \<times> ('p, 'h) comedi_state) option" where
  "post_loop ops env st d i 0 = Some (0, st)"
| "post_loop ops env st d i (Suc k) =
     do {
       dev \<leftarrow> cs_devices st d;
       s \<leftarrow> subd dev i;
       if sd_type s = COMEDI_SUBD_UNUSED then post_loop ops env st d (Suc i) k
       else
         let s = (if sd_len_chanlist s = 0 then s\<lparr>sd_len_chanlist := 1\<rparr> else s);
             st = put_dev d (set_subd i s dev) st
         in do {
           (ret, st) \<leftarrow> (if sd_do_cmd s \<noteq> None then post_async ops env st d i else Some (0, st));
           if ret < 0 then Some (ret, st)
           else do {
             dev \<leftarrow> cs_devices st d;
             s \<leftarrow> subd dev i;
             post_loop ops env (put_dev d (set_subd i (post_defaults s) dev) st) d (Suc i) k
           }
         }
     }"

definition postconfig ::
  "('p, 'h) driver_ops \<Rightarrow> post_env \<Rightarrow> ('p, 'h) comedi_state \<Rightarrow> nat \<Rightarrow>
    (int \<times> ('p, 'h) comedi_state) option" where
  "postconfig ops env st d =
     do {
       dev \<leftarrow> cs_devices st d;
       post_loop ops env st d 0 (nat (sint (dv_n_subdevices dev)))
     }"

section \<open>Attaching\<close>

fun recognize_from :: "string list \<Rightarrow> string \<Rightarrow> nat \<Rightarrow> nat option" where
  "recognize_from [] name i = None"
| "recognize_from (x # xs) name i = (if x = name then Some i else recognize_from xs name (Suc i))"

definition comedi_recognize :: "comedi_driver \<Rightarrow> string \<Rightarrow> nat option" where
  "comedi_recognize driv name = recognize_from (drv_board_names driv) name 0"

text \<open>
  The search through the drivers, with the board pointer it leaves in the device. Every module that is
  taken and does not match is put again, so that only the match changes the reference counts.
\<close>

fun pick_driver ::
  "(nat \<Rightarrow> bool) \<Rightarrow> string \<Rightarrow> nat option \<Rightarrow> comedi_driver list \<Rightarrow> comedi_driver option \<times> nat option" where
  "pick_driver live name ptr [] = (None, ptr)"
| "pick_driver live name ptr (driv # drivs) =
     (if \<not> live (drv_module driv) then pick_driver live name ptr drivs
      else if drv_board_names driv \<noteq> [] then
        (case comedi_recognize driv name of
           None \<Rightarrow> pick_driver live name None drivs
         | Some k \<Rightarrow> (Some driv, Some k))
      else if driver_name driv \<noteq> name then pick_driver live name ptr drivs
      else (Some driv, ptr))"

definition module_get :: "nat \<Rightarrow> ('p, 'h) comedi_state \<Rightarrow> ('p, 'h) comedi_state" where
  "module_get m st = st\<lparr>cs_refs := (cs_refs st)(m := cs_refs st m + 1)\<rparr>"

definition module_put :: "nat \<Rightarrow> ('p, 'h) comedi_state \<Rightarrow> ('p, 'h) comedi_state" where
  "module_put m st = st\<lparr>cs_refs := (cs_refs st)(m := cs_refs st m - 1)\<rparr>"

definition put_driver_module ::
  "('p, 'h) comedi_state \<Rightarrow> nat \<Rightarrow> ('p, 'h) comedi_state option" where
  "put_driver_module st d =
     do {
       dev \<leftarrow> cs_devices st d;
       drv \<leftarrow> dv_driver dev;
       Some (module_put (drv_module drv) st)
     }"

definition comedi_device_attach ::
  "('p, 'h) driver_ops \<Rightarrow> post_env \<Rightarrow> (nat \<Rightarrow> bool) \<Rightarrow> ('p, 'h) comedi_state \<Rightarrow> nat \<Rightarrow>
    comedi_devconfig \<Rightarrow> (int \<times> ('p, 'h) comedi_state) option" where
  "comedi_device_attach ops env live st d it =
     do {
       dev \<leftarrow> cs_devices st d;
       if dv_attached dev then Some (- EBUSY, st)
       else
         case pick_driver live (dc_board_name it) (dv_board_ptr dev) (cs_drivers st) of
           (None, ptr) \<Rightarrow> Some (- EIO, put_dev d (dev\<lparr>dv_board_ptr := ptr\<rparr>) st)
         | (Some driv, ptr) \<Rightarrow>
             let st = module_get (drv_module driv) st;
                 dev = dev\<lparr>dv_board_ptr := ptr, dv_driver := Some driv\<rparr>
             in do {
               (ret, dev) \<leftarrow> op_attach ops (drv_attach driv) dev it;
               let st = put_dev d dev st
               in
               if ret < 0 then do {
                 st \<leftarrow> put_driver_module st d;
                 st \<leftarrow> detach_device ops st d;
                 Some (ret, st)
               }
               else do {
                 (ret, st) \<leftarrow> postconfig ops env st d;
                 st \<leftarrow> put_driver_module st d;
                 if ret < 0 then do { st \<leftarrow> detach_device ops st d; Some (ret, st) }
                 else do {
                   dev \<leftarrow> cs_devices st d;
                   let name = (case dv_board_name dev of None \<Rightarrow> Some ''BUG'' | Some x \<Rightarrow> Some x)
                   in Some (0, put_dev d (dev\<lparr>dv_board_name := name, dv_attached := True\<rparr>) st)
                 }
               }
             }
     }"

section \<open>The list of drivers\<close>

definition comedi_driver_register ::
  "comedi_driver \<Rightarrow> ('p, 'h) comedi_state \<Rightarrow> int \<times> ('p, 'h) comedi_state" where
  "comedi_driver_register driver st = (0, st\<lparr>cs_drivers := driver # cs_drivers st\<rparr>)"

fun detach_driver_devices ::
  "('p, 'h) driver_ops \<Rightarrow> comedi_driver \<Rightarrow> ('p, 'h) comedi_state \<Rightarrow> nat list \<Rightarrow>
    ('p, 'h) comedi_state option" where
  "detach_driver_devices ops driver st [] = Some st"
| "detach_driver_devices ops driver st (i # is) =
     do {
       info \<leftarrow> comedi_get_device_file_info st i;
       case info of
         None \<Rightarrow> detach_driver_devices ops driver st is
       | Some info \<Rightarrow>
           do {
             dev \<leftarrow> cs_devices st (fi_device info);
             st \<leftarrow> (if dv_attached dev \<and> dv_driver dev = Some driver
                    then comedi_device_detach ops st (fi_device info) else Some st);
             detach_driver_devices ops driver st is
           }
     }"

fun unlink_driver :: "comedi_driver \<Rightarrow> comedi_driver list \<Rightarrow> comedi_driver list option" where
  "unlink_driver driver [] = None"
| "unlink_driver driver (prev # rest) =
     (case rest of
        [] \<Rightarrow> None
      | x # xs \<Rightarrow>
          if x = driver then Some (prev # xs)
          else map_option (\<lambda>ds. prev # ds) (unlink_driver driver rest))"

definition comedi_driver_unregister ::
  "('p, 'h) driver_ops \<Rightarrow> comedi_driver \<Rightarrow> ('p, 'h) comedi_state \<Rightarrow>
    (int \<times> ('p, 'h) comedi_state) option" where
  "comedi_driver_unregister ops driver st =
     do {
       st \<leftarrow> detach_driver_devices ops driver st [0..<COMEDI_NUM_BOARD_MINORS];
       case cs_drivers st of
         [] \<Rightarrow> None
       | x # xs \<Rightarrow>
           if x = driver then Some (0, st\<lparr>cs_drivers := xs\<rparr>)
           else (case unlink_driver driver (x # xs) of
                   Some ds \<Rightarrow> Some (0, st\<lparr>cs_drivers := ds\<rparr>)
                 | None \<Rightarrow> Some (- EINVAL, st))
     }"

end
