(* ===== verification/Board_Minors.thy ===== *)
theory Board_Minors
  imports Attach
begin

text \<open>
  The minor numbers of boards and the module's own start and end (\<open>comedi/comedi_fops.c\<close>), the
  automatic configuration of a board by its bus driver (\<open>comedi/drivers.c\<close>), and the DEVCONFIG ioctl
  through which an administrator attaches a driver by hand.
\<close>

unbundle bit_operations_syntax

section \<open>Board minors\<close>

definition comedi_device_init :: "'h \<Rightarrow> ('p, 'h) comedi_device" where
  "comedi_device_init hw = \<lparr>dv_use_count = 0, dv_driver = None, dv_private = None, dv_class_dev = False,
     dv_minor = -1, dv_hw_dev = None, dv_board_name = None, dv_board_ptr = None, dv_attached = False,
     dv_rt = False, dv_in_request_module = False, dv_n_subdevices = 0, dv_subdevices = [],
     dv_iobase = 0, dv_irq = 0, dv_read_subdev = None, dv_write_subdev = None, dv_open = None,
     dv_close = None, dv_hw = hw\<rparr>"

definition comedi_device_cleanup ::
  "('p, 'h) driver_ops \<Rightarrow> ('p, 'h) comedi_state \<Rightarrow> nat option \<Rightarrow> ('p, 'h) comedi_state option" where
  "comedi_device_cleanup ops st dev =
     (case dev of None \<Rightarrow> Some st | Some d \<Rightarrow> comedi_device_detach ops st d)"

definition kfree_device :: "nat \<Rightarrow> ('p, 'h) comedi_state \<Rightarrow> ('p, 'h) comedi_state" where
  "kfree_device d st = st\<lparr>cs_devices := (cs_devices st)(d := None)\<rparr>"

definition comedi_free_board_minor ::
  "('p, 'h) driver_ops \<Rightarrow> ('p, 'h) comedi_state \<Rightarrow> nat \<Rightarrow> ('p, 'h) comedi_state option" where
  "comedi_free_board_minor ops st minor =
     do {
       bug_on (COMEDI_NUM_BOARD_MINORS \<le> minor);
       info \<leftarrow> load_nth (cs_table st) minor;
       let st = st\<lparr>cs_table := (cs_table st)[minor := None]\<rparr>
       in case info of
            None \<Rightarrow> Some st
          | Some info \<Rightarrow>
              do {
                st \<leftarrow> comedi_device_cleanup ops st (Some (fi_device info));
                Some (kfree_device (fi_device info) st)
              }
     }"

text \<open>
  \<open>addr\<close> is the memory \<open>kzalloc\<close> returns for the device, if any; the attribute files are eight.
\<close>

definition comedi_alloc_board_minor ::
  "('p, 'h) driver_ops \<Rightarrow> minor_env \<Rightarrow> nat option \<Rightarrow> 'h \<Rightarrow> ('p, 'h) comedi_state \<Rightarrow>
    (int \<times> ('p, 'h) comedi_state) option" where
  "comedi_alloc_board_minor ops env addr hw st =
     (if \<not> mn_info_ok env then Some (- ENOMEM, st)
      else case addr of
        None \<Rightarrow> Some (- ENOMEM, st)
      | Some d \<Rightarrow>
          let st = put_dev d (comedi_device_init hw) st;
              info = \<lparr>fi_device = d, fi_read_subdevice = None, fi_write_subdevice = None\<rparr>
          in case find_free (cs_table st) 0 COMEDI_NUM_BOARD_MINORS of
               None \<Rightarrow>
                 do {
                   st \<leftarrow> comedi_device_cleanup ops st (Some d);
                   Some (- EBUSY, kfree_device d st)
                 }
             | Some m \<Rightarrow>
                 let st = st\<lparr>cs_table := (cs_table st)[m := Some info]\<rparr>;
                     dev = (comedi_device_init hw)\<lparr>dv_minor := int m\<rparr>
                 in
                 if \<not> mn_create_ok env then None
                 else
                   let st = put_dev d (dev\<lparr>dv_class_dev := True\<rparr>) st;
                       retval = first_error (take 8 (mn_files env))
                   in if retval \<noteq> 0
                      then do { st \<leftarrow> comedi_free_board_minor ops st m; Some (retval, st) }
                      else Some (int m, st))"

section \<open>Automatic configuration\<close>

text \<open>
  The driver data that the bus layer keeps for a hardware device is a minor number in allocated memory;
  the result holds what the hardware device is left with. After a failed attach the code frees that
  memory without resetting the pointer. \<open>auto\<close> is the module parameter \<open>comedi_autoconfig\<close>.
\<close>

definition comedi_auto_config ::
  "('p, 'h) driver_ops \<Rightarrow> post_env \<Rightarrow> (nat \<Rightarrow> bool) \<Rightarrow> minor_env \<Rightarrow> nat option \<Rightarrow> 'h \<Rightarrow> bool \<Rightarrow> bool \<Rightarrow>
    ('p, 'h) comedi_state \<Rightarrow> string \<Rightarrow> u32 list \<Rightarrow> (int \<times> nat option \<times> ('p, 'h) comedi_state) option" where
  "comedi_auto_config ops env live menv addr hw auto alloc_ok st board_name options =
     (if \<not> auto then Some (0, None, st)
      else do {
        (minor, st) \<leftarrow> comedi_alloc_board_minor ops menv addr hw st;
        if minor < 0 then Some (minor, None, st)
        else if \<not> alloc_ok then do {
          st \<leftarrow> comedi_free_board_minor ops st (nat minor);
          Some (- ENOMEM, None, st)
        }
        else do {
          info \<leftarrow> comedi_get_device_file_info st (nat minor);
          bug_on (32 < length options);
          info \<leftarrow> info;
          let it = \<lparr>dc_board_name = strlcpy board_name COMEDI_NAMELEN,
                    dc_options = options @ replicate (32 - length options) 0\<rparr>
          in do {
            (retval, st) \<leftarrow> comedi_device_attach ops env live st (fi_device info) it;
            if retval < 0 then do {
              st \<leftarrow> comedi_free_board_minor ops st (nat minor);
              Some (retval, Some (nat minor), st)
            }
            else Some (retval, Some (nat minor), st)
          }
        }
      })"

definition comedi_auto_unconfig ::
  "('p, 'h) driver_ops \<Rightarrow> ('p, 'h) comedi_state \<Rightarrow> nat option \<Rightarrow> (nat option \<times> ('p, 'h) comedi_state) option" where
  "comedi_auto_unconfig ops st drvdata =
     (case drvdata of
        None \<Rightarrow> Some (None, st)
      | Some minor \<Rightarrow>
          do {
            bug_on (COMEDI_NUM_BOARD_MINORS \<le> minor);
            st \<leftarrow> comedi_free_board_minor ops st minor;
            Some (None, st)
          })"

section \<open>Module start and end\<close>

primrec comedi_cleanup_legacy_minors ::
  "('p, 'h) driver_ops \<Rightarrow> ('p, 'h) comedi_state \<Rightarrow> nat \<Rightarrow> ('p, 'h) comedi_state option" where
  "comedi_cleanup_legacy_minors ops st 0 = Some st"
| "comedi_cleanup_legacy_minors ops st (Suc k) =
     do {
       st \<leftarrow> comedi_cleanup_legacy_minors ops st k;
       comedi_free_board_minor ops st k
     }"

primrec alloc_legacy_minors ::
  "('p, 'h) driver_ops \<Rightarrow> (nat \<Rightarrow> minor_env) \<Rightarrow> (nat \<Rightarrow> nat option) \<Rightarrow> 'h \<Rightarrow> nat \<Rightarrow> nat \<Rightarrow>
    ('p, 'h) comedi_state \<Rightarrow> (int \<times> ('p, 'h) comedi_state) option" where
  "alloc_legacy_minors ops menv addr hw i 0 st = Some (0, st)"
| "alloc_legacy_minors ops menv addr hw i (Suc k) st =
     do {
       (minor, st) \<leftarrow> comedi_alloc_board_minor ops (menv i) (addr i) hw st;
       if minor < 0 then Some (minor, st) else alloc_legacy_minors ops menv addr hw (Suc i) k st
     }"

text \<open>
  The registrations with the character-device layer and the class are arguments: whether the region
  and the device are registered, and the return code of \<open>class_create\<close>.
\<close>

definition comedi_init ::
  "('p, 'h) driver_ops \<Rightarrow> (nat \<Rightarrow> minor_env) \<Rightarrow> (nat \<Rightarrow> nat option) \<Rightarrow> 'h \<Rightarrow> bool \<Rightarrow> int \<Rightarrow> bool \<Rightarrow> bool \<Rightarrow> int \<Rightarrow>
    ('p, 'h) comedi_state \<Rightarrow> (int \<times> ('p, 'h) comedi_state) option" where
  "comedi_init ops menv addr hw auto legacy region_ok cdev_ok class_ret st =
     (if legacy < 0 \<or> int COMEDI_NUM_BOARD_MINORS < legacy then Some (- EINVAL, st)
      else
        let legacy = (if \<not> auto \<and> legacy = 0 then 16 else legacy);
            st = st\<lparr>cs_table := replicate COMEDI_NUM_MINORS None\<rparr>
        in
        if \<not> region_ok then Some (- EIO, st)
        else if \<not> cdev_ok then Some (- EIO, st)
        else if class_ret < 0 then Some (class_ret, st)
        else do {
          (ret, st) \<leftarrow> alloc_legacy_minors ops menv addr hw 0 (nat legacy) st;
          if ret < 0 then do {
            st \<leftarrow> comedi_cleanup_legacy_minors ops st (nat legacy);
            Some (ret, st)
          }
          else Some (0, st)
        })"

definition comedi_cleanup ::
  "('p, 'h) driver_ops \<Rightarrow> nat \<Rightarrow> ('p, 'h) comedi_state \<Rightarrow> ('p, 'h) comedi_state option" where
  "comedi_cleanup ops legacy st =
     do {
       st \<leftarrow> comedi_cleanup_legacy_minors ops st legacy;
       bug_on (\<exists>x \<in> set (take COMEDI_NUM_MINORS (cs_table st)). x \<noteq> None);
       Some st
     }"

section \<open>DEVCONFIG\<close>

definition aux_data_addr :: "u32 list \<Rightarrow> u64" where
  "aux_data_addr opts =
     (push_bit 32 (scast (opts ! COMEDI_DEVCONF_AUX_DATA_HI)) OR
      (scast (opts ! COMEDI_DEVCONF_AUX_DATA_LO) AND (push_bit 32 1 - 1)))"

text \<open>
  The auxiliary data is copied to kernel memory and its address put in the options. \<open>aux_mem\<close> is what
  \<open>vmalloc\<close> returns, \<open>aux_copied\<close> whether the copy succeeds. The result is the return code, or the
  configuration to attach with.
\<close>

definition devconfig_aux ::
  "u64 option \<Rightarrow> bool \<Rightarrow> comedi_devconfig \<Rightarrow> int + comedi_devconfig" where
  "devconfig_aux aux_mem aux_copied it =
     (let opts = dc_options it; aux_len = opts ! COMEDI_DEVCONF_AUX_DATA_LENGTH in
      if aux_data_addr opts \<noteq> 0 \<and> aux_len \<noteq> 0 then
        if aux_len <s 0 then Inl (- EFAULT)
        else case aux_mem of
          None \<Rightarrow> Inl (- ENOMEM)
        | Some mem \<Rightarrow>
            if \<not> aux_copied then Inl (- EFAULT)
            else Inr (it\<lparr>dc_options := opts[COMEDI_DEVCONF_AUX_DATA_LO := ucast mem,
                   COMEDI_DEVCONF_AUX_DATA_HI := ucast (drop_bit 32 mem)]\<rparr>)
      else Inr it)"

definition do_devconfig_ioctl ::
  "('p, 'h) driver_ops \<Rightarrow> post_env \<Rightarrow> (nat \<Rightarrow> bool) \<Rightarrow> bool \<Rightarrow> u64 option \<Rightarrow> bool \<Rightarrow> ('p, 'h) comedi_state \<Rightarrow>
    nat \<Rightarrow> comedi_devconfig option option \<Rightarrow> (int \<times> ('p, 'h) comedi_state) option" where
  "do_devconfig_ioctl ops env live admin aux_mem aux_copied st d arg =
     (if \<not> admin then Some (- EPERM, st)
      else case arg of
        None \<Rightarrow>
          do {
            dev \<leftarrow> cs_devices st d;
            busy \<leftarrow> is_device_busy dev;
            if busy \<noteq> 0 then Some (- EBUSY, st)
            else if dv_attached dev then do {
              drv \<leftarrow> dv_driver dev;
              st \<leftarrow> comedi_device_detach ops st d;
              Some (0, module_put (drv_module drv) st)
            }
            else Some (0, st)
          }
      | Some None \<Rightarrow> Some (- EFAULT, st)
      | Some (Some it) \<Rightarrow>
          (case devconfig_aux aux_mem aux_copied
                  (it\<lparr>dc_board_name := take (COMEDI_NAMELEN - 1) (dc_board_name it)\<rparr>) of
             Inl err \<Rightarrow> Some (err, st)
           | Inr it \<Rightarrow>
               do {
                 (ret, st) \<leftarrow> comedi_device_attach ops env live st d it;
                 if ret = 0 then do {
                   dev \<leftarrow> cs_devices st d;
                   drv \<leftarrow> dv_driver dev;
                   if live (drv_module drv) then Some (ret, module_get (drv_module drv) st)
                   else do { st \<leftarrow> comedi_device_detach ops st d; Some (- ENOSYS, st) }
                 }
                 else Some (ret, st)
               }))"

end
