(* ===== verification/Range_Info.thy ===== *)
theory Range_Info
  imports Example_State
begin

text \<open>
  Ranges and channel lists (\<open>comedi/range.c\<close>): the check every channel list passes before a driver
  sees it, and the RANGEINFO ioctl. What the ioctl copies to user space is returned beside its return
  code: the address and the ranges; \<open>copy_ok\<close> says whether \<open>copy_to_user\<close> succeeds.
\<close>

unbundle bit_operations_syntax

section \<open>Channel lists\<close>

definition aref_invalid :: "'p comedi_subdevice \<Rightarrow> u32 \<Rightarrow> bool" where
  "aref_invalid s chanspec = False"

definition bad_chanspec :: "'p comedi_subdevice \<Rightarrow> comedi_lrange \<Rightarrow> u32 \<Rightarrow> bool" where
  "bad_chanspec s lr chanspec \<longleftrightarrow>
     sd_n_chan s \<le> CR_CHAN chanspec \<or> lr_length lr \<le> CR_RANGE chanspec \<or> aref_invalid s chanspec"

definition bad_chanspec_of_list :: "'p comedi_subdevice \<Rightarrow> comedi_lrange list \<Rightarrow> u32 \<Rightarrow> bool option" where
  "bad_chanspec_of_list s tabs chanspec =
     (let chan = CR_CHAN chanspec in
      if sd_n_chan s \<le>s chan then Some True
      else do {
        lr \<leftarrow> load_nth tabs (unat chan);
        Some (lr_length lr \<le> CR_RANGE chanspec \<or> aref_invalid s chanspec)
      })"

primrec check_each :: "(u32 \<Rightarrow> bool option) \<Rightarrow> u32 list \<Rightarrow> nat \<Rightarrow> nat \<Rightarrow> int option" where
  "check_each bad chans i 0 = Some 0"
| "check_each bad chans i (Suc k) =
     do {
       x \<leftarrow> load_nth chans i;
       b \<leftarrow> bad x;
       if b then Some (- EINVAL) else check_each bad chans (Suc i) k
     }"

definition check_chanlist :: "'p comedi_subdevice \<Rightarrow> u32 \<Rightarrow> u32 list \<Rightarrow> int option" where
  "check_chanlist s n chans =
     (let count = nat (sint n) in
      case sd_range_table s of
        Some lr \<Rightarrow> check_each (\<lambda>x. Some (bad_chanspec s lr x)) chans 0 count
      | None \<Rightarrow>
          (case sd_range_table_list s of
             Some tabs \<Rightarrow> check_each (bad_chanspec_of_list s tabs) chans 0 count
           | None \<Rightarrow> Some (- EINVAL)))"

section \<open>RANGEINFO\<close>

definition rangeinfo_table :: "'p comedi_subdevice \<Rightarrow> u32 \<Rightarrow> comedi_lrange option option" where
  "rangeinfo_table s chan =
     (case sd_range_table s of
        Some lr \<Rightarrow> Some (Some lr)
      | None \<Rightarrow>
          (case sd_range_table_list s of
             Some tabs \<Rightarrow>
               if sd_n_chan s \<le>s chan then Some None
               else do { lr \<leftarrow> load_nth tabs (unat chan); Some (Some lr) }
           | None \<Rightarrow> Some None))"

definition do_rangeinfo_ioctl ::
  "('p, 'h) comedi_device \<Rightarrow> comedi_rangeinfo option \<Rightarrow> bool \<Rightarrow>
    (int \<times> (u64 \<times> comedi_krange list) option) option" where
  "do_rangeinfo_ioctl dev arg copy_ok =
     (case arg of
        None \<Rightarrow> Some (- EFAULT, None)
      | Some it \<Rightarrow>
          let sub = (drop_bit 24 (ri_range_type it)) AND 0xf;
              chan = (drop_bit 16 (ri_range_type it)) AND 0xff
          in
          if \<not> dv_attached dev then Some (- EINVAL, None)
          else if dv_n_subdevices dev \<le>s sub then Some (- EINVAL, None)
          else do {
            s \<leftarrow> subd dev (unat sub);
            tab \<leftarrow> rangeinfo_table s chan;
            case tab of
              None \<Rightarrow> Some (- EINVAL, None)
            | Some lr \<Rightarrow>
                if RANGE_LENGTH (ri_range_type it) \<noteq> lr_length lr then Some (- EINVAL, None)
                else if length (lr_range lr) < unat (lr_length lr) then None
                else if \<not> copy_ok then Some (- EFAULT, None)
                else Some (0, Some (ri_range_ptr it, take (unat (lr_length lr)) (lr_range lr)))
          })"

section \<open>What the check means\<close>

lemma check_each_spec:
  assumes "i + k \<le> length chans"
  shows "check_each (\<lambda>x. Some (bad x)) chans i k =
    Some (if \<exists>j<k. bad (chans ! (i + j)) then - EINVAL else 0)"
  using assms
proof (induction k arbitrary: i)
  case (Suc k)
  have "(\<exists>j<Suc k. bad (chans ! (i + j))) \<longleftrightarrow> bad (chans ! i) \<or> (\<exists>j<k. bad (chans ! (Suc i + j)))"
    by (metis (no_types, lifting) add.right_neutral add_Suc_right add_Suc less_Suc_eq_0_disj)
  then show ?case using Suc by simp
qed simp

lemma check_each_all:
  assumes "\<And>c. f c = Some (bad c)"
  shows "check_each f chans 0 (length chans) = Some (if \<forall>c \<in> set chans. \<not> bad c then 0 else - EINVAL)"
proof -
  have "f = (\<lambda>c. Some (bad c))" using assms by (rule ext)
  moreover have "(\<exists>j<length chans. bad (chans ! j)) \<longleftrightarrow> (\<exists>c \<in> set chans. bad c)"
    by (metis in_set_conv_nth)
  ultimately show ?thesis using check_each_spec[of 0 "length chans" chans bad] by auto
qed

lemma CR_CHAN_small: "unat (CR_CHAN c) < 2147483648"
proof -
  have "CR_CHAN c \<le> 0xffff" unfolding CR_CHAN_def by (rule word_and_le1)
  then show ?thesis by (simp add: word_le_nat_alt)
qed

lemma bad_chanspec_of_list_eq:
  assumes "unat (sd_n_chan s) \<le> length tabs" and "unat (sd_n_chan s) < 2147483648"
  shows "bad_chanspec_of_list s tabs c =
    Some (unat (sd_n_chan s) \<le> unat (CR_CHAN c) \<or>
      unat (lr_length (tabs ! unat (CR_CHAN c))) \<le> unat (CR_RANGE c))"
  using assms sle_u32_small[OF assms(2) CR_CHAN_small]
  by (auto simp: bad_chanspec_of_list_def Let_def aref_invalid_def word_le_nat_alt)

text \<open>What a channel list element may name on a subdevice.\<close>

definition chanspec_ok :: "'p comedi_subdevice \<Rightarrow> u32 \<Rightarrow> bool" where
  "chanspec_ok s c \<longleftrightarrow> unat (CR_CHAN c) < unat (sd_n_chan s) \<and>
     (case sd_range_table s of
        Some lr \<Rightarrow> unat (CR_RANGE c) < unat (lr_length lr)
      | None \<Rightarrow> (case sd_range_table_list s of
          Some tabs \<Rightarrow> unat (CR_RANGE c) < unat (lr_length (tabs ! unat (CR_CHAN c)))
        | None \<Rightarrow> False))"

definition range_tables_ok :: "'p comedi_subdevice \<Rightarrow> bool" where
  "range_tables_ok s \<longleftrightarrow> unat (sd_n_chan s) < 2147483648 \<and>
     (sd_range_table s = None \<longrightarrow>
       (case sd_range_table_list s of None \<Rightarrow> True | Some tabs \<Rightarrow> unat (sd_n_chan s) \<le> length tabs))"

lemma check_chanlist_spec:
  assumes "range_tables_ok s" and "unat n < 2147483648" and "length chans = unat n" and "chans \<noteq> []"
  shows "check_chanlist s n chans = Some (if \<forall>c \<in> set chans. chanspec_ok s c then 0 else - EINVAL)"
proof -
  have cnt: "nat (sint n) = length chans" using assms(2,3) by (simp add: sint_u32)
  consider (one) lr where "sd_range_table s = Some lr"
    | (list) tabs where "sd_range_table s = None" "sd_range_table_list s = Some tabs"
    | (none) "sd_range_table s = None" "sd_range_table_list s = None"
    by (cases "sd_range_table s"; cases "sd_range_table_list s") auto
  then show ?thesis
  proof cases
    case one
    then show ?thesis
      using check_each_all[of "\<lambda>c. Some (bad_chanspec s lr c)" "bad_chanspec s lr" chans]
      by (simp add: check_chanlist_def cnt bad_chanspec_def aref_invalid_def chanspec_ok_def
        word_le_nat_alt not_le)
  next
    case list
    then have "unat (sd_n_chan s) \<le> length tabs" "unat (sd_n_chan s) < 2147483648"
      using assms(1) by (simp_all add: range_tables_ok_def)
    note bad = check_each_all[where chans = chans, OF bad_chanspec_of_list_eq[OF this]]
    show ?thesis
      using list by (simp add: check_chanlist_def cnt bad chanspec_ok_def not_le)
  next
    case none
    then show ?thesis using assms(4) by (cases chans) (auto simp: check_chanlist_def chanspec_ok_def)
  qed
qed

text \<open>
  C7. \<open>check_chanlist\<close> returns, and returns 0 exactly when every element of the list names a channel of
  the subdevice and a range of the table that applies to that channel (given as many tables as
  channels, as the drivers set up); otherwise it returns \<open>-EINVAL\<close>.
\<close>

theorem check_chanlist_iff:
  assumes "range_tables_ok s" and "unat n < 2147483648" and "length chans = unat n" and "chans \<noteq> []"
  shows "check_chanlist s n chans = Some (if \<forall>c \<in> set chans. chanspec_ok s c then 0 else - EINVAL)"
  using assms by (rule check_chanlist_spec)

definition small_ranges :: comedi_lrange where
  "small_ranges = \<lparr>lr_length = 2, lr_range = [\<lparr>kr_min = 0, kr_max = 10, kr_flags = 0\<rparr>, \<lparr>kr_min = 0, kr_max = 5, kr_flags = 0\<rparr>]\<rparr>"

theorem check_chanlist_iff_witness:
  "check_chanlist ((fresh_subd 8)\<lparr>sd_range_table := Some small_ranges\<rparr>) 2 [CR_PACK 3 1 0, CR_PACK 99 0 0] =
    Some (- EINVAL)"
proof -
  let ?s = "(fresh_subd 8)\<lparr>sd_range_table := Some small_ranges\<rparr>"
  have "range_tables_ok ?s" by (simp add: range_tables_ok_def fresh_subd_def)
  moreover have "\<not> chanspec_ok ?s (CR_PACK 99 0 0)"
    by (simp add: chanspec_ok_def CR_PACK_def CR_CHAN_def fresh_subd_def)
  ultimately show ?thesis using check_chanlist_iff[of ?s 2 "[CR_PACK 3 1 0, CR_PACK 99 0 0]"] by simp
qed
end
