(* ===== verification/Instructions.thy ===== *)
theory Instructions
  imports Subdevice_State Range_Info
begin

text \<open>
  Synchronous instructions (\<open>parse_insn\<close> and the INSN and INSNLIST ioctls of \<open>comedi/comedi_fops.c\<close>,
  \<open>insn_rw_emulate_bits\<close> of \<open>comedi/drivers.c\<close>). The services of the kernel that an ioctl uses are
  arguments: \<open>user_env\<close> says what the k-th copy from user space yields (\<^term>\<open>None\<close>: a fault), whether
  the k-th copy to user space succeeds, and what the k-th \<open>kmalloc\<close> returns: memory with its former
  contents. The copies to user space that succeed are returned in order.
\<close>

unbundle bit_operations_syntax

record user_env =
  ue_read :: "nat \<Rightarrow> u64 \<Rightarrow> nat \<Rightarrow> u32 list option"
  ue_write :: "nat \<Rightarrow> u64 \<Rightarrow> u32 list \<Rightarrow> bool"
  ue_alloc :: "nat \<Rightarrow> nat \<Rightarrow> u32 list option"

type_synonym user_write = "u64 \<times> u32 list"

definition store_nth :: "'a list \<Rightarrow> nat \<Rightarrow> 'a \<Rightarrow> 'a list option" where
  "store_nth xs i x = (if i < length xs then Some (xs[i := x]) else None)"

lemma store_nth_less [simp]: "i < length xs \<Longrightarrow> store_nth xs i x = Some (xs[i := x])"
  by (simp add: store_nth_def)

section \<open>Reading and writing through the bits instruction\<close>

type_synonym ('p, 'h) insn_result =
  "(int \<times> ('p, 'h) comedi_device \<times> comedi_insn \<times> lsampl_t list) option"

text \<open>The call through \<open>s->insn_bits\<close>; a subdevice whose bits handler is the emulation itself never returns.\<close>

definition call_insn_bits ::
  "('p, 'h) driver_ops \<Rightarrow> insn_fn option \<Rightarrow> ('p, 'h) comedi_device \<Rightarrow> nat \<Rightarrow> comedi_insn \<Rightarrow>
    lsampl_t list \<Rightarrow> ('p, 'h) insn_result" where
  "call_insn_bits ops f dev i insn data =
     (case f of
        Some Insn_inval \<Rightarrow> Some (- EINVAL, dev, insn, data)
      | Some (Insn_driver g) \<Rightarrow> op_insn ops g dev i insn data
      | _ \<Rightarrow> None)"

definition insn_rw_emulate_bits ::
  "('p, 'h) driver_ops \<Rightarrow> ('p, 'h) comedi_device \<Rightarrow> nat \<Rightarrow> comedi_insn \<Rightarrow> lsampl_t list \<Rightarrow>
    ('p, 'h) insn_result" where
  "insn_rw_emulate_bits ops dev i insn data =
     do {
       s \<leftarrow> subd dev i;
       let chan = CR_CHAN (insn_chanspec insn);
           base = (if chan < 32 then 0 else chan);
           bit = push_bit (unat (chan - base)) (1 :: u32)
       in
       if insn_insn insn = INSN_WRITE \<and> sd_subdev_flags s AND SDF_WRITABLE = 0
       then Some (- EINVAL, dev, insn, data)
       else if insn_n insn = 0 then Some (0, dev, insn, data)
       else do {
         new_data \<leftarrow>
           (if insn_insn insn = INSN_WRITE
            then do { d \<leftarrow> load_nth data 0; Some [bit, if d \<noteq> 0 then bit else 0] }
            else Some [0, 0]);
         let new_insn = \<lparr>insn_insn = INSN_BITS, insn_n = 2, insn_data = 0,
               insn_subdev = insn_subdev insn, insn_chanspec = base\<rparr>
         in do {
           (ret, dev, _, new_data) \<leftarrow> call_insn_bits ops (sd_insn_bits s) dev i new_insn new_data;
           if ret < 0 then Some (ret, dev, insn, data)
           else if insn_insn insn = INSN_READ then do {
             v \<leftarrow> load_nth new_data 1;
             data \<leftarrow> store_nth data 0 (drop_bit (unat (chan - base)) v AND 1);
             Some (1, dev, insn, data)
           }
           else Some (1, dev, insn, data)
         }
       }
     }"

definition call_insn ::
  "('p, 'h) driver_ops \<Rightarrow> insn_fn option \<Rightarrow> ('p, 'h) comedi_device \<Rightarrow> nat \<Rightarrow> comedi_insn \<Rightarrow>
    lsampl_t list \<Rightarrow> ('p, 'h) insn_result" where
  "call_insn ops f dev i insn data =
     (case f of
        None \<Rightarrow> None
      | Some Insn_inval \<Rightarrow> Some (- EINVAL, dev, insn, data)
      | Some Insn_rw_emulate_bits \<Rightarrow> insn_rw_emulate_bits ops dev i insn data
      | Some (Insn_driver g) \<Rightarrow> op_insn ops g dev i insn data)"

section \<open>The length of a configuration instruction\<close>

definition check_insn_config_length :: "comedi_insn \<Rightarrow> lsampl_t list \<Rightarrow> int option" where
  "check_insn_config_length insn data =
     (let n = insn_n insn in
      if n < 1 then Some (- EINVAL)
      else do {
        id \<leftarrow> load_nth data 0;
        Some
          (if id \<in> {INSN_CONFIG_DIO_OUTPUT, INSN_CONFIG_DIO_INPUT, INSN_CONFIG_DISARM,
                     INSN_CONFIG_RESET}
           then (if n = 1 then 0 else - EINVAL)
           else if id \<in> {INSN_CONFIG_ARM, INSN_CONFIG_DIO_QUERY, INSN_CONFIG_BLOCK_SIZE,
                     INSN_CONFIG_FILTER, INSN_CONFIG_SERIAL_CLOCK, INSN_CONFIG_BIDIRECTIONAL_DATA,
                     INSN_CONFIG_ALT_SOURCE, INSN_CONFIG_SET_COUNTER_MODE,
                     INSN_CONFIG_8254_READ_STATUS, INSN_CONFIG_SET_ROUTING,
                     INSN_CONFIG_GET_ROUTING, INSN_CONFIG_GET_PWM_STATUS,
                     INSN_CONFIG_PWM_SET_PERIOD, INSN_CONFIG_PWM_GET_PERIOD}
           then (if n = 2 then 0 else - EINVAL)
           else if id \<in> {INSN_CONFIG_SET_GATE_SRC, INSN_CONFIG_GET_GATE_SRC,
                     INSN_CONFIG_SET_CLOCK_SRC, INSN_CONFIG_GET_CLOCK_SRC,
                     INSN_CONFIG_SET_OTHER_SRC, INSN_CONFIG_GET_COUNTER_STATUS,
                     INSN_CONFIG_PWM_SET_H_BRIDGE, INSN_CONFIG_PWM_GET_H_BRIDGE,
                     INSN_CONFIG_GET_HARDWARE_BUFFER_SIZE}
           then (if n = 3 then 0 else - EINVAL)
           else if id \<in> {INSN_CONFIG_PWM_OUTPUT, INSN_CONFIG_ANALOG_TRIG}
           then (if n = 5 then 0 else - EINVAL)
           else if id = INSN_CONFIG_DIGITAL_TRIG
           then (if n = 6 then 0 else - EINVAL)
           else 0)
      })"

section \<open>One instruction\<close>

definition special_insn ::
  "('p, 'h) driver_ops \<Rightarrow> u32 \<times> u32 \<Rightarrow> ('p, 'h) comedi_device \<Rightarrow> comedi_insn \<Rightarrow> lsampl_t list \<Rightarrow>
    ('p, 'h) insn_result" where
  "special_insn ops tv dev insn data =
     (if insn_insn insn = INSN_GTOD then
        if insn_n insn \<noteq> 2 then Some (- EINVAL, dev, insn, data)
        else do {
          data \<leftarrow> store_nth data 0 (fst tv);
          data \<leftarrow> store_nth data 1 (snd tv);
          Some (2, dev, insn, data)
        }
      else if insn_insn insn = INSN_WAIT then
        if insn_n insn \<noteq> 1 then Some (- EINVAL, dev, insn, data)
        else do {
          d \<leftarrow> load_nth data 0;
          if 100000 \<le> d then Some (- EINVAL, dev, insn, data) else Some (1, dev, insn, data)
        }
      else if insn_insn insn = INSN_INTTRIG then
        if insn_n insn \<noteq> 1 then Some (- EINVAL, dev, insn, data)
        else if dv_n_subdevices dev \<le> insn_subdev insn then Some (- EINVAL, dev, insn, data)
        else do {
          s \<leftarrow> subd dev (unat (insn_subdev insn));
          case sd_async s of
            None \<Rightarrow> Some (- EINVAL, dev, insn, data)
          | Some a \<Rightarrow>
              (case inttrig a of
                 None \<Rightarrow> Some (- EAGAIN, dev, insn, data)
               | Some f \<Rightarrow>
                   do {
                     d \<leftarrow> load_nth data 0;
                     (ret, dev) \<leftarrow> op_inttrig ops f dev (unat (insn_subdev insn)) d;
                     Some (if 0 \<le> ret then 1 else ret, dev, insn, data)
                   })
        }
      else Some (- EINVAL, dev, insn, data))"

primrec data_within :: "lsampl_t \<Rightarrow> lsampl_t list \<Rightarrow> nat \<Rightarrow> nat \<Rightarrow> bool option" where
  "data_within maxdata data i 0 = Some True"
| "data_within maxdata data i (Suc k) =
     do {
       d \<leftarrow> load_nth data i;
       if maxdata < d then Some False else data_within maxdata data (Suc i) k
     }"

definition insn_maxdata :: "'p comedi_subdevice \<Rightarrow> u32 \<Rightarrow> lsampl_t option" where
  "insn_maxdata s chanspec =
     (case sd_maxdata_list s of
        Some ms \<Rightarrow> load_nth ms (unat (CR_CHAN chanspec))
      | None \<Rightarrow> Some (sd_maxdata s))"

definition bits_insn ::
  "('p, 'h) driver_ops \<Rightarrow> ('p, 'h) comedi_device \<Rightarrow> nat \<Rightarrow> 'p comedi_subdevice \<Rightarrow> comedi_insn \<Rightarrow>
    lsampl_t list \<Rightarrow> ('p, 'h) insn_result" where
  "bits_insn ops dev i s insn data =
     do {
       orig_mask \<leftarrow> load_nth data 0;
       d1 \<leftarrow> load_nth data 1;
       let shift = (if sd_n_chan s \<le>s 32 then CR_CHAN (insn_chanspec insn) else 0);
           (insn, data) =
             (if 0 < shift
              then (insn\<lparr>insn_chanspec := 0\<rparr>,
                    data[0 := push_bit (unat shift) orig_mask, 1 := push_bit (unat shift) d1])
              else (insn, data))
       in do {
         (ret, dev, insn, data) \<leftarrow> call_insn ops (sd_insn_bits s) dev i insn data;
         data \<leftarrow> store_nth data 0 orig_mask;
         d1 \<leftarrow> load_nth data 1;
         Some (ret, dev, insn, if 0 < shift then data[1 := drop_bit (unat shift) d1] else data)
       }
     }"

definition subdevice_insn ::
  "('p, 'h) driver_ops \<Rightarrow> ('p, 'h) comedi_device \<Rightarrow> nat \<Rightarrow> 'p comedi_subdevice \<Rightarrow> comedi_insn \<Rightarrow>
    lsampl_t list \<Rightarrow> ('p, 'h) insn_result" where
  "subdevice_insn ops dev i s insn data =
     (if insn_insn insn = INSN_READ then call_insn ops (sd_insn_read s) dev i insn data
      else if insn_insn insn = INSN_WRITE then
        do {
          maxdata \<leftarrow> insn_maxdata s (insn_chanspec insn);
          ok \<leftarrow> data_within maxdata data 0 (unat (insn_n insn));
          if ok then call_insn ops (sd_insn_write s) dev i insn data
          else Some (- EINVAL, dev, insn, data)
        }
      else if insn_insn insn = INSN_BITS then
        if insn_n insn \<noteq> 2 then Some (- EINVAL, dev, insn, data)
        else bits_insn ops dev i s insn data
      else if insn_insn insn = INSN_CONFIG then
        do {
          ret \<leftarrow> check_insn_config_length insn data;
          if ret \<noteq> 0 then Some (ret, dev, insn, data)
          else call_insn ops (sd_insn_config s) dev i insn data
        }
      else Some (- EINVAL, dev, insn, data))"

definition parse_insn ::
  "('p, 'h) driver_ops \<Rightarrow> u32 \<times> u32 \<Rightarrow> ('p, 'h) comedi_device \<Rightarrow> comedi_insn \<Rightarrow> lsampl_t list \<Rightarrow>
    owner \<Rightarrow> ('p, 'h) insn_result" where
  "parse_insn ops tv dev insn data fil =
     (if insn_insn insn AND INSN_MASK_SPECIAL \<noteq> 0 then special_insn ops tv dev insn data
      else if dv_n_subdevices dev \<le> insn_subdev insn then Some (- EINVAL, dev, insn, data)
      else let i = unat (insn_subdev insn) in
        do {
          s \<leftarrow> subd dev i;
          if sd_type s = COMEDI_SUBD_UNUSED then Some (- EIO, dev, insn, data)
          else if sd_lock s \<noteq> None \<and> sd_lock s \<noteq> Some fil then Some (- EACCES, dev, insn, data)
          else do {
            ret \<leftarrow> check_chanlist s 1 [insn_chanspec insn];
            if ret < 0 then Some (- EINVAL, dev, insn, data)
            else if sd_busy s \<noteq> None then Some (- EBUSY, dev, insn, data)
            else do {
              let s = s\<lparr>sd_busy := Some Owner_parse_insn\<rparr>;
                  dev = set_subd i s dev
              in do {
                (ret, dev, insn, data) \<leftarrow> subdevice_insn ops dev i s insn data;
                s \<leftarrow> subd dev i;
                Some (ret, set_subd i (s\<lparr>sd_busy := None\<rparr>) dev, insn, data)
              }
            }
          }
        })"

section \<open>The INSN and INSNLIST ioctls\<close>

definition do_insn_ioctl ::
  "('p, 'h) driver_ops \<Rightarrow> user_env \<Rightarrow> u32 \<times> u32 \<Rightarrow> ('p, 'h) comedi_device \<Rightarrow> comedi_insn option \<Rightarrow>
    owner \<Rightarrow> (int \<times> user_write list \<times> ('p, 'h) comedi_device) option" where
  "do_insn_ioctl ops env tv dev arg fil =
     (case arg of
        None \<Rightarrow> Some (- EFAULT, [], dev)
      | Some insn \<Rightarrow>
          (case (if insn_n insn \<noteq> 0 then ue_alloc env 0 (unat (insn_n insn)) else Some []) of
             None \<Rightarrow> Some (- ENOMEM, [], dev)
           | Some data \<Rightarrow>
               (case (if insn_insn insn AND INSN_MASK_WRITE \<noteq> 0
                      then ue_read env 0 (insn_data insn) (unat (insn_n insn)) else Some data) of
                  None \<Rightarrow> Some (- EFAULT, [], dev)
                | Some data \<Rightarrow>
                    do {
                      (ret, dev, insn, data) \<leftarrow> parse_insn ops tv dev insn data fil;
                      if ret < 0 then Some (ret, [], dev)
                      else if insn_insn insn AND INSN_MASK_READ \<noteq> 0 then
                        if ue_write env 0 (insn_data insn) (take (unat (insn_n insn)) data)
                        then Some (sint (insn_n insn),
                               [(insn_data insn, take (unat (insn_n insn)) data)], dev)
                        else Some (- EFAULT, [], dev)
                      else Some (sint (insn_n insn), [], dev)
                    })))"

text \<open>
  The instructions of a list share one buffer of \<open>max_samples\<close> words. \<open>k\<close> counts the instructions
  done; the environment's copies are numbered by instruction.
\<close>

fun insnlist_loop ::
  "('p, 'h) driver_ops \<Rightarrow> user_env \<Rightarrow> (nat \<Rightarrow> u32 \<times> u32) \<Rightarrow> owner \<Rightarrow> nat \<Rightarrow> comedi_insn list \<Rightarrow>
    lsampl_t list \<Rightarrow> user_write list \<Rightarrow> ('p, 'h) comedi_device \<Rightarrow>
    (int \<times> user_write list \<times> ('p, 'h) comedi_device) option" where
  "insnlist_loop ops env tod fil k [] data ws dev = Some (int k, ws, dev)"
| "insnlist_loop ops env tod fil k (insn # insns) data ws dev =
     (case (if insn_insn insn AND INSN_MASK_WRITE \<noteq> 0
            then map_option (\<lambda>xs. overwrite data 0 xs)
                   (ue_read env k (insn_data insn) (unat (insn_n insn)))
            else Some data) of
        None \<Rightarrow> Some (- EFAULT, ws, dev)
      | Some data \<Rightarrow>
          do {
            (ret, dev, insn, data) \<leftarrow> parse_insn ops (tod k) dev insn data fil;
            if ret < 0 then Some (ret, ws, dev)
            else if insn_insn insn AND INSN_MASK_READ \<noteq> 0 then
              if ue_write env k (insn_data insn) (take (unat (insn_n insn)) data)
              then insnlist_loop ops env tod fil (Suc k) insns data
                     (ws @ [(insn_data insn, take (unat (insn_n insn)) data)]) dev
              else Some (- EFAULT, ws, dev)
            else insnlist_loop ops env tod fil (Suc k) insns data ws dev
          })"

definition do_insnlist_ioctl ::
  "('p, 'h) driver_ops \<Rightarrow> user_env \<Rightarrow> (nat \<Rightarrow> u32 \<times> u32) \<Rightarrow> ('p, 'h) comedi_device \<Rightarrow>
    (bool \<times> comedi_insn list option) option \<Rightarrow> owner \<Rightarrow>
    (int \<times> user_write list \<times> ('p, 'h) comedi_device) option" where
  "do_insnlist_ioctl ops env tod dev arg fil =
     (case arg of
        None \<Rightarrow> Some (- EFAULT, [], dev)
      | Some (alloc_ok, user_insns) \<Rightarrow>
          if \<not> alloc_ok then Some (- ENOMEM, [], dev)
          else
            (case user_insns of
               None \<Rightarrow> Some (- EFAULT, [], dev)
             | Some insns \<Rightarrow>
                 let max_samples = fold (\<lambda>insn m. if m < insn_n insn then insn_n insn else m) insns 0
                 in case (if max_samples \<noteq> 0 then ue_alloc env 0 (unat max_samples) else Some []) of
                      None \<Rightarrow> Some (- ENOMEM, [], dev)
                    | Some data \<Rightarrow> insnlist_loop ops env tod fil 0 insns data [] dev))"

end
