(* ===== verification/Commands.thy ===== *)
theory Commands
  imports Instructions
begin

text \<open>
  The CMD and CMDTEST ioctls (\<open>do_cmd_ioctl\<close> and \<open>do_cmdtest_ioctl\<close> of \<open>comedi/comedi_fops.c\<close>): the
  checks a streaming command passes, the kernel's copy of its channel list, the driver's test of it
  and the start of the acquisition. What goes back to user space is returned beside the return code.
\<close>

unbundle bit_operations_syntax

definition user_chan_addr :: "chan_ptr \<Rightarrow> u64 option" where
  "user_chan_addr p =
     (case p of Null_ptr \<Rightarrow> Some 0 | User_ptr addr \<Rightarrow> Some addr | Kern_ptr _ \<Rightarrow> None)"

definition read_chanlist :: "user_env \<Rightarrow> chan_ptr \<Rightarrow> u32 \<Rightarrow> u32 list option" where
  "read_chanlist env p n =
     (case user_chan_addr p of None \<Rightarrow> None | Some addr \<Rightarrow> ue_read env 0 addr (unat n))"

definition kern_chanlist :: "chan_ptr \<Rightarrow> u32 list" where
  "kern_chanlist p = (case p of Kern_ptr xs \<Rightarrow> xs | _ \<Rightarrow> [])"

definition upd_async ::
  "nat \<Rightarrow> (comedi_async \<Rightarrow> comedi_async) \<Rightarrow> ('p, 'h) comedi_device \<Rightarrow> ('p, 'h) comedi_device option" where
  "upd_async i f dev =
     do {
       s \<leftarrow> subd dev i;
       a \<leftarrow> sd_async s;
       Some (set_subd i (s\<lparr>sd_async := Some (f a)\<rparr>) dev)
     }"

type_synonym ('p, 'h) cmd_result = "(int \<times> comedi_cmd option \<times> ('p, 'h) comedi_device) option"

definition cmd_cleanup ::
  "int \<Rightarrow> comedi_cmd option \<Rightarrow> nat \<Rightarrow> ('p, 'h) comedi_device \<Rightarrow> ('p, 'h) cmd_result" where
  "cmd_cleanup ret out i dev =
     do {
       s \<leftarrow> subd dev i;
       s \<leftarrow> do_become_nonbusy s;
       Some (ret, out, set_subd i s dev)
     }"

section \<open>CMD\<close>

definition cmd_refused ::
  "('p, 'h) comedi_device \<Rightarrow> 'p comedi_subdevice \<Rightarrow> comedi_cmd \<Rightarrow> owner \<Rightarrow> int option" where
  "cmd_refused dev s user_cmd fil =
     (if sd_type s = COMEDI_SUBD_UNUSED then Some (- EIO)
      else if sd_do_cmd s = None \<or> sd_do_cmdtest s = None \<or> sd_async s = None then Some (- EIO)
      else if sd_lock s \<noteq> None \<and> sd_lock s \<noteq> Some fil then Some (- EACCES)
      else if sd_busy s \<noteq> None then Some (- EBUSY)
      else if sd_len_chanlist s < chanlist_len user_cmd then Some (- EINVAL)
      else if chanlist_len user_cmd < 1 then Some (- EINVAL)
      else None)"

definition start_cmd ::
  "('p, 'h) driver_ops \<Rightarrow> ('p, 'h) comedi_device \<Rightarrow> nat \<Rightarrow> owner \<Rightarrow> ('p, 'h) cmd_result" where
  "start_cmd ops dev i fil =
     do {
       s \<leftarrow> subd dev i;
       a \<leftarrow> sd_async s;
       if prealloc_bufsz a = 0 then cmd_cleanup (- ENOMEM) None i dev
       else
         let a = (comedi_reset_async_buf a)\<lparr>cb_mask :=
               (COMEDI_CB_EOA OR COMEDI_CB_BLOCK OR COMEDI_CB_ERROR OR COMEDI_CB_OVERFLOW) OR
               (if cmd_flags (cmd a) AND TRIG_WAKE_EOS \<noteq> 0 then COMEDI_CB_EOS else 0)\<rparr>;
             s = comedi_set_subdevice_runflags (s\<lparr>sd_async := Some a\<rparr>) (NOT 0)
                   (SRF_USER OR SRF_RUNNING);
             s = s\<lparr>sd_busy := Some fil\<rparr>
         in do {
              f \<leftarrow> sd_do_cmd s;
              (ret, dev) \<leftarrow> op_do_cmd ops f (set_subd i s dev) i;
              if ret = 0 then Some (0, None, dev) else cmd_cleanup ret None i dev
            }
     }"

text \<open>The channel list is in the kernel: check it, let the driver test the command, and start it.\<close>

definition test_and_start ::
  "('p, 'h) driver_ops \<Rightarrow> ('p, 'h) comedi_device \<Rightarrow> nat \<Rightarrow> comedi_cmd \<Rightarrow> u32 list \<Rightarrow> bool \<Rightarrow> owner \<Rightarrow>
    ('p, 'h) cmd_result" where
  "test_and_start ops dev i user_cmd chans copy_back_ok fil =
     (let kcmd = user_cmd\<lparr>cmd_data := 0, chanlist := Kern_ptr chans\<rparr> in
      do {
        dev \<leftarrow> upd_async i (\<lambda>a. a\<lparr>cmd := kcmd\<rparr>) dev;
        s \<leftarrow> subd dev i;
        ret \<leftarrow> check_chanlist s (chanlist_len kcmd) chans;
        if ret < 0 then cmd_cleanup ret None i dev
        else do {
          f \<leftarrow> sd_do_cmdtest s;
          (ret, dev, tested) \<leftarrow> op_do_cmdtest ops f dev i kcmd;
          dev \<leftarrow> upd_async i (\<lambda>a. a\<lparr>cmd := tested\<rparr>) dev;
          if cmd_flags tested AND TRIG_BOGUS \<noteq> 0 \<or> ret \<noteq> 0 then
            if copy_back_ok
            then cmd_cleanup (- EAGAIN)
                   (Some (tested\<lparr>chanlist := chanlist user_cmd, cmd_data := 0\<rparr>)) i dev
            else cmd_cleanup (- EFAULT) None i dev
          else start_cmd ops dev i fil
        }
      })"

definition do_cmd_ioctl ::
  "('p, 'h) driver_ops \<Rightarrow> user_env \<Rightarrow> ('p, 'h) comedi_device \<Rightarrow> comedi_cmd option \<Rightarrow> bool \<Rightarrow>
    owner \<Rightarrow> ('p, 'h) cmd_result" where
  "do_cmd_ioctl ops env dev arg copy_back_ok fil =
     (case arg of
        None \<Rightarrow> Some (- EFAULT, None, dev)
      | Some user_cmd \<Rightarrow>
          if dv_n_subdevices dev \<le> cmd_subdev user_cmd then Some (- ENODEV, None, dev)
          else let i = unat (cmd_subdev user_cmd) in
          do {
            s \<leftarrow> subd dev i;
            case cmd_refused dev s user_cmd fil of
              Some err \<Rightarrow> Some (err, None, dev)
            | None \<Rightarrow>
                (case ue_alloc env 0 (unat (chanlist_len user_cmd)) of
                   None \<Rightarrow>
                     do {
                       dev \<leftarrow> upd_async i (\<lambda>a. a\<lparr>cmd := user_cmd\<lparr>cmd_data := 0, chanlist := Null_ptr\<rparr>\<rparr>) dev;
                       Some (- ENOMEM, None, dev)
                     }
                 | Some garbage \<Rightarrow>
                     (case read_chanlist env (chanlist user_cmd) (chanlist_len user_cmd) of
                        None \<Rightarrow>
                          do {
                            dev \<leftarrow> upd_async i
                              (\<lambda>a. a\<lparr>cmd := user_cmd\<lparr>cmd_data := 0, chanlist := Kern_ptr garbage\<rparr>\<rparr>) dev;
                            cmd_cleanup (- EFAULT) None i dev
                          }
                      | Some chans \<Rightarrow> test_and_start ops dev i user_cmd chans copy_back_ok fil))
          })"

section \<open>CMDTEST\<close>

definition do_cmdtest_ioctl ::
  "('p, 'h) driver_ops \<Rightarrow> user_env \<Rightarrow> ('p, 'h) comedi_device \<Rightarrow> comedi_cmd option \<Rightarrow> bool \<Rightarrow>
    ('p, 'h) cmd_result" where
  "do_cmdtest_ioctl ops env dev arg copy_back_ok =
     (case arg of
        None \<Rightarrow> Some (- EFAULT, None, dev)
      | Some user_cmd \<Rightarrow>
          if dv_n_subdevices dev \<le> cmd_subdev user_cmd then Some (- ENODEV, None, dev)
          else let i = unat (cmd_subdev user_cmd) in
          do {
            s \<leftarrow> subd dev i;
            if sd_type s = COMEDI_SUBD_UNUSED then Some (- EIO, None, dev)
            else case sd_do_cmdtest s of
              None \<Rightarrow> Some (- EIO, None, dev)
            | Some f \<Rightarrow>
                if sd_do_cmd s = None then Some (- EIO, None, dev)
                else if sd_len_chanlist s < chanlist_len user_cmd then Some (- EINVAL, None, dev)
                else do {
                  checked \<leftarrow>
                    (if chanlist user_cmd = Null_ptr then Some (Inr user_cmd)
                     else
                       case ue_alloc env 0 (unat (chanlist_len user_cmd)) of
                         None \<Rightarrow> Some (Inl (- ENOMEM))
                       | Some _ \<Rightarrow>
                           (case read_chanlist env (chanlist user_cmd) (chanlist_len user_cmd) of
                              None \<Rightarrow> Some (Inl (- EFAULT))
                            | Some chans \<Rightarrow>
                                do {
                                  ret \<leftarrow> check_chanlist s (chanlist_len user_cmd) chans;
                                  Some (if ret < 0 then Inl ret
                                        else Inr (user_cmd\<lparr>chanlist := Kern_ptr chans\<rparr>))
                                }));
                  case checked of
                    Inl err \<Rightarrow> Some (err, None, dev)
                  | Inr kcmd \<Rightarrow>
                      do {
                        (ret, dev, tested) \<leftarrow> op_do_cmdtest ops f dev i kcmd;
                        if copy_back_ok
                        then Some (ret, Some (tested\<lparr>chanlist := chanlist user_cmd\<rparr>), dev)
                        else Some (- EFAULT, None, dev)
                      }
                }
          })"

end
