(* ===== verification/Info_Ioctls.thy ===== *)
theory Info_Ioctls
  imports Commands Buffer_Alloc
begin

text \<open>
  The ioctls through which a client inspects a device and its buffers: DEVINFO, SUBDINFO, CHANINFO,
  BUFCONFIG and BUFINFO (\<open>comedi/comedi_fops.c\<close>). Each returns its return code, what it copies to user
  space, and the device. The version code comes from the build configuration and is an argument.
\<close>

unbundle bit_operations_syntax

definition munge_ctx_of ::
  "('p, 'h) driver_ops \<Rightarrow> ('p, 'h) comedi_device \<Rightarrow> nat \<Rightarrow> 'p comedi_subdevice \<Rightarrow> munge_ctx" where
  "munge_ctx_of ops dev i s =
     \<lparr>mc_munge = map_option (\<lambda>f. op_munge ops f dev i) (sd_munge s),
      mc_sample_bytes = bytes_per_sample s\<rparr>"

section \<open>BUFCONFIG\<close>

definition do_bufconfig_ioctl ::
  "('p, 'h) driver_ops \<Rightarrow> alloc_env \<Rightarrow> bool \<Rightarrow> ('p, 'h) comedi_device \<Rightarrow> comedi_bufconfig option \<Rightarrow>
    bool \<Rightarrow> (int \<times> comedi_bufconfig option \<times> ('p, 'h) comedi_device) option" where
  "do_bufconfig_ioctl ops env admin dev arg copy_ok =
     (case arg of
        None \<Rightarrow> Some (- EFAULT, None, dev)
      | Some bc \<Rightarrow>
          if dv_n_subdevices dev \<le> bc_subdevice bc then Some (- EINVAL, None, dev)
          else let i = unat (bc_subdevice bc) in
          do {
            s \<leftarrow> subd dev i;
            case sd_async s of
              None \<Rightarrow>
                if copy_ok then Some (0, Some (bc\<lparr>bc_size := 0, bc_maximum_size := 0\<rparr>), dev)
                else Some (- EFAULT, None, dev)
            | Some a \<Rightarrow>
                if bc_maximum_size bc \<noteq> 0 \<and> \<not> admin then Some (- EPERM, None, dev)
                else do {
                  let dev = (if bc_maximum_size bc \<noteq> 0
                       then set_subd i (s\<lparr>sd_async := Some (a\<lparr>max_bufsize := bc_maximum_size bc\<rparr>)\<rparr>) dev
                       else dev)
                  in do {
                    (retval, dev, _) \<leftarrow>
                      (if bc_size bc \<noteq> 0 then resize_async_buffer ops env dev i (bc_size bc)
                       else Some (0, dev, \<lparr>pages_taken = [], pages_freed = []\<rparr>));
                    if retval < 0 then Some (retval, None, dev)
                    else do {
                      s \<leftarrow> subd dev i;
                      a \<leftarrow> sd_async s;
                      if copy_ok
                      then Some (0, Some (bc\<lparr>bc_size := prealloc_bufsz a, bc_maximum_size := max_bufsize a\<rparr>), dev)
                      else Some (- EFAULT, None, dev)
                    }
                  }
                }
          })"

section \<open>BUFINFO\<close>

definition bufinfo_position :: "comedi_bufinfo \<Rightarrow> comedi_async \<Rightarrow> comedi_bufinfo" where
  "bufinfo_position bi a =
     bi\<lparr>bi_buf_write_count := buf_write_count a, bi_buf_write_ptr := buf_write_ptr a,
        bi_buf_read_count := buf_read_count a, bi_buf_read_ptr := buf_read_ptr a\<rparr>"

text \<open>The part for input commands: the reader gives bytes back, and an emptied, stopped stream ends.\<close>

definition bufinfo_read ::
  "comedi_bufinfo \<Rightarrow> 'p comedi_subdevice \<Rightarrow> (int \<times> comedi_bufinfo \<times> 'p comedi_subdevice) option" where
  "bufinfo_read bi s =
     do {
       a \<leftarrow> sd_async s;
       if sd_subdev_flags s AND SDF_CMD_READ = 0 then Some (0, bi, s)
       else do {
         (bi, a) \<leftarrow>
           (if bi_bytes_read bi \<noteq> 0 then
              case comedi_buf_read_alloc a (bi_bytes_read bi) of (k, a) \<Rightarrow>
              do {
                (_, a) \<leftarrow> comedi_buf_read_free a k;
                Some (bi\<lparr>bi_bytes_read := k\<rparr>, a)
              }
            else Some (bi, a));
         let s = s\<lparr>sd_async := Some a\<rparr>
         in if buf_write_count a = buf_read_count a then do {
              s \<leftarrow> (if comedi_get_subdevice_runflags s AND (SRF_RUNNING OR SRF_ERROR) = 0
                   then do_become_nonbusy s else Some s);
              Some (if bi_bytes_read bi = 0 \<and>
                      comedi_get_subdevice_runflags s AND (SRF_RUNNING OR SRF_ERROR) = SRF_ERROR
                    then - EPIPE else 0, bi, s)
            }
            else Some (0, bi, s)
       }
     }"

definition bufinfo_write ::
  "munge_ctx \<Rightarrow> int \<Rightarrow> comedi_bufinfo \<Rightarrow> 'p comedi_subdevice \<Rightarrow>
    (int \<times> comedi_bufinfo \<times> 'p comedi_subdevice) option" where
  "bufinfo_write mc retval bi s =
     do {
       a \<leftarrow> sd_async s;
       if sd_subdev_flags s AND SDF_CMD_WRITE = 0 then Some (retval, bi, s)
       else do {
         (bi, a) \<leftarrow>
           (if bi_bytes_written bi \<noteq> 0 then
              case comedi_buf_write_alloc a (bi_bytes_written bi) of (k, a) \<Rightarrow>
              do {
                (_, a) \<leftarrow> comedi_buf_write_free mc a k;
                Some (bi\<lparr>bi_bytes_written := k\<rparr>, a)
              }
            else Some (bi, a));
         let s = s\<lparr>sd_async := Some a\<rparr>
         in Some (if bi_bytes_written bi = 0 \<and> \<not> running s \<and> in_error s then - EPIPE else retval, bi, s)
       }
     }"

definition do_bufinfo_ioctl ::
  "('p, 'h) driver_ops \<Rightarrow> ('p, 'h) comedi_device \<Rightarrow> comedi_bufinfo option \<Rightarrow> bool \<Rightarrow> owner \<Rightarrow>
    (int \<times> comedi_bufinfo option \<times> ('p, 'h) comedi_device) option" where
  "do_bufinfo_ioctl ops dev arg copy_ok fil =
     (let copy_back = (\<lambda>bi dev. if copy_ok then Some (0, Some bi, dev) else Some (- EFAULT, None, dev)) in
      case arg of
        None \<Rightarrow> Some (- EFAULT, None, dev)
      | Some bi \<Rightarrow>
          if dv_n_subdevices dev \<le> bi_subdevice bi then Some (- EINVAL, None, dev)
          else let i = unat (bi_subdevice bi) in
          do {
            s \<leftarrow> subd dev i;
            if sd_lock s \<noteq> None \<and> sd_lock s \<noteq> Some fil then Some (- EACCES, None, dev)
            else case sd_async s of
              None \<Rightarrow> copy_back (bi\<lparr>bi_buf_write_ptr := 0, bi_buf_read_ptr := 0, bi_buf_write_count := 0,
                        bi_buf_read_count := 0, bi_bytes_read := 0, bi_bytes_written := 0\<rparr>) dev
            | Some a \<Rightarrow>
                if sd_busy s = None
                then copy_back (bufinfo_position (bi\<lparr>bi_bytes_read := 0, bi_bytes_written := 0\<rparr>) a) dev
                else if sd_busy s \<noteq> Some fil then Some (- EACCES, None, dev)
                else do {
                  (retval, bi, s) \<leftarrow> bufinfo_read bi s;
                  (retval, bi, s) \<leftarrow> bufinfo_write (munge_ctx_of ops dev i s) retval bi s;
                  let dev = set_subd i s dev
                  in if retval \<noteq> 0 then Some (retval, None, dev)
                     else do {
                       a \<leftarrow> sd_async s;
                       copy_back (bufinfo_position bi a) dev
                     }
                }
          })"

section \<open>DEVINFO and SUBDINFO\<close>

definition do_devinfo_ioctl ::
  "u32 \<Rightarrow> ('p, 'h) comedi_device \<Rightarrow> nat option \<Rightarrow> nat option \<Rightarrow> bool \<Rightarrow>
    (int \<times> comedi_devinfo option) option" where
  "do_devinfo_ioctl version_code dev read_subdev write_subdev copy_ok =
     do {
       drv \<leftarrow> dv_driver dev;
       board \<leftarrow> dv_board_name dev;
       Some (if copy_ok
             then (0, Some \<lparr>di_version_code = version_code, di_n_subdevs = dv_n_subdevices dev,
                    di_driver_name = strlcpy (driver_name drv) COMEDI_NAMELEN,
                    di_board_name = strlcpy board COMEDI_NAMELEN,
                    di_read_subdevice = (case read_subdev of Some i \<Rightarrow> int i | None \<Rightarrow> -1),
                    di_write_subdevice = (case write_subdev of Some i \<Rightarrow> int i | None \<Rightarrow> -1)\<rparr>)
             else (- EFAULT, None))
     }"

definition flag_if :: "bool \<Rightarrow> u32 \<Rightarrow> u32" where
  "flag_if b x = (if b then x else 0)"

definition range_type_of :: "nat \<Rightarrow> nat \<Rightarrow> comedi_lrange \<Rightarrow> u32" where
  "range_type_of i chan lr = (push_bit 24 (of_nat i) OR push_bit 16 (of_nat chan) OR lr_length lr)"

definition fill_subdinfo :: "nat \<Rightarrow> 'p comedi_subdevice \<Rightarrow> owner \<Rightarrow> comedi_subdinfo" where
  "fill_subdinfo i s fil =
     \<lparr>si_type = subd_type_code (sd_type s),
      si_n_chan = sd_n_chan s,
      si_subd_flags = sd_subdev_flags s OR
        flag_if (comedi_get_subdevice_runflags s AND SRF_RUNNING \<noteq> 0) SDF_RUNNING OR
        flag_if (sd_busy s \<noteq> None) SDF_BUSY OR
        flag_if (sd_busy s = Some fil) SDF_BUSY_OWNER OR
        flag_if (sd_lock s \<noteq> None) SDF_LOCKED OR
        flag_if (sd_lock s = Some fil) SDF_LOCK_OWNER OR
        flag_if (sd_maxdata s = 0 \<and> sd_maxdata_list s \<noteq> None) SDF_MAXDATA OR
        flag_if (sd_flaglist s \<noteq> None) SDF_FLAGS OR
        flag_if (sd_range_table_list s \<noteq> None) SDF_RANGETYPE OR
        flag_if (sd_do_cmd s \<noteq> None) SDF_CMD,
      si_timer_type = 5,
      si_len_chanlist = sd_len_chanlist s,
      si_maxdata = sd_maxdata s,
      si_flags = sd_flags s,
      si_range_type = (case sd_range_table s of Some lr \<Rightarrow> range_type_of i 0 lr | None \<Rightarrow> 0),
      si_settling_time_0 = sd_settling_time_0 s,
      si_insn_bits_support = (if sd_insn_bits s \<noteq> Some Insn_inval then 1 else 2)\<rparr>"

primrec fill_subdinfos ::
  "('p, 'h) comedi_device \<Rightarrow> owner \<Rightarrow> nat \<Rightarrow> nat \<Rightarrow> comedi_subdinfo list option" where
  "fill_subdinfos dev fil i 0 = Some []"
| "fill_subdinfos dev fil i (Suc k) =
     do {
       s \<leftarrow> subd dev i;
       rest \<leftarrow> fill_subdinfos dev fil (Suc i) k;
       Some (fill_subdinfo i s fil # rest)
     }"

definition do_subdinfo_ioctl ::
  "('p, 'h) comedi_device \<Rightarrow> bool \<Rightarrow> bool \<Rightarrow> owner \<Rightarrow> (int \<times> comedi_subdinfo list option) option" where
  "do_subdinfo_ioctl dev alloc_ok copy_ok fil =
     (if \<not> alloc_ok then Some (- ENOMEM, None)
      else do {
        infos \<leftarrow> fill_subdinfos dev fil 0 (nat (sint (dv_n_subdevices dev)));
        Some (if copy_ok then (0, Some infos) else (- EFAULT, None))
      })"

section \<open>CHANINFO\<close>

text \<open>A copy of a per-channel list; the three lists are copied in turn and the first failure ends the ioctl.\<close>

definition copy_chan_list ::
  "user_env \<Rightarrow> nat \<Rightarrow> u64 \<Rightarrow> u32 list option \<Rightarrow> u32 \<Rightarrow> (int \<times> user_write list) option" where
  "copy_chan_list env k addr xs n_chan =
     (case xs of
        None \<Rightarrow> Some (- EINVAL, [])
      | Some xs \<Rightarrow>
          if length xs < unat n_chan then None
          else if ue_write env k addr (take (unat n_chan) xs)
          then Some (0, [(addr, take (unat n_chan) xs)]) else Some (- EFAULT, []))"

fun chan_range_types ::
  "u32 \<Rightarrow> u32 \<Rightarrow> nat \<Rightarrow> comedi_lrange list \<Rightarrow> u32 list" where
  "chan_range_types minor sub i [] = []"
| "chan_range_types minor sub i (lr # lrs) =
     (push_bit 28 minor OR push_bit 24 sub OR push_bit 16 (of_nat i) OR lr_length lr) #
     chan_range_types minor sub (Suc i) lrs"

definition do_chaninfo_ioctl ::
  "user_env \<Rightarrow> ('p, 'h) comedi_device \<Rightarrow> comedi_chaninfo option \<Rightarrow> (int \<times> user_write list) option" where
  "do_chaninfo_ioctl env dev arg =
     (case arg of
        None \<Rightarrow> Some (- EFAULT, [])
      | Some it \<Rightarrow>
          if dv_n_subdevices dev \<le> ci_subdev it then Some (- EINVAL, [])
          else do {
            s \<leftarrow> subd dev (unat (ci_subdev it));
            (ret, ws1) \<leftarrow>
              (if ci_maxdata_list it \<noteq> 0 then
                 if sd_maxdata s \<noteq> 0 then Some (- EINVAL, [])
                 else copy_chan_list env 0 (ci_maxdata_list it) (sd_maxdata_list s) (sd_n_chan s)
               else Some (0, []));
            if ret \<noteq> 0 then Some (ret, ws1)
            else do {
              (ret, ws2) \<leftarrow>
                (if ci_flaglist it \<noteq> 0
                 then copy_chan_list env 1 (ci_flaglist it) (sd_flaglist s) (sd_n_chan s)
                 else Some (0, []));
              if ret \<noteq> 0 then Some (ret, ws1 @ ws2)
              else if ci_rangelist it = 0 then Some (0, ws1 @ ws2)
              else
                case sd_range_table_list s of
                  None \<Rightarrow> Some (- EINVAL, ws1 @ ws2)
                | Some tabs \<Rightarrow>
                    let n = nat (sint (sd_n_chan s)) in
                    if length tabs < n then None
                    else
                      let xs = chan_range_types (of_int (dv_minor dev)) (ci_subdev it) 0 (take n tabs);
                          ws3 = map (\<lambda>j. (ci_rangelist it + 4 * of_nat j, [xs ! j]))
                            (filter (\<lambda>j. ue_write env (2 + j) (ci_rangelist it + 4 * of_nat j) [xs ! j]) [0..<n])
                      in Some (0, ws1 @ ws2 @ ws3)
            }
          })"

end
