(* ===== verification/File_Io.thy ===== *)
theory File_Io
  imports Info_Ioctls
begin

text \<open>
  Reading, writing, polling and mapping a device file (\<open>comedi_read\<close>, \<open>comedi_write\<close>, \<open>comedi_poll\<close>,
  \<open>comedi_mmap\<close>, \<open>comedi_vm_open\<close> and \<open>comedi_vm_close\<close> of \<open>comedi/comedi_fops.c\<close>), on the device and
  the subdevice that the minor number names. A blocking call sleeps in \<open>schedule()\<close>: each element of
  \<open>wakes\<close> is one wake-up, the change the rest of the system made to the device meanwhile and whether a
  signal is pending; a call that runs out of wake-ups sleeps for ever and has no result. \<open>reach\<close> is
  the number of bytes that the copy to or from user space can transfer before it faults.
\<close>

unbundle bit_operations_syntax

type_synonym ('p, 'h) wake = "('p, 'h) comedi_device \<Rightarrow> bool \<times> ('p, 'h) comedi_device"

definition set_async ::
  "nat \<Rightarrow> 'p comedi_subdevice \<Rightarrow> comedi_async \<Rightarrow> ('p, 'h) comedi_device \<Rightarrow> ('p, 'h) comedi_device" where
  "set_async i s a dev = set_subd i (s\<lparr>sd_async := Some a\<rparr>) dev"

definition become_nonbusy_at :: "nat \<Rightarrow> ('p, 'h) comedi_device \<Rightarrow> ('p, 'h) comedi_device option" where
  "become_nonbusy_at i dev =
     do { s \<leftarrow> subd dev i; s \<leftarrow> do_become_nonbusy s; Some (set_subd i s dev) }"

section \<open>write\<close>

text \<open>The amount one turn of the loop of \<open>comedi_write\<close> may transfer.\<close>

definition write_chunk :: "comedi_async \<Rightarrow> u32 \<Rightarrow> u32 \<times> comedi_async" where
  "write_chunk a n =
     (let m = (if prealloc_bufsz a < buf_write_ptr a + n then prealloc_bufsz a - buf_write_ptr a else n);
          a = snd (comedi_buf_write_alloc a (prealloc_bufsz a));
          m = (if comedi_buf_write_n_allocated a < m then comedi_buf_write_n_allocated a else m)
      in (if m <s n then m else n, a))"

definition write_copy ::
  "munge_ctx \<Rightarrow> comedi_async \<Rightarrow> u8 list \<Rightarrow> u32 \<Rightarrow> nat \<Rightarrow> (u32 \<times> bool \<times> comedi_async) option" where
  "write_copy mc a data n reach =
     (let m = unat n - min (unat n) reach;
          done = n - of_nat m
      in do {
           a \<leftarrow> store_bytes a (buf_write_ptr a) (take (unat n - m) data @ replicate m 0);
           (_, a) \<leftarrow> comedi_buf_write_free mc a done;
           Some (done, m \<noteq> 0, a)
         })"

fun write_loop ::
  "('p, 'h) driver_ops \<Rightarrow> nat \<Rightarrow> owner \<Rightarrow> bool \<Rightarrow> u8 list \<Rightarrow> u32 \<Rightarrow> nat \<Rightarrow> ('p, 'h) wake list \<Rightarrow>
    ('p, 'h) comedi_device \<Rightarrow> (u32 \<times> int \<times> ('p, 'h) comedi_device) option" where
  "write_loop ops i fil nonblock data nbytes reach wakes dev =
     do {
       s \<leftarrow> subd dev i;
       a \<leftarrow> sd_async s;
       if comedi_get_subdevice_runflags s AND SRF_RUNNING = 0 then
         do {
           dev \<leftarrow> become_nonbusy_at i dev;
           Some (0, if comedi_get_subdevice_runflags s AND SRF_ERROR \<noteq> 0 then - EPIPE else 0, dev)
         }
       else
         case write_chunk a nbytes of (n, a) \<Rightarrow>
         let dev = set_async i s a dev in
         if n = 0 then
           if nonblock then Some (0, - EAGAIN, dev)
           else
             (case wakes of
                [] \<Rightarrow> None
              | w # ws \<Rightarrow>
                  (case w dev of (signal, dev) \<Rightarrow>
                   if signal then Some (0, - ERESTARTSYS, dev)
                   else do {
                     s \<leftarrow> subd dev i;
                     if sd_busy s = None then Some (0, 0, dev)
                     else if sd_busy s \<noteq> Some fil then Some (0, - EACCES, dev)
                     else write_loop ops i fil nonblock data nbytes reach ws dev
                   }))
         else do {
           (done, fault, a) \<leftarrow> write_copy (munge_ctx_of ops dev i s) a data n reach;
           Some (done, if fault then - EFAULT else 0, set_async i s a dev)
         }
     }"

definition comedi_write ::
  "('p, 'h) driver_ops \<Rightarrow> ('p, 'h) comedi_device \<Rightarrow> nat option \<Rightarrow> owner \<Rightarrow> bool \<Rightarrow> u8 list \<Rightarrow> nat \<Rightarrow>
    ('p, 'h) wake list \<Rightarrow> (int \<times> ('p, 'h) comedi_device) option" where
  "comedi_write ops dev wsub fil nonblock data reach wakes =
     (if \<not> dv_attached dev then Some (- ENODEV, dev)
      else case wsub of
        None \<Rightarrow> Some (- EIO, dev)
      | Some i \<Rightarrow>
          do {
            s \<leftarrow> subd dev i;
            if sd_async s = None then Some (- EIO, dev)
            else if data = [] then Some (0, dev)
            else if sd_busy s = None then Some (0, dev)
            else if sd_busy s \<noteq> Some fil then Some (- EACCES, dev)
            else do {
              (count, retval, dev) \<leftarrow>
                write_loop ops i fil nonblock data (of_nat (length data)) reach wakes dev;
              Some (if count \<noteq> 0 then sint count else retval, dev)
            }
          })"

section \<open>read\<close>

definition read_chunk :: "comedi_async \<Rightarrow> u32 \<Rightarrow> u32" where
  "read_chunk a n =
     (let m = comedi_buf_read_n_available (Some a);
          m = (if prealloc_bufsz a < buf_read_ptr a + m then prealloc_bufsz a - buf_read_ptr a else m)
      in if m <s n then m else n)"

definition read_copy ::
  "comedi_async \<Rightarrow> u32 \<Rightarrow> nat \<Rightarrow> (u32 \<times> bool \<times> u8 list \<times> comedi_async) option" where
  "read_copy a n reach =
     (let m = unat n - min (unat n) reach;
          done = n - of_nat m
      in do {
           xs \<leftarrow> load_bytes a (buf_read_ptr a) n;
           (_, a) \<leftarrow> Some (comedi_buf_read_alloc a done);
           (_, a) \<leftarrow> comedi_buf_read_free a done;
           Some (done, m \<noteq> 0, take (unat n - m) xs, a)
         })"

fun read_loop ::
  "nat \<Rightarrow> owner \<Rightarrow> bool \<Rightarrow> u32 \<Rightarrow> nat \<Rightarrow> ('p, 'h) wake list \<Rightarrow> ('p, 'h) comedi_device \<Rightarrow>
    (u32 \<times> int \<times> u8 list \<times> ('p, 'h) comedi_device) option" where
  "read_loop i fil nonblock nbytes reach wakes dev =
     do {
       s \<leftarrow> subd dev i;
       a \<leftarrow> sd_async s;
       let n = read_chunk a nbytes in
       if n = 0 then
         if comedi_get_subdevice_runflags s AND SRF_RUNNING = 0 then
           do {
             dev \<leftarrow> become_nonbusy_at i dev;
             Some (0, if comedi_get_subdevice_runflags s AND SRF_ERROR \<noteq> 0 then - EPIPE else 0, [], dev)
           }
         else if nonblock then Some (0, - EAGAIN, [], dev)
         else
           (case wakes of
              [] \<Rightarrow> None
            | w # ws \<Rightarrow>
                (case w dev of (signal, dev) \<Rightarrow>
                 if signal then Some (0, - ERESTARTSYS, [], dev)
                 else do {
                   s \<leftarrow> subd dev i;
                   if sd_busy s = None then Some (0, 0, [], dev)
                   else if sd_busy s \<noteq> Some fil then Some (0, - EACCES, [], dev)
                   else read_loop i fil nonblock nbytes reach ws dev
                 }))
       else do {
         (done, fault, xs, a) \<leftarrow> read_copy a n reach;
         Some (done, if fault then - EFAULT else 0, xs, set_async i s a dev)
       }
     }"

definition read_finish :: "nat \<Rightarrow> ('p, 'h) comedi_device \<Rightarrow> ('p, 'h) comedi_device option" where
  "read_finish i dev =
     do {
       s \<leftarrow> subd dev i;
       a \<leftarrow> sd_async s;
       if comedi_get_subdevice_runflags s AND (SRF_ERROR OR SRF_RUNNING) = 0 \<and>
          buf_read_count a - buf_write_count a = 0
       then become_nonbusy_at i dev else Some dev
     }"

definition comedi_read ::
  "('p, 'h) comedi_device \<Rightarrow> nat option \<Rightarrow> owner \<Rightarrow> bool \<Rightarrow> nat \<Rightarrow> nat \<Rightarrow> ('p, 'h) wake list \<Rightarrow>
    (int \<times> u8 list \<times> ('p, 'h) comedi_device) option" where
  "comedi_read dev rsub fil nonblock nbytes reach wakes =
     (if \<not> dv_attached dev then Some (- ENODEV, [], dev)
      else case rsub of
        None \<Rightarrow> Some (- EIO, [], dev)
      | Some i \<Rightarrow>
          do {
            s \<leftarrow> subd dev i;
            if sd_async s = None then Some (- EIO, [], dev)
            else if nbytes = 0 then Some (0, [], dev)
            else if sd_busy s = None then Some (0, [], dev)
            else if sd_busy s \<noteq> Some fil then Some (- EACCES, [], dev)
            else do {
              (count, retval, xs, dev) \<leftarrow> read_loop i fil nonblock (of_nat nbytes) reach wakes dev;
              dev \<leftarrow> read_finish i dev;
              Some (if count \<noteq> 0 then sint count else retval, xs, dev)
            }
          })"

section \<open>poll\<close>

definition POLLIN_MASK :: u32 where "POLLIN_MASK = 0x0041"
definition POLLOUT_MASK :: u32 where "POLLOUT_MASK = 0x0104"

definition poll_read :: "('p, 'h) comedi_device \<Rightarrow> nat option \<Rightarrow> u32 option" where
  "poll_read dev rsub =
     (case rsub of
        None \<Rightarrow> Some 0
      | Some i \<Rightarrow>
          do {
            s \<leftarrow> subd dev i;
            Some (case sd_async s of
                    None \<Rightarrow> 0
                  | Some a \<Rightarrow>
                      if sd_busy s = None \<or> 0 < comedi_buf_read_n_available (Some a) \<or>
                         comedi_get_subdevice_runflags s AND SRF_RUNNING = 0
                      then POLLIN_MASK else 0)
          })"

definition poll_write ::
  "('p, 'h) comedi_device \<Rightarrow> nat option \<Rightarrow> (u32 \<times> ('p, 'h) comedi_device) option" where
  "poll_write dev wsub =
     (case wsub of
        None \<Rightarrow> Some (0, dev)
      | Some i \<Rightarrow>
          do {
            s \<leftarrow> subd dev i;
            Some (case sd_async s of
                    None \<Rightarrow> (0, dev)
                  | Some a \<Rightarrow>
                      let a = snd (comedi_buf_write_alloc a (prealloc_bufsz a))
                      in (if sd_busy s = None \<or> comedi_get_subdevice_runflags s AND SRF_RUNNING = 0 \<or>
                             bytes_per_sample s \<le> comedi_buf_write_n_allocated a
                          then POLLOUT_MASK else 0, set_async i s a dev))
          })"

definition comedi_poll ::
  "('p, 'h) comedi_device \<Rightarrow> nat option \<Rightarrow> nat option \<Rightarrow> (u32 \<times> ('p, 'h) comedi_device) option" where
  "comedi_poll dev rsub wsub =
     (if \<not> dv_attached dev then Some (0, dev)
      else do {
        m1 \<leftarrow> poll_read dev rsub;
        (m2, dev) \<leftarrow> poll_write dev wsub;
        Some (m1 OR m2, dev)
      })"

section \<open>mmap\<close>

record vm_area =
  vm_start :: u64
  vm_end :: u64
  vm_pgoff :: u64
  vm_write :: bool

text \<open>The loop over the pages: \<open>remap i\<close> says whether the i-th \<open>remap_pfn_range\<close> fails.\<close>

primrec map_pages ::
  "nat option list \<Rightarrow> (nat \<Rightarrow> bool) \<Rightarrow> u64 \<Rightarrow> nat \<Rightarrow> nat \<Rightarrow> (bool \<times> (u64 \<times> nat) list) option" where
  "map_pages pages remap_fails start i 0 = Some (True, [])"
| "map_pages pages remap_fails start i (Suc k) =
     do {
       p \<leftarrow> load_nth pages i;
       frame \<leftarrow> p;
       if remap_fails i then Some (False, [])
       else do {
         (ok, ms) \<leftarrow> map_pages pages remap_fails (start + PAGE_SIZE) (Suc i) k;
         Some (ok, (start, frame) # ms)
       }
     }"

definition comedi_mmap ::
  "('p, 'h) comedi_device \<Rightarrow> nat option \<Rightarrow> nat option \<Rightarrow> vm_area \<Rightarrow> (nat \<Rightarrow> bool) \<Rightarrow>
    (int \<times> (u64 \<times> nat) list \<times> ('p, 'h) comedi_device) option" where
  "comedi_mmap dev rsub wsub vma remap_fails =
     (if \<not> dv_attached dev then Some (- ENODEV, [], dev)
      else case (if vm_write vma then wsub else rsub) of
        None \<Rightarrow> Some (- EINVAL, [], dev)
      | Some i \<Rightarrow>
          do {
            s \<leftarrow> subd dev i;
            case sd_async s of
              None \<Rightarrow> Some (- EINVAL, [], dev)
            | Some a \<Rightarrow>
                let area = vm_end vma - vm_start vma in
                if vm_pgoff vma \<noteq> 0 then Some (- EINVAL, [], dev)
                else if ucast (prealloc_bufsz a) < area then Some (- EFAULT, [], dev)
                else if area AND NOT PAGE_MASK \<noteq> 0 then Some (- EFAULT, [], dev)
                else do {
                  (ok, maps) \<leftarrow>
                    map_pages (case buf_page_list a of Some ps \<Rightarrow> ps | None \<Rightarrow> []) remap_fails
                      (vm_start vma) 0 (unat (drop_bit PAGE_SHIFT area));
                  if ok then Some (0, maps, set_async i s (a\<lparr>mmap_count := mmap_count a + 1\<rparr>) dev)
                  else Some (- EAGAIN, maps, dev)
                }
          })"

definition comedi_vm_open :: "comedi_async \<Rightarrow> comedi_async" where
  "comedi_vm_open a = a\<lparr>mmap_count := mmap_count a + 1\<rparr>"

definition comedi_vm_close :: "comedi_async \<Rightarrow> comedi_async" where
  "comedi_vm_close a = a\<lparr>mmap_count := mmap_count a - 1\<rparr>"

end
