(* ===== verification/File_Ops.thy ===== *)
theory File_Ops
  imports Board_Minors File_Io
begin

text \<open>
  The file operations of a device file on the whole module state (\<open>comedi/comedi_fops.c\<close>): the ioctl
  dispatcher, opening and closing with the module references they hold, and the sysfs attributes of
  the buffer sizes. A file is its minor number and its \<open>owner\<close> identity.
\<close>

unbundle bit_operations_syntax

section \<open>The ioctl dispatcher\<close>

datatype ioctl_request =
    COMEDI_DEVCONFIG "comedi_devconfig option option"
  | COMEDI_BUFCONFIG "comedi_bufconfig option"
  | COMEDI_DEVINFO
  | COMEDI_SUBDINFO
  | COMEDI_CHANINFO "comedi_chaninfo option"
  | COMEDI_RANGEINFO "comedi_rangeinfo option"
  | COMEDI_BUFINFO "comedi_bufinfo option"
  | COMEDI_LOCK u32
  | COMEDI_UNLOCK u32
  | COMEDI_CANCEL u32
  | COMEDI_CMD "comedi_cmd option"
  | COMEDI_CMDTEST "comedi_cmd option"
  | COMEDI_INSNLIST "(bool \<times> comedi_insn list option) option"
  | COMEDI_INSN "comedi_insn option"
  | COMEDI_POLL u32
  | Unknown_ioctl

datatype ioctl_reply =
    No_reply
  | Reply_bufconfig comedi_bufconfig
  | Reply_devinfo comedi_devinfo
  | Reply_subdinfo "comedi_subdinfo list"
  | Reply_ranges u64 "comedi_krange list"
  | Reply_bufinfo comedi_bufinfo
  | Reply_cmd comedi_cmd
  | Reply_writes "user_write list"

text \<open>What the rest of the kernel contributes to one ioctl.\<close>

record ioctl_env =
  ie_user :: user_env
  ie_alloc :: alloc_env
  ie_post :: post_env
  ie_live :: "nat \<Rightarrow> bool"
  ie_admin :: bool
  ie_aux_mem :: "u64 option"
  ie_aux_copied :: bool
  ie_alloc_ok :: bool
  ie_copy_ok :: bool
  ie_version :: u32
  ie_time :: "nat \<Rightarrow> u32 \<times> u32"

definition reply_opt :: "('a \<Rightarrow> ioctl_reply) \<Rightarrow> 'a option \<Rightarrow> ioctl_reply" where
  "reply_opt f x = (case x of None \<Rightarrow> No_reply | Some y \<Rightarrow> f y)"

text \<open>The switch over the requests that need an attached device.\<close>

definition attached_ioctl ::
  "('p, 'h) driver_ops \<Rightarrow> ioctl_env \<Rightarrow> ('p, 'h) comedi_state \<Rightarrow> file_info \<Rightarrow> ('p, 'h) comedi_device \<Rightarrow>
    owner \<Rightarrow> ioctl_request \<Rightarrow> (int \<times> ioctl_reply \<times> notice list \<times> ('p, 'h) comedi_device) option" where
  "attached_ioctl ops env st info dev fil req =
     (case req of
        COMEDI_BUFCONFIG arg \<Rightarrow>
          do {
            (rc, out, dev) \<leftarrow> do_bufconfig_ioctl ops (ie_alloc env) (ie_admin env) dev arg (ie_copy_ok env);
            Some (rc, reply_opt Reply_bufconfig out, [], dev)
          }
      | COMEDI_DEVINFO \<Rightarrow>
          do {
            rsub \<leftarrow> comedi_get_read_subdevice st info;
            wsub \<leftarrow> comedi_get_write_subdevice st info;
            (rc, out) \<leftarrow> do_devinfo_ioctl (ie_version env) dev rsub wsub (ie_copy_ok env);
            Some (rc, reply_opt Reply_devinfo out, [], dev)
          }
      | COMEDI_SUBDINFO \<Rightarrow>
          do {
            (rc, out) \<leftarrow> do_subdinfo_ioctl dev (ie_alloc_ok env) (ie_copy_ok env) fil;
            Some (rc, reply_opt Reply_subdinfo out, [], dev)
          }
      | COMEDI_CHANINFO arg \<Rightarrow>
          do {
            (rc, ws) \<leftarrow> do_chaninfo_ioctl (ie_user env) dev arg;
            Some (rc, Reply_writes ws, [], dev)
          }
      | COMEDI_RANGEINFO arg \<Rightarrow>
          do {
            (rc, out) \<leftarrow> do_rangeinfo_ioctl dev arg (ie_copy_ok env);
            Some (rc, reply_opt (\<lambda>(p, rs). Reply_ranges p rs) out, [], dev)
          }
      | COMEDI_BUFINFO arg \<Rightarrow>
          do {
            (rc, out, dev) \<leftarrow> do_bufinfo_ioctl ops dev arg (ie_copy_ok env) fil;
            Some (rc, reply_opt Reply_bufinfo out, [], dev)
          }
      | COMEDI_LOCK arg \<Rightarrow>
          do { (rc, dev) \<leftarrow> do_lock_ioctl dev arg fil; Some (rc, No_reply, [], dev) }
      | COMEDI_UNLOCK arg \<Rightarrow>
          do { (rc, dev) \<leftarrow> do_unlock_ioctl dev arg fil; Some (rc, No_reply, [], dev) }
      | COMEDI_CANCEL arg \<Rightarrow>
          do { (rc, ns, dev) \<leftarrow> do_cancel_ioctl ops dev arg fil; Some (rc, No_reply, ns, dev) }
      | COMEDI_CMD arg \<Rightarrow>
          do {
            (rc, out, dev) \<leftarrow> do_cmd_ioctl ops (ie_user env) dev arg (ie_copy_ok env) fil;
            Some (rc, reply_opt Reply_cmd out, [], dev)
          }
      | COMEDI_CMDTEST arg \<Rightarrow>
          do {
            (rc, out, dev) \<leftarrow> do_cmdtest_ioctl ops (ie_user env) dev arg (ie_copy_ok env);
            Some (rc, reply_opt Reply_cmd out, [], dev)
          }
      | COMEDI_INSNLIST arg \<Rightarrow>
          do {
            (rc, ws, dev) \<leftarrow> do_insnlist_ioctl ops (ie_user env) (ie_time env) dev arg fil;
            Some (rc, Reply_writes ws, [], dev)
          }
      | COMEDI_INSN arg \<Rightarrow>
          do {
            (rc, ws, dev) \<leftarrow> do_insn_ioctl ops (ie_user env) (ie_time env 0) dev arg fil;
            Some (rc, Reply_writes ws, [], dev)
          }
      | COMEDI_POLL arg \<Rightarrow>
          do { (rc, dev) \<leftarrow> do_poll_ioctl ops dev arg fil; Some (rc, No_reply, [], dev) }
      | _ \<Rightarrow> Some (- ENOTTY, No_reply, [], dev))"

definition comedi_unlocked_ioctl ::
  "('p, 'h) driver_ops \<Rightarrow> ioctl_env \<Rightarrow> ('p, 'h) comedi_state \<Rightarrow> nat \<Rightarrow> owner \<Rightarrow> ioctl_request \<Rightarrow>
    (int \<times> ioctl_reply \<times> notice list \<times> ('p, 'h) comedi_state) option" where
  "comedi_unlocked_ioctl ops env st minor fil req =
     do {
       info \<leftarrow> comedi_get_device_file_info st minor;
       case info of
         None \<Rightarrow> Some (- ENODEV, No_reply, [], st)
       | Some info \<Rightarrow>
           do {
             dev \<leftarrow> cs_devices st (fi_device info);
             case req of
               COMEDI_DEVCONFIG arg \<Rightarrow>
                 do {
                   (rc, st) \<leftarrow> do_devconfig_ioctl ops (ie_post env) (ie_live env) (ie_admin env)
                     (ie_aux_mem env) (ie_aux_copied env) st (fi_device info) arg;
                   Some (rc, No_reply, [], st)
                 }
             | _ \<Rightarrow>
                 if \<not> dv_attached dev then Some (- ENODEV, No_reply, [], st)
                 else do {
                   (rc, out, ns, dev) \<leftarrow> attached_ioctl ops env st info dev fil req;
                   Some (rc, out, ns, put_dev (fi_device info) dev st)
                 }
           }
     }"

section \<open>Opening and closing\<close>

text \<open>
  \<open>kmod\<close> is what loading a driver module does to the state while the device is unlocked; it is the
  identity where the kernel loads no modules.
\<close>

record ('p, 'h) open_env =
  oe_cap_module :: bool
  oe_live :: "nat \<Rightarrow> bool"
  oe_this_module :: nat
  oe_kmod :: "('p, 'h) comedi_state \<Rightarrow> ('p, 'h) comedi_state"

definition autoload ::
  "('p, 'h) open_env \<Rightarrow> ('p, 'h) comedi_state \<Rightarrow> nat \<Rightarrow> (int \<times> ('p, 'h) comedi_state) option" where
  "autoload env st d =
     do {
       dev \<leftarrow> cs_devices st d;
       if dv_attached dev then Some (0, st)
       else if \<not> oe_cap_module env \<and> dv_in_request_module dev then Some (- ENODEV, st)
       else if oe_cap_module env \<and> dv_in_request_module dev then Some (0, st)
       else
         let st = oe_kmod env (put_dev d (dev\<lparr>dv_in_request_module := True\<rparr>) st)
         in do {
           dev \<leftarrow> cs_devices st d;
           let st = put_dev d (dev\<lparr>dv_in_request_module := False\<rparr>) st
           in if \<not> dv_attached dev \<and> \<not> oe_cap_module env then Some (- ENODEV, st) else Some (0, st)
         }
     }"

definition comedi_open ::
  "('p, 'h) driver_ops \<Rightarrow> ('p, 'h) open_env \<Rightarrow> ('p, 'h) comedi_state \<Rightarrow> nat \<Rightarrow>
    (int \<times> ('p, 'h) comedi_state) option" where
  "comedi_open ops env st minor =
     do {
       info \<leftarrow> comedi_get_device_file_info st minor;
       case info of
         None \<Rightarrow> Some (- ENODEV, st)
       | Some info \<Rightarrow>
           let d = fi_device info in
           do {
             (rc, st) \<leftarrow> autoload env st d;
             if rc \<noteq> 0 then Some (rc, st)
             else do {
               dev \<leftarrow> cs_devices st d;
               if \<not> dv_attached dev
               then Some (0, put_dev d (dev\<lparr>dv_use_count := dv_use_count dev + 1\<rparr>)
                      (module_get (oe_this_module env) st))
               else do {
                 drv \<leftarrow> dv_driver dev;
                 if \<not> oe_live env (drv_module drv) then Some (- ENOSYS, st)
                 else do {
                   (rc, dev) \<leftarrow>
                     (if dv_use_count dev = 0 then
                        case dv_open dev of Some f \<Rightarrow> op_open ops f dev | None \<Rightarrow> Some (0, dev)
                      else Some (0, dev));
                   if rc < 0 then Some (rc, put_dev d dev st)
                   else Some (0, put_dev d (dev\<lparr>dv_use_count := dv_use_count dev + 1\<rparr>)
                          (module_get (drv_module drv) (module_get (oe_this_module env) st)))
                 }
               }
             }
           }
     }"

primrec release_subdevices ::
  "('p, 'h) driver_ops \<Rightarrow> owner \<Rightarrow> nat \<Rightarrow> nat \<Rightarrow> ('p, 'h) comedi_device \<Rightarrow>
    ('p, 'h) comedi_device option" where
  "release_subdevices ops fil i 0 dev = Some dev"
| "release_subdevices ops fil i (Suc k) dev =
     do {
       s \<leftarrow> subd dev i;
       dev \<leftarrow> (if sd_busy s = Some fil then do { (_, dev) \<leftarrow> do_cancel ops dev i; Some dev }
               else Some dev);
       s \<leftarrow> subd dev i;
       let dev = (if sd_lock s = Some fil then set_subd i (s\<lparr>sd_lock := None\<rparr>) dev else dev)
       in release_subdevices ops fil (Suc i) k dev
     }"

definition comedi_close ::
  "('p, 'h) driver_ops \<Rightarrow> nat \<Rightarrow> ('p, 'h) comedi_state \<Rightarrow> nat \<Rightarrow> owner \<Rightarrow>
    (int \<times> ('p, 'h) comedi_state) option" where
  "comedi_close ops this_module st minor fil =
     do {
       info \<leftarrow> comedi_get_device_file_info st minor;
       case info of
         None \<Rightarrow> Some (- ENODEV, st)
       | Some info \<Rightarrow>
           let d = fi_device info in
           do {
             dev \<leftarrow> cs_devices st d;
             dev \<leftarrow> (if dv_subdevices dev \<noteq> []
                     then release_subdevices ops fil 0 (nat (sint (dv_n_subdevices dev))) dev
                     else Some dev);
             dev \<leftarrow> (if dv_attached dev \<and> dv_use_count dev = 1
                     then case dv_close dev of Some f \<Rightarrow> op_close ops f dev | None \<Rightarrow> Some dev
                     else Some dev);
             let st = module_put this_module st
             in do {
               st \<leftarrow> (if dv_attached dev
                      then do { drv \<leftarrow> dv_driver dev; Some (module_put (drv_module drv) st) }
                      else Some st);
               Some (0, put_dev d (dev\<lparr>dv_use_count := dv_use_count dev - 1\<rparr>) st)
             }
           }
     }"

section \<open>Buffer sizes in sysfs\<close>

text \<open>The number of KiB parsed from the attribute, if it fits 32 bits also as a number of bytes.\<close>

definition kb_of_text :: "u64 option \<Rightarrow> u32 option" where
  "kb_of_text parsed =
     (case parsed of
        None \<Rightarrow> None
      | Some kb \<Rightarrow>
          if kb \<noteq> ucast (ucast kb :: u32) then None
          else let new_size = kb * 1024 in
            if new_size \<noteq> ucast (ucast new_size :: u32) then None else Some (ucast new_size))"

definition stream_async ::
  "('p, 'h) comedi_device \<Rightarrow> nat option \<Rightarrow> u32 \<Rightarrow> (nat \<times> 'p comedi_subdevice \<times> comedi_async) option option" where
  "stream_async dev sub flag =
     (case sub of
        None \<Rightarrow> Some None
      | Some i \<Rightarrow>
          do {
            s \<leftarrow> subd dev i;
            Some (case sd_async s of
                    Some a \<Rightarrow> if sd_subdev_flags s AND flag \<noteq> 0 then Some (i, s, a) else None
                  | None \<Rightarrow> None)
          })"

definition show_max_buffer_kb :: "('p, 'h) comedi_device \<Rightarrow> nat option \<Rightarrow> u32 \<Rightarrow> u32 option" where
  "show_max_buffer_kb dev sub flag =
     do {
       x \<leftarrow> stream_async dev sub flag;
       Some (case x of None \<Rightarrow> 0 | Some (_, _, a) \<Rightarrow> max_bufsize a div 1024)
     }"

definition show_buffer_kb :: "('p, 'h) comedi_device \<Rightarrow> nat option \<Rightarrow> u32 \<Rightarrow> u32 option" where
  "show_buffer_kb dev sub flag =
     do {
       x \<leftarrow> stream_async dev sub flag;
       Some (case x of None \<Rightarrow> 0 | Some (_, _, a) \<Rightarrow> prealloc_bufsz a div 1024)
     }"

definition store_max_buffer_kb ::
  "('p, 'h) comedi_device \<Rightarrow> nat option \<Rightarrow> u32 \<Rightarrow> u64 option \<Rightarrow> int \<Rightarrow>
    (int \<times> ('p, 'h) comedi_device) option" where
  "store_max_buffer_kb dev sub flag parsed len =
     (case kb_of_text parsed of
        None \<Rightarrow> Some (- EINVAL, dev)
      | Some new_size \<Rightarrow>
          do {
            x \<leftarrow> stream_async dev sub flag;
            Some (case x of
                    None \<Rightarrow> (- EINVAL, dev)
                  | Some (i, s, a) \<Rightarrow> (len, set_async i s (a\<lparr>max_bufsize := new_size\<rparr>) dev))
          })"

definition store_buffer_kb ::
  "('p, 'h) driver_ops \<Rightarrow> alloc_env \<Rightarrow> ('p, 'h) comedi_device \<Rightarrow> nat option \<Rightarrow> u32 \<Rightarrow> u64 option \<Rightarrow> int \<Rightarrow>
    (int \<times> ('p, 'h) comedi_device) option" where
  "store_buffer_kb ops env dev sub flag parsed len =
     (case kb_of_text parsed of
        None \<Rightarrow> Some (- EINVAL, dev)
      | Some new_size \<Rightarrow>
          do {
            x \<leftarrow> stream_async dev sub flag;
            case x of
              None \<Rightarrow> Some (- EINVAL, dev)
            | Some (i, _, _) \<Rightarrow>
                do {
                  (ret, dev, _) \<leftarrow> resize_async_buffer ops env dev i new_size;
                  Some (if ret < 0 then ret else len, dev)
                }
          })"

end
