(* ===== verification/Compat32.thy ===== *)
theory Compat32
  imports File_Ops
begin

text \<open>
  The ioctls of 32-bit processes on a 64-bit kernel (\<open>comedi/comedi_compat32.c\<close>). Each structure with a
  pointer in it is rebuilt in a native layout on the user's stack, the native ioctl runs on that, and a command
  is copied back. A structure that cannot be read is \<open>None\<close>; \<open>compat_env\<close> says whether the stack space
  can be written and read, and whether the copy back to the process succeeds.
\<close>

section \<open>The layouts of a 32-bit process\<close>

record comedi32_chaninfo =
  ci32_subdev :: u32
  ci32_maxdata_list :: u32
  ci32_flaglist :: u32
  ci32_rangelist :: u32

record comedi32_rangeinfo =
  ri32_range_type :: u32
  ri32_range_ptr :: u32

record comedi32_cmd =
  c32_subdev :: u32
  c32_flags :: u32
  c32_start_src :: u32
  c32_start_arg :: u32
  c32_scan_begin_src :: u32
  c32_scan_begin_arg :: u32
  c32_convert_src :: u32
  c32_convert_arg :: u32
  c32_scan_end_src :: u32
  c32_scan_end_arg :: u32
  c32_stop_src :: u32
  c32_stop_arg :: u32
  c32_chanlist :: u32
  c32_chanlist_len :: u32
  c32_data :: u32
  c32_data_len :: u32

record comedi32_insn =
  i32_insn :: u32
  i32_n :: u32
  i32_data :: u32
  i32_subdev :: u32
  i32_chanspec :: u32

record compat_env =
  ce_scratch :: bool
  ce_back :: bool

definition ENOIOCTLCMD :: int where "ENOIOCTLCMD = 515"

definition compat_ptr :: "u32 \<Rightarrow> u64" where "compat_ptr p = ucast p"

definition compat_chanlist :: "u32 \<Rightarrow> chan_ptr" where
  "compat_chanlist p = (if p = 0 then Null_ptr else User_ptr (compat_ptr p))"

section \<open>Commands\<close>

text \<open>The pointers of a command are not copied back.\<close>

definition get_compat_cmd :: "compat_env \<Rightarrow> comedi32_cmd option \<Rightarrow> int + comedi_cmd" where
  "get_compat_cmd e cmd32 =
     (case cmd32 of
        None \<Rightarrow> Inl (- EFAULT)
      | Some c \<Rightarrow>
          if \<not> ce_scratch e then Inl (- EFAULT)
          else Inr \<lparr>cmd_subdev = c32_subdev c, cmd_flags = c32_flags c, start_src = c32_start_src c,
            start_arg = c32_start_arg c, scan_begin_src = c32_scan_begin_src c,
            scan_begin_arg = c32_scan_begin_arg c, convert_src = c32_convert_src c,
            convert_arg = c32_convert_arg c, scan_end_src = c32_scan_end_src c,
            scan_end_arg = c32_scan_end_arg c, stop_src = c32_stop_src c, stop_arg = c32_stop_arg c,
            chanlist = compat_chanlist (c32_chanlist c), chanlist_len = c32_chanlist_len c,
            cmd_data = compat_ptr (c32_data c), cmd_data_len = c32_data_len c\<rparr>)"

definition put_compat_cmd :: "compat_env \<Rightarrow> comedi32_cmd \<Rightarrow> comedi_cmd \<Rightarrow> int + comedi32_cmd" where
  "put_compat_cmd e cmd32 c =
     (if \<not> ce_back e then Inl (- EFAULT)
      else Inr (cmd32\<lparr>c32_subdev := cmd_subdev c, c32_flags := cmd_flags c, c32_start_src := start_src c,
        c32_start_arg := start_arg c, c32_scan_begin_src := scan_begin_src c,
        c32_scan_begin_arg := scan_begin_arg c, c32_convert_src := convert_src c,
        c32_convert_arg := convert_arg c, c32_scan_end_src := scan_end_src c,
        c32_scan_end_arg := scan_end_arg c, c32_stop_src := stop_src c, c32_stop_arg := stop_arg c,
        c32_chanlist_len := chanlist_len c, c32_data_len := cmd_data_len c\<rparr>))"

section \<open>The handlers\<close>

datatype compat_reply = Native_reply ioctl_reply | Reply_cmd32 comedi32_cmd

type_synonym ('p, 'h) compat_result =
  "(int \<times> compat_reply \<times> notice list \<times> ('p, 'h) comedi_state) option"

definition translated_ioctl ::
  "('p, 'h) driver_ops \<Rightarrow> ioctl_env \<Rightarrow> ('p, 'h) comedi_state \<Rightarrow> nat \<Rightarrow> owner \<Rightarrow> ioctl_request \<Rightarrow>
    (int \<times> ioctl_reply \<times> notice list \<times> ('p, 'h) comedi_state) option" where
  "translated_ioctl ops env st minor fil req =
     do {
       (rc, out, ns, st) \<leftarrow> comedi_unlocked_ioctl ops env st minor fil req;
       Some (if rc = - ENOIOCTLCMD then - ENOTTY else rc, out, ns, st)
     }"

definition compat_native ::
  "('p, 'h) driver_ops \<Rightarrow> ioctl_env \<Rightarrow> ('p, 'h) comedi_state \<Rightarrow> nat \<Rightarrow> owner \<Rightarrow> int + ioctl_request \<Rightarrow>
    ('p, 'h) compat_result" where
  "compat_native ops env st minor fil req =
     (case req of
        Inl err \<Rightarrow> Some (err, Native_reply No_reply, [], st)
      | Inr req \<Rightarrow>
          do {
            (rc, out, ns, st) \<leftarrow> translated_ioctl ops env st minor fil req;
            Some (rc, Native_reply out, ns, st)
          })"

definition compat_chaninfo :: "compat_env \<Rightarrow> comedi32_chaninfo option \<Rightarrow> int + ioctl_request" where
  "compat_chaninfo e arg =
     (case arg of
        None \<Rightarrow> Inl (- EFAULT)
      | Some x \<Rightarrow>
          if \<not> ce_scratch e then Inl (- EFAULT)
          else Inr (COMEDI_CHANINFO (Some \<lparr>ci_subdev = ci32_subdev x,
            ci_maxdata_list = compat_ptr (ci32_maxdata_list x), ci_flaglist = compat_ptr (ci32_flaglist x),
            ci_rangelist = compat_ptr (ci32_rangelist x)\<rparr>)))"

definition compat_rangeinfo :: "compat_env \<Rightarrow> comedi32_rangeinfo option \<Rightarrow> int + ioctl_request" where
  "compat_rangeinfo e arg =
     (case arg of
        None \<Rightarrow> Inl (- EFAULT)
      | Some x \<Rightarrow>
          if \<not> ce_scratch e then Inl (- EFAULT)
          else Inr (COMEDI_RANGEINFO (Some \<lparr>ri_range_type = ri32_range_type x,
            ri_range_ptr = compat_ptr (ri32_range_ptr x)\<rparr>)))"

definition get_compat_insn :: "compat_env \<Rightarrow> comedi32_insn option \<Rightarrow> int + comedi_insn" where
  "get_compat_insn e insn32 =
     (case insn32 of
        None \<Rightarrow> Inl (- EFAULT)
      | Some x \<Rightarrow>
          if \<not> ce_scratch e then Inl (- EFAULT)
          else Inr \<lparr>insn_insn = i32_insn x, insn_n = i32_n x, insn_data = compat_ptr (i32_data x),
            insn_subdev = i32_subdev x, insn_chanspec = i32_chanspec x\<rparr>)"

definition compat_insn :: "compat_env \<Rightarrow> comedi32_insn option \<Rightarrow> int + ioctl_request" where
  "compat_insn e arg =
     (case get_compat_insn e arg of Inl err \<Rightarrow> Inl err | Inr insn \<Rightarrow> Inr (COMEDI_INSN (Some insn)))"

fun get_compat_insns :: "compat_env \<Rightarrow> comedi32_insn option list \<Rightarrow> int + comedi_insn list" where
  "get_compat_insns e [] = Inr []"
| "get_compat_insns e (x # xs) =
     (case get_compat_insn e x of
        Inl err \<Rightarrow> Inl err
      | Inr insn \<Rightarrow> (case get_compat_insns e xs of Inl err \<Rightarrow> Inl err | Inr insns \<Rightarrow> Inr (insn # insns)))"

text \<open>The first argument of a list says whether the native ioctl gets the memory for its own copy.\<close>

definition compat_insnlist :: "compat_env \<Rightarrow> bool \<Rightarrow> comedi32_insn option list option \<Rightarrow> int + ioctl_request" where
  "compat_insnlist e alloc_ok arg =
     (case arg of
        None \<Rightarrow> Inl (- EFAULT)
      | Some insns32 \<Rightarrow>
          if \<not> ce_scratch e then Inl (- EFAULT)
          else case get_compat_insns e insns32 of
              Inl err \<Rightarrow> Inl err
            | Inr insns \<Rightarrow> Inr (COMEDI_INSNLIST (Some (alloc_ok, Some insns))))"

definition native_cmd :: "comedi_cmd \<Rightarrow> ioctl_reply \<Rightarrow> comedi_cmd" where
  "native_cmd c out = (case out of Reply_cmd c' \<Rightarrow> c' | _ \<Rightarrow> c)"

definition copied_back ::
  "compat_env \<Rightarrow> comedi32_cmd option \<Rightarrow> comedi_cmd \<Rightarrow> int \<Rightarrow> int \<times> compat_reply" where
  "copied_back e cmd32 c rc =
     (case cmd32 of
        None \<Rightarrow> (- EFAULT, Native_reply No_reply)
      | Some c32 \<Rightarrow>
          (case put_compat_cmd e c32 c of
             Inl err \<Rightarrow> (err, Native_reply No_reply)
           | Inr c32' \<Rightarrow> (rc, Reply_cmd32 c32')))"

definition compat_cmd ::
  "('p, 'h) driver_ops \<Rightarrow> ioctl_env \<Rightarrow> compat_env \<Rightarrow> ('p, 'h) comedi_state \<Rightarrow> nat \<Rightarrow> owner \<Rightarrow>
    comedi32_cmd option \<Rightarrow> ('p, 'h) compat_result" where
  "compat_cmd ops env e st minor fil arg =
     (case get_compat_cmd e arg of
        Inl err \<Rightarrow> Some (err, Native_reply No_reply, [], st)
      | Inr c \<Rightarrow>
          do {
            (rc, out, ns, st) \<leftarrow> translated_ioctl ops env st minor fil (COMEDI_CMD (Some c));
            let (rc, out) = (if rc = - EAGAIN then copied_back e arg (native_cmd c out) rc
                             else (rc, Native_reply No_reply))
            in Some (rc, out, ns, st)
          })"

definition compat_cmdtest ::
  "('p, 'h) driver_ops \<Rightarrow> ioctl_env \<Rightarrow> compat_env \<Rightarrow> ('p, 'h) comedi_state \<Rightarrow> nat \<Rightarrow> owner \<Rightarrow>
    comedi32_cmd option \<Rightarrow> ('p, 'h) compat_result" where
  "compat_cmdtest ops env e st minor fil arg =
     (case get_compat_cmd e arg of
        Inl err \<Rightarrow> Some (err, Native_reply No_reply, [], st)
      | Inr c \<Rightarrow>
          do {
            (rc, out, ns, st) \<leftarrow> translated_ioctl ops env st minor fil (COMEDI_CMDTEST (Some c));
            let (rc, out) = (if rc < 0 then (rc, Native_reply No_reply)
                             else copied_back e arg (native_cmd c out) rc)
            in Some (rc, out, ns, st)
          })"

section \<open>The dispatcher\<close>

text \<open>
  A request whose structure is the same for all processes is the native one; the numbers of the other native
  requests differ, and the dispatcher does not know them.
\<close>

datatype compat_request =
    Native_number ioctl_request
  | COMEDI32_CHANINFO "comedi32_chaninfo option"
  | COMEDI32_RANGEINFO "comedi32_rangeinfo option"
  | COMEDI32_CMD "comedi32_cmd option"
  | COMEDI32_CMDTEST "comedi32_cmd option"
  | COMEDI32_INSNLIST bool "comedi32_insn option list option"
  | COMEDI32_INSN "comedi32_insn option"

fun same_layout :: "ioctl_request \<Rightarrow> bool" where
  "same_layout (COMEDI_DEVCONFIG arg) = True"
| "same_layout COMEDI_DEVINFO = True"
| "same_layout COMEDI_SUBDINFO = True"
| "same_layout (COMEDI_BUFCONFIG arg) = True"
| "same_layout (COMEDI_BUFINFO arg) = True"
| "same_layout (COMEDI_LOCK arg) = True"
| "same_layout (COMEDI_UNLOCK arg) = True"
| "same_layout (COMEDI_CANCEL arg) = True"
| "same_layout (COMEDI_POLL arg) = True"
| "same_layout _ = False"

definition raw_ioctl ::
  "('p, 'h) driver_ops \<Rightarrow> ioctl_env \<Rightarrow> compat_env \<Rightarrow> ('p, 'h) comedi_state \<Rightarrow> nat \<Rightarrow> owner \<Rightarrow> compat_request \<Rightarrow>
    ('p, 'h) compat_result" where
  "raw_ioctl ops env e st minor fil req =
     (case req of
        Native_number r \<Rightarrow> compat_native ops env st minor fil (if same_layout r then Inr r else Inl (- ENOIOCTLCMD))
      | COMEDI32_CHANINFO arg \<Rightarrow> compat_native ops env st minor fil (compat_chaninfo e arg)
      | COMEDI32_RANGEINFO arg \<Rightarrow> compat_native ops env st minor fil (compat_rangeinfo e arg)
      | COMEDI32_CMD arg \<Rightarrow> compat_cmd ops env e st minor fil arg
      | COMEDI32_CMDTEST arg \<Rightarrow> compat_cmdtest ops env e st minor fil arg
      | COMEDI32_INSNLIST alloc_ok arg \<Rightarrow> compat_native ops env st minor fil (compat_insnlist e alloc_ok arg)
      | COMEDI32_INSN arg \<Rightarrow> compat_native ops env st minor fil (compat_insn e arg))"

definition comedi_compat_ioctl ::
  "('p, 'h) driver_ops \<Rightarrow> ioctl_env \<Rightarrow> compat_env \<Rightarrow> ('p, 'h) comedi_state \<Rightarrow> nat \<Rightarrow> owner \<Rightarrow> compat_request \<Rightarrow>
    ('p, 'h) compat_result" where
  "comedi_compat_ioctl ops env e st minor fil req = raw_ioctl ops env e st minor fil req"

text \<open>Kernels before 2.6.11 call \<open>mapped_ioctl\<close> by number, for any device.\<close>

definition mapped_ioctl ::
  "bool \<Rightarrow> ('p, 'h) driver_ops \<Rightarrow> ioctl_env \<Rightarrow> compat_env \<Rightarrow> ('p, 'h) comedi_state \<Rightarrow> nat \<Rightarrow> owner \<Rightarrow>
    compat_request \<Rightarrow> ('p, 'h) compat_result" where
  "mapped_ioctl comedi_major ops env e st minor fil req =
     (if \<not> comedi_major then Some (- ENOTTY, Native_reply No_reply, [], st)
      else do {
        (rc, out, ns, st) \<leftarrow> raw_ioctl ops env e st minor fil req;
        Some (if rc = - ENOIOCTLCMD then - ENOTTY else rc, out, ns, st)
      })"

section \<open>Registering the handlers by number\<close>

text \<open>
  The table of the old kernels: a code and whether its handler is registered. \<open>ok n\<close>: the kernel takes or gives
  back the n-th code. The codes that fail are reported.
\<close>

definition comedi_register_ioctl32 :: "(nat \<Rightarrow> bool) \<Rightarrow> (u32 \<times> bool) list \<Rightarrow> u32 list \<times> (u32 \<times> bool) list" where
  "comedi_register_ioctl32 ok table =
     (map (\<lambda>n. fst (table ! n)) (filter (\<lambda>n. \<not> ok n) [0..<length table]),
      map (\<lambda>n. (fst (table ! n), ok n)) [0..<length table])"

definition comedi_unregister_ioctl32 :: "(nat \<Rightarrow> bool) \<Rightarrow> (u32 \<times> bool) list \<Rightarrow> u32 list \<times> (u32 \<times> bool) list" where
  "comedi_unregister_ioctl32 ok table =
     (map (\<lambda>n. fst (table ! n)) (filter (\<lambda>n. snd (table ! n) \<and> \<not> ok n) [0..<length table]),
      map (\<lambda>n. (fst (table ! n), snd (table ! n) \<and> \<not> ok n)) [0..<length table])"

section \<open>The same as a 64-bit process\<close>

text \<open>The command a 64-bit process would pass, and the request.\<close>

definition widen_cmd :: "comedi32_cmd \<Rightarrow> comedi_cmd" where
  "widen_cmd c = \<lparr>cmd_subdev = c32_subdev c, cmd_flags = c32_flags c, start_src = c32_start_src c,
     start_arg = c32_start_arg c, scan_begin_src = c32_scan_begin_src c, scan_begin_arg = c32_scan_begin_arg c,
     convert_src = c32_convert_src c, convert_arg = c32_convert_arg c, scan_end_src = c32_scan_end_src c,
     scan_end_arg = c32_scan_end_arg c, stop_src = c32_stop_src c, stop_arg = c32_stop_arg c,
     chanlist = compat_chanlist (c32_chanlist c), chanlist_len = c32_chanlist_len c,
     cmd_data = compat_ptr (c32_data c), cmd_data_len = c32_data_len c\<rparr>"

definition widen_insn :: "comedi32_insn \<Rightarrow> comedi_insn" where
  "widen_insn x = \<lparr>insn_insn = i32_insn x, insn_n = i32_n x, insn_data = compat_ptr (i32_data x),
     insn_subdev = i32_subdev x, insn_chanspec = i32_chanspec x\<rparr>"

fun widen_request :: "compat_request \<Rightarrow> ioctl_request option" where
  "widen_request (Native_number r) = (if same_layout r then Some r else None)"
| "widen_request (COMEDI32_CHANINFO (Some x)) = Some (COMEDI_CHANINFO (Some
     \<lparr>ci_subdev = ci32_subdev x, ci_maxdata_list = compat_ptr (ci32_maxdata_list x),
      ci_flaglist = compat_ptr (ci32_flaglist x), ci_rangelist = compat_ptr (ci32_rangelist x)\<rparr>))"
| "widen_request (COMEDI32_RANGEINFO (Some x)) = Some (COMEDI_RANGEINFO (Some
     \<lparr>ri_range_type = ri32_range_type x, ri_range_ptr = compat_ptr (ri32_range_ptr x)\<rparr>))"
| "widen_request (COMEDI32_CMD (Some c)) = Some (COMEDI_CMD (Some (widen_cmd c)))"
| "widen_request (COMEDI32_CMDTEST (Some c)) = Some (COMEDI_CMDTEST (Some (widen_cmd c)))"
| "widen_request (COMEDI32_INSNLIST ok (Some xs)) =
     (if None \<in> set xs then None else Some (COMEDI_INSNLIST (Some (ok, Some (map (widen_insn \<circ> the) xs)))))"
| "widen_request (COMEDI32_INSN (Some x)) = Some (COMEDI_INSN (Some (widen_insn x)))"
| "widen_request _ = None"

text \<open>
  What the process finds in its structure afterwards. Its own data pointer stays, where a 64-bit process
  finds \<open>NULL\<close> after a bogus command.
\<close>

definition seen32 :: "comedi32_cmd \<Rightarrow> compat_reply \<Rightarrow> comedi32_cmd" where
  "seen32 c out = (case out of Reply_cmd32 c' \<Rightarrow> c' | _ \<Rightarrow> c)"

fun same_reply :: "compat_request \<Rightarrow> int \<Rightarrow> ioctl_reply \<Rightarrow> compat_reply \<Rightarrow> bool" where
  "same_reply (COMEDI32_CMD (Some c)) rc out out32 \<longleftrightarrow>
     widen_cmd (seen32 c out32) = (native_cmd (widen_cmd c) out)\<lparr>cmd_data := compat_ptr (c32_data c)\<rparr>"
| "same_reply (COMEDI32_CMDTEST (Some c)) rc out out32 \<longleftrightarrow>
     (if rc < 0 then seen32 c out32 = c
      else widen_cmd (seen32 c out32) = (native_cmd (widen_cmd c) out)\<lparr>cmd_data := compat_ptr (c32_data c)\<rparr>)"
| "same_reply req rc out out32 \<longleftrightarrow> out32 = Native_reply out"

end
