(* ===== verification/Compat_Properties.thy ===== *)
theory Compat_Properties
  imports Compat32 Example_State
begin

text \<open>
  A 32-bit process and a 64-bit process that issue the same ioctl get the same: the rebuilt structures lose
  nothing, and what comes back fits.
\<close>

section \<open>What the native ioctls give back\<close>

lemma cmd_cleanup_result: "cmd_cleanup ret out i dev = Some (r, out', dev') \<Longrightarrow> r = ret \<and> out' = out"
  by (auto simp: cmd_cleanup_def bind_eq_Some_conv)

lemma start_cmd_result: "start_cmd ops dev i fil = Some (r, out, dev') \<Longrightarrow> out = None"
  by (auto simp: start_cmd_def bind_eq_Some_conv Let_def dest: cmd_cleanup_result split: if_splits)

lemma test_and_start_result:
  "test_and_start ops dev i c chans ok fil = Some (r, Some c', dev') \<Longrightarrow> r = - EAGAIN \<and> chanlist c' = chanlist c"
  by (auto simp: test_and_start_def bind_eq_Some_conv Let_def dest!: cmd_cleanup_result dest: start_cmd_result
      split: if_splits)

lemma do_cmd_result:
  assumes "do_cmd_ioctl ops env dev (Some c) ok fil = Some (r, Some c', dev')"
  shows "r = - EAGAIN \<and> chanlist c' = chanlist c"
  using assms by (auto simp: do_cmd_ioctl_def bind_eq_Some_conv Let_def dest!: cmd_cleanup_result
      dest: test_and_start_result split: if_splits option.splits)

lemma do_cmdtest_result:
  assumes "do_cmdtest_ioctl ops env dev (Some c) ok = Some (r, Some c', dev')"
  shows "chanlist c' = chanlist c"
  using assms
  by (auto simp: do_cmdtest_ioctl_def bind_eq_Some_conv Let_def split: if_splits option.splits)

definition reply_fits :: "comedi_cmd \<Rightarrow> ioctl_reply \<Rightarrow> bool" where
  "reply_fits c out \<longleftrightarrow> chanlist (native_cmd c out) = chanlist c"

lemma native_cmd_simps [simp]: "native_cmd c No_reply = c" "native_cmd c (Reply_cmd c') = c'"
  by (simp_all add: native_cmd_def)

lemma unlocked_ioctl_cases:
  assumes "comedi_unlocked_ioctl ops env st minor fil req = Some (rc, out, ns, st')" and "\<And>x. req \<noteq> COMEDI_DEVCONFIG x"
  obtains "out = No_reply" "rc = - ENODEV"
  | info dev dev' where "attached_ioctl ops env st info dev fil req = Some (rc, out, ns, dev')"
proof -
  have "(\<exists>info dev dev'. attached_ioctl ops env st info dev fil req = Some (rc, out, ns, dev')) \<or>
      out = No_reply \<and> rc = - ENODEV"
    using assms unfolding comedi_unlocked_ioctl_def
    by (cases req) (auto simp: bind_eq_Some_conv split: option.splits if_splits)
  then show ?thesis using that by blast
qed

lemma cmd_reply:
  assumes "comedi_unlocked_ioctl ops env st minor fil (COMEDI_CMD (Some c)) = Some (rc, out, ns, st')"
  shows "reply_fits c out \<and> (rc \<noteq> - EAGAIN \<longrightarrow> out = No_reply)"
  using assms
proof (rule unlocked_ioctl_cases)
  fix info dev dev'
  assume "attached_ioctl ops env st info dev fil (COMEDI_CMD (Some c)) = Some (rc, out, ns, dev')"
  then obtain o' where "do_cmd_ioctl ops (ie_user env) dev (Some c) (ie_copy_ok env) fil = Some (rc, o', dev')"
      and "out = reply_opt Reply_cmd o'"
    by (auto simp: attached_ioctl_def bind_eq_Some_conv)
  then show ?thesis
    by (cases o') (auto simp: reply_opt_def reply_fits_def dest!: do_cmd_result)
qed (simp_all add: reply_fits_def)

lemma cmdtest_reply:
  assumes "comedi_unlocked_ioctl ops env st minor fil (COMEDI_CMDTEST (Some c)) = Some (rc, out, ns, st')"
  shows "reply_fits c out"
  using assms
proof (rule unlocked_ioctl_cases)
  fix info dev dev'
  assume "attached_ioctl ops env st info dev fil (COMEDI_CMDTEST (Some c)) = Some (rc, out, ns, dev')"
  then obtain o' where "do_cmdtest_ioctl ops (ie_user env) dev (Some c) (ie_copy_ok env) = Some (rc, o', dev')"
      and "out = reply_opt Reply_cmd o'"
    by (auto simp: attached_ioctl_def bind_eq_Some_conv)
  then show ?thesis
    by (cases o') (auto simp: reply_opt_def reply_fits_def dest: do_cmdtest_result)
qed (simp_all add: reply_fits_def)

section \<open>There and back\<close>

lemma get_compat_cmd_widens: "ce_scratch e \<Longrightarrow> get_compat_cmd e (Some c) = Inr (widen_cmd c)"
  by (simp add: get_compat_cmd_def widen_cmd_def)

lemma copied_back_widens:
  assumes "ce_back e" and "reply_fits (widen_cmd c) out"
  obtains c' where "copied_back e (Some c) (native_cmd (widen_cmd c) out) rc = (rc, Reply_cmd32 c')"
    "widen_cmd c' = (native_cmd (widen_cmd c) out)\<lparr>cmd_data := compat_ptr (c32_data c)\<rparr>"
  using assms that by (simp add: copied_back_def put_compat_cmd_def reply_fits_def widen_cmd_def)

lemma get_compat_insns_widens:
  "ce_scratch e \<Longrightarrow> None \<notin> set xs \<Longrightarrow> get_compat_insns e xs = Inr (map (widen_insn \<circ> the) xs)"
proof (induction xs)
  case (Cons x xs)
  then show ?case by (cases x) (auto simp: get_compat_insn_def widen_insn_def)
qed simp

lemma compat_native_result:
  assumes "comedi_unlocked_ioctl ops env st minor fil req = Some (rc, out, ns, st')" and "rc \<noteq> - ENOIOCTLCMD"
  shows "compat_native ops env st minor fil (Inr req) = Some (rc, Native_reply out, ns, st')"
  using assms by (simp add: compat_native_def translated_ioctl_def)

text \<open>
  C35. A 32-bit process gets from every ioctl what a 64-bit process gets from the same request: the same
  result, the same effects on the module, and after CMD and CMDTEST the same command in its structure,
  except for the data pointer, which stays its own, and for a CMDTEST that fails, which changes nothing.
\<close>

theorem compat_equals_native:
  assumes mem: "ce_scratch e" "ce_back e"
    and req: "widen_request req = Some nreq"
    and native: "comedi_unlocked_ioctl ops env st minor fil nreq = Some (rc, out, ns, st')"
    and rc: "rc \<noteq> - ENOIOCTLCMD"
  shows "\<exists>out32. comedi_compat_ioctl ops env e st minor fil req = Some (rc, out32, ns, st') \<and>
    same_reply req rc out out32"
proof -
  note run = comedi_compat_ioctl_def raw_ioctl_def compat_native_result[OF native rc]
  note cmd = compat_cmd_def compat_cmdtest_def get_compat_cmd_widens translated_ioctl_def
  show ?thesis
  proof (cases req rule: widen_request.cases)
    case (4 c)
    have n: "comedi_unlocked_ioctl ops env st minor fil (COMEDI_CMD (Some (widen_cmd c))) = Some (rc, out, ns, st')"
      using req native 4 by simp
    from cmd_reply[OF n] have fits: "reply_fits (widen_cmd c) out" and "rc \<noteq> - EAGAIN \<longrightarrow> out = No_reply" by auto
    from copied_back_widens[OF mem(2) fits, of rc] obtain c' where
      "copied_back e (Some c) (native_cmd (widen_cmd c) out) rc = (rc, Reply_cmd32 c')"
      "widen_cmd c' = (native_cmd (widen_cmd c) out)\<lparr>cmd_data := compat_ptr (c32_data c)\<rparr>" .
    then show ?thesis
      using 4 mem n rc \<open>rc \<noteq> - EAGAIN \<longrightarrow> out = No_reply\<close>
      by (cases "rc = - EAGAIN") (simp_all add: run cmd seen32_def widen_cmd_def)
  next
    case (5 c)
    have n: "comedi_unlocked_ioctl ops env st minor fil (COMEDI_CMDTEST (Some (widen_cmd c))) = Some (rc, out, ns, st')"
      using req native 5 by simp
    from copied_back_widens[OF mem(2) cmdtest_reply[OF n], of rc] obtain c' where
      "copied_back e (Some c) (native_cmd (widen_cmd c) out) rc = (rc, Reply_cmd32 c')"
      "widen_cmd c' = (native_cmd (widen_cmd c) out)\<lparr>cmd_data := compat_ptr (c32_data c)\<rparr>" .
    then show ?thesis
      using 5 mem n rc by (cases "rc < 0") (simp_all add: run cmd seen32_def)
  qed (use req mem in \<open>auto simp: run compat_chaninfo_def compat_rangeinfo_def compat_insn_def compat_insnlist_def
         get_compat_insn_def get_compat_insns_widens widen_insn_def split: if_splits\<close>)
qed

definition streaming_dev :: "(nat, nat) comedi_device" where
  "streaming_dev = fresh_dev [(fresh_subd 4096)\<lparr>sd_do_cmd := Some 0, sd_do_cmdtest := Some 0\<rparr>]"

definition one_board :: "(nat, nat) comedi_state" where
  "one_board = \<lparr>cs_table = [Some \<lparr>fi_device = 0, fi_read_subdevice = None, fi_write_subdevice = None\<rparr>],
     cs_devices = [0 \<mapsto> streaming_dev], cs_drivers = [], cs_refs = (\<lambda>_. 0),
     cs_flow = \<lparr>pages_taken = [], pages_freed = []\<rparr>\<rparr>"

definition zero_cmd32 :: comedi32_cmd where
  "zero_cmd32 = \<lparr>c32_subdev = 0, c32_flags = 0, c32_start_src = 0, c32_start_arg = 0, c32_scan_begin_src = 0,
     c32_scan_begin_arg = 0, c32_convert_src = 0, c32_convert_arg = 0, c32_scan_end_src = 0,
     c32_scan_end_arg = 0, c32_stop_src = 0, c32_stop_arg = 0, c32_chanlist = 0, c32_chanlist_len = 0,
     c32_data = 64, c32_data_len = 0\<rparr>"

theorem compat_equals_native_witness:
  "\<forall>env. \<exists>out32. comedi_compat_ioctl idle_ops (env\<lparr>ie_copy_ok := True\<rparr>) \<lparr>ce_scratch = True, ce_back = True\<rparr>
     one_board 0 (Owner_file 1) (COMEDI32_CMDTEST (Some zero_cmd32)) = Some (0, out32, [], put_dev 0 streaming_dev one_board) \<and>
     same_reply (COMEDI32_CMDTEST (Some zero_cmd32)) 0 (Reply_cmd (widen_cmd zero_cmd32)) out32"
proof
  fix env
  have "comedi_unlocked_ioctl idle_ops (env\<lparr>ie_copy_ok := True\<rparr>) one_board 0 (Owner_file 1)
      (COMEDI_CMDTEST (Some (widen_cmd zero_cmd32))) =
    Some (0, Reply_cmd (widen_cmd zero_cmd32), [], put_dev 0 streaming_dev one_board)"
    by (simp add: comedi_unlocked_ioctl_def comedi_get_device_file_info_def one_board_def streaming_dev_def
        attached_ioctl_def do_cmdtest_ioctl_def widen_cmd_def zero_cmd32_def compat_chanlist_def idle_ops_def
        fresh_subd_def subd_def fresh_dev_def bug_on_def COMEDI_NUM_MINORS_def reply_opt_def load_nth_def)
  from compat_equals_native[OF _ _ _ this, where e = "\<lparr>ce_scratch = True, ce_back = True\<rparr>" and
      req = "COMEDI32_CMDTEST (Some zero_cmd32)"]
  show "\<exists>out32. comedi_compat_ioctl idle_ops (env\<lparr>ie_copy_ok := True\<rparr>) \<lparr>ce_scratch = True, ce_back = True\<rparr>
      one_board 0 (Owner_file 1) (COMEDI32_CMDTEST (Some zero_cmd32)) = Some (0, out32, [], put_dev 0 streaming_dev one_board) \<and>
      same_reply (COMEDI32_CMDTEST (Some zero_cmd32)) 0 (Reply_cmd (widen_cmd zero_cmd32)) out32"
    by (simp add: ENOIOCTLCMD_def)
qed

end
