(* ===== verification/Proc_Listing.thy ===== *)
theory Proc_Listing
  imports Minors
begin

text \<open>
  The listing of the boards and the drivers in \<open>/proc/comedi\<close> (\<open>comedi/proc.c\<close>), as the text it writes.
  The release is fixed when the module is built, and \<open>null\<close> is what the kernel's formatter writes for a
  \<open>NULL\<close> string.
\<close>

section \<open>The formatter\<close>

definition newline :: string where "newline = [CHR 0x0A]"

definition digit :: "nat \<Rightarrow> char" where "digit n = char_of (48 + n)"

fun digits :: "nat \<Rightarrow> string" where
  "digits n = (if n < 10 then [digit n] else digits (n div 10) @ [digit (n mod 10)])"

declare digits.simps [simp del]

definition decimal :: "int \<Rightarrow> string" where
  "decimal x = (if x < 0 then ''-'' @ digits (nat (- x)) else digits (nat x))"

definition pad_left :: "nat \<Rightarrow> string \<Rightarrow> string" where
  "pad_left k s = replicate (k - length s) CHR '' '' @ s"

definition pad_right :: "nat \<Rightarrow> string \<Rightarrow> string" where
  "pad_right k s = s @ replicate (k - length s) CHR '' ''"

section \<open>The listing\<close>

definition text_of :: "string \<Rightarrow> string option \<Rightarrow> string" where
  "text_of null s = (case s of Some s \<Rightarrow> s | None \<Rightarrow> null)"

definition board_line :: "string \<Rightarrow> nat \<Rightarrow> comedi_driver \<Rightarrow> ('p, 'h) comedi_device \<Rightarrow> string" where
  "board_line null i drv dev =
     pad_left 2 (decimal (int i)) @ '': '' @ pad_right 20 (driver_name drv) @ '' '' @
     pad_right 20 (text_of null (dv_board_name dev)) @ '' '' @
     pad_left 4 (decimal (sint (dv_n_subdevices dev))) @ newline"

text \<open>The line of one minor, nothing when there is no attached device.\<close>

definition board_entry :: "string \<Rightarrow> ('p, 'h) comedi_state \<Rightarrow> nat \<Rightarrow> string option" where
  "board_entry null st i =
     do {
       info \<leftarrow> comedi_get_device_file_info st i;
       case info of
         None \<Rightarrow> Some []
       | Some info \<Rightarrow>
           do {
             dev \<leftarrow> cs_devices st (fi_device info);
             if dv_attached dev then do { drv \<leftarrow> dv_driver dev; Some (board_line null i drv dev) } else Some []
           }
     }"

fun board_lines :: "string \<Rightarrow> ('p, 'h) comedi_state \<Rightarrow> nat list \<Rightarrow> string option" where
  "board_lines null st [] = Some []"
| "board_lines null st (i # is) =
     do { l \<leftarrow> board_entry null st i; ls \<leftarrow> board_lines null st is; Some (l @ ls) }"

definition driver_entry :: "comedi_driver \<Rightarrow> string" where
  "driver_entry drv = driver_name drv @ '':'' @ newline @
     (if drv_board_names drv = [] then '' '' @ driver_name drv @ newline
      else concat (map (\<lambda>s. '' '' @ s @ newline) (drv_board_names drv)))"

definition listing :: "string \<Rightarrow> string \<Rightarrow> ('p, 'h) comedi_state \<Rightarrow> string option" where
  "listing head null st =
     do {
       boards \<leftarrow> board_lines null st [0..<COMEDI_NUM_BOARD_MINORS];
       Some (head @ (if boards = [] then ''no devices'' @ newline else boards) @
         concat (map driver_entry (cs_drivers st)))
     }"

definition format_line :: "string \<Rightarrow> string \<Rightarrow> string" where
  "format_line release sep = ''comedi version '' @ release @ newline @ ''format string: '' @
     [CHR 0x22] @ ''%2d: %-20s %-20s %4d'' @ [CHR 0x22] @ sep @ newline"

text \<open>Kernels from 2.6.25 on write into a sequence file, older ones into a buffer of one page.\<close>

definition comedi_read_proc :: "string \<Rightarrow> string \<Rightarrow> ('p, 'h) comedi_state \<Rightarrow> string option" where
  "comedi_read_proc release null st =
     listing (format_line release '', i, driver_name, board_name, n_subdevices'') null st"

definition comedi_read_procmem :: "string \<Rightarrow> string \<Rightarrow> ('p, 'h) comedi_state \<Rightarrow> (int \<times> string) option" where
  "comedi_read_procmem release null st =
     do {
       s \<leftarrow> listing (format_line release '',i,driver_name,board_name,n_subdevices'') null st;
       Some (int (length s), s)
     }"

section \<open>How long it is\<close>

lemma length_pads [simp]: "length (pad_left k s) = max k (length s)" "length (pad_right k s) = max k (length s)"
  by (auto simp: pad_left_def pad_right_def)

lemma board_line_length: "51 \<le> length (board_line null i drv dev)"
  by (simp add: board_line_def newline_def)

lemma board_line_not_empty [simp]: "board_line null i drv dev \<noteq> []"
  by (simp add: board_line_def newline_def)

definition listed :: "('p, 'h) comedi_state \<Rightarrow> nat \<Rightarrow> bool" where
  "listed st i \<longleftrightarrow> (\<exists>info dev. comedi_get_device_file_info st i = Some (Some info) \<and>
     cs_devices st (fi_device info) = Some dev \<and> dv_attached dev)"

lemma board_entry_length:
  "board_entry null st i = Some l \<Longrightarrow> (if listed st i then 51 \<le> length l else l = [])"
  by (auto simp: board_entry_def listed_def bind_eq_Some_conv board_line_length split: option.splits if_splits)

lemma board_lines_length:
  "board_lines null st is = Some ls \<Longrightarrow> 51 * length (filter (listed st) is) \<le> length ls"
proof (induction "is" arbitrary: ls)
  case (Cons i "is")
  then obtain l ls' where "board_entry null st i = Some l" "board_lines null st is = Some ls'" "ls = l @ ls'"
    by (auto simp: bind_eq_Some_conv)
  then show ?case using Cons.IH[of ls'] board_entry_length[of null st i l] by (auto split: if_splits)
qed simp

text \<open>
  The listing does not fit a page once there are enough boards and drivers; the old read routine writes it
  there all the same.
\<close>

lemma listing_length:
  assumes "comedi_read_procmem release null st = Some (n, s)"
  shows "51 * length (filter (listed st) [0..<COMEDI_NUM_BOARD_MINORS]) +
    (\<Sum>drv \<leftarrow> cs_drivers st. length (driver_entry drv)) \<le> length s \<and> n = int (length s)"
proof -
  obtain ls where b: "board_lines null st [0..<COMEDI_NUM_BOARD_MINORS] = Some ls" and
      s: "length ls + (\<Sum>drv \<leftarrow> cs_drivers st. length (driver_entry drv)) \<le> length s \<and> n = int (length s)"
    using assms by (auto simp: comedi_read_procmem_def listing_def bind_eq_Some_conv length_concat comp_def)
  from board_lines_length[OF b] s show ?thesis by linarith
qed

end
