(* ===== verification/Comedi_Test.thy ===== *)
theory Comedi_Test
  imports Attach Comedi_Fc "HOL-Library.Signed_Division"
begin

text \<open>
  The driver of the simulated board (\<open>comedi/drivers/comedi_test.c\<close>): a timer interrupt writes computed
  waveforms into the input stream. \<open>wave_hw\<close> is what the driver reaches outside its own data: the time
  of day, whether its timer is pending, and the outcome of the two allocations of its attach routine.
\<close>

unbundle bit_operations_syntax

section \<open>Board and private data\<close>

record waveform_board =
  wb_name :: string
  wb_ai_chans :: u32
  wb_ai_bits :: nat

definition N_CHANS :: nat where "N_CHANS = 8"

definition waveform_boards :: "waveform_board list" where
  "waveform_boards = [\<lparr>wb_name = ''comedi_test'', wb_ai_chans = 8, wb_ai_bits = 16\<rparr>]"

record waveform_private =
  wp_last :: "u64 \<times> u64"
  wp_uvolt_amplitude :: u32
  wp_usec_period :: u64
  wp_usec_current :: u64
  wp_usec_remainder :: u64
  wp_ai_count :: u64
  wp_scan_period :: u32
  wp_convert_period :: u32
  wp_timer_running :: bool
  wp_ao_loopbacks :: "lsampl_t list"

record wave_hw =
  wh_now :: "u64 \<times> u64"
  wh_timer :: bool
  wh_private_ok :: bool
  wh_subdevices_ok :: bool

type_synonym wave_device = "(waveform_private, wave_hw) comedi_device"
type_synonym wave_subdevice = "waveform_private comedi_subdevice"

definition zero_private :: waveform_private where
  "zero_private = \<lparr>wp_last = (0, 0), wp_uvolt_amplitude = 0, wp_usec_period = 0, wp_usec_current = 0,
     wp_usec_remainder = 0, wp_ai_count = 0, wp_scan_period = 0, wp_convert_period = 0,
     wp_timer_running = False, wp_ao_loopbacks = replicate N_CHANS 0\<rparr>"

definition set_timer :: "bool \<Rightarrow> wave_device \<Rightarrow> wave_device" where
  "set_timer b dev = dev\<lparr>dv_hw := (dv_hw dev)\<lparr>wh_timer := b\<rparr>\<rparr>"

definition waveform_ai_ranges :: comedi_lrange where
  "waveform_ai_ranges = \<lparr>lr_length = 2, lr_range =
     [\<lparr>kr_min = -10000000, kr_max = 10000000, kr_flags = 0\<rparr>,
      \<lparr>kr_min = -5000000, kr_max = 5000000, kr_flags = 0\<rparr>]\<rparr>"

definition waveform_ai_insn_read_fn :: fnptr where "waveform_ai_insn_read_fn = 1"
definition waveform_ao_insn_write_fn :: fnptr where "waveform_ao_insn_write_fn = 2"
definition waveform_ai_cmd_fn :: fnptr where "waveform_ai_cmd_fn = 3"
definition waveform_ai_cmdtest_fn :: fnptr where "waveform_ai_cmdtest_fn = 4"
definition waveform_ai_cancel_fn :: fnptr where "waveform_ai_cancel_fn = 5"

section \<open>Waveforms\<close>

definition do_div :: "u64 \<Rightarrow> u32 \<Rightarrow> u64 option" where
  "do_div n base = (if base = 0 then None else Some (n div ucast base))"

definition umod64 :: "u64 \<Rightarrow> u64 \<Rightarrow> u64 option" where
  "umod64 a b = (if b = 0 then None else Some (a mod b))"

definition krange_of :: "wave_subdevice \<Rightarrow> u32 \<Rightarrow> comedi_krange option" where
  "krange_of s range_index =
     do { lr \<leftarrow> sd_range_table s; load_nth (lr_range lr) (unat range_index) }"

definition fake_sawtooth ::
  "wave_subdevice \<Rightarrow> waveform_private \<Rightarrow> u32 \<Rightarrow> u64 \<Rightarrow> sampl_t option" where
  "fake_sawtooth s devpriv range_index current_time =
     (let offset = sd_maxdata s div 2 in
      do {
        krange \<leftarrow> krange_of s range_index;
        binary_amplitude \<leftarrow> do_div (ucast (sd_maxdata s) * ucast (wp_uvolt_amplitude devpriv))
          (kr_max krange - kr_min krange);
        current_time \<leftarrow> umod64 current_time (wp_usec_period devpriv);
        value \<leftarrow> do_div (current_time * (binary_amplitude * 2)) (ucast (wp_usec_period devpriv));
        Some (ucast (ucast offset + (value - binary_amplitude)))
      })"

definition fake_squarewave ::
  "wave_subdevice \<Rightarrow> waveform_private \<Rightarrow> u32 \<Rightarrow> u64 \<Rightarrow> sampl_t option" where
  "fake_squarewave s devpriv range_index current_time =
     (let offset = sd_maxdata s div 2 in
      do {
        krange \<leftarrow> krange_of s range_index;
        current_time \<leftarrow> umod64 current_time (wp_usec_period devpriv);
        value \<leftarrow> do_div (ucast (sd_maxdata s) * ucast (wp_uvolt_amplitude devpriv))
          (kr_max krange - kr_min krange);
        let value = (if current_time < wp_usec_period devpriv div 2 then value * (- 1) else value)
        in Some (ucast (ucast offset + value))
      })"

definition fake_flatline :: "wave_subdevice \<Rightarrow> sampl_t" where
  "fake_flatline s = ucast (sd_maxdata s div 2)"

definition fake_waveform ::
  "wave_subdevice \<Rightarrow> waveform_private \<Rightarrow> u32 \<Rightarrow> u32 \<Rightarrow> u64 \<Rightarrow> sampl_t option" where
  "fake_waveform s devpriv channel range_index current_time =
     (if channel = 0 then fake_sawtooth s devpriv range_index current_time
      else if channel = 1 then fake_squarewave s devpriv range_index current_time
      else Some (fake_flatline s))"

section \<open>The timer interrupt\<close>

text \<open>One scan: a sample per element of the channel list.\<close>

fun write_scan ::
  "munge_ctx \<Rightarrow> waveform_private \<Rightarrow> u64 \<Rightarrow> nat \<Rightarrow> u32 list \<Rightarrow> wave_subdevice \<Rightarrow>
    wave_subdevice option" where
  "write_scan mc devpriv t j [] s = Some s"
| "write_scan mc devpriv t j (c # cs) s =
     do {
       x \<leftarrow> fake_waveform s devpriv (CR_CHAN c) (CR_RANGE c)
              (t + ucast (of_nat j * wp_convert_period devpriv :: u32));
       (_, s) \<leftarrow> cfc_write_to_buffer mc s x;
       write_scan mc devpriv t (Suc j) cs s
     }"

primrec write_scans ::
  "munge_ctx \<Rightarrow> waveform_private \<Rightarrow> nat \<Rightarrow> nat \<Rightarrow> wave_subdevice \<Rightarrow>
    (waveform_private \<times> wave_subdevice) option" where
  "write_scans mc devpriv i 0 s = Some (devpriv, s)"
| "write_scans mc devpriv i (Suc k) s =
     do {
       a \<leftarrow> sd_async s;
       let chans = (case chanlist (cmd a) of Kern_ptr xs \<Rightarrow> xs | _ \<Rightarrow> []);
           t = wp_usec_current devpriv + ucast (of_nat i * wp_scan_period devpriv :: u32)
       in
       if length chans < unat (chanlist_len (cmd a)) then None
       else do {
         s \<leftarrow> write_scan mc devpriv t 0 (take (unat (chanlist_len (cmd a))) chans) s;
         a \<leftarrow> sd_async s;
         let devpriv = devpriv\<lparr>wp_ai_count := wp_ai_count devpriv + 1\<rparr>
         in if stop_src (cmd a) = TRIG_COUNT \<and> ucast (stop_arg (cmd a)) \<le> wp_ai_count devpriv
            then Some (devpriv, s\<lparr>sd_async := Some (a\<lparr>events := events a OR COMEDI_CB_EOA\<rparr>)\<rparr>)
            else write_scans mc devpriv (Suc i) k s
       }
     }"

definition elapsed_usec :: "u64 \<times> u64 \<Rightarrow> u64 \<times> u64 \<Rightarrow> u64" where
  "elapsed_usec now prev = 1000000 * (fst now - fst prev) + snd now - snd prev"

definition waveform_ai_interrupt ::
  "wave_device \<Rightarrow> (notice list \<times> wave_device) option" where
  "waveform_ai_interrupt dev =
     do {
       i \<leftarrow> dv_read_subdev dev;
       s \<leftarrow> subd dev i;
       a \<leftarrow> sd_async s;
       devpriv \<leftarrow> dv_private dev;
       let now = wh_now (dv_hw dev);
           elapsed_time = elapsed_usec now (wp_last devpriv);
           total = wp_usec_remainder devpriv + elapsed_time;
           devpriv = devpriv\<lparr>wp_last := now\<rparr>
       in do {
         scans \<leftarrow> do_div total (wp_scan_period devpriv);
         remainder \<leftarrow> umod64 total (ucast (wp_scan_period devpriv));
         let devpriv = devpriv\<lparr>wp_usec_remainder := remainder\<rparr>;
             s = s\<lparr>sd_async := Some (a\<lparr>events := 0\<rparr>)\<rparr>
         in do {
           (devpriv, s) \<leftarrow> write_scans \<lparr>mc_munge = None, mc_sample_bytes = bytes_per_sample s\<rparr>
             devpriv 0 (unat (ucast scans :: u32)) s;
           a \<leftarrow> sd_async s;
           current \<leftarrow> umod64 (wp_usec_current devpriv + elapsed_time) (wp_usec_period devpriv);
           let devpriv = devpriv\<lparr>wp_usec_current := current\<rparr>;
               dev = set_subd i s (dev\<lparr>dv_private := Some devpriv\<rparr>);
               dev = set_timer (events a AND COMEDI_CB_EOA = 0 \<and> wp_timer_running devpriv) dev
           in comedi_event dev i
         }
       }
     }"

section \<open>Attach and detach\<close>

definition waveform_ai_cancel :: "wave_device \<Rightarrow> (int \<times> wave_device) option" where
  "waveform_ai_cancel dev =
     do {
       devpriv \<leftarrow> dv_private dev;
       Some (0, set_timer False (dev\<lparr>dv_private := Some (devpriv\<lparr>wp_timer_running := False\<rparr>)\<rparr>))
     }"

definition waveform_ai_subd :: "waveform_board \<Rightarrow> wave_subdevice \<Rightarrow> wave_subdevice" where
  "waveform_ai_subd board s =
     s\<lparr>sd_type := COMEDI_SUBD_AI,
       sd_subdev_flags := SDF_READABLE OR SDF_GROUND OR SDF_CMD_READ,
       sd_n_chan := wb_ai_chans board,
       sd_maxdata := push_bit (wb_ai_bits board) 1 - 1,
       sd_range_table := Some waveform_ai_ranges,
       sd_len_chanlist := wb_ai_chans board * 2,
       sd_insn_read := Some (Insn_driver waveform_ai_insn_read_fn),
       sd_do_cmd := Some waveform_ai_cmd_fn,
       sd_do_cmdtest := Some waveform_ai_cmdtest_fn,
       sd_cancel := Some waveform_ai_cancel_fn\<rparr>"

definition waveform_ao_subd :: "waveform_board \<Rightarrow> wave_subdevice \<Rightarrow> wave_subdevice" where
  "waveform_ao_subd board s =
     s\<lparr>sd_type := COMEDI_SUBD_AO,
       sd_subdev_flags := SDF_WRITABLE OR SDF_GROUND,
       sd_n_chan := wb_ai_chans board,
       sd_maxdata := push_bit (wb_ai_bits board) 1 - 1,
       sd_range_table := Some waveform_ai_ranges,
       sd_len_chanlist := wb_ai_chans board * 2,
       sd_insn_write := Some (Insn_driver waveform_ao_insn_write_fn),
       sd_do_cmd := None, sd_do_cmdtest := None, sd_cancel := None\<rparr>"

definition waveform_attach ::
  "wave_device \<Rightarrow> comedi_devconfig \<Rightarrow> (int \<times> wave_device) option" where
  "waveform_attach dev it =
     do {
       bp \<leftarrow> dv_board_ptr dev;
       thisboard \<leftarrow> load_nth waveform_boards bp;
       amplitude \<leftarrow> load_nth (dc_options it) 0;
       period \<leftarrow> load_nth (dc_options it) 1;
       case alloc_private (if wh_private_ok (dv_hw dev) then Some zero_private else None)
              (dev\<lparr>dv_board_name := Some (wb_name thisboard)\<rparr>) of (ret, dev) \<Rightarrow>
       if ret < 0 then Some (- ENOMEM, dev)
       else
         let amplitude = (if amplitude <=s 0 then 1000000 else amplitude);
             period = (if period <=s 0 then 100000 else period)
         in do {
           devpriv \<leftarrow> dv_private dev;
           let devpriv = devpriv\<lparr>wp_uvolt_amplitude := amplitude, wp_usec_period := ucast period\<rparr>;
               dev = dev\<lparr>dv_private := Some devpriv\<rparr>
           in
           case alloc_subdevices (wh_subdevices_ok (dv_hw dev)) dev 2 of (ret, dev) \<Rightarrow>
           if ret < 0 then Some (- ENOMEM, dev)
           else do {
             s0 \<leftarrow> subd dev 0;
             s1 \<leftarrow> subd dev 1;
             let s0 = waveform_ai_subd thisboard s0;
                 s1 = waveform_ao_subd thisboard s1;
                 n = unat (sd_n_chan s1);
                 loopbacks = replicate n (sd_maxdata s1 div 2) @ drop n (wp_ao_loopbacks devpriv)
             in
             if N_CHANS < n then None
             else Some (1, set_subd 1 s1 (set_subd 0 s0
                    (dev\<lparr>dv_read_subdev := Some 0, dv_write_subdev := Some 1,
                         dv_private := Some (devpriv\<lparr>wp_ao_loopbacks := loopbacks\<rparr>)\<rparr>)))
           }
         }
     }"

definition waveform_detach :: "wave_device \<Rightarrow> (int \<times> wave_device) option" where
  "waveform_detach dev =
     (if dv_private dev \<noteq> None
      then do { (_, dev) \<leftarrow> waveform_ai_cancel dev; Some (0, dev) } else Some (0, dev))"

section \<open>Instructions\<close>

primrec fill_data :: "lsampl_t \<Rightarrow> lsampl_t list \<Rightarrow> nat \<Rightarrow> nat \<Rightarrow> lsampl_t list option" where
  "fill_data x data i 0 = Some data"
| "fill_data x data i (Suc k) =
     (if i < length data then fill_data x (data[i := x]) (Suc i) k else None)"

definition waveform_ai_insn_read ::
  "wave_device \<Rightarrow> comedi_insn \<Rightarrow> lsampl_t list \<Rightarrow> (int \<times> wave_device \<times> comedi_insn \<times> lsampl_t list) option" where
  "waveform_ai_insn_read dev insn data =
     (if insn_n insn = 0 then Some (0, dev, insn, data)
      else do {
        devpriv \<leftarrow> dv_private dev;
        x \<leftarrow> load_nth (wp_ao_loopbacks devpriv) (unat (CR_CHAN (insn_chanspec insn)));
        data \<leftarrow> fill_data x data 0 (unat (insn_n insn));
        Some (sint (insn_n insn), dev, insn, data)
      })"

primrec store_data :: "waveform_private \<Rightarrow> nat \<Rightarrow> lsampl_t list \<Rightarrow> nat \<Rightarrow> nat \<Rightarrow> waveform_private option" where
  "store_data devpriv chan data i 0 = Some devpriv"
| "store_data devpriv chan data i (Suc k) =
     do {
       x \<leftarrow> load_nth data i;
       if chan < N_CHANS
       then store_data (devpriv\<lparr>wp_ao_loopbacks := (wp_ao_loopbacks devpriv)[chan := x]\<rparr>) chan data (Suc i) k
       else None
     }"

definition waveform_ao_insn_write ::
  "wave_device \<Rightarrow> comedi_insn \<Rightarrow> lsampl_t list \<Rightarrow> (int \<times> wave_device \<times> comedi_insn \<times> lsampl_t list) option" where
  "waveform_ao_insn_write dev insn data =
     (if insn_n insn = 0 then Some (0, dev, insn, data)
      else do {
        devpriv \<leftarrow> dv_private dev;
        devpriv \<leftarrow> store_data devpriv (unat (CR_CHAN (insn_chanspec insn))) data 0 (unat (insn_n insn));
        Some (sint (insn_n insn), dev\<lparr>dv_private := Some devpriv\<rparr>, insn, data)
      })"

end
