(* ===== verification/Command_Test.thy ===== *)
theory Command_Test
  imports Comedi_Types
begin

text \<open>
  The tests of streaming commands. Every driver that streams has a \<open>do_cmdtest\<close> routine of the same
  form (documented in \<open>comedi/drivers/skel.c\<close>): numbered stages, each of which corrects the command
  and counts what it corrected, and returns its number if it corrected anything. This theory has the
  pieces these routines are made of and the contract they keep; the routines themselves are in the
  theories of their drivers.
\<close>

unbundle bit_operations_syntax

section \<open>Pieces of a stage\<close>

text \<open>A piece returns the number of errors it counted and the corrected command.\<close>

type_synonym test_piece = "comedi_cmd \<Rightarrow> nat \<times> comedi_cmd"

text \<open>\<open>if (p) { cmd = f(cmd); err++; }\<close>\<close>

definition fix_if :: "(comedi_cmd \<Rightarrow> bool) \<Rightarrow> (comedi_cmd \<Rightarrow> comedi_cmd) \<Rightarrow> test_piece" where
  "fix_if p f c = (if p c then (1, f c) else (0, c))"

text \<open>\<open>if (p) err++;\<close>\<close>

definition reject_if :: "(comedi_cmd \<Rightarrow> bool) \<Rightarrow> test_piece" where
  "reject_if p c = (if p c then 1 else 0, c)"

text \<open>
  \<open>tmp = cmd->x; cmd->x = round(tmp); if (tmp != cmd->x) err++;\<close> where the rounding may look at the rest
  of the command
\<close>

definition round_scan_begin :: "(comedi_cmd \<Rightarrow> u32) \<Rightarrow> test_piece" where
  "round_scan_begin f c = (if scan_begin_arg c \<noteq> f c then 1 else 0, c\<lparr>scan_begin_arg := f c\<rparr>)"

definition round_convert :: "(comedi_cmd \<Rightarrow> u32) \<Rightarrow> test_piece" where
  "round_convert f c = (if convert_arg c \<noteq> f c then 1 else 0, c\<lparr>convert_arg := f c\<rparr>)"

text \<open>\<open>if (p) { ... }\<close> and \<open>if (p) { ... } else { ... }\<close>\<close>

definition only_if :: "(comedi_cmd \<Rightarrow> bool) \<Rightarrow> test_piece \<Rightarrow> test_piece" where
  "only_if p t c = (if p c then t c else (0, c))"

definition either :: "(comedi_cmd \<Rightarrow> bool) \<Rightarrow> test_piece \<Rightarrow> test_piece \<Rightarrow> test_piece" where
  "either p t u c = (if p c then t c else u c)"

text \<open>One after the other, with a common count.\<close>

primrec pieces :: "test_piece list \<Rightarrow> test_piece" where
  "pieces [] c = (0, c)"
| "pieces (t # ts) c = (let (e, c) = t c; (e', c) = pieces ts c in (e + e', c))"

text \<open>
  The first stage: \<open>tmp = cmd->x_src; cmd->x_src &= mask; if (!cmd->x_src || tmp != cmd->x_src) err++;\<close>
  for the five trigger sources.
\<close>

definition bad_src :: "u32 \<Rightarrow> u32 \<Rightarrow> nat" where
  "bad_src tmp src = (if src = 0 \<or> tmp \<noteq> src then 1 else 0)"

definition mask_sources :: "u32 \<Rightarrow> u32 \<Rightarrow> u32 \<Rightarrow> u32 \<Rightarrow> u32 \<Rightarrow> test_piece" where
  "mask_sources m1 m2 m3 m4 m5 c =
     (let c' = c\<lparr>start_src := start_src c AND m1, scan_begin_src := scan_begin_src c AND m2,
            convert_src := convert_src c AND m3, scan_end_src := scan_end_src c AND m4,
            stop_src := stop_src c AND m5\<rparr>
      in (bad_src (start_src c) (start_src c') + bad_src (scan_begin_src c) (scan_begin_src c') +
          bad_src (convert_src c) (convert_src c') + bad_src (scan_end_src c) (scan_end_src c') +
          bad_src (stop_src c) (stop_src c'), c'))"

text \<open>The stages: \<open>if (err) return k;\<close> after the \<open>k\<close>-th.\<close>

primrec stages_from :: "int \<Rightarrow> test_piece list \<Rightarrow> comedi_cmd \<Rightarrow> int \<times> comedi_cmd" where
  "stages_from k [] c = (0, c)"
| "stages_from k (t # ts) c = (let (e, c) = t c in if e \<noteq> 0 then (k, c) else stages_from (k + 1) ts c)"

abbreviation stages :: "test_piece list \<Rightarrow> comedi_cmd \<Rightarrow> int \<times> comedi_cmd" where
  "stages \<equiv> stages_from 1"

text \<open>The corrections that most routines share.\<close>

definition no_start_arg :: test_piece where
  "no_start_arg = fix_if (\<lambda>c. start_arg c \<noteq> 0) (\<lambda>c. c\<lparr>start_arg := 0\<rparr>)"
definition no_scan_begin_arg :: test_piece where
  "no_scan_begin_arg = fix_if (\<lambda>c. scan_begin_arg c \<noteq> 0) (\<lambda>c. c\<lparr>scan_begin_arg := 0\<rparr>)"
definition min_scan_begin_arg :: "u32 \<Rightarrow> test_piece" where
  "min_scan_begin_arg k = fix_if (\<lambda>c. scan_begin_arg c < k) (\<lambda>c. c\<lparr>scan_begin_arg := k\<rparr>)"
definition max_scan_begin_arg :: "u32 \<Rightarrow> test_piece" where
  "max_scan_begin_arg k = fix_if (\<lambda>c. k < scan_begin_arg c) (\<lambda>c. c\<lparr>scan_begin_arg := k\<rparr>)"
definition no_convert_arg :: test_piece where
  "no_convert_arg = fix_if (\<lambda>c. convert_arg c \<noteq> 0) (\<lambda>c. c\<lparr>convert_arg := 0\<rparr>)"
definition min_convert_arg :: "u32 \<Rightarrow> test_piece" where
  "min_convert_arg k = fix_if (\<lambda>c. convert_arg c < k) (\<lambda>c. c\<lparr>convert_arg := k\<rparr>)"
definition max_convert_arg :: "u32 \<Rightarrow> test_piece" where
  "max_convert_arg k = fix_if (\<lambda>c. k < convert_arg c) (\<lambda>c. c\<lparr>convert_arg := k\<rparr>)"
definition some_channels :: test_piece where
  "some_channels = fix_if (\<lambda>c. chanlist_len c = 0) (\<lambda>c. c\<lparr>chanlist_len := 1\<rparr>)"
definition scan_end_is_chanlist :: test_piece where
  "scan_end_is_chanlist = fix_if (\<lambda>c. scan_end_arg c \<noteq> chanlist_len c) (\<lambda>c. c\<lparr>scan_end_arg := chanlist_len c\<rparr>)"
definition scan_end_is :: "u32 \<Rightarrow> test_piece" where
  "scan_end_is k = fix_if (\<lambda>c. scan_end_arg c \<noteq> k) (\<lambda>c. c\<lparr>scan_end_arg := k\<rparr>)"
definition some_stop_arg :: test_piece where
  "some_stop_arg = fix_if (\<lambda>c. stop_arg c = 0) (\<lambda>c. c\<lparr>stop_arg := 1\<rparr>)"
definition max_stop_arg :: "u32 \<Rightarrow> test_piece" where
  "max_stop_arg k = fix_if (\<lambda>c. k < stop_arg c) (\<lambda>c. c\<lparr>stop_arg := k\<rparr>)"
definition no_stop_arg :: test_piece where
  "no_stop_arg = fix_if (\<lambda>c. stop_arg c \<noteq> 0) (\<lambda>c. c\<lparr>stop_arg := 0\<rparr>)"

lemmas fix_defs = no_start_arg_def no_scan_begin_arg_def min_scan_begin_arg_def max_scan_begin_arg_def
  no_convert_arg_def min_convert_arg_def max_convert_arg_def some_channels_def
  scan_end_is_chanlist_def scan_end_is_def some_stop_arg_def max_stop_arg_def no_stop_arg_def

section \<open>Honest pieces\<close>

text \<open>
  A piece is honest when it counts what it changes, and tame when it leaves alone what the core relies
  on: the subdevice, the channel list and the data pointer. \<open>passes t c\<close>: nothing to correct.
\<close>

definition honest :: "test_piece \<Rightarrow> bool" where
  "honest t \<longleftrightarrow> (\<forall>c. fst (t c) = 0 \<longrightarrow> snd (t c) = c)"

definition same_frame :: "comedi_cmd \<Rightarrow> comedi_cmd \<Rightarrow> bool" where
  "same_frame c c' \<longleftrightarrow> cmd_subdev c' = cmd_subdev c \<and> chanlist c' = chanlist c \<and> cmd_data c' = cmd_data c \<and>
     cmd_data_len c' = cmd_data_len c"

definition tame :: "test_piece \<Rightarrow> bool" where
  "tame t \<longleftrightarrow> (\<forall>c. same_frame c (snd (t c)))"

definition passes :: "test_piece \<Rightarrow> comedi_cmd \<Rightarrow> bool" where
  "passes t c \<longleftrightarrow> fst (t c) = 0"

definition good :: "test_piece \<Rightarrow> bool" where
  "good t \<longleftrightarrow> honest t \<and> tame t"

named_theorems good_intros \<open>pieces that are honest and tame\<close>
named_theorems passes_simps \<open>when a piece has nothing to correct\<close>

lemma goodI:
  assumes "\<And>c. fst (t c) = 0 \<Longrightarrow> snd (t c) = c" and "\<And>c. same_frame c (snd (t c))"
  shows "good t"
  using assms by (simp add: good_def honest_def tame_def)

lemma good_passes: "good t \<Longrightarrow> passes t c \<Longrightarrow> t c = (0, c)"
  by (metis good_def honest_def passes_def prod.collapse)

lemma good_frame: "good t \<Longrightarrow> same_frame c (snd (t c))"
  by (simp add: good_def tame_def)

lemma same_frame_refl [simp]: "same_frame c c"
  by (simp add: same_frame_def)

lemma same_frame_trans: "same_frame a b \<Longrightarrow> same_frame b c \<Longrightarrow> same_frame a c"
  by (simp add: same_frame_def)

lemma good_fix_if [good_intros]: "(\<And>c. same_frame c (f c)) \<Longrightarrow> good (fix_if p f)"
  by (rule goodI) (simp_all add: fix_if_def split: if_splits)

lemma good_reject_if [good_intros]: "good (reject_if p)"
  by (rule goodI) (simp_all add: reject_if_def)

lemma good_rounds [good_intros]: "good (round_scan_begin f)" "good (round_convert f)"
  by (rule goodI; simp add: round_scan_begin_def round_convert_def same_frame_def split: if_splits)+

lemma good_only_if [good_intros]: "good t \<Longrightarrow> good (only_if p t)"
  by (rule goodI) (auto simp: only_if_def good_def honest_def tame_def)

lemma good_either [good_intros]: "good t \<Longrightarrow> good u \<Longrightarrow> good (either p t u)"
  by (rule goodI) (auto simp: either_def good_def honest_def tame_def)

lemma good_Nil [good_intros]: "good (pieces [])"
  by (rule goodI) simp_all

lemma good_Cons [good_intros]:
  assumes "good t" and "good (pieces ts)"
  shows "good (pieces (t # ts))"
proof (rule goodI)
  fix c
  show "same_frame c (snd (pieces (t # ts) c))"
    using good_frame[OF assms(1), of c] good_frame[OF assms(2), of "snd (t c)"]
    by (auto simp: split_beta intro: same_frame_trans)
  assume "fst (pieces (t # ts) c) = 0"
  then show "snd (pieces (t # ts) c) = c"
    using assms by (auto simp: split_beta good_def honest_def)
qed

lemma bad_src_0 [simp]: "bad_src tmp src = 0 \<longleftrightarrow> src \<noteq> 0 \<and> src = tmp"
  by (auto simp: bad_src_def)

lemma good_mask_sources [good_intros]: "good (mask_sources m1 m2 m3 m4 m5)"
  by (rule goodI) (simp_all add: mask_sources_def Let_def same_frame_def)

lemma good_fixes [good_intros]:
  "good no_start_arg" "good no_scan_begin_arg" "good (min_scan_begin_arg k)" "good (max_scan_begin_arg k)"
  "good no_convert_arg" "good (min_convert_arg k)" "good (max_convert_arg k)" "good some_channels"
  "good scan_end_is_chanlist" "good (scan_end_is k)" "good some_stop_arg" "good (max_stop_arg k)"
  "good no_stop_arg"
  unfolding fix_defs by (rule good_fix_if, simp add: same_frame_def)+

lemma passes_basic [passes_simps]:
  "passes (fix_if p f) c \<longleftrightarrow> \<not> p c"
  "passes (reject_if p) c \<longleftrightarrow> \<not> p c"
  "passes (round_scan_begin g) c \<longleftrightarrow> scan_begin_arg c = g c"
  "passes (round_convert g) c \<longleftrightarrow> convert_arg c = g c"
  "passes (only_if p t) c \<longleftrightarrow> (p c \<longrightarrow> passes t c)"
  "passes (either p t u) c \<longleftrightarrow> (if p c then passes t c else passes u c)"
  "passes (pieces []) c"
  by (auto simp: passes_def fix_if_def reject_if_def round_scan_begin_def round_convert_def only_if_def either_def)

lemma passes_Cons:
  "good t \<Longrightarrow> passes (pieces (t # ts)) c \<longleftrightarrow> passes t c \<and> passes (pieces ts) c"
  by (auto simp: passes_def split_beta good_def honest_def)

text \<open>Some source, and only sources of the mask.\<close>

definition within :: "u32 \<Rightarrow> u32 \<Rightarrow> bool" where
  "within m x \<longleftrightarrow> x \<noteq> 0 \<and> x AND m = x"

lemma passes_mask_sources [passes_simps]:
  "passes (mask_sources m1 m2 m3 m4 m5) c \<longleftrightarrow>
     within m1 (start_src c) \<and> within m2 (scan_begin_src c) \<and> within m3 (convert_src c) \<and>
     within m4 (scan_end_src c) \<and> within m5 (stop_src c)"
  by (auto simp: passes_def mask_sources_def Let_def within_def)

lemma passes_fixes [passes_simps]:
  "passes no_start_arg c \<longleftrightarrow> start_arg c = 0"
  "passes no_scan_begin_arg c \<longleftrightarrow> scan_begin_arg c = 0"
  "passes (min_scan_begin_arg k) c \<longleftrightarrow> k \<le> scan_begin_arg c"
  "passes (max_scan_begin_arg k) c \<longleftrightarrow> scan_begin_arg c \<le> k"
  "passes no_convert_arg c \<longleftrightarrow> convert_arg c = 0"
  "passes (min_convert_arg k) c \<longleftrightarrow> k \<le> convert_arg c"
  "passes (max_convert_arg k) c \<longleftrightarrow> convert_arg c \<le> k"
  "passes some_channels c \<longleftrightarrow> chanlist_len c \<noteq> 0"
  "passes scan_end_is_chanlist c \<longleftrightarrow> scan_end_arg c = chanlist_len c"
  "passes (scan_end_is k) c \<longleftrightarrow> scan_end_arg c = k"
  "passes some_stop_arg c \<longleftrightarrow> stop_arg c \<noteq> 0"
  "passes (max_stop_arg k) c \<longleftrightarrow> stop_arg c \<le> k"
  "passes no_stop_arg c \<longleftrightarrow> stop_arg c = 0"
  by (auto simp: fix_defs passes_basic)

lemma stages_spec:
  assumes "\<And>t. t \<in> set ts \<Longrightarrow> good t"
  shows "fst (stages_from k ts c) \<in> {0} \<union> {k..<k + int (length ts)} \<and>
    same_frame c (snd (stages_from k ts c)) \<and>
    (0 < k \<longrightarrow> (fst (stages_from k ts c) = 0 \<longleftrightarrow> (\<forall>t \<in> set ts. passes t c))) \<and>
    (0 < k \<longrightarrow> fst (stages_from k ts c) = 0 \<longrightarrow> snd (stages_from k ts c) = c)"
  using assms
proof (induction ts arbitrary: k c)
  case Nil
  show ?case by simp
next
  case (Cons t ts)
  have t: "good t" by (simp add: Cons.prems)
  show ?case
  proof (cases "passes t c")
    case True
    then have step: "stages_from k (t # ts) c = stages_from (k + 1) ts c"
      using good_passes[OF t True] by simp
    have IH: "fst (stages_from (k + 1) ts c) \<in> {0} \<union> {k + 1..<k + 1 + int (length ts)}"
      "same_frame c (snd (stages_from (k + 1) ts c))"
      "0 < k + 1 \<longrightarrow> (fst (stages_from (k + 1) ts c) = 0 \<longleftrightarrow> (\<forall>t \<in> set ts. passes t c))"
      "0 < k + 1 \<longrightarrow> fst (stages_from (k + 1) ts c) = 0 \<longrightarrow> snd (stages_from (k + 1) ts c) = c"
      using Cons.IH[of "k + 1" c] Cons.prems by simp_all
    have "fst (stages_from k (t # ts) c) \<in> {0} \<union> {k..<k + int (length (t # ts))}"
      using IH(1) unfolding step by auto
    then show ?thesis using IH(2-4) True unfolding step by simp
  next
    case False
    then show ?thesis using good_frame[OF t, of c] by (auto simp: split_beta passes_def)
  qed
qed

lemma one_bit_source: "x \<noteq> 0 \<and> x AND 2 ^ n = x \<longleftrightarrow> x = 2 ^ n" if "n < 32" for x :: u32
proof -
  have "x AND 2 ^ n = (if bit x n then 2 ^ n else 0)"
    by (rule bit_word_eqI) (auto simp: bit_simps)
  then show ?thesis using that by (auto simp: bit_simps)
qed

lemma one_source [simp]:
  "within TRIG_NONE x \<longleftrightarrow> x = TRIG_NONE"
  "within TRIG_NOW x \<longleftrightarrow> x = TRIG_NOW"
  "within TRIG_FOLLOW x \<longleftrightarrow> x = TRIG_FOLLOW"
  "within TRIG_TIMER x \<longleftrightarrow> x = TRIG_TIMER"
  "within TRIG_COUNT x \<longleftrightarrow> x = TRIG_COUNT"
  "within TRIG_EXT x \<longleftrightarrow> x = TRIG_EXT"
  "within TRIG_INT x \<longleftrightarrow> x = TRIG_INT"
  using one_bit_source[of 0 x] one_bit_source[of 1 x] one_bit_source[of 2 x] one_bit_source[of 4 x]
    one_bit_source[of 5 x] one_bit_source[of 6 x] one_bit_source[of 7 x]
  by (simp_all add: TRIG_defs within_def)

lemma within_sources [simp]:
  "within m TRIG_NONE \<longleftrightarrow> bit m 0" "within m TRIG_NOW \<longleftrightarrow> bit m 1" "within m TRIG_FOLLOW \<longleftrightarrow> bit m 2"
  "within m TRIG_TIMER \<longleftrightarrow> bit m 4" "within m TRIG_COUNT \<longleftrightarrow> bit m 5" "within m TRIG_EXT \<longleftrightarrow> bit m 6"
  "within m TRIG_INT \<longleftrightarrow> bit m 7"
proof -
  have "2 ^ n AND m = (if bit m n then 2 ^ n else 0)" for n
    by (rule bit_word_eqI) (auto simp: bit_simps)
  from this[of 0] this[of 1] this[of 2] this[of 4] this[of 5] this[of 6] this[of 7]
  show "within m TRIG_NONE \<longleftrightarrow> bit m 0" "within m TRIG_NOW \<longleftrightarrow> bit m 1" "within m TRIG_FOLLOW \<longleftrightarrow> bit m 2"
    "within m TRIG_TIMER \<longleftrightarrow> bit m 4" "within m TRIG_COUNT \<longleftrightarrow> bit m 5" "within m TRIG_EXT \<longleftrightarrow> bit m 6"
    "within m TRIG_INT \<longleftrightarrow> bit m 7"
    by (simp_all add: within_def TRIG_defs)
qed

lemma bit_source [simp]: "bit (2 ^ n :: u32) k \<longleftrightarrow> n = k \<and> n < 32"
  by (auto simp: bit_simps)

lemma bit_sources [simp]:
  "bit TRIG_NONE n \<longleftrightarrow> n = 0" "bit TRIG_NOW n \<longleftrightarrow> n = 1" "bit TRIG_FOLLOW n \<longleftrightarrow> n = 2" "bit TRIG_TIMER n \<longleftrightarrow> n = 4"
  "bit TRIG_COUNT n \<longleftrightarrow> n = 5" "bit TRIG_EXT n \<longleftrightarrow> n = 6" "bit TRIG_INT n \<longleftrightarrow> n = 7"
  using bit_source[of 0 n] bit_source[of 1 n] bit_source[of 2 n] bit_source[of 4 n] bit_source[of 5 n]
    bit_source[of 6 n] bit_source[of 7 n]
  by (auto simp: TRIG_defs)

lemma sources_distinct [simp]:
  "TRIG_NONE \<noteq> TRIG_NOW" "TRIG_NONE \<noteq> TRIG_FOLLOW" "TRIG_NONE \<noteq> TRIG_TIMER"
  "TRIG_NONE \<noteq> TRIG_COUNT" "TRIG_NONE \<noteq> TRIG_EXT" "TRIG_NONE \<noteq> TRIG_INT"
  "TRIG_NOW \<noteq> TRIG_NONE" "TRIG_NOW \<noteq> TRIG_FOLLOW" "TRIG_NOW \<noteq> TRIG_TIMER"
  "TRIG_NOW \<noteq> TRIG_COUNT" "TRIG_NOW \<noteq> TRIG_EXT" "TRIG_NOW \<noteq> TRIG_INT"
  "TRIG_FOLLOW \<noteq> TRIG_NONE" "TRIG_FOLLOW \<noteq> TRIG_NOW" "TRIG_FOLLOW \<noteq> TRIG_TIMER"
  "TRIG_FOLLOW \<noteq> TRIG_COUNT" "TRIG_FOLLOW \<noteq> TRIG_EXT" "TRIG_FOLLOW \<noteq> TRIG_INT"
  "TRIG_TIMER \<noteq> TRIG_NONE" "TRIG_TIMER \<noteq> TRIG_NOW" "TRIG_TIMER \<noteq> TRIG_FOLLOW"
  "TRIG_TIMER \<noteq> TRIG_COUNT" "TRIG_TIMER \<noteq> TRIG_EXT" "TRIG_TIMER \<noteq> TRIG_INT"
  "TRIG_COUNT \<noteq> TRIG_NONE" "TRIG_COUNT \<noteq> TRIG_NOW" "TRIG_COUNT \<noteq> TRIG_FOLLOW"
  "TRIG_COUNT \<noteq> TRIG_TIMER" "TRIG_COUNT \<noteq> TRIG_EXT" "TRIG_COUNT \<noteq> TRIG_INT"
  "TRIG_EXT \<noteq> TRIG_NONE" "TRIG_EXT \<noteq> TRIG_NOW" "TRIG_EXT \<noteq> TRIG_FOLLOW"
  "TRIG_EXT \<noteq> TRIG_TIMER" "TRIG_EXT \<noteq> TRIG_COUNT" "TRIG_EXT \<noteq> TRIG_INT"
  "TRIG_INT \<noteq> TRIG_NONE" "TRIG_INT \<noteq> TRIG_NOW" "TRIG_INT \<noteq> TRIG_FOLLOW"
  "TRIG_INT \<noteq> TRIG_TIMER" "TRIG_INT \<noteq> TRIG_COUNT" "TRIG_INT \<noteq> TRIG_EXT"
  "TRIG_NONE \<noteq> 0" "TRIG_NOW \<noteq> 0" "TRIG_FOLLOW \<noteq> 0" "TRIG_TIMER \<noteq> 0"
  "TRIG_COUNT \<noteq> 0" "TRIG_EXT \<noteq> 0" "TRIG_INT \<noteq> 0"
  by (simp_all add: TRIG_defs)

section \<open>The contract of a command test\<close>

text \<open>
  What the core relies on: a result of 0 means that the command is fine as it is, any other result is
  the number of the stage that corrected it, and the parts of the command that belong to the core stay.
\<close>

locale command_test =
  fixes test :: "comedi_cmd \<Rightarrow> int \<times> comedi_cmd"
  assumes result_range: "fst (test c) \<in> {0..5}"
    and accepted_unchanged: "fst (test c) = 0 \<Longrightarrow> snd (test c) = c"
    and keeps_frame: "same_frame c (snd (test c))"
begin

lemma accepted: "fst (test c) = 0 \<Longrightarrow> test c = (0, c)"
  by (metis accepted_unchanged prod.collapse)

lemma not_negative: "0 \<le> fst (test c)"
  using result_range[of c] by simp

lemma accepted_again: "fst (test c) = 0 \<Longrightarrow> test (snd (test c)) = test c"
  by (simp add: accepted)

end

text \<open>A routine made of at most five good stages keeps the contract.\<close>

lemma command_test_stages:
  assumes "\<And>c. test c = stages ts c" and "\<And>t. t \<in> set ts \<Longrightarrow> good t" and "length ts \<le> 5"
  shows "command_test test"
proof
  fix c
  have spec: "fst (stages ts c) \<in> {0 :: int} \<union> {1..<1 + int (length ts)} \<and> same_frame c (snd (stages ts c)) \<and>
      (fst (stages ts c) = 0 \<longrightarrow> snd (stages ts c) = c)"
    using stages_spec[OF assms(2), of ts 1 c] by (metis zero_less_one)
  then show "fst (test c) \<in> {0..5}" using assms(1,3) by auto
  show "snd (test c) = c" if "fst (test c) = 0" using spec that assms(1) by simp
  show "same_frame c (snd (test c))" using spec assms(1) by simp
qed

lemma stages_accept:
  assumes "\<And>t. t \<in> set ts \<Longrightarrow> good t"
  shows "fst (stages ts c) = 0 \<longleftrightarrow> (\<forall>t \<in> set ts. passes t c)"
  using stages_spec[of ts 1 c] assms by simp

lemmas accept_simps = passes_simps passes_Cons good_intros same_frame_def linorder_not_less bit_or_iff

end
