(* ===== verification/Waveform_Command.thy ===== *)
theory Waveform_Command
  imports Comedi_Test Command_Test
begin

text \<open>
  The commands of the simulated board (\<open>waveform_ai_cmdtest\<close> and \<open>waveform_ai_cmd\<close> of
  \<open>comedi/drivers/comedi_test.c\<close>) and its callbacks as the core calls them.
\<close>

unbundle bit_operations_syntax

section \<open>The test of a command\<close>

text \<open>Rounding to the nearest microsecond, in the signed arithmetic of \<open>int tmp\<close>.\<close>

definition round_usec :: "u32 \<Rightarrow> u32" where
  "round_usec x = of_int (1000 * (sint (x + 500) sdiv 1000))"

definition waveform_stages :: "test_piece list" where
  "waveform_stages =
     [mask_sources TRIG_NOW TRIG_TIMER (TRIG_NOW OR TRIG_TIMER) TRIG_COUNT (TRIG_COUNT OR TRIG_NONE),
      pieces
        [reject_if (\<lambda>c. convert_src c \<noteq> TRIG_NOW \<and> convert_src c \<noteq> TRIG_TIMER),
         reject_if (\<lambda>c. stop_src c \<noteq> TRIG_COUNT \<and> stop_src c \<noteq> TRIG_NONE)],
      pieces
        [no_start_arg,
         only_if (\<lambda>c. convert_src c = TRIG_NOW) no_convert_arg,
         only_if (\<lambda>c. scan_begin_src c = TRIG_TIMER)
           (pieces
             [min_scan_begin_arg 1000,
              fix_if (\<lambda>c. convert_src c = TRIG_TIMER \<and> scan_begin_arg c < convert_arg c * chanlist_len c)
                (\<lambda>c. c\<lparr>scan_begin_arg := convert_arg c * chanlist_len c\<rparr>)]),
         some_channels,
         scan_end_is_chanlist,
         either (\<lambda>c. stop_src c = TRIG_COUNT) some_stop_arg no_stop_arg],
      pieces
        [only_if (\<lambda>c. scan_begin_src c = TRIG_TIMER) (round_scan_begin (\<lambda>c. round_usec (scan_begin_arg c))),
         only_if (\<lambda>c. convert_src c = TRIG_TIMER) (round_convert (\<lambda>c. round_usec (convert_arg c)))]]"

definition waveform_ai_cmdtest :: "comedi_cmd \<Rightarrow> int \<times> comedi_cmd" where
  "waveform_ai_cmdtest = stages waveform_stages"

section \<open>Starting a command\<close>

definition waveform_ai_cmd :: "wave_device \<Rightarrow> nat \<Rightarrow> (int \<times> wave_device) option" where
  "waveform_ai_cmd dev i =
     do {
       s \<leftarrow> subd dev i;
       a \<leftarrow> sd_async s;
       let c = cmd a in
       if cmd_flags c AND TRIG_RT \<noteq> 0 then Some (-1, dev)
       else do {
         devpriv \<leftarrow> dv_private dev;
         let devpriv = devpriv\<lparr>wp_timer_running := True, wp_ai_count := 0,
               wp_scan_period := scan_begin_arg c div 1000\<rparr>
         in
         if convert_src c \<noteq> TRIG_NOW \<and> convert_src c \<noteq> TRIG_TIMER
         then Some (-1, dev\<lparr>dv_private := Some devpriv\<rparr>)
         else
           let devpriv = devpriv\<lparr>wp_convert_period :=
                 (if convert_src c = TRIG_NOW then 0 else convert_arg c div 1000),
                 wp_last := wh_now (dv_hw dev)\<rparr>
           in do {
             current \<leftarrow> umod64 (snd (wp_last devpriv)) (wp_usec_period devpriv);
             Some (0, set_timer True
               (dev\<lparr>dv_private := Some (devpriv\<lparr>wp_usec_current := current, wp_usec_remainder := 0\<rparr>)\<rparr>))
           }
       }
     }"

section \<open>The callbacks\<close>

definition waveform_ops :: "(waveform_private, wave_hw) driver_ops" where
  "waveform_ops = \<lparr>
     op_insn = (\<lambda>f dev i insn data.
       if f = waveform_ai_insn_read_fn then waveform_ai_insn_read dev insn data
       else if f = waveform_ao_insn_write_fn then waveform_ao_insn_write dev insn data else None),
     op_do_cmd = (\<lambda>f dev i. if f = waveform_ai_cmd_fn then waveform_ai_cmd dev i else None),
     op_do_cmdtest = (\<lambda>f dev i c. if f = waveform_ai_cmdtest_fn
       then (case waveform_ai_cmdtest c of (ret, c) \<Rightarrow> Some (ret, dev, c)) else None),
     op_poll = (\<lambda>f dev i. None),
     op_cancel = (\<lambda>f dev i. if f = waveform_ai_cancel_fn then waveform_ai_cancel dev else None),
     op_buf_change = (\<lambda>f dev i n. None),
     op_munge = (\<lambda>f dev i bs c. bs),
     op_inttrig = (\<lambda>f dev i n. None),
     op_attach = (\<lambda>f dev it. waveform_attach dev it),
     op_detach = (\<lambda>f dev. waveform_detach dev),
     op_open = (\<lambda>f dev. None),
     op_close = (\<lambda>f dev. None)\<rparr>"

section \<open>What the test accepts\<close>

lemma good_waveform: "t \<in> set waveform_stages \<Longrightarrow> good t"
  unfolding waveform_stages_def by (auto intro!: good_intros simp: same_frame_def)

interpretation waveform: command_test waveform_ai_cmdtest
  by (rule command_test_stages[of _ waveform_stages])
    (simp_all add: waveform_ai_cmdtest_def good_waveform, simp add: waveform_stages_def)

end
