(* ===== verification/Subdevice_Properties.thy ===== *)
theory Subdevice_Properties
  imports Subdevice_State Example_State
begin

text \<open>
  What the state machine of a subdevice guarantees: events stop and mark it as they should, becoming
  idle leaves nothing behind, and a lock excludes every other file.
\<close>

unbundle bit_operations_syntax

section \<open>Run flags and events\<close>

lemma flags_AND: "((r AND NOT m) OR (b AND m)) AND f = (r AND (f AND NOT m)) OR (b AND (m AND f))" for r :: u32
  by (rule bit_word_eqI) (auto simp: bit_simps)

lemma runflags_AND:
  "comedi_get_subdevice_runflags (comedi_set_subdevice_runflags s m b) AND f =
   (comedi_get_subdevice_runflags s AND (f AND NOT m)) OR (b AND (m AND f))"
  by (simp add: comedi_get_subdevice_runflags_def comedi_set_subdevice_runflags_def flags_AND)

lemma runflags_frame [simp, frame_simps]:
  "sd_async (comedi_set_subdevice_runflags s m b) = sd_async s"
  "sd_busy (comedi_set_subdevice_runflags s m b) = sd_busy s"
  "sd_lock (comedi_set_subdevice_runflags s m b) = sd_lock s"
  "sd_type (comedi_set_subdevice_runflags s m b) = sd_type s"
  "comedi_get_subdevice_runflags (s\<lparr>sd_async := x\<rparr>) = comedi_get_subdevice_runflags s"
  "comedi_get_subdevice_runflags (s\<lparr>sd_busy := y\<rparr>) = comedi_get_subdevice_runflags s"
  by (simp_all add: comedi_set_subdevice_runflags_def comedi_get_subdevice_runflags_def)

definition event_ends :: "u32 \<Rightarrow> bool" where
  "event_ends e \<longleftrightarrow> e AND (COMEDI_CB_EOA OR COMEDI_CB_ERROR OR COMEDI_CB_OVERFLOW) \<noteq> 0"
definition event_fails :: "u32 \<Rightarrow> bool" where
  "event_fails e \<longleftrightarrow> e AND (COMEDI_CB_ERROR OR COMEDI_CB_OVERFLOW) \<noteq> 0"

lemma AND_OR_eq_0: "e AND (x OR y) = 0 \<longleftrightarrow> e AND x = 0 \<and> e AND y = 0" for e :: u32
  by (auto simp: bit_eq_iff bit_simps)

lemma fails_ends: "event_fails e \<Longrightarrow> event_ends e"
  by (auto simp: event_fails_def event_ends_def AND_OR_eq_0)

text \<open>The run flags after an event on a running subdevice.\<close>

definition event_flags :: "u32 \<Rightarrow> 'p comedi_subdevice \<Rightarrow> 'p comedi_subdevice" where
  "event_flags e s =
     (if event_fails e then comedi_set_subdevice_runflags s (SRF_RUNNING OR SRF_ERROR) SRF_ERROR
      else if event_ends e then comedi_set_subdevice_runflags s SRF_RUNNING 0 else s)"

lemma SRF_values [simp]:
  "SRF_RUNNING \<noteq> 0" "SRF_RUNNING OR SRF_ERROR \<noteq> 0" "SRF_ERROR \<noteq> 0" "SRF_USER \<noteq> 0"
  by (simp_all add: SRF_defs)

lemma comedi_event_running:
  assumes "subd dev i = Some s" and "sd_async s = Some a" and "running s"
  shows "comedi_event dev i = Some (event_notices dev i (event_flags (events a) s) a,
    set_subd i ((event_flags (events a) s)\<lparr>sd_async := Some (a\<lparr>events := 0\<rparr>)\<rparr>) dev)"
proof -
  let ?e = "events a"
  have run: "comedi_get_subdevice_runflags s AND SRF_RUNNING \<noteq> 0" using assms(3) by (simp add: running_def)
  consider (fails) "event_fails ?e" "event_ends ?e" | (ends) "\<not> event_fails ?e" "event_ends ?e"
    | (goes) "\<not> event_fails ?e" "\<not> event_ends ?e" using fails_ends by blast
  then show ?thesis
    by cases (simp_all add: comedi_event_def assms(1,2) run event_flags_def event_fails_def[symmetric]
      event_ends_def[symmetric] Let_def)
qed

lemma comedi_event_idle:
  assumes "subd dev i = Some s" and "\<not> running s"
  shows "comedi_event dev i = Some ([], dev)"
  using assms by (simp add: comedi_event_def running_def)

lemma event_flags_running: "running (event_flags e s) \<longleftrightarrow> running s \<and> \<not> event_ends e"
  using fails_ends[of e]
  by (auto simp: running_def event_flags_def runflags_AND SRF_defs)

lemma event_flags_error: "in_error (event_flags e s) \<longleftrightarrow> in_error s \<or> event_fails e"
  by (auto simp: in_error_def event_flags_def runflags_AND SRF_defs)

lemma event_flags_user:
  "comedi_get_subdevice_runflags (event_flags e s) AND SRF_USER = comedi_get_subdevice_runflags s AND SRF_USER"
  by (auto simp: event_flags_def runflags_AND SRF_defs)

lemma event_flags_frame [simp, frame_simps]:
  "sd_async (event_flags e s) = sd_async s" "sd_busy (event_flags e s) = sd_busy s"
  "sd_lock (event_flags e s) = sd_lock s" "sd_type (event_flags e s) = sd_type s"
  by (simp_all add: event_flags_def)

text \<open>
  C5. An event always returns. It stops a running subdevice exactly when the driver reported the end of
  the acquisition or an error, remembers an error for the next read, forgets the reported events, wakes
  up the readers exactly when an awaited event happened, and touches neither owner nor lock.
\<close>

theorem comedi_event_state:
  assumes "subd dev i = Some s" and "sd_async s = Some a"
  shows "\<exists>ns s' a'. comedi_event dev i = Some (ns, set_subd i s' dev) \<and> sd_async s' = Some a' \<and>
    (running s' \<longleftrightarrow> running s \<and> \<not> event_ends (events a)) \<and>
    (in_error s' \<longleftrightarrow> in_error s \<or> running s \<and> event_fails (events a)) \<and>
    a' = (if running s then a\<lparr>events := 0\<rparr> else a) \<and>
    (Wake_up i \<in> set ns \<longleftrightarrow> running s \<and> cb_mask a AND events a \<noteq> 0 \<and>
       comedi_get_subdevice_runflags s AND SRF_USER \<noteq> 0 \<and> \<not> dv_rt dev) \<and>
    sd_busy s' = sd_busy s \<and> sd_lock s' = sd_lock s"
proof (cases "running s")
  case True
  let ?s' = "event_flags (events a) s"
  have wake: "Wake_up i \<in> set (event_notices dev i ?s' a) \<longleftrightarrow> cb_mask a AND events a \<noteq> 0 \<and>
      comedi_get_subdevice_runflags s AND SRF_USER \<noteq> 0 \<and> \<not> dv_rt dev"
    by (auto simp: event_notices_def event_flags_user split: option.splits)
  have "running (?s'\<lparr>sd_async := Some (a\<lparr>events := 0\<rparr>)\<rparr>) \<longleftrightarrow> running ?s'"
    "in_error (?s'\<lparr>sd_async := Some (a\<lparr>events := 0\<rparr>)\<rparr>) \<longleftrightarrow> in_error ?s'"
    by (simp_all add: running_def in_error_def)
  then show ?thesis
    using True wake comedi_event_running[OF assms True]
    by (intro exI[of _ "event_notices dev i ?s' a"] exI[of _ "?s'\<lparr>sd_async := Some (a\<lparr>events := 0\<rparr>)\<rparr>"]
        exI[of _ "a\<lparr>events := 0\<rparr>"]) (simp add: event_flags_running event_flags_error)
next
  case False
  then show ?thesis using assms comedi_event_idle[OF assms(1) False]
    by (intro exI[of _ "[]"] exI[of _ s] exI[of _ a]) simp
qed

theorem comedi_event_state_witness:
  "\<exists>ns s' a'. comedi_event (fresh_dev [(fresh_subd 8)\<lparr>sd_runflags := SRF_RUNNING\<rparr>]) 0 =
      Some (ns, set_subd 0 s' (fresh_dev [(fresh_subd 8)\<lparr>sd_runflags := SRF_RUNNING\<rparr>])) \<and>
    sd_async s' = Some a' \<and> running s'"
  using comedi_event_state[OF subd_fresh_dev, of "(fresh_subd 8)\<lparr>sd_runflags := SRF_RUNNING\<rparr>" "fresh_async 8"]
  by (auto simp: fresh_subd_def fresh_async_def running_def comedi_get_subdevice_runflags_def event_ends_def)

section \<open>Idle subdevices\<close>

definition chanlist_freeable :: "'p comedi_subdevice \<Rightarrow> bool" where
  "chanlist_freeable s \<longleftrightarrow> (case sd_async s of None \<Rightarrow> True | Some a \<Rightarrow> \<forall>p. chanlist (cmd a) \<noteq> User_ptr p)"

definition idle :: "'p comedi_subdevice \<Rightarrow> bool" where
  "idle s \<longleftrightarrow> \<not> running s \<and> sd_busy s = None \<and>
     (case sd_async s of None \<Rightarrow> True | Some a \<Rightarrow>
        buf_write_count a = 0 \<and> buf_write_alloc_count a = 0 \<and> buf_read_count a = 0 \<and>
        buf_read_alloc_count a = 0 \<and> munge_count a = 0 \<and> buf_write_ptr a = 0 \<and> buf_read_ptr a = 0 \<and>
        munge_ptr a = 0 \<and> events a = 0 \<and> inttrig a = None \<and> chanlist (cmd a) = Null_ptr)"

lemma become_nonbusy_idle:
  assumes "chanlist_freeable s"
  obtains s' where "do_become_nonbusy s = Some s'" and "idle s'" and "sd_lock s' = sd_lock s"
    and "in_error s' = in_error s" and "sd_type s' = sd_type s" and "chanlist_freeable s'"
    and "map_option (\<lambda>a. (prealloc_buf a, prealloc_bufsz a, mmap_count a)) (sd_async s') =
      map_option (\<lambda>a. (prealloc_buf a, prealloc_bufsz a, mmap_count a)) (sd_async s)"
proof (cases "sd_async s")
  case None
  show thesis
    by (rule that[of "(comedi_set_subdevice_runflags s SRF_RUNNING 0)\<lparr>sd_busy := None\<rparr>"])
      (simp_all add: None do_become_nonbusy_def Let_def idle_def running_def in_error_def runflags_AND
        chanlist_freeable_def SRF_defs)
next
  case (Some a)
  then have free: "kfree_chanlist (chanlist (cmd a)) = Some ()"
    using assms by (auto simp: chanlist_freeable_def kfree_chanlist_def split: chan_ptr.splits)
  have cmd: "cmd (comedi_reset_async_buf a) = cmd a" by (simp add: comedi_reset_async_buf_def)
  let ?a = "((comedi_reset_async_buf a)\<lparr>inttrig := None\<rparr>)\<lparr>cmd := (cmd a)\<lparr>chanlist := Null_ptr\<rparr>\<rparr>"
  show thesis
    by (rule that[of "(comedi_set_subdevice_runflags s SRF_RUNNING 0)\<lparr>sd_async := Some ?a, sd_busy := None\<rparr>"])
      (simp_all add: Some do_become_nonbusy_def Let_def idle_def running_def in_error_def runflags_AND
        chanlist_freeable_def SRF_defs free cmd comedi_reset_async_buf_def)
qed

section \<open>Locks\<close>

text \<open>
  C6. A lock excludes everybody else and gives itself back: once a file has locked a subdevice, no
  other file can lock or unlock it, and unlocking restores the device as it was.
\<close>

theorem lock_excludes:
  assumes "do_lock_ioctl dev arg f = Some (0, dev')" and "g \<noteq> f"
  shows "do_lock_ioctl dev' arg g = Some (- EBUSY, dev') \<and>
    do_unlock_ioctl dev' arg g = Some (- EACCES, dev') \<and> do_unlock_ioctl dev' arg f = Some (0, dev)"
proof -
  obtain s where s: "subd dev (unat arg) = Some s" "sd_busy s = None" "sd_lock s = None"
    and d: "\<not> dv_n_subdevices dev \<le> arg" "dev' = set_subd (unat arg) (s\<lparr>sd_lock := Some f\<rparr>) dev"
    using assms(1) by (auto simp: do_lock_ioctl_def bind_eq_Some_conv split: if_splits)
  have unlocked: "s\<lparr>sd_lock := None\<rparr> = s" using s(3) by simp
  show ?thesis
    using s d assms(2) unlocked by (simp add: do_lock_ioctl_def do_unlock_ioctl_def)
qed

theorem lock_excludes_witness:
  "\<exists>dev'. do_lock_ioctl (fresh_dev [fresh_subd 8]) 0 (Owner_file 1) = Some (0, dev') \<and>
    do_lock_ioctl dev' 0 (Owner_file 2) = Some (- EBUSY, dev')"
proof -
  have l: "do_lock_ioctl (fresh_dev [fresh_subd 8]) 0 (Owner_file 1) =
      Some (0, set_subd 0 ((fresh_subd 8)\<lparr>sd_lock := Some (Owner_file 1)\<rparr>) (fresh_dev [fresh_subd 8]))"
    by (simp add: do_lock_ioctl_def fresh_subd_def fresh_dev_def subd_def)
  have g: "Owner_file 2 \<noteq> Owner_file 1" by simp
  show ?thesis by (intro exI conjI, rule l, rule conjunct1[OF lock_excludes[OF l g]])
qed

end
