(* ===== verification/Command_Flow.thy ===== *)
theory Command_Flow
  imports Commands Command_Test Subdevice_Properties
begin

text \<open>
  What the core and a driver that keeps the contract of command tests do together: the command that
  starts is the user's, unchanged, and a command that does not start leaves the subdevice idle.
\<close>

unbundle bit_operations_syntax

section \<open>The driver's side\<close>

text \<open>
  The callbacks of a streaming subdevice: its test is a function of the command alone, and starting
  leaves the channel list of the subdevice in the kernel's hands.
\<close>

locale command_driver = command_test test
  for test :: "comedi_cmd \<Rightarrow> int \<times> comedi_cmd" +
  fixes ops :: "('p, 'h) driver_ops" and test_fn :: fnptr and start_fn :: fnptr
  assumes op_test: "op_do_cmdtest ops test_fn dev i c = Some (fst (test c), dev, snd (test c))"
    and op_start: "op_do_cmd ops start_fn dev i = Some (r, dev') \<Longrightarrow> subd dev i = Some s \<Longrightarrow>
      chanlist_freeable s \<Longrightarrow> \<exists>s'. subd dev' i = Some s' \<and> chanlist_freeable s'"

section \<open>The core's side\<close>

definition kernel_cmd :: "comedi_cmd \<Rightarrow> u32 list \<Rightarrow> comedi_cmd" where
  "kernel_cmd c chans = c\<lparr>cmd_data := 0, chanlist := Kern_ptr chans\<rparr>"

text \<open>The subdevice as the driver's \<open>do_cmd\<close> finds it.\<close>

definition wake_mask :: "comedi_cmd \<Rightarrow> u32" where
  "wake_mask c = (COMEDI_CB_EOA OR COMEDI_CB_BLOCK OR COMEDI_CB_ERROR OR COMEDI_CB_OVERFLOW) OR
     (if cmd_flags c AND TRIG_WAKE_EOS \<noteq> 0 then COMEDI_CB_EOS else 0)"

definition armed :: "'p comedi_subdevice \<Rightarrow> comedi_async \<Rightarrow> comedi_cmd \<Rightarrow> owner \<Rightarrow> 'p comedi_subdevice" where
  "armed s a c fil =
     (comedi_set_subdevice_runflags
        (s\<lparr>sd_async := Some ((comedi_reset_async_buf (a\<lparr>cmd := c\<rparr>))\<lparr>cb_mask := wake_mask c\<rparr>)\<rparr>)
        (NOT 0) (SRF_USER OR SRF_RUNNING))\<lparr>sd_busy := Some fil\<rparr>"

lemma cmd_reset [simp]: "cmd (comedi_reset_async_buf a) = cmd a"
  by (simp add: comedi_reset_async_buf_def)

lemma prealloc_reset [simp]: "prealloc_bufsz (comedi_reset_async_buf a) = prealloc_bufsz a"
  by (simp add: comedi_reset_async_buf_def)

lemma check_chanlist_async [simp]: "check_chanlist (s\<lparr>sd_async := a\<rparr>) n chans = check_chanlist s n chans"
proof -
  have aref: "aref_invalid (s\<lparr>sd_async := a\<rparr>) = aref_invalid s" by (rule ext) (simp add: aref_invalid_def)
  have "bad_chanspec (s\<lparr>sd_async := a\<rparr>) = bad_chanspec s"
    unfolding bad_chanspec_def aref by simp
  moreover have "bad_chanspec_of_list (s\<lparr>sd_async := a\<rparr>) = bad_chanspec_of_list s"
    unfolding bad_chanspec_of_list_def aref by simp
  ultimately show ?thesis
    unfolding check_chanlist_def Let_def
    by (cases "sd_range_table s"; cases "sd_range_table_list s") simp_all
qed

lemma upd_async_Some:
  assumes "subd dev i = Some s" and "sd_async s = Some a"
  shows "upd_async i f dev = Some (set_subd i (s\<lparr>sd_async := Some (f a)\<rparr>) dev)"
  using assms by (simp add: upd_async_def)

lemma start_cmd_armed:
  assumes "subd dev i = Some s" and "sd_async s = Some a" and "prealloc_bufsz a \<noteq> 0" and "sd_do_cmd s = Some f"
  shows "start_cmd ops dev i fil =
    do {
      (ret, dev) \<leftarrow> op_do_cmd ops f (set_subd i (armed s a (cmd a) fil) dev) i;
      if ret = 0 then Some (0, None, dev) else cmd_cleanup ret None i dev
    }"
proof -
  have "a\<lparr>cmd := cmd a\<rparr> = a" by simp
  then show ?thesis
    using assms by (simp add: start_cmd_def armed_def wake_mask_def Let_def comedi_set_subdevice_runflags_def)
qed

lemma cmd_cleanup_idle:
  assumes "subd dev i = Some s" and "chanlist_freeable s" and "cmd_cleanup ret out i dev = Some (r, out', dev')"
  shows "r = ret \<and> out' = out \<and> (\<exists>s'. subd dev' i = Some s' \<and> idle s')"
proof -
  obtain s' where "do_become_nonbusy s = Some s'" and "idle s'"
    using become_nonbusy_idle[OF assms(2)] by metis
  then show ?thesis using assms(1,3) by (auto simp: cmd_cleanup_def)
qed

context command_driver
begin

lemma test_and_start_eq:
  assumes s: "subd dev i = Some s" "sd_async s = Some a"
    and f: "sd_do_cmdtest s = Some test_fn" "sd_do_cmd s = Some start_fn"
    and k: "k = kernel_cmd c chans"
  shows "test_and_start ops dev i c chans ok fil =
    do {
      n \<leftarrow> check_chanlist s (chanlist_len c) chans;
      if n < 0 then cmd_cleanup n None i (set_subd i (s\<lparr>sd_async := Some (a\<lparr>cmd := k\<rparr>)\<rparr>) dev)
      else
        let t = snd (test k); dev = set_subd i (s\<lparr>sd_async := Some (a\<lparr>cmd := t\<rparr>)\<rparr>) dev in
        if cmd_flags t AND TRIG_BOGUS \<noteq> 0 \<or> fst (test k) \<noteq> 0 then
          if ok then cmd_cleanup (- EAGAIN) (Some (t\<lparr>chanlist := chanlist c, cmd_data := 0\<rparr>)) i dev
          else cmd_cleanup (- EFAULT) None i dev
        else start_cmd ops dev i fil
    }"
proof -
  have sub: "subd (set_subd i (s\<lparr>sd_async := Some (a\<lparr>cmd := k\<rparr>)\<rparr>) dev) i = Some (s\<lparr>sd_async := Some (a\<lparr>cmd := k\<rparr>)\<rparr>)"
    for k by (rule subd_set_subd_same[OF s(1)])
  have as: "sd_async (s\<lparr>sd_async := Some (a\<lparr>cmd := k\<rparr>)\<rparr>) = Some (a\<lparr>cmd := k\<rparr>)"
    "sd_do_cmdtest (s\<lparr>sd_async := Some (a\<lparr>cmd := k\<rparr>)\<rparr>) = Some test_fn"
    "(s\<lparr>sd_async := Some (a\<lparr>cmd := k\<rparr>)\<rparr>)\<lparr>sd_async := Some ((a\<lparr>cmd := k\<rparr>)\<lparr>cmd := t\<rparr>)\<rparr> =
      s\<lparr>sd_async := Some (a\<lparr>cmd := t\<rparr>)\<rparr>" for k t using f by simp_all
  have len: "chanlist_len k = chanlist_len c" by (simp add: k kernel_cmd_def)
  show ?thesis
    unfolding test_and_start_def kernel_cmd_def[symmetric] k[symmetric] Let_def upd_async_Some[OF s]
      Option.bind.bind_lunit sub check_chanlist_async as len op_test case_prod_conv upd_async_Some[OF sub as(1)]
      set_subd_set_subd ..
qed

lemma test_and_start_cases:
  assumes s: "subd dev i = Some s" "sd_async s = Some a"
    and f: "sd_do_cmdtest s = Some test_fn" "sd_do_cmd s = Some start_fn"
    and r: "test_and_start ops dev i c chans ok fil = Some (ret, out, dev')"
  obtains
    (started) "ret = 0" "out = None" "fst (test (kernel_cmd c chans)) = 0" "prealloc_bufsz a \<noteq> 0"
      "\<exists>k. check_chanlist s (chanlist_len c) chans = Some k \<and> 0 \<le> k"
      "op_do_cmd ops start_fn (set_subd i (armed s a (kernel_cmd c chans) fil) dev) i = Some (0, dev')"
  | (refused) "ret \<noteq> 0" "\<exists>s'. subd dev' i = Some s' \<and> idle s'"
      "out = None \<or> out = Some ((snd (test (kernel_cmd c chans)))\<lparr>chanlist := chanlist c, cmd_data := 0\<rparr>)"
proof -
  let ?k = "kernel_cmd c chans"
  let ?s = "\<lambda>k. s\<lparr>sd_async := Some (a\<lparr>cmd := k\<rparr>)\<rparr>"
  let ?t = "snd (test ?k)"
  have fs: "subd (set_subd i (?s k) dev) i = Some (?s k)" for k
    by (rule subd_set_subd_same[OF s(1)])
  have free: "chanlist_freeable (?s ?k)" "chanlist_freeable (?s ?t)"
    using keeps_frame[of ?k] by (simp_all add: chanlist_freeable_def kernel_cmd_def same_frame_def)
  note step = r[unfolded test_and_start_eq[OF s f refl] Let_def]
  obtain k where k: "check_chanlist s (chanlist_len c) chans = Some k"
    using step by (cases "check_chanlist s (chanlist_len c) chans") simp_all
  show thesis
  proof (cases "k < 0")
    case True
    then have "cmd_cleanup k None i (set_subd i (?s ?k) dev) = Some (ret, out, dev')"
      using step k by simp
    from cmd_cleanup_idle[OF fs free(1) this] True show thesis by (intro refused) auto
  next
    case False
    show thesis
    proof (cases "cmd_flags ?t AND TRIG_BOGUS \<noteq> 0 \<or> fst (test ?k) \<noteq> 0")
      case True
      then have "cmd_cleanup (if ok then - EAGAIN else - EFAULT)
          (if ok then Some (?t\<lparr>chanlist := chanlist c, cmd_data := 0\<rparr>) else None) i
          (set_subd i (?s ?t) dev) = Some (ret, out, dev')"
        using step k False by (simp split: if_split_asm)
      from cmd_cleanup_idle[OF fs free(2) this] show thesis
        by (intro refused) (auto split: if_splits)
    next
      case go: False
      then have acc: "fst (test ?k) = 0" "?t = ?k" using accepted_unchanged by auto
      then have st: "start_cmd ops (set_subd i (?s ?k) dev) i fil = Some (ret, out, dev')"
        using step k False go by simp
      show thesis
      proof (cases "prealloc_bufsz a = 0")
        case True
        then have "cmd_cleanup (- ENOMEM) None i (set_subd i (?s ?k) dev) = Some (ret, out, dev')"
          using st fs[of ?k] by (simp add: start_cmd_def)
        from cmd_cleanup_idle[OF fs free(1) this] show thesis by (intro refused) auto
      next
        case buf: False
        have arm: "armed (?s ?k) (a\<lparr>cmd := ?k\<rparr>) (cmd (a\<lparr>cmd := ?k\<rparr>)) fil = armed s a ?k fil"
          by (simp add: armed_def comedi_set_subdevice_runflags_def)
        have "start_cmd ops (set_subd i (?s ?k) dev) i fil = do {
            (ret, d1) \<leftarrow> op_do_cmd ops start_fn (set_subd i (armed s a ?k fil) dev) i;
            if ret = 0 then Some (0, None, d1) else cmd_cleanup ret None i d1 }"
          using start_cmd_armed[OF fs, of ?k "a\<lparr>cmd := ?k\<rparr>" start_fn ops fil] buf f(2)
          unfolding arm set_subd_set_subd by simp
        then obtain r1 d1 where op: "op_do_cmd ops start_fn (set_subd i (armed s a ?k fil) dev) i = Some (r1, d1)"
          and fin: "(if r1 = 0 then Some (0, None, d1) else cmd_cleanup r1 None i d1) = Some (ret, out, dev')"
          using st by (cases "op_do_cmd ops start_fn (set_subd i (armed s a ?k fil) dev) i") auto
        have "chanlist_freeable (armed s a ?k fil)"
          by (simp add: chanlist_freeable_def armed_def kernel_cmd_def)
        then obtain s1 where s1: "subd d1 i = Some s1" "chanlist_freeable s1"
          using op_start[OF op] s by fastforce
        show thesis
        proof (cases "r1 = 0")
          case True
          then show thesis using started fin acc buf k False op by auto
        next
          case False
          then have "cmd_cleanup r1 None i d1 = Some (ret, out, dev')" using fin by simp
          from cmd_cleanup_idle[OF s1 this] False show thesis by (intro refused) auto
        qed
      qed
    qed
  qed
qed

lemma do_cmd_cases:
  assumes s: "subd dev (unat (cmd_subdev c)) = Some s" "sd_async s = Some a"
    and f: "sd_do_cmdtest s = Some test_fn" "sd_do_cmd s = Some start_fn"
    and r: "do_cmd_ioctl ops env dev (Some c) ok fil = Some (ret, out, dev')"
  obtains
    (started) chans where "ret = 0" "out = None" "cmd_refused dev s c fil = None"
      "read_chanlist env (chanlist c) (chanlist_len c) = Some chans"
      "fst (test (kernel_cmd c chans)) = 0" "prealloc_bufsz a \<noteq> 0"
      "\<exists>k. check_chanlist s (chanlist_len c) chans = Some k \<and> 0 \<le> k"
      "op_do_cmd ops start_fn
        (set_subd (unat (cmd_subdev c)) (armed s a (kernel_cmd c chans) fil) dev) (unat (cmd_subdev c)) = Some (0, dev')"
  | (untouched) "ret \<noteq> 0" "out = None" "dev' = dev"
  | (no_memory) "ret = - ENOMEM" "out = None" "ue_alloc env 0 (unat (chanlist_len c)) = None"
      "dev' = set_subd (unat (cmd_subdev c))
        (s\<lparr>sd_async := Some (a\<lparr>cmd := c\<lparr>cmd_data := 0, chanlist := Null_ptr\<rparr>\<rparr>)\<rparr>) dev"
  | (stopped) "ret \<noteq> 0" "\<exists>s'. subd dev' (unat (cmd_subdev c)) = Some s' \<and> idle s'"
      "out = None \<or> (\<exists>t. out = Some t \<and> chanlist t = chanlist c)"
proof -
  let ?i = "unat (cmd_subdev c)"
  show thesis
  proof (cases "dv_n_subdevices dev \<le> cmd_subdev c")
    case True
    then show thesis using r untouched by (simp add: do_cmd_ioctl_def)
  next
    case inside: False
    show thesis
    proof (cases "cmd_refused dev s c fil")
      case (Some err)
      then have "err \<noteq> 0" by (auto simp: cmd_refused_def split: if_splits)
      then show thesis using r untouched inside s Some by (simp add: do_cmd_ioctl_def)
    next
      case allowed: None
      show thesis
      proof (cases "ue_alloc env 0 (unat (chanlist_len c))")
        case None
        then show thesis
          using r no_memory inside s allowed by (simp add: do_cmd_ioctl_def upd_async_Some[OF s])
      next
        case alloc: (Some garbage)
        show thesis
        proof (cases "read_chanlist env (chanlist c) (chanlist_len c)")
          case None
          let ?s = "s\<lparr>sd_async := Some (a\<lparr>cmd := c\<lparr>cmd_data := 0, chanlist := Kern_ptr garbage\<rparr>\<rparr>)\<rparr>"
          have cleanup: "cmd_cleanup (- EFAULT) None ?i (set_subd ?i ?s dev) = Some (ret, out, dev')"
            using r inside s allowed alloc None by (simp add: do_cmd_ioctl_def Let_def upd_async_Some[OF s])
          have free: "chanlist_freeable ?s" by (simp add: chanlist_freeable_def)
          show thesis
            using cmd_cleanup_idle[OF subd_set_subd_same[OF s(1)] free cleanup] by (intro stopped) auto
        next
          case chans: (Some chans)
          have "test_and_start ops dev ?i c chans ok fil = Some (ret, out, dev')"
            using r inside s allowed alloc chans by (simp add: do_cmd_ioctl_def Let_def)
          then show thesis
          proof (cases rule: test_and_start_cases[OF s f, consumes 1, case_names run refused])
            case run
            then show thesis using started[OF _ _ allowed chans] by simp
          next
            case refused
            then show thesis by (intro stopped) auto
          qed
        qed
      qed
    qed
  qed
qed

end

end
