(* ===== verification/Waveform_Properties.thy ===== *)
theory Waveform_Properties
  imports Waveform_Command Command_Flow Example_State
begin

text \<open>
  What the simulated board guarantees: the commands its test accepts, and how the core and the driver
  together start and refuse them.
\<close>

unbundle bit_operations_syntax

section \<open>What the test accepts\<close>

lemma round_fixed: "1000 * ((m + 500) div 1000) = m \<longleftrightarrow> m mod 1000 = 0" for m :: int
proof
  assume "1000 * ((m + 500) div 1000) = m"
  then show "m mod 1000 = 0" by (metis mod_mult_self1_is_0)
next
  assume "m mod 1000 = 0"
  then obtain k where "m = 1000 * k" by (auto elim: dvdE)
  then show "1000 * ((m + 500) div 1000) = m" by (simp add: div_add1_eq)
qed

lemma thousands:
  fixes x :: int
  assumes "0 \<le> x"
  shows "0 \<le> 1000 * (x div 1000)" and "1000 * (x div 1000) \<le> x"
proof -
  have "x = 1000 * (x div 1000) + x mod 1000" by simp
  moreover have "0 \<le> x mod 1000" by simp
  ultimately show "1000 * (x div 1000) \<le> x" by linarith
  show "0 \<le> 1000 * (x div 1000)" using assms by (simp add: pos_imp_zdiv_nonneg_iff)
qed

lemma no_thousand: "2147483148 \<le> n \<Longrightarrow> n < 2147483648 \<Longrightarrow> n mod 1000 \<noteq> 0" for n :: nat
proof
  assume n: "2147483148 \<le> n" "n < 2147483648" and "n mod 1000 = 0"
  then obtain k where "n = 1000 * k" by (auto elim: dvdE)
  then have "2147483 < k" "k < 2147484" using n by linarith+
  then show False by linarith
qed

lemma round_usec_fixed: "round_usec x = x \<longleftrightarrow> unat x mod 1000 = 0 \<and> unat x < 2147483648"
proof -
  define n where "n = unat x"
  have n: "n < 4294967296" using unat_u32_less[of x] by (simp add: n_def)
  consider (low) "n + 500 < 2147483648" | (high) "2147483648 \<le> n + 500" "n + 500 < 4294967296"
    | (wrap) "4294967296 \<le> n + 500" by linarith
  then show ?thesis
  proof cases
    case low
    then have "unat (x + 500) = n + 500" by (simp add: unat_word_ariths n_def)
    then have s: "sint (x + 500) = int n + 500" using low by (simp add: sint_u32)
    let ?q = "(int n + 500) div 1000"
    have "sgn (int n + 500) = 1" by (simp add: sgn_if)
    then have d: "sint (x + 500) sdiv 1000 = ?q" unfolding s signed_divide_int_def by simp
    have q: "0 \<le> 1000 * ?q" "1000 * ?q \<le> int n + 500" by (rule thousands, simp)+
    then have "uint (round_usec x) = 1000 * ?q"
      unfolding round_usec_def d uint_word_of_int using low by (simp add: mod_pos_pos_trivial)
    then have "round_usec x = x \<longleftrightarrow> 1000 * ?q = int n" by (simp add: word_uint_eq_iff n_def)
    also have "\<dots> \<longleftrightarrow> int n mod 1000 = 0" by (rule round_fixed)
    also have "\<dots> \<longleftrightarrow> n mod 1000 = 0" by (metis of_nat_0_eq_iff of_nat_numeral zmod_int)
    finally show ?thesis using low by (auto simp: n_def)
  next
    case high
    then have "unat (x + 500) = n + 500" by (simp add: unat_word_ariths n_def)
    then have s: "sint (x + 500) = - (4294966796 - int n)" using high by (simp add: sint_u32)
    let ?q = "(4294966796 - int n) div 1000"
    have "0 < 4294966796 - int n" using high by simp
    then have d: "sint (x + 500) sdiv 1000 = - ?q" unfolding s signed_divide_int_def by simp
    have "uint (round_usec x) = (- (1000 * ?q)) mod 4294967296"
      unfolding round_usec_def d uint_word_of_int by simp
    moreover have q: "0 \<le> 1000 * ?q" "1000 * ?q \<le> 4294966796 - int n"
      using high by (intro thousands; simp)+
    then have "(- (1000 * ?q)) mod 4294967296 = (if 1000 * ?q = 0 then 0 else 4294967296 - 1000 * ?q)"
      by (simp only: zmod_zminus1_eq_if mod_pos_pos_trivial)
    ultimately have "uint (round_usec x) \<noteq> int n" using q high by auto
    then have "round_usec x \<noteq> x" by (auto simp: n_def)
    moreover have "\<not> (n mod 1000 = 0 \<and> n < 2147483648)" using no_thousand[of n] high by linarith
    ultimately show ?thesis by (simp add: n_def)
  next
    case wrap
    then have "unat (x + 500) = n + 500 - 4294967296" using n
      by (simp add: unat_word_ariths n_def[symmetric] le_mod_geq)
    then have s: "sint (x + 500) = int n + 500 - 4294967296" using n wrap by (simp add: sint_u32)
    have "sint (x + 500) sdiv 1000 = 0" unfolding s signed_divide_int_def using n wrap by simp
    then have "round_usec x = 0" by (simp add: round_usec_def)
    moreover have "x \<noteq> 0" using wrap by (auto simp: n_def)
    ultimately show ?thesis using wrap by (auto simp: n_def)
  qed
qed

lemma round_usec_eq: "x = round_usec x \<longleftrightarrow> unat x mod 1000 = 0 \<and> x < 0x80000000"
  using round_usec_fixed[of x] by (simp add: word_less_nat_alt eq_commute[of x])

lemma waveform_accepts: "fst (waveform_ai_cmdtest c) = 0 \<longleftrightarrow> (\<forall>t \<in> set waveform_stages. passes t c)"
  unfolding waveform_ai_cmdtest_def by (rule stages_accept[OF good_waveform])

text \<open>
  C27. The command test of the simulated board accepts exactly these commands: started at once, scans
  by the timer in whole microseconds from 1 us to below \<open>2 ^ 31\<close> ns, samples at once or by the timer in
  whole microseconds, fitting in the scan in 32-bit arithmetic, a scan of the length of the channel
  list, and stopped by a positive count or never. Slower scans are never accepted.
\<close>

theorem waveform_accepts_iff:
  "fst (waveform_ai_cmdtest c) = 0 \<longleftrightarrow>
     start_src c = TRIG_NOW \<and> start_arg c = 0 \<and> scan_begin_src c = TRIG_TIMER \<and>
     1000 \<le> scan_begin_arg c \<and> scan_begin_arg c < 0x80000000 \<and> unat (scan_begin_arg c) mod 1000 = 0 \<and>
     (convert_src c = TRIG_NOW \<and> convert_arg c = 0 \<or>
      convert_src c = TRIG_TIMER \<and> convert_arg c < 0x80000000 \<and> unat (convert_arg c) mod 1000 = 0 \<and>
      convert_arg c * chanlist_len c \<le> scan_begin_arg c) \<and>
     chanlist_len c \<noteq> 0 \<and> scan_end_src c = TRIG_COUNT \<and> scan_end_arg c = chanlist_len c \<and>
     (stop_src c = TRIG_COUNT \<and> stop_arg c \<noteq> 0 \<or> stop_src c = TRIG_NONE \<and> stop_arg c = 0)"
  unfolding waveform_accepts by (auto simp: waveform_stages_def accept_simps round_usec_eq)

section \<open>Starting a command\<close>

lemma waveform_ai_cmd_frame:
  assumes "waveform_ai_cmd dev i = Some (r, dev')"
  shows "subd dev' j = subd dev j" and "dv_read_subdev dev' = dv_read_subdev dev"
    and "map_option wp_usec_period (dv_private dev') = map_option wp_usec_period (dv_private dev)"
  using assms
  by (auto simp: waveform_ai_cmd_def Let_def bind_eq_Some_conv subd_def set_timer_def split: if_splits)

interpretation wave: command_driver waveform_ai_cmdtest waveform_ops waveform_ai_cmdtest_fn waveform_ai_cmd_fn
proof
  show "op_do_cmdtest waveform_ops waveform_ai_cmdtest_fn dev i c =
      Some (fst (waveform_ai_cmdtest c), dev, snd (waveform_ai_cmdtest c))" for dev i c
    by (simp add: waveform_ops_def split_beta)
  show "\<exists>s'. subd dev' i = Some s' \<and> chanlist_freeable s'"
    if "op_do_cmd waveform_ops waveform_ai_cmd_fn dev i = Some (r, dev')" "subd dev i = Some s" "chanlist_freeable s"
    for dev i r dev' s
    using that waveform_ai_cmd_frame(1)[of dev i r dev' i] by (simp add: waveform_ops_def)
qed

text \<open>The simulated board's input subdevice, as its attach routine sets it up.\<close>

definition wave_input :: "wave_device \<Rightarrow> nat \<Rightarrow> wave_subdevice \<Rightarrow> comedi_async \<Rightarrow> bool" where
  "wave_input dev i s a \<longleftrightarrow> subd dev i = Some s \<and> sd_async s = Some a \<and>
     sd_do_cmdtest s = Some waveform_ai_cmdtest_fn \<and> sd_do_cmd s = Some waveform_ai_cmd_fn"

lemma armed_fields [simp]:
  "sd_async (armed s a c f) = Some ((comedi_reset_async_buf (a\<lparr>cmd := c\<rparr>))\<lparr>cb_mask := wake_mask c\<rparr>)"
  "sd_busy (armed s a c f) = Some f"
  by (simp_all add: armed_def comedi_set_subdevice_runflags_def)

lemma running_armed [simp]: "running (armed s a c f)"
  by (simp add: armed_def running_def comedi_set_subdevice_runflags_def comedi_get_subdevice_runflags_def SRF_defs)

lemma waveform_started:
  assumes "wave_input dev (unat (cmd_subdev c)) s a"
    and "do_cmd_ioctl waveform_ops env dev (Some c) ok fil = Some (0, out, dev')"
  obtains chans n p where "read_chanlist env (chanlist c) (chanlist_len c) = Some chans"
    and "check_chanlist s (chanlist_len c) chans = Some n" and "0 \<le> n" and "cmd_refused dev s c fil = None"
    and "subd dev' (unat (cmd_subdev c)) = Some (armed s a (kernel_cmd c chans) fil)"
    and "dv_read_subdev dev' = dv_read_subdev dev"
    and "dv_private dev' = Some p" and "wp_timer_running p" and "wh_timer (dv_hw dev')"
    and "wp_scan_period p = scan_begin_arg c div 1000" and "wp_scan_period p \<noteq> 0"
    and "Some (wp_usec_period p) = map_option wp_usec_period (dv_private dev)"
proof -
  let ?i = "unat (cmd_subdev c)"
  have in1: "subd dev ?i = Some s" "sd_async s = Some a" "sd_do_cmdtest s = Some waveform_ai_cmdtest_fn"
    "sd_do_cmd s = Some waveform_ai_cmd_fn" using assms(1) by (simp_all add: wave_input_def)
  obtain chans n where chans: "read_chanlist env (chanlist c) (chanlist_len c) = Some chans"
    and acc: "fst (waveform_ai_cmdtest (kernel_cmd c chans)) = 0" and ref: "cmd_refused dev s c fil = None"
    and n: "check_chanlist s (chanlist_len c) chans = Some n" "0 \<le> n"
    and op: "op_do_cmd waveform_ops waveform_ai_cmd_fn (set_subd ?i (armed s a (kernel_cmd c chans) fil) dev) ?i =
      Some (0, dev')"
  proof (cases rule: wave.do_cmd_cases[OF in1 assms(2), case_names started untouched no_memory stopped])
    case (started chans)
    then show thesis using that by auto
  qed simp_all
  let ?s = "armed s a (kernel_cmd c chans) fil"
  let ?d = "set_subd ?i ?s dev"
  have go: "waveform_ai_cmd ?d ?i = Some (0, dev')" using op by (simp add: waveform_ops_def)
  have s': "subd ?d ?i = Some ?s" by (rule subd_set_subd_same[OF in1(1)])
  then have sub: "subd dev' ?i = Some ?s" using waveform_ai_cmd_frame(1)[OF go] by simp
  have "1000 \<le> scan_begin_arg c" using acc unfolding waveform_accepts
    by (auto simp: waveform_stages_def accept_simps kernel_cmd_def)
  then have pos: "scan_begin_arg c div 1000 \<noteq> 0" by (simp add: word_le_nat_alt unat_div word_unat_eq_iff)
  obtain p where p: "dv_private dev' = Some p" "wp_timer_running p" "wh_timer (dv_hw dev')"
      "wp_scan_period p = scan_begin_arg c div 1000"
    using go s' by (auto simp: waveform_ai_cmd_def Let_def bind_eq_Some_conv set_timer_def kernel_cmd_def split: if_splits)
  show thesis
    by (rule that[OF chans n ref sub _ p]) (use waveform_ai_cmd_frame(2,3)[OF go] p pos in simp_all)
qed

text \<open>
  C28. A CMD ioctl that succeeds on the simulated board has started the user's command, unchanged but for
  the channel list, which is the kernel's copy: the caller owns the running subdevice, and the timer
  runs with the scan period of the command, which is not 0.
\<close>

theorem waveform_cmd_starts:
  assumes "wave_input dev (unat (cmd_subdev c)) s a"
    and "do_cmd_ioctl waveform_ops env dev (Some c) ok fil = Some (0, out, dev')"
  shows "\<exists>chans s' a' p. read_chanlist env (chanlist c) (chanlist_len c) = Some chans \<and>
    wave_input dev' (unat (cmd_subdev c)) s' a' \<and> running s' \<and> sd_busy s' = Some fil \<and>
    cmd a' = c\<lparr>cmd_data := 0, chanlist := Kern_ptr chans\<rparr> \<and> buf_write_count a' = 0 \<and> buf_read_count a' = 0 \<and>
    dv_private dev' = Some p \<and> wp_timer_running p \<and> wh_timer (dv_hw dev') \<and>
    wp_scan_period p = scan_begin_arg c div 1000 \<and> wp_scan_period p \<noteq> 0"
proof -
  obtain chans n p where chans: "read_chanlist env (chanlist c) (chanlist_len c) = Some chans"
    and sub: "subd dev' (unat (cmd_subdev c)) = Some (armed s a (kernel_cmd c chans) fil)"
    and p: "dv_private dev' = Some p" "wp_timer_running p" "wh_timer (dv_hw dev')"
      "wp_scan_period p = scan_begin_arg c div 1000" "wp_scan_period p \<noteq> 0"
    using assms by (rule waveform_started)
  let ?s = "armed s a (kernel_cmd c chans) fil"
  have "wave_input dev' (unat (cmd_subdev c)) ?s ((comedi_reset_async_buf (a\<lparr>cmd := kernel_cmd c chans\<rparr>))
      \<lparr>cb_mask := wake_mask (kernel_cmd c chans)\<rparr>)"
    using sub assms(1) by (simp add: wave_input_def armed_def comedi_set_subdevice_runflags_def)
  then show ?thesis
    using chans p by (intro exI[of _ chans] exI[of _ ?s] exI)
      (auto simp: kernel_cmd_def comedi_reset_async_buf_def)
qed

text \<open>
  C29. A CMD ioctl that fails on the simulated board leaves the device as it was or the subdevice idle,
  with its buffer counters at 0, nobody's and stopped; out of memory for the channel list, it leaves
  its state and owner as they were. A corrected command goes back with the user's own channel list
  pointer, never the kernel's.
\<close>

theorem waveform_cmd_fails:
  assumes "wave_input dev (unat (cmd_subdev c)) s a"
    and "do_cmd_ioctl waveform_ops env dev (Some c) ok fil = Some (ret, out, dev')" and "ret \<noteq> 0"
  shows "(dev' = dev \<or> (\<exists>s'. subd dev' (unat (cmd_subdev c)) = Some s' \<and>
      (idle s' \<or> ret = - ENOMEM \<and> sd_runflags s' = sd_runflags s \<and> sd_busy s' = sd_busy s))) \<and>
    (\<forall>t. out = Some t \<longrightarrow> chanlist t = chanlist c)"
proof -
  have in1: "subd dev (unat (cmd_subdev c)) = Some s" "sd_async s = Some a"
    "sd_do_cmdtest s = Some waveform_ai_cmdtest_fn" "sd_do_cmd s = Some waveform_ai_cmd_fn"
    using assms(1) by (simp_all add: wave_input_def)
  show ?thesis
  proof (cases rule: wave.do_cmd_cases[OF in1 assms(2), case_names started untouched no_memory stopped])
    case (started chans)
    then show ?thesis using assms(3) by simp
  next
    case untouched
    then show ?thesis by simp
  next
    case no_memory
    then show ?thesis using in1(1) by simp
  next
    case stopped
    then show ?thesis by auto
  qed
qed

section \<open>An example\<close>

definition wave_subd :: wave_subdevice where
  "wave_subd = (waveform_ai_subd (waveform_boards ! 0) zero_subd)\<lparr>sd_async := Some (fresh_async 4096)\<rparr>"

definition wave_dev :: wave_device where
  "wave_dev = \<lparr>dv_use_count = 1, dv_driver = None,
     dv_private = Some (zero_private\<lparr>wp_uvolt_amplitude := 1000000, wp_usec_period := 100000\<rparr>),
     dv_class_dev = False, dv_minor = 0, dv_hw_dev = None, dv_board_name = Some ''comedi_test'',
     dv_board_ptr = Some 0, dv_attached = True, dv_rt = False, dv_in_request_module = False,
     dv_n_subdevices = 1, dv_subdevices = [wave_subd], dv_iobase = 0, dv_irq = 0,
     dv_read_subdev = Some 0, dv_write_subdev = None, dv_open = None, dv_close = None,
     dv_hw = \<lparr>wh_now = (1, 0), wh_timer = False, wh_private_ok = True, wh_subdevices_ok = True\<rparr>\<rparr>"

definition wave_cmd :: comedi_cmd where
  "wave_cmd = \<lparr>cmd_subdev = 0, cmd_flags = 0, start_src = TRIG_NOW, start_arg = 0, scan_begin_src = TRIG_TIMER,
     scan_begin_arg = 1000000, convert_src = TRIG_NOW, convert_arg = 0, scan_end_src = TRIG_COUNT,
     scan_end_arg = 1, stop_src = TRIG_COUNT, stop_arg = 10, chanlist = User_ptr 4096, chanlist_len = 1,
     cmd_data = 0, cmd_data_len = 0\<rparr>"

definition wave_env :: user_env where
  "wave_env = \<lparr>ue_read = (\<lambda>_ _ n. Some (replicate n 0)), ue_write = (\<lambda>_ _ _. True), ue_alloc = (\<lambda>_ n. Some (replicate n 0))\<rparr>"

lemma wave_input_example: "wave_input wave_dev (unat (cmd_subdev wave_cmd)) wave_subd (fresh_async 4096)"
  by (simp add: wave_input_def wave_dev_def wave_cmd_def subd_def wave_subd_def waveform_ai_subd_def)

lemma wave_cmd_accepted: "fst (waveform_ai_cmdtest (kernel_cmd wave_cmd chans)) = 0"
  unfolding waveform_accepts
  by (simp add: waveform_stages_def accept_simps round_usec_eq kernel_cmd_def wave_cmd_def)

lemma wave_cmd_runs:
  "\<exists>dev'. do_cmd_ioctl waveform_ops wave_env wave_dev (Some wave_cmd) True (Owner_file 1) = Some (0, None, dev')"
proof -
  have i: "subd wave_dev 0 = Some wave_subd" "sd_async wave_subd = Some (fresh_async 4096)"
    "sd_do_cmdtest wave_subd = Some waveform_ai_cmdtest_fn" "sd_do_cmd wave_subd = Some waveform_ai_cmd_fn"
    using wave_input_example by (simp_all add: wave_input_def wave_cmd_def)
  have chans: "read_chanlist wave_env (chanlist wave_cmd) (chanlist_len wave_cmd) = Some [0]"
    by (simp add: read_chanlist_def wave_env_def wave_cmd_def user_chan_addr_def)
  have ref: "cmd_refused wave_dev wave_subd wave_cmd (Owner_file 1) = None"
    by (simp add: cmd_refused_def wave_subd_def wave_cmd_def waveform_ai_subd_def waveform_boards_def zero_subd_def
        word_less_nat_alt)
  have chk: "check_chanlist wave_subd 1 [0] = Some 0"
    by (simp add: check_chanlist_def wave_subd_def waveform_ai_subd_def zero_subd_def bad_chanspec_def
        waveform_ai_ranges_def CR_CHAN_def CR_RANGE_def aref_invalid_def CR_AREF_def waveform_boards_def)
  have "\<exists>dev'. test_and_start waveform_ops wave_dev 0 wave_cmd [0] True (Owner_file 1) = Some (0, None, dev')"
  proof -
    let ?k = "kernel_cmd wave_cmd [0]"
    let ?a = "(fresh_async 4096)\<lparr>cmd := ?k\<rparr>"
    let ?s = "wave_subd\<lparr>sd_async := Some ?a\<rparr>"
    have len: "chanlist_len wave_cmd = 1" and flags: "cmd_flags ?k = 0" by (simp_all add: wave_cmd_def kernel_cmd_def)
    have acc: "snd (waveform_ai_cmdtest ?k) = ?k"
      by (rule waveform.accepted_unchanged[OF wave_cmd_accepted])
    have st: "test_and_start waveform_ops wave_dev 0 wave_cmd [0] True (Owner_file 1) =
        start_cmd waveform_ops (set_subd 0 ?s wave_dev) 0 (Owner_file 1)"
      unfolding wave.test_and_start_eq[OF i refl] len chk
      by (simp add: acc flags wave_cmd_accepted)
    have s: "subd (set_subd 0 ?s wave_dev) 0 = Some ?s" "sd_async ?s = Some ?a" "prealloc_bufsz ?a \<noteq> 0"
      "sd_do_cmd ?s = Some waveform_ai_cmd_fn"
      using i by (simp_all add: fresh_async_def)
    have conv: "convert_src ?k = TRIG_NOW" by (simp add: kernel_cmd_def wave_cmd_def)
    obtain d where "waveform_ai_cmd (set_subd 0 (armed ?s ?a ?k (Owner_file 1)) (set_subd 0 ?s wave_dev)) 0 = Some (0, d)"
      using i(1) by (auto simp: waveform_ai_cmd_def wave_dev_def flags conv umod64_def Let_def subd_def set_subd_def)
    then show ?thesis unfolding st start_cmd_armed[OF s] by (auto simp: waveform_ops_def)
  qed
  then show ?thesis
    using i chans ref by (simp add: do_cmd_ioctl_def wave_cmd_def wave_dev_def wave_env_def Let_def)
qed

theorem waveform_cmd_starts_witness:
  "\<exists>dev' chans s' a' p. do_cmd_ioctl waveform_ops wave_env wave_dev (Some wave_cmd) True (Owner_file 1) =
      Some (0, None, dev') \<and> wave_input dev' 0 s' a' \<and> running s' \<and> dv_private dev' = Some p \<and> wp_scan_period p = 1000"
proof -
  obtain dev' where r: "do_cmd_ioctl waveform_ops wave_env wave_dev (Some wave_cmd) True (Owner_file 1) = Some (0, None, dev')"
    using wave_cmd_runs by blast
  have "unat (cmd_subdev wave_cmd) = 0" "scan_begin_arg wave_cmd div 1000 = 1000" by (simp_all add: wave_cmd_def)
  then show ?thesis using waveform_cmd_starts[OF wave_input_example r] r by auto
qed

theorem waveform_cmd_fails_witness:
  "\<exists>dev'. do_cmd_ioctl waveform_ops wave_env wave_dev (Some (wave_cmd\<lparr>chanlist_len := 0\<rparr>)) True (Owner_file 1) =
      Some (- EINVAL, None, dev') \<and>
    (dev' = wave_dev \<or> (\<exists>s'. subd dev' 0 = Some s' \<and> idle s'))"
proof -
  let ?c = "wave_cmd\<lparr>chanlist_len := 0\<rparr>"
  have i: "unat (cmd_subdev ?c) = 0" by (simp add: wave_cmd_def)
  have inp: "wave_input wave_dev (unat (cmd_subdev ?c)) wave_subd (fresh_async 4096)"
    using wave_input_example by (simp add: wave_cmd_def)
  have r: "do_cmd_ioctl waveform_ops wave_env wave_dev (Some ?c) True (Owner_file 1) = Some (- EINVAL, None, wave_dev)"
    using wave_input_example
    by (simp add: do_cmd_ioctl_def Let_def wave_input_def cmd_refused_def wave_cmd_def wave_dev_def wave_subd_def
        waveform_ai_subd_def zero_subd_def)
  show ?thesis using waveform_cmd_fails[OF inp r] r i by auto
qed

end
