(* ===== verification/Waveform_Interrupt.thy ===== *)
theory Waveform_Interrupt
  imports Waveform_Properties Stream_Channel Range_Info
begin

text \<open>
  The timer interrupt of the simulated board: after a CMD that succeeded it returns at every tick,
  whatever the clock shows, only adds to the stream, and keeps the invariant of the running command.
\<close>

unbundle bit_operations_syntax

section \<open>A board that can be interrupted\<close>

text \<open>The stream of the board is not munged.\<close>

abbreviation wave_mc :: "wave_subdevice \<Rightarrow> munge_ctx" where
  "wave_mc s \<equiv> \<lparr>mc_munge = None, mc_sample_bytes = bytes_per_sample s\<rparr>"

definition wave_range_ok :: "u32 \<Rightarrow> bool" where
  "wave_range_ok c \<longleftrightarrow> CR_RANGE c < 2"

definition scan_ready :: "wave_subdevice \<Rightarrow> bool" where
  "scan_ready s \<longleftrightarrow> fc_idle (wave_mc s) s \<and> sd_range_table s = Some waveform_ai_ranges \<and>
     (\<exists>a chans. sd_async s = Some a \<and> chanlist (cmd a) = Kern_ptr chans \<and>
       length chans = unat (chanlist_len (cmd a)) \<and> (\<forall>c \<in> set chans. wave_range_ok c))"

definition timing_ready :: "waveform_private \<Rightarrow> bool" where
  "timing_ready p \<longleftrightarrow> wp_scan_period p \<noteq> 0 \<and> (ucast (wp_usec_period p) :: u32) \<noteq> 0"

definition tick_ready :: "wave_device \<Rightarrow> bool" where
  "tick_ready dev \<longleftrightarrow> (\<exists>i s p. dv_read_subdev dev = Some i \<and> subd dev i = Some s \<and> dv_private dev = Some p \<and>
     scan_ready s \<and> timing_ready p)"

lemma krange_of_ok:
  assumes "sd_range_table s = Some waveform_ai_ranges" and "r < 2"
  obtains k where "krange_of s r = Some k" and "kr_max k - kr_min k \<noteq> 0"
proof -
  have "r = 0 \<or> r = 1" using assms(2) by (auto simp: word_less_nat_alt word_unat_eq_iff)
  then show thesis
    using assms(1) that by (auto simp: krange_of_def waveform_ai_ranges_def)
qed

lemma period_nonzero: "timing_ready p \<Longrightarrow> wp_usec_period p \<noteq> 0"
  by (auto simp: timing_ready_def)

lemma fake_waveform_returns:
  assumes "sd_range_table s = Some waveform_ai_ranges" and "r < 2" and "timing_ready p"
  shows "\<exists>x. fake_waveform s p ch r t = Some x"
proof -
  obtain k where "krange_of s r = Some k" "kr_max k - kr_min k \<noteq> 0" using assms(1,2) by (rule krange_of_ok)
  then show ?thesis
    using assms(3) period_nonzero[OF assms(3)]
    by (auto simp: fake_waveform_def fake_sawtooth_def fake_squarewave_def do_div_def umod64_def Let_def timing_ready_def)
qed

text \<open>What a step of the interrupt may do to the subdevice: only its stream changes, by appending.\<close>

definition stream_grows :: "wave_subdevice \<Rightarrow> wave_subdevice \<Rightarrow> bool" where
  "stream_grows s s' \<longleftrightarrow> (\<exists>x. s' = s\<lparr>sd_async := x\<rparr>) \<and>
     map_option cmd (sd_async s') = map_option cmd (sd_async s) \<and> (\<exists>xs. fc_queued s' = fc_queued s @ xs)"

lemma stream_grows_refl [simp]: "stream_grows s s"
  unfolding stream_grows_def by (intro conjI exI[of _ "sd_async s"] exI[of _ "[]"]) simp_all

lemma stream_grows_trans: "stream_grows s t \<Longrightarrow> stream_grows t u \<Longrightarrow> stream_grows s u"
  by (auto simp: stream_grows_def)

lemma bytes_per_sample_async [simp]: "bytes_per_sample (s\<lparr>sd_async := x\<rparr>) = bytes_per_sample s"
  by (simp add: bytes_per_sample_def)

lemma scan_ready_step:
  assumes "scan_ready s" and "stream_grows s s'" and "fc_idle (wave_mc s) s'"
  shows "scan_ready s'"
proof -
  obtain x where "s' = s\<lparr>sd_async := x\<rparr>" using assms(2) by (auto simp: stream_grows_def)
  then show ?thesis using assms by (auto simp: scan_ready_def stream_grows_def)
qed

section \<open>A tick\<close>

lemma bytes_of_sampl_short: "length (bytes_of_sampl x) = 2"
  by (simp add: bytes_of_sampl_def)

lemma write_sample:
  assumes "fc_idle mc s"
  obtains n s' where "cfc_write_to_buffer mc s x = Some (n, s')" and "fc_idle mc s'" and "stream_grows s s'"
proof -
  have "length (bytes_of_sampl x) < 2147483648" by (simp add: bytes_of_sampl_short)
  from fc_idle_put[OF assms this] obtain n s' where "fc_put mc (bytes_of_sampl x) s = Some (n, s')"
    "fc_idle mc s'" "stream_grows s s'" by (auto simp: stream_grows_def)
  then show thesis using that by (auto simp: fc_put_def cfc_write_to_buffer_def bytes_of_sampl_short)
qed

lemma write_scan_returns:
  assumes "fc_idle mc s" and "sd_range_table s = Some waveform_ai_ranges" and "\<forall>c \<in> set cs. wave_range_ok c"
    and "timing_ready p"
  shows "\<exists>s'. write_scan mc p t j cs s = Some s' \<and> fc_idle mc s' \<and> stream_grows s s'"
  using assms(1-3)
proof (induction cs arbitrary: j s)
  case Nil
  then show ?case by simp
next
  case (Cons c cs)
  have "CR_RANGE c < 2" using Cons.prems(3) by (simp add: wave_range_ok_def)
  then obtain x where x: "fake_waveform s p (CR_CHAN c) (CR_RANGE c) (t + ucast (of_nat j * wp_convert_period p :: u32)) = Some x"
    using fake_waveform_returns[OF Cons.prems(2) _ assms(4)] by blast
  obtain n s1 where w: "cfc_write_to_buffer mc s x = Some (n, s1)" and s1: "fc_idle mc s1" "stream_grows s s1"
    using Cons.prems(1) by (rule write_sample)
  have "sd_range_table s1 = Some waveform_ai_ranges" using s1(2) Cons.prems(2) by (auto simp: stream_grows_def)
  then obtain s' where "write_scan mc p t (Suc j) cs s1 = Some s'" "fc_idle mc s'" "stream_grows s1 s'"
    using Cons.IH[OF s1(1)] Cons.prems(3) by auto
  then show ?case using x w s1 by (auto intro: stream_grows_trans)
qed

lemma timing_ready_count [simp]: "timing_ready (p\<lparr>wp_ai_count := n\<rparr>) = timing_ready p"
  by (simp add: timing_ready_def)

lemma stream_grows_events:
  "sd_async s = Some a \<Longrightarrow> stream_grows s (s\<lparr>sd_async := Some (a\<lparr>events := e\<rparr>)\<rparr>)"
  by (auto simp: stream_grows_def fc_queued_def on_async_def)

lemma fc_idle_events:
  assumes "sd_async s = Some a"
  shows "fc_idle mc (s\<lparr>sd_async := Some (a\<lparr>events := e\<rparr>)\<rparr>) = fc_idle mc s"
  using assms cfc_bytes_per_scan_cmd[of "a\<lparr>events := e\<rparr>" a s]
  by (simp add: fc_idle_def on_async_def munging_def ring_ok_def buf_ok_def counters_ok_def positions_ok_def)

lemma write_scans_returns:
  assumes "scan_ready s" and "mc = wave_mc s" and "timing_ready p"
  shows "\<exists>p' s'. write_scans mc p i k s = Some (p', s') \<and> fc_idle mc s' \<and> stream_grows s s' \<and> timing_ready p' \<and>
    wp_usec_period p' = wp_usec_period p"
  using assms
proof (induction k arbitrary: i p s)
  case 0
  then show ?case by (simp add: scan_ready_def)
next
  case (Suc k)
  obtain a chans where a: "sd_async s = Some a" "chanlist (cmd a) = Kern_ptr chans"
    "length chans = unat (chanlist_len (cmd a))" "\<forall>c \<in> set chans. wave_range_ok c"
    and rt: "sd_range_table s = Some waveform_ai_ranges" and idle: "fc_idle mc s"
    using Suc.prems(1,2) by (auto simp: scan_ready_def)
  let ?t = "wp_usec_current p + ucast (of_nat i * wp_scan_period p :: u32)"
  obtain s1 where s1: "write_scan mc p ?t 0 chans s = Some s1" "fc_idle mc s1" "stream_grows s s1"
    using write_scan_returns[OF idle rt a(4) Suc.prems(3)] by metis
  obtain a1 where a1: "sd_async s1 = Some a1" using s1(3) a(1) by (auto simp: stream_grows_def)
  let ?p = "p\<lparr>wp_ai_count := wp_ai_count p + 1\<rparr>"
  have step: "write_scans mc p i (Suc k) s =
      (if stop_src (cmd a1) = TRIG_COUNT \<and> ucast (stop_arg (cmd a1)) \<le> wp_ai_count ?p
       then Some (?p, s1\<lparr>sd_async := Some (a1\<lparr>events := events a1 OR COMEDI_CB_EOA\<rparr>)\<rparr>)
       else write_scans mc ?p (Suc i) k s1)"
    using a a1 s1(1) by (simp add: Let_def)
  show ?case
  proof (cases "stop_src (cmd a1) = TRIG_COUNT \<and> ucast (stop_arg (cmd a1)) \<le> wp_ai_count ?p")
    case True
    then show ?thesis
      unfolding step using s1 a1 Suc.prems(3) fc_idle_events[OF a1] stream_grows_events[OF a1]
      by (auto intro: stream_grows_trans)
  next
    case False
    obtain x where x: "s1 = s\<lparr>sd_async := x\<rparr>" using s1(3) by (auto simp: stream_grows_def)
    have r1: "scan_ready s1" using scan_ready_step[OF Suc.prems(1) s1(3)] s1(2) Suc.prems(2) by simp
    have m1: "mc = wave_mc s1" using Suc.prems(2) x by simp
    have t1: "timing_ready ?p" using Suc.prems(3) by simp
    from Suc.IH[OF r1 m1 t1, of "Suc i"] s1(3) show ?thesis
      unfolding step using False by (auto intro: stream_grows_trans)
  qed
qed

lemma tick_ready_event:
  assumes "tick_ready dev" and "dv_read_subdev dev = Some i" and "subd dev i = Some s" and "sd_async s = Some a"
  obtains ns s' where "comedi_event dev i = Some (ns, set_subd i s' dev)" and "tick_ready (set_subd i s' dev)"
    and "fc_queued s' = fc_queued s"
proof -
  have rd: "scan_ready s" using assms(1-3) by (auto simp: tick_ready_def)
  show thesis
  proof (cases "running s")
    case True
    let ?s = "event_flags (events a) s"
    let ?s' = "?s\<lparr>sd_async := Some (a\<lparr>events := 0\<rparr>)\<rparr>"
    have fl: "\<exists>r. ?s = s\<lparr>sd_runflags := r\<rparr>"
      by (auto simp: event_flags_def comedi_set_subdevice_runflags_def intro: exI[of _ "sd_runflags s"])
    then obtain r where r: "?s = s\<lparr>sd_runflags := r\<rparr>" by blast
    have q: "fc_queued ?s' = fc_queued s" using assms(4) by (simp add: fc_queued_def on_async_def)
    have "cfc_bytes_per_scan ?s a = cfc_bytes_per_scan s a" "bytes_per_sample ?s = bytes_per_sample s"
      unfolding r by (cases "sd_type s"; simp add: cfc_bytes_per_scan_def bytes_per_sample_def)+
    then have "fc_idle (wave_mc ?s) ?s"
      using rd assms(4) r by (simp add: scan_ready_def fc_idle_def on_async_def)
    then have "scan_ready ?s'"
      using rd assms(4) fc_idle_events[of ?s a "wave_mc ?s" 0] r by (simp add: scan_ready_def)
    then have "tick_ready (set_subd i ?s' dev)"
      using assms(1-3) by (auto simp: tick_ready_def)
    then show thesis using comedi_event_running[OF assms(3,4) True] that q by blast
  next
    case False
    then show thesis using comedi_event_idle[OF assms(3) False] assms that[of "[]" s] by simp
  qed
qed

text \<open>What the interrupt does on a board that is ready for it: the scans, the timer, the event.\<close>

lemma tick_unfold:
  assumes "tick_ready dev" and "dv_read_subdev dev = Some i" and "subd dev i = Some s" and "sd_async s = Some a"
    and "dv_private dev = Some p"
  obtains p0 p1 s1 a1 n cur where "timing_ready p0" and "wp_timer_running p0 = wp_timer_running p"
    and "write_scans (wave_mc s) p0 0 n (s\<lparr>sd_async := Some (a\<lparr>events := 0\<rparr>)\<rparr>) = Some (p1, s1)"
    and "scan_ready s1" and "stream_grows (s\<lparr>sd_async := Some (a\<lparr>events := 0\<rparr>)\<rparr>) s1"
    and "timing_ready p1" and "sd_async s1 = Some a1"
    and "waveform_ai_interrupt dev = comedi_event (set_timer (events a1 AND COMEDI_CB_EOA = 0 \<and> wp_timer_running p1)
      (set_subd i s1 (dev\<lparr>dv_private := Some (p1\<lparr>wp_usec_current := cur\<rparr>)\<rparr>))) i"
proof -
  have rd: "scan_ready s" and t: "timing_ready p"
    using assms by (auto simp: tick_ready_def)
  let ?e = "elapsed_usec (wh_now (dv_hw dev)) (wp_last p)"
  let ?total = "wp_usec_remainder p + ?e"
  let ?scans = "?total div ucast (wp_scan_period p)"
  let ?p = "p\<lparr>wp_last := wh_now (dv_hw dev), wp_usec_remainder := ?total mod ucast (wp_scan_period p)\<rparr>"
  let ?s = "s\<lparr>sd_async := Some (a\<lparr>events := 0\<rparr>)\<rparr>"
  have rd0: "scan_ready ?s" using rd assms(4) fc_idle_events[OF assms(4), of "wave_mc s" 0] by (simp add: scan_ready_def)
  have t0: "timing_ready ?p" using t by (simp add: timing_ready_def)
  have nz: "wp_scan_period p \<noteq> 0" using t by (simp add: timing_ready_def)
  then have nz64: "(ucast (wp_scan_period p) :: u64) \<noteq> 0"
    by (metis unat_u64_of_u32 unat_0 unat_eq_zero)
  have mc: "wave_mc s = wave_mc ?s" by simp
  obtain p1 s1 where w: "write_scans (wave_mc s) ?p 0 (unat (ucast ?scans :: u32)) ?s = Some (p1, s1)"
    and s1: "fc_idle (wave_mc s) s1" "stream_grows ?s s1" and p1: "timing_ready p1"
    using write_scans_returns[OF rd0 mc t0, of 0 "unat (ucast ?scans :: u32)"] by auto
  obtain a1 where a1: "sd_async s1 = Some a1" using s1(2) by (auto simp: stream_grows_def)
  have "wp_usec_period p1 \<noteq> 0" using p1 by (rule period_nonzero)
  then have cur: "umod64 (wp_usec_current p1 + ?e) (wp_usec_period p1) =
      Some ((wp_usec_current p1 + ?e) mod wp_usec_period p1)" by (simp add: umod64_def)
  have int: "waveform_ai_interrupt dev = comedi_event (set_timer (events a1 AND COMEDI_CB_EOA = 0 \<and> wp_timer_running p1)
      (set_subd i s1 (dev\<lparr>dv_private :=
        Some (p1\<lparr>wp_usec_current := (wp_usec_current p1 + ?e) mod wp_usec_period p1\<rparr>)\<rparr>))) i"
    using assms(2-5) w a1 cur nz nz64
    by (simp add: waveform_ai_interrupt_def Let_def do_div_def umod64_def)
  have "fc_idle (wave_mc ?s) s1" using s1(1) by simp
  from scan_ready_step[OF rd0 s1(2) this] show thesis
    by (intro that[OF t0 _ w _ s1(2) p1 a1 int]) simp_all
qed

text \<open>
  A tick at the time \<open>now\<close> on a board that is ready for it returns, leaves it ready, and the stream has
  grown at its end.
\<close>

lemma tick_returns:
  assumes "tick_ready dev" and "dv_read_subdev dev = Some i" and "subd dev i = Some s"
  shows "\<exists>ns dev' s'. waveform_ai_interrupt dev = Some (ns, dev') \<and> tick_ready dev' \<and>
    dv_read_subdev dev' = Some i \<and> subd dev' i = Some s' \<and> (\<exists>xs. fc_queued s' = fc_queued s @ xs)"
proof -
  obtain a p where a: "sd_async s = Some a" and p: "dv_private dev = Some p"
    using assms by (auto simp: tick_ready_def scan_ready_def)
  let ?s = "s\<lparr>sd_async := Some (a\<lparr>events := 0\<rparr>)\<rparr>"
  from assms a p obtain p1 s1 a1 cur where s1: "scan_ready s1" "stream_grows ?s s1" and p1: "timing_ready p1"
    and a1: "sd_async s1 = Some a1"
    and int: "waveform_ai_interrupt dev = comedi_event (set_timer (events a1 AND COMEDI_CB_EOA = 0 \<and> wp_timer_running p1)
      (set_subd i s1 (dev\<lparr>dv_private := Some (p1\<lparr>wp_usec_current := cur\<rparr>)\<rparr>))) i"
    by (rule tick_unfold)
  let ?d = "set_timer (events a1 AND COMEDI_CB_EOA = 0 \<and> wp_timer_running p1)
    (set_subd i s1 (dev\<lparr>dv_private := Some (p1\<lparr>wp_usec_current := cur\<rparr>)\<rparr>))"
  have d: "dv_read_subdev ?d = Some i" "subd ?d i = Some s1" "dv_private ?d = Some (p1\<lparr>wp_usec_current := cur\<rparr>)"
    using assms(2,3) by (simp_all add: set_timer_def subd_def set_subd_def load_nth_def split: if_splits)
  have "timing_ready (p1\<lparr>wp_usec_current := cur\<rparr>)" using p1 by (simp add: timing_ready_def)
  then have rdy: "tick_ready ?d" using d s1(1) by (auto simp: tick_ready_def)
  obtain ns s' where e: "comedi_event ?d i = Some (ns, set_subd i s' ?d)" "tick_ready (set_subd i s' ?d)"
    "fc_queued s' = fc_queued s1" using tick_ready_event[OF rdy d(1,2) a1] by blast
  have "fc_queued ?s = fc_queued s" using a by (simp add: fc_queued_def on_async_def)
  then have "\<exists>xs. fc_queued s' = fc_queued s @ xs" using e(3) s1(2) by (auto simp: stream_grows_def)
  then show ?thesis
    using e d unfolding int by (intro exI[of _ ns] exI[of _ "set_subd i s' ?d"] exI[of _ s']) simp
qed

section \<open>Every tick after a command\<close>

text \<open>The clock shows the given times at the successive ticks.\<close>

primrec waveform_ticks :: "(u64 \<times> u64) list \<Rightarrow> wave_device \<Rightarrow> (notice list \<times> wave_device) option" where
  "waveform_ticks [] dev = Some ([], dev)"
| "waveform_ticks (t # ts) dev =
     do {
       (ns, dev) \<leftarrow> waveform_ai_interrupt (dev\<lparr>dv_hw := (dv_hw dev)\<lparr>wh_now := t\<rparr>\<rparr>);
       (ns', dev) \<leftarrow> waveform_ticks ts dev;
       Some (ns @ ns', dev)
     }"

lemma tick_ready_clock [simp]: "tick_ready (dev\<lparr>dv_hw := h\<rparr>) = tick_ready dev"
  by (simp add: tick_ready_def subd_def)

lemma ticks_return:
  assumes "tick_ready dev" and "dv_read_subdev dev = Some i" and "subd dev i = Some s"
  shows "\<exists>ns dev' s'. waveform_ticks ts dev = Some (ns, dev') \<and> tick_ready dev' \<and> subd dev' i = Some s' \<and>
    (\<exists>xs. fc_queued s' = fc_queued s @ xs)"
  using assms
proof (induction ts arbitrary: dev s)
  case Nil
  then show ?case by simp
next
  case (Cons t ts)
  let ?d = "dev\<lparr>dv_hw := (dv_hw dev)\<lparr>wh_now := t\<rparr>\<rparr>"
  have d: "tick_ready ?d" "dv_read_subdev ?d = Some i" "subd ?d i = Some s"
    using Cons.prems by (simp_all add: subd_def)
  obtain ns dev1 s1 xs where 1: "waveform_ai_interrupt ?d = Some (ns, dev1)" "tick_ready dev1"
    "dv_read_subdev dev1 = Some i" "subd dev1 i = Some s1" "fc_queued s1 = fc_queued s @ xs"
    using tick_returns[OF d] by blast
  obtain ns' dev2 s2 ys where 2: "waveform_ticks ts dev1 = Some (ns', dev2)" "tick_ready dev2"
    "subd dev2 i = Some s2" "fc_queued s2 = fc_queued s1 @ ys"
    using Cons.IH[OF 1(2-4)] by blast
  then show ?case using 1 by simp
qed

text \<open>
  The input subdevice as the attach routine and the core's \<open>postconfig\<close> leave it: sixteen list entries,
  the board's two ranges, and a buffer.
\<close>

definition wave_configured :: "wave_device \<Rightarrow> nat \<Rightarrow> wave_subdevice \<Rightarrow> comedi_async \<Rightarrow> bool" where
  "wave_configured dev i s a \<longleftrightarrow> wave_input dev i s a \<and> dv_read_subdev dev = Some i \<and>
     sd_type s = COMEDI_SUBD_AI \<and> sd_n_chan s = 8 \<and> sd_len_chanlist s = 16 \<and>
     sd_range_table s = Some waveform_ai_ranges \<and> buf_ok a \<and>
     (\<exists>p. dv_private dev = Some p \<and> (ucast (wp_usec_period p) :: u32) \<noteq> 0)"

text \<open>\<open>copy_from_user\<close> delivers as many words as it is asked for.\<close>

definition copies :: "user_env \<Rightarrow> bool" where
  "copies env \<longleftrightarrow> (\<forall>k addr n xs. ue_read env k addr n = Some xs \<longrightarrow> length xs = n)"

lemma ring_ok_reset: "buf_ok a \<Longrightarrow> ring_ok ((comedi_reset_async_buf (a\<lparr>cmd := c\<rparr>))\<lparr>cb_mask := m\<rparr>)"
  by (simp add: ring_ok_def buf_ok_def counters_ok_def positions_ok_def comedi_reset_async_buf_def rd_def)

lemma ranges_checked:
  assumes "sd_range_table s = Some waveform_ai_ranges" and "sd_n_chan s = 8" and "chans \<noteq> []"
    and "unat n < 2147483648" and "length chans = unat n" and "check_chanlist s n chans = Some r" and "0 \<le> r"
  shows "\<forall>c \<in> set chans. wave_range_ok c"
proof -
  have "range_tables_ok s" using assms(1,2) by (simp add: range_tables_ok_def)
  then have "\<forall>c \<in> set chans. chanspec_ok s c"
    using check_chanlist_spec[of s n chans] assms(3-7) by (auto split: if_splits)
  then show ?thesis
    using assms(1) by (auto simp: chanspec_ok_def wave_range_ok_def waveform_ai_ranges_def word_less_nat_alt)
qed

lemma armed_ready:
  assumes conf: "wave_configured dev i s a" and len: "chanlist_len c \<noteq> 0" "chanlist_len c \<le> 16"
    and chans: "length chans = unat (chanlist_len c)" "\<forall>x \<in> set chans. wave_range_ok x"
  shows "scan_ready (armed s a (kernel_cmd c chans) fil)"
proof -
  let ?s = "armed s a (kernel_cmd c chans) fil"
  let ?a = "(comedi_reset_async_buf (a\<lparr>cmd := kernel_cmd c chans\<rparr>))\<lparr>cb_mask := wake_mask (kernel_cmd c chans)\<rparr>"
  have a: "sd_async ?s = Some ?a" by simp
  have ty: "sd_type ?s = COMEDI_SUBD_AI" "sd_range_table ?s = Some waveform_ai_ranges"
    using conf by (simp_all add: wave_configured_def armed_def comedi_set_subdevice_runflags_def)
  have "bytes_per_sample ?s = 2 \<or> bytes_per_sample ?s = 4" by (auto simp: bytes_per_sample_def)
  moreover have "chanlist_len c * 2 \<noteq> 0" "chanlist_len c * 4 \<noteq> 0"
  proof -
    have n: "0 < unat (chanlist_len c)" "unat (chanlist_len c) \<le> 16"
      using len by (simp_all add: word_le_nat_alt unat_gt_0)
    then have "unat (chanlist_len c * 2) = unat (chanlist_len c) * 2" "unat (chanlist_len c * 4) = unat (chanlist_len c) * 4"
      by (simp_all add: unat_word_ariths)
    then show "chanlist_len c * 2 \<noteq> 0" "chanlist_len c * 4 \<noteq> 0" using n by auto
  qed
  ultimately have "cfc_bytes_per_scan ?s ?a \<noteq> 0"
    using ty by (auto simp: cfc_bytes_per_scan_def kernel_cmd_def)
  moreover have "ring_ok ?a" using conf by (intro ring_ok_reset) (simp add: wave_configured_def)
  ultimately have "fc_idle (wave_mc ?s) ?s"
    by (simp add: fc_idle_def on_async_def munging_def comedi_reset_async_buf_def)
  then show ?thesis using ty chans a by (simp add: scan_ready_def kernel_cmd_def)
qed

lemma configured_example: "wave_configured wave_dev 0 wave_subd (fresh_async 4096)"
  using wave_input_example
  by (simp add: wave_configured_def wave_dev_def wave_cmd_def wave_subd_def waveform_ai_subd_def
      waveform_boards_def zero_subd_def buf_ok_def fresh_async_def zero_private_def)

text \<open>
  C30. After a CMD ioctl that succeeded on the simulated board, its timer interrupt returns at every
  tick, whatever times the clock shows: it never divides by zero, never leaves the range table or the
  channel list, never runs into a BUG of the buffer. The stream only grows at its end.
\<close>

theorem waveform_ticks_return:
  assumes "wave_configured dev (unat (cmd_subdev c)) s a" and "copies env"
    and "do_cmd_ioctl waveform_ops env dev (Some c) ok fil = Some (0, out, dev')"
  shows "\<exists>s' ns dev'' s'' xs. subd dev' (unat (cmd_subdev c)) = Some s' \<and>
    waveform_ticks ts dev' = Some (ns, dev'') \<and> tick_ready dev'' \<and>
    subd dev'' (unat (cmd_subdev c)) = Some s'' \<and> fc_queued s'' = fc_queued s' @ xs"
proof -
  have inp: "wave_input dev (unat (cmd_subdev c)) s a" using assms(1) by (simp add: wave_configured_def)
  obtain chans n p where rd: "read_chanlist env (chanlist c) (chanlist_len c) = Some chans"
    and chk: "check_chanlist s (chanlist_len c) chans = Some n" "0 \<le> n" and ref: "cmd_refused dev s c fil = None"
    and s': "subd dev' (unat (cmd_subdev c)) = Some (armed s a (kernel_cmd c chans) fil)"
    and dv: "dv_read_subdev dev' = dv_read_subdev dev" "dv_private dev' = Some p" "wp_scan_period p \<noteq> 0"
      "Some (wp_usec_period p) = map_option wp_usec_period (dv_private dev)"
    using inp assms(3) by (rule waveform_started)
  have len: "chanlist_len c \<noteq> 0" "chanlist_len c \<le> 16"
    using ref assms(1) by (auto simp: cmd_refused_def wave_configured_def word_less_1 split: if_splits)
  have l: "length chans = unat (chanlist_len c)"
    using rd assms(2) by (auto simp: read_chanlist_def copies_def split: option.splits)
  moreover have un: "0 < unat (chanlist_len c)" "unat (chanlist_len c) \<le> 16"
    using len by (simp_all add: word_le_nat_alt unat_gt_0)
  ultimately have "chans \<noteq> []" by auto
  then have "\<forall>x \<in> set chans. wave_range_ok x"
    using ranges_checked[of s chans "chanlist_len c" n] assms(1) chk l un by (simp add: wave_configured_def)
  then have "scan_ready (armed s a (kernel_cmd c chans) fil)" by (rule armed_ready[OF assms(1) len l])
  moreover have "timing_ready p" using dv assms(1) by (auto simp: timing_ready_def wave_configured_def)
  moreover have "dv_read_subdev dev' = Some (unat (cmd_subdev c))" using dv assms(1) by (simp add: wave_configured_def)
  ultimately have "tick_ready dev'" using s' dv by (auto simp: tick_ready_def)
  from ticks_return[OF this \<open>dv_read_subdev dev' = Some (unat (cmd_subdev c))\<close> s'] s' show ?thesis by blast
qed

theorem waveform_ticks_return_witness:
  "\<exists>dev' ns dev''. do_cmd_ioctl waveform_ops wave_env wave_dev (Some wave_cmd) True (Owner_file 1) =
      Some (0, None, dev') \<and> waveform_ticks [(1, 500), (1, 2500), (2, 0)] dev' = Some (ns, dev'')"
proof -
  obtain dev' where r: "do_cmd_ioctl waveform_ops wave_env wave_dev (Some wave_cmd) True (Owner_file 1) = Some (0, None, dev')"
    using wave_cmd_runs by blast
  have conf: "wave_configured wave_dev (unat (cmd_subdev wave_cmd)) wave_subd (fresh_async 4096)"
    using configured_example by (simp add: wave_cmd_def)
  have "copies wave_env" by (simp add: copies_def wave_env_def)
  then show ?thesis using waveform_ticks_return[OF conf _ r] r by blast
qed

end
