(* ===== verification/Waveform_Overflow.thy ===== *)
theory Waveform_Overflow
  imports Waveform_Interrupt
begin

text \<open>
  What becomes of the timer of the simulated board when its stream overflows: the core stops the
  command, the driver does not notice, and a later cancel does not reach the driver any more.
\<close>

unbundle bit_operations_syntax

section \<open>Only the count of scans raises the end of acquisition\<close>

lemma memcpy_to_loop_events:
  assumes "memcpy_to_loop p d n a = Some a'"
  shows "events a' = events a"
  by (rule memcpy_to_loop.raw_induct[where P = "\<lambda>_ _ _ a a'. events a' = events a", OF _ assms])
    (auto simp: store_bytes_def Let_def bind_eq_Some_conv split: if_splits)

lemma write_free_events:
  "comedi_buf_write_free mc a n = Some (k, a') \<Longrightarrow> mc_munge mc = None \<Longrightarrow> events a' = events a"
  by (auto simp: comedi_buf_write_free_def comedi_buf_munge_def Let_def bind_eq_Some_conv split: if_splits)

lemma scan_progress_events:
  "increment_scan_progress s a n = Some a' \<Longrightarrow> events a' AND COMEDI_CB_EOA = events a AND COMEDI_CB_EOA"
  by (auto simp: increment_scan_progress_def Let_def bind_eq_Some_conv bit.conj_disj_distrib2 COMEDI_CB_defs
      split: if_splits)

definition eoa :: "wave_subdevice \<Rightarrow> bool" where
  "eoa s \<longleftrightarrow> (\<exists>a. sd_async s = Some a \<and> events a AND COMEDI_CB_EOA \<noteq> 0)"

lemma eoa_write:
  assumes w: "cfc_write_to_buffer mc s x = Some (n, s')" and none: "mc_munge mc = None"
  shows "eoa s' = eoa s"
proof -
  obtain a where a: "sd_async s = Some a"
    using w by (auto simp: cfc_write_to_buffer_def cfc_write_array_to_buffer_def bind_eq_Some_conv)
  obtain r a1 where al: "comedi_buf_write_alloc a 2 = (r, a1)" by fastforce
  have e1: "events a1 = events a" using al by (auto simp: comedi_buf_write_alloc_def Let_def)
  have or: "(events b OR COMEDI_CB_OVERFLOW) AND COMEDI_CB_EOA = events b AND COMEDI_CB_EOA"
    "(events b OR COMEDI_CB_BLOCK) AND COMEDI_CB_EOA = events b AND COMEDI_CB_EOA" for b
    by (simp_all add: bit.conj_disj_distrib2 COMEDI_CB_defs)
  show ?thesis
  proof (cases "r = 2")
    case False
    then show ?thesis using w a al or(1)[of a1] e1
      by (auto simp: cfc_write_to_buffer_def cfc_write_array_to_buffer_def eoa_def)
  next
    case True
    obtain a2 k a3 a4 where "comedi_buf_memcpy_to a1 0 (bytes_of_sampl x) 2 = Some a2"
      "comedi_buf_write_free mc a2 2 = Some (k, a3)" "increment_scan_progress s a3 2 = Some a4"
      "s' = s\<lparr>sd_async := Some (a4\<lparr>events := events a4 OR COMEDI_CB_BLOCK\<rparr>)\<rparr>"
      using w a al True
      by (auto simp: cfc_write_to_buffer_def cfc_write_array_to_buffer_def bind_eq_Some_conv)
    moreover from this have "events a2 = events a1"
      by (auto simp: comedi_buf_memcpy_to_def Let_def bind_eq_Some_conv split: if_splits dest: memcpy_to_loop_events)
    ultimately show ?thesis
      using write_free_events[of mc a2 2 k a3] none scan_progress_events[of s a3 2 a4] e1 a or(2)[of a4]
      by (simp add: eoa_def)
  qed
qed

lemma eoa_scan:
  "write_scan mc p t j cs s = Some s' \<Longrightarrow> mc_munge mc = None \<Longrightarrow> eoa s' = eoa s"
proof (induction cs arbitrary: j s)
  case (Cons c cs)
  then show ?case by (auto simp: bind_eq_Some_conv dest!: eoa_write)
qed simp

lemma eoa_scans:
  assumes "write_scans mc p i k s = Some (p', s')" and "mc_munge mc = None" and "scan_ready s" and "mc = wave_mc s"
    and "timing_ready p" and "sd_async s = Some a" and "stop_src (cmd a) \<noteq> TRIG_COUNT" and "\<not> eoa s"
  shows "\<not> eoa s' \<and> wp_timer_running p' = wp_timer_running p"
  using assms
proof (induction k arbitrary: i p s a)
  case (Suc k)
  obtain chans where c: "chanlist (cmd a) = Kern_ptr chans" "length chans = unat (chanlist_len (cmd a))"
    "\<forall>c \<in> set chans. wave_range_ok c" "sd_range_table s = Some waveform_ai_ranges" "fc_idle mc s"
    using Suc.prems(3,4,6) by (auto simp: scan_ready_def)
  let ?t = "wp_usec_current p + ucast (of_nat i * wp_scan_period p :: u32)"
  obtain s1 where s1: "write_scan mc p ?t 0 chans s = Some s1" "fc_idle mc s1" "stream_grows s s1"
    using write_scan_returns[OF c(5,4,3) Suc.prems(5)] by metis
  obtain a1 where a1: "sd_async s1 = Some a1" "cmd a1 = cmd a"
    using s1(3) Suc.prems(6) by (auto simp: stream_grows_def)
  obtain x where x: "s1 = s\<lparr>sd_async := x\<rparr>" using s1(3) by (auto simp: stream_grows_def)
  let ?p = "p\<lparr>wp_ai_count := wp_ai_count p + 1\<rparr>"
  have "write_scans mc ?p (Suc i) k s1 = Some (p', s')"
    using Suc.prems(1,6,7) a1 c s1(1) by (simp add: Let_def)
  moreover have "mc = wave_mc s1" using Suc.prems(4) x by simp
  moreover have "scan_ready s1" using scan_ready_step[OF Suc.prems(3) s1(3)] s1(2) Suc.prems(4) by simp
  moreover have "\<not> eoa s1" using eoa_scan[OF s1(1) Suc.prems(2)] Suc.prems(8) by simp
  ultimately show ?case using Suc.IH[of ?p "Suc i" s1 a1] Suc.prems(2,5,7) a1 by simp
qed simp

lemma event_keeps_hw:
  assumes "comedi_event dev i = Some (ns, dev')"
  shows "dv_hw dev' = dv_hw dev"
proof -
  obtain s where s: "subd dev i = Some s" using assms by (auto simp: comedi_event_def bind_eq_Some_conv)
  show ?thesis
  proof (cases "running s")
    case True
    obtain a where "sd_async s = Some a" using assms s True
      by (auto simp: comedi_event_def running_def bind_eq_Some_conv)
    then show ?thesis using assms comedi_event_running[OF s _ True] by auto
  next
    case False
    then show ?thesis using assms comedi_event_idle[OF s] by simp
  qed
qed

text \<open>
  A command without an end keeps the board's timer armed at every tick, whatever happens to the
  stream: also at the tick at which the stream overflows and the core stops the command.
\<close>

theorem overflow_keeps_timer:
  assumes "tick_ready dev" and "dv_read_subdev dev = Some i" and "subd dev i = Some s" and "sd_async s = Some a"
    and "stop_src (cmd a) \<noteq> TRIG_COUNT" and "dv_private dev = Some p" and "wp_timer_running p"
  shows "\<exists>ns dev'. waveform_ai_interrupt dev = Some (ns, dev') \<and> wh_timer (dv_hw dev')"
proof -
  have rd: "scan_ready s" using assms(1-3) by (auto simp: tick_ready_def)
  then have rd0: "scan_ready (s\<lparr>sd_async := Some (a\<lparr>events := 0\<rparr>)\<rparr>)"
    using assms(4) fc_idle_events[OF assms(4), of "wave_mc s" 0] by (simp add: scan_ready_def)
  from assms(1-4,6) obtain p0 p1 s1 a1 n cur where p0: "timing_ready p0" "wp_timer_running p0 = wp_timer_running p"
    and w: "write_scans (wave_mc s) p0 0 n (s\<lparr>sd_async := Some (a\<lparr>events := 0\<rparr>)\<rparr>) = Some (p1, s1)"
    and a1: "sd_async s1 = Some a1"
    and int: "waveform_ai_interrupt dev = comedi_event (set_timer (events a1 AND COMEDI_CB_EOA = 0 \<and> wp_timer_running p1)
      (set_subd i s1 (dev\<lparr>dv_private := Some (p1\<lparr>wp_usec_current := cur\<rparr>)\<rparr>))) i"
    by (rule tick_unfold)
  have "\<not> eoa (s\<lparr>sd_async := Some (a\<lparr>events := 0\<rparr>)\<rparr>)" by (simp add: eoa_def)
  then have go: "\<not> eoa s1 \<and> wp_timer_running p1 = wp_timer_running p0"
    by (intro eoa_scans[OF w _ rd0 _ p0(1), of "a\<lparr>events := 0\<rparr>"]) (simp_all add: assms(5))
  obtain ns dev' where r: "waveform_ai_interrupt dev = Some (ns, dev')" using tick_returns[OF assms(1-3)] by blast
  have "events a1 AND COMEDI_CB_EOA = 0" using go a1 by (simp add: eoa_def)
  then have "wh_timer (dv_hw dev')" using event_keeps_hw[OF trans[OF int[symmetric] r]] go p0(2) assms(7) by (simp add: set_timer_def)
  then show ?thesis using r by blast
qed

text \<open>
  C31. Cancelling a command that has already been stopped does not reach the driver: the timer stays as it
  is while the channel list is freed, and the next tick at which a scan is due reads it: no return.
\<close>

theorem cancel_after_stop_crashes:
  assumes "dv_read_subdev dev = Some i" and "subd dev i = Some s" and "\<not> running s" and "sd_async s = Some a"
    and "chanlist (cmd a) = Kern_ptr chans" and "chanlist_len (cmd a) \<noteq> 0"
    and "dv_private dev = Some p" and "wp_scan_period p \<noteq> 0"
    and "scans = (wp_usec_remainder p + elapsed_usec now (wp_last p)) div ucast (wp_scan_period p)"
    and "(ucast scans :: u32) \<noteq> 0"
  shows "\<exists>dev'. do_cancel waveform_ops dev i = Some (0, dev') \<and> dv_hw dev' = dv_hw dev \<and>
    waveform_ai_interrupt (dev'\<lparr>dv_hw := (dv_hw dev')\<lparr>wh_now := now\<rparr>\<rparr>) = None"
proof -
  let ?a = "(comedi_reset_async_buf a)\<lparr>inttrig := None, cmd := (cmd a)\<lparr>chanlist := Null_ptr\<rparr>\<rparr>"
  obtain s' where b: "do_become_nonbusy s = Some s'" "sd_async s' = Some ?a"
    using assms(4,5)
    by (auto simp: do_become_nonbusy_def Let_def kfree_chanlist_def comedi_set_subdevice_runflags_def
        comedi_reset_async_buf_def)
  let ?d = "set_subd i s' dev"
  have c: "do_cancel waveform_ops dev i = Some (0, ?d)"
    using assms(2,3) b(1) by (simp add: do_cancel_def running_def)
  have d: "subd ?d i = Some s'" by (rule subd_set_subd_same[OF assms(2)])
  have nz64: "(ucast (wp_scan_period p) :: u64) \<noteq> 0" using assms(8) by (metis unat_u64_of_u32 unat_0 unat_eq_zero)
  let ?a0 = "?a\<lparr>events := 0\<rparr>"
  obtain k where k: "unat (ucast scans :: u32) = Suc k" using assms(10) by (metis not0_implies_Suc unat_eq_zero)
  have "0 < unat (chanlist_len (cmd ?a0))" using assms(6) by (simp add: unat_gt_0)
  then have w: "write_scans mc q 0 (unat (ucast scans :: u32)) (s'\<lparr>sd_async := Some ?a0\<rparr>) = None" for mc q
    unfolding k by (simp add: Let_def)
  have div: "do_div (wp_usec_remainder p + elapsed_usec now (wp_last p)) (wp_scan_period p) = Some scans"
    "umod64 (wp_usec_remainder p + elapsed_usec now (wp_last p)) (ucast (wp_scan_period p)) =
      Some ((wp_usec_remainder p + elapsed_usec now (wp_last p)) mod ucast (wp_scan_period p))"
    using assms(8,9) nz64 by (simp_all add: do_div_def umod64_def)
  have tick: "waveform_ai_interrupt t = None"
    if "dv_read_subdev t = Some i" "subd t i = Some s'" "dv_private t = Some p" "wh_now (dv_hw t) = now" for t
    using w by (simp add: waveform_ai_interrupt_def Let_def that b(2) div)
  have "waveform_ai_interrupt (?d\<lparr>dv_hw := (dv_hw ?d)\<lparr>wh_now := now\<rparr>\<rparr>) = None"
    using assms(1,7) d by (intro tick) (simp_all add: subd_def)
  then show ?thesis using c by (intro exI[of _ ?d]) simp
qed

section \<open>Examples\<close>

definition endless_cmd :: comedi_cmd where
  "endless_cmd = kernel_cmd (wave_cmd\<lparr>stop_src := TRIG_NONE, stop_arg := 0\<rparr>) [0]"

definition ticking :: waveform_private where
  "ticking = zero_private\<lparr>wp_usec_period := 100000, wp_scan_period := 1000, wp_timer_running := True\<rparr>"

definition endless_subd :: wave_subdevice where
  "endless_subd = armed wave_subd (fresh_async 4096) endless_cmd (Owner_file 1)"

definition endless_dev :: wave_device where
  "endless_dev = set_subd 0 endless_subd (wave_dev\<lparr>dv_private := Some ticking\<rparr>)"

lemma endless_facts:
  "dv_read_subdev endless_dev = Some 0" "subd endless_dev 0 = Some endless_subd" "dv_private endless_dev = Some ticking"
  "sd_async endless_subd = Some ((comedi_reset_async_buf ((fresh_async 4096)\<lparr>cmd := endless_cmd\<rparr>))\<lparr>cb_mask := wake_mask endless_cmd\<rparr>)"
  by (simp_all add: endless_dev_def wave_dev_def endless_subd_def subd_def set_subd_def load_nth_def)

lemma endless_ready: "tick_ready endless_dev"
proof -
  have "scan_ready endless_subd"
    unfolding endless_subd_def endless_cmd_def
    by (rule armed_ready[OF configured_example]) (simp_all add: wave_cmd_def wave_range_ok_def CR_RANGE_def)
  moreover have "timing_ready ticking" by (simp add: timing_ready_def ticking_def)
  ultimately show ?thesis using endless_facts by (auto simp: tick_ready_def)
qed

theorem overflow_keeps_timer_witness:
  "\<exists>ns dev'. waveform_ai_interrupt endless_dev = Some (ns, dev') \<and> wh_timer (dv_hw dev')"
  by (rule overflow_keeps_timer[OF endless_ready endless_facts(1,2,4) _ endless_facts(3)])
    (simp_all add: comedi_reset_async_buf_def endless_cmd_def kernel_cmd_def ticking_def)

theorem cancel_after_stop_crashes_witness:
  "\<exists>dev'. do_cancel waveform_ops (set_subd 0 (endless_subd\<lparr>sd_runflags := SRF_ERROR\<rparr>) endless_dev) 0 = Some (0, dev') \<and>
    waveform_ai_interrupt (dev'\<lparr>dv_hw := (dv_hw dev')\<lparr>wh_now := (1, 0)\<rparr>\<rparr>) = None"
proof -
  let ?s = "endless_subd\<lparr>sd_runflags := SRF_ERROR\<rparr>"
  let ?d = "set_subd 0 ?s endless_dev"
  have d: "dv_read_subdev ?d = Some 0" "subd ?d 0 = Some ?s" "dv_private ?d = Some ticking"
    using endless_facts(1,2,3) by (simp_all add: set_subd_def subd_def load_nth_def split: if_splits)
  have stopped: "\<not> running ?s" by (simp add: running_def comedi_get_subdevice_runflags_def SRF_defs)
  have a: "sd_async ?s = sd_async endless_subd" by simp
  have "(ucast ((wp_usec_remainder ticking + elapsed_usec (1, 0) (wp_last ticking)) div ucast (wp_scan_period ticking)) :: u32) \<noteq> 0"
    by (simp add: ticking_def zero_private_def elapsed_usec_def)
  then have "\<exists>dev'. do_cancel waveform_ops ?d 0 = Some (0, dev') \<and> dv_hw dev' = dv_hw ?d \<and>
      waveform_ai_interrupt (dev'\<lparr>dv_hw := (dv_hw dev')\<lparr>wh_now := (1, 0)\<rparr>\<rparr>) = None"
    by (intro cancel_after_stop_crashes[OF d(1,2) stopped trans[OF a endless_facts(4)] _ _ d(3) _ refl])
      (simp_all add: comedi_reset_async_buf_def endless_cmd_def kernel_cmd_def wave_cmd_def ticking_def)
  then show ?thesis by blast
qed

end
