(* ===== verification/Timer_8253.thy ===== *)
theory Timer_8253
  imports Async_Buffer
begin

text \<open>
  The 8253/8254 counter chip (\<open>comedi/drivers/8253.h\<close>): the search for two cascaded 16-bit dividers
  whose product comes close to a period, in the 32-bit arithmetic of the code, and the programming of
  the chip, as the list of port writes.
\<close>

unbundle bit_operations_syntax

section \<open>The cascade search\<close>

text \<open>The best divider pairs found so far: the period and the two dividers, from below and from above.\<close>

record cascade =
  ns_glb :: u32
  div1_glb :: u32
  div2_glb :: u32
  ns_lub :: u32
  div1_lub :: u32
  div2_lub :: u32

definition MAX_COUNT :: u32 where "MAX_COUNT = 0x10000"

definition cascade_try :: "u32 \<Rightarrow> u32 \<Rightarrow> u32 \<Rightarrow> u32 \<Rightarrow> cascade \<Rightarrow> cascade" where
  "cascade_try osc nanosec div1 div2 c =
     (let ns = osc * div1 * div2;
          c = (if ns \<le> nanosec \<and> ns_glb c < ns
               then c\<lparr>ns_glb := ns, div1_glb := div1, div2_glb := div2\<rparr> else c)
      in if nanosec \<le> ns \<and> ns < ns_lub c
         then c\<lparr>ns_lub := ns, div1_lub := div1, div2_lub := div2\<rparr> else c)"

lemma u32_step:
  fixes x :: u32
  assumes "x \<le> MAX_COUNT"
  shows "unat (0x10000 - x) < unat (0x10001 - x :: u32)"
proof -
  have le: "unat x \<le> 65536" using assms by (simp add: MAX_COUNT_def word_le_nat_alt)
  have "unat (0x10000 - x) = 65536 - unat x"
    by (subst unat_sub_if') (use le in simp)
  moreover have "unat (0x10001 - x) = 65537 - unat x"
    by (subst unat_sub_if') (use le in simp)
  ultimately show ?thesis using le by simp
qed

function cascade_inner :: "u32 \<Rightarrow> u32 \<Rightarrow> u32 \<Rightarrow> u32 \<Rightarrow> u32 \<Rightarrow> cascade \<Rightarrow> cascade" where
  "cascade_inner osc nanosec divider div1 div2 c =
     (if div1 * div2 \<le> divider + div1 + 1 \<and> div2 \<le> MAX_COUNT
      then cascade_inner osc nanosec divider div1 (div2 + 1) (cascade_try osc nanosec div1 div2 c)
      else c)"
  by auto
termination
  by (relation "measure (\<lambda>(_, _, _, _, div2, _). unat (0x10001 - div2))") (auto intro: u32_step)

function cascade_outer :: "u32 \<Rightarrow> u32 \<Rightarrow> u32 \<Rightarrow> u32 \<Rightarrow> cascade \<Rightarrow> cascade" where
  "cascade_outer osc nanosec divider div1 c =
     (if div1 \<le> divider div div1 + 1 \<and> div1 \<le> MAX_COUNT
      then cascade_outer osc nanosec divider (div1 + 1)
             (cascade_inner osc nanosec divider div1 (divider div div1) c)
      else c)"
  by auto
termination
  by (relation "measure (\<lambda>(_, _, _, div1, _). unat (0x10001 - div1))") (auto intro: u32_step)

declare cascade_inner.simps [simp del] cascade_outer.simps [simp del]

definition cascade_search :: "u32 \<Rightarrow> u32 \<Rightarrow> cascade" where
  "cascade_search osc nanosec =
     (let divider = nanosec div osc;
          start = (if divider div MAX_COUNT < 2 then 2 else divider div MAX_COUNT)
      in cascade_outer osc nanosec divider start
           \<lparr>ns_glb = 0, div1_glb = 0, div2_glb = 0, ns_lub = 0xffffffff, div1_lub = 0, div2_lub = 0\<rparr>)"

text \<open>The choice between the pair from below and the pair from above.\<close>

definition cascade_choose :: "u32 \<Rightarrow> u32 \<Rightarrow> u32 \<Rightarrow> cascade \<Rightarrow> u32 \<times> u32" where
  "cascade_choose osc nanosec round_mode c =
     (let mode = round_mode AND TRIG_ROUND_MASK;
          ns_high = div1_lub c * div2_lub c * osc;
          ns_low = div1_glb c * div2_glb c * osc
      in if mode = TRIG_ROUND_UP then (div1_lub c, div2_lub c)
         else if mode = TRIG_ROUND_DOWN then (div1_glb c, div2_glb c)
         else if ns_high - nanosec < nanosec - ns_low then (div1_lub c, div2_lub c)
         else (div1_glb c, div2_glb c))"

definition or_max :: "u32 \<Rightarrow> u32" where "or_max d = (if d \<noteq> 0 then d else MAX_COUNT)"

text \<open>The early exit: the dividers already give the period, and nothing overflows.\<close>

definition cascade_exact :: "u32 \<Rightarrow> u32 \<Rightarrow> u32 \<Rightarrow> u32 \<Rightarrow> bool" where
  "cascade_exact osc d1 d2 nanosec \<longleftrightarrow>
     (let div1 = or_max d1; div2 = or_max d2; divider = div1 * div2 in
      div1 * div2 * osc = nanosec \<and> 1 < div1 \<and> div1 \<le> MAX_COUNT \<and> 1 < div2 \<and> div2 \<le> MAX_COUNT \<and>
      div1 < divider \<and> div2 < divider \<and> divider < divider * osc \<and> osc < divider * osc)"

definition i8253_cascade_ns_to_timer_2div ::
  "u32 \<Rightarrow> u32 \<Rightarrow> u32 \<Rightarrow> u32 \<Rightarrow> u32 \<Rightarrow> (u32 \<times> u32 \<times> u32) option" where
  "i8253_cascade_ns_to_timer_2div osc d1 d2 nanosec round_mode =
     (if cascade_exact osc d1 d2 nanosec then Some (d1, d2, nanosec)
      else if osc = 0 then None
      else
        case cascade_choose osc nanosec round_mode (cascade_search osc nanosec) of (div1, div2) \<Rightarrow>
        Some (div1 AND 0xffff, div2 AND 0xffff, div1 * div2 * osc))"

section \<open>Programming the chip\<close>

text \<open>
  The writes go to i/o ports or, in the \<open>mm\<close> variants, to memory-mapped registers; either way they are
  pairs of an address and a byte, in order. A read latches the counter and takes two bytes, which the
  environment supplies.
\<close>

type_synonym reg_write = "u64 \<times> u8"

definition reg_at :: "u64 \<Rightarrow> u32 \<Rightarrow> u32 \<Rightarrow> u64" where
  "reg_at base regshift reg = base + ucast (push_bit (unat regshift) reg)"

definition count_writes :: "u64 \<Rightarrow> u32 \<Rightarrow> u32 \<Rightarrow> u32 \<Rightarrow> reg_write list" where
  "count_writes base regshift counter cnt =
     [(reg_at base regshift counter, ucast (cnt AND 0xff)),
      (reg_at base regshift counter, ucast (drop_bit 8 cnt AND 0xff))]"

definition i8254_load :: "u64 \<Rightarrow> u32 \<Rightarrow> u32 \<Rightarrow> u32 \<Rightarrow> u32 \<Rightarrow> int \<times> reg_write list" where
  "i8254_load base regshift counter cnt mode =
     (if 2 < counter then (-1, [])
      else if 0xffff < cnt then (-1, [])
      else if 5 < mode then (-1, [])
      else if (mode = 2 \<or> mode = 3) \<and> cnt = 1 then (-1, [])
      else (0, (reg_at base regshift 3, ucast (push_bit 6 counter OR 0x30 OR push_bit 1 mode)) #
                count_writes base regshift counter cnt))"

definition i8254_read ::
  "u64 \<Rightarrow> u32 \<Rightarrow> u32 \<Rightarrow> u8 \<Rightarrow> u8 \<Rightarrow> int \<times> reg_write list" where
  "i8254_read base regshift counter lsb msb =
     (if 2 < counter then (-1, [])
      else (uint lsb + uint msb * 256, [(reg_at base regshift 3, ucast (push_bit 6 counter))]))"

definition i8254_write :: "u64 \<Rightarrow> u32 \<Rightarrow> u32 \<Rightarrow> u32 \<Rightarrow> reg_write list" where
  "i8254_write base regshift counter cnt =
     (if 2 < counter then [] else count_writes base regshift counter cnt)"

definition i8254_set_mode :: "u64 \<Rightarrow> u32 \<Rightarrow> u32 \<Rightarrow> u32 \<Rightarrow> int \<times> reg_write list" where
  "i8254_set_mode base regshift counter mode =
     (if 2 < counter then (-1, [])
      else if 11 < mode then (-1, [])
      else (0, [(reg_at base regshift 3, ucast (push_bit 6 counter OR 0x30 OR mode))]))"

definition i8254_status :: "u64 \<Rightarrow> u32 \<Rightarrow> u32 \<Rightarrow> u8 \<Rightarrow> int \<times> reg_write list" where
  "i8254_status base regshift counter status =
     (uint status, [(reg_at base regshift 3, ucast ((0xE0 :: u32) OR push_bit (unat counter) 2))])"

definition i8254_mm_load :: "u64 \<Rightarrow> u32 \<Rightarrow> u32 \<Rightarrow> u32 \<Rightarrow> u32 \<Rightarrow> int \<times> reg_write list" where
  "i8254_mm_load = i8254_load"

definition i8254_mm_read :: "u64 \<Rightarrow> u32 \<Rightarrow> u32 \<Rightarrow> u8 \<Rightarrow> u8 \<Rightarrow> int \<times> reg_write list" where
  "i8254_mm_read = i8254_read"

definition i8254_mm_write :: "u64 \<Rightarrow> u32 \<Rightarrow> u32 \<Rightarrow> u32 \<Rightarrow> reg_write list" where
  "i8254_mm_write = i8254_write"

definition i8254_mm_set_mode :: "u64 \<Rightarrow> u32 \<Rightarrow> u32 \<Rightarrow> u32 \<Rightarrow> int \<times> reg_write list" where
  "i8254_mm_set_mode = i8254_set_mode"

definition i8254_mm_status :: "u64 \<Rightarrow> u32 \<Rightarrow> u32 \<Rightarrow> u8 \<Rightarrow> int \<times> reg_write list" where
  "i8254_mm_status = i8254_status"

section \<open>What the search keeps\<close>

text \<open>The pair from below is never above the period, and the one from above never below it.\<close>

definition cascade_ok :: "u32 \<Rightarrow> u32 \<Rightarrow> cascade \<Rightarrow> bool" where
  "cascade_ok osc nanosec c \<longleftrightarrow>
     ns_glb c = osc * div1_glb c * div2_glb c \<and> ns_glb c \<le> nanosec \<and>
     div1_glb c \<le> MAX_COUNT \<and> div2_glb c \<le> MAX_COUNT \<and>
     (div1_glb c = 0 \<and> div2_glb c = 0 \<or> ns_glb c \<noteq> 0) \<and>
     div1_lub c \<le> MAX_COUNT \<and> div2_lub c \<le> MAX_COUNT \<and> nanosec \<le> ns_lub c \<and>
     (div1_lub c = 0 \<and> div2_lub c = 0 \<and> ns_lub c = 0xffffffff \<or>
      ns_lub c = osc * div1_lub c * div2_lub c \<and> ns_lub c < 0xffffffff)"

lemma cascade_ok_try:
  assumes "cascade_ok osc nanosec c" and "div1 \<le> MAX_COUNT" and "div2 \<le> MAX_COUNT"
  shows "cascade_ok osc nanosec (cascade_try osc nanosec div1 div2 c)"
proof -
  define ns where "ns = osc * div1 * div2"
  have "ns_glb c < ns \<Longrightarrow> ns \<noteq> 0" by auto
  moreover have "ns < ns_lub c \<Longrightarrow> ns < 0xffffffff" using assms(1) by (auto simp: cascade_ok_def)
  ultimately show ?thesis
    using assms unfolding cascade_ok_def cascade_try_def Let_def ns_def[symmetric]
    by (cases "ns \<le> nanosec \<and> ns_glb c < ns"; cases "nanosec \<le> ns \<and> ns < ns_lub c") (simp_all add: ns_def[symmetric])
qed

text \<open>What every candidate keeps, the loops keep.\<close>

lemma cascade_inner_keeps:
  assumes "\<And>div2 c. P c \<Longrightarrow> div2 \<le> MAX_COUNT \<Longrightarrow> P (cascade_try osc nanosec div1 div2 c)" and "P c"
  shows "P (cascade_inner osc nanosec divider div1 div2 c)"
  using assms
proof (induction osc nanosec divider div1 div2 c rule: cascade_inner.induct)
  case (1 osc nanosec divider div1 div2 c)
  show ?case
  proof (cases "div1 * div2 \<le> divider + div1 + 1 \<and> div2 \<le> MAX_COUNT")
    case True
    then have p: "P (cascade_try osc nanosec div1 div2 c)" by (intro "1.prems"(1)[OF "1.prems"(2)]) simp
    show ?thesis
      unfolding cascade_inner.simps[of osc nanosec divider div1 div2 c] if_P[OF True]
      by (rule "1.IH"[OF True _ p]) (rule "1.prems"(1))
  next
    case False
    show ?thesis
      unfolding cascade_inner.simps[of osc nanosec divider div1 div2 c] if_not_P[OF False] by (rule "1.prems"(2))
  qed
qed

lemma cascade_outer_keeps:
  assumes "\<And>div1 div2 c. P c \<Longrightarrow> div1 \<le> MAX_COUNT \<Longrightarrow> div2 \<le> MAX_COUNT \<Longrightarrow>
      P (cascade_try osc nanosec div1 div2 c)" and "P c"
  shows "P (cascade_outer osc nanosec divider div1 c)"
  using assms
proof (induction osc nanosec divider div1 c rule: cascade_outer.induct)
  case (1 osc nanosec divider div1 c)
  show ?case
  proof (cases "div1 \<le> divider div div1 + 1 \<and> div1 \<le> MAX_COUNT")
    case True
    then have d: "div1 \<le> MAX_COUNT" by simp
    have p: "P (cascade_inner osc nanosec divider div1 (divider div div1) c)"
      by (rule cascade_inner_keeps[OF "1.prems"(1)[OF _ d] "1.prems"(2)])
    show ?thesis
      unfolding cascade_outer.simps[of osc nanosec divider div1 c] if_P[OF True]
      by (rule "1.IH"[OF True _ p]) (rule "1.prems"(1))
  next
    case False
    show ?thesis
      unfolding cascade_outer.simps[of osc nanosec divider div1 c] if_not_P[OF False] by (rule "1.prems"(2))
  qed
qed

lemma cascade_ok_start:
  "cascade_ok osc nanosec
     \<lparr>ns_glb = 0, div1_glb = 0, div2_glb = 0, ns_lub = 0xffffffff, div1_lub = 0, div2_lub = 0\<rparr>"
  using unat_u32_less[of nanosec] by (simp add: cascade_ok_def MAX_COUNT_def word_le_nat_alt)

lemma cascade_ok_search: "cascade_ok osc nanosec (cascade_search osc nanosec)"
  unfolding cascade_search_def Let_def
  by (rule cascade_outer_keeps, rule cascade_ok_try) (rule cascade_ok_start | assumption)+

end
