(* ===== verification/Command_Rounding.thy ===== *)
theory Command_Rounding
  imports "HOL-Library.Signed_Division" Command_Test Timer_8253
begin

text \<open>
  What the command tests of the hardware drivers share beyond the pieces of \<open>Command_Test\<close>: the rounding of
  a period to a multiple of a clock, the cascaded counters of the 8254, the flags of a channel
  specification, and the checks of the channel list.
\<close>

unbundle bit_operations_syntax

section \<open>Flags of a channel specification\<close>

definition CR_FLAGS_MASK :: u32 where "CR_FLAGS_MASK = 0xfc000000"
definition CR_ALT_FILTER :: u32 where "CR_ALT_FILTER = 0x4000000"
definition CR_EDGE :: u32 where "CR_EDGE = 0x40000000"
definition CR_INVERT :: u32 where "CR_INVERT = 0x80000000"
definition AREF_DIFF :: u32 where "AREF_DIFF = 2"

text \<open>\<open>#define COMBINE(old, new, mask) (((old) & ~(mask)) | ((new) & (mask)))\<close>\<close>

definition combine :: "u32 \<Rightarrow> u32 \<Rightarrow> u32 \<Rightarrow> u32" where
  "combine old new m = (old AND NOT m) OR (new AND m)"

section \<open>Rounding to a multiple of a clock\<close>

text \<open>
  The \<open>ns_to_timer\<close> routines add a bias that depends on the rounding mode and divide by the period of the
  clock, in unsigned or in signed arithmetic, depending on the type of the pointer they are given.
\<close>

definition round_mode :: "comedi_cmd \<Rightarrow> u32" where
  "round_mode c = cmd_flags c AND TRIG_ROUND_MASK"

definition round_bias :: "u32 \<Rightarrow> u32 \<Rightarrow> u32" where
  "round_bias base mode =
     (if mode = TRIG_ROUND_DOWN then 0 else if mode = TRIG_ROUND_UP then base - 1 else base div 2)"

definition clock_count :: "u32 \<Rightarrow> u32 \<Rightarrow> u32 \<Rightarrow> u32" where
  "clock_count base mode ns = (ns + round_bias base mode) div base"

definition signed_clock_count :: "u32 \<Rightarrow> u32 \<Rightarrow> u32 \<Rightarrow> u32" where
  "signed_clock_count base mode ns = of_int (sint (ns + round_bias base mode) sdiv sint base)"

text \<open>
  The period that \<open>i8253_cascade_ns_to_timer_2div\<close> writes back, and the two dividers. The clock is never
  0 in these drivers, so the routine returns; 0 stands for the case that cannot happen.
\<close>

definition cascade_period :: "u32 \<Rightarrow> u32 \<times> u32 \<Rightarrow> u32 \<Rightarrow> u32 \<Rightarrow> u32" where
  "cascade_period osc d ns mode =
     (case i8253_cascade_ns_to_timer_2div osc (fst d) (snd d) ns mode of Some (_, _, p) \<Rightarrow> p | None \<Rightarrow> 0)"

definition cascade_dividers :: "u32 \<Rightarrow> u32 \<times> u32 \<Rightarrow> u32 \<Rightarrow> u32 \<Rightarrow> u32 \<times> u32" where
  "cascade_dividers osc d ns mode =
     (case i8253_cascade_ns_to_timer_2div osc (fst d) (snd d) ns mode of Some (d1, d2, _) \<Rightarrow> (d1, d2) | None \<Rightarrow> d)"

text \<open>\<open>tmp = cmd->x; f(&cmd->x); if (cmd->x < min) cmd->x = min; if (tmp != cmd->x) err++;\<close>\<close>

definition at_least :: "u32 \<Rightarrow> u32 \<Rightarrow> u32" where
  "at_least k x = (if x < k then k else x)"

text \<open>
  A test whose fourth stage also stores what it computed in the private data of the board: stages 1 to 3
  leave the command that reaches stage 4 unchanged.
\<close>

definition storing :: "(comedi_cmd \<Rightarrow> int \<times> comedi_cmd) \<Rightarrow> ('p \<Rightarrow> comedi_cmd \<Rightarrow> 'p) \<Rightarrow> 'p \<Rightarrow> comedi_cmd \<Rightarrow>
    (int \<times> comedi_cmd) \<times> 'p" where
  "storing test store p c = (test c, if fst (test c) \<in> {1, 2, 3} then p else store p c)"

section \<open>Pieces without an error count\<close>

text \<open>A correction that is not counted: the statement \<open>cmd = f(cmd);\<close>.\<close>

definition quietly :: "(comedi_cmd \<Rightarrow> comedi_cmd) \<Rightarrow> test_piece" where
  "quietly f c = (0, f c)"

text \<open>A group of statements that share a value computed at their start.\<close>

definition carrying :: "(comedi_cmd \<Rightarrow> 'a) \<Rightarrow> ('a \<Rightarrow> test_piece) \<Rightarrow> test_piece" where
  "carrying f t c = t (f c) c"

section \<open>Sources that are a single bit\<close>

text \<open>\<open>if ((cmd->x & (cmd->x - 1)) != 0) err++;\<close> for the five sources\<close>

definition several_bits :: "u32 \<Rightarrow> bool" where
  "several_bits x \<longleftrightarrow> x AND (x - 1) \<noteq> 0"

definition unique_sources :: test_piece where
  "unique_sources = pieces
     [reject_if (\<lambda>c. several_bits (start_src c)), reject_if (\<lambda>c. several_bits (scan_begin_src c)),
      reject_if (\<lambda>c. several_bits (convert_src c)), reject_if (\<lambda>c. several_bits (scan_end_src c)),
      reject_if (\<lambda>c. several_bits (stop_src c))]"

section \<open>Checks of the channel list\<close>

text \<open>
  \<open>if (cmd->chanlist) { ... }\<close>: the errors that \<open>f\<close> counts in the list. The core passes no list or its own
  copy, of \<open>chanlist_len\<close> entries.
\<close>

definition count_entries :: "(u32 list \<Rightarrow> nat) \<Rightarrow> test_piece" where
  "count_entries f c =
     (case chanlist c of Kern_ptr xs \<Rightarrow> (f (take (unat (chanlist_len c)) xs), c) | _ \<Rightarrow> (0, c))"

text \<open>The number of entries after the first that satisfy \<open>bad\<close>, which gets the index too.\<close>

definition count_bad :: "(nat \<Rightarrow> u32 \<Rightarrow> bool) \<Rightarrow> u32 list \<Rightarrow> nat" where
  "count_bad bad xs = length (filter (\<lambda>i. bad i (xs ! i)) [1..<length xs])"

text \<open>Consecutive channels, counting upwards from the first, modulo \<open>n\<close>; all of the same range.\<close>

definition not_consecutive :: "u32 \<Rightarrow> u32 list \<Rightarrow> nat" where
  "not_consecutive n xs = count_bad (\<lambda>i x. CR_CHAN x \<noteq> (CR_CHAN (hd xs) + of_nat i) mod n) xs"

definition mixed_ranges :: "u32 list \<Rightarrow> nat" where
  "mixed_ranges xs = count_bad (\<lambda>i x. CR_RANGE x \<noteq> CR_RANGE (hd xs)) xs"

text \<open>\<open>if (...) return 5;\<close> after the fourth stage, with a check of its own\<close>

definition refuse_list :: "(u32 list \<Rightarrow> bool) \<Rightarrow> test_piece" where
  "refuse_list bad = count_entries (\<lambda>xs. if bad xs then 1 else 0)"

text \<open>
  The \<open>check_channel_list\<close> of the PCL boards: a segment of acceptable successors up to the first repetition of
  the first entry, then whole or partial repetitions of the segment. The result is the length of the
  segment, 0 for a bad list. The segment is copied to an array on the stack that is large enough for the
  channels of the board.
\<close>

fun segment :: "(u32 \<Rightarrow> u32 \<Rightarrow> bool) \<Rightarrow> u32 \<Rightarrow> u32 \<Rightarrow> nat \<Rightarrow> u32 list \<Rightarrow> nat option" where
  "segment next_ok first prev seglen [] = Some seglen"
| "segment next_ok first prev seglen (x # xs) =
     (if first = x then Some seglen
      else if next_ok prev x then segment next_ok first x (Suc seglen) xs
      else None)"

definition segment_length :: "(u32 \<Rightarrow> u32 \<Rightarrow> bool) \<Rightarrow> u32 list \<Rightarrow> nat" where
  "segment_length next_ok xs =
     (case xs of
        [] \<Rightarrow> 0
      | first # rest \<Rightarrow>
          (case segment next_ok first first 1 rest of
             None \<Rightarrow> 0
           | Some seglen \<Rightarrow> if \<forall>i < length xs. xs ! i = xs ! (i mod seglen) then seglen else 0))"

section \<open>Lemmas\<close>

lemma good_carrying [good_intros]: "(\<And>x. good (t x)) \<Longrightarrow> good (carrying f t)"
  by (rule goodI) (simp_all add: carrying_def good_def honest_def tame_def)

lemma passes_carrying [passes_simps]: "passes (carrying f t) c \<longleftrightarrow> passes (t (f c)) c"
  by (simp add: passes_def carrying_def)

lemma good_count_entries [good_intros]: "good (count_entries f)"
  by (rule goodI) (auto simp: count_entries_def split: chan_ptr.splits)

lemma good_refuse_list [good_intros]: "good (refuse_list p)"
  by (simp add: refuse_list_def good_intros)

lemma good_unique_sources [good_intros]: "good unique_sources"
  by (simp add: unique_sources_def good_intros)

lemma passes_unique_sources [passes_simps]:
  "passes unique_sources c \<longleftrightarrow> \<not> several_bits (start_src c) \<and> \<not> several_bits (scan_begin_src c) \<and>
     \<not> several_bits (convert_src c) \<and> \<not> several_bits (scan_end_src c) \<and> \<not> several_bits (stop_src c)"
  by (simp add: unique_sources_def passes_simps passes_Cons good_intros)

lemma passes_count_entries [passes_simps]:
  "passes (count_entries f) c \<longleftrightarrow>
     (\<forall>xs. chanlist c = Kern_ptr xs \<longrightarrow> f (take (unat (chanlist_len c)) xs) = 0)"
  by (auto simp: passes_def count_entries_def split: chan_ptr.splits)

lemma several_bits_sources [simp]:
  "\<not> several_bits TRIG_NONE" "\<not> several_bits TRIG_NOW" "\<not> several_bits TRIG_FOLLOW" "\<not> several_bits TRIG_TIMER"
  "\<not> several_bits TRIG_COUNT" "\<not> several_bits TRIG_EXT" "\<not> several_bits TRIG_INT"
  by (simp_all add: several_bits_def TRIG_defs)

lemma command_testI:
  assumes "test = stages ts" and "\<forall>t \<in> set ts. good t" and "length ts \<le> 5"
  shows "command_test test"
  using assms by (intro command_test_stages[of test ts]) auto

end
