(* ===== verification/Bits_Interface.thy ===== *)
theory Bits_Interface
  imports Instructions
begin

text \<open>
  What the core relies on when it reaches single channels through a driver's bits instruction: the
  contract of an \<open>insn_bits\<close> callback, and what \<open>insn_rw_emulate_bits\<close> and the INSN_BITS case of
  \<open>parse_insn\<close> make of it. \<open>latched\<close> is the driver's copy of the output channels.
\<close>

unbundle bit_operations_syntax

locale bits_provider =
  fixes ops :: "('p, 'h) driver_ops" and g :: fnptr
    and ready :: "('p, 'h) comedi_device \<Rightarrow> nat \<Rightarrow> bool"
    and latched :: "('p, 'h) comedi_device \<Rightarrow> nat \<Rightarrow> u32"
  assumes bits: "ready dev i \<Longrightarrow> insn_n insn = 2 \<Longrightarrow>
      \<exists>dev' w. op_insn ops g dev i insn [m, v] = Some (2, dev', insn, [m, w]) \<and>
        latched dev' i = (latched dev i AND NOT m) OR (m AND v) \<and> ready dev' i"
    and subd_ready: "ready dev i \<Longrightarrow> \<exists>s. subd dev i = Some s \<and> sd_insn_bits s = Some (Insn_driver g)"
begin

lemma call_bits:
  assumes "ready dev i" and "subd dev i = Some s" and "insn_n insn = 2"
  obtains dev' w where "call_insn_bits ops (sd_insn_bits s) dev i insn [m, v] = Some (2, dev', insn, [m, w])"
    and "op_insn ops g dev i insn [m, v] = Some (2, dev', insn, [m, w])"
    and "latched dev' i = (latched dev i AND NOT m) OR (m AND v)" and "ready dev' i"
proof -
  have "sd_insn_bits s = Some (Insn_driver g)" using subd_ready[OF assms(1)] assms(2) by auto
  then show thesis
    using bits[OF assms(1,3), of m v] that by (auto simp: call_insn_bits_def)
qed

text \<open>Writing one channel changes the latch of that channel only.\<close>

lemma emulated_write:
  assumes rdy: "ready dev i" and s: "subd dev i = Some s" and wr: "sd_subdev_flags s AND SDF_WRITABLE \<noteq> 0"
    and insn: "insn_insn insn = INSN_WRITE" "insn_n insn \<noteq> 0" "CR_CHAN (insn_chanspec insn) < 32"
  shows "\<exists>dev'. insn_rw_emulate_bits ops dev i insn (d # ds) = Some (1, dev', insn, d # ds) \<and> ready dev' i \<and>
    (\<forall>k<32. bit (latched dev' i) k =
      (if k = unat (CR_CHAN (insn_chanspec insn)) then d \<noteq> 0 else bit (latched dev i) k))"
proof -
  let ?c = "unat (CR_CHAN (insn_chanspec insn))"
  let ?m = "push_bit ?c (1 :: u32)"
  let ?n = "\<lparr>insn_insn = INSN_BITS, insn_n = 2, insn_data = 0, insn_subdev = insn_subdev insn,
    insn_chanspec = 0\<rparr>"
  have len: "insn_n ?n = 2" by simp
  obtain dev' w where call: "call_insn_bits ops (sd_insn_bits s) dev i ?n [?m, if d \<noteq> 0 then ?m else 0] =
      Some (2, dev', ?n, [?m, w])" and rdy': "ready dev' i"
    and l: "latched dev' i = (latched dev i AND NOT ?m) OR (?m AND (if d \<noteq> 0 then ?m else 0))"
    using rdy s len by (rule call_bits)
  have ne: "INSN_WRITE \<noteq> INSN_READ" by (simp add: INSN_defs)
  have "insn_rw_emulate_bits ops dev i insn (d # ds) = Some (1, dev', insn, d # ds)"
    using s wr insn call ne by (cases "d = 0") (simp_all add: insn_rw_emulate_bits_def Let_def)
  moreover have "bit (latched dev' i) k = (if k = ?c then d \<noteq> 0 else bit (latched dev i) k)"
    if "k < 32" for k
    using that unfolding l by (auto simp: bit_simps)
  ultimately show ?thesis using rdy' by blast
qed

text \<open>Reading one channel yields that bit of what the bits instruction reads, and changes no latch.\<close>

lemma emulated_read:
  assumes rdy: "ready dev i" and s: "subd dev i = Some s"
    and insn: "insn_insn insn = INSN_READ" "insn_n insn \<noteq> 0" "CR_CHAN (insn_chanspec insn) < 32"
  shows "\<exists>dev' w insn'. op_insn ops g dev i insn' [0, 0] = Some (2, dev', insn', [0, w]) \<and>
    insn_rw_emulate_bits ops dev i insn (d # ds) =
      Some (1, dev', insn, of_bool (bit w (unat (CR_CHAN (insn_chanspec insn)))) # ds) \<and>
    ready dev' i \<and> latched dev' i = latched dev i"
proof -
  let ?n = "\<lparr>insn_insn = INSN_BITS, insn_n = 2, insn_data = 0, insn_subdev = insn_subdev insn,
    insn_chanspec = 0\<rparr>"
  have len: "insn_n ?n = 2" by simp
  obtain dev' w where call: "call_insn_bits ops (sd_insn_bits s) dev i ?n [0, 0] = Some (2, dev', ?n, [0, w])"
    and op: "op_insn ops g dev i ?n [0, 0] = Some (2, dev', ?n, [0, w])" and rdy': "ready dev' i"
    and l: "latched dev' i = (latched dev i AND NOT 0) OR (0 AND 0)"
    using rdy s len by (rule call_bits)
  have ne: "INSN_READ \<noteq> INSN_WRITE" by (simp add: INSN_defs)
  have "drop_bit n w AND 1 = of_bool (bit w n)" for n
    by (simp add: and_one_eq bit_iff_odd_drop_bit mod_2_eq_odd)
  then have "insn_rw_emulate_bits ops dev i insn (d # ds) =
      Some (1, dev', insn, of_bool (bit w (unat (CR_CHAN (insn_chanspec insn)))) # ds)"
    using s insn call ne by (simp add: insn_rw_emulate_bits_def Let_def)
  then show ?thesis using op rdy' l by auto
qed

text \<open>The base channel of INSN_BITS shifts mask and values up, and what is read back down.\<close>

lemma shifted_bits:
  assumes rdy: "ready dev i" and s: "subd dev i = Some s" and n: "sd_n_chan s \<le>s 32" and len: "insn_n insn = 2"
  shows "\<exists>dev' w insn'. bits_insn ops dev i s insn [m, v] =
      Some (2, dev', insn', [m, drop_bit (unat (CR_CHAN (insn_chanspec insn))) w]) \<and> ready dev' i \<and>
    latched dev' i = (latched dev i AND NOT (push_bit (unat (CR_CHAN (insn_chanspec insn))) m)) OR
      (push_bit (unat (CR_CHAN (insn_chanspec insn))) m AND push_bit (unat (CR_CHAN (insn_chanspec insn))) v)"
proof -
  let ?c = "CR_CHAN (insn_chanspec insn)"
  let ?insn = "if 0 < ?c then insn\<lparr>insn_chanspec := 0\<rparr> else insn"
  have len': "insn_n ?insn = 2" using len by simp
  obtain dev' w where op: "op_insn ops g dev i ?insn [push_bit (unat ?c) m, push_bit (unat ?c) v] =
      Some (2, dev', ?insn, [push_bit (unat ?c) m, w])" and rdy': "ready dev' i"
    and l: "latched dev' i = (latched dev i AND NOT (push_bit (unat ?c) m)) OR
      (push_bit (unat ?c) m AND push_bit (unat ?c) v)"
    using rdy s len' by (rule call_bits)
  have f: "sd_insn_bits s = Some (Insn_driver g)" using subd_ready[OF rdy] s by auto
  have "bits_insn ops dev i s insn [m, v] = Some (2, dev', ?insn, [m, drop_bit (unat ?c) w])"
  proof (cases "?c = 0")
    case True
    then show ?thesis using op f n by (simp add: bits_insn_def call_insn_def Let_def)
  next
    case False
    then have "0 < ?c" by (simp add: word_neq_0_conv)
    then show ?thesis using op f n by (simp add: bits_insn_def call_insn_def Let_def)
  qed
  then show ?thesis using rdy' l by blast
qed

end

end
