(* ===== verification/Dio_8255.thy ===== *)
theory Dio_8255
  imports Attach Bits_Interface Command_Test
begin

text \<open>
  The 8255 digital i/o chip (\<open>comedi/drivers/8255.c\<close>): 24 channels in three byte-wide ports, with a
  direction per group. The chip itself is reached through port i/o, which is an argument
  (\<open>port_io\<close>), or through a callback of the board's driver. \<open>dio_hw\<close> holds the chip's state and the port
  regions the driver has reserved.
\<close>

unbundle bit_operations_syntax

section \<open>Reaching the chip\<close>

record 'x port_io =
  pi_inb :: "u64 \<Rightarrow> 'x \<Rightarrow> u8 \<times> 'x"
  pi_outb :: "u8 \<Rightarrow> u64 \<Rightarrow> 'x \<Rightarrow> 'x"
  pi_callback :: "fnptr \<Rightarrow> bool \<Rightarrow> u64 \<Rightarrow> u32 \<Rightarrow> u64 \<Rightarrow> 'x \<Rightarrow> u32 \<times> 'x"

record 'x dio_hw =
  dh_regions :: "u64 list"
  dh_chip :: 'x

record subdev_8255 =
  cb_8255_arg :: u64
  cb_8255_func :: "fnptr option"
  have_irq :: bool

type_synonym 'x dio_device = "(subdev_8255, 'x dio_hw) comedi_device"

definition subdev_8255_cb :: "'x port_io \<Rightarrow> bool \<Rightarrow> u64 \<Rightarrow> u32 \<Rightarrow> u64 \<Rightarrow> 'x \<Rightarrow> u32 \<times> 'x" where
  "subdev_8255_cb io dir port data iobase chip =
     (if dir then (0, pi_outb io (ucast data) (iobase + port) chip)
      else case pi_inb io (iobase + port) chip of (x, chip) \<Rightarrow> (ucast x, chip))"

definition call_8255 ::
  "'x port_io \<Rightarrow> subdev_8255 comedi_subdevice \<Rightarrow> bool \<Rightarrow> u64 \<Rightarrow> u32 \<Rightarrow> 'x dio_device \<Rightarrow>
    (u32 \<times> 'x dio_device) option" where
  "call_8255 io s dir port data dev =
     do {
       p \<leftarrow> sd_private s;
       let (x, chip) = (case cb_8255_func p of
             None \<Rightarrow> subdev_8255_cb io dir port data (cb_8255_arg p) (dh_chip (dv_hw dev))
           | Some f \<Rightarrow> pi_callback io f dir port data (cb_8255_arg p) (dh_chip (dv_hw dev)))
       in Some (x, dev\<lparr>dv_hw := (dv_hw dev)\<lparr>dh_chip := chip\<rparr>\<rparr>)
     }"

definition out_8255_if ::
  "bool \<Rightarrow> 'x port_io \<Rightarrow> subdev_8255 comedi_subdevice \<Rightarrow> u64 \<Rightarrow> u32 \<Rightarrow> 'x dio_device \<Rightarrow>
    'x dio_device option" where
  "out_8255_if b io s port data dev =
     (if b then do { (_, dev) \<leftarrow> call_8255 io s True port data dev; Some dev } else Some dev)"

section \<open>Reading and writing the channels\<close>

definition subdev_8255_insn ::
  "'x port_io \<Rightarrow> 'x dio_device \<Rightarrow> nat \<Rightarrow> comedi_insn \<Rightarrow> lsampl_t list \<Rightarrow>
    (int \<times> 'x dio_device \<times> comedi_insn \<times> lsampl_t list) option" where
  "subdev_8255_insn io dev i insn data =
     do {
       s \<leftarrow> subd dev i;
       d0 \<leftarrow> load_nth data 0;
       d1 \<leftarrow> load_nth data 1;
       let s = (if d0 \<noteq> 0 then s\<lparr>sd_state := (sd_state s AND NOT d0) OR (d0 AND d1)\<rparr> else s);
           dev = set_subd i s dev
       in do {
         dev \<leftarrow> out_8255_if (d0 AND 0xff \<noteq> 0) io s 0 (sd_state s AND 0xff) dev;
         dev \<leftarrow> out_8255_if (d0 AND 0xff00 \<noteq> 0) io s 1 (drop_bit 8 (sd_state s) AND 0xff) dev;
         dev \<leftarrow> out_8255_if (d0 AND 0xff0000 \<noteq> 0) io s 2 (drop_bit 16 (sd_state s) AND 0xff) dev;
         (a, dev) \<leftarrow> call_8255 io s False 0 0 dev;
         (b, dev) \<leftarrow> call_8255 io s False 1 0 dev;
         (c, dev) \<leftarrow> call_8255 io s False 2 0 dev;
         Some (2, dev, insn, data[1 := a OR push_bit 8 b OR push_bit 16 c])
       }
     }"

section \<open>Directions\<close>

definition group_bits :: "u32 \<Rightarrow> u32" where
  "group_bits m =
     (if m AND 0x0000ff \<noteq> 0 then 0x0000ff
      else if m AND 0x00ff00 \<noteq> 0 then 0x00ff00
      else if m AND 0x0f0000 \<noteq> 0 then 0x0f0000
      else 0xf00000)"

definition config_word :: "u32 \<Rightarrow> u32" where
  "config_word bits =
     0x80 OR (if bits AND 0x0000ff = 0 then 0x10 else 0) OR (if bits AND 0x00ff00 = 0 then 0x02 else 0) OR
     (if bits AND 0x0f0000 = 0 then 0x01 else 0) OR (if bits AND 0xf00000 = 0 then 0x08 else 0)"

definition do_config ::
  "'x port_io \<Rightarrow> subdev_8255 comedi_subdevice \<Rightarrow> 'x dio_device \<Rightarrow> 'x dio_device option" where
  "do_config io s dev =
     do { (_, dev) \<leftarrow> call_8255 io s True 3 (config_word (sd_io_bits s)) dev; Some dev }"

definition subdev_8255_insn_config ::
  "'x port_io \<Rightarrow> 'x dio_device \<Rightarrow> nat \<Rightarrow> comedi_insn \<Rightarrow> lsampl_t list \<Rightarrow>
    (int \<times> 'x dio_device \<times> comedi_insn \<times> lsampl_t list) option" where
  "subdev_8255_insn_config io dev i insn data =
     do {
       s \<leftarrow> subd dev i;
       d0 \<leftarrow> load_nth data 0;
       let bits = group_bits (push_bit (unat (CR_CHAN (insn_chanspec insn))) 1) in
       if d0 = INSN_CONFIG_DIO_QUERY then do {
         data \<leftarrow> (if 1 < length data
                  then Some (data[1 := if sd_io_bits s AND bits \<noteq> 0 then 1 else 0]) else None);
         Some (sint (insn_n insn), dev, insn, data)
       }
       else if d0 = INSN_CONFIG_DIO_INPUT \<or> d0 = INSN_CONFIG_DIO_OUTPUT then
         let s = s\<lparr>sd_io_bits := (if d0 = INSN_CONFIG_DIO_INPUT then sd_io_bits s AND NOT bits
                                  else sd_io_bits s OR bits)\<rparr>
         in do {
           dev \<leftarrow> do_config io s (set_subd i s dev);
           Some (1, dev, insn, data)
         }
       else Some (- EINVAL, dev, insn, data)
     }"

section \<open>Commands\<close>

definition stages_8255 :: "test_piece list" where
  "stages_8255 =
     [mask_sources TRIG_NOW TRIG_EXT TRIG_FOLLOW TRIG_COUNT TRIG_NONE,
      pieces [],
      pieces [no_start_arg, no_scan_begin_arg, no_convert_arg, scan_end_is 1, no_stop_arg],
      pieces []]"

definition subdev_8255_cmdtest :: "comedi_cmd \<Rightarrow> int \<times> comedi_cmd" where
  "subdev_8255_cmdtest = stages stages_8255"

interpretation cmdtest_8255: command_test subdev_8255_cmdtest
  by (rule command_test_stages[of _ stages_8255])
    (auto simp: subdev_8255_cmdtest_def stages_8255_def intro!: good_intros)

definition subdev_8255_interrupt ::
  "'x port_io \<Rightarrow> munge_ctx \<Rightarrow> 'x dio_device \<Rightarrow> nat \<Rightarrow> (notice list \<times> 'x dio_device) option" where
  "subdev_8255_interrupt io mc dev i =
     do {
       s \<leftarrow> subd dev i;
       (a, dev) \<leftarrow> call_8255 io s False 0 0 dev;
       (b, dev) \<leftarrow> call_8255 io s False 1 0 dev;
       as \<leftarrow> sd_async s;
       (_, as) \<leftarrow> comedi_buf_put mc as (ucast a OR ucast (push_bit 8 b));
       comedi_event (set_subd i
         (s\<lparr>sd_async := Some (as\<lparr>events := events as OR COMEDI_CB_EOS\<rparr>)\<rparr>) dev) i
     }"

section \<open>Set-up\<close>

definition insn_8255_fn :: fnptr where "insn_8255_fn = 1"
definition insn_config_8255_fn :: fnptr where "insn_config_8255_fn = 2"
definition cmdtest_8255_fn :: fnptr where "cmdtest_8255_fn = 3"
definition cmd_8255_fn :: fnptr where "cmd_8255_fn = 4"
definition cancel_8255_fn :: fnptr where "cancel_8255_fn = 5"

definition range_digital :: comedi_lrange where
  "range_digital = \<lparr>lr_length = 1, lr_range = [\<lparr>kr_min = 0, kr_max = 5000000, kr_flags = 0\<rparr>]\<rparr>"

text \<open>\<open>mem\<close> is what \<open>kmalloc\<close> returns for the private data, with its former contents.\<close>

definition subdev_8255_init ::
  "'x port_io \<Rightarrow> subdev_8255 option \<Rightarrow> 'x dio_device \<Rightarrow> nat \<Rightarrow> fnptr option \<Rightarrow> u64 \<Rightarrow>
    (int \<times> 'x dio_device) option" where
  "subdev_8255_init io mem dev i cb arg =
     do {
       s \<leftarrow> subd dev i;
       let s = s\<lparr>sd_type := COMEDI_SUBD_DIO, sd_subdev_flags := SDF_READABLE OR SDF_WRITABLE,
                 sd_n_chan := 24, sd_range_table := Some range_digital, sd_maxdata := 1\<rparr>
       in case mem of
            None \<Rightarrow> Some (- ENOMEM, set_subd i (s\<lparr>sd_private := None\<rparr>) dev)
          | Some p \<Rightarrow>
              let s = s\<lparr>sd_private := Some (p\<lparr>cb_8255_arg := arg, cb_8255_func := cb\<rparr>),
                    sd_insn_bits := Some (Insn_driver insn_8255_fn),
                    sd_insn_config := Some (Insn_driver insn_config_8255_fn),
                    sd_state := 0, sd_io_bits := 0\<rparr>
              in do { dev \<leftarrow> do_config io s (set_subd i s dev); Some (0, dev) }
     }"

definition subdev_8255_init_irq ::
  "'x port_io \<Rightarrow> subdev_8255 option \<Rightarrow> 'x dio_device \<Rightarrow> nat \<Rightarrow> fnptr option \<Rightarrow> u64 \<Rightarrow>
    (int \<times> 'x dio_device) option" where
  "subdev_8255_init_irq io mem dev i cb arg =
     do {
       (ret, dev) \<leftarrow> subdev_8255_init io mem dev i cb arg;
       if ret < 0 then Some (ret, dev)
       else do {
         s \<leftarrow> subd dev i;
         p \<leftarrow> sd_private s;
         Some (0, set_subd i (s\<lparr>sd_do_cmdtest := Some cmdtest_8255_fn, sd_do_cmd := Some cmd_8255_fn,
           sd_cancel := Some cancel_8255_fn, sd_private := Some (p\<lparr>have_irq := True\<rparr>)\<rparr>) dev)
       }
     }"

definition request_region :: "u64 \<Rightarrow> 'x dio_device \<Rightarrow> 'x dio_device" where
  "request_region base dev = dev\<lparr>dv_hw := (dv_hw dev)\<lparr>dh_regions := base # dh_regions (dv_hw dev)\<rparr>\<rparr>"

definition release_region :: "u64 \<Rightarrow> 'x dio_device \<Rightarrow> 'x dio_device" where
  "release_region base dev = dev\<lparr>dv_hw := (dv_hw dev)\<lparr>dh_regions := remove1 base (dh_regions (dv_hw dev))\<rparr>\<rparr>"

text \<open>\<open>free i\<close> says whether the i-th region can be reserved, \<open>mem i\<close> what the i-th allocation returns.\<close>

primrec attach_8255_loop ::
  "'x port_io \<Rightarrow> (nat \<Rightarrow> bool) \<Rightarrow> (nat \<Rightarrow> subdev_8255 option) \<Rightarrow> u32 list \<Rightarrow> int \<Rightarrow> nat \<Rightarrow> nat \<Rightarrow>
    'x dio_device \<Rightarrow> (int \<times> 'x dio_device) option" where
  "attach_8255_loop io free mem opts ret i 0 dev = Some (ret, dev)"
| "attach_8255_loop io free mem opts ret i (Suc k) dev =
     do {
       opt \<leftarrow> load_nth opts i;
       let iobase = scast opt in
       if \<not> free i then do {
         s \<leftarrow> subd dev i;
         attach_8255_loop io free mem opts ret (Suc i) k
           (set_subd i (s\<lparr>sd_type := COMEDI_SUBD_UNUSED\<rparr>) dev)
       }
       else do {
         (ret, dev) \<leftarrow> subdev_8255_init io (mem i) (request_region iobase dev) i None iobase;
         if ret \<noteq> 0 then do {
           s \<leftarrow> subd dev i;
           Some (ret, set_subd i (s\<lparr>sd_type := COMEDI_SUBD_UNUSED\<rparr>) (release_region iobase dev))
         }
         else attach_8255_loop io free mem opts ret (Suc i) k dev
       }
     }"

definition dev_8255_attach ::
  "'x port_io \<Rightarrow> (nat \<Rightarrow> bool) \<Rightarrow> (nat \<Rightarrow> subdev_8255 option) \<Rightarrow> bool \<Rightarrow> 'x dio_device \<Rightarrow>
    comedi_devconfig \<Rightarrow> (int \<times> 'x dio_device) option" where
  "dev_8255_attach io free mem subdevs_ok dev it =
     (let dev = dev\<lparr>dv_board_name := Some ''8255''\<rparr>;
          n = length (takeWhile (\<lambda>x. x \<noteq> 0) (take 32 (dc_options it)))
      in
      if n = 0 then Some (- EINVAL, dev)
      else
        case alloc_subdevices subdevs_ok dev n of (ret, dev) \<Rightarrow>
        if ret < 0 then Some (ret, dev)
        else attach_8255_loop io free mem (dc_options it) ret 0 n dev)"

primrec detach_8255_loop :: "nat \<Rightarrow> nat \<Rightarrow> 'x dio_device \<Rightarrow> 'x dio_device option" where
  "detach_8255_loop i 0 dev = Some dev"
| "detach_8255_loop i (Suc k) dev =
     do {
       s \<leftarrow> subd dev i;
       dev \<leftarrow> (if sd_type s \<noteq> COMEDI_SUBD_UNUSED
               then do { p \<leftarrow> sd_private s; Some (release_region (cb_8255_arg p) dev) } else Some dev);
       detach_8255_loop (Suc i) k dev
     }"

definition dev_8255_detach :: "'x dio_device \<Rightarrow> (int \<times> 'x dio_device) option" where
  "dev_8255_detach dev =
     do { dev \<leftarrow> detach_8255_loop 0 (nat (sint (dv_n_subdevices dev))) dev; Some (0, dev) }"

definition ops_8255 ::
  "'x port_io \<Rightarrow> (nat \<Rightarrow> bool) \<Rightarrow> (nat \<Rightarrow> subdev_8255 option) \<Rightarrow> bool \<Rightarrow>
    (subdev_8255, 'x dio_hw) driver_ops" where
  "ops_8255 io free mem subdevs_ok = \<lparr>
     op_insn = (\<lambda>f dev i insn data.
       if f = insn_8255_fn then subdev_8255_insn io dev i insn data
       else if f = insn_config_8255_fn then subdev_8255_insn_config io dev i insn data else None),
     op_do_cmd = (\<lambda>f dev i. if f = cmd_8255_fn then Some (0, dev) else None),
     op_do_cmdtest = (\<lambda>f dev i c. if f = cmdtest_8255_fn
       then (case subdev_8255_cmdtest c of (ret, c) \<Rightarrow> Some (ret, dev, c)) else None),
     op_poll = (\<lambda>f dev i. None),
     op_cancel = (\<lambda>f dev i. if f = cancel_8255_fn then Some (0, dev) else None),
     op_buf_change = (\<lambda>f dev i n. None),
     op_munge = (\<lambda>f dev i bs c. bs),
     op_inttrig = (\<lambda>f dev i n. None),
     op_attach = (\<lambda>f dev it. dev_8255_attach io free mem subdevs_ok dev it),
     op_detach = (\<lambda>f dev. dev_8255_detach dev),
     op_open = (\<lambda>f dev. None),
     op_close = (\<lambda>f dev. None)\<rparr>"

definition driver_8255 :: comedi_driver where
  "driver_8255 = \<lparr>drv_id = 8255, driver_name = ''8255'', drv_module = 1, drv_attach = 1, drv_detach = 2,
     drv_board_names = []\<rparr>"

section \<open>The chip as a provider of channel bits\<close>

definition ready_8255 :: "'x dio_device \<Rightarrow> nat \<Rightarrow> bool" where
  "ready_8255 dev i \<longleftrightarrow>
     (case subd dev i of
        Some s \<Rightarrow> sd_insn_bits s = Some (Insn_driver insn_8255_fn) \<and> sd_private s \<noteq> None
      | None \<Rightarrow> False)"

definition latched_8255 :: "'x dio_device \<Rightarrow> nat \<Rightarrow> u32" where
  "latched_8255 dev i = (case subd dev i of Some s \<Rightarrow> sd_state s | None \<Rightarrow> 0)"

lemma call_8255_frame:
  assumes "sd_private s \<noteq> None"
  obtains x h where "call_8255 io s dir port data dev = Some (x, dev\<lparr>dv_hw := h\<rparr>)"
proof -
  obtain p where p: "sd_private s = Some p" using assms by auto
  let ?r = "case cb_8255_func p of
      None \<Rightarrow> subdev_8255_cb io dir port data (cb_8255_arg p) (dh_chip (dv_hw dev))
    | Some f \<Rightarrow> pi_callback io f dir port data (cb_8255_arg p) (dh_chip (dv_hw dev))"
  obtain x chip where "?r = (x, chip)" by (cases ?r)
  then have "call_8255 io s dir port data dev = Some (x, dev\<lparr>dv_hw := (dv_hw dev)\<lparr>dh_chip := chip\<rparr>\<rparr>)"
    by (simp add: call_8255_def p)
  then show thesis by (rule that)
qed

lemma out_8255_frame:
  assumes "sd_private s \<noteq> None"
  obtains h where "out_8255_if b io s port data dev = Some (dev\<lparr>dv_hw := h\<rparr>)"
proof (cases b)
  case True
  from call_8255_frame[OF assms, of io True port data dev] obtain x h
    where "call_8255 io s True port data dev = Some (x, dev\<lparr>dv_hw := h\<rparr>)" .
  then show thesis using True that by (simp add: out_8255_if_def)
next
  case False
  then show thesis using that[of "dv_hw dev"] by (simp add: out_8255_if_def)
qed

lemma insn_8255_spec:
  assumes s: "subd dev i = Some s" and p: "sd_private s \<noteq> None"
  obtains w h where "subdev_8255_insn io dev i insn [m, v] = Some (2,
      (set_subd i (s\<lparr>sd_state := (sd_state s AND NOT m) OR (m AND v)\<rparr>) dev)\<lparr>dv_hw := h\<rparr>, insn, [m, w])"
proof -
  define s' where "s' = s\<lparr>sd_state := (sd_state s AND NOT m) OR (m AND v)\<rparr>"
  have upd: "(if m \<noteq> 0 then s\<lparr>sd_state := (sd_state s AND NOT m) OR (m AND v)\<rparr> else s) = s'"
    by (simp add: s'_def)
  have p': "sd_private s' \<noteq> None" using p by (simp add: s'_def)
  note out = out_8255_frame[OF p', where io = io] and inp = call_8255_frame[OF p', where io = io]
  let ?d = "set_subd i s' dev"
  obtain h1 where 1: "out_8255_if (m AND 0xff \<noteq> 0) io s' 0 (sd_state s' AND 0xff) ?d = Some (?d\<lparr>dv_hw := h1\<rparr>)"
    by (rule out)
  obtain h2 where 2: "out_8255_if (m AND 0xff00 \<noteq> 0) io s' 1 (drop_bit 8 (sd_state s') AND 0xff)
      (?d\<lparr>dv_hw := h1\<rparr>) = Some (?d\<lparr>dv_hw := h1\<rparr>\<lparr>dv_hw := h2\<rparr>)" by (rule out)
  obtain h3 where 3: "out_8255_if (m AND 0xff0000 \<noteq> 0) io s' 2 (drop_bit 16 (sd_state s') AND 0xff)
      (?d\<lparr>dv_hw := h2\<rparr>) = Some (?d\<lparr>dv_hw := h2\<rparr>\<lparr>dv_hw := h3\<rparr>)" by (rule out)
  obtain a h4 where 4: "call_8255 io s' False 0 0 (?d\<lparr>dv_hw := h3\<rparr>) = Some (a, ?d\<lparr>dv_hw := h3\<rparr>\<lparr>dv_hw := h4\<rparr>)"
    by (rule inp)
  obtain b h5 where 5: "call_8255 io s' False 1 0 (?d\<lparr>dv_hw := h4\<rparr>) = Some (b, ?d\<lparr>dv_hw := h4\<rparr>\<lparr>dv_hw := h5\<rparr>)"
    by (rule inp)
  obtain c h6 where 6: "call_8255 io s' False 2 0 (?d\<lparr>dv_hw := h5\<rparr>) = Some (c, ?d\<lparr>dv_hw := h5\<rparr>\<lparr>dv_hw := h6\<rparr>)"
    by (rule inp)
  have "subdev_8255_insn io dev i insn [m, v] =
      Some (2, ?d\<lparr>dv_hw := h6\<rparr>, insn, [m, a OR push_bit 8 b OR push_bit 16 c])"
    unfolding subdev_8255_insn_def s bind.simps load_nth_0_Cons Let_def
    using 1 2 3 4 5 6 by (simp only: upd One_nat_def load_nth_Suc_Cons load_nth_0_Cons bind.simps) simp
  then show thesis by (rule that[unfolded s'_def[symmetric]])
qed

interpretation dio: bits_provider "ops_8255 io free mem subdevs_ok" insn_8255_fn ready_8255 latched_8255
proof
  fix dev :: "'a dio_device" and i insn m v
  assume "ready_8255 dev i"
  then obtain s where s: "subd dev i = Some s" "sd_insn_bits s = Some (Insn_driver insn_8255_fn)"
    "sd_private s \<noteq> None" by (auto simp: ready_8255_def split: option.splits)
  then show "\<exists>s. subd dev i = Some s \<and> sd_insn_bits s = Some (Insn_driver insn_8255_fn)" by blast
  obtain w h where "subdev_8255_insn io dev i insn [m, v] = Some (2,
      (set_subd i (s\<lparr>sd_state := (sd_state s AND NOT m) OR (m AND v)\<rparr>) dev)\<lparr>dv_hw := h\<rparr>, insn, [m, w])"
    by (rule insn_8255_spec[OF s(1,3)])
  moreover have "subd (x\<lparr>dv_hw := h\<rparr>) i = subd x i" for x :: "'a dio_device" by (simp add: subd_def)
  ultimately show "\<exists>dev' w. op_insn (ops_8255 io free mem subdevs_ok) insn_8255_fn dev i insn [m, v] =
        Some (2, dev', insn, [m, w]) \<and>
      latched_8255 dev' i = (latched_8255 dev i AND NOT m) OR (m AND v) \<and> ready_8255 dev' i"
    using s by (auto simp: ops_8255_def latched_8255_def ready_8255_def)
qed

end
