(* ===== verification/Digital_Commands.thy ===== *)
theory Digital_Commands
  imports Command_Rounding Dio_8255
begin

text \<open>
  The command tests of the digital boards: inputs that report an event (an external edge, or a change of an
  input line), and the boards that stream digital samples.
\<close>

unbundle bit_operations_syntax

section \<open>One sample per event\<close>

text \<open>\<open>comedi/drivers/ni_daq_700.c\<close>, \<open>comedi_parport.c\<close> and \<open>amplc_pc236.c\<close>: like the 8255\<close>

definition subdev_700_cmdtest :: "comedi_cmd \<Rightarrow> int \<times> comedi_cmd" where
  "subdev_700_cmdtest = stages
     [mask_sources TRIG_NOW TRIG_EXT TRIG_FOLLOW TRIG_COUNT TRIG_NONE,
      pieces [],
      pieces
        [no_start_arg,
         no_scan_begin_arg,
         no_convert_arg,
         scan_end_is 1,
         no_stop_arg]]"

definition parport_intr_cmdtest :: "comedi_cmd \<Rightarrow> int \<times> comedi_cmd" where
  "parport_intr_cmdtest = stages
     [mask_sources TRIG_NOW TRIG_EXT TRIG_FOLLOW TRIG_COUNT TRIG_NONE,
      pieces [],
      pieces
        [no_start_arg,
         no_scan_begin_arg,
         no_convert_arg,
         scan_end_is 1,
         no_stop_arg]]"

definition pc236_intr_cmdtest :: "comedi_cmd \<Rightarrow> int \<times> comedi_cmd" where
  "pc236_intr_cmdtest = stages
     [mask_sources TRIG_NOW TRIG_EXT TRIG_FOLLOW TRIG_COUNT TRIG_NONE,
      pieces [],
      pieces
        [no_start_arg,
         no_scan_begin_arg,
         no_convert_arg,
         scan_end_is 1,
         no_stop_arg]]"

text \<open>\<open>ni_6527.c\<close> and \<open>ni_65xx.c\<close>: a change of a line\<close>

definition ni6527_intr_cmdtest :: "comedi_cmd \<Rightarrow> int \<times> comedi_cmd" where
  "ni6527_intr_cmdtest = stages
     [mask_sources TRIG_NOW TRIG_OTHER TRIG_FOLLOW TRIG_COUNT TRIG_COUNT,
      pieces [],
      pieces
        [no_start_arg,
         no_scan_begin_arg,
         no_convert_arg,
         scan_end_is 1,
         no_stop_arg]]"

definition ni_65xx_intr_cmdtest :: "comedi_cmd \<Rightarrow> int \<times> comedi_cmd" where
  "ni_65xx_intr_cmdtest = stages
     [mask_sources TRIG_NOW TRIG_OTHER TRIG_FOLLOW TRIG_COUNT TRIG_COUNT,
      pieces [],
      pieces
        [no_start_arg,
         no_scan_begin_arg,
         no_convert_arg,
         scan_end_is 1,
         no_stop_arg]]"

text \<open>\<open>pcmmio.c\<close>, \<open>pcmuio.c\<close> and \<open>amplc_dio200.c\<close>: scans of the lines that can interrupt\<close>

definition pcmmio_cmdtest :: "comedi_cmd \<Rightarrow> int \<times> comedi_cmd" where
  "pcmmio_cmdtest = stages
     [mask_sources (TRIG_NOW OR TRIG_INT) TRIG_EXT TRIG_NOW TRIG_COUNT (TRIG_COUNT OR TRIG_NONE),
      unique_sources,
      pieces
        [no_start_arg,
         no_scan_begin_arg,
         no_convert_arg,
         scan_end_is_chanlist,
         only_if (\<lambda>c. stop_src c = TRIG_NONE)
           no_stop_arg]]"

definition pcmuio_cmdtest :: "comedi_cmd \<Rightarrow> int \<times> comedi_cmd" where
  "pcmuio_cmdtest = stages
     [mask_sources (TRIG_NOW OR TRIG_INT) TRIG_EXT TRIG_NOW TRIG_COUNT (TRIG_COUNT OR TRIG_NONE),
      unique_sources,
      pieces
        [no_start_arg,
         no_scan_begin_arg,
         no_convert_arg,
         scan_end_is_chanlist,
         only_if (\<lambda>c. stop_src c = TRIG_NONE)
           no_stop_arg]]"

definition dio200_subdev_intr_cmdtest :: "comedi_cmd \<Rightarrow> int \<times> comedi_cmd" where
  "dio200_subdev_intr_cmdtest = stages
     [mask_sources (TRIG_NOW OR TRIG_INT) TRIG_EXT TRIG_NOW TRIG_COUNT (TRIG_COUNT OR TRIG_NONE),
      unique_sources,
      pieces
        [no_start_arg,
         no_scan_begin_arg,
         no_convert_arg,
         scan_end_is_chanlist,
         only_if (\<lambda>c. stop_src c = TRIG_NONE)
           no_stop_arg]]"

text \<open>\<open>contec_pci_dio.c\<close> tests nothing.\<close>

definition contec_cmdtest :: "comedi_cmd \<Rightarrow> int \<times> comedi_cmd" where
  "contec_cmdtest = stages []"

section \<open>Digital streams\<close>

text \<open>\<open>ni_pcidio.c\<close>; \<open>ni_pcidio_ns_to_timer\<close> works on a signed int, with a clock of 50 ns.\<close>

definition ni_pcidio_ns_to_timer :: "u32 \<Rightarrow> u32 \<Rightarrow> u32" where
  "ni_pcidio_ns_to_timer nanosec mode = 50 * signed_clock_count 50 mode nanosec"

definition ni_pcidio_cmdtest :: "comedi_cmd \<Rightarrow> int \<times> comedi_cmd" where
  "ni_pcidio_cmdtest = stages
     [mask_sources (TRIG_NOW OR TRIG_INT) (TRIG_TIMER OR TRIG_EXT) TRIG_NOW TRIG_COUNT (TRIG_COUNT OR TRIG_NONE),
      pieces
        [reject_if (\<lambda>c. start_src c \<noteq> TRIG_NOW \<and> start_src c \<noteq> TRIG_INT),
         reject_if (\<lambda>c. scan_begin_src c \<noteq> TRIG_TIMER \<and> scan_begin_src c \<noteq> TRIG_EXT)],
      pieces
        [no_start_arg,
         either (\<lambda>c. scan_begin_src c = TRIG_TIMER)
           (min_scan_begin_arg 50)
           (fix_if (\<lambda>c. scan_begin_arg c AND (NOT (CR_EDGE OR CR_INVERT)) \<noteq> 0)
             (\<lambda>c. c\<lparr>scan_begin_arg := scan_begin_arg c AND (CR_EDGE OR CR_INVERT)\<rparr>)),
         no_convert_arg,
         scan_end_is_chanlist,
         only_if (\<lambda>c. stop_src c \<noteq> TRIG_COUNT)
           no_stop_arg],
      only_if (\<lambda>c. scan_begin_src c = TRIG_TIMER)
        (round_scan_begin (\<lambda>c. ni_pcidio_ns_to_timer (scan_begin_arg c) (round_mode c)))]"

text \<open>\<open>gsc_hpdi.c\<close>: the list must name the channels in order, and there is no input while the lines are outputs.\<close>

definition di_cmd_test :: "comedi_cmd \<Rightarrow> int \<times> comedi_cmd" where
  "di_cmd_test = stages
     [mask_sources TRIG_NOW TRIG_EXT TRIG_NOW TRIG_COUNT (TRIG_COUNT OR TRIG_NONE),
      reject_if (\<lambda>c. stop_src c \<noteq> TRIG_COUNT \<and> stop_src c \<noteq> TRIG_NONE),
      pieces
        [fix_if (\<lambda>c. chanlist_len c = 0) (\<lambda>c. c\<lparr>chanlist_len := 32\<rparr>),
         scan_end_is_chanlist,
         either (\<lambda>c. stop_src c = TRIG_COUNT)
           some_stop_arg
           (only_if (\<lambda>c. stop_src c = TRIG_NONE)
              no_stop_arg)],
      pieces [],
      count_entries (\<lambda>xs. if count_bad (\<lambda>i x. CR_CHAN x \<noteq> of_nat i) xs \<noteq> 0 then 1 else 0)]"

definition hpdi_cmd_test :: "bool \<Rightarrow> comedi_cmd \<Rightarrow> int \<times> comedi_cmd" where
  "hpdi_cmd_test dio_config_output c = (if dio_config_output then (- EINVAL, c) else di_cmd_test c)"

text \<open>
  \<open>ni_mio_common.c\<close>, the correlated digital output of the M series. A source that is out of range is an
  error that is not corrected, and the last stage reads the channel list without asking whether there is
  one: \<open>None\<close>.
\<close>

definition ni_cdio_stages :: "test_piece list" where
  "ni_cdio_stages =
     [mask_sources TRIG_INT TRIG_EXT TRIG_NOW TRIG_COUNT TRIG_NONE,
      pieces
        [reject_if (\<lambda>c. start_src c \<noteq> TRIG_INT),
         reject_if (\<lambda>c. scan_begin_src c \<noteq> TRIG_EXT),
         reject_if (\<lambda>c. convert_src c \<noteq> TRIG_NOW),
         reject_if (\<lambda>c. stop_src c \<noteq> TRIG_NONE)],
      pieces
        [only_if (\<lambda>c. start_src c = TRIG_INT)
           no_start_arg,
         only_if (\<lambda>c. scan_begin_src c = TRIG_EXT)
           (reject_if (\<lambda>c. scan_begin_arg c AND (0x3f OR CR_INVERT) \<noteq> scan_begin_arg c)),
         only_if (\<lambda>c. convert_src c = TRIG_NOW)
           no_convert_arg,
         scan_end_is_chanlist,
         only_if (\<lambda>c. stop_src c = TRIG_NONE)
           no_stop_arg]]"

definition ni_cdio_cmdtest :: "comedi_cmd \<Rightarrow> (int \<times> comedi_cmd) option" where
  "ni_cdio_cmdtest c =
     (case stages ni_cdio_stages c of (ret, c) \<Rightarrow>
      if ret \<noteq> 0 then Some (ret, c)
      else
        let n = unat (chanlist_len c) in
        case chanlist c of
          Kern_ptr xs \<Rightarrow>
            if length xs < n then None
            else Some (if \<forall>i < n. xs ! i = of_nat i then (0, c) else (5, c))
        | _ \<Rightarrow> if n = 0 then Some (0, c) else None)"

section \<open>The contract\<close>

interpretation subdev_700: command_test subdev_700_cmdtest
  by (rule command_testI[OF subdev_700_cmdtest_def]) (simp_all add: good_intros same_frame_def)

interpretation parport: command_test parport_intr_cmdtest
  by (rule command_testI[OF parport_intr_cmdtest_def]) (simp_all add: good_intros same_frame_def)

interpretation pc236: command_test pc236_intr_cmdtest
  by (rule command_testI[OF pc236_intr_cmdtest_def]) (simp_all add: good_intros same_frame_def)

interpretation ni6527: command_test ni6527_intr_cmdtest
  by (rule command_testI[OF ni6527_intr_cmdtest_def]) (simp_all add: good_intros same_frame_def)

interpretation ni_65xx: command_test ni_65xx_intr_cmdtest
  by (rule command_testI[OF ni_65xx_intr_cmdtest_def]) (simp_all add: good_intros same_frame_def)

interpretation pcmmio: command_test pcmmio_cmdtest
  by (rule command_testI[OF pcmmio_cmdtest_def]) (simp_all add: good_intros same_frame_def)

interpretation pcmuio: command_test pcmuio_cmdtest
  by (rule command_testI[OF pcmuio_cmdtest_def]) (simp_all add: good_intros same_frame_def)

interpretation dio200: command_test dio200_subdev_intr_cmdtest
  by (rule command_testI[OF dio200_subdev_intr_cmdtest_def]) (simp_all add: good_intros same_frame_def)

interpretation contec: command_test contec_cmdtest
  by (rule command_testI[OF contec_cmdtest_def]) (simp_all add: good_intros same_frame_def)

interpretation ni_pcidio: command_test ni_pcidio_cmdtest
  by (rule command_testI[OF ni_pcidio_cmdtest_def]) (simp_all add: good_intros same_frame_def)

interpretation di: command_test di_cmd_test
  by (rule command_testI[OF di_cmd_test_def]) (simp_all add: good_intros same_frame_def)

text \<open>The board of \<open>gsc_hpdi.c\<close> while its lines are inputs.\<close>

interpretation hpdi: command_test "hpdi_cmd_test False"
  by (simp add: hpdi_cmd_test_def [abs_def] di.command_test_axioms)

end
