(* ===== verification/Analog_Commands.thy ===== *)
theory Analog_Commands
  imports Command_Rounding
begin

text \<open>
  The command tests of the analog boards whose pacing does not go through cascaded counters, with the routines
  that round a period to their clock.
\<close>

unbundle bit_operations_syntax

section \<open>The example driver: \<open>skel.c\<close>\<close>

text \<open>Its timer is trivial.\<close>

definition skel_ns_to_timer :: "u32 \<Rightarrow> u32 \<Rightarrow> u32" where
  "skel_ns_to_timer ns mode = ns"

definition skel_ai_cmdtest :: "comedi_cmd \<Rightarrow> int \<times> comedi_cmd" where
  "skel_ai_cmdtest = stages
     [mask_sources TRIG_NOW (TRIG_TIMER OR TRIG_EXT) (TRIG_TIMER OR TRIG_EXT) TRIG_COUNT (TRIG_COUNT OR TRIG_NONE),
      pieces
        [reject_if (\<lambda>c. scan_begin_src c \<noteq> TRIG_TIMER \<and> scan_begin_src c \<noteq> TRIG_EXT),
         reject_if (\<lambda>c. convert_src c \<noteq> TRIG_TIMER \<and> convert_src c \<noteq> TRIG_EXT),
         reject_if (\<lambda>c. stop_src c \<noteq> TRIG_COUNT \<and> stop_src c \<noteq> TRIG_NONE)],
      pieces
        [no_start_arg,
         either (\<lambda>c. scan_begin_src c = TRIG_TIMER)
           (pieces
              [min_scan_begin_arg 10000,
               max_scan_begin_arg 1000000000])
           (max_scan_begin_arg 9),
         either (\<lambda>c. convert_src c = TRIG_TIMER)
           (pieces
              [min_convert_arg 10000,
               max_convert_arg 1000000000])
           (max_convert_arg 9),
         scan_end_is_chanlist,
         either (\<lambda>c. stop_src c = TRIG_COUNT) (max_stop_arg 0x00ffffff) no_stop_arg],
      pieces
        [only_if (\<lambda>c. scan_begin_src c = TRIG_TIMER)
           (round_scan_begin (\<lambda>c. skel_ns_to_timer (scan_begin_arg c) (round_mode c))),
         only_if (\<lambda>c. convert_src c = TRIG_TIMER)
           (pieces
              [round_convert (\<lambda>c. skel_ns_to_timer (convert_arg c) (round_mode c)),
               fix_if (\<lambda>c. scan_begin_src c = TRIG_TIMER \<and> scan_begin_arg c < convert_arg c * scan_end_arg c)
                 (\<lambda>c. c\<lparr>scan_begin_arg := convert_arg c * scan_end_arg c\<rparr>)])]]"

section \<open>Data Translation boards\<close>

text \<open>
  \<open>dt2814.c\<close>: 10 us times a power of ten, the first that is near enough; the product with 11
  wraps, but not below 1 s.
\<close>

primrec dt2814_period :: "nat \<Rightarrow> u32 \<Rightarrow> u32 \<Rightarrow> u32" where
  "dt2814_period 0 f ns = f"
| "dt2814_period (Suc k) f ns = (if 2 * ns < f * 11 then f else dt2814_period k (f * 10) ns)"

definition dt2814_ns_to_timer :: "u32 \<Rightarrow> u32 \<Rightarrow> u32" where
  "dt2814_ns_to_timer ns flags = dt2814_period 8 10000 ns"

definition dt2814_ai_cmdtest :: "comedi_cmd \<Rightarrow> int \<times> comedi_cmd" where
  "dt2814_ai_cmdtest = stages
     [mask_sources TRIG_NOW TRIG_TIMER TRIG_NOW TRIG_COUNT (TRIG_COUNT OR TRIG_NONE),
      reject_if (\<lambda>c. stop_src c \<noteq> TRIG_TIMER \<and> stop_src c \<noteq> TRIG_EXT),
      pieces
        [no_start_arg,
         max_scan_begin_arg 1000000000,
         min_scan_begin_arg 100000,
         scan_end_is_chanlist,
         either (\<lambda>c. stop_src c = TRIG_COUNT)
           (fix_if (\<lambda>c. stop_arg c < 2) (\<lambda>c. c\<lparr>stop_arg := 2\<rparr>))
           no_stop_arg],
      round_scan_begin (\<lambda>c. dt2814_ns_to_timer (scan_begin_arg c) (round_mode c))]"

text \<open>
  \<open>dt282x.c\<close>: a count below 256 of 250 ns times a power of two (not the first), the smallest that does.
\<close>

fun dt282x_search :: "nat list \<Rightarrow> u32 \<Rightarrow> u32 \<Rightarrow> u32" where
  "dt282x_search [] nanosec mode = 255 * (250 * 2 ^ 15)"
| "dt282x_search (prescale # ps) nanosec mode =
     (let base = 250 * 2 ^ prescale; divider = signed_clock_count base mode nanosec
      in if divider <s 256 then divider * base else dt282x_search ps nanosec mode)"

definition dt282x_ns_to_timer :: "u32 \<Rightarrow> u32 \<Rightarrow> u32" where
  "dt282x_ns_to_timer nanosec mode = dt282x_search (0 # [2..<16]) nanosec mode"

definition dt282x_ai_cmdtest :: "u32 \<Rightarrow> comedi_cmd \<Rightarrow> int \<times> comedi_cmd" where
  "dt282x_ai_cmdtest ai_speed = stages
     [mask_sources TRIG_NOW (TRIG_FOLLOW OR TRIG_EXT) TRIG_TIMER TRIG_COUNT (TRIG_COUNT OR TRIG_NONE),
      pieces
        [reject_if (\<lambda>c. scan_begin_src c \<noteq> TRIG_FOLLOW \<and> scan_begin_src c \<noteq> TRIG_EXT),
         reject_if (\<lambda>c. stop_src c \<noteq> TRIG_COUNT \<and> stop_src c \<noteq> TRIG_NONE)],
      pieces
        [no_start_arg,
         either (\<lambda>c. scan_begin_src c = TRIG_FOLLOW) no_scan_begin_arg no_scan_begin_arg,
         min_convert_arg 4000,
         max_convert_arg 2088960000,
         min_convert_arg ai_speed,
         scan_end_is_chanlist,
         only_if (\<lambda>c. stop_src c \<noteq> TRIG_COUNT)
           no_stop_arg],
      round_convert (\<lambda>c. dt282x_ns_to_timer (convert_arg c) (round_mode c))]"

definition dt282x_ao_cmdtest :: "comedi_cmd \<Rightarrow> int \<times> comedi_cmd" where
  "dt282x_ao_cmdtest = stages
     [mask_sources TRIG_INT TRIG_TIMER TRIG_NOW TRIG_COUNT TRIG_NONE,
      reject_if (\<lambda>c. stop_src c \<noteq> TRIG_COUNT \<and> stop_src c \<noteq> TRIG_NONE),
      pieces
        [no_start_arg,
         min_scan_begin_arg 5000,
         no_convert_arg,
         fix_if (\<lambda>c. 2 < scan_end_arg c) (\<lambda>c. c\<lparr>scan_end_arg := 2\<rparr>),
         only_if (\<lambda>c. stop_src c \<noteq> TRIG_COUNT)
           no_stop_arg],
      round_scan_begin (\<lambda>c. dt282x_ns_to_timer (scan_begin_arg c) (round_mode c))]"

text \<open>\<open>dt3000.c\<close>: a count below 65536 of a multiple of the clock; rounding up rounds down.\<close>

fun dt3k_search :: "nat list \<Rightarrow> u32 \<Rightarrow> u32 \<Rightarrow> u32 \<Rightarrow> u32" where
  "dt3k_search [] timer_base nanosec mode = 65535 * (timer_base * 2 ^ 15)"
| "dt3k_search (prescale # ps) timer_base nanosec mode =
     (let base = timer_base * (of_nat prescale + 1);
          divider = (nanosec + (if mode = TRIG_ROUND_DOWN \<or> mode = TRIG_ROUND_UP then 0 else base div 2)) div base
      in if divider <s 65536 then divider * base else dt3k_search ps timer_base nanosec mode)"

definition dt3k_ns_to_timer :: "u32 \<Rightarrow> u32 \<Rightarrow> u32 \<Rightarrow> u32" where
  "dt3k_ns_to_timer timer_base nanosec mode = dt3k_search [0..<16] timer_base nanosec mode"

definition dt3k_ai_cmdtest :: "u32 \<Rightarrow> comedi_cmd \<Rightarrow> int \<times> comedi_cmd" where
  "dt3k_ai_cmdtest ai_speed = stages
     [mask_sources TRIG_NOW TRIG_TIMER TRIG_TIMER TRIG_COUNT TRIG_COUNT,
      pieces [],
      pieces
        [no_start_arg,
         only_if (\<lambda>c. scan_begin_src c = TRIG_TIMER)
           (pieces
              [min_scan_begin_arg ai_speed,
               max_scan_begin_arg 104856000]),
         only_if (\<lambda>c. convert_src c = TRIG_TIMER)
           (pieces
              [min_convert_arg ai_speed,
               max_convert_arg 52428000]),
         scan_end_is_chanlist,
         either (\<lambda>c. stop_src c = TRIG_COUNT) (max_stop_arg 0x00ffffff) no_stop_arg],
      pieces
        [only_if (\<lambda>c. scan_begin_src c = TRIG_TIMER)
           (round_scan_begin (\<lambda>c. dt3k_ns_to_timer 100 (scan_begin_arg c) (round_mode c))),
         only_if (\<lambda>c. convert_src c = TRIG_TIMER)
           (pieces
              [round_convert (\<lambda>c. dt3k_ns_to_timer 50 (convert_arg c) (round_mode c)),
               fix_if (\<lambda>c. scan_begin_src c = TRIG_TIMER \<and> scan_begin_arg c < convert_arg c * scan_end_arg c)
                 (\<lambda>c. c\<lparr>scan_begin_arg := convert_arg c * scan_end_arg c\<rparr>)])]]"

section \<open>Other boards with a clock of their own\<close>

text \<open>\<open>s626.c\<close>: 2 MHz, in signed arithmetic\<close>

definition s626_ns_to_timer :: "u32 \<Rightarrow> u32 \<Rightarrow> u32" where
  "s626_ns_to_timer nanosec mode = 500 * signed_clock_count 500 mode nanosec"

definition s626_ai_cmdtest :: "comedi_cmd \<Rightarrow> int \<times> comedi_cmd" where
  "s626_ai_cmdtest = stages
     [mask_sources ((TRIG_NOW OR TRIG_INT) OR TRIG_EXT) ((TRIG_TIMER OR TRIG_EXT) OR TRIG_FOLLOW) ((TRIG_TIMER OR TRIG_EXT) OR TRIG_NOW) TRIG_COUNT (TRIG_COUNT OR TRIG_NONE),
      pieces
        [reject_if (\<lambda>c. scan_begin_src c \<noteq> TRIG_TIMER \<and> scan_begin_src c \<noteq> TRIG_EXT \<and> scan_begin_src c \<noteq> TRIG_FOLLOW),
         reject_if (\<lambda>c. convert_src c \<noteq> TRIG_TIMER \<and> convert_src c \<noteq> TRIG_EXT \<and> convert_src c \<noteq> TRIG_NOW),
         reject_if (\<lambda>c. stop_src c \<noteq> TRIG_COUNT \<and> stop_src c \<noteq> TRIG_NONE)],
      pieces
        [fix_if (\<lambda>c. start_src c \<noteq> TRIG_EXT \<and> start_arg c \<noteq> 0)
           (\<lambda>c. c\<lparr>start_arg := 0\<rparr>),
         fix_if (\<lambda>c. start_src c = TRIG_EXT \<and> start_arg c < 0)
           (\<lambda>c. c\<lparr>start_arg := 0\<rparr>),
         fix_if (\<lambda>c. start_src c = TRIG_EXT \<and> 39 < start_arg c)
           (\<lambda>c. c\<lparr>start_arg := 39\<rparr>),
         fix_if (\<lambda>c. scan_begin_src c = TRIG_EXT \<and> scan_begin_arg c < 0)
           (\<lambda>c. c\<lparr>scan_begin_arg := 0\<rparr>),
         fix_if (\<lambda>c. scan_begin_src c = TRIG_EXT \<and> 39 < scan_begin_arg c)
           (\<lambda>c. c\<lparr>scan_begin_arg := 39\<rparr>),
         fix_if (\<lambda>c. convert_src c = TRIG_EXT \<and> convert_arg c < 0)
           (\<lambda>c. c\<lparr>convert_arg := 0\<rparr>),
         fix_if (\<lambda>c. convert_src c = TRIG_EXT \<and> 39 < convert_arg c)
           (\<lambda>c. c\<lparr>convert_arg := 39\<rparr>),
         only_if (\<lambda>c. scan_begin_src c = TRIG_TIMER)
           (pieces
              [min_scan_begin_arg 200000,
               max_scan_begin_arg 2000000000]),
         only_if (\<lambda>c. convert_src c = TRIG_TIMER)
           (pieces
              [min_convert_arg 200000,
               max_convert_arg 2000000000]),
         scan_end_is_chanlist,
         either (\<lambda>c. stop_src c = TRIG_COUNT) (max_stop_arg 0x00ffffff) no_stop_arg],
      pieces
        [only_if (\<lambda>c. scan_begin_src c = TRIG_TIMER)
           (round_scan_begin (\<lambda>c. s626_ns_to_timer (scan_begin_arg c) (round_mode c))),
         only_if (\<lambda>c. convert_src c = TRIG_TIMER)
           (pieces
              [round_convert (\<lambda>c. s626_ns_to_timer (convert_arg c) (round_mode c)),
               fix_if (\<lambda>c. scan_begin_src c = TRIG_TIMER \<and> scan_begin_arg c < convert_arg c * scan_end_arg c)
                 (\<lambda>c. c\<lparr>scan_begin_arg := convert_arg c * scan_end_arg c\<rparr>)])]]"

text \<open>\<open>rtd520.c\<close>: 8 MHz, dividing by two at least\<close>

definition rtd_ns_to_timer :: "u32 \<Rightarrow> u32 \<Rightarrow> u32" where
  "rtd_ns_to_timer nanosec mode =
     (let divider = clock_count 125 mode nanosec in 125 * (if divider <s 2 then 2 else divider))"

definition rtd_ai_cmdtest :: "comedi_cmd \<Rightarrow> int \<times> comedi_cmd" where
  "rtd_ai_cmdtest = stages
     [mask_sources TRIG_NOW (TRIG_TIMER OR TRIG_EXT) (TRIG_TIMER OR TRIG_EXT) TRIG_COUNT (TRIG_COUNT OR TRIG_NONE),
      pieces
        [reject_if (\<lambda>c. scan_begin_src c \<noteq> TRIG_TIMER \<and> scan_begin_src c \<noteq> TRIG_EXT),
         reject_if (\<lambda>c. convert_src c \<noteq> TRIG_TIMER \<and> convert_src c \<noteq> TRIG_EXT),
         reject_if (\<lambda>c. stop_src c \<noteq> TRIG_COUNT \<and> stop_src c \<noteq> TRIG_NONE)],
      pieces
        [no_start_arg,
         either (\<lambda>c. scan_begin_src c = TRIG_TIMER)
           (either (\<lambda>c. chanlist_len c = 1)
             (pieces
                [fix_if (\<lambda>c. scan_begin_arg c < 875)
                   (\<lambda>c. c\<lparr>scan_begin_arg := rtd_ns_to_timer 875 TRIG_ROUND_UP\<rparr>),
                 fix_if (\<lambda>c. 5000000 < scan_begin_arg c)
                   (\<lambda>c. c\<lparr>scan_begin_arg := rtd_ns_to_timer 5000000 TRIG_ROUND_DOWN\<rparr>)])
             (pieces
                [fix_if (\<lambda>c. scan_begin_arg c < 1625)
                   (\<lambda>c. c\<lparr>scan_begin_arg := rtd_ns_to_timer 1625 TRIG_ROUND_UP\<rparr>),
                 fix_if (\<lambda>c. 2097151875 < scan_begin_arg c)
                   (\<lambda>c. c\<lparr>scan_begin_arg := rtd_ns_to_timer 2097151875 TRIG_ROUND_DOWN\<rparr>)]))
           (max_scan_begin_arg 9),
         either (\<lambda>c. convert_src c = TRIG_TIMER)
           (either (\<lambda>c. chanlist_len c = 1)
             (pieces
                [fix_if (\<lambda>c. convert_arg c < 875)
                   (\<lambda>c. c\<lparr>convert_arg := rtd_ns_to_timer 875 TRIG_ROUND_UP\<rparr>),
                 fix_if (\<lambda>c. 5000000 < convert_arg c)
                   (\<lambda>c. c\<lparr>convert_arg := rtd_ns_to_timer 5000000 TRIG_ROUND_DOWN\<rparr>)])
             (pieces
                [fix_if (\<lambda>c. convert_arg c < 1625)
                   (\<lambda>c. c\<lparr>convert_arg := rtd_ns_to_timer 1625 TRIG_ROUND_UP\<rparr>),
                 fix_if (\<lambda>c. 2097151875 < convert_arg c)
                   (\<lambda>c. c\<lparr>convert_arg := rtd_ns_to_timer 2097151875 TRIG_ROUND_DOWN\<rparr>)]))
           (max_convert_arg 9),
         only_if (\<lambda>c. stop_src c \<noteq> TRIG_COUNT) no_stop_arg],
      pieces
        [fix_if (\<lambda>c. 128 < chanlist_len c) (\<lambda>c. c\<lparr>chanlist_len := 128\<rparr>),
         only_if (\<lambda>c. scan_begin_src c = TRIG_TIMER)
           (round_scan_begin (\<lambda>c. rtd_ns_to_timer (scan_begin_arg c) (round_mode c))),
         only_if (\<lambda>c. convert_src c = TRIG_TIMER)
           (pieces
              [round_convert (\<lambda>c. rtd_ns_to_timer (convert_arg c) (round_mode c)),
               fix_if (\<lambda>c. scan_begin_src c = TRIG_TIMER \<and> scan_begin_arg c < convert_arg c * scan_end_arg c)
                 (\<lambda>c. c\<lparr>scan_begin_arg := convert_arg c * scan_end_arg c\<rparr>)])]]"

text \<open>\<open>quatech_daqp_cs.c\<close>: 5 MHz, rounding down; \<open>MAX_SPEED\<close> is 10 us\<close>

definition daqp_ns_to_timer :: "u32 \<Rightarrow> u32 \<Rightarrow> u32" where
  "daqp_ns_to_timer ns mode = ns div 200 * 200"

definition daqp_ai_cmdtest :: "comedi_cmd \<Rightarrow> int \<times> comedi_cmd" where
  "daqp_ai_cmdtest = stages
     [mask_sources TRIG_NOW (TRIG_TIMER OR TRIG_FOLLOW) (TRIG_TIMER OR TRIG_NOW) TRIG_COUNT (TRIG_COUNT OR TRIG_NONE),
      pieces
        [reject_if (\<lambda>c. scan_begin_src c \<noteq> TRIG_TIMER \<and> scan_begin_src c \<noteq> TRIG_FOLLOW),
         reject_if (\<lambda>c. convert_src c \<noteq> TRIG_NOW \<and> convert_src c \<noteq> TRIG_TIMER),
         reject_if (\<lambda>c. scan_begin_src c = TRIG_FOLLOW \<and> convert_src c = TRIG_NOW),
         reject_if (\<lambda>c. stop_src c \<noteq> TRIG_COUNT \<and> stop_src c \<noteq> TRIG_NONE)],
      pieces
        [no_start_arg,
         fix_if (\<lambda>c. scan_begin_src c = TRIG_TIMER \<and> scan_begin_arg c < 10000)
           (\<lambda>c. c\<lparr>scan_begin_arg := 10000\<rparr>),
         reject_if (\<lambda>c. scan_begin_src c = TRIG_TIMER \<and> convert_src c = TRIG_TIMER \<and> scan_begin_arg c \<noteq> convert_arg c * scan_end_arg c),
         fix_if (\<lambda>c. convert_src c = TRIG_TIMER \<and> convert_arg c < 10000)
           (\<lambda>c. c\<lparr>convert_arg := 10000\<rparr>),
         scan_end_is_chanlist,
         either (\<lambda>c. stop_src c = TRIG_COUNT) (max_stop_arg 0x00ffffff) no_stop_arg],
      pieces
        [only_if (\<lambda>c. scan_begin_src c = TRIG_TIMER)
           (round_scan_begin (\<lambda>c. daqp_ns_to_timer (scan_begin_arg c) (round_mode c))),
         only_if (\<lambda>c. convert_src c = TRIG_TIMER)
           (round_convert (\<lambda>c. daqp_ns_to_timer (convert_arg c) (round_mode c)))]]"

text \<open>
  \<open>dmm32at.c\<close>: four conversion periods, chosen without counting an error; its timer is the trivial one of
  the example driver.
\<close>

definition dmm32at_ns_to_timer :: "u32 \<Rightarrow> u32 \<Rightarrow> u32" where
  "dmm32at_ns_to_timer ns mode = ns"

definition dmm32at_convert_arg :: "u32 \<Rightarrow> u32" where
  "dmm32at_convert_arg x =
     (if 17500 \<le> x then 20000 else if 12500 \<le> x then 15000 else if 7500 \<le> x then 10000 else 5000)"

definition dmm32at_ai_cmdtest :: "u32 \<Rightarrow> comedi_cmd \<Rightarrow> int \<times> comedi_cmd" where
  "dmm32at_ai_cmdtest n_chan = stages
     [mask_sources TRIG_NOW TRIG_TIMER TRIG_TIMER TRIG_COUNT (TRIG_COUNT OR TRIG_NONE),
      pieces
        [reject_if (\<lambda>c. scan_begin_src c \<noteq> TRIG_TIMER \<and> scan_begin_src c \<noteq> TRIG_EXT),
         reject_if (\<lambda>c. convert_src c \<noteq> TRIG_TIMER \<and> convert_src c \<noteq> TRIG_EXT),
         reject_if (\<lambda>c. stop_src c \<noteq> TRIG_COUNT \<and> stop_src c \<noteq> TRIG_NONE)],
      pieces
        [no_start_arg,
         either (\<lambda>c. scan_begin_src c = TRIG_TIMER)
           (pieces
              [min_scan_begin_arg 1000000,
               max_scan_begin_arg 1000000000])
           (max_scan_begin_arg 9),
         either (\<lambda>c. convert_src c = TRIG_TIMER)
           (quietly (\<lambda>c. c\<lparr>convert_arg := dmm32at_convert_arg (convert_arg c)\<rparr>))
           (max_convert_arg 9),
         scan_end_is_chanlist,
         either (\<lambda>c. stop_src c = TRIG_COUNT)
           (pieces
              [max_stop_arg 0xfffffff0,
               some_stop_arg])
           no_stop_arg],
      pieces
        [only_if (\<lambda>c. scan_begin_src c = TRIG_TIMER)
           (round_scan_begin (\<lambda>c. dmm32at_ns_to_timer (scan_begin_arg c) (round_mode c))),
         only_if (\<lambda>c. convert_src c = TRIG_TIMER)
           (pieces
              [round_convert (\<lambda>c. dmm32at_ns_to_timer (convert_arg c) (round_mode c)),
               fix_if (\<lambda>c. scan_begin_src c = TRIG_TIMER \<and> scan_begin_arg c < convert_arg c * scan_end_arg c)
                 (\<lambda>c. c\<lparr>scan_begin_arg := convert_arg c * scan_end_arg c\<rparr>)])],
      pieces
        [count_entries (not_consecutive n_chan), count_entries mixed_ranges]]"

text \<open>\<open>ni_atmio16d.c\<close>\<close>

definition atmio16d_ai_cmdtest :: "comedi_cmd \<Rightarrow> int \<times> comedi_cmd" where
  "atmio16d_ai_cmdtest = stages
     [mask_sources TRIG_NOW (TRIG_FOLLOW OR TRIG_TIMER) TRIG_TIMER TRIG_COUNT (TRIG_COUNT OR TRIG_NONE),
      pieces
        [reject_if (\<lambda>c. scan_begin_src c \<noteq> TRIG_FOLLOW \<and> scan_begin_src c \<noteq> TRIG_EXT \<and> scan_begin_src c \<noteq> TRIG_TIMER),
         reject_if (\<lambda>c. stop_src c \<noteq> TRIG_COUNT \<and> stop_src c \<noteq> TRIG_NONE)],
      pieces
        [no_start_arg,
         only_if (\<lambda>c. scan_begin_src c = TRIG_FOLLOW)
           no_scan_begin_arg,
         min_convert_arg 10000,
         scan_end_is_chanlist,
         only_if (\<lambda>c. stop_src c \<noteq> TRIG_COUNT)
           no_stop_arg]]"

text \<open>
  \<open>cb_das16_cs.c\<close>: the last stage rounds the scan period twice, the second time in place of the
  conversion period, and compares the conversion period with itself.
\<close>

definition das16cs_ai_cmdtest :: "comedi_cmd \<Rightarrow> int \<times> comedi_cmd" where
  "das16cs_ai_cmdtest = stages
     [mask_sources TRIG_NOW (TRIG_TIMER OR TRIG_EXT) (TRIG_TIMER OR TRIG_EXT) TRIG_COUNT (TRIG_COUNT OR TRIG_NONE),
      pieces
        [reject_if (\<lambda>c. scan_begin_src c \<noteq> TRIG_TIMER \<and> scan_begin_src c \<noteq> TRIG_EXT),
         reject_if (\<lambda>c. convert_src c \<noteq> TRIG_TIMER \<and> convert_src c \<noteq> TRIG_EXT),
         reject_if (\<lambda>c. stop_src c \<noteq> TRIG_COUNT \<and> stop_src c \<noteq> TRIG_NONE)],
      pieces
        [no_start_arg,
         either (\<lambda>c. scan_begin_src c = TRIG_TIMER)
           (pieces
              [min_scan_begin_arg 10000,
               max_scan_begin_arg 1000000000])
           (max_scan_begin_arg 9),
         either (\<lambda>c. convert_src c = TRIG_TIMER)
           (pieces
              [min_convert_arg 10000,
               max_convert_arg 1000000000])
           (max_convert_arg 9),
         scan_end_is_chanlist,
         either (\<lambda>c. stop_src c = TRIG_COUNT) (max_stop_arg 0x00ffffff) no_stop_arg],
      pieces
        [only_if (\<lambda>c. scan_begin_src c = TRIG_TIMER)
           (round_scan_begin (\<lambda>c. cascade_period 100 (0, 0) (scan_begin_arg c) (round_mode c))),
         only_if (\<lambda>c. convert_src c = TRIG_TIMER)
           (pieces
              [quietly (\<lambda>c. c\<lparr>scan_begin_arg := cascade_period 100 (0, 0) (scan_begin_arg c) (round_mode c)\<rparr>),
               fix_if (\<lambda>c. scan_begin_src c = TRIG_TIMER \<and> scan_begin_arg c < convert_arg c * scan_end_arg c)
                 (\<lambda>c. c\<lparr>scan_begin_arg := convert_arg c * scan_end_arg c\<rparr>)])]]"

text \<open>\<open>me_daq.c\<close> tests nothing.\<close>

definition me_ai_do_cmd_test :: "comedi_cmd \<Rightarrow> int \<times> comedi_cmd" where
  "me_ai_do_cmd_test = stages []"

section \<open>USB boxes\<close>

text \<open>
  \<open>usbdux.c\<close> and \<open>usbduxsigma.c\<close>: a scan per millisecond, or at high speed a scan per so many 125 us frames.
  The number of frames is the next power of two, or a table; \<open>probed\<close> says whether the box is there. The
  doubling would not end for a list of more than \<open>2 ^ 31\<close> entries, but the core lets pass at most as many
  as the box has channels; 32 steps are more than enough.
\<close>

primrec doubling :: "nat \<Rightarrow> u32 \<Rightarrow> u32 \<Rightarrow> u32" where
  "doubling 0 i n = i"
| "doubling (Suc k) i n = (if i < n then doubling k (i * 2) n else i)"

definition usbdux_frames :: "u32 \<Rightarrow> u32" where
  "usbdux_frames n = doubling 32 1 n"

definition chanToInterval :: "u32 \<Rightarrow> u32" where
  "chanToInterval n = (if n \<le>s 2 then 2 else if n \<le>s 8 then 4 else 8)"

definition whole :: "u32 \<Rightarrow> u32 \<Rightarrow> u32" where
  "whole unit x = x div unit * unit"

definition usbdux_ai_cmdtest_stages :: "bool \<Rightarrow> comedi_cmd \<Rightarrow> int \<times> comedi_cmd" where
  "usbdux_ai_cmdtest_stages high_speed = stages
     [mask_sources (TRIG_NOW OR TRIG_INT) TRIG_TIMER TRIG_NOW TRIG_COUNT (TRIG_COUNT OR TRIG_NONE),
      pieces
        [reject_if (\<lambda>c. scan_begin_src c \<noteq> TRIG_FOLLOW \<and> scan_begin_src c \<noteq> TRIG_EXT \<and> scan_begin_src c \<noteq> TRIG_TIMER),
         reject_if (\<lambda>c. stop_src c \<noteq> TRIG_COUNT \<and> stop_src c \<noteq> TRIG_NONE)],
      pieces
        [no_start_arg,
         only_if (\<lambda>c. scan_begin_src c = TRIG_FOLLOW) no_scan_begin_arg,
         only_if (\<lambda>c. scan_begin_src c = TRIG_TIMER)
           (if high_speed then pieces
              [fix_if (\<lambda>c. scan_begin_arg c < 125000 * usbdux_frames (chanlist_len c))
                 (\<lambda>c. c\<lparr>scan_begin_arg := 125000 * usbdux_frames (chanlist_len c)\<rparr>),
               fix_if (\<lambda>c. scan_begin_arg c \<noteq> whole 125000 (scan_begin_arg c))
                 (\<lambda>c. c\<lparr>scan_begin_arg := whole 125000 (scan_begin_arg c)\<rparr>)]
            else pieces
              [min_scan_begin_arg 1000000,
               fix_if (\<lambda>c. scan_begin_arg c \<noteq> whole 1000000 (scan_begin_arg c))
                 (\<lambda>c. c\<lparr>scan_begin_arg := whole 1000000 (scan_begin_arg c)\<rparr>)]),
         scan_end_is_chanlist,
         only_if (\<lambda>c. stop_src c \<noteq> TRIG_COUNT) no_stop_arg]]"

definition usbdux_ai_cmdtest :: "bool \<Rightarrow> bool \<Rightarrow> comedi_cmd \<Rightarrow> int \<times> comedi_cmd" where
  "usbdux_ai_cmdtest probed high_speed c = (if probed then usbdux_ai_cmdtest_stages high_speed c else (- ENODEV, c))"

definition usbdux_ao_cmdtest_stages :: "comedi_cmd \<Rightarrow> int \<times> comedi_cmd" where
  "usbdux_ao_cmdtest_stages = stages
     [mask_sources (TRIG_NOW OR TRIG_INT) TRIG_TIMER TRIG_NOW TRIG_COUNT (TRIG_COUNT OR TRIG_NONE),
      pieces
        [reject_if (\<lambda>c. scan_begin_src c \<noteq> TRIG_FOLLOW \<and> scan_begin_src c \<noteq> TRIG_EXT \<and> scan_begin_src c \<noteq> TRIG_TIMER),
         reject_if (\<lambda>c. stop_src c \<noteq> TRIG_COUNT \<and> stop_src c \<noteq> TRIG_NONE)],
      pieces
        [no_start_arg,
         only_if (\<lambda>c. scan_begin_src c = TRIG_FOLLOW)
           no_scan_begin_arg,
         only_if (\<lambda>c. scan_begin_src c = TRIG_TIMER)
           (min_scan_begin_arg 1000000),
         only_if (\<lambda>c. convert_src c = TRIG_TIMER)
           (min_convert_arg 125000),
         scan_end_is_chanlist,
         only_if (\<lambda>c. stop_src c \<noteq> TRIG_COUNT)
           no_stop_arg]]"

definition usbdux_ao_cmdtest :: "bool \<Rightarrow> comedi_cmd \<Rightarrow> int \<times> comedi_cmd" where
  "usbdux_ao_cmdtest probed c = (if probed then usbdux_ao_cmdtest_stages c else (- ENODEV, c))"

definition usbduxsigma_ai_cmdtest_stages :: "bool \<Rightarrow> comedi_cmd \<Rightarrow> int \<times> comedi_cmd" where
  "usbduxsigma_ai_cmdtest_stages high_speed = stages
     [mask_sources (TRIG_NOW OR TRIG_INT) TRIG_TIMER TRIG_NOW TRIG_COUNT (TRIG_COUNT OR TRIG_NONE),
      pieces
        [reject_if (\<lambda>c. scan_begin_src c \<noteq> TRIG_FOLLOW \<and> scan_begin_src c \<noteq> TRIG_EXT \<and> scan_begin_src c \<noteq> TRIG_TIMER),
         reject_if (\<lambda>c. stop_src c \<noteq> TRIG_COUNT \<and> stop_src c \<noteq> TRIG_NONE)],
      pieces
        [no_start_arg,
         only_if (\<lambda>c. scan_begin_src c = TRIG_FOLLOW) no_scan_begin_arg,
         only_if (\<lambda>c. scan_begin_src c = TRIG_TIMER)
           (if high_speed then pieces
              [fix_if (\<lambda>c. scan_begin_arg c < 125000 * chanToInterval (chanlist_len c))
                 (\<lambda>c. c\<lparr>scan_begin_arg := 125000 * chanToInterval (chanlist_len c)\<rparr>),
               fix_if (\<lambda>c. scan_begin_arg c \<noteq> whole 125000 (scan_begin_arg c))
                 (\<lambda>c. c\<lparr>scan_begin_arg := whole 125000 (scan_begin_arg c)\<rparr>)]
            else pieces
              [min_scan_begin_arg 1000000,
               fix_if (\<lambda>c. scan_begin_arg c \<noteq> whole 1000000 (scan_begin_arg c))
                 (\<lambda>c. c\<lparr>scan_begin_arg := whole 1000000 (scan_begin_arg c)\<rparr>)]),
         scan_end_is_chanlist,
         only_if (\<lambda>c. stop_src c \<noteq> TRIG_COUNT) no_stop_arg]]"

definition usbduxsigma_ai_cmdtest :: "bool \<Rightarrow> bool \<Rightarrow> comedi_cmd \<Rightarrow> int \<times> comedi_cmd" where
  "usbduxsigma_ai_cmdtest probed high_speed c = (if probed then usbduxsigma_ai_cmdtest_stages high_speed c else (- ENODEV, c))"

definition usbduxsigma_ao_cmdtest_stages :: "comedi_cmd \<Rightarrow> int \<times> comedi_cmd" where
  "usbduxsigma_ao_cmdtest_stages = stages
     [mask_sources (TRIG_NOW OR TRIG_INT) TRIG_TIMER TRIG_NOW TRIG_COUNT (TRIG_COUNT OR TRIG_NONE),
      pieces
        [reject_if (\<lambda>c. scan_begin_src c \<noteq> TRIG_FOLLOW \<and> scan_begin_src c \<noteq> TRIG_EXT \<and> scan_begin_src c \<noteq> TRIG_TIMER),
         reject_if (\<lambda>c. stop_src c \<noteq> TRIG_COUNT \<and> stop_src c \<noteq> TRIG_NONE)],
      pieces
        [no_start_arg,
         only_if (\<lambda>c. scan_begin_src c = TRIG_FOLLOW)
           no_scan_begin_arg,
         only_if (\<lambda>c. scan_begin_src c = TRIG_TIMER)
           (min_scan_begin_arg 1000000),
         only_if (\<lambda>c. convert_src c = TRIG_TIMER)
           (min_convert_arg 125000),
         scan_end_is_chanlist,
         only_if (\<lambda>c. stop_src c \<noteq> TRIG_COUNT)
           no_stop_arg]]"

definition usbduxsigma_ao_cmdtest :: "bool \<Rightarrow> comedi_cmd \<Rightarrow> int \<times> comedi_cmd" where
  "usbduxsigma_ao_cmdtest probed c = (if probed then usbduxsigma_ao_cmdtest_stages c else (- ENODEV, c))"

text \<open>
  \<open>usbduxfast.c\<close>: conversion periods in steps of 1/30 us (from 1 or 9 steps up to 500), in 64-bit
  arithmetic from the 32-bit product; a timer for the scans is always refused.
\<close>

definition usbduxfast_convert_arg :: "u32 \<Rightarrow> u32 \<Rightarrow> u32" where
  "usbduxfast_convert_arg len arg =
     (let steps = uint (arg * 30);
          steps = (if steps < (if len = 1 then 1000 else 9000) then (if len = 1 then 1000 else 9000) else steps);
          steps = (if 500000 < steps then 500000 else steps)
      in of_int (steps div 30))"

definition usbduxfast_ai_cmdtest_stages :: "comedi_cmd \<Rightarrow> int \<times> comedi_cmd" where
  "usbduxfast_ai_cmdtest_stages = stages
     [mask_sources (TRIG_NOW OR TRIG_EXT OR TRIG_INT) (TRIG_TIMER OR TRIG_FOLLOW OR TRIG_EXT) (TRIG_TIMER OR TRIG_EXT)
        TRIG_COUNT (TRIG_COUNT OR TRIG_NONE),
      pieces
        [reject_if (\<lambda>c. start_src c \<noteq> TRIG_NOW \<and> start_src c \<noteq> TRIG_EXT \<and> start_src c \<noteq> TRIG_INT),
         reject_if (\<lambda>c. scan_begin_src c \<noteq> TRIG_TIMER \<and> scan_begin_src c \<noteq> TRIG_FOLLOW \<and> scan_begin_src c \<noteq> TRIG_EXT),
         reject_if (\<lambda>c. convert_src c \<noteq> TRIG_TIMER \<and> convert_src c \<noteq> TRIG_EXT),
         reject_if (\<lambda>c. stop_src c \<noteq> TRIG_COUNT \<and> stop_src c \<noteq> TRIG_EXT \<and> stop_src c \<noteq> TRIG_NONE),
         reject_if (\<lambda>c. start_src c = TRIG_EXT \<and> stop_src c = TRIG_EXT)],
      pieces
        [fix_if (\<lambda>c. start_src c = TRIG_NOW \<and> start_arg c \<noteq> 0)
           (\<lambda>c. c\<lparr>start_arg := 0\<rparr>),
         reject_if (\<lambda>c. chanlist_len c = 0),
         scan_end_is_chanlist,
         only_if (\<lambda>c. convert_src c = TRIG_TIMER)
           (round_convert (\<lambda>c. usbduxfast_convert_arg (chanlist_len c) (convert_arg c))),
         reject_if (\<lambda>c. scan_begin_src c = TRIG_TIMER),
         either (\<lambda>c. stop_src c = TRIG_COUNT)
           some_stop_arg
           (only_if (\<lambda>c. stop_src c = TRIG_NONE) no_stop_arg)]]"

definition usbduxfast_ai_cmdtest :: "bool \<Rightarrow> comedi_cmd \<Rightarrow> int \<times> comedi_cmd" where
  "usbduxfast_ai_cmdtest probed c = (if probed then usbduxfast_ai_cmdtest_stages c else (- ENODEV, c))"

section \<open>The contract\<close>

interpretation skel: command_test skel_ai_cmdtest
  by (rule command_testI[OF skel_ai_cmdtest_def]) (simp_all add: good_intros same_frame_def)

interpretation dt2814: command_test dt2814_ai_cmdtest
  by (rule command_testI[OF dt2814_ai_cmdtest_def]) (simp_all add: good_intros same_frame_def)

interpretation dt282x_ai: command_test "dt282x_ai_cmdtest ai_speed" for ai_speed
  by (rule command_testI[OF dt282x_ai_cmdtest_def]) (simp_all add: good_intros same_frame_def)

interpretation dt282x_ao: command_test dt282x_ao_cmdtest
  by (rule command_testI[OF dt282x_ao_cmdtest_def]) (simp_all add: good_intros same_frame_def)

interpretation dt3k: command_test "dt3k_ai_cmdtest ai_speed" for ai_speed
  by (rule command_testI[OF dt3k_ai_cmdtest_def]) (simp_all add: good_intros same_frame_def)

interpretation s626: command_test s626_ai_cmdtest
  by (rule command_testI[OF s626_ai_cmdtest_def]) (simp_all add: good_intros same_frame_def)

interpretation rtd: command_test rtd_ai_cmdtest
  by (rule command_testI[OF rtd_ai_cmdtest_def]) (simp_all add: good_intros same_frame_def)

interpretation daqp: command_test daqp_ai_cmdtest
  by (rule command_testI[OF daqp_ai_cmdtest_def]) (simp_all add: good_intros same_frame_def)

interpretation atmio16d: command_test atmio16d_ai_cmdtest
  by (rule command_testI[OF atmio16d_ai_cmdtest_def]) (simp_all add: good_intros same_frame_def)

interpretation me_daq: command_test me_ai_do_cmd_test
  by (rule command_testI[OF me_ai_do_cmd_test_def]) (simp_all add: good_intros same_frame_def)

text \<open>The boxes keep the contract while they are there.\<close>

lemma usbdux_ai_cmdtest_probed: "usbdux_ai_cmdtest True high_speed = usbdux_ai_cmdtest_stages high_speed"
  by (rule ext) (simp add: usbdux_ai_cmdtest_def)

interpretation usbdux_ai: command_test "usbdux_ai_cmdtest True high_speed" for high_speed
  by (rule command_testI[OF trans[OF usbdux_ai_cmdtest_probed usbdux_ai_cmdtest_stages_def]]) (simp_all add: good_intros same_frame_def)

lemma usbdux_ao_cmdtest_probed: "usbdux_ao_cmdtest True = usbdux_ao_cmdtest_stages"
  by (rule ext) (simp add: usbdux_ao_cmdtest_def)

interpretation usbdux_ao: command_test "usbdux_ao_cmdtest True"
  by (rule command_testI[OF trans[OF usbdux_ao_cmdtest_probed usbdux_ao_cmdtest_stages_def]]) (simp_all add: good_intros same_frame_def)

lemma usbduxsigma_ai_cmdtest_probed: "usbduxsigma_ai_cmdtest True high_speed = usbduxsigma_ai_cmdtest_stages high_speed"
  by (rule ext) (simp add: usbduxsigma_ai_cmdtest_def)

interpretation usbduxsigma_ai: command_test "usbduxsigma_ai_cmdtest True high_speed" for high_speed
  by (rule command_testI[OF trans[OF usbduxsigma_ai_cmdtest_probed usbduxsigma_ai_cmdtest_stages_def]]) (simp_all add: good_intros same_frame_def)

lemma usbduxsigma_ao_cmdtest_probed: "usbduxsigma_ao_cmdtest True = usbduxsigma_ao_cmdtest_stages"
  by (rule ext) (simp add: usbduxsigma_ao_cmdtest_def)

interpretation usbduxsigma_ao: command_test "usbduxsigma_ao_cmdtest True"
  by (rule command_testI[OF trans[OF usbduxsigma_ao_cmdtest_probed usbduxsigma_ao_cmdtest_stages_def]]) (simp_all add: good_intros same_frame_def)

lemma usbduxfast_ai_cmdtest_probed: "usbduxfast_ai_cmdtest True = usbduxfast_ai_cmdtest_stages"
  by (rule ext) (simp add: usbduxfast_ai_cmdtest_def)

interpretation usbduxfast_ai: command_test "usbduxfast_ai_cmdtest True"
  by (rule command_testI[OF trans[OF usbduxfast_ai_cmdtest_probed usbduxfast_ai_cmdtest_stages_def]]) (simp_all add: good_intros same_frame_def)

end
