(* ===== verification/Cascade_Commands.thy ===== *)
theory Cascade_Commands
  imports Command_Rounding
begin

text \<open>
  The command tests of the boards that pace their conversions with two cascaded counters of an 8254. The
  dividers that the board remembers are an argument; the drivers that keep new ones return them too.
\<close>

unbundle bit_operations_syntax

section \<open>Advantech PCL boards\<close>

text \<open>\<open>pcl711.c\<close>\<close>

definition pcl711_test :: "u32 \<times> u32 \<Rightarrow> comedi_cmd \<Rightarrow> int \<times> comedi_cmd" where
  "pcl711_test d = stages
     [mask_sources TRIG_NOW (TRIG_TIMER OR TRIG_EXT) TRIG_NOW TRIG_COUNT (TRIG_COUNT OR TRIG_NONE),
      pieces
        [reject_if (\<lambda>c. scan_begin_src c \<noteq> TRIG_TIMER \<and> scan_begin_src c \<noteq> TRIG_EXT),
         reject_if (\<lambda>c. stop_src c \<noteq> TRIG_COUNT \<and> stop_src c \<noteq> TRIG_NONE)],
      pieces
        [no_start_arg,
         either (\<lambda>c. scan_begin_src c = TRIG_EXT) no_scan_begin_arg (min_scan_begin_arg 1000),
         no_convert_arg,
         scan_end_is_chanlist,
         only_if (\<lambda>c. stop_src c = TRIG_NONE)
           no_stop_arg],
      only_if (\<lambda>c. scan_begin_src c = TRIG_TIMER)
        (round_scan_begin (\<lambda>c. cascade_period 100 d (scan_begin_arg c) (round_mode c)))]"

definition pcl711_ai_cmdtest :: "u32 \<times> u32 \<Rightarrow> comedi_cmd \<Rightarrow> (int \<times> comedi_cmd) \<times> (u32 \<times> u32)" where
  "pcl711_ai_cmdtest d = storing (pcl711_test d)
     (\<lambda>d c. if scan_begin_src c = TRIG_TIMER then cascade_dividers 100 d (scan_begin_arg c) (round_mode c) else d) d"

text \<open>\<open>pcl812.c\<close>: the dividers it hands to the search are uninitialised, \<open>junk\<close>.\<close>

definition pcl812_ai_cmdtest :: "u32 \<times> u32 \<Rightarrow> u32 \<Rightarrow> u32 \<Rightarrow> bool \<Rightarrow> comedi_cmd \<Rightarrow> int \<times> comedi_cmd" where
  "pcl812_ai_cmdtest junk osc ai_ns_min use_ext_trg = stages
     [mask_sources TRIG_NOW TRIG_FOLLOW (if use_ext_trg then TRIG_EXT else TRIG_TIMER) TRIG_COUNT (TRIG_COUNT OR TRIG_NONE),
      pieces
        [fix_if (\<lambda>c. start_src c \<noteq> TRIG_NOW) (\<lambda>c. c\<lparr>start_src := TRIG_NOW\<rparr>),
         fix_if (\<lambda>c. scan_begin_src c \<noteq> TRIG_FOLLOW)
           (\<lambda>c. c\<lparr>scan_begin_src := TRIG_FOLLOW\<rparr>),
         either (\<lambda>_. use_ext_trg)
           (fix_if (\<lambda>c. convert_src c \<noteq> TRIG_EXT) (\<lambda>c. c\<lparr>convert_src := TRIG_EXT\<rparr>))
           (fix_if (\<lambda>c. convert_src c \<noteq> TRIG_TIMER)
             (\<lambda>c. c\<lparr>convert_src := TRIG_TIMER\<rparr>)),
         fix_if (\<lambda>c. scan_end_src c \<noteq> TRIG_COUNT)
           (\<lambda>c. c\<lparr>scan_end_src := TRIG_COUNT\<rparr>),
         reject_if (\<lambda>c. stop_src c \<noteq> TRIG_NONE \<and> stop_src c \<noteq> TRIG_COUNT)],
      pieces
        [no_start_arg,
         no_scan_begin_arg,
         either (\<lambda>c. convert_src c = TRIG_TIMER) (min_convert_arg ai_ns_min) no_convert_arg,
         scan_end_is_chanlist,
         either (\<lambda>c. stop_src c = TRIG_COUNT) some_stop_arg no_stop_arg],
      only_if (\<lambda>c. convert_src c = TRIG_TIMER)
        (round_convert (\<lambda>c. at_least ai_ns_min (cascade_period osc junk (convert_arg c) (round_mode c))))]"

text \<open>
  \<open>pcl816.c\<close> and \<open>pcl818.c\<close>: the channels of the list count upwards; the first takes them modulo the length
  of the list instead of the number of channels.
\<close>

definition pcl816_check_channel_list :: "u32 list \<Rightarrow> nat" where
  "pcl816_check_channel_list xs =
     segment_length (\<lambda>prev x. (CR_CHAN prev + 1) mod of_nat (length xs) = CR_CHAN x) xs"

definition pcl818_check_channel_list :: "u32 \<Rightarrow> u32 list \<Rightarrow> nat" where
  "pcl818_check_channel_list n_chan xs =
     segment_length (\<lambda>prev x. (CR_CHAN prev + 1) mod n_chan = CR_CHAN x) xs"

definition pcl816_ai_cmdtest :: "u32 \<Rightarrow> u32 \<Rightarrow> comedi_cmd \<Rightarrow> int \<times> comedi_cmd" where
  "pcl816_ai_cmdtest osc ai_ns_min = stages
     [mask_sources TRIG_NOW TRIG_FOLLOW (TRIG_EXT OR TRIG_TIMER) TRIG_COUNT (TRIG_COUNT OR TRIG_NONE),
      pieces
        [fix_if (\<lambda>c. start_src c \<noteq> TRIG_NOW) (\<lambda>c. c\<lparr>start_src := TRIG_NOW\<rparr>),
         fix_if (\<lambda>c. scan_begin_src c \<noteq> TRIG_FOLLOW)
           (\<lambda>c. c\<lparr>scan_begin_src := TRIG_FOLLOW\<rparr>),
         fix_if (\<lambda>c. convert_src c \<noteq> TRIG_EXT \<and> convert_src c \<noteq> TRIG_TIMER)
           (\<lambda>c. c\<lparr>convert_src := TRIG_TIMER\<rparr>),
         fix_if (\<lambda>c. scan_end_src c \<noteq> TRIG_COUNT)
           (\<lambda>c. c\<lparr>scan_end_src := TRIG_COUNT\<rparr>),
         reject_if (\<lambda>c. stop_src c \<noteq> TRIG_NONE \<and> stop_src c \<noteq> TRIG_COUNT)],
      pieces
        [no_start_arg,
         no_scan_begin_arg,
         either (\<lambda>c. convert_src c = TRIG_TIMER) (min_convert_arg ai_ns_min) no_convert_arg,
         scan_end_is_chanlist,
         either (\<lambda>c. stop_src c = TRIG_COUNT) some_stop_arg no_stop_arg],
      only_if (\<lambda>c. convert_src c = TRIG_TIMER)
        (round_convert (\<lambda>c. at_least ai_ns_min (cascade_period osc (0, 0) (convert_arg c) (round_mode c)))),
      refuse_list (\<lambda>xs. pcl816_check_channel_list xs = 0)]"

definition pcl818_ai_cmdtest :: "u32 \<Rightarrow> u32 \<Rightarrow> u32 \<Rightarrow> comedi_cmd \<Rightarrow> int \<times> comedi_cmd" where
  "pcl818_ai_cmdtest osc ns_min n_chan = stages
     [mask_sources TRIG_NOW TRIG_FOLLOW (TRIG_TIMER OR TRIG_EXT) TRIG_COUNT (TRIG_COUNT OR TRIG_NONE),
      pieces
        [fix_if (\<lambda>c. start_src c \<noteq> TRIG_NOW) (\<lambda>c. c\<lparr>start_src := TRIG_NOW\<rparr>),
         fix_if (\<lambda>c. scan_begin_src c \<noteq> TRIG_FOLLOW)
           (\<lambda>c. c\<lparr>scan_begin_src := TRIG_FOLLOW\<rparr>),
         reject_if (\<lambda>c. convert_src c \<noteq> TRIG_TIMER \<and> convert_src c \<noteq> TRIG_EXT),
         fix_if (\<lambda>c. scan_end_src c \<noteq> TRIG_COUNT)
           (\<lambda>c. c\<lparr>scan_end_src := TRIG_COUNT\<rparr>),
         reject_if (\<lambda>c. stop_src c \<noteq> TRIG_NONE \<and> stop_src c \<noteq> TRIG_COUNT)],
      pieces
        [no_start_arg,
         no_scan_begin_arg,
         either (\<lambda>c. convert_src c = TRIG_TIMER) (min_convert_arg ns_min) no_convert_arg,
         scan_end_is_chanlist,
         either (\<lambda>c. stop_src c = TRIG_COUNT) some_stop_arg no_stop_arg],
      only_if (\<lambda>c. convert_src c = TRIG_TIMER)
        (round_convert (\<lambda>c. at_least ns_min (cascade_period osc (0, 0) (convert_arg c) (round_mode c)))),
      refuse_list (\<lambda>xs. pcl818_check_channel_list n_chan xs = 0)]"

text \<open>\<open>adv_pci1710.c\<close>: differential channels take two inputs.\<close>

definition pci171x_next_ok :: "u32 \<Rightarrow> u32 \<Rightarrow> u32 \<Rightarrow> bool" where
  "pci171x_next_ok n_chan prev x \<longleftrightarrow>
     \<not> (CR_CHAN x AND 1 \<noteq> 0 \<and> CR_AREF x = AREF_DIFF) \<and>
     (let next_chan = (CR_CHAN prev + 1) mod n_chan;
          next_chan = (if CR_AREF prev = AREF_DIFF then (next_chan + 1) mod n_chan else next_chan)
      in next_chan = CR_CHAN x)"

definition pci171x_check_channel_list :: "u32 \<Rightarrow> u32 list \<Rightarrow> nat" where
  "pci171x_check_channel_list n_chan xs = segment_length (pci171x_next_ok n_chan) xs"

definition pci171x_ai_cmdtest :: "u32 \<Rightarrow> u32 \<Rightarrow> u32 \<Rightarrow> comedi_cmd \<Rightarrow> int \<times> comedi_cmd" where
  "pci171x_ai_cmdtest osc ai_ns_min n_chan = stages
     [mask_sources (TRIG_NOW OR TRIG_EXT) TRIG_FOLLOW (TRIG_TIMER OR TRIG_EXT) TRIG_COUNT (TRIG_COUNT OR TRIG_NONE),
      pieces
        [fix_if (\<lambda>c. start_src c \<noteq> TRIG_NOW \<and> start_src c \<noteq> TRIG_EXT)
           (\<lambda>c. c\<lparr>start_src := TRIG_NOW\<rparr>),
         fix_if (\<lambda>c. scan_begin_src c \<noteq> TRIG_FOLLOW)
           (\<lambda>c. c\<lparr>scan_begin_src := TRIG_FOLLOW\<rparr>),
         reject_if (\<lambda>c. convert_src c \<noteq> TRIG_TIMER \<and> convert_src c \<noteq> TRIG_EXT),
         fix_if (\<lambda>c. scan_end_src c \<noteq> TRIG_COUNT)
           (\<lambda>c. c\<lparr>scan_end_src := TRIG_COUNT\<rparr>),
         reject_if (\<lambda>c. stop_src c \<noteq> TRIG_NONE \<and> stop_src c \<noteq> TRIG_COUNT)],
      pieces
        [no_start_arg,
         no_scan_begin_arg,
         either (\<lambda>c. convert_src c = TRIG_TIMER) (min_convert_arg ai_ns_min) no_convert_arg,
         scan_end_is_chanlist,
         either (\<lambda>c. stop_src c = TRIG_COUNT) some_stop_arg no_stop_arg],
      only_if (\<lambda>c. convert_src c = TRIG_TIMER)
        (round_convert (\<lambda>c. at_least ai_ns_min (cascade_period osc (0, 0) (convert_arg c) (round_mode c)))),
      refuse_list (\<lambda>xs. pci171x_check_channel_list n_chan xs = 0)]"

section \<open>Measurement Computing boards\<close>

text \<open>
  \<open>das16.c\<close>: boards with a large i/o region can also take whole scans. Both periods go through the same
  dividers, one after the other; stage 2 lets only one of them be timed.
\<close>

definition das16_test :: "bool \<Rightarrow> u32 \<Rightarrow> u32 \<Rightarrow> u32 \<Rightarrow> u32 \<times> u32 \<Rightarrow> comedi_cmd \<Rightarrow> int \<times> comedi_cmd" where
  "das16_test large clockbase ai_speed n_chan d = stages
     [mask_sources TRIG_NOW (if large then TRIG_FOLLOW OR TRIG_TIMER OR TRIG_EXT else TRIG_FOLLOW)
        (if large then TRIG_TIMER OR TRIG_EXT OR TRIG_NOW else TRIG_TIMER OR TRIG_EXT)
        TRIG_COUNT (TRIG_COUNT OR TRIG_NONE),
      pieces
        [reject_if (\<lambda>c. scan_begin_src c \<noteq> TRIG_TIMER \<and> scan_begin_src c \<noteq> TRIG_EXT \<and> scan_begin_src c \<noteq> TRIG_FOLLOW),
         reject_if (\<lambda>c. convert_src c \<noteq> TRIG_TIMER \<and> convert_src c \<noteq> TRIG_EXT \<and> convert_src c \<noteq> TRIG_NOW),
         reject_if (\<lambda>c. stop_src c \<noteq> TRIG_NONE \<and> stop_src c \<noteq> TRIG_COUNT),
         reject_if (\<lambda>c. scan_begin_src c = TRIG_FOLLOW \<and> convert_src c = TRIG_NOW),
         reject_if (\<lambda>c. scan_begin_src c \<noteq> TRIG_FOLLOW \<and> convert_src c \<noteq> TRIG_NOW)],
      pieces
        [no_start_arg,
         only_if (\<lambda>c. scan_begin_src c = TRIG_FOLLOW)
           no_scan_begin_arg,
         scan_end_is_chanlist,
         only_if (\<lambda>c. scan_begin_src c = TRIG_TIMER)
           (fix_if (\<lambda>c. scan_begin_arg c < ai_speed * chanlist_len c)
             (\<lambda>c. c\<lparr>scan_begin_arg := ai_speed * chanlist_len c\<rparr>)),
         only_if (\<lambda>c. convert_src c = TRIG_TIMER)
           (min_convert_arg ai_speed),
         only_if (\<lambda>c. stop_src c = TRIG_NONE)
           no_stop_arg],
      carrying (\<lambda>c. if scan_begin_src c = TRIG_TIMER then cascade_dividers clockbase d (scan_begin_arg c) (round_mode c) else d)
        (\<lambda>d'. pieces
           [only_if (\<lambda>c. scan_begin_src c = TRIG_TIMER)
              (round_scan_begin (\<lambda>c. cascade_period clockbase d (scan_begin_arg c) (round_mode c))),
            only_if (\<lambda>c. convert_src c = TRIG_TIMER)
              (round_convert (\<lambda>c. cascade_period clockbase d' (convert_arg c) (round_mode c)))]),
      pieces
        [count_entries (not_consecutive n_chan), count_entries mixed_ranges]]"

definition das16_cmd_test ::
  "bool \<Rightarrow> u32 \<Rightarrow> u32 \<Rightarrow> u32 \<Rightarrow> u32 \<times> u32 \<Rightarrow> comedi_cmd \<Rightarrow> (int \<times> comedi_cmd) \<times> (u32 \<times> u32)" where
  "das16_cmd_test large clockbase ai_speed n_chan d = storing (das16_test large clockbase ai_speed n_chan d)
     (\<lambda>d c. let d = (if scan_begin_src c = TRIG_TIMER then cascade_dividers clockbase d (scan_begin_arg c) (round_mode c) else d)
       in if convert_src c = TRIG_TIMER then cascade_dividers clockbase d (convert_arg c) (round_mode c) else d) d"

text \<open>\<open>das16m1.c\<close>: even channels at even places of the list, odd ones at odd places\<close>

definition das16m1_test :: "u32 \<Rightarrow> u32 \<times> u32 \<Rightarrow> comedi_cmd \<Rightarrow> int \<times> comedi_cmd" where
  "das16m1_test ai_speed d = stages
     [mask_sources (TRIG_NOW OR TRIG_EXT) TRIG_FOLLOW (TRIG_TIMER OR TRIG_EXT) TRIG_COUNT (TRIG_COUNT OR TRIG_NONE),
      pieces
        [reject_if (\<lambda>c. stop_src c \<noteq> TRIG_COUNT \<and> stop_src c \<noteq> TRIG_NONE),
         reject_if (\<lambda>c. start_src c \<noteq> TRIG_NOW \<and> start_src c \<noteq> TRIG_EXT),
         reject_if (\<lambda>c. convert_src c \<noteq> TRIG_TIMER \<and> convert_src c \<noteq> TRIG_EXT)],
      pieces
        [no_start_arg,
         only_if (\<lambda>c. scan_begin_src c = TRIG_FOLLOW)
           no_scan_begin_arg,
         only_if (\<lambda>c. convert_src c = TRIG_TIMER)
           (min_convert_arg ai_speed),
         scan_end_is_chanlist,
         only_if (\<lambda>c. stop_src c \<noteq> TRIG_COUNT)
           no_stop_arg],
      only_if (\<lambda>c. convert_src c = TRIG_TIMER)
        (round_convert (\<lambda>c. cascade_period 100 d (convert_arg c) (round_mode c))),
      only_if (\<lambda>c. 1 < chanlist_len c)
        (count_entries (\<lambda>xs. length (filter (\<lambda>i. of_nat i mod 2 \<noteq> CR_CHAN (xs ! i) mod 2) [0..<length xs]) + length xs mod 2))]"

definition das16m1_cmd_test ::
  "u32 \<Rightarrow> u32 \<times> u32 \<Rightarrow> comedi_cmd \<Rightarrow> (int \<times> comedi_cmd) \<times> (u32 \<times> u32)" where
  "das16m1_cmd_test ai_speed d = storing (das16m1_test ai_speed d)
     (\<lambda>d c. if convert_src c = TRIG_TIMER then cascade_dividers 100 d (convert_arg c) (round_mode c) else d) d"

text \<open>\<open>das800.c\<close>: eight channels\<close>

definition das800_test :: "u32 \<Rightarrow> u32 \<times> u32 \<Rightarrow> comedi_cmd \<Rightarrow> int \<times> comedi_cmd" where
  "das800_test ai_speed d = stages
     [mask_sources (TRIG_NOW OR TRIG_EXT) TRIG_FOLLOW (TRIG_TIMER OR TRIG_EXT) TRIG_COUNT (TRIG_COUNT OR TRIG_NONE),
      pieces
        [reject_if (\<lambda>c. start_src c \<noteq> TRIG_NOW \<and> start_src c \<noteq> TRIG_EXT),
         reject_if (\<lambda>c. convert_src c \<noteq> TRIG_TIMER \<and> convert_src c \<noteq> TRIG_EXT),
         reject_if (\<lambda>c. stop_src c \<noteq> TRIG_COUNT \<and> stop_src c \<noteq> TRIG_NONE)],
      pieces
        [no_start_arg,
         only_if (\<lambda>c. convert_src c = TRIG_TIMER)
           (min_convert_arg ai_speed),
         some_channels,
         scan_end_is_chanlist,
         either (\<lambda>c. stop_src c = TRIG_COUNT) some_stop_arg no_stop_arg],
      only_if (\<lambda>c. convert_src c = TRIG_TIMER)
        (round_convert (\<lambda>c. cascade_period 1000 d (convert_arg c) (round_mode c))),
      pieces
        [count_entries (not_consecutive 8), count_entries mixed_ranges]]"

definition das800_ai_do_cmdtest ::
  "u32 \<Rightarrow> u32 \<times> u32 \<Rightarrow> comedi_cmd \<Rightarrow> (int \<times> comedi_cmd) \<times> (u32 \<times> u32)" where
  "das800_ai_do_cmdtest ai_speed d = storing (das800_test ai_speed d)
     (\<lambda>d c. if convert_src c = TRIG_TIMER then cascade_dividers 1000 d (convert_arg c) (round_mode c) else d) d"

text \<open>
  \<open>das1800.c\<close>: in bursts, the conversions of a scan are whole microseconds apart, 64 at most. Ranges are all
  unipolar or all bipolar; the check stops at the first that is not.
\<close>

definition burst_convert_arg :: "u32 \<Rightarrow> u32 \<Rightarrow> u32" where
  "burst_convert_arg arg mode =
     (let arg = (if 64000 < arg then 64000 else arg);
          micro_sec = (if mode = TRIG_ROUND_DOWN then arg div 1000
                       else if mode = TRIG_ROUND_UP then (arg - 1) div 1000 + 1
                       else (arg + 500) div 1000)
      in micro_sec * 1000)"

definition das1800_test :: "u32 \<Rightarrow> u32 \<times> u32 \<Rightarrow> comedi_cmd \<Rightarrow> int \<times> comedi_cmd" where
  "das1800_test ai_speed d = stages
     [mask_sources (TRIG_NOW OR TRIG_EXT) ((TRIG_FOLLOW OR TRIG_TIMER) OR TRIG_EXT) (TRIG_TIMER OR TRIG_EXT) TRIG_COUNT ((TRIG_COUNT OR TRIG_EXT) OR TRIG_NONE),
      pieces
        [reject_if (\<lambda>c. start_src c \<noteq> TRIG_NOW \<and> start_src c \<noteq> TRIG_EXT),
         reject_if (\<lambda>c. scan_begin_src c \<noteq> TRIG_FOLLOW \<and> scan_begin_src c \<noteq> TRIG_TIMER \<and> scan_begin_src c \<noteq> TRIG_EXT),
         reject_if (\<lambda>c. convert_src c \<noteq> TRIG_TIMER \<and> convert_src c \<noteq> TRIG_EXT),
         reject_if (\<lambda>c. stop_src c \<noteq> TRIG_COUNT \<and> stop_src c \<noteq> TRIG_NONE \<and> stop_src c \<noteq> TRIG_EXT),
         reject_if (\<lambda>c. scan_begin_src c \<noteq> TRIG_FOLLOW \<and> convert_src c \<noteq> TRIG_TIMER)],
      pieces
        [no_start_arg,
         only_if (\<lambda>c. convert_src c = TRIG_TIMER)
           (min_convert_arg ai_speed),
         some_channels,
         scan_end_is_chanlist,
         either (\<lambda>c. stop_src c = TRIG_COUNT)
           some_stop_arg
           (only_if (\<lambda>c. stop_src c = TRIG_NONE)
              no_stop_arg)],
      only_if (\<lambda>c. convert_src c = TRIG_TIMER)
        (either (\<lambda>c. scan_begin_src c = TRIG_FOLLOW)
           (round_convert (\<lambda>c. cascade_period 200 d (convert_arg c) (round_mode c)))
           (pieces
              [round_convert (\<lambda>c. burst_convert_arg (convert_arg c) (round_mode c)),
               only_if (\<lambda>c. scan_begin_src c = TRIG_TIMER)
                 (pieces
                    [fix_if (\<lambda>c. scan_begin_arg c < convert_arg c * chanlist_len c)
                       (\<lambda>c. c\<lparr>scan_begin_arg := convert_arg c * chanlist_len c\<rparr>),
                     round_scan_begin (\<lambda>c. cascade_period 200 d (scan_begin_arg c) (round_mode c))])])),
      count_entries (\<lambda>xs. if count_bad (\<lambda>i x. CR_RANGE (hd xs) AND 4 \<noteq> CR_RANGE x AND 4) xs \<noteq> 0 then 1 else 0)]"

text \<open>
  The dividers are computed from the corrected scan period: the second argument of the stored function is the
  command that reaches stage 4.
\<close>

definition das1800_dividers :: "u32 \<times> u32 \<Rightarrow> comedi_cmd \<Rightarrow> u32 \<times> u32" where
  "das1800_dividers d c =
     (if convert_src c \<noteq> TRIG_TIMER then d
      else if scan_begin_src c = TRIG_FOLLOW then cascade_dividers 200 d (convert_arg c) (round_mode c)
      else if scan_begin_src c = TRIG_TIMER then
        let scan = burst_convert_arg (convert_arg c) (round_mode c) * chanlist_len c
        in cascade_dividers 200 d (if scan_begin_arg c < scan then scan else scan_begin_arg c) (round_mode c)
      else d)"

definition das1800_ai_do_cmdtest ::
  "u32 \<Rightarrow> u32 \<times> u32 \<Rightarrow> comedi_cmd \<Rightarrow> (int \<times> comedi_cmd) \<times> (u32 \<times> u32)" where
  "das1800_ai_do_cmdtest ai_speed d = storing (das1800_test ai_speed d) das1800_dividers d"

text \<open>
  \<open>cb_pcidas.c\<close>, input and output. \<open>trig_invert\<close>: the board has a trigger of either polarity.
\<close>

definition cb_pcidas_ai_test :: "bool \<Rightarrow> u32 \<Rightarrow> u32 \<Rightarrow> u32 \<times> u32 \<Rightarrow> comedi_cmd \<Rightarrow> int \<times> comedi_cmd" where
  "cb_pcidas_ai_test trig_invert ai_speed n_chan d = stages
     [mask_sources (TRIG_NOW OR TRIG_EXT) ((TRIG_FOLLOW OR TRIG_TIMER) OR TRIG_EXT) ((TRIG_TIMER OR TRIG_NOW) OR TRIG_EXT) TRIG_COUNT (TRIG_COUNT OR TRIG_NONE),
      pieces
        [reject_if (\<lambda>c. start_src c \<noteq> TRIG_NOW \<and> start_src c \<noteq> TRIG_EXT),
         reject_if (\<lambda>c. scan_begin_src c \<noteq> TRIG_FOLLOW \<and> scan_begin_src c \<noteq> TRIG_TIMER \<and> scan_begin_src c \<noteq> TRIG_EXT),
         reject_if (\<lambda>c. convert_src c \<noteq> TRIG_TIMER \<and> convert_src c \<noteq> TRIG_EXT \<and> convert_src c \<noteq> TRIG_NOW),
         reject_if (\<lambda>c. stop_src c \<noteq> TRIG_COUNT \<and> stop_src c \<noteq> TRIG_NONE),
         reject_if (\<lambda>c. scan_begin_src c = TRIG_FOLLOW \<and> convert_src c = TRIG_NOW),
         reject_if (\<lambda>c. scan_begin_src c \<noteq> TRIG_FOLLOW \<and> convert_src c \<noteq> TRIG_NOW),
         reject_if (\<lambda>c. start_src c = TRIG_EXT \<and> (convert_src c = TRIG_EXT \<or> scan_begin_src c = TRIG_EXT))],
      pieces
        [either (\<lambda>c. start_src c = TRIG_EXT)
           (pieces
              [fix_if (\<lambda>c. start_arg c AND (CR_FLAGS_MASK AND NOT (CR_EDGE OR CR_INVERT)) \<noteq> 0)
                 (\<lambda>c. c\<lparr>start_arg := start_arg c AND NOT (CR_FLAGS_MASK AND NOT (CR_EDGE OR CR_INVERT))\<rparr>),
               fix_if (\<lambda>c. \<not> trig_invert \<and> start_arg c AND CR_INVERT \<noteq> 0)
                 (\<lambda>c. c\<lparr>start_arg := start_arg c AND (CR_FLAGS_MASK AND NOT CR_INVERT)\<rparr>)])
           no_start_arg,
         only_if (\<lambda>c. scan_begin_src c = TRIG_TIMER)
           (fix_if (\<lambda>c. scan_begin_arg c < ai_speed * chanlist_len c)
             (\<lambda>c. c\<lparr>scan_begin_arg := ai_speed * chanlist_len c\<rparr>)),
         only_if (\<lambda>c. convert_src c = TRIG_TIMER)
           (min_convert_arg ai_speed),
         scan_end_is_chanlist,
         only_if (\<lambda>c. stop_src c = TRIG_NONE)
           no_stop_arg],
      carrying (\<lambda>c. if scan_begin_src c = TRIG_TIMER then cascade_dividers 100 d (scan_begin_arg c) (round_mode c) else d)
        (\<lambda>d'. pieces
           [only_if (\<lambda>c. scan_begin_src c = TRIG_TIMER)
              (round_scan_begin (\<lambda>c. cascade_period 100 d (scan_begin_arg c) (round_mode c))),
            only_if (\<lambda>c. convert_src c = TRIG_TIMER)
              (round_convert (\<lambda>c. cascade_period 100 d' (convert_arg c) (round_mode c)))]),
      pieces
        [count_entries (not_consecutive n_chan), count_entries mixed_ranges]]"

definition cb_pcidas_ai_cmdtest ::
  "bool \<Rightarrow> u32 \<Rightarrow> u32 \<Rightarrow> u32 \<times> u32 \<Rightarrow> comedi_cmd \<Rightarrow> (int \<times> comedi_cmd) \<times> (u32 \<times> u32)" where
  "cb_pcidas_ai_cmdtest trig_invert ai_speed n_chan d = storing (cb_pcidas_ai_test trig_invert ai_speed n_chan d)
     (\<lambda>d c. let d = (if scan_begin_src c = TRIG_TIMER then cascade_dividers 100 d (scan_begin_arg c) (round_mode c) else d)
       in if convert_src c = TRIG_TIMER then cascade_dividers 100 d (convert_arg c) (round_mode c) else d) d"

definition cb_pcidas_ao_test :: "u32 \<Rightarrow> u32 \<times> u32 \<Rightarrow> comedi_cmd \<Rightarrow> int \<times> comedi_cmd" where
  "cb_pcidas_ao_test ao_scan_speed d = stages
     [mask_sources TRIG_INT (TRIG_TIMER OR TRIG_EXT) TRIG_NOW TRIG_COUNT (TRIG_COUNT OR TRIG_NONE),
      pieces
        [reject_if (\<lambda>c. scan_begin_src c \<noteq> TRIG_TIMER \<and> scan_begin_src c \<noteq> TRIG_EXT),
         reject_if (\<lambda>c. stop_src c \<noteq> TRIG_COUNT \<and> stop_src c \<noteq> TRIG_NONE)],
      pieces
        [no_start_arg,
         only_if (\<lambda>c. scan_begin_src c = TRIG_TIMER)
           (min_scan_begin_arg ao_scan_speed),
         scan_end_is_chanlist,
         only_if (\<lambda>c. stop_src c = TRIG_NONE)
           no_stop_arg],
      only_if (\<lambda>c. scan_begin_src c = TRIG_TIMER)
        (round_scan_begin (\<lambda>c. cascade_period 100 d (scan_begin_arg c) (round_mode c))),
      only_if (\<lambda>c. 1 < chanlist_len c)
        (count_entries (\<lambda>xs. if CR_CHAN (xs ! 0) \<noteq> 0 \<or> CR_CHAN (xs ! 1) \<noteq> 1 then 1 else 0))]"

definition cb_pcidas_ao_cmdtest ::
  "u32 \<Rightarrow> u32 \<times> u32 \<Rightarrow> comedi_cmd \<Rightarrow> (int \<times> comedi_cmd) \<times> (u32 \<times> u32)" where
  "cb_pcidas_ao_cmdtest ao_scan_speed d = storing (cb_pcidas_ao_test ao_scan_speed d)
     (\<lambda>d c. if scan_begin_src c = TRIG_TIMER then cascade_dividers 100 d (scan_begin_arg c) (round_mode c) else d) d"

section \<open>ADLink boards\<close>

text \<open>
  \<open>adl_pci9118.c\<close>. A scan of one timed channel becomes a plain conversion timer without an error being counted.
  The dividers are thrown away, but the second rounding starts from those of the first. \<open>min_ns\<close>, \<open>n_list\<close>
  and \<open>n_diff\<close> are the board's conversion time, the size of its channel list and its number of
  differential channels; \<open>usemux\<close> says that an external multiplexer is used.
\<close>

definition pci9118_check_channel_list :: "nat \<Rightarrow> u32 \<Rightarrow> bool \<Rightarrow> u32 list \<Rightarrow> bool" where
  "pci9118_check_channel_list len_chanlist n_diff usemux xs \<longleftrightarrow>
     xs \<noteq> [] \<and> length xs \<le> len_chanlist \<and>
     (let differential = (CR_AREF (hd xs) = AREF_DIFF); bipolar = (CR_RANGE (hd xs) < 4) in
      \<forall>x \<in> set (tl xs). (CR_AREF x = AREF_DIFF) = differential \<and> (CR_RANGE x < 4) = bipolar \<and>
        \<not> (\<not> usemux \<and> differential \<and> n_diff \<le> CR_CHAN x))"

definition pci9118_ai_cmdtest ::
  "bool \<Rightarrow> u32 \<Rightarrow> u32 \<Rightarrow> u32 \<Rightarrow> u32 \<Rightarrow> bool \<Rightarrow> comedi_cmd \<Rightarrow> int \<times> comedi_cmd" where
  "pci9118_ai_cmdtest master osc min_ns n_list n_diff usemux = stages
     [mask_sources (TRIG_NOW OR TRIG_EXT OR TRIG_INT)
        (if master then TRIG_TIMER OR TRIG_EXT OR TRIG_FOLLOW else TRIG_FOLLOW)
        (if master then TRIG_TIMER OR TRIG_EXT OR TRIG_NOW else TRIG_TIMER OR TRIG_EXT)
        TRIG_COUNT (TRIG_COUNT OR TRIG_NONE OR TRIG_EXT),
      pieces
        [fix_if (\<lambda>c. start_src c \<noteq> TRIG_NOW \<and> start_src c \<noteq> TRIG_INT \<and> start_src c \<noteq> TRIG_EXT)
           (\<lambda>c. c\<lparr>start_src := TRIG_NOW\<rparr>),
         fix_if (\<lambda>c. scan_begin_src c \<noteq> TRIG_TIMER \<and> scan_begin_src c \<noteq> TRIG_EXT \<and> scan_begin_src c \<noteq> TRIG_INT \<and> scan_begin_src c \<noteq> TRIG_FOLLOW)
           (\<lambda>c. c\<lparr>scan_begin_src := TRIG_FOLLOW\<rparr>),
         fix_if (\<lambda>c. convert_src c \<noteq> TRIG_TIMER \<and> convert_src c \<noteq> TRIG_EXT \<and> convert_src c \<noteq> TRIG_NOW)
           (\<lambda>c. c\<lparr>convert_src := TRIG_TIMER\<rparr>),
         fix_if (\<lambda>c. scan_end_src c \<noteq> TRIG_COUNT)
           (\<lambda>c. c\<lparr>scan_end_src := TRIG_COUNT\<rparr>),
         fix_if (\<lambda>c. stop_src c \<noteq> TRIG_NONE \<and> stop_src c \<noteq> TRIG_COUNT \<and> stop_src c \<noteq> TRIG_INT \<and> stop_src c \<noteq> TRIG_EXT)
           (\<lambda>c. c\<lparr>stop_src := TRIG_COUNT\<rparr>),
         fix_if (\<lambda>c. start_src c = TRIG_EXT \<and> scan_begin_src c = TRIG_EXT)
           (\<lambda>c. c\<lparr>start_src := TRIG_NOW\<rparr>),
         fix_if (\<lambda>c. start_src c = TRIG_INT \<and> scan_begin_src c = TRIG_INT)
           (\<lambda>c. c\<lparr>start_src := TRIG_NOW\<rparr>),
         fix_if (\<lambda>c. scan_begin_src c AND (TRIG_TIMER OR TRIG_EXT) \<noteq> 0 \<and> convert_src c AND (TRIG_TIMER OR TRIG_NOW) = 0)
           (\<lambda>c. c\<lparr>convert_src := TRIG_TIMER\<rparr>),
         fix_if (\<lambda>c. scan_begin_src c = TRIG_FOLLOW \<and> convert_src c AND (TRIG_TIMER OR TRIG_EXT) = 0)
           (\<lambda>c. c\<lparr>convert_src := TRIG_TIMER\<rparr>),
         fix_if (\<lambda>c. stop_src c = TRIG_EXT \<and> scan_begin_src c = TRIG_EXT)
           (\<lambda>c. c\<lparr>stop_src := TRIG_COUNT\<rparr>)],
      pieces
        [only_if (\<lambda>c. start_src c AND (TRIG_NOW OR TRIG_EXT) \<noteq> 0)
           no_start_arg,
         only_if (\<lambda>c. scan_begin_src c AND (TRIG_FOLLOW OR TRIG_EXT) \<noteq> 0)
           no_scan_begin_arg,
         only_if (\<lambda>c. scan_begin_src c = TRIG_TIMER \<and> convert_src c = TRIG_TIMER \<and> scan_end_arg c = 1)
           (quietly (\<lambda>c. c\<lparr>scan_begin_src := TRIG_FOLLOW, convert_arg := scan_begin_arg c, scan_begin_arg := 0\<rparr>)),
         only_if (\<lambda>c. scan_begin_src c = TRIG_TIMER)
           (min_scan_begin_arg min_ns),
         only_if (\<lambda>c. scan_begin_src c = TRIG_EXT)
           (only_if (\<lambda>c. scan_begin_arg c \<noteq> 0)
              (pieces [no_scan_begin_arg, fix_if (\<lambda>c. 65535 < scan_end_arg c)
                (\<lambda>c. c\<lparr>scan_end_arg := 65535\<rparr>)])),
         only_if (\<lambda>c. convert_src c AND (TRIG_TIMER OR TRIG_NOW) \<noteq> 0)
           (min_convert_arg min_ns),
         only_if (\<lambda>c. convert_src c = TRIG_EXT)
           no_convert_arg,
         either (\<lambda>c. stop_src c = TRIG_COUNT) some_stop_arg no_stop_arg,
         some_channels,
         fix_if (\<lambda>c. n_list < chanlist_len c) (\<lambda>c. c\<lparr>chanlist_len := n_list\<rparr>),
         fix_if (\<lambda>c. scan_end_arg c < chanlist_len c)
           (\<lambda>c. c\<lparr>scan_end_arg := chanlist_len c\<rparr>),
         fix_if (\<lambda>c. scan_end_arg c mod chanlist_len c \<noteq> 0)
           (\<lambda>c. c\<lparr>scan_end_arg := chanlist_len c * (scan_end_arg c div chanlist_len c)\<rparr>)],
      carrying (\<lambda>c. if scan_begin_src c = TRIG_TIMER then cascade_dividers osc (0, 0) (scan_begin_arg c) (round_mode c) else (0, 0))
        (\<lambda>d. pieces
           [only_if (\<lambda>c. scan_begin_src c = TRIG_TIMER)
              (round_scan_begin (\<lambda>c. at_least min_ns (cascade_period osc (0, 0) (scan_begin_arg c) (round_mode c)))),
            only_if (\<lambda>c. convert_src c AND (TRIG_TIMER OR TRIG_NOW) \<noteq> 0)
              (pieces
                 [round_convert (\<lambda>c. at_least min_ns (cascade_period osc d (convert_arg c) (round_mode c))),
                  only_if (\<lambda>c. scan_begin_src c = TRIG_TIMER \<and> convert_src c = TRIG_NOW)
                    (either (\<lambda>c. convert_arg c = 0)
                       (fix_if (\<lambda>c. scan_begin_arg c < min_ns * (scan_end_arg c + 2))
                          (\<lambda>c. c\<lparr>scan_begin_arg := min_ns * (scan_end_arg c + 2)\<rparr>))
                       (fix_if (\<lambda>c. scan_begin_arg c < convert_arg c * chanlist_len c)
                          (\<lambda>c. c\<lparr>scan_begin_arg := convert_arg c * chanlist_len c\<rparr>)))])]),
      refuse_list (\<lambda>xs. \<not> pci9118_check_channel_list (unat n_list) n_diff usemux xs)]"

text \<open>
  \<open>adl_pci9111.c\<close> and \<open>adl_pci9112.c\<close>, which are the same routine. The scan period is made a multiple of
  the length of the conversions of a scan, by a division that nothing keeps from being by 0: \<open>None\<close>.
\<close>

definition pci911x_stages :: "u32 \<Rightarrow> u32 \<Rightarrow> test_piece list" where
  "pci911x_stages min_ns n_chan =
     [mask_sources TRIG_NOW (TRIG_TIMER OR TRIG_FOLLOW OR TRIG_EXT) (TRIG_TIMER OR TRIG_EXT) TRIG_COUNT
        (TRIG_COUNT OR TRIG_NONE),
      pieces
        [reject_if (\<lambda>c. start_src c \<noteq> TRIG_NOW),
         reject_if (\<lambda>c. scan_begin_src c \<noteq> TRIG_TIMER \<and> scan_begin_src c \<noteq> TRIG_FOLLOW \<and> scan_begin_src c \<noteq> TRIG_EXT),
         reject_if (\<lambda>c. convert_src c \<noteq> TRIG_TIMER \<and> convert_src c \<noteq> TRIG_EXT),
         reject_if (\<lambda>c. convert_src c = TRIG_TIMER \<and> \<not> (scan_begin_src c = TRIG_TIMER \<or> scan_begin_src c = TRIG_FOLLOW)),
         reject_if (\<lambda>c. convert_src c = TRIG_EXT \<and> \<not> (scan_begin_src c = TRIG_EXT \<or> scan_begin_src c = TRIG_FOLLOW)),
         reject_if (\<lambda>c. scan_end_src c \<noteq> TRIG_COUNT),
         reject_if (\<lambda>c. stop_src c \<noteq> TRIG_COUNT \<and> stop_src c \<noteq> TRIG_NONE)],
      pieces
        [some_channels,
         fix_if (\<lambda>c. n_chan < chanlist_len c) (\<lambda>c. c\<lparr>chanlist_len := n_chan\<rparr>),
         fix_if (\<lambda>c. start_src c = TRIG_NOW \<and> start_arg c \<noteq> 0)
           (\<lambda>c. c\<lparr>start_arg := 0\<rparr>),
         fix_if (\<lambda>c. convert_src c = TRIG_TIMER \<and> convert_arg c < min_ns)
           (\<lambda>c. c\<lparr>convert_arg := min_ns\<rparr>),
         fix_if (\<lambda>c. convert_src c = TRIG_EXT \<and> convert_arg c \<noteq> 0)
           (\<lambda>c. c\<lparr>convert_arg := 0\<rparr>),
         fix_if (\<lambda>c. scan_begin_src c = TRIG_TIMER \<and> scan_begin_arg c < min_ns)
           (\<lambda>c. c\<lparr>scan_begin_arg := min_ns\<rparr>),
         fix_if (\<lambda>c. scan_begin_src c = TRIG_FOLLOW \<and> scan_begin_arg c \<noteq> 0)
           (\<lambda>c. c\<lparr>scan_begin_arg := 0\<rparr>),
         fix_if (\<lambda>c. scan_begin_src c = TRIG_EXT \<and> scan_begin_arg c \<noteq> 0)
           (\<lambda>c. c\<lparr>scan_begin_arg := 0\<rparr>),
         fix_if (\<lambda>c. scan_end_src c = TRIG_COUNT \<and> scan_end_arg c \<noteq> chanlist_len c)
           (\<lambda>c. c\<lparr>scan_end_arg := chanlist_len c\<rparr>),
         fix_if (\<lambda>c. stop_src c = TRIG_COUNT \<and> stop_arg c < 1)
           (\<lambda>c. c\<lparr>stop_arg := 1\<rparr>),
         fix_if (\<lambda>c. stop_src c = TRIG_NONE \<and> stop_arg c \<noteq> 0)
           (\<lambda>c. c\<lparr>stop_arg := 0\<rparr>)]]"

definition pci911x_timing :: "u32 \<times> u32 \<Rightarrow> comedi_cmd \<Rightarrow> (nat \<times> comedi_cmd) option" where
  "pci911x_timing d c =
     (case only_if (\<lambda>c. convert_src c = TRIG_TIMER) (round_convert (\<lambda>c. cascade_period 500 d (convert_arg c) (round_mode c))) c of (e, c) \<Rightarrow>
      let scan_min = chanlist_len c * convert_arg c in
      if scan_begin_src c = TRIG_TIMER \<and> scan_begin_arg c \<noteq> scan_min then
        if scan_min < scan_begin_arg c then
          if scan_min = 0 then None
          else
            let scan = scan_begin_arg c div scan_min * scan_min
            in Some (if scan_begin_arg c \<noteq> scan then (e + 1, c\<lparr>scan_begin_arg := scan\<rparr>) else (e, c))
        else Some (e + 1, c\<lparr>scan_begin_arg := scan_min\<rparr>)
      else Some (e, c))"

definition pci911x_bad_entries :: "u32 \<Rightarrow> u32 list \<Rightarrow> nat" where
  "pci911x_bad_entries n_chan xs =
     (if 1 < length xs then
        length (filter (\<lambda>i. CR_CHAN (xs ! i) \<noteq> of_nat i) [0..<length xs]) +
        length (filter (\<lambda>x. CR_RANGE x \<noteq> CR_RANGE (hd xs)) xs) +
        length (filter (\<lambda>x. CR_AREF x \<noteq> CR_AREF (hd xs)) xs)
      else if n_chan - 1 < CR_CHAN (hd xs) then 1 else 0)"

definition pci911x_cmd_test :: "u32 \<Rightarrow> u32 \<Rightarrow> u32 \<times> u32 \<Rightarrow> comedi_cmd \<Rightarrow> (int \<times> comedi_cmd) option" where
  "pci911x_cmd_test min_ns n_chan d c =
     (case stages (pci911x_stages min_ns n_chan) c of (ret, c) \<Rightarrow>
      if ret \<noteq> 0 then Some (ret, c)
      else do {
        (e, c) \<leftarrow> pci911x_timing d c;
        if e \<noteq> 0 then Some (4, c)
        else case count_entries (pci911x_bad_entries n_chan) c of (e, c) \<Rightarrow> Some (if e \<noteq> 0 then 5 else 0, c)
      })"

text \<open>The dividers are computed from the conversion period of the command that reaches stage 4.\<close>

definition pci911x_dividers :: "u32 \<times> u32 \<Rightarrow> comedi_cmd \<Rightarrow> u32 \<times> u32" where
  "pci911x_dividers d c = (if convert_src c = TRIG_TIMER then cascade_dividers 500 d (convert_arg c) (round_mode c) else d)"

definition pci9111_ai_do_cmd_test ::
  "u32 \<Rightarrow> u32 \<Rightarrow> u32 \<times> u32 \<Rightarrow> comedi_cmd \<Rightarrow> ((int \<times> comedi_cmd) \<times> (u32 \<times> u32)) option" where
  "pci9111_ai_do_cmd_test min_ns n_chan d c =
     (case pci911x_cmd_test min_ns n_chan d c of
        None \<Rightarrow> None
      | Some r \<Rightarrow> Some (r, if fst r \<in> {1, 2, 3} then d else pci911x_dividers d c))"

definition pci9112_ai_do_cmd_test ::
  "u32 \<Rightarrow> u32 \<Rightarrow> u32 \<times> u32 \<Rightarrow> comedi_cmd \<Rightarrow> ((int \<times> comedi_cmd) \<times> (u32 \<times> u32)) option" where
  "pci9112_ai_do_cmd_test min_ns n_chan d c =
     (case pci911x_cmd_test min_ns n_chan d c of
        None \<Rightarrow> None
      | Some r \<Rightarrow> Some (r, if fst r \<in> {1, 2, 3} then d else pci911x_dividers d c))"

section \<open>The contract\<close>

interpretation pcl711: command_test "pcl711_test d" for d
  by (rule command_testI[OF pcl711_test_def]) (simp_all add: good_intros same_frame_def)

interpretation pcl812: command_test "pcl812_ai_cmdtest junk osc ai_ns_min use_ext_trg" for junk osc ai_ns_min use_ext_trg
  by (rule command_testI[OF pcl812_ai_cmdtest_def]) (simp_all add: good_intros same_frame_def)

interpretation pcl816: command_test "pcl816_ai_cmdtest osc ai_ns_min" for osc ai_ns_min
  by (rule command_testI[OF pcl816_ai_cmdtest_def]) (simp_all add: good_intros same_frame_def)

interpretation pcl818: command_test "pcl818_ai_cmdtest osc ns_min n_chan" for osc ns_min n_chan
  by (rule command_testI[OF pcl818_ai_cmdtest_def]) (simp_all add: good_intros same_frame_def)

interpretation pci171x: command_test "pci171x_ai_cmdtest osc ai_ns_min n_chan" for osc ai_ns_min n_chan
  by (rule command_testI[OF pci171x_ai_cmdtest_def]) (simp_all add: good_intros same_frame_def)

interpretation das16: command_test "das16_test large clockbase ai_speed n_chan d" for large clockbase ai_speed n_chan d
  by (rule command_testI[OF das16_test_def]) (simp_all add: good_intros same_frame_def)

interpretation das16m1: command_test "das16m1_test ai_speed d" for ai_speed d
  by (rule command_testI[OF das16m1_test_def]) (simp_all add: good_intros same_frame_def)

interpretation das800: command_test "das800_test ai_speed d" for ai_speed d
  by (rule command_testI[OF das800_test_def]) (simp_all add: good_intros same_frame_def)

interpretation das1800: command_test "das1800_test ai_speed d" for ai_speed d
  by (rule command_testI[OF das1800_test_def]) (simp_all add: good_intros same_frame_def)

interpretation cb_pcidas_ai: command_test "cb_pcidas_ai_test trig_invert ai_speed n_chan d" for trig_invert ai_speed n_chan d
  by (rule command_testI[OF cb_pcidas_ai_test_def]) (simp_all add: good_intros same_frame_def)

interpretation cb_pcidas_ao: command_test "cb_pcidas_ao_test ao_scan_speed d" for ao_scan_speed d
  by (rule command_testI[OF cb_pcidas_ao_test_def]) (simp_all add: good_intros same_frame_def)

end
