(* ===== verification/Board_Commands.thy ===== *)
theory Board_Commands
  imports Command_Rounding
begin

text \<open>
  The command tests of the boards whose timers depend on each other: a choice of clocks, one counter or two,
  a conversion and a scan timer that share a divider, and the checks of channel lists that the hardware
  scans in its own way.
\<close>

unbundle bit_operations_syntax

section \<open>Amplicon PCI224 and PCI234\<close>

text \<open>
  \<open>amplc_pci224.c\<close>. One counter of 100 ns if it is long enough, two cascaded ones otherwise; only the second
  case touches the cached dividers. The flags of the stop trigger are corrected without an error.
\<close>

definition pci224_count :: "u32 \<Rightarrow> u32 \<Rightarrow> u32" where
  "pci224_count ns mode = ns div 100 + (round_bias 100 mode + ns mod 100) div 100"

definition pci224_period :: "u32 \<times> u32 \<Rightarrow> u32 \<Rightarrow> u32 \<Rightarrow> u32" where
  "pci224_period cached ns mode =
     (let div2 = pci224_count ns mode in
      if div2 \<le> 0x10000 then
        let div2 = (if div2 < 2 then 2 else div2); arg = div2 * 100
        in if arg < div2 \<or> arg < 100 then 0xffffffff else arg
      else cascade_period 100 cached ns mode)"

definition pci224_dividers :: "u32 \<times> u32 \<Rightarrow> u32 \<Rightarrow> u32 \<Rightarrow> u32 \<times> u32" where
  "pci224_dividers cached ns mode =
     (if pci224_count ns mode \<le> 0x10000 then cached else cascade_dividers 100 cached ns mode)"

text \<open>The channels seen so far are the bits of a word; the board has 16 channels at most.\<close>

fun duplicate_channel :: "u32 \<Rightarrow> u32 list \<Rightarrow> bool" where
  "duplicate_channel seen [] \<longleftrightarrow> False"
| "duplicate_channel seen (x # xs) \<longleftrightarrow>
     (let b = push_bit (unat (CR_CHAN x)) 1 in seen AND b \<noteq> 0 \<or> duplicate_channel (seen OR b) xs)"

definition pci224_min_scan :: "u32 \<Rightarrow> u32" where
  "pci224_min_scan len = at_least 2500 (len * 625)"

text \<open>At most one of the sources may be external.\<close>

definition externals :: "comedi_cmd \<Rightarrow> nat" where
  "externals c = length (filter (\<lambda>x. x AND TRIG_EXT \<noteq> 0) [start_src c, scan_begin_src c, stop_src c])"

definition pci224_ao_test :: "u32 \<times> u32 \<Rightarrow> comedi_cmd \<Rightarrow> int \<times> comedi_cmd" where
  "pci224_ao_test cached = stages
     [mask_sources (TRIG_INT OR TRIG_EXT) (TRIG_EXT OR TRIG_TIMER) TRIG_NOW TRIG_COUNT (TRIG_COUNT OR TRIG_EXT OR TRIG_NONE),
      pieces [unique_sources, reject_if (\<lambda>c. 1 < externals c)],
      pieces
        [either (\<lambda>c. start_src c = TRIG_INT)
           no_start_arg
           (only_if (\<lambda>c. start_src c = TRIG_EXT)
              (pieces
                 [fix_if (\<lambda>c. start_arg c AND NOT CR_FLAGS_MASK \<noteq> 0)
                    (\<lambda>c. c\<lparr>start_arg := combine (start_arg c) 0 (NOT CR_FLAGS_MASK)\<rparr>),
                  fix_if (\<lambda>c. start_arg c AND CR_FLAGS_MASK AND NOT CR_EDGE \<noteq> 0)
                    (\<lambda>c. c\<lparr>start_arg := combine (start_arg c) 0 (CR_FLAGS_MASK AND NOT CR_EDGE)\<rparr>)])),
         either (\<lambda>c. scan_begin_src c = TRIG_TIMER)
           (pieces
              [max_scan_begin_arg 0xffffffff,
               fix_if (\<lambda>c. scan_begin_arg c < pci224_min_scan (chanlist_len c))
                 (\<lambda>c. c\<lparr>scan_begin_arg := pci224_min_scan (chanlist_len c)\<rparr>)])
           (only_if (\<lambda>c. scan_begin_src c = TRIG_EXT)
              (pieces
                 [fix_if (\<lambda>c. scan_begin_arg c AND NOT CR_FLAGS_MASK \<noteq> 0)
                    (\<lambda>c. c\<lparr>scan_begin_arg := combine (scan_begin_arg c) 0 (NOT CR_FLAGS_MASK)\<rparr>),
                  fix_if (\<lambda>c. scan_begin_arg c AND CR_FLAGS_MASK AND NOT (CR_EDGE OR CR_INVERT) \<noteq> 0)
                    (\<lambda>c. c\<lparr>scan_begin_arg := combine (scan_begin_arg c) 0 (CR_FLAGS_MASK AND NOT (CR_EDGE OR CR_INVERT))\<rparr>)])),
         no_convert_arg,
         scan_end_is_chanlist,
         either (\<lambda>c. stop_src c = TRIG_EXT)
           (pieces
              [fix_if (\<lambda>c. stop_arg c AND NOT CR_FLAGS_MASK \<noteq> 0)
                 (\<lambda>c. c\<lparr>stop_arg := combine (stop_arg c) 0 (NOT CR_FLAGS_MASK)\<rparr>),
               only_if (\<lambda>c. stop_arg c AND CR_FLAGS_MASK AND NOT CR_EDGE \<noteq> 0)
                 (quietly (\<lambda>c. c\<lparr>stop_arg := combine (stop_arg c) 0 (CR_FLAGS_MASK AND NOT CR_EDGE)\<rparr>))])
           (only_if (\<lambda>c. stop_src c = TRIG_NONE)
              no_stop_arg)],
      only_if (\<lambda>c. scan_begin_src c = TRIG_TIMER)
        (round_scan_begin (\<lambda>c. pci224_period cached (scan_begin_arg c) (round_mode c))),
      count_entries (\<lambda>xs. if duplicate_channel 0 xs \<or> mixed_ranges xs \<noteq> 0 then 1 else 0)]"

definition pci224_ao_cmdtest :: "u32 \<times> u32 \<Rightarrow> comedi_cmd \<Rightarrow> (int \<times> comedi_cmd) \<times> (u32 \<times> u32)" where
  "pci224_ao_cmdtest cached = storing (pci224_ao_test cached)
     (\<lambda>d c. if scan_begin_src c = TRIG_TIMER then pci224_dividers d (scan_begin_arg c) (round_mode c) else d) cached"

section \<open>Amplicon PCI230 and PCI260\<close>

text \<open>
  \<open>amplc_pci230.c\<close>. One 16-bit counter with a choice of five clocks, the fastest whose count fits; the count
  of the slowest is taken as it is.
\<close>

definition divide_ns :: "u64 \<Rightarrow> u32 \<Rightarrow> u32 \<Rightarrow> u32" where
  "divide_ns ns timebase mode =
     (let rem = ucast (ns mod ucast timebase) :: u32;
          mode = mode AND TRIG_ROUND_MASK;
          d = ns div ucast timebase +
            (if mode = TRIG_ROUND_DOWN then 0
             else if mode = TRIG_ROUND_UP then ucast ((rem + timebase - 1) div timebase)
             else ucast ((rem + timebase div 2) div timebase))
      in if 0xffffffff < d then 0xffffffff else ucast d)"

fun pci230_choose_clk_count :: "u32 list \<Rightarrow> u64 \<Rightarrow> u32 \<Rightarrow> u32 \<times> u32" where
  "pci230_choose_clk_count (timebase # slower) ns mode =
     (let cnt = divide_ns ns timebase mode in
      if cnt \<le> 65536 \<or> slower = [] then (cnt, timebase) else pci230_choose_clk_count slower ns mode)"
| "pci230_choose_clk_count [] ns mode = (0, 0)"

definition pci230_timebase :: "u32 list" where
  "pci230_timebase = [100, 1000, 10000, 100000, 1000000]"

definition pci230_ns_to_single_timer :: "u32 \<Rightarrow> u32 \<Rightarrow> u32" where
  "pci230_ns_to_single_timer ns mode =
     (case pci230_choose_clk_count pci230_timebase (ucast ns) mode of (count, timebase) \<Rightarrow> count * timebase)"

text \<open>
  The check of the scan period counts an error when it changes the period, and when the shortest period
  does not fit into 32 bits.
\<close>

definition pci230_min_scan_period :: "comedi_cmd \<Rightarrow> nat \<times> u32" where
  "pci230_min_scan_period c =
     (let len = (if chanlist_len c = 0 then 1 else chanlist_len c);
          least = len * convert_arg c
      in if least < len \<or> least < convert_arg c then (1, 0xffffffff) else (0, least))"

definition pci230_ai_check_scan_period :: test_piece where
  "pci230_ai_check_scan_period c =
     (case pci230_min_scan_period c of (err, least) \<Rightarrow>
      if scan_begin_arg c < least then (err + 1, c\<lparr>scan_begin_arg := least\<rparr>) else (err, c))"

definition pci230_scan_period :: "comedi_cmd \<Rightarrow> u32" where
  "pci230_scan_period c =
     (let c' = c\<lparr>scan_begin_arg := pci230_ns_to_single_timer (scan_begin_arg c) (round_mode c)\<rparr>;
          (err, c'') = pci230_ai_check_scan_period c'
      in if err = 0 then scan_begin_arg c''
         else scan_begin_arg (snd (pci230_ai_check_scan_period
           (c''\<lparr>scan_begin_arg := pci230_ns_to_single_timer (scan_begin_arg c'') TRIG_ROUND_UP\<rparr>))))"

text \<open>
  Several errors of the check count once: \<open>if (!pci230_ai_check_scan_period(cmd)) err++;\<close>
\<close>

definition once :: "test_piece \<Rightarrow> test_piece" where
  "once t c = (case t c of (err, c) \<Rightarrow> (if err = 0 then 0 else 1, c))"

text \<open>An external trigger: number 0, and only some of the flags.\<close>

definition trigger_0_scan_begin :: "u32 \<Rightarrow> test_piece" where
  "trigger_0_scan_begin allowed = pieces
     [fix_if (\<lambda>c. scan_begin_arg c AND NOT CR_FLAGS_MASK \<noteq> 0)
        (\<lambda>c. c\<lparr>scan_begin_arg := combine (scan_begin_arg c) 0 (NOT CR_FLAGS_MASK)\<rparr>),
      fix_if (\<lambda>c. scan_begin_arg c AND (CR_FLAGS_MASK AND NOT allowed) \<noteq> 0)
        (\<lambda>c. c\<lparr>scan_begin_arg := combine (scan_begin_arg c) 0 (CR_FLAGS_MASK AND NOT allowed)\<rparr>)]"

definition pci230_ao_bad_list :: "u32 list \<Rightarrow> bool" where
  "pci230_ao_bad_list xs \<longleftrightarrow>
     (\<exists>n \<in> set [1..<length xs]. CR_CHAN (xs ! n) < CR_CHAN (xs ! (n - 1)) \<or> CR_RANGE (xs ! n) \<noteq> CR_RANGE (hd xs))"

definition pci230_ao_cmdtest :: "bool \<Rightarrow> comedi_cmd \<Rightarrow> int \<times> comedi_cmd" where
  "pci230_ao_cmdtest ext_trigger = stages
     [mask_sources TRIG_INT (if ext_trigger then TRIG_TIMER OR TRIG_INT OR TRIG_EXT else TRIG_TIMER OR TRIG_INT)
        TRIG_NOW TRIG_COUNT (TRIG_COUNT OR TRIG_NONE),
      unique_sources,
      pieces
        [no_start_arg,
         either (\<lambda>c. scan_begin_src c = TRIG_TIMER)
           (pieces [min_scan_begin_arg 8000, max_scan_begin_arg 4294967295])
           (either (\<lambda>c. scan_begin_src c = TRIG_EXT)
              (trigger_0_scan_begin (CR_EDGE OR CR_INVERT))
              no_scan_begin_arg),
         scan_end_is_chanlist,
         only_if (\<lambda>c. stop_src c = TRIG_NONE)
           no_stop_arg],
      only_if (\<lambda>c. scan_begin_src c = TRIG_TIMER)
        (round_scan_begin (\<lambda>c. pci230_ns_to_single_timer (scan_begin_arg c) (round_mode c))),
      count_entries (\<lambda>xs. if pci230_ao_bad_list xs then 1 else 0)]"

text \<open>
  The channels of the input list must increase, or be repetitions of the part that does; its length is
  \<open>pci230_subseq_len\<close>. The old hardware wants channel 0 first.
\<close>

definition pci230_subseq_len :: "u32 list \<Rightarrow> nat" where
  "pci230_subseq_len xs =
     (case find (\<lambda>n. CR_CHAN (xs ! n) \<le> CR_CHAN (xs ! (n - 1))) [1..<length xs] of Some n \<Rightarrow> n | None \<Rightarrow> length xs)"

definition pci230_ai_bad_pair :: "u32 \<Rightarrow> u32 \<Rightarrow> bool" where
  "pci230_ai_bad_pair prev x \<longleftrightarrow>
     CR_AREF x \<noteq> CR_AREF prev \<or>
     (CR_RANGE x < 4) \<noteq> (CR_RANGE prev < 4) \<or>
     CR_AREF x \<noteq> AREF_DIFF \<and> (CR_CHAN x XOR CR_CHAN prev) AND NOT 1 = 0 \<and> CR_RANGE x \<noteq> CR_RANGE prev"

definition pci230_ai_bad_list :: "u32 \<Rightarrow> u32 \<Rightarrow> u32 list \<Rightarrow> bool" where
  "pci230_ai_bad_list hwver n_chan xs \<longleftrightarrow> xs \<noteq> [] \<and>
     (let k = pci230_subseq_len xs in
      (\<exists>x \<in> set xs. CR_AREF x = AREF_DIFF \<and> n_chan div 2 \<le> CR_CHAN x) \<or>
      (\<exists>n \<in> set [1..<length xs]. pci230_ai_bad_pair (xs ! (n - 1)) (xs ! n)) \<or>
      (\<exists>n \<in> set [k..<length xs]. xs ! n \<noteq> xs ! (n mod k)) \<or>
      length xs mod k \<noteq> 0 \<or>
      0 < hwver \<and> hwver < 4 \<and> 1 < k \<and> CR_CHAN (hd xs) \<noteq> 0)"

definition pci230_max_speed :: "u32 \<Rightarrow> comedi_cmd \<Rightarrow> u32" where
  "pci230_max_speed hwver c =
     (if hwver = 0 then
        case chanlist c of
          Kern_ptr (x # _) \<Rightarrow> if 0 < chanlist_len c \<and> CR_AREF x = AREF_DIFF then 8000 else 3200
        | _ \<Rightarrow> 3200
      else 4000)"

text \<open>
  The edge of an external conversion trigger is forced with the flags of the wrong argument: the new value is
  combined from \<open>start_arg\<close>, which is 0 by then or has been made so.
\<close>

definition pci230_ai_cmdtest :: "bool \<Rightarrow> u32 \<Rightarrow> u32 \<Rightarrow> comedi_cmd \<Rightarrow> int \<times> comedi_cmd" where
  "pci230_ai_cmdtest ext_scan hwver n_chan = stages
     [mask_sources (TRIG_NOW OR TRIG_INT)
        (if ext_scan then TRIG_FOLLOW OR TRIG_TIMER OR TRIG_INT OR TRIG_EXT else TRIG_FOLLOW OR TRIG_TIMER OR TRIG_INT)
        (TRIG_TIMER OR TRIG_INT OR TRIG_EXT) TRIG_COUNT (TRIG_COUNT OR TRIG_NONE),
      pieces
        [unique_sources,
         reject_if (\<lambda>c. scan_begin_src c \<noteq> TRIG_FOLLOW \<and> convert_src c \<noteq> TRIG_TIMER)],
      pieces
        [no_start_arg,
         either (\<lambda>c. convert_src c = TRIG_TIMER)
           (pieces
              [fix_if (\<lambda>c. convert_arg c < pci230_max_speed hwver c)
                 (\<lambda>c. c\<lparr>convert_arg := pci230_max_speed hwver c\<rparr>),
               max_convert_arg 4294967295])
           (either (\<lambda>c. convert_src c = TRIG_EXT)
              (either (\<lambda>c. convert_arg c AND CR_FLAGS_MASK \<noteq> 0)
                 (pieces
                    [fix_if (\<lambda>c. convert_arg c AND NOT CR_FLAGS_MASK \<noteq> 0)
                       (\<lambda>c. c\<lparr>convert_arg := combine (convert_arg c) 0 (NOT CR_FLAGS_MASK)\<rparr>),
                     fix_if (\<lambda>c. convert_arg c AND (CR_FLAGS_MASK AND NOT CR_INVERT) \<noteq> CR_EDGE)
                       (\<lambda>c. c\<lparr>convert_arg := combine (start_arg c) CR_EDGE (CR_FLAGS_MASK AND NOT CR_INVERT)\<rparr>)])
                 (max_convert_arg 1))
              no_convert_arg),
         scan_end_is_chanlist,
         only_if (\<lambda>c. stop_src c = TRIG_NONE)
           no_stop_arg,
         either (\<lambda>c. scan_begin_src c = TRIG_EXT)
           (trigger_0_scan_begin CR_EDGE)
           (either (\<lambda>c. scan_begin_src c = TRIG_TIMER)
              (once pci230_ai_check_scan_period)
              no_scan_begin_arg)],
      pieces
        [only_if (\<lambda>c. convert_src c = TRIG_TIMER)
           (round_convert (\<lambda>c. pci230_ns_to_single_timer (convert_arg c) (round_mode c))),
         only_if (\<lambda>c. scan_begin_src c = TRIG_TIMER)
           (round_scan_begin pci230_scan_period)],
      count_entries (\<lambda>xs. if pci230_ai_bad_list hwver n_chan xs then 1 else 0)]"

section \<open>Measurement Computing PCI-DAS64\<close>

text \<open>
  \<open>cb_pcidas64.c\<close>: a clock of 25 ns and counters of 24 bits. Conversions and scans are rounded together, the scan
  between the length of its conversions and that plus what the counter of the delay can hold. \<open>layout_4020\<close>: the
  board samples all channels at once.
\<close>

definition get_divisor :: "u32 \<Rightarrow> u32 \<Rightarrow> u32" where
  "get_divisor ns flags = clock_count 25 (flags AND TRIG_ROUND_MASK) ns"

definition get_ao_divisor :: "u32 \<Rightarrow> u32 \<Rightarrow> u32" where
  "get_ao_divisor ns flags = get_divisor ns flags - 2"

definition clamp :: "u64 \<Rightarrow> u64 \<Rightarrow> u32 \<Rightarrow> u32" where
  "clamp lo hi x =
     (let x = (if hi < ucast x then ucast hi else x) in if ucast x < lo then ucast lo else x)"

definition check_adc_timing :: "bool \<Rightarrow> comedi_cmd \<Rightarrow> comedi_cmd" where
  "check_adc_timing layout_4020 c =
     (let convert_divisor = (if convert_src c = TRIG_TIMER \<and> \<not> layout_4020
            then clamp 3 (0xffffff + 3) (get_divisor (convert_arg c) (cmd_flags c)) else 0);
          c = (if convert_src c = TRIG_TIMER then c\<lparr>convert_arg := if layout_4020 then 0 else convert_divisor * 25\<rparr>
               else if convert_src c = TRIG_NOW then c\<lparr>convert_arg := 0\<rparr> else c)
      in if scan_begin_src c = TRIG_TIMER then
           let (lo, hi) =
             (if convert_src c = TRIG_TIMER
              then (ucast (convert_divisor * chanlist_len c), ucast (convert_divisor * chanlist_len c - 1 + 0xffffff))
              else (2, 0xffffff + 2))
           in c\<lparr>scan_begin_arg := clamp lo hi (get_divisor (scan_begin_arg c) (cmd_flags c)) * 25\<rparr>
         else c)"

text \<open>The stages that correct both periods at once and count each that changed.\<close>

definition adjust_periods :: "(comedi_cmd \<Rightarrow> comedi_cmd) \<Rightarrow> test_piece" where
  "adjust_periods f c =
     ((if convert_arg c \<noteq> convert_arg (f c) then 1 else 0) + (if scan_begin_arg c \<noteq> scan_begin_arg (f c) then 1 else 0),
      c\<lparr>convert_arg := convert_arg (f c), scan_begin_arg := scan_begin_arg (f c)\<rparr>)"

definition not_from_first :: "u32 list \<Rightarrow> nat" where
  "not_from_first xs = (if count_bad (\<lambda>i x. CR_CHAN x \<noteq> CR_CHAN (hd xs) + of_nat i) xs \<noteq> 0 then 1 else 0)"

definition pcidas64_ai_cmdtest :: "bool \<Rightarrow> u32 \<Rightarrow> comedi_cmd \<Rightarrow> int \<times> comedi_cmd" where
  "pcidas64_ai_cmdtest layout_4020 ai_speed = stages
     [mask_sources (TRIG_NOW OR TRIG_EXT) (if layout_4020 then TRIG_TIMER OR TRIG_OTHER else TRIG_TIMER OR TRIG_FOLLOW)
        (if layout_4020 then TRIG_TIMER OR TRIG_NOW else TRIG_TIMER OR TRIG_EXT) TRIG_COUNT (TRIG_COUNT OR TRIG_EXT OR TRIG_NONE),
      pieces
        [reject_if (\<lambda>c. start_src c \<noteq> TRIG_NOW \<and> start_src c \<noteq> TRIG_EXT),
         reject_if (\<lambda>c. scan_begin_src c \<noteq> TRIG_TIMER \<and> scan_begin_src c \<noteq> TRIG_OTHER \<and> scan_begin_src c \<noteq> TRIG_FOLLOW),
         reject_if (\<lambda>c. convert_src c \<noteq> TRIG_TIMER \<and> convert_src c \<noteq> TRIG_EXT \<and> convert_src c \<noteq> TRIG_NOW),
         reject_if (\<lambda>c. stop_src c \<noteq> TRIG_COUNT \<and> stop_src c \<noteq> TRIG_NONE \<and> stop_src c \<noteq> TRIG_EXT),
         reject_if (\<lambda>c. convert_src c = TRIG_EXT \<and> scan_begin_src c = TRIG_TIMER),
         reject_if (\<lambda>c. stop_src c \<noteq> TRIG_COUNT \<and> stop_src c \<noteq> TRIG_NONE \<and> stop_src c \<noteq> TRIG_EXT)],
      pieces
        [only_if (\<lambda>c. convert_src c = TRIG_TIMER)
           (if layout_4020 then no_convert_arg
            else pieces
              [min_convert_arg ai_speed,
               only_if (\<lambda>c. scan_begin_src c = TRIG_TIMER)
                 (fix_if (\<lambda>c. scan_begin_arg c < convert_arg c * chanlist_len c)
                    (\<lambda>c. c\<lparr>scan_begin_arg := convert_arg c * chanlist_len c\<rparr>))]),
         some_channels,
         scan_end_is_chanlist,
         either (\<lambda>c. stop_src c = TRIG_COUNT)
           some_stop_arg
           (only_if (\<lambda>c. stop_src c = TRIG_NONE)
              no_stop_arg)],
      only_if (\<lambda>c. convert_src c = TRIG_TIMER)
        (adjust_periods (check_adc_timing layout_4020)),
      count_entries (\<lambda>xs.
        (if count_bad (\<lambda>i x. CR_AREF (hd xs) \<noteq> CR_AREF x) xs \<noteq> 0 then 1 else 0) +
        (if layout_4020 then not_from_first xs + (if length xs = 3 then 1 else 0) else 0))]"

definition pcidas64_ao_cmdtest :: "u32 \<Rightarrow> comedi_cmd \<Rightarrow> int \<times> comedi_cmd" where
  "pcidas64_ao_cmdtest ao_scan_speed = stages
     [mask_sources (TRIG_INT OR TRIG_EXT) (TRIG_TIMER OR TRIG_EXT) TRIG_NOW TRIG_COUNT TRIG_NONE,
      pieces
        [reject_if (\<lambda>c. start_src c \<noteq> TRIG_INT \<and> start_src c \<noteq> TRIG_EXT),
         reject_if (\<lambda>c. scan_begin_src c \<noteq> TRIG_TIMER \<and> scan_begin_src c \<noteq> TRIG_EXT),
         reject_if (\<lambda>c. convert_src c = TRIG_EXT \<and> scan_begin_src c = TRIG_TIMER),
         reject_if (\<lambda>c. stop_src c \<noteq> TRIG_COUNT \<and> stop_src c \<noteq> TRIG_NONE \<and> stop_src c \<noteq> TRIG_EXT)],
      pieces
        [only_if (\<lambda>c. scan_begin_src c = TRIG_TIMER)
           (pieces
              [min_scan_begin_arg ao_scan_speed,
               fix_if (\<lambda>c. 0xffffff < get_ao_divisor (scan_begin_arg c) (cmd_flags c))
                 (\<lambda>c. c\<lparr>scan_begin_arg := (0xffffff + 2) * 25\<rparr>)]),
         some_channels,
         scan_end_is_chanlist],
      only_if (\<lambda>c. scan_begin_src c = TRIG_TIMER)
        (round_scan_begin (\<lambda>c. get_divisor (scan_begin_arg c) (cmd_flags c) * 25)),
      count_entries not_from_first]"

section \<open>Meilhaus ME-4000\<close>

text \<open>
  \<open>me4000.c\<close>: a clock of 33 MHz. The arguments are converted to ticks before anything is tested, and the ticks
  are those of the command that came in. Rounding to the nearest is never chosen (its flag is 0), and the
  channel list is compared with a flag of the subdevice instead of \<open>AREF_DIFF\<close>.
\<close>

definition SDF_DIFF :: u32 where "SDF_DIFF = 0x00400000"
definition TRIG_ANY :: u32 where "TRIG_ANY = 0xffffffff"

definition me4000_ticks :: "u32 \<Rightarrow> u32 \<Rightarrow> u32" where
  "me4000_ticks flags arg =
     (if arg = 0 then 0
      else let ticks = arg * 33 div 1000; rest = arg * 33 mod 1000 in
        if flags AND TRIG_ROUND_NEAREST \<noteq> 0 then (if 33 < rest then ticks + 1 else ticks)
        else if flags AND TRIG_ROUND_UP \<noteq> 0 then (if rest \<noteq> 0 then ticks + 1 else ticks)
        else ticks)"

text \<open>A source: one of two or three, or all of them when the user does not care; otherwise a default.\<close>

definition me4000_src :: "u32 list \<Rightarrow> u32 \<Rightarrow> u32 \<Rightarrow> u32 \<Rightarrow> nat \<times> u32" where
  "me4000_src allowed any fallback src =
     (if src \<in> set allowed then (0, src) else if src = TRIG_ANY then (1, src AND any) else (1, fallback))"

definition me4000_sources :: test_piece where
  "me4000_sources c =
     (let (e1, s1) = me4000_src [TRIG_NOW, TRIG_EXT] (TRIG_NOW OR TRIG_EXT) TRIG_NOW (start_src c);
          (e2, s2) = me4000_src [TRIG_FOLLOW, TRIG_TIMER, TRIG_EXT] (TRIG_FOLLOW OR TRIG_TIMER OR TRIG_EXT) TRIG_FOLLOW
            (scan_begin_src c);
          (e3, s3) = me4000_src [TRIG_TIMER, TRIG_EXT] (TRIG_TIMER OR TRIG_EXT) TRIG_TIMER (convert_src c);
          (e4, s4) = me4000_src [TRIG_NONE, TRIG_COUNT] (TRIG_NONE OR TRIG_COUNT) TRIG_NONE (scan_end_src c);
          (e5, s5) = me4000_src [TRIG_NONE, TRIG_COUNT] (TRIG_NONE OR TRIG_COUNT) TRIG_NONE (stop_src c)
      in (e1 + e2 + e3 + e4 + e5,
          c\<lparr>start_src := s1, scan_begin_src := s2, convert_src := s3, scan_end_src := s4, stop_src := s5\<rparr>))"

definition me4000_start_combinations :: "(u32 \<times> u32 \<times> u32) list" where
  "me4000_start_combinations =
     [(TRIG_NOW, TRIG_TIMER, TRIG_TIMER), (TRIG_NOW, TRIG_FOLLOW, TRIG_TIMER), (TRIG_EXT, TRIG_TIMER, TRIG_TIMER),
      (TRIG_EXT, TRIG_FOLLOW, TRIG_TIMER), (TRIG_EXT, TRIG_EXT, TRIG_TIMER), (TRIG_EXT, TRIG_EXT, TRIG_EXT)]"

definition me4000_stop_combinations :: "(u32 \<times> u32) list" where
  "me4000_stop_combinations =
     [(TRIG_NONE, TRIG_NONE), (TRIG_COUNT, TRIG_NONE), (TRIG_NONE, TRIG_COUNT), (TRIG_COUNT, TRIG_COUNT)]"

definition me4000_check_chanlist :: "u32 \<Rightarrow> u32 \<Rightarrow> comedi_cmd \<Rightarrow> bool" where
  "me4000_check_chanlist diff_count n_count c \<longleftrightarrow>
     chanlist_len c \<noteq> 0 \<and> chanlist_len c \<le> 1024 \<and>
     (case chanlist c of
        Kern_ptr xs \<Rightarrow>
          (let xs = take (unat (chanlist_len c)) xs; aref = CR_AREF (hd xs) in
           (\<forall>x \<in> set xs. CR_AREF x = aref) \<and>
           (\<forall>x \<in> set xs. CR_CHAN x < (if aref = SDF_DIFF then diff_count else n_count)) \<and>
           (aref = SDF_DIFF \<longrightarrow> (\<forall>x \<in> set xs. CR_RANGE x = 1 \<or> CR_RANGE x = 2)))
      | _ \<Rightarrow> False)"

definition me4000_ai_do_cmd_test :: "u32 \<Rightarrow> u32 \<Rightarrow> comedi_cmd \<Rightarrow> int \<times> comedi_cmd" where
  "me4000_ai_do_cmd_test diff_count n_count c0 =
     (let flags = cmd_flags c0 AND (TRIG_ROUND_NEAREST OR TRIG_ROUND_UP OR TRIG_ROUND_DOWN);
          init_ticks = me4000_ticks flags (start_arg c0);
          scan_ticks = me4000_ticks flags (scan_begin_arg c0);
          chan_ticks = me4000_ticks flags (convert_arg c0)
      in stages
        [me4000_sources,
         pieces
           [fix_if (\<lambda>c. (start_src c, scan_begin_src c, convert_src c) \<notin> set me4000_start_combinations)
              (\<lambda>c. c\<lparr>start_src := TRIG_NOW, scan_begin_src := TRIG_FOLLOW, convert_src := TRIG_TIMER\<rparr>),
            fix_if (\<lambda>c. (stop_src c, scan_end_src c) \<notin> set me4000_stop_combinations)
              (\<lambda>c. c\<lparr>stop_src := TRIG_NONE, scan_end_src := TRIG_NONE\<rparr>)],
         pieces
           [some_channels,
            fix_if (\<lambda>_. init_ticks < 66) (\<lambda>c. c\<lparr>start_arg := 2000\<rparr>),
            fix_if (\<lambda>_. scan_ticks \<noteq> 0 \<and> scan_ticks < 67) (\<lambda>c. c\<lparr>scan_begin_arg := 2031\<rparr>),
            fix_if (\<lambda>_. chan_ticks < 66) (\<lambda>c. c\<lparr>convert_arg := 2000\<rparr>)],
         pieces
           [fix_if (\<lambda>_. init_ticks < 66) (\<lambda>c. c\<lparr>start_arg := 2000\<rparr>),
            only_if (\<lambda>c. convert_src c = TRIG_TIMER)
              (fix_if (\<lambda>_. chan_ticks < 66) (\<lambda>c. c\<lparr>convert_arg := 2000\<rparr>)),
            only_if (\<lambda>c. scan_begin_src c = TRIG_TIMER)
              (fix_if (\<lambda>c. scan_ticks \<le> chanlist_len c * chan_ticks)
                 (\<lambda>c. c\<lparr>scan_end_arg := 2000 * chanlist_len c + 31\<rparr>)),
            only_if (\<lambda>c. stop_src c = TRIG_COUNT)
              some_stop_arg,
            only_if (\<lambda>c. scan_end_src c = TRIG_COUNT)
              (fix_if (\<lambda>c. scan_end_arg c = 0) (\<lambda>c. c\<lparr>scan_end_arg := 1\<rparr>))],
         reject_if (\<lambda>c. \<not> me4000_check_chanlist diff_count n_count c)] (c0\<lparr>cmd_flags := flags\<rparr>))"

section \<open>ADDI-DATA APCI-3120\<close>

text \<open>\<open>addi-data/hwdrv_apci3120.c\<close>: the limits come from the EEPROM of the board.\<close>

definition i_APCI3120_CommandTestAnalogInput :: "u32 \<Rightarrow> u32 \<Rightarrow> u32 \<Rightarrow> comedi_cmd \<Rightarrow> int \<times> comedi_cmd" where
  "i_APCI3120_CommandTestAnalogInput min_delay min_acquisition n_list = stages
     [mask_sources (TRIG_NOW OR TRIG_EXT) (TRIG_TIMER OR TRIG_FOLLOW) TRIG_TIMER TRIG_COUNT (TRIG_COUNT OR TRIG_NONE),
      pieces
        [reject_if (\<lambda>c. start_src c \<noteq> TRIG_NOW \<and> start_src c \<noteq> TRIG_EXT),
         reject_if (\<lambda>c. scan_begin_src c \<noteq> TRIG_TIMER \<and> scan_begin_src c \<noteq> TRIG_FOLLOW),
         reject_if (\<lambda>c. convert_src c \<noteq> TRIG_TIMER),
         fix_if (\<lambda>c. scan_end_src c \<noteq> TRIG_COUNT) (\<lambda>c. c\<lparr>scan_end_src := TRIG_COUNT\<rparr>),
         reject_if (\<lambda>c. stop_src c \<noteq> TRIG_NONE \<and> stop_src c \<noteq> TRIG_COUNT)],
      pieces
        [no_start_arg,
         only_if (\<lambda>c. scan_begin_src c = TRIG_TIMER)
           (min_scan_begin_arg min_delay),
         only_if (\<lambda>c. convert_src c = TRIG_TIMER)
           (either (\<lambda>c. scan_begin_src c = TRIG_TIMER)
              (fix_if (\<lambda>c. convert_arg c \<noteq> 0 \<and> convert_arg c < min_acquisition)
                 (\<lambda>c. c\<lparr>convert_arg := min_acquisition\<rparr>))
              (min_convert_arg min_acquisition)),
         some_channels,
         fix_if (\<lambda>c. n_list < chanlist_len c) (\<lambda>c. c\<lparr>chanlist_len := n_list\<rparr>),
         either (\<lambda>c. stop_src c = TRIG_COUNT) some_stop_arg no_stop_arg],
      only_if (\<lambda>c. convert_src c = TRIG_TIMER)
        (fix_if (\<lambda>c. scan_begin_src c = TRIG_TIMER \<and> scan_begin_arg c < convert_arg c * scan_end_arg c)
           (\<lambda>c. c\<lparr>scan_begin_arg := convert_arg c * scan_end_arg c\<rparr>))]"

section \<open>The contract\<close>

lemma good_once [good_intros]: "good t \<Longrightarrow> good (once t)"
  by (rule goodI) (auto simp: once_def good_def honest_def tame_def split_beta split: if_splits)

lemma good_adjust_periods [good_intros]: "good (adjust_periods f)"
  by (rule goodI) (auto simp: adjust_periods_def same_frame_def split: if_splits)

lemma good_check_scan_period [good_intros]: "good pci230_ai_check_scan_period"
  by (rule goodI) (simp_all add: pci230_ai_check_scan_period_def same_frame_def split: prod.splits if_splits)

lemma good_trigger_0 [good_intros]: "good (trigger_0_scan_begin m)"
  by (simp add: trigger_0_scan_begin_def good_intros same_frame_def)

interpretation pci230_ao: command_test "pci230_ao_cmdtest ext_trigger" for ext_trigger
  by (rule command_testI[OF pci230_ao_cmdtest_def]) (simp_all add: good_intros same_frame_def)

interpretation pci230_ai: command_test "pci230_ai_cmdtest ext_scan hwver n_chan" for ext_scan hwver n_chan
  by (rule command_testI[OF pci230_ai_cmdtest_def]) (simp_all add: good_intros same_frame_def)

interpretation pcidas64_ai: command_test "pcidas64_ai_cmdtest layout_4020 ai_speed" for layout_4020 ai_speed
  by (rule command_testI[OF pcidas64_ai_cmdtest_def]) (simp_all add: good_intros same_frame_def)

interpretation pcidas64_ao: command_test "pcidas64_ao_cmdtest ao_scan_speed" for ao_scan_speed
  by (rule command_testI[OF pcidas64_ao_cmdtest_def]) (simp_all add: good_intros same_frame_def)

interpretation apci3120: command_test "i_APCI3120_CommandTestAnalogInput min_delay min_acquisition n_list"
  for min_delay min_acquisition n_list
  by (rule command_testI[OF i_APCI3120_CommandTestAnalogInput_def]) (simp_all add: good_intros same_frame_def)

end
