(* ===== verification/Ni_Commands.thy ===== *)
theory Ni_Commands
  imports Board_Commands
begin

text \<open>
  The command tests of the National Instruments boards: Lab-PC, AT-A2150, the E and M series, and the
  general-purpose counters.
\<close>

unbundle bit_operations_syntax

section \<open>Lab-PC\<close>

text \<open>
  \<open>ni_labpc.c\<close>: counter b0 divides the clock for the conversions (a0) and for the scans (b1) when both are
  timed; a single timed period takes a cascade. With one channel, the scan period is the conversion period.
\<close>

datatype scan_mode = MODE_SINGLE_CHAN | MODE_SINGLE_CHAN_INTERVAL | MODE_MULT_CHAN_UP | MODE_MULT_CHAN_DOWN

definition labpc_ai_scan_mode :: "comedi_cmd \<Rightarrow> scan_mode" where
  "labpc_ai_scan_mode c =
     (if chanlist_len c = 1 then MODE_SINGLE_CHAN
      else case chanlist c of
        Kern_ptr (x # y # _) \<Rightarrow>
          if CR_CHAN x = CR_CHAN y then MODE_SINGLE_CHAN_INTERVAL
          else if CR_CHAN x < CR_CHAN y then MODE_MULT_CHAN_UP
          else MODE_MULT_CHAN_DOWN
      | _ \<Rightarrow> MODE_MULT_CHAN_UP)"

definition labpc_ai_convert_period :: "comedi_cmd \<Rightarrow> u32" where
  "labpc_ai_convert_period c =
     (if convert_src c \<noteq> TRIG_TIMER then 0
      else if labpc_ai_scan_mode c = MODE_SINGLE_CHAN \<and> scan_begin_src c = TRIG_TIMER then scan_begin_arg c
      else convert_arg c)"

definition labpc_set_ai_convert_period :: "u32 \<Rightarrow> comedi_cmd \<Rightarrow> comedi_cmd" where
  "labpc_set_ai_convert_period ns c =
     (if convert_src c \<noteq> TRIG_TIMER then c
      else if labpc_ai_scan_mode c = MODE_SINGLE_CHAN \<and> scan_begin_src c = TRIG_TIMER
      then c\<lparr>scan_begin_arg := ns, convert_arg := if ns < convert_arg c then ns else convert_arg c\<rparr>
      else c\<lparr>convert_arg := ns\<rparr>)"

definition labpc_ai_scan_period :: "comedi_cmd \<Rightarrow> u32" where
  "labpc_ai_scan_period c =
     (if scan_begin_src c \<noteq> TRIG_TIMER then 0
      else if labpc_ai_scan_mode c = MODE_SINGLE_CHAN \<and> convert_src c = TRIG_TIMER then 0
      else scan_begin_arg c)"

definition labpc_set_ai_scan_period :: "u32 \<Rightarrow> comedi_cmd \<Rightarrow> comedi_cmd" where
  "labpc_set_ai_scan_period ns c =
     (if scan_begin_src c \<noteq> TRIG_TIMER then c
      else if labpc_ai_scan_mode c = MODE_SINGLE_CHAN \<and> convert_src c = TRIG_TIMER then c
      else c\<lparr>scan_begin_arg := ns\<rparr>)"

record labpc_divisors =
  divisor_a0 :: u32
  divisor_b0 :: u32
  divisor_b1 :: u32

definition counter_range :: "u32 \<Rightarrow> u32" where
  "counter_range x = (if x < 2 then 2 else if 0x10000 < x then 0x10000 else x)"

definition labpc_adc_timing :: "labpc_divisors \<Rightarrow> comedi_cmd \<Rightarrow> labpc_divisors \<times> comedi_cmd" where
  "labpc_adc_timing d c =
     (let convert = labpc_ai_convert_period c; scan = labpc_ai_scan_period c; mode = round_mode c in
      if convert \<noteq> 0 \<and> scan \<noteq> 0 then
        let b0 = counter_range ((scan - 1) div (500 * 0x10000) + 1);
            base_period = 500 * b0;
            a0 = counter_range (clock_count base_period mode convert);
            b1 = counter_range (clock_count base_period mode scan)
        in (\<lparr>divisor_a0 = a0, divisor_b0 = b0, divisor_b1 = b1\<rparr>,
            labpc_set_ai_scan_period (base_period * b1) (labpc_set_ai_convert_period (base_period * a0) c))
      else if scan \<noteq> 0 then
        let old = (divisor_b1 d, divisor_b0 d); (b1, b0) = cascade_dividers 500 old scan mode
        in (d\<lparr>divisor_b1 := b1, divisor_b0 := b0\<rparr>, labpc_set_ai_scan_period (cascade_period 500 old scan mode) c)
      else if convert \<noteq> 0 then
        let old = (divisor_a0 d, divisor_b0 d); (a0, b0) = cascade_dividers 500 old convert mode
        in (d\<lparr>divisor_a0 := a0, divisor_b0 := b0\<rparr>, labpc_set_ai_convert_period (cascade_period 500 old convert mode) c)
      else (d, c))"

definition labpc_ai_chanlist_invalid :: "comedi_cmd \<Rightarrow> bool" where
  "labpc_ai_chanlist_invalid c =
     (case chanlist c of
        Kern_ptr xs \<Rightarrow>
          (let mode = labpc_ai_scan_mode c; n = unat (chanlist_len c) in
           mode \<noteq> MODE_SINGLE_CHAN \<and>
           (mode = MODE_SINGLE_CHAN_INTERVAL \<and> 0xff < chanlist_len c \<or>
            (\<exists>i \<in> set [0..<n].
               CR_CHAN (xs ! i) \<noteq> (case mode of
                  MODE_SINGLE_CHAN_INTERVAL \<Rightarrow> CR_CHAN (hd xs)
                | MODE_MULT_CHAN_DOWN \<Rightarrow> chanlist_len c - of_nat i - 1
                | _ \<Rightarrow> of_nat i) \<or>
               CR_RANGE (xs ! i) \<noteq> CR_RANGE (hd xs) \<or> CR_AREF (xs ! i) \<noteq> CR_AREF (hd xs))))
      | _ \<Rightarrow> False)"

text \<open>
  The first correction of stage 3 compares the argument with a source: it only concerns an argument of
  \<open>TRIG_NOW\<close>, that is 2.
\<close>

definition labpc_ai_test :: "bool \<Rightarrow> u32 \<Rightarrow> labpc_divisors \<Rightarrow> comedi_cmd \<Rightarrow> int \<times> comedi_cmd" where
  "labpc_ai_test layout_1200 ai_speed d = stages
     [mask_sources (TRIG_NOW OR TRIG_EXT) (TRIG_TIMER OR TRIG_FOLLOW OR TRIG_EXT) (TRIG_TIMER OR TRIG_EXT) TRIG_COUNT
        (if layout_1200 then TRIG_COUNT OR TRIG_NONE OR TRIG_EXT else TRIG_COUNT OR TRIG_NONE),
      pieces
        [reject_if (\<lambda>c. start_src c \<noteq> TRIG_NOW \<and> start_src c \<noteq> TRIG_EXT),
         reject_if (\<lambda>c. scan_begin_src c \<noteq> TRIG_TIMER \<and> scan_begin_src c \<noteq> TRIG_FOLLOW \<and> scan_begin_src c \<noteq> TRIG_EXT),
         reject_if (\<lambda>c. convert_src c \<noteq> TRIG_TIMER \<and> convert_src c \<noteq> TRIG_EXT),
         reject_if (\<lambda>c. stop_src c \<noteq> TRIG_COUNT \<and> stop_src c \<noteq> TRIG_EXT \<and> stop_src c \<noteq> TRIG_NONE),
         reject_if (\<lambda>c. start_src c = TRIG_EXT \<and> stop_src c = TRIG_EXT)],
      pieces
        [fix_if (\<lambda>c. start_arg c = TRIG_NOW \<and> start_arg c \<noteq> 0) (\<lambda>c. c\<lparr>start_arg := 0\<rparr>),
         reject_if (\<lambda>c. chanlist_len c = 0),
         scan_end_is_chanlist,
         only_if (\<lambda>c. convert_src c = TRIG_TIMER)
           (min_convert_arg ai_speed),
         only_if (\<lambda>c. scan_begin_src c = TRIG_TIMER)
           (pieces
              [fix_if (\<lambda>c. convert_src c = TRIG_TIMER \<and> scan_begin_arg c < convert_arg c * chanlist_len c)
                 (\<lambda>c. c\<lparr>scan_begin_arg := convert_arg c * chanlist_len c\<rparr>),
               fix_if (\<lambda>c. scan_begin_arg c < ai_speed * chanlist_len c)
                 (\<lambda>c. c\<lparr>scan_begin_arg := ai_speed * chanlist_len c\<rparr>)]),
         either (\<lambda>c. stop_src c = TRIG_COUNT)
           some_stop_arg
           (only_if (\<lambda>c. stop_src c = TRIG_NONE)
              no_stop_arg)],
      once (adjust_periods (\<lambda>c. snd (labpc_adc_timing d c))),
      reject_if labpc_ai_chanlist_invalid]"

definition labpc_ai_cmdtest ::
  "bool \<Rightarrow> u32 \<Rightarrow> labpc_divisors \<Rightarrow> comedi_cmd \<Rightarrow> (int \<times> comedi_cmd) \<times> labpc_divisors" where
  "labpc_ai_cmdtest layout_1200 ai_speed d = storing (labpc_ai_test layout_1200 ai_speed d)
     (\<lambda>d c. fst (labpc_adc_timing d c)) d"

section \<open>AT-A2150\<close>

text \<open>
  \<open>ni_at_a2150.c\<close>: the period is one of up to four master clocks times 1, 2, 4 or 8. The two best candidates are
  searched together; the bits of the one taken go to the configuration word.
\<close>

record a2150_candidates =
  cd_lub :: u32
  lub_divisor_shift :: nat
  lub_index :: nat
  cd_glb :: u32
  glb_divisor_shift :: nat
  glb_index :: nat

definition a2150_try :: "u32 list \<Rightarrow> u32 \<Rightarrow> nat \<times> nat \<Rightarrow> a2150_candidates \<Rightarrow> a2150_candidates" where
  "a2150_try clock period ij s =
     (let (i, j) = ij; temp = clock ! j * 2 ^ i;
          s = (if temp < cd_lub s \<and> period \<le> temp
               then s\<lparr>lub_divisor_shift := i, lub_index := j, cd_lub := temp\<rparr> else s)
      in if cd_glb s < temp \<and> temp \<le> period
         then s\<lparr>glb_divisor_shift := i, glb_index := j, cd_glb := temp\<rparr> else s)"

definition a2150_in_range :: "u32 list \<Rightarrow> u32 \<Rightarrow> u32" where
  "a2150_in_range clock period =
     (let lub = clock ! 0 * 2 ^ 3; glb = last clock;
          period = (if period < glb then glb else period)
      in if lub < period then lub else period)"

definition a2150_search :: "u32 list \<Rightarrow> u32 \<Rightarrow> a2150_candidates" where
  "a2150_search clock period =
     fold (a2150_try clock period) (List.product [0..<4] [0..<length clock])
       \<lparr>cd_lub = clock ! 0 * 2 ^ 3, lub_divisor_shift = 3, lub_index = 0,
        cd_glb = last clock, glb_divisor_shift = 0, glb_index = length clock - 1\<rparr>"

definition a2150_choose :: "a2150_candidates \<Rightarrow> u32 \<Rightarrow> u32 \<Rightarrow> u32" where
  "a2150_choose s period mode =
     (if mode = TRIG_ROUND_UP then cd_lub s
      else if mode = TRIG_ROUND_DOWN then cd_glb s
      else if cd_lub s - period < period - cd_glb s then cd_lub s else cd_glb s)"

text \<open>The new period and the new configuration word.\<close>

definition a2150_get_timing :: "u32 list \<Rightarrow> u32 \<Rightarrow> u32 \<Rightarrow> u32 \<Rightarrow> u32 \<times> u32" where
  "a2150_get_timing clock config_bits period flags =
     (let period = a2150_in_range clock period;
          s = a2150_search clock period;
          chosen = a2150_choose s period (flags AND TRIG_ROUND_MASK);
          (index, shift) = (if chosen = cd_lub s then (lub_index s, lub_divisor_shift s)
                            else (glb_index s, glb_divisor_shift s))
      in (chosen, (config_bits AND NOT (0xf * 8)) OR
            (push_bit 3 (of_nat index AND 3) OR push_bit 5 (of_nat shift AND 3))))"

definition a2150_stages :: "u32 list \<Rightarrow> u32 \<Rightarrow> u32 \<Rightarrow> test_piece list" where
  "a2150_stages clock config_bits ai_speed =
     [mask_sources (TRIG_NOW OR TRIG_EXT) TRIG_TIMER TRIG_NOW TRIG_COUNT (TRIG_COUNT OR TRIG_NONE),
      pieces
        [reject_if (\<lambda>c. start_src c \<noteq> TRIG_NOW \<and> start_src c \<noteq> TRIG_EXT),
         reject_if (\<lambda>c. stop_src c \<noteq> TRIG_COUNT \<and> stop_src c \<noteq> TRIG_NONE)],
      pieces
        [no_start_arg,
         only_if (\<lambda>c. convert_src c = TRIG_TIMER)
           (min_convert_arg ai_speed),
         some_channels,
         scan_end_is_chanlist,
         either (\<lambda>c. stop_src c = TRIG_COUNT) some_stop_arg no_stop_arg],
      only_if (\<lambda>c. scan_begin_src c = TRIG_TIMER)
        (round_scan_begin (\<lambda>c. fst (a2150_get_timing clock config_bits (scan_begin_arg c) (cmd_flags c))))]"

text \<open>
  The last stage compares the references of the first four entries of the list, whatever its length; an entry
  behind the end is \<open>None\<close>.
\<close>

definition a2150_bad_list :: "u32 list \<Rightarrow> bool option" where
  "a2150_bad_list xs =
     do {
       a0 \<leftarrow> load_nth xs 0;
       a1 \<leftarrow> load_nth xs 1;
       aref \<leftarrow> (if CR_AREF a0 \<noteq> CR_AREF a1 then Some True
                else do { a2 \<leftarrow> load_nth xs 2; a3 \<leftarrow> load_nth xs 3; Some (CR_AREF a2 \<noteq> CR_AREF a3) });
       Some (count_bad (\<lambda>i x. CR_CHAN x \<noteq> CR_CHAN a0 + of_nat i) xs \<noteq> 0 \<or>
         length xs = 2 \<and> CR_CHAN a0 = 1 \<or> length xs = 3 \<or> aref)
     }"

definition a2150_ai_cmdtest ::
  "u32 list \<Rightarrow> u32 \<Rightarrow> u32 \<Rightarrow> comedi_cmd \<Rightarrow> ((int \<times> comedi_cmd) \<times> u32) option" where
  "a2150_ai_cmdtest clock ai_speed config_bits c =
     (case stages (a2150_stages clock config_bits ai_speed) c of (ret, c') \<Rightarrow>
      let config_bits' = (if ret \<in> {1, 2, 3} \<or> scan_begin_src c \<noteq> TRIG_TIMER then config_bits
        else snd (a2150_get_timing clock config_bits (scan_begin_arg c) (cmd_flags c))) in
      if ret \<noteq> 0 then Some ((ret, c'), config_bits')
      else case chanlist c' of
          Kern_ptr xs \<Rightarrow> do { bad \<leftarrow> a2150_bad_list xs; Some ((if bad then 5 else 0, c'), config_bits') }
        | _ \<Rightarrow> Some ((0, c'), config_bits'))"

section \<open>E and M series\<close>

text \<open>
  \<open>ni_mio_common.c\<close>: a clock of \<open>clock_ns\<close>, which is not 0, and counters of 24 and 16 bits. \<open>simultaneous\<close>: the
  board samples all channels at once (611x, 6143); \<open>is_611x\<close>: it has a pipeline of three stages.
\<close>

definition CMDF_WRITE :: u32 where "CMDF_WRITE = 0x00000040"

definition ni_ns_to_timer :: "u32 \<Rightarrow> u32 \<Rightarrow> u32 \<Rightarrow> u32" where
  "ni_ns_to_timer clock_ns nanosec mode = clock_count clock_ns mode nanosec - 1"

definition ni_timer_to_ns :: "u32 \<Rightarrow> u32 \<Rightarrow> u32" where
  "ni_timer_to_ns clock_ns timer = clock_ns * (timer + 1)"

definition ni_min_ai_scan_period_ns :: "bool \<Rightarrow> u32 \<Rightarrow> u32 \<Rightarrow> u32" where
  "ni_min_ai_scan_period_ns simultaneous ai_speed num_channels =
     (if simultaneous then ai_speed else ai_speed * num_channels)"

text \<open>An external signal: its number, with a limit, and the flags the board knows.\<close>

definition ni_external :: "u32 \<Rightarrow> u32 \<Rightarrow> u32 \<Rightarrow> u32" where
  "ni_external limit known arg =
     (let tmp = CR_CHAN arg; tmp = (if limit < tmp then limit else tmp) in tmp OR (arg AND known))"

definition ni_start_arg :: "u32 \<Rightarrow> test_piece" where
  "ni_start_arg limit = either (\<lambda>c. start_src c = TRIG_EXT)
     (fix_if (\<lambda>c. start_arg c \<noteq> ni_external limit (CR_INVERT OR CR_EDGE) (start_arg c))
        (\<lambda>c. c\<lparr>start_arg := ni_external limit (CR_INVERT OR CR_EDGE) (start_arg c)\<rparr>))
     no_start_arg"

definition ni_ai_test :: "bool \<Rightarrow> bool \<Rightarrow> u32 \<Rightarrow> u32 \<Rightarrow> comedi_cmd \<Rightarrow> int \<times> comedi_cmd" where
  "ni_ai_test simultaneous is_611x clock_ns ai_speed = stages
     [mask_sources (TRIG_NOW OR TRIG_INT OR TRIG_EXT) (TRIG_TIMER OR TRIG_EXT)
        (if simultaneous then TRIG_TIMER OR TRIG_EXT OR TRIG_NOW else TRIG_TIMER OR TRIG_EXT)
        TRIG_COUNT (TRIG_COUNT OR TRIG_NONE),
      pieces
        [reject_if (\<lambda>c. start_src c \<noteq> TRIG_NOW \<and> start_src c \<noteq> TRIG_INT \<and> start_src c \<noteq> TRIG_EXT),
         reject_if (\<lambda>c. scan_begin_src c \<noteq> TRIG_TIMER \<and> scan_begin_src c \<noteq> TRIG_EXT \<and> scan_begin_src c \<noteq> TRIG_OTHER),
         reject_if (\<lambda>c. convert_src c \<noteq> TRIG_TIMER \<and> convert_src c \<noteq> TRIG_EXT \<and> convert_src c \<noteq> TRIG_NOW),
         reject_if (\<lambda>c. stop_src c \<noteq> TRIG_COUNT \<and> stop_src c \<noteq> TRIG_NONE)],
      pieces
        [ni_start_arg 16,
         either (\<lambda>c. scan_begin_src c = TRIG_TIMER)
           (pieces
              [fix_if (\<lambda>c. scan_begin_arg c < ni_min_ai_scan_period_ns simultaneous ai_speed (chanlist_len c))
                 (\<lambda>c. c\<lparr>scan_begin_arg := ni_min_ai_scan_period_ns simultaneous ai_speed (chanlist_len c)\<rparr>),
               max_scan_begin_arg (clock_ns * 0xffffff)])
           (either (\<lambda>c. scan_begin_src c = TRIG_EXT)
              (fix_if (\<lambda>c. scan_begin_arg c \<noteq> ni_external 16 (CR_INVERT OR CR_EDGE) (scan_begin_arg c))
                 (\<lambda>c. c\<lparr>scan_begin_arg := ni_external 16 (CR_INVERT OR CR_EDGE) (scan_begin_arg c)\<rparr>))
              no_scan_begin_arg),
         either (\<lambda>c. convert_src c = TRIG_TIMER)
           (if simultaneous then no_convert_arg
            else pieces [min_convert_arg ai_speed, max_convert_arg (clock_ns * 0xffff)])
           (either (\<lambda>c. convert_src c = TRIG_EXT)
              (fix_if (\<lambda>c. convert_arg c \<noteq> ni_external 16 (CR_ALT_FILTER OR CR_INVERT) (convert_arg c))
                 (\<lambda>c. c\<lparr>convert_arg := ni_external 16 (CR_ALT_FILTER OR CR_INVERT) (convert_arg c)\<rparr>))
              (only_if (\<lambda>c. convert_src c = TRIG_NOW)
                 no_convert_arg)),
         scan_end_is_chanlist,
         either (\<lambda>c. stop_src c = TRIG_COUNT)
           (pieces [max_stop_arg (if is_611x then 0x01000000 - 3 else 0x01000000), some_stop_arg])
           no_stop_arg],
      pieces
        [only_if (\<lambda>c. scan_begin_src c = TRIG_TIMER)
           (round_scan_begin (\<lambda>c. ni_timer_to_ns clock_ns (ni_ns_to_timer clock_ns (scan_begin_arg c) (round_mode c)))),
         only_if (\<lambda>c. convert_src c = TRIG_TIMER)
           (if simultaneous then pieces []
            else pieces
              [round_convert (\<lambda>c. ni_timer_to_ns clock_ns (ni_ns_to_timer clock_ns (convert_arg c) (round_mode c))),
               fix_if (\<lambda>c. scan_begin_src c = TRIG_TIMER \<and> scan_begin_arg c < convert_arg c * scan_end_arg c)
                 (\<lambda>c. c\<lparr>scan_begin_arg := convert_arg c * scan_end_arg c\<rparr>)])]]"

text \<open>The input clears the flag of an output command before anything else, the output sets it.\<close>

definition ni_ai_cmdtest :: "bool \<Rightarrow> bool \<Rightarrow> u32 \<Rightarrow> u32 \<Rightarrow> comedi_cmd \<Rightarrow> int \<times> comedi_cmd" where
  "ni_ai_cmdtest simultaneous is_611x clock_ns ai_speed c =
     ni_ai_test simultaneous is_611x clock_ns ai_speed (c\<lparr>cmd_flags := cmd_flags c AND NOT CMDF_WRITE\<rparr>)"

definition ni_ao_test :: "u32 \<Rightarrow> u32 \<Rightarrow> comedi_cmd \<Rightarrow> int \<times> comedi_cmd" where
  "ni_ao_test clock_ns ao_speed = stages
     [mask_sources (TRIG_INT OR TRIG_EXT) (TRIG_TIMER OR TRIG_EXT) TRIG_NOW TRIG_COUNT (TRIG_COUNT OR TRIG_NONE),
      reject_if (\<lambda>c. stop_src c \<noteq> TRIG_COUNT \<and> stop_src c \<noteq> TRIG_NONE),
      pieces
        [ni_start_arg 18,
         only_if (\<lambda>c. scan_begin_src c = TRIG_TIMER)
           (pieces [min_scan_begin_arg ao_speed, max_scan_begin_arg (clock_ns * 0xffffff)]),
         no_convert_arg,
         scan_end_is_chanlist,
         either (\<lambda>c. stop_src c = TRIG_COUNT) (max_stop_arg 0x00ffffff) no_stop_arg],
      only_if (\<lambda>c. scan_begin_src c = TRIG_TIMER)
        (round_scan_begin (\<lambda>c. ni_timer_to_ns clock_ns (ni_ns_to_timer clock_ns (scan_begin_arg c) (round_mode c))))]"

definition ni_ao_cmdtest :: "u32 \<Rightarrow> u32 \<Rightarrow> comedi_cmd \<Rightarrow> int \<times> comedi_cmd" where
  "ni_ao_cmdtest clock_ns ao_speed c = ni_ao_test clock_ns ao_speed (c\<lparr>cmd_flags := cmd_flags c OR CMDF_WRITE\<rparr>)"

section \<open>Counters\<close>

text \<open>
  \<open>ni_tiocmd.c\<close>: a counter that streams. The boards of the M series and the 660x have counting mode registers
  and can start on an external signal; other variants are a bug.
\<close>

datatype ni_gpct_variant = ni_gpct_variant_e_series | ni_gpct_variant_m_series | ni_gpct_variant_660x

fun ni_tio_counting_mode_registers_present :: "ni_gpct_variant \<Rightarrow> bool" where
  "ni_tio_counting_mode_registers_present ni_gpct_variant_e_series = False"
| "ni_tio_counting_mode_registers_present ni_gpct_variant_m_series = True"
| "ni_tio_counting_mode_registers_present ni_gpct_variant_660x = True"

definition ni_tio_cmdtest :: "ni_gpct_variant \<Rightarrow> comedi_cmd \<Rightarrow> int \<times> comedi_cmd" where
  "ni_tio_cmdtest variant = stages
     [mask_sources
        (if ni_tio_counting_mode_registers_present variant then TRIG_NOW OR TRIG_INT OR TRIG_OTHER OR TRIG_EXT
         else TRIG_NOW OR TRIG_INT OR TRIG_OTHER)
        (TRIG_FOLLOW OR TRIG_EXT OR TRIG_OTHER) (TRIG_NOW OR TRIG_EXT OR TRIG_OTHER) TRIG_COUNT TRIG_NONE,
      pieces
        [reject_if (\<lambda>c. start_src c \<noteq> TRIG_NOW \<and> start_src c \<noteq> TRIG_INT \<and> start_src c \<noteq> TRIG_EXT \<and> start_src c \<noteq> TRIG_OTHER),
         reject_if (\<lambda>c. scan_begin_src c \<noteq> TRIG_FOLLOW \<and> scan_begin_src c \<noteq> TRIG_EXT \<and> scan_begin_src c \<noteq> TRIG_OTHER),
         reject_if (\<lambda>c. convert_src c \<noteq> TRIG_OTHER \<and> convert_src c \<noteq> TRIG_EXT \<and> convert_src c \<noteq> TRIG_NOW),
         reject_if (\<lambda>c. stop_src c \<noteq> TRIG_NONE),
         reject_if (\<lambda>c. convert_src c \<noteq> TRIG_NOW \<and> scan_begin_src c \<noteq> TRIG_FOLLOW)],
      pieces
        [only_if (\<lambda>c. start_src c \<noteq> TRIG_EXT) no_start_arg,
         only_if (\<lambda>c. scan_begin_src c \<noteq> TRIG_EXT) no_scan_begin_arg,
         only_if (\<lambda>c. convert_src c \<noteq> TRIG_EXT) no_convert_arg,
         scan_end_is_chanlist,
         only_if (\<lambda>c. stop_src c = TRIG_NONE) no_stop_arg]]"

text \<open>\<open>ni_660x.c\<close> and the counters of \<open>ni_mio_common.c\<close> on a bus with DMA; ENOTSUPP is an internal code of the kernel.\<close>

definition ENOTSUPP :: int where "ENOTSUPP = 524"

definition ni_660x_cmdtest :: "comedi_cmd \<Rightarrow> int \<times> comedi_cmd" where
  "ni_660x_cmdtest = ni_tio_cmdtest ni_gpct_variant_660x"

definition ni_gpct_cmdtest :: "bool \<Rightarrow> ni_gpct_variant \<Rightarrow> comedi_cmd \<Rightarrow> int \<times> comedi_cmd" where
  "ni_gpct_cmdtest pcidma variant c = (if pcidma then ni_tio_cmdtest variant c else (- ENOTSUPP, c))"

section \<open>The contract\<close>

lemma good_ni_start_arg [good_intros]: "good (ni_start_arg limit)"
  by (simp add: ni_start_arg_def good_intros same_frame_def)

interpretation labpc: command_test "labpc_ai_test layout_1200 ai_speed d" for layout_1200 ai_speed d
  by (rule command_testI[OF labpc_ai_test_def]) (simp_all add: good_intros same_frame_def)

interpretation ni_ai: command_test "ni_ai_test simultaneous is_611x clock_ns ai_speed" for simultaneous is_611x clock_ns ai_speed
  by (rule command_testI[OF ni_ai_test_def]) (simp_all add: good_intros same_frame_def)

interpretation ni_ao: command_test "ni_ao_test clock_ns ao_speed" for clock_ns ao_speed
  by (rule command_testI[OF ni_ao_test_def]) (simp_all add: good_intros same_frame_def)

interpretation ni_tio: command_test "ni_tio_cmdtest variant" for variant
  by (rule command_testI[OF ni_tio_cmdtest_def]) (simp_all add: good_intros same_frame_def)

interpretation ni_660x: command_test ni_660x_cmdtest
  by (simp add: ni_660x_cmdtest_def ni_tio.command_test_axioms)

end
