(* ===== verification/Command_Contracts.thy ===== *)
theory Command_Contracts
  imports Digital_Commands Analog_Commands Cascade_Commands Ni_Commands Command_Flow Example_State
begin

text \<open>
  What the command tests of the hardware drivers promise, board by board: the contract of the documentation,
  what the simple boards accept, how the clocks round, and where the routines go wrong.
\<close>

unbundle bit_operations_syntax

section \<open>The contract\<close>

lemmas digital_contracts = subdev_700.command_test_axioms parport.command_test_axioms pc236.command_test_axioms
  ni6527.command_test_axioms ni_65xx.command_test_axioms pcmmio.command_test_axioms pcmuio.command_test_axioms
  dio200.command_test_axioms contec.command_test_axioms ni_pcidio.command_test_axioms hpdi.command_test_axioms

lemmas analog_contracts = skel.command_test_axioms dt2814.command_test_axioms dt282x_ai.command_test_axioms
  dt282x_ao.command_test_axioms dt3k.command_test_axioms s626.command_test_axioms rtd.command_test_axioms
  daqp.command_test_axioms atmio16d.command_test_axioms me_daq.command_test_axioms
  usbdux_ai.command_test_axioms usbdux_ao.command_test_axioms usbduxsigma_ai.command_test_axioms
  usbduxsigma_ao.command_test_axioms usbduxfast_ai.command_test_axioms

lemmas cascade_contracts = pcl711.command_test_axioms pcl812.command_test_axioms pcl816.command_test_axioms
  pcl818.command_test_axioms pci171x.command_test_axioms das16.command_test_axioms das16m1.command_test_axioms
  das800.command_test_axioms das1800.command_test_axioms cb_pcidas_ai.command_test_axioms
  cb_pcidas_ao.command_test_axioms

lemmas board_contracts = pci230_ao.command_test_axioms pci230_ai.command_test_axioms
  pcidas64_ai.command_test_axioms pcidas64_ao.command_test_axioms apci3120.command_test_axioms
  labpc.command_test_axioms ni_tio.command_test_axioms ni_660x.command_test_axioms



section \<open>What the digital boards accept\<close>

lemma accept_stages:
  assumes "test = stages ts" and "\<forall>t \<in> set ts. good t"
  shows "fst (test c) = 0 \<longleftrightarrow> (\<forall>t \<in> set ts. passes t c)"
  unfolding assms(1) by (rule stages_accept) (use assms(2) in blast)

text \<open>
  The interrupt inputs that are wired like the 8255's accept exactly one shape of command: start at
  once, a scan of one sample at every external event, no end, and no argument anywhere.
\<close>

theorem event_inputs_accept:
  assumes "test \<in> {subdev_8255_cmdtest, subdev_700_cmdtest, parport_intr_cmdtest, pc236_intr_cmdtest}"
  shows "fst (test c) = 0 \<longleftrightarrow>
    start_src c = TRIG_NOW \<and> scan_begin_src c = TRIG_EXT \<and> convert_src c = TRIG_FOLLOW \<and>
    scan_end_src c = TRIG_COUNT \<and> stop_src c = TRIG_NONE \<and> start_arg c = 0 \<and> scan_begin_arg c = 0 \<and>
    convert_arg c = 0 \<and> scan_end_arg c = 1 \<and> stop_arg c = 0"
proof -
  let ?waits = "[mask_sources TRIG_NOW TRIG_EXT TRIG_FOLLOW TRIG_COUNT TRIG_NONE, pieces [],
      pieces [no_start_arg, no_scan_begin_arg, no_convert_arg, scan_end_is 1, no_stop_arg]]"
  have "test = stages ?waits \<or> test = stages (?waits @ [pieces []])"
    using assms unfolding append.simps by (elim insertE emptyE)
      (simp_all only: subdev_700_cmdtest_def parport_intr_cmdtest_def pc236_intr_cmdtest_def
        subdev_8255_cmdtest_def stages_8255_def simp_thms)
  then obtain ts where test: "test = stages ts" and ts: "ts = ?waits \<or> ts = ?waits @ [pieces []]"
    by blast
  have "\<forall>t \<in> set ts. good t" using ts by (elim disjE) (simp_all add: good_intros)
  from accept_stages[OF test this] show ?thesis
    using ts by (elim disjE) (simp_all add: accept_simps conj_ac)
qed

theorem event_inputs_accept_witness:
  "fst (parport_intr_cmdtest (zero_cmd\<lparr>start_src := TRIG_NOW, scan_begin_src := TRIG_EXT,
     convert_src := TRIG_FOLLOW, scan_end_src := TRIG_COUNT, scan_end_arg := 1, stop_src := TRIG_NONE\<rparr>)) = 0"
  by (subst event_inputs_accept) (simp_all add: zero_cmd_def)

text \<open>A command to try the tests on, and what evaluates them.\<close>

lemmas evaluate = fix_defs fix_if_def reject_if_def either_def only_if_def quietly_def mask_sources_def bad_src_def
  round_scan_begin_def round_convert_def count_entries_def carrying_def Let_def zero_cmd_def TRIG_defs

definition timed_cmd :: comedi_cmd where
  "timed_cmd = zero_cmd\<lparr>start_src := TRIG_NOW, scan_begin_src := TRIG_TIMER, scan_begin_arg := 1000000000,
     convert_src := TRIG_TIMER, convert_arg := 1000000000, scan_end_src := TRIG_COUNT, scan_end_arg := 2,
     chanlist_len := 2, stop_src := TRIG_NONE\<rparr>"

section \<open>CMDTEST with a driver that keeps the contract\<close>

lemma cmdtest_reaches_driver:
  assumes driver: "\<And>dev i c. op_do_cmdtest ops f dev i c = Some (fst (test c), dev, snd (test c))"
    and s: "subd dev (unat (cmd_subdev c)) = Some s" "sd_do_cmdtest s = Some f"
    and r: "do_cmdtest_ioctl ops env dev (Some c) copy_back_ok = Some (ret, out, dev')"
  obtains (refused) "ret < 0" "out = None" "dev' = dev"
  | (tested) p where "ret = fst (test (c\<lparr>chanlist := p\<rparr>))"
      "out = Some ((snd (test (c\<lparr>chanlist := p\<rparr>)))\<lparr>chanlist := chanlist c\<rparr>)" "dev' = dev"
proof -
  note step = r[unfolded do_cmdtest_ioctl_def Let_def driver]
  have "ret < 0 \<and> out = None \<and> dev' = dev \<or> (\<exists>p. ret = fst (test (c\<lparr>chanlist := p\<rparr>)) \<and>
      out = Some ((snd (test (c\<lparr>chanlist := p\<rparr>)))\<lparr>chanlist := chanlist c\<rparr>) \<and> dev' = dev)"
  proof (cases "chanlist c = Null_ptr")
    case True
    then have own: "c\<lparr>chanlist := Null_ptr\<rparr> = c" by (metis comedi_cmd.surjective comedi_cmd.update_convs(13))
    have "ret < 0 \<and> out = None \<and> dev' = dev \<or> ret = fst (test c) \<and>
        out = Some ((snd (test c))\<lparr>chanlist := chanlist c\<rparr>) \<and> dev' = dev"
      using step s True by (auto simp: driver split: if_splits option.splits)
    then show ?thesis using own by metis
  next
    case False
    then show ?thesis
      using step s by (auto simp: driver bind_eq_Some_conv split: if_splits option.splits sum.splits)
  qed
  then show thesis using refused tested by blast
qed

context command_test
begin

lemma cmdtest_result:
  assumes "\<And>dev i c. op_do_cmdtest ops f dev i c = Some (fst (test c), dev, snd (test c))"
    and "subd dev (unat (cmd_subdev c)) = Some s" "sd_do_cmdtest s = Some f"
    and "do_cmdtest_ioctl ops env dev (Some c) copy_back_ok = Some (ret, out, dev')"
  shows "dev' = dev \<and> (case out of
      None \<Rightarrow> ret < 0
    | Some c' \<Rightarrow> ret \<in> {0..5} \<and> chanlist c' = chanlist c \<and> cmd_subdev c' = cmd_subdev c \<and> (ret = 0 \<longrightarrow> c' = c))"
  using assms
proof (cases rule: cmdtest_reaches_driver)
  case (tested p)
  let ?c = "c\<lparr>chanlist := p\<rparr>"
  show ?thesis
    using tested result_range[of ?c] keeps_frame[of ?c] accepted_unchanged[of ?c] by (simp add: same_frame_def)
qed simp

end


definition skel_ops :: "(nat, nat) driver_ops" where
  "skel_ops = idle_ops\<lparr>op_do_cmdtest := \<lambda>_ dev _ c. Some (fst (skel_ai_cmdtest c), dev, snd (skel_ai_cmdtest c))\<rparr>"


end
