(* ===== verification/Timer_Properties.thy ===== *)
theory Timer_Properties
  imports Timer_8253
begin

text \<open>
  What the 8253 helpers guarantee: the rounding of the divider search, its completeness for the periods
  that two dividers can give, and the writes that load a counter.
\<close>

unbundle bit_operations_syntax

lemma uint_AND_mask: "uint (w AND 2 ^ n - 1) = uint w mod 2 ^ n" for w :: "'a :: len word"
  by (metis mask_eq_exp_minus_1 take_bit_eq_mask take_bit_eq_mod unsigned_take_bit_eq)

lemma uint_masks:
  "uint (w AND 0xff) = uint w mod 256" "uint (w AND 0xffff) = uint w mod 65536" for w :: u32
  using uint_AND_mask[of w 8] uint_AND_mask[of w 16] by simp_all

section \<open>Completeness of the search\<close>

text \<open>The search has met a pair that gives the period; it never loses it again.\<close>

definition met :: "u32 \<Rightarrow> cascade \<Rightarrow> bool" where
  "met nanosec c \<longleftrightarrow> ns_glb c = nanosec \<and> ns_lub c = nanosec"

lemma met_try: "met nanosec c \<Longrightarrow> met nanosec (cascade_try osc nanosec div1 div2 c)"
  by (auto simp: met_def cascade_try_def Let_def)

lemma met_inner: "met nanosec c \<Longrightarrow> met nanosec (cascade_inner osc nanosec divider div1 div2 c)"
  by (rule cascade_inner_keeps[where P = "met nanosec"]) (rule met_try)

lemma met_outer: "met nanosec c \<Longrightarrow> met nanosec (cascade_outer osc nanosec divider div1 c)"
  by (rule cascade_outer_keeps[where P = "met nanosec"]) (rule met_try)

lemma met_hit:
  assumes "cascade_ok osc nanosec c" and "osc * div1 * div2 = nanosec" and "nanosec < 0xffffffff"
  shows "met nanosec (cascade_try osc nanosec div1 div2 c)"
proof -
  have "ns_glb c \<le> nanosec" "nanosec \<le> ns_lub c" using assms(1) unfolding cascade_ok_def by blast+
  then have "ns_glb c = nanosec \<or> ns_glb c < nanosec" "ns_lub c = nanosec \<or> nanosec < ns_lub c"
    by (metis order_le_less)+
  then show ?thesis using assms(2) by (auto simp: met_def cascade_try_def Let_def)
qed

text \<open>A period of two dividers, in the integers: nothing overflows.\<close>

definition two_dividers :: "u32 \<Rightarrow> u32 \<Rightarrow> u32 \<Rightarrow> u32 \<Rightarrow> bool" where
  "two_dividers osc nanosec a b \<longleftrightarrow>
     2 \<le> unat osc \<and> 2 \<le> unat a \<and> unat a \<le> unat b \<and> b \<le> MAX_COUNT \<and>
     unat nanosec = unat osc * unat a * unat b \<and> nanosec < 0xffffffff"

lemma two_dividersD:
  assumes "two_dividers osc nanosec a b"
  shows "osc * a * b = nanosec" and "nanosec div osc = a * b" and "unat (a * b) = unat a * unat b"
    and "(a * b) div a = b" and "unat a * unat b \<le> 2147483647" and "unat b \<le> 65536"
proof -
  note d = assms[unfolded two_dividers_def]
  have lt: "unat osc * (unat a * unat b) < 4294967296" using d unat_u32_less[of nanosec] by (simp add: mult.assoc)
  have osc: "0 < unat osc" "0 < unat a" using d by auto
  have "2 * (unat a * unat b) \<le> unat osc * (unat a * unat b)" using d by (intro mult_le_mono1) auto
  then show ab: "unat a * unat b \<le> 2147483647" using lt by linarith
  show b: "unat b \<le> 65536" using d by (simp add: MAX_COUNT_def word_le_nat_alt)
  show uab: "unat (a * b) = unat a * unat b" using ab by (simp add: unat_word_ariths)
  show "osc * a * b = nanosec"
    by (rule word_unat_eq_iff[THEN iffD2]) (use d lt in \<open>simp add: unat_word_ariths mult.assoc mod_mult_right_eq\<close>)
  show "nanosec div osc = a * b"
    by (rule word_unat_eq_iff[THEN iffD2]) (use d osc in \<open>simp add: unat_div uab mult.assoc\<close>)
  show "(a * b) div a = b"
    by (rule word_unat_eq_iff[THEN iffD2]) (use osc in \<open>simp add: unat_div uab\<close>)
qed

lemma inner_meets:
  assumes d: "two_dividers osc nanosec a b" and c: "cascade_ok osc nanosec c"
  shows "met nanosec (cascade_inner osc nanosec (a * b) a b c)"
proof -
  note D = two_dividersD[OF d]
  have "unat a \<le> 65536" using d D(6) by (simp add: two_dividers_def)
  then have "unat (a * b + a + 1) = unat a * unat b + unat a + 1"
    using D(3,5) by (simp add: unat_word_ariths)
  then have "a * b \<le> a * b + a + 1" using D(3) by (simp add: word_le_nat_alt)
  then have guard: "a * b \<le> a * b + a + 1 \<and> b \<le> MAX_COUNT" using d by (simp add: two_dividers_def)
  have "met nanosec (cascade_try osc nanosec a b c)"
    using met_hit[OF c D(1)] d by (simp add: two_dividers_def)
  then show ?thesis
    unfolding cascade_inner.simps[of osc nanosec "a * b" a b c] if_P[OF guard]
    by (rule met_inner)
qed

lemma outer_meets:
  assumes d: "two_dividers osc nanosec a b" and "cascade_ok osc nanosec c" and "div1 \<le> a" and "div1 \<noteq> 0"
  shows "met nanosec (cascade_outer osc nanosec (a * b) div1 c)"
  using assms
proof (induction osc nanosec "a * b" div1 c rule: cascade_outer.induct)
  case (1 osc nanosec div1 c)
  note d = "1.prems"(1)
  note D = two_dividersD[OF d]
  have "unat div1 \<le> unat a" "0 < unat div1"
    using "1.prems"(3,4) by (simp_all add: word_le_nat_alt unat_gt_0)
  moreover have "unat a \<le> unat b" using d by (simp add: two_dividers_def)
  ultimately have le: "unat div1 \<le> unat (a * b) div unat div1"
    using D(3) by (simp add: less_eq_div_iff_mult_less_eq mult_le_mono)
  have "unat (a * b) div unat div1 \<le> unat (a * b)" by simp
  then have "unat (a * b) div unat div1 + 1 < 4294967296" using D(3,5) by linarith
  then have "unat (a * b div div1 + 1) = unat (a * b) div unat div1 + 1"
    by (simp add: unat_word_ariths unat_div)
  then have "div1 \<le> a * b div div1 + 1" using le by (simp add: word_le_nat_alt)
  moreover have "div1 \<le> MAX_COUNT"
    using \<open>unat div1 \<le> unat a\<close> \<open>unat a \<le> unat b\<close> D(6) by (simp add: MAX_COUNT_def word_le_nat_alt)
  ultimately have guard: "div1 \<le> a * b div div1 + 1 \<and> div1 \<le> MAX_COUNT" by simp
  let ?c = "cascade_inner osc nanosec (a * b) div1 (a * b div div1) c"
  have "met nanosec (cascade_outer osc nanosec (a * b) (div1 + 1) ?c)"
  proof (cases "div1 = a")
    case True
    then have "met nanosec ?c" using inner_meets[OF d "1.prems"(2)] D(4) by simp
    then show ?thesis by (rule met_outer)
  next
    case False
    then have lt: "unat div1 < unat a" using \<open>unat div1 \<le> unat a\<close> by (simp add: word_unat_eq_iff)
    then have "unat (div1 + 1) = unat div1 + 1"
      using D(6) \<open>unat a \<le> unat b\<close> by (simp add: unat_word_ariths)
    then have succ: "div1 + 1 \<le> a" "div1 + 1 \<noteq> 0"
      using lt by (auto simp: word_le_nat_alt word_unat_eq_iff)
    have ok: "cascade_ok osc nanosec ?c"
      by (rule cascade_inner_keeps[where P = "cascade_ok osc nanosec", OF cascade_ok_try]) (use guard "1.prems"(2) in auto)
    show ?thesis by (rule "1.hyps"[OF guard d ok succ])
  qed
  then show ?case unfolding cascade_outer.simps[of osc nanosec "a * b" div1 c] if_P[OF guard] .
qed

lemma search_meets:
  assumes d: "two_dividers osc nanosec a b"
  shows "met nanosec (cascade_search osc nanosec)"
proof -
  note D = two_dividersD[OF d]
  let ?start = "if a * b div MAX_COUNT < 2 then 2 else a * b div MAX_COUNT"
  have "unat (a * b div MAX_COUNT) = unat a * unat b div 65536"
    by (simp add: unat_div D(3) MAX_COUNT_def)
  also have "\<dots> \<le> unat a * 65536 div 65536" using D(6) by (intro div_le_mono mult_le_mono2)
  finally have "a * b div MAX_COUNT \<le> a" by (simp add: word_le_nat_alt)
  then have "?start \<le> a" "?start \<noteq> 0" using d by (auto simp: two_dividers_def word_le_nat_alt)
  then show ?thesis
    unfolding cascade_search_def Let_def D(2) by (intro outer_meets d cascade_ok_start)
qed

section \<open>Rounding\<close>

lemma cascade_2div_cases:
  assumes "i8253_cascade_ns_to_timer_2div osc d1 d2 nanosec mode = Some (e1, e2, p)"
  obtains (exact) "cascade_exact osc d1 d2 nanosec" "e1 = d1" "e2 = d2" "p = nanosec"
  | (searched) a b where "osc \<noteq> 0" "cascade_choose osc nanosec mode (cascade_search osc nanosec) = (a, b)"
      "e1 = a AND 0xffff" "e2 = b AND 0xffff" "p = a * b * osc"
  using assms by (auto simp: i8253_cascade_ns_to_timer_2div_def split: if_splits prod.splits)

lemma cascade_2div_returns:
  "osc \<noteq> 0 \<Longrightarrow> \<exists>e1 e2 p. i8253_cascade_ns_to_timer_2div osc d1 d2 nanosec mode = Some (e1, e2, p)"
  by (auto simp: i8253_cascade_ns_to_timer_2div_def split: prod.splits)

lemma cascade_choose_cases:
  assumes "cascade_choose osc nanosec mode c = (a, b)" and "cascade_ok osc nanosec c"
  obtains (below) "a * b * osc = ns_glb c" "mode AND TRIG_ROUND_MASK \<noteq> TRIG_ROUND_UP"
  | (above) "a * b * osc = ns_lub c" "ns_lub c < 0xffffffff" "mode AND TRIG_ROUND_MASK \<noteq> TRIG_ROUND_DOWN"
  | (none) "a = 0" "b = 0" "ns_lub c = 0xffffffff" "mode AND TRIG_ROUND_MASK \<noteq> TRIG_ROUND_DOWN"
proof -
  have "ns_glb c = osc * div1_glb c * div2_glb c" using assms(2) unfolding cascade_ok_def by (elim conjE)
  then have glb: "div1_glb c * div2_glb c * osc = ns_glb c" by (simp only: ac_simps)
  have up_down: "TRIG_ROUND_UP \<noteq> TRIG_ROUND_DOWN" by (simp add: TRIG_defs)
  define m where "m = mode AND TRIG_ROUND_MASK"
  have "(m = TRIG_ROUND_UP \<longrightarrow> a = div1_lub c \<and> b = div2_lub c) \<and>
      (m = TRIG_ROUND_DOWN \<longrightarrow> a = div1_glb c \<and> b = div2_glb c) \<and>
      (a = div1_lub c \<and> b = div2_lub c \<or> a = div1_glb c \<and> b = div2_glb c)"
    using assms(1) up_down unfolding cascade_choose_def Let_def m_def[symmetric]
    by (simp split: if_split_asm)
  then consider (lub) "a = div1_lub c" "b = div2_lub c" "mode AND TRIG_ROUND_MASK \<noteq> TRIG_ROUND_DOWN"
    | (glb) "a = div1_glb c" "b = div2_glb c" "mode AND TRIG_ROUND_MASK \<noteq> TRIG_ROUND_UP"
    using up_down unfolding m_def by metis
  then show thesis
  proof cases
    case lub
    have "div1_lub c = 0 \<and> div2_lub c = 0 \<and> ns_lub c = 0xffffffff \<or>
        ns_lub c = osc * div1_lub c * div2_lub c \<and> ns_lub c < 0xffffffff"
      using assms(2) unfolding cascade_ok_def by (elim conjE)
    then show thesis
    proof
      assume "div1_lub c = 0 \<and> div2_lub c = 0 \<and> ns_lub c = 0xffffffff"
      then show thesis using none lub by simp
    next
      assume l: "ns_lub c = osc * div1_lub c * div2_lub c \<and> ns_lub c < 0xffffffff"
      have "a * b * osc = ns_lub c" using l lub(1,2) by (simp add: ac_simps)
      then show thesis using above l lub(3) by blast
    qed
  next
    case glb
    then show thesis by (intro below) (simp_all only: \<open>div1_glb c * div2_glb c * osc = ns_glb c\<close> not_False_eq_True)
  qed
qed

lemma or_max_mask:
  assumes "a \<le> MAX_COUNT" and "a \<noteq> 0"
  shows "or_max (a AND 0xffff) = a"
proof (cases "a = MAX_COUNT")
  case True
  then show ?thesis by (simp add: or_max_def MAX_COUNT_def)
next
  case False
  then have "uint a < 65536"
    using assms(1) by (simp add: MAX_COUNT_def word_le_def word_uint_eq_iff)
  then have "a AND 0xffff = a" by (simp add: word_uint_eq_iff uint_masks)
  then show ?thesis using assms(2) by (simp add: or_max_def)
qed

lemma cascade_choose_small:
  assumes "cascade_choose osc nanosec mode c = (a, b)" and "cascade_ok osc nanosec c"
  shows "a \<le> MAX_COUNT \<and> b \<le> MAX_COUNT"
  using assms by (auto simp: cascade_choose_def cascade_ok_def Let_def split: if_splits)

lemma cascade_2div_sound:
  assumes "i8253_cascade_ns_to_timer_2div osc d1 d2 nanosec mode = Some (e1, e2, p)"
  shows "p \<noteq> 0 \<longrightarrow> p = or_max e1 * or_max e2 * osc"
    and "mode AND TRIG_ROUND_MASK = TRIG_ROUND_DOWN \<longrightarrow> p \<le> nanosec"
    and "mode AND TRIG_ROUND_MASK = TRIG_ROUND_UP \<longrightarrow> nanosec \<le> p \<or> p = 0"
proof -
  from assms have "(p \<noteq> 0 \<longrightarrow> p = or_max e1 * or_max e2 * osc) \<and>
    (mode AND TRIG_ROUND_MASK = TRIG_ROUND_DOWN \<longrightarrow> p \<le> nanosec) \<and>
    (mode AND TRIG_ROUND_MASK = TRIG_ROUND_UP \<longrightarrow> nanosec \<le> p \<or> p = 0)"
  proof (cases rule: cascade_2div_cases)
    case exact
    then show ?thesis by (simp add: cascade_exact_def Let_def)
  next
    case (searched a b)
    let ?c = "cascade_search osc nanosec"
    have "a \<le> MAX_COUNT" "b \<le> MAX_COUNT"
      using cascade_choose_small[OF searched(2) cascade_ok_search] by simp_all
    then have real: "p \<noteq> 0 \<longrightarrow> p = or_max e1 * or_max e2 * osc"
      unfolding searched(3-5) by (metis or_max_mask mult_zero_left mult_zero_right)
    have "ns_glb ?c \<le> nanosec" "nanosec \<le> ns_lub ?c"
      using cascade_ok_search[of osc nanosec] unfolding cascade_ok_def by blast+
    then show ?thesis
      using real searched(5) by (cases rule: cascade_choose_cases[OF searched(2) cascade_ok_search]) simp_all
  qed
  then show "p \<noteq> 0 \<longrightarrow> p = or_max e1 * or_max e2 * osc"
    and "mode AND TRIG_ROUND_MASK = TRIG_ROUND_DOWN \<longrightarrow> p \<le> nanosec"
    and "mode AND TRIG_ROUND_MASK = TRIG_ROUND_UP \<longrightarrow> nanosec \<le> p \<or> p = 0"
    by simp_all
qed



text \<open>
  The search is complete: a period below \<open>2 ^ 32 - 1\<close> that is the product of the clock (2 ns or more)
  and two dividers from 2 to 65536 is reported unchanged, whatever the rounding mode and the dividers
  handed in.
\<close>

theorem cascade_finds_exact:
  assumes "2 \<le> unat osc" and "a \<in> {2..65536}" and "b \<in> {2..65536}"
    and "unat nanosec = unat osc * a * b" and "nanosec < 0xffffffff"
  shows "\<exists>e1 e2. i8253_cascade_ns_to_timer_2div osc d1 d2 nanosec mode = Some (e1, e2, nanosec)"
proof -
  have w: "unat (of_nat k :: u32) = k" if "k \<in> {2..65536}" for k
    using that by (simp add: unat_of_nat)
  have "two_dividers osc nanosec (of_nat (min a b)) (of_nat (max a b))"
    using assms w[of a] w[of b]
    by (simp add: two_dividers_def MAX_COUNT_def word_le_nat_alt min_def max_def)
  then have met: "met nanosec (cascade_search osc nanosec)" by (rule search_meets)
  have "osc \<noteq> 0" using assms(1) by auto
  then obtain e1 e2 p where r: "i8253_cascade_ns_to_timer_2div osc d1 d2 nanosec mode = Some (e1, e2, p)"
    using cascade_2div_returns by blast
  from r have "p = nanosec"
  proof (cases rule: cascade_2div_cases)
    case exact
    then show ?thesis by simp
  next
    case (searched x y)
    then show ?thesis
      using met assms(5) by (cases rule: cascade_choose_cases[OF searched(2) cascade_ok_search]) (auto simp: met_def)
  qed
  then show ?thesis using r by blast
qed

theorem cascade_finds_exact_witness:
  "\<exists>e1 e2. i8253_cascade_ns_to_timer_2div 500 7 7 4294000000 TRIG_ROUND_NEAREST = Some (e1, e2, 4294000000)"
  by (rule cascade_finds_exact[of _ 4000 2147]) simp_all

lemma cascade_short:
  assumes "osc \<noteq> 0" and "\<not> cascade_exact osc d1 d2 nanosec" and small: "nanosec div osc < 2"
  shows "i8253_cascade_ns_to_timer_2div osc d1 d2 nanosec mode = Some (0, 0, 0)"
proof -
  from small have "nanosec div osc = 0 \<or> nanosec div osc = 1"
    by (simp add: word_less_nat_alt word_unat_eq_iff) linarith
  then have "\<not> ((2 :: u32) \<le> nanosec div osc div 2 + 1 \<and> 2 \<le> MAX_COUNT)" "nanosec div osc div MAX_COUNT < 2"
    by (auto simp: MAX_COUNT_def word_le_nat_alt)
  then have "cascade_search osc nanosec =
      \<lparr>ns_glb = 0, div1_glb = 0, div2_glb = 0, ns_lub = 0xffffffff, div1_lub = 0, div2_lub = 0\<rparr>"
    unfolding cascade_search_def Let_def by (subst cascade_outer.simps) (simp only: if_True if_False if_P)
  then show ?thesis
    using assms(1,2) by (simp add: i8253_cascade_ns_to_timer_2div_def cascade_choose_def Let_def)
qed

lemma cascade_top:
  assumes "osc \<noteq> 0" and "\<not> cascade_exact osc d1 d2 0xffffffff" and up: "mode AND TRIG_ROUND_MASK = TRIG_ROUND_UP"
  shows "i8253_cascade_ns_to_timer_2div osc d1 d2 0xffffffff mode = Some (0, 0, 0)"
proof -
  have ok: "cascade_ok osc 0xffffffff (cascade_search osc 0xffffffff)" by (rule cascade_ok_search)
  then have "0xffffffff \<le> ns_lub (cascade_search osc 0xffffffff)"
    unfolding cascade_ok_def by blast
  then have "div1_lub (cascade_search osc 0xffffffff) = 0 \<and> div2_lub (cascade_search osc 0xffffffff) = 0"
    using ok unfolding cascade_ok_def by (metis linorder_not_le)
  then show ?thesis
    using assms(1,2) up by (simp add: i8253_cascade_ns_to_timer_2div_def cascade_choose_def Let_def)
qed

text \<open>
  Two blind spots. A period below twice the clock gives dividers 0 and the period 0 in every mode,
  and so does \<open>2 ^ 32 - 1\<close> when rounding up: no candidate is below the initial bound. Dividers 0 make the
  chip count \<open>2 ^ 32\<close> clocks, the slowest rate instead of the fastest.
\<close>

theorem cascade_blind_spots:
  assumes "osc \<noteq> 0" and "\<not> cascade_exact osc d1 d2 nanosec"
    and "nanosec div osc < 2 \<or> nanosec = 0xffffffff \<and> mode AND TRIG_ROUND_MASK = TRIG_ROUND_UP"
  shows "i8253_cascade_ns_to_timer_2div osc d1 d2 nanosec mode = Some (0, 0, 0)"
  using assms(3) cascade_short[OF assms(1,2)] cascade_top[OF assms(1)] assms(2) by blast

theorem cascade_blind_spots_witness:
  "i8253_cascade_ns_to_timer_2div 1000 0 0 0xffffffff TRIG_ROUND_UP = Some (0, 0, 0)"
proof -
  have o: "(1000 :: u32) \<noteq> 0" and e: "\<not> cascade_exact 1000 0 0 0xffffffff"
    by (simp_all add: cascade_exact_def or_max_def MAX_COUNT_def)
  show ?thesis by (rule cascade_blind_spots[OF o e]) (simp add: TRIG_defs)
qed

section \<open>Loading a counter\<close>

text \<open>
  Loading a counter writes three bytes: a control word naming the counter, both bytes and the mode,
  then the count to the counter's port, low byte first; reading these two bytes back gives the count.
\<close>

theorem i8254_load_read:
  assumes "counter \<le> 2" and "cnt \<le> 0xffff" and "mode \<le> 5" and "cnt = 1 \<longrightarrow> mode \<noteq> 2 \<and> mode \<noteq> 3"
  shows "\<exists>ctl lsb msb. i8254_load base regshift counter cnt mode =
      (0, [(reg_at base regshift 3, ctl), (reg_at base regshift counter, lsb), (reg_at base regshift counter, msb)]) \<and>
    fst (i8254_read base regshift counter lsb msb) = uint cnt \<and>
    uint ctl = uint counter * 64 + 48 + uint mode * 2"
proof -
  let ?ctl = "ucast (push_bit 6 counter OR 0x30 OR push_bit 1 mode) :: u8"
  let ?l = "ucast (cnt AND 0xff) :: u8" and ?m = "ucast (drop_bit 8 cnt AND 0xff) :: u8"
  have load: "i8254_load base regshift counter cnt mode = (0, [(reg_at base regshift 3, ?ctl),
      (reg_at base regshift counter, ?l), (reg_at base regshift counter, ?m)])"
    using assms by (auto simp: i8254_load_def count_writes_def linorder_not_less)
  have c: "uint cnt \<le> 65535" using assms(2) by (simp add: word_le_def)
  have "uint ?l = uint cnt mod 256"
    by (simp add: unsigned_ucast_eq uint_masks take_bit_eq_mod)
  moreover have "uint cnt div 256 < 256" "0 \<le> uint cnt div 256"
    using c by (simp_all add: pos_imp_zdiv_nonneg_iff)
  then have "uint ?m = uint cnt div 256"
    by (simp add: unsigned_ucast_eq uint_masks take_bit_eq_mod drop_bit_eq_div uint_div mod_pos_pos_trivial)
  ultimately have read: "fst (i8254_read base regshift counter ?l ?m) = uint cnt"
    using assms(1) by (simp add: i8254_read_def linorder_not_less[symmetric])
  have "counter \<in> {0, 1, 2}" "mode \<in> {0, 1, 2, 3, 4, 5}"
    using assms(1,3) by (auto simp: word_le_nat_alt word_unat_eq_iff)
  then have "uint ?ctl = uint counter * 64 + 48 + uint mode * 2" by auto
  then show ?thesis using load read by blast
qed

theorem i8254_load_read_witness:
  "\<exists>ctl lsb msb. i8254_load 0x300 0 1 4000 2 = (0, [(reg_at 0x300 0 3, ctl), (reg_at 0x300 0 1, lsb), (reg_at 0x300 0 1, msb)]) \<and>
    fst (i8254_read 0x300 0 1 lsb msb) = 4000"
  using i8254_load_read[of 1 4000 2 "0x300" 0] by fastforce

end
