(* ===== verification/Command_Faults.thy ===== *)
theory Command_Faults
  imports Command_Contracts Timer_Properties
begin

text \<open>
  Where the command tests of the boards go wrong: commands that are never accepted, that change although they
  are accepted, and that stop the machine.
\<close>

unbundle bit_operations_syntax

section \<open>Commands that are never accepted\<close>

lemma first_passes: "passes t c \<Longrightarrow> good t \<Longrightarrow> stages_from k (t # ts) c = stages_from (k + 1) ts c"
  by (simp add: good_passes)

lemma first_fails: "\<not> passes t c \<Longrightarrow> stages_from k (t # ts) c = (k, snd (t c))"
  by (simp add: passes_def split_beta)

text \<open>
  The board of \<open>dt2814.c\<close> accepts no command at all: the first stage leaves a stop source that is a count
  or none, and the second insists on a timer or an external stop.
\<close>

theorem dt2814_never_accepts: "fst (dt2814_ai_cmdtest c) \<in> {1, 2}"
proof -
  let ?mask = "mask_sources TRIG_NOW TRIG_TIMER TRIG_NOW TRIG_COUNT (TRIG_COUNT OR TRIG_NONE)"
  let ?stop = "reject_if (\<lambda>c. stop_src c \<noteq> TRIG_TIMER \<and> stop_src c \<noteq> TRIG_EXT)"
  show ?thesis
  proof (cases "passes ?mask c")
    case True
    then have "\<not> passes ?stop c"
      by (auto simp: passes_simps bit_or_iff)
    then show ?thesis
      unfolding dt2814_ai_cmdtest_def first_passes[OF True good_mask_sources] by (subst first_fails) simp_all
  next
    case False
    then show ?thesis
      unfolding dt2814_ai_cmdtest_def by (subst first_fails) simp_all
  qed
qed


section \<open>Commands that change although they are accepted\<close>

text \<open>What a piece does to a command it finds nothing wrong with.\<close>

definition turns :: "test_piece \<Rightarrow> (comedi_cmd \<Rightarrow> comedi_cmd) \<Rightarrow> bool" where
  "turns t f \<longleftrightarrow> (\<forall>c. fst (t c) = 0 \<longrightarrow> snd (t c) = f c)"

lemma turns_good: "good t \<Longrightarrow> turns t (\<lambda>c. c)"
  by (simp add: turns_def good_def honest_def)

lemma turns_quietly: "turns (quietly f) f"
  by (simp add: turns_def quietly_def)

lemma turns_either: "turns t f \<Longrightarrow> turns u g \<Longrightarrow> turns (either p t u) (\<lambda>c. if p c then f c else g c)"
  by (simp add: turns_def either_def)

lemma turns_only_if: "turns t f \<Longrightarrow> turns (only_if p t) (\<lambda>c. if p c then f c else c)"
  by (simp add: turns_def only_if_def)

lemma turns_pieces_good: "\<forall>t \<in> set ts. good t \<Longrightarrow> turns (pieces ts) (\<lambda>c. c)"
  by (induction ts) (auto simp: turns_def split_beta good_def honest_def)

lemma turns_pieces:
  assumes "turns t f" and "\<forall>t \<in> set us. good t"
  shows "turns (pieces (t # us)) f"
  using assms(1) turns_pieces_good[OF assms(2)] by (auto simp: turns_def split_beta)

lemma turns_skip: "good t \<Longrightarrow> turns (pieces us) f \<Longrightarrow> turns (pieces (t # us)) f"
  by (auto simp: turns_def split_beta good_def honest_def)

text \<open>A routine of four or five stages of which one turns the command: it accepts the command of the others.\<close>

lemma stage_turns:
  assumes "fst (stages_from k (t # ts) c) = 0" and "turns t f" and "0 < k"
  shows "passes t c" and "fst (stages_from (k + 1) ts (f c)) = 0"
    and "stages_from k (t # ts) c = stages_from (k + 1) ts (f c)"
  using assms by (auto simp: turns_def passes_def split_beta split: if_splits)

lemma last_stages_good:
  assumes "fst (stages_from k ts c) = 0" and "\<forall>t \<in> set ts. good t" and "0 < k"
  shows "stages_from k ts c = (0, c)"
  using assms stages_spec[of ts k c] by (metis prod.collapse)

lemma third_stage_turns:
  assumes "fst (stages (t1 # t2 # t3 # ts) c) = 0" and "good t1" and "good t2" and "turns t3 f"
    and "\<forall>t \<in> set ts. good t"
  shows "passes t1 c \<and> stages (t1 # t2 # t3 # ts) c = (0, f c)"
  using assms
  by (auto simp: turns_def good_def honest_def passes_def split_beta last_stages_good split: if_splits)

lemma fourth_stage_turns:
  assumes "fst (stages [t1, t2, t3, t4] c) = 0" and "good t1" and "good t2" and "good t3" and "turns t4 f"
  shows "passes t1 c \<and> passes t3 c \<and> stages [t1, t2, t3, t4] c = (0, f c)"
  using assms by (auto simp: turns_def good_def honest_def passes_def split_beta split: if_splits)

text \<open>
  The board of \<open>dmm32at.c\<close> has four conversion periods and picks one without counting an error: a
  command it accepts comes back with another conversion period than the user asked for.
\<close>

theorem dmm32at_changes_accepted:
  assumes "fst (dmm32at_ai_cmdtest n_chan c) = 0"
  shows "snd (dmm32at_ai_cmdtest n_chan c) = c\<lparr>convert_arg := dmm32at_convert_arg (convert_arg c)\<rparr>"
proof -
  let ?pick = "\<lambda>c. c\<lparr>convert_arg := dmm32at_convert_arg (convert_arg c)\<rparr>"
  have "passes (mask_sources TRIG_NOW TRIG_TIMER TRIG_TIMER TRIG_COUNT (TRIG_COUNT OR TRIG_NONE)) c \<and>
      dmm32at_ai_cmdtest n_chan c = (0, if convert_src c = TRIG_TIMER then ?pick c else c)"
    unfolding dmm32at_ai_cmdtest_def
    by (rule third_stage_turns[OF assms[unfolded dmm32at_ai_cmdtest_def] _ _
        turns_skip[OF _ turns_skip[OF _ turns_pieces[OF turns_either[OF turns_quietly turns_good]]]]])
      (simp_all add: good_intros same_frame_def)
  then show ?thesis by (simp add: passes_simps)
qed


lemma cascade_period_tiny: "n < 200 \<Longrightarrow> cascade_period 100 (0, 0) n mode = 0"
proof (cases "cascade_exact 100 0 0 n")
  case True
  then have "n = 0" by (simp add: cascade_exact_def or_max_def MAX_COUNT_def)
  then show ?thesis using True by (simp add: cascade_period_def i8253_cascade_ns_to_timer_2div_def)
next
  case False
  assume "n < 200"
  then have "n div 100 < 2" by (simp add: word_less_nat_alt unat_div less_mult_imp_div_less)
  then have "i8253_cascade_ns_to_timer_2div 100 0 0 n mode = Some (0, 0, 0)"
    using False by (intro cascade_short) simp_all
  then show ?thesis by (simp add: cascade_period_def)
qed

text \<open>
  The board of \<open>cb_das16_cs.c\<close> rounds the wrong argument: a command with timed conversions and an external
  scan trigger comes back, accepted, with the number of the trigger set to 0, and the conversion period
  is never rounded to what the counters can do.
\<close>

theorem das16cs_loses_trigger:
  assumes "fst (das16cs_ai_cmdtest c) = 0" and "convert_src c = TRIG_TIMER" and "scan_begin_src c = TRIG_EXT"
  shows "snd (das16cs_ai_cmdtest c) = c\<lparr>scan_begin_arg := 0\<rparr>"
proof -
  let ?round = "\<lambda>c. c\<lparr>scan_begin_arg := cascade_period 100 (0, 0) (scan_begin_arg c) (round_mode c)\<rparr>"
  let ?args = "pieces [no_start_arg,
         either (\<lambda>c. scan_begin_src c = TRIG_TIMER)
           (pieces
              [min_scan_begin_arg 10000,
               max_scan_begin_arg 1000000000])
           (max_scan_begin_arg 9),
         either (\<lambda>c. convert_src c = TRIG_TIMER)
           (pieces
              [min_convert_arg 10000,
               max_convert_arg 1000000000])
           (max_convert_arg 9),
         scan_end_is_chanlist,
         either (\<lambda>c. stop_src c = TRIG_COUNT) (max_stop_arg 0x00ffffff) no_stop_arg]"
  have "passes (mask_sources TRIG_NOW (TRIG_TIMER OR TRIG_EXT) (TRIG_TIMER OR TRIG_EXT) TRIG_COUNT (TRIG_COUNT OR TRIG_NONE)) c \<and> passes ?args c \<and>
      das16cs_ai_cmdtest c = (0, if convert_src c = TRIG_TIMER then ?round c else c)"
    unfolding das16cs_ai_cmdtest_def
    by (rule fourth_stage_turns[OF assms(1)[unfolded das16cs_ai_cmdtest_def] _ _ _
        turns_skip[OF _ turns_pieces[OF turns_only_if[OF turns_pieces[OF turns_quietly]]]]])
      (simp_all add: good_intros same_frame_def)
  then have "scan_begin_arg c \<le> 9" and "das16cs_ai_cmdtest c = (0, ?round c)"
    using assms(2,3) by (simp_all add: accept_simps)
  then show ?thesis by (simp add: cascade_period_tiny word_le_nat_alt word_less_nat_alt)
qed


theorem dmm32at_changes_accepted_witness:
  "snd (dmm32at_ai_cmdtest 16 (timed_cmd\<lparr>convert_arg := 12345\<rparr>)) = timed_cmd\<lparr>convert_arg := 10000\<rparr>"
  by (subst dmm32at_changes_accepted)
    (simp_all add: dmm32at_ai_cmdtest_def evaluate timed_cmd_def dmm32at_convert_arg_def dmm32at_ns_to_timer_def)

theorem das16cs_loses_trigger_witness:
  "snd (das16cs_ai_cmdtest (timed_cmd\<lparr>scan_begin_src := TRIG_EXT, scan_begin_arg := 5, convert_arg := 10001\<rparr>)) =
     timed_cmd\<lparr>scan_begin_src := TRIG_EXT, scan_begin_arg := 0, convert_arg := 10001\<rparr>"
  by (subst das16cs_loses_trigger)
    (simp_all add: das16cs_ai_cmdtest_def evaluate timed_cmd_def cascade_period_tiny)

text \<open>
  A command of \<open>skel.c\<close> whose conversions do not fit into the longest scan: the third and the fourth stage
  fight over the scan period.
\<close>

definition too_slow :: "comedi_cmd \<Rightarrow> bool" where
  "too_slow c \<longleftrightarrow> start_src c = TRIG_NOW \<and> scan_begin_src c = TRIG_TIMER \<and> convert_src c = TRIG_TIMER \<and>
     scan_end_src c = TRIG_COUNT \<and> stop_src c = TRIG_NONE \<and> start_arg c = 0 \<and> stop_arg c = 0 \<and>
     scan_end_arg c = chanlist_len c \<and> 10000 \<le> convert_arg c \<and> convert_arg c \<le> 1000000000 \<and>
     1000000000 < convert_arg c * scan_end_arg c \<and> 10000 \<le> scan_begin_arg c"

lemma skel_fights:
  assumes "too_slow c"
  shows "\<exists>k x. skel_ai_cmdtest c = (k, c\<lparr>scan_begin_arg := x\<rparr>) \<and> k \<in> {3, 4} \<and> too_slow (c\<lparr>scan_begin_arg := x\<rparr>)"
proof (cases "1000000000 < scan_begin_arg c")
  case True
  then have "\<not> scan_begin_arg c < 10000" by (simp add: word_less_nat_alt)
  then have "skel_ai_cmdtest c = (3, c\<lparr>scan_begin_arg := 1000000000\<rparr>)"
    using assms True unfolding too_slow_def linorder_not_less[symmetric]
    by (simp add: skel_ai_cmdtest_def fix_defs fix_if_def reject_if_def either_def mask_sources_def bad_src_def Let_def)
  then show ?thesis
    using assms by (intro exI[of _ "3 :: int"] exI[of _ "1000000000 :: u32"]) (auto simp: too_slow_def)
next
  case False
  then have "scan_begin_arg c < convert_arg c * chanlist_len c"
    using assms by (auto simp: too_slow_def)
  then have "skel_ai_cmdtest c = (4, c\<lparr>scan_begin_arg := convert_arg c * scan_end_arg c\<rparr>)"
    using assms False unfolding too_slow_def linorder_not_less[symmetric]
    by (simp add: skel_ai_cmdtest_def fix_defs fix_if_def reject_if_def either_def only_if_def mask_sources_def
        bad_src_def round_scan_begin_def round_convert_def skel_ns_to_timer_def Let_def)
  moreover have "10000 \<le> convert_arg c * scan_end_arg c"
    using assms by (auto simp: too_slow_def word_less_nat_alt word_le_nat_alt)
  ultimately show ?thesis
    using assms by (intro exI[of _ "4 :: int"] exI[of _ "convert_arg c * scan_end_arg c"]) (auto simp: too_slow_def)
qed

text \<open>
  The correction of commands need not come to an end: when the conversions take longer than the
  longest scan, the routine of \<open>skel.c\<close> (and those made after it) lengthens the scan in stage 4 and shortens
  it in stage 3, for ever. However often the user sends the corrected command, it is never accepted.
\<close>

theorem skel_never_settles:
  assumes "too_slow c"
  shows "fst (skel_ai_cmdtest (((\<lambda>c. snd (skel_ai_cmdtest c)) ^^ n) c)) \<in> {3, 4}"
proof -
  have "too_slow (((\<lambda>c. snd (skel_ai_cmdtest c)) ^^ n) c)"
    by (induction n) (use assms skel_fights in fastforce)+
  from skel_fights[OF this] show ?thesis by auto
qed

theorem skel_never_settles_witness:
  "fst (skel_ai_cmdtest (((\<lambda>c. snd (skel_ai_cmdtest c)) ^^ 1000) timed_cmd)) \<in> {3, 4}"
  by (rule skel_never_settles) (simp add: too_slow_def timed_cmd_def zero_cmd_def)

text \<open>
  The same comparison is made modulo \<open>2 ^ 32\<close>: five conversions of one second each are accepted in a scan
  of one second.
\<close>

lemma skel_accepts_impossible:
  "fst (skel_ai_cmdtest (timed_cmd\<lparr>chanlist_len := 5, scan_end_arg := 5\<rparr>)) = 0"
  by (simp add: skel_ai_cmdtest_def evaluate timed_cmd_def skel_ns_to_timer_def)

section \<open>Tests that stop the machine\<close>

lemma not_exact_even:
  assumes "even osc"
  shows "\<not> cascade_exact osc d1 d2 0xffffffff"
proof
  assume "cascade_exact osc d1 d2 0xffffffff"
  then have "or_max d1 * or_max d2 * osc = 0xffffffff" by (simp add: cascade_exact_def Let_def)
  then have "even (0xffffffff :: u32)" using assms by (metis dvd_triv_right dvd_trans)
  then show False by simp
qed

text \<open>
  A user can divide by zero in the kernel through the boards of \<open>adl_pci9111.c\<close> and \<open>adl_pci9112.c\<close>: the
  longest conversion period, rounded up, becomes 0, and the scan period is divided by it.
\<close>

theorem pci911x_divides_by_zero:
  assumes "fst (stages (pci911x_stages min_ns n_chan) c) = 0"
    and "convert_src c = TRIG_TIMER" and "convert_arg c = 0xffffffff" and "round_mode c = TRIG_ROUND_UP"
    and "scan_begin_src c = TRIG_TIMER" and "scan_begin_arg c \<noteq> 0"
  shows "pci9111_ai_do_cmd_test min_ns n_chan d c = None \<and> pci9112_ai_do_cmd_test min_ns n_chan d c = None"
proof -
  have good: "\<forall>t \<in> set (pci911x_stages min_ns n_chan). good t"
    by (simp add: pci911x_stages_def good_intros same_frame_def)
  have st: "stages (pci911x_stages min_ns n_chan) c = (0, c)"
    using last_stages_good[OF assms(1) good] by simp
  have "i8253_cascade_ns_to_timer_2div 500 (fst d) (snd d) 0xffffffff (round_mode c) = Some (0, 0, 0)"
    by (intro cascade_top not_exact_even) (simp_all add: assms(4) TRIG_defs)
  then have "cascade_period 500 d (convert_arg c) (round_mode c) = 0"
    by (simp add: cascade_period_def assms(3))
  then have "pci911x_timing d c = None"
    using assms by (simp add: pci911x_timing_def only_if_def round_convert_def Let_def word_gt_0)
  then have "pci911x_cmd_test min_ns n_chan d c = None"
    by (simp add: pci911x_cmd_test_def st)
  then show ?thesis
    by (simp_all add: pci9111_ai_do_cmd_test_def pci9112_ai_do_cmd_test_def)
qed

theorem pci911x_divides_by_zero_witness:
  "pci9111_ai_do_cmd_test 10000 16 (7, 7) (timed_cmd\<lparr>convert_arg := 0xffffffff, cmd_flags := TRIG_ROUND_UP\<rparr>) = None"
  by (rule pci911x_divides_by_zero[THEN conjunct1])
    (simp_all add: pci911x_stages_def evaluate timed_cmd_def round_mode_def)

text \<open>
  A user can make the kernel follow a null pointer through the correlated digital output of
  \<open>ni_mio_common.c\<close>: CMDTEST allows a command without a channel list, whatever length it gives, and the
  last stage of the routine reads the list.
\<close>

theorem cdio_null_list_crashes:
  assumes "subd dev (unat (cmd_subdev c)) = Some s" and "cmd_subdev c < dv_n_subdevices dev"
    and "sd_type s \<noteq> COMEDI_SUBD_UNUSED" and "sd_do_cmd s \<noteq> None" and "sd_do_cmdtest s = Some f"
    and "chanlist c = Null_ptr" and "chanlist_len c \<noteq> 0" and "chanlist_len c \<le> sd_len_chanlist s"
    and "fst (stages ni_cdio_stages c) = 0"
    and driver: "\<And>dev i c. op_do_cmdtest ops f dev i c = map_option (\<lambda>(ret, c). (ret, dev, c)) (ni_cdio_cmdtest c)"
  shows "do_cmdtest_ioctl ops env dev (Some c) copy_back_ok = None"
proof -
  have "stages ni_cdio_stages c = (0, c)"
    using last_stages_good[OF assms(9)] by (simp add: ni_cdio_stages_def good_intros)
  then have "ni_cdio_cmdtest c = None"
    using assms(6,7) by (simp add: ni_cdio_cmdtest_def Let_def unat_eq_zero)
  then show ?thesis
    using assms(1-8) by (simp add: do_cmdtest_ioctl_def Let_def driver linorder_not_le linorder_not_less)
qed

definition cdio_cmd :: comedi_cmd where
  "cdio_cmd = zero_cmd\<lparr>start_src := TRIG_INT, scan_begin_src := TRIG_EXT, convert_src := TRIG_NOW,
     scan_end_src := TRIG_COUNT, scan_end_arg := 1, chanlist_len := 1, stop_src := TRIG_NONE\<rparr>"

theorem cdio_null_list_crashes_witness:
  "\<forall>env. do_cmdtest_ioctl
     (idle_ops\<lparr>op_do_cmdtest := \<lambda>_ dev _ c. map_option (\<lambda>(ret, c). (ret, dev, c)) (ni_cdio_cmdtest c)\<rparr>) env
     (fresh_dev [(fresh_subd 8)\<lparr>sd_do_cmd := Some 1, sd_do_cmdtest := Some 2\<rparr>]) (Some cdio_cmd) True = None"
  by (intro allI, rule cdio_null_list_crashes[where f = 2 and s = "(fresh_subd 8)\<lparr>sd_do_cmd := Some 1, sd_do_cmdtest := Some 2\<rparr>"])
    (simp_all add: cdio_cmd_def zero_cmd_def fresh_subd_def fresh_dev_def subd_def load_nth_def
      ni_cdio_stages_def evaluate)

end
