(* ===== verification/Pacing_Properties.thy ===== *)
theory Pacing_Properties
  imports Timer_Properties Command_Contracts
begin

text \<open>
  The boards that pace with cascaded counters: the dividers that a command test leaves behind give exactly
  the period it accepted.
\<close>

section \<open>What the counters of the boards are loaded with\<close>

lemma cascade_kept:
  assumes "osc \<noteq> 0" and "ns = cascade_period osc d ns mode" and "ns \<noteq> 0" and "(d1, d2) = cascade_dividers osc d ns mode"
  shows "ns = or_max d1 * or_max d2 * osc"
proof -
  obtain e1 e2 p where r: "i8253_cascade_ns_to_timer_2div osc (fst d) (snd d) ns mode = Some (e1, e2, p)"
    using cascade_2div_returns[OF assms(1)] by blast
  then have "d1 = e1" "d2 = e2" "p = ns"
    using assms(2,4) by (simp_all add: cascade_period_def cascade_dividers_def)
  then show ?thesis using cascade_2div_sound(1)[OF r] assms(3) by simp
qed

lemma storing_paced:
  assumes "storing test store d c = ((0, c'), (d1, d2))" and "command_test test"
    and "store d c = cascade_dividers osc d (arg c) (round_mode c)" and "osc \<noteq> 0"
    and "fst (test c) = 0 \<Longrightarrow> k \<le> arg c \<and> arg c = cascade_period osc d (arg c) (round_mode c)" and "k \<noteq> 0"
  shows "arg c' = or_max d1 * or_max d2 * osc"
proof -
  have "test c = (0, c')" "store d c = (d1, d2)" using assms(1) by (auto simp: storing_def split: if_splits)
  then have "fst (test c) = 0" "c' = c" using command_test.accepted_unchanged[OF assms(2), of c] by simp_all
  then have arg: "k \<le> arg c'" "arg c' = cascade_period osc d (arg c') (round_mode c')"
    using assms(5) by simp_all
  have "arg c' \<noteq> 0" using arg(1) assms(6) by auto
  from cascade_kept[OF assms(4) arg(2) this] show ?thesis
    using \<open>store d c = (d1, d2)\<close> assms(3) \<open>c' = c\<close> by simp
qed

lemma accepted_passes:
  assumes "test = stages ts" and "fst (test c) = 0" and "\<forall>t \<in> set ts. good t"
  shows "\<forall>t \<in> set ts. passes t c"
  using accept_stages[OF assms(1,3)] assms(2) by blast

lemma pcl711_paced:
  assumes "fst (pcl711_test d c) = 0" and "scan_begin_src c = TRIG_TIMER"
  shows "1000 \<le> scan_begin_arg c \<and> scan_begin_arg c = cascade_period 100 d (scan_begin_arg c) (round_mode c)"
  using accepted_passes[OF pcl711_test_def assms(1)] assms(2) by (simp add: accept_simps good_intros passes_simps)

lemma das16m1_paced:
  assumes "fst (das16m1_test speed d c) = 0" and "convert_src c = TRIG_TIMER"
  shows "speed \<le> convert_arg c \<and> convert_arg c = cascade_period 100 d (convert_arg c) (round_mode c)"
  using accepted_passes[OF das16m1_test_def assms(1)] assms(2) by (simp add: accept_simps good_intros passes_simps)

lemma das800_paced:
  assumes "fst (das800_test speed d c) = 0" and "convert_src c = TRIG_TIMER"
  shows "speed \<le> convert_arg c \<and> convert_arg c = cascade_period 1000 d (convert_arg c) (round_mode c)"
  using accepted_passes[OF das800_test_def assms(1)] assms(2) by (simp add: accept_simps good_intros passes_simps)

lemma cb_pcidas_ao_paced:
  assumes "fst (cb_pcidas_ao_test speed d c) = 0" and "scan_begin_src c = TRIG_TIMER"
  shows "speed \<le> scan_begin_arg c \<and> scan_begin_arg c = cascade_period 100 d (scan_begin_arg c) (round_mode c)"
  using accepted_passes[OF cb_pcidas_ao_test_def assms(1)] assms(2) by (simp add: accept_simps good_intros passes_simps)




end
