(* ===== verification/Rounding_Properties.thy ===== *)
theory Rounding_Properties
  imports Digital_Commands Analog_Commands
begin

text \<open>
  How the boards with a clock of their own round a period: to a multiple of the clock, in the direction the
  user asked for, and once and for all.
\<close>

unbundle bit_operations_syntax

lemma uint_round_bias:
  assumes "base \<noteq> 0"
  shows "uint (round_bias base mode) =
    (if mode = TRIG_ROUND_DOWN then 0 else if mode = TRIG_ROUND_UP then uint base - 1 else uint base div 2)"
proof -
  have "1 \<le> uint base" using assms by (metis uint_0_iff uint_ge_0 order_le_less zless_imp_add1_zle add_0)
  then have "uint (base - 1) = uint base - 1"
    by (simp add: uint_sub_lem[THEN iffD1])
  then show ?thesis by (simp add: round_bias_def uint_div)
qed

text \<open>What dividing with a bias does to a number, without wrapping around.\<close>

definition rounds :: "int \<Rightarrow> u32 \<Rightarrow> int \<Rightarrow> int \<Rightarrow> bool" where
  "rounds base mode x y \<longleftrightarrow> base dvd y \<and>
     (if mode = TRIG_ROUND_DOWN then y \<le> x \<and> x < y + base
      else if mode = TRIG_ROUND_UP then x \<le> y \<and> y < x + base
      else 2 * \<bar>y - x\<bar> \<le> base)"

lemma near_middle:
  "y \<le> x + h \<Longrightarrow> x + h < y + base \<Longrightarrow> base - 1 \<le> 2 * h \<Longrightarrow> 2 * h \<le> base \<Longrightarrow> 2 * \<bar>y - x\<bar> \<le> base" for x y h base :: int
  by presburger

lemma div_remainder: "0 \<le> b \<Longrightarrow> b < base \<Longrightarrow> (base * k + b) div base = k" for b base k :: int
  by (metis add.commute add.right_neutral div_mult_self2 div_pos_pos_trivial less_irrefl le_less_trans add_0)

lemma div_bounds: "0 < base \<Longrightarrow> base * (x div base) \<le> x \<and> x < base * (x div base) + base" for base x :: int
  by (metis add.commute mult.commute mult_div_mod_eq pos_mod_bound pos_mod_sign le_add_same_cancel1 add_less_cancel_left)

lemma rounds_div:
  assumes "0 < base" and "0 \<le> x"
  shows "rounds base mode x (base * ((x + (if mode = TRIG_ROUND_DOWN then 0
    else if mode = TRIG_ROUND_UP then base - 1 else base div 2)) div base))"
proof -
  note near = div_bounds[OF assms(1), THEN conjunct1] div_bounds[OF assms(1), THEN conjunct2]
  have half: "base - 1 \<le> 2 * (base div 2)" "2 * (base div 2) \<le> base" by simp_all
  have "2 * \<bar>base * ((x + base div 2) div base) - x\<bar> \<le> base"
    by (rule near_middle[OF near half])
  then show ?thesis
    using near[of "x + 0"] near[of "x + (base - 1)"] by (simp add: rounds_def)
qed

lemma rounds_again:
  fixes base :: int
  assumes "0 < base" and "base dvd y"
  shows "base * ((y + (if mode = TRIG_ROUND_DOWN then 0
    else if mode = TRIG_ROUND_UP then base - 1 else base div 2)) div base) = y"
proof -
  obtain k where y: "y = base * k" using assms(2) by blast
  show ?thesis using assms(1) unfolding y by (simp add: div_remainder)
qed

lemma rounds_two:
  fixes base :: int
  assumes "rounds base mode x y" and "2 * base \<le> x" and "0 < base"
  shows "2 * base \<le> y"
proof -
  obtain k where y: "y = base * k" using assms(1) by (auto simp: rounds_def)
  have "x < y + base" using assms by (auto simp: rounds_def abs_if split: if_splits)
  then have "base < y" using assms(2) by simp
  then have "1 < k" using assms(3) y by simp
  then show ?thesis using assms(3) y by simp
qed

lemma uint_clock_count:
  assumes "base \<noteq> 0" and "uint ns + uint base \<le> 2 ^ 32"
  shows "uint (clock_count base mode ns) = (uint ns + uint (round_bias base mode)) div uint base"
proof -
  have "uint (round_bias base mode) < uint base"
    using assms(1) uint_ge_0[of base] by (auto simp: uint_round_bias word_neq_0_conv word_less_def)
  then have "uint (ns + round_bias base mode) = uint ns + uint (round_bias base mode)"
    using assms(2) by (simp add: uint_add_lem[THEN iffD1])
  then show ?thesis by (simp add: clock_count_def uint_div)
qed


lemma clock_rounds:
  assumes "base \<noteq> 0" and "uint ns + 2 * uint base \<le> 2 ^ 32"
  shows "rounds (uint base) mode (uint ns) (uint (base * clock_count base mode ns))"
    and "clock_count base mode (base * clock_count base mode ns) = clock_count base mode ns"
    and "uint (base * clock_count base mode ns) < uint ns + uint base"
proof -
  have pos: "0 < uint base" using assms(1) uint_ge_0[of base] by (auto simp: word_neq_0_conv word_less_def)
  let ?b = "uint (round_bias base mode)"
  let ?y = "uint base * ((uint ns + ?b) div uint base)"
  have b: "0 \<le> ?b" "?b < uint base" using pos by (auto simp: uint_round_bias[OF assms(1)])
  have small: "?y < uint ns + uint base"
    using div_bounds[OF pos, of "uint ns + ?b"] b by simp
  have cc: "uint (clock_count base mode ns) = (uint ns + ?b) div uint base"
    using assms pos by (intro uint_clock_count) simp_all
  have "?y < 2 ^ 32" using small assms(2) pos by linarith
  with cc have y: "uint (base * clock_count base mode ns) = ?y"
    using uint_mult_lem[of base "clock_count base mode ns"] small assms(2) pos
    by simp
  show "rounds (uint base) mode (uint ns) (uint (base * clock_count base mode ns))"
    unfolding y uint_round_bias[OF assms(1)] by (rule rounds_div) (simp_all add: pos)
  show "uint (base * clock_count base mode ns) < uint ns + uint base"
    using small y by simp
  have "uint (clock_count base mode (base * clock_count base mode ns)) = (?y + ?b) div uint base"
    unfolding y[symmetric] using small y assms by (intro uint_clock_count) simp_all
  also have "\<dots> = (uint ns + ?b) div uint base"
    using b by (simp add: div_remainder)
  finally show "clock_count base mode (base * clock_count base mode ns) = clock_count base mode ns"
    using cc by (simp add: word_uint_eq_iff)
qed


lemma uint_small: "0 < n \<Longrightarrow> n < 2 ^ 32 \<Longrightarrow> (word_of_int n :: u32) \<noteq> 0 \<and> uint (word_of_int n :: u32) = n"
  by (simp add: uint_word_of_int word_uint_eq_iff)

text \<open>Signed and unsigned counts agree as long as nothing reaches the sign bit.\<close>

lemma signed_count_eq:
  assumes "base \<noteq> 0" and "uint ns + uint base \<le> 2 ^ 31" and "uint base < 2 ^ 31"
  shows "signed_clock_count base mode ns = clock_count base mode ns"
proof -
  have pos: "0 < uint base" using assms(1) uint_ge_0[of base] by (auto simp: word_neq_0_conv word_less_def)
  let ?n = "ns + round_bias base mode"
  have "uint (round_bias base mode) < uint base" using pos by (auto simp: uint_round_bias[OF assms(1)])
  then have n: "uint ?n < 2 ^ 31"
    using assms(2) by (simp add: uint_add_lem[THEN iffD1])
  have "sint w = uint w" if "uint w < 2 ^ 31" for w :: u32
    using that order_trans[OF _ uint_ge_0[of w], of "- (2 ^ 31)"] by (simp add: sint_uint signed_take_bit_int_eq_self_iff)
  then have s: "sint ?n = uint ?n" "sint base = uint base" using n assms(3) by simp_all
  have "uint ?n sdiv uint base = uint ?n div uint base"
    using pos by (simp add: signed_divide_int_def sgn_if)
  moreover have "of_int (uint ?n div uint base) = ?n div base"
    by (simp add: word_uint_eq_iff uint_div flip: uint_div)
  ultimately show ?thesis
    by (simp add: signed_clock_count_def clock_count_def s)
qed



end
