(* ===== verification/File_Io_Properties.thy ===== *)
theory File_Io_Properties
  imports File_Io Stream_Channel Example_State Subdevice_Properties
begin

text \<open>
  What reading and writing a device file guarantee: a read delivers the oldest bytes of the stream and
  removes exactly these, a write appends the first bytes of the user's data.
\<close>

unbundle bit_operations_syntax

section \<open>read\<close>

lemma length_readable: "ring_ok a \<Longrightarrow> length (readable a) = rd a (munge_count a)"
  by (elim ring_okE) (simp add: readable_def)

lemma read_chunk_spec:
  assumes ok: "ring_ok a" and n: "unat n < 2147483648"
  shows "unat (read_chunk a n) =
    min (unat n) (min (length (readable a)) (unat (prealloc_bufsz a) - unat (buf_read_ptr a)))"
proof -
  let ?m = "munge_count a - buf_read_count a"
  have rp: "unat (buf_read_ptr a) < unat (prealloc_bufsz a)" "unat (prealloc_bufsz a) < 2147483648"
    and m: "unat ?m \<le> unat (prealloc_bufsz a)"
    using ok by (auto elim!: ring_okE simp: rd_def)
  have av: "length (readable a) = unat ?m" using length_readable[OF ok] by (simp add: rd_def)
  have sum: "unat (buf_read_ptr a + ?m) = unat (buf_read_ptr a) + unat ?m" using rp m by (intro unat_add_u32) linarith
  have sub: "unat (prealloc_bufsz a - buf_read_ptr a) = unat (prealloc_bufsz a) - unat (buf_read_ptr a)"
    using rp by (intro unat_sub_u32) linarith
  let ?k = "if prealloc_bufsz a < buf_read_ptr a + ?m then prealloc_bufsz a - buf_read_ptr a else ?m"
  have k: "unat ?k = min (unat ?m) (unat (prealloc_bufsz a) - unat (buf_read_ptr a))"
    using sum sub by (auto simp: word_less_nat_alt)
  moreover have "unat ?k < 2147483648" using k rp by linarith
  ultimately show ?thesis
    using sless_u32_small[of ?k n] n
    by (simp add: read_chunk_def comedi_buf_read_n_available_def Let_def av[symmetric] min_def)
qed

lemma read_copy_spec:
  assumes ok: "ring_ok a" and none: "buf_read_alloc_count a = buf_read_count a"
    and n: "unat n \<le> length (readable a)" "unat (buf_read_ptr a) + unat n \<le> unat (prealloc_bufsz a)" "unat n \<le> reach"
  obtains a' where "read_copy a n reach = Some (n, False, take (unat n) (readable a), a')"
    and "ring_ok a'" and "readable a' = drop (unat n) (readable a)" and "buf_read_alloc_count a' = buf_read_count a'"
    and "cmd a' = cmd a"
proof -
  have n31: "unat n < 2147483648" using n(2) ok by (elim ring_okE) linarith
  obtain b where b: "prealloc_buf a = Some b" "length b = unat (prealloc_bufsz a)" using ok by (rule ring_okE)
  obtain k a1 a' where r: "comedi_buf_read_alloc a n = (k, a1)" "unat k = min (unat n) (length (readable a))"
    "comedi_buf_read_free a1 k = Some (k, a')"
    and a': "ring_ok a'" "readable a' = drop (unat n) (readable a)" "buf_read_alloc_count a' = buf_read_count a'"
      "cmd a' = cmd a"
    using stream_pull[OF ok none n31] by metis
  have kn: "k = n" using r(2) n(1) by (simp add: word_unat_eq_iff)
  have "load_bytes a (buf_read_ptr a) n = Some (ring_get b (unat (buf_read_ptr a)) (unat n))"
    using b n(2) by (intro load_bytes_ring) simp_all
  moreover have "take (unat n) (readable a) = ring_get b (unat (buf_read_ptr a)) (unat n)"
    using b n(1) length_readable[OF ok] by (simp add: readable_def take_ring_get)
  ultimately have "read_copy a n reach = Some (n, False, take (unat n) (readable a), a')"
    using r n(3) by (simp add: read_copy_def Let_def kn)
  then show thesis using a' by (rule that)
qed

text \<open>
  C32. A read of a running subdevice that has bytes to offer does not sleep: it returns the oldest of them,
  all that was asked for and is there up to the end of the ring, and takes exactly these out of the
  stream. The rest of the device stays as it was.
\<close>

theorem read_delivers:
  assumes dev: "dv_attached dev" "subd dev i = Some s" "sd_async s = Some a" "sd_busy s = Some fil" "running s"
    and ok: "ring_ok a" "buf_read_alloc_count a = buf_read_count a"
    and n: "0 < nbytes" "nbytes < 2147483648" "nbytes \<le> reach" and some: "readable a \<noteq> []"
  shows "\<exists>k a'. 0 < k \<and> k = min nbytes (min (length (readable a)) (unat (prealloc_bufsz a) - unat (buf_read_ptr a))) \<and>
    comedi_read dev (Some i) fil nonblock nbytes reach wakes =
      Some (int k, take k (readable a), set_subd i (s\<lparr>sd_async := Some a'\<rparr>) dev) \<and>
    ring_ok a' \<and> readable a' = drop k (readable a) \<and> buf_read_alloc_count a' = buf_read_count a'"
proof -
  let ?w = "of_nat nbytes :: u32"
  have un: "unat ?w = nbytes" using n(2) by (rule u32_of_nat)
  define c where "c = read_chunk a ?w"
  have c: "unat c = min nbytes (min (length (readable a)) (unat (prealloc_bufsz a) - unat (buf_read_ptr a)))"
    using read_chunk_spec[OF ok(1), of ?w] un n(2) by (simp add: c_def)
  have rp: "unat (buf_read_ptr a) < unat (prealloc_bufsz a)" using ok(1) by (rule ring_okE)
  have pos: "0 < unat c" using c rp some n(1) by simp
  then have nz: "c \<noteq> 0" by auto
  have fits: "unat c \<le> length (readable a)" "unat (buf_read_ptr a) + unat c \<le> unat (prealloc_bufsz a)" "unat c \<le> reach"
    using c rp n(3) by linarith+
  obtain a' where a': "read_copy a c reach = Some (c, False, take (unat c) (readable a), a')"
    "ring_ok a'" "readable a' = drop (unat c) (readable a)" "buf_read_alloc_count a' = buf_read_count a'"
    using read_copy_spec[OF ok fits] by metis
  let ?s = "s\<lparr>sd_async := Some a'\<rparr>"
  have loop: "read_loop i fil nonblock ?w reach wakes dev = Some (c, 0, take (unat c) (readable a), set_subd i ?s dev)"
    using dev a'(1) nz by (subst read_loop.simps) (simp add: c_def[symmetric] set_async_def Let_def)
  have "running ?s" using dev(5) by (simp add: running_def)
  then have fin: "read_finish i (set_subd i ?s dev) = Some (set_subd i ?s dev)"
    using dev(2) by (simp add: read_finish_def running_def AND_OR_eq_0)
  have "sint c = int (unat c)" using c n(2) by (simp add: sint_u32)
  then have "comedi_read dev (Some i) fil nonblock nbytes reach wakes =
      Some (int (unat c), take (unat c) (readable a), set_subd i ?s dev)"
    using dev n loop fin nz by (simp add: comedi_read_def)
  then show ?thesis using c pos a' by (intro exI[of _ "unat c"] exI[of _ a']) simp
qed

section \<open>write\<close>

lemma write_chunk_spec:
  assumes ok: "ring_ok a" and n: "unat n < 2147483648"
  obtains k a' where "write_chunk a n = (k, a')" and "ring_ok a'"
    and "a' = a\<lparr>buf_write_alloc_count := buf_write_alloc_count a'\<rparr>"
    and "unat k = min (unat n) (min (unat (prealloc_bufsz a) - rd a (buf_write_count a))
           (unat (prealloc_bufsz a) - unat (buf_write_ptr a)))"
    and "unat k \<le> rd a' (buf_write_alloc_count a') - rd a' (buf_write_count a')"
proof -
  let ?N = "unat (prealloc_bufsz a)"
  have le: "rd a (buf_write_count a) \<le> rd a (buf_write_alloc_count a)" "rd a (buf_write_alloc_count a) \<le> ?N"
    "0 < ?N" "?N < 2147483648"
    and wp: "unat (buf_write_ptr a) = (unat (buf_read_ptr a) + rd a (buf_write_count a)) mod ?N"
    using ok by (auto elim!: ring_okE)
  have wlt: "unat (buf_write_ptr a) < ?N" unfolding wp using le by simp
  obtain g where alloc: "comedi_buf_write_alloc a (prealloc_bufsz a) =
      (g, a\<lparr>buf_write_alloc_count := buf_write_alloc_count a + g\<rparr>)"
    and g: "unat g = min ?N (?N - rd a (buf_write_alloc_count a))"
    using ok le(4) by (rule write_alloc_spec)
  let ?a = "a\<lparr>buf_write_alloc_count := buf_write_alloc_count a + g\<rparr>"
  have ok': "ring_ok ?a" using g by (intro ring_ok_write_alloc[OF ok]) simp
  have full: "rd a (buf_write_alloc_count a + g) = ?N" using g le by (subst rd_add) simp_all
  then have nalloc: "unat (comedi_buf_write_n_allocated ?a) = ?N - rd a (buf_write_count a)"
    using le by (simp add: comedi_buf_write_n_allocated_def) (subst rd_diff[of a]; simp)
  have sum: "unat (buf_write_ptr a + n) = unat (buf_write_ptr a) + unat n" using wlt le n by (intro unat_add_u32) linarith
  have sub: "unat (prealloc_bufsz a - buf_write_ptr a) = ?N - unat (buf_write_ptr a)"
    using wlt by (intro unat_sub_u32) linarith
  define m1 where "m1 = (if prealloc_bufsz a < buf_write_ptr a + n then prealloc_bufsz a - buf_write_ptr a else n)"
  have m1: "unat m1 = min (unat n) (?N - unat (buf_write_ptr a))"
    using sum sub by (auto simp: m1_def word_less_nat_alt)
  define m2 where "m2 = (if comedi_buf_write_n_allocated ?a < m1 then comedi_buf_write_n_allocated ?a else m1)"
  have m2: "unat m2 = min (unat m1) (?N - rd a (buf_write_count a))"
    using nalloc by (auto simp: m2_def word_less_nat_alt)
  have wc: "write_chunk a n = (if m2 <s n then m2 else n, ?a)"
    by (simp add: write_chunk_def alloc Let_def m1_def[symmetric] m2_def[symmetric])
  have le2: "unat m2 \<le> unat n" using m1 m2 by linarith
  then have "unat m2 < 2147483648" using n by linarith
  then have same: "unat (if m2 <s n then m2 else n) = unat m2" using sless_u32_small[of m2 n] n le2 by simp
  have val: "unat (if m2 <s n then m2 else n) =
      min (unat n) (min (?N - rd a (buf_write_count a)) (?N - unat (buf_write_ptr a)))"
    unfolding same using m1 m2 by linarith
  have "unat m2 \<le> ?N - rd a (buf_write_count a)" using m2 by linarith
  then have bound: "unat (if m2 <s n then m2 else n) \<le> rd ?a (buf_write_alloc_count ?a) - rd ?a (buf_write_count ?a)"
    unfolding same using full by simp
  show thesis by (rule that[OF wc ok' _ val bound]) simp
qed

lemma write_copy_spec:
  assumes ok: "ring_ok a" and idle: "\<not> munging mc a" "munge_count a = buf_write_count a"
    and n: "unat n \<le> rd a (buf_write_alloc_count a) - rd a (buf_write_count a)"
      "unat (buf_write_ptr a) + unat n \<le> unat (prealloc_bufsz a)" "unat n \<le> reach" "unat n \<le> length xs"
  obtains a' where "write_copy mc a xs n reach = Some (n, False, a')" and "ring_ok a'"
    and "readable a' = readable a @ take (unat n) xs" and "munge_count a' = buf_write_count a'"
    and "cmd a' = cmd a" and "buf_read_alloc_count a' = buf_read_alloc_count a" and "buf_read_count a' = buf_read_count a"
proof -
  let ?xs = "take (unat n) xs"
  obtain b where b: "prealloc_buf a = Some b" "length b = unat (prealloc_bufsz a)" using ok by (rule ring_okE)
  have len: "length ?xs = unat n" using n(4) by simp
  obtain a1 a' where r: "comedi_buf_memcpy_to a 0 ?xs n = Some a1" "comedi_buf_write_free mc a1 n = Some (n, a')"
    and a': "ring_ok a'" "readable a' = readable a @ ?xs" "munge_count a' = buf_write_count a'" "cmd a' = cmd a"
      "buf_read_alloc_count a' = buf_read_alloc_count a" "buf_read_count a' = buf_read_count a"
    using idle_append[OF ok idle n(1) len] by metis
  have "store_bytes a (buf_write_ptr a) ?xs = Some (a\<lparr>prealloc_buf := Some (ring_put b (unat (buf_write_ptr a)) ?xs)\<rparr>)"
    using b n(2) len by (intro store_bytes_ring) simp_all
  also have "\<dots> = comedi_buf_memcpy_to a 0 ?xs n"
    using memcpy_to_spec[OF ok b(1) _ len] n(2) by simp
  finally have "write_copy mc a xs n reach = Some (n, False, a')"
    using r n(3) by (simp add: write_copy_def Let_def)
  then show thesis using a' by (rule that)
qed

text \<open>
  C33. A write to a running subdevice without munging that has room does not sleep either: it appends the
  first bytes of the data to the stream, as many as there are and as fit up to the end of the ring.
\<close>

theorem write_appends:
  assumes dev: "dv_attached dev" "subd dev i = Some s" "sd_async s = Some a" "sd_busy s = Some fil" "running s"
    and ok: "ring_ok a" "\<not> munging (munge_ctx_of ops dev i s) a" "munge_count a = buf_write_count a" "sd_munge s = None"
    and n: "data \<noteq> []" "length data < 2147483648" "length data \<le> reach"
    and room: "length (readable a) < unat (prealloc_bufsz a)"
  shows "\<exists>k a'. 0 < k \<and> k = min (length data) (min (unat (prealloc_bufsz a) - length (readable a))
      (unat (prealloc_bufsz a) - unat (buf_write_ptr a))) \<and>
    comedi_write ops dev (Some i) fil nonblock data reach wakes =
      Some (int k, set_subd i (s\<lparr>sd_async := Some a'\<rparr>) dev) \<and>
    ring_ok a' \<and> readable a' = readable a @ take k data"
proof -
  let ?w = "of_nat (length data) :: u32"
  let ?N = "unat (prealloc_bufsz a)"
  have un: "unat ?w = length data" using n(2) by (rule u32_of_nat)
  have len: "length (readable a) = rd a (buf_write_count a)" using length_readable[OF ok(1)] ok(3) by simp
  have "0 < ?N" "unat (buf_write_ptr a) = (unat (buf_read_ptr a) + rd a (buf_write_count a)) mod ?N"
    using ok(1) by (auto elim!: ring_okE)
  then have wp: "unat (buf_write_ptr a) < ?N" by simp
  obtain k a1 where ch: "write_chunk a ?w = (k, a1)" and ok1: "ring_ok a1"
    and a1: "a1 = a\<lparr>buf_write_alloc_count := buf_write_alloc_count a1\<rparr>"
    and k: "unat k = min (unat ?w) (min (?N - rd a (buf_write_count a)) (?N - unat (buf_write_ptr a)))"
    and al: "unat k \<le> rd a1 (buf_write_alloc_count a1) - rd a1 (buf_write_count a1)"
    using write_chunk_spec[OF ok(1), of ?w] un n(2) by (metis)
  have pos: "0 < unat k" using k un n(1) room len wp by simp
  then have nz: "k \<noteq> 0" by auto
  have same: "munge_count a1 = munge_count a" "buf_write_count a1 = buf_write_count a" "buf_write_ptr a1 = buf_write_ptr a"
    "prealloc_bufsz a1 = prealloc_bufsz a" "cmd a1 = cmd a" "readable a1 = readable a"
    by (subst a1; simp)+
  let ?mc = "munge_ctx_of ops (set_async i s a1 dev) i s"
  have idle: "\<not> munging ?mc a1" "munge_count a1 = buf_write_count a1"
    using ok(3,4) same by (simp_all add: munging_def munge_ctx_of_def)
  have fits: "unat (buf_write_ptr a1) + unat k \<le> unat (prealloc_bufsz a1)" "unat k \<le> reach" "unat k \<le> length data"
    unfolding same using k[unfolded un] n(3) wp by linarith+
  obtain a' where a': "write_copy ?mc a1 data k reach = Some (k, False, a')" "ring_ok a'"
    "readable a' = readable a1 @ take (unat k) data"
    using write_copy_spec[OF ok1 idle al fits] by metis
  have loop: "write_loop ops i fil nonblock data ?w reach wakes dev =
      Some (k, 0, set_subd i (s\<lparr>sd_async := Some a'\<rparr>) dev)"
    using dev a'(1) nz ch by (subst write_loop.simps) (simp add: set_async_def Let_def running_def)
  have "sint k = int (unat k)" using fits(3) n(2) by (simp add: sint_u32)
  then have "comedi_write ops dev (Some i) fil nonblock data reach wakes =
      Some (int (unat k), set_subd i (s\<lparr>sd_async := Some a'\<rparr>) dev)"
    using dev n(1) loop nz by (simp add: comedi_write_def)
  then show ?thesis using k pos a' un len same by (intro exI[of _ "unat k"] exI[of _ a']) simp
qed

section \<open>Examples\<close>

definition busy_subd :: "nat comedi_subdevice" where
  "busy_subd = (fresh_subd 8)\<lparr>sd_runflags := SRF_RUNNING, sd_busy := Some (Owner_file 1)\<rparr>"

definition loaded_async :: comedi_async where
  "loaded_async = (fresh_async 8)\<lparr>prealloc_buf := Some [10, 11, 12, 0, 0, 0, 0, 0], buf_write_count := 3,
     buf_write_alloc_count := 3, buf_write_ptr := 3, munge_count := 3\<rparr>"

lemma ring_ok_loaded: "ring_ok loaded_async"
  by (simp add: ring_ok_def buf_ok_def counters_ok_def positions_ok_def loaded_async_def fresh_async_def rd_def)

lemma readable_loaded: "readable loaded_async = [10, 11, 12]"
  by (simp add: readable_def loaded_async_def fresh_async_def rd_def ring_get_def upt_rec)

lemma example_facts:
  "subd (fresh_dev [busy_subd\<lparr>sd_async := Some loaded_async\<rparr>]) 0 = Some (busy_subd\<lparr>sd_async := Some loaded_async\<rparr>)"
  "dv_attached (fresh_dev [s])" "running (busy_subd\<lparr>sd_async := x\<rparr>)" "sd_busy (busy_subd\<lparr>sd_async := x\<rparr>) = Some (Owner_file 1)"
  "sd_async (busy_subd\<lparr>sd_async := x\<rparr>) = x" "sd_munge (busy_subd\<lparr>sd_async := x\<rparr>) = None"
  "buf_read_alloc_count loaded_async = buf_read_count loaded_async"
  "munge_count loaded_async = buf_write_count loaded_async"
  "unat (prealloc_bufsz loaded_async) = 8" "unat (buf_read_ptr loaded_async) = 0" "unat (buf_write_ptr loaded_async) = 3"
  by (simp_all add: fresh_dev_def running_def busy_subd_def comedi_get_subdevice_runflags_def SRF_defs fresh_subd_def
      loaded_async_def fresh_async_def subd_def)

theorem read_delivers_witness:
  "\<exists>dev'. comedi_read (fresh_dev [busy_subd\<lparr>sd_async := Some loaded_async\<rparr>]) (Some 0) (Owner_file 1) False 2 100 [] =
    Some (2, [10, 11], dev')"
proof -
  have some: "readable loaded_async \<noteq> []" by (simp add: readable_loaded)
  have n: "(0 :: nat) < 2" "(2 :: nat) < 2147483648" "(2 :: nat) \<le> 100" by simp_all
  obtain k dev' where "k = min 2 (min (length (readable loaded_async)) (8 - 0))"
    and "comedi_read (fresh_dev [busy_subd\<lparr>sd_async := Some loaded_async\<rparr>]) (Some 0) (Owner_file 1) False 2 100 [] =
      Some (int k, take k (readable loaded_async), dev')"
    using read_delivers[OF example_facts(2,1,5,4,3) ring_ok_loaded example_facts(7) n some, of False "[]"]
    unfolding example_facts(9,10) by blast
  then show ?thesis by (simp add: readable_loaded)
qed

theorem write_appends_witness:
  "\<exists>dev' a'. comedi_write idle_ops (fresh_dev [busy_subd\<lparr>sd_async := Some loaded_async\<rparr>]) (Some 0) (Owner_file 1) False
      [13, 14] 100 [] = Some (2, dev') \<and> readable a' = [10, 11, 12, 13, 14]"
proof -
  let ?dev = "fresh_dev [busy_subd\<lparr>sd_async := Some loaded_async\<rparr>]"
  have no: "\<not> munging (munge_ctx_of idle_ops ?dev 0 (busy_subd\<lparr>sd_async := Some loaded_async\<rparr>)) loaded_async"
    by (simp add: munging_def munge_ctx_of_def example_facts(6))
  have room: "length (readable loaded_async) < unat (prealloc_bufsz loaded_async)"
    by (simp add: readable_loaded example_facts(9))
  have data: "[13, 14 :: u8] \<noteq> []" "length [13, 14 :: u8] < 2147483648" "length [13, 14 :: u8] \<le> 100" by simp_all
  obtain k a' dev' where "k = min (length [13, 14 :: u8]) (min (8 - length (readable loaded_async)) (8 - 3))"
    and "comedi_write idle_ops ?dev (Some 0) (Owner_file 1) False [13, 14] 100 [] = Some (int k, dev')"
    and "readable a' = readable loaded_async @ take k [13, 14]"
    using write_appends[OF example_facts(2,1,5,4,3) ring_ok_loaded no example_facts(8,6) data room, of False "[]"]
    unfolding example_facts(9,11) by blast
  then show ?thesis by (auto simp: readable_loaded)
qed

end
