(* ===== verification/Lock_Properties.thy ===== *)
theory Lock_Properties
  imports File_Ops Example_State
begin

text \<open>
  What locking a subdevice means at the ioctl interface: requests of other files to it fail and change
  nothing, with one exception, the internal trigger.
\<close>

unbundle bit_operations_syntax

section \<open>Requests to one subdevice\<close>

definition insn_target :: "comedi_insn \<Rightarrow> nat option" where
  "insn_target insn =
     (if insn_insn insn AND INSN_MASK_SPECIAL = 0 then Some (unat (insn_subdev insn)) else None)"

text \<open>The subdevice that a request wants to use, for the requests that use one.\<close>

fun request_target :: "ioctl_request \<Rightarrow> nat option" where
  "request_target (COMEDI_LOCK i) = Some (unat i)"
| "request_target (COMEDI_UNLOCK i) = Some (unat i)"
| "request_target (COMEDI_CANCEL i) = Some (unat i)"
| "request_target (COMEDI_POLL i) = Some (unat i)"
| "request_target (COMEDI_CMD (Some c)) = Some (unat (cmd_subdev c))"
| "request_target (COMEDI_BUFINFO (Some b)) = Some (unat (bi_subdevice b))"
| "request_target (COMEDI_INSN (Some insn)) = insn_target insn"
| "request_target (COMEDI_INSNLIST (Some (ok, Some (insn # insns)))) = insn_target insn"
| "request_target _ = None"

lemma parse_insn_locked:
  assumes "subd dev i = Some s" and "sd_lock s = Some f" and "g \<noteq> f" and "insn_target insn = Some i"
  obtains rc where "rc < 0" and "\<And>tv data. parse_insn ops tv dev insn data g = Some (rc, dev, insn, data)"
proof
  let ?rc = "if dv_n_subdevices dev \<le> insn_subdev insn then - EINVAL
    else if sd_type s = COMEDI_SUBD_UNUSED then - EIO else - EACCES"
  show "?rc < 0" by simp
  show "parse_insn ops tv dev insn data g = Some (?rc, dev, insn, data)" for tv data
    using assms by (auto simp: parse_insn_def insn_target_def Let_def split: if_split_asm)
qed

lemma insn_locked:
  assumes "subd dev i = Some s" and "sd_lock s = Some f" and "g \<noteq> f" and "insn_target insn = Some i"
  shows "\<exists>rc < 0. do_insn_ioctl ops env tv dev (Some insn) g = Some (rc, [], dev)"
proof -
  obtain rc where rc: "rc < 0" "\<And>tv data. parse_insn ops tv dev insn data g = Some (rc, dev, insn, data)"
    using parse_insn_locked[OF assms] by metis
  show ?thesis
    by (cases "if insn_n insn \<noteq> 0 then ue_alloc env 0 (unat (insn_n insn)) else Some []")
      (auto simp: do_insn_ioctl_def rc split: option.splits)
qed

lemma insnlist_locked:
  assumes "subd dev i = Some s" and "sd_lock s = Some f" and "g \<noteq> f" and "insn_target insn = Some i"
  shows "\<exists>rc < 0. do_insnlist_ioctl ops env tod dev (Some (ok, Some (insn # insns))) g = Some (rc, [], dev)"
proof -
  obtain rc where rc: "rc < 0" "\<And>tv data. parse_insn ops tv dev insn data g = Some (rc, dev, insn, data)"
    using parse_insn_locked[OF assms] by metis
  have "\<exists>rc < 0. insnlist_loop ops env tod g 0 (insn # insns) data [] dev = Some (rc, [], dev)" for data
    using rc by (auto split: option.splits)
  then show ?thesis
    by (auto simp: do_insnlist_ioctl_def Let_def simp del: insnlist_loop.simps split: option.splits)
qed

lemma cmd_locked:
  assumes "subd dev (unat (cmd_subdev c)) = Some s" and "sd_lock s = Some f" and "g \<noteq> f"
  shows "\<exists>rc < 0. do_cmd_ioctl ops env dev (Some c) ok g = Some (rc, None, dev)"
proof -
  have "\<exists>rc < 0. cmd_refused dev s c g = Some rc"
    using assms(2,3) by (auto simp: cmd_refused_def)
  then obtain rc where "rc < 0" "cmd_refused dev s c g = Some rc" by blast
  then show ?thesis using assms(1) by (simp add: do_cmd_ioctl_def Let_def)
qed

lemma subdevice_ioctls_locked:
  assumes "subd dev (unat n) = Some s" and "sd_lock s = Some f" and "g \<noteq> f"
  shows "\<exists>rc < 0. do_lock_ioctl dev n g = Some (rc, dev)" and "\<exists>rc < 0. do_unlock_ioctl dev n g = Some (rc, dev)"
    and "\<exists>rc < 0. do_cancel_ioctl ops dev n g = Some (rc, [], dev)" and "\<exists>rc < 0. do_poll_ioctl ops dev n g = Some (rc, dev)"
    and "unat (bi_subdevice b) = unat n \<Longrightarrow> \<exists>rc < 0. do_bufinfo_ioctl ops dev (Some b) ok g = Some (rc, None, dev)"
  using assms
  by (auto simp: do_lock_ioctl_def do_unlock_ioctl_def do_cancel_ioctl_def do_poll_ioctl_def do_bufinfo_ioctl_def Let_def)



section \<open>The exception\<close>

text \<open>
  The internal trigger goes past the lock and the owner: any file can fire the trigger of a command
  that another file has started on a subdevice that it has locked.
\<close>

theorem inttrig_ignores_lock:
  assumes "subd dev (unat (insn_subdev insn)) = Some s" and "insn_subdev insn < dv_n_subdevices dev"
    and "sd_lock s = Some f" and "sd_busy s = Some f" and "g \<noteq> f"
    and "sd_async s = Some a" and "inttrig a = Some trig"
    and "insn_insn insn = INSN_INTTRIG" and "insn_n insn = 1" and "insn_data insn = p"
    and "ue_alloc env 0 1 = Some garbage" and "ue_read env 0 p 1 = Some [d]"
    and "op_inttrig ops trig dev (unat (insn_subdev insn)) d = Some (0, dev')"
  shows "do_insn_ioctl ops env tv dev (Some insn) g = Some (1, [], dev')"
  using assms
  by (simp add: do_insn_ioctl_def parse_insn_def special_insn_def INSN_INTTRIG_def INSN_MASK_SPECIAL_def
      INSN_MASK_WRITE_def INSN_MASK_READ_def INSN_GTOD_def INSN_WAIT_def linorder_not_le[symmetric])

theorem inttrig_ignores_lock_witness:
  "do_insn_ioctl (idle_ops\<lparr>op_inttrig := (\<lambda>_ dev _ _. Some (0, dev))\<rparr>)
    \<lparr>ue_read = (\<lambda>_ _ _. Some [0]), ue_write = (\<lambda>_ _ _. True), ue_alloc = (\<lambda>_ _. Some [0])\<rparr> (0, 0)
    (fresh_dev [(fresh_subd 8)\<lparr>sd_lock := Some (Owner_file 1), sd_busy := Some (Owner_file 1),
      sd_async := Some ((fresh_async 8)\<lparr>inttrig := Some 1\<rparr>)\<rparr>])
    (Some \<lparr>insn_insn = INSN_INTTRIG, insn_n = 1, insn_data = 0, insn_subdev = 0, insn_chanspec = 0\<rparr>) (Owner_file 2) =
    Some (1, [], fresh_dev [(fresh_subd 8)\<lparr>sd_lock := Some (Owner_file 1), sd_busy := Some (Owner_file 1),
      sd_async := Some ((fresh_async 8)\<lparr>inttrig := Some 1\<rparr>)\<rparr>])"
  by (rule inttrig_ignores_lock[where s = "(fresh_subd 8)\<lparr>sd_lock := Some (Owner_file 1),
        sd_busy := Some (Owner_file 1), sd_async := Some ((fresh_async 8)\<lparr>inttrig := Some 1\<rparr>)\<rparr>"
        and f = "Owner_file 1" and a = "(fresh_async 8)\<lparr>inttrig := Some 1\<rparr>" and trig = 1 and d = 0])
    (simp_all, simp_all add: fresh_dev_def)

end
