(* ===== verification/Kcomedilib.thy ===== *)
theory Kcomedilib
  imports Board_Minors Commands
begin

text \<open>
  The kernel-side client library (\<open>comedi/kcomedilib\<close>). A handle is the address of the device, so that
  every client of a device has the same identity \<open>Owner_klib d\<close> as far as locks and busy owners go.
  Functions whose C name is also that of a file operation are prefixed with \<open>klib\<close>. Accesses the code
  makes without a check of the subdevice or channel number fail here.
\<close>

unbundle bit_operations_syntax

section \<open>Handles\<close>

text \<open>\<open>minor\<close> is the number that follows \<open>/dev/comedi\<close> in the file name, as \<open>simple_strtoul\<close> reads it.\<close>

definition klib_open ::
  "(nat \<Rightarrow> bool) \<Rightarrow> ('p, 'h) comedi_state \<Rightarrow> string \<Rightarrow> u32 \<Rightarrow> (nat option \<times> ('p, 'h) comedi_state) option" where
  "klib_open live st filename minor =
     (if take 11 filename \<noteq> ''/dev/comedi'' then Some (None, st)
      else if COMEDI_NUM_BOARD_MINORS \<le> unat minor then Some (None, st)
      else do {
        info \<leftarrow> comedi_get_device_file_info st (unat minor);
        case info of
          None \<Rightarrow> Some (None, st)
        | Some info \<Rightarrow>
            do {
              dev \<leftarrow> cs_devices st (fi_device info);
              if \<not> dv_attached dev then Some (None, st)
              else do {
                drv \<leftarrow> dv_driver dev;
                if live (drv_module drv)
                then Some (Some (fi_device info), module_get (drv_module drv) st)
                else Some (None, st)
              }
            }
      })"

definition klib_open_old ::
  "('p, 'h) comedi_state \<Rightarrow> u32 \<Rightarrow> nat option option" where
  "klib_open_old st minor =
     (if COMEDI_NUM_MINORS \<le> unat minor then Some None
      else do {
        info \<leftarrow> comedi_get_device_file_info st (unat minor);
        case info of
          None \<Rightarrow> Some None
        | Some info \<Rightarrow>
            do {
              dev \<leftarrow> cs_devices st (fi_device info);
              Some (if dv_attached dev then Some (fi_device info) else None)
            }
      })"

definition klib_close ::
  "('p, 'h) comedi_state \<Rightarrow> nat \<Rightarrow> (int \<times> ('p, 'h) comedi_state) option" where
  "klib_close st d = do { st \<leftarrow> put_driver_module st d; Some (0, st) }"

section \<open>Commands\<close>

definition comedi_command ::
  "('p, 'h) driver_ops \<Rightarrow> nat \<Rightarrow> ('p, 'h) comedi_device \<Rightarrow> comedi_cmd \<Rightarrow>
    (int \<times> comedi_cmd \<times> ('p, 'h) comedi_device) option" where
  "comedi_command ops d dev c =
     (if dv_n_subdevices dev \<le> cmd_subdev c then Some (- ENODEV, c, dev)
      else let i = unat (cmd_subdev c) in
      do {
        s \<leftarrow> subd dev i;
        if sd_type s = COMEDI_SUBD_UNUSED then Some (- EIO, c, dev)
        else case sd_async s of
          None \<Rightarrow> Some (- ENODEV, c, dev)
        | Some a \<Rightarrow>
            if sd_busy s \<noteq> None then Some (- EBUSY, c, dev)
            else
              let c = (if cb_mask a AND COMEDI_CB_EOS \<noteq> 0
                       then c\<lparr>cmd_flags := cmd_flags c OR TRIG_WAKE_EOS\<rparr> else c);
                  a = comedi_reset_async_buf (a\<lparr>cmd := c\<rparr>);
                  s = comedi_set_subdevice_runflags
                        (s\<lparr>sd_busy := Some (Owner_klib d), sd_async := Some a\<rparr>) (NOT 0) SRF_RUNNING
              in do {
                f \<leftarrow> sd_do_cmd s;
                (ret, dev) \<leftarrow> op_do_cmd ops f (set_subd i s dev) i;
                Some (ret, c, dev)
              }
      })"

definition comedi_command_test ::
  "('p, 'h) driver_ops \<Rightarrow> ('p, 'h) comedi_device \<Rightarrow> comedi_cmd \<Rightarrow>
    (int \<times> comedi_cmd \<times> ('p, 'h) comedi_device) option" where
  "comedi_command_test ops dev c =
     (if dv_n_subdevices dev \<le> cmd_subdev c then Some (- ENODEV, c, dev)
      else let i = unat (cmd_subdev c) in
      do {
        s \<leftarrow> subd dev i;
        if sd_type s = COMEDI_SUBD_UNUSED then Some (- EIO, c, dev)
        else if sd_async s = None then Some (- ENODEV, c, dev)
        else do {
          f \<leftarrow> sd_do_cmdtest s;
          (ret, dev, c) \<leftarrow> op_do_cmdtest ops f dev i c;
          Some (ret, c, dev)
        }
      })"

section \<open>Instructions\<close>

definition klib_special_insn ::
  "('p, 'h) driver_ops \<Rightarrow> u32 \<times> u32 \<Rightarrow> ('p, 'h) comedi_device \<Rightarrow> comedi_insn \<Rightarrow> lsampl_t list \<Rightarrow>
    ('p, 'h) insn_result" where
  "klib_special_insn ops tv dev insn data =
     (if insn_insn insn = INSN_GTOD then
        do {
          data \<leftarrow> store_nth data 0 (fst tv);
          data \<leftarrow> store_nth data 1 (snd tv);
          Some (2, dev, insn, data)
        }
      else if insn_insn insn = INSN_WAIT then
        if insn_n insn \<noteq> 1 then Some (- EINVAL, dev, insn, data)
        else do {
          d \<leftarrow> load_nth data 0;
          if 100 \<le> d then Some (- EINVAL, dev, insn, data) else Some (1, dev, insn, data)
        }
      else if insn_insn insn = INSN_INTTRIG then
        if insn_n insn \<noteq> 1 then Some (- EINVAL, dev, insn, data)
        else if dv_n_subdevices dev \<le> insn_subdev insn then Some (- EINVAL, dev, insn, data)
        else do {
          s \<leftarrow> subd dev (unat (insn_subdev insn));
          case sd_async s of
            None \<Rightarrow> Some (- EINVAL, dev, insn, data)
          | Some a \<Rightarrow>
              (case inttrig a of
                 None \<Rightarrow> Some (- EAGAIN, dev, insn, data)
               | Some f \<Rightarrow>
                   do {
                     d \<leftarrow> load_nth data 0;
                     (ret, dev) \<leftarrow> op_inttrig ops f dev (unat (insn_subdev insn)) d;
                     Some (if 0 \<le> ret then 1 else ret, dev, insn, data)
                   })
        }
      else Some (- EINVAL, dev, insn, data))"

definition comedi_do_insn ::
  "('p, 'h) driver_ops \<Rightarrow> nat \<Rightarrow> u32 \<times> u32 \<Rightarrow> ('p, 'h) comedi_device \<Rightarrow> comedi_insn \<Rightarrow>
    lsampl_t list \<Rightarrow> ('p, 'h) insn_result" where
  "comedi_do_insn ops d tv dev insn data =
     (if insn_insn insn AND INSN_MASK_SPECIAL \<noteq> 0 then klib_special_insn ops tv dev insn data
      else if dv_n_subdevices dev \<le> insn_subdev insn then Some (- EINVAL, dev, insn, data)
      else let i = unat (insn_subdev insn) in
        do {
          s \<leftarrow> subd dev i;
          if sd_type s = COMEDI_SUBD_UNUSED then Some (- EIO, dev, insn, data)
          else do {
            ret \<leftarrow> check_chanlist s 1 [insn_chanspec insn];
            if ret < 0 then Some (- EINVAL, dev, insn, data)
            else if sd_busy s \<noteq> None then Some (- EBUSY, dev, insn, data)
            else
              let s = s\<lparr>sd_busy := Some (Owner_klib d)\<rparr>;
                  dev = set_subd i s dev
              in do {
                (ret, dev, insn, data) \<leftarrow>
                  (if insn_insn insn = INSN_READ then call_insn ops (sd_insn_read s) dev i insn data
                   else if insn_insn insn = INSN_WRITE then call_insn ops (sd_insn_write s) dev i insn data
                   else if insn_insn insn = INSN_BITS then call_insn ops (sd_insn_bits s) dev i insn data
                   else if insn_insn insn = INSN_CONFIG then call_insn ops (sd_insn_config s) dev i insn data
                   else Some (- EINVAL, dev, insn, data));
                s \<leftarrow> subd dev i;
                Some (ret, set_subd i (s\<lparr>sd_busy := None\<rparr>) dev, insn, data)
              }
          }
        })"

definition klib_insn :: "u32 \<Rightarrow> u32 \<Rightarrow> u32 \<Rightarrow> u32 \<Rightarrow> comedi_insn" where
  "klib_insn code n sub chanspec =
     \<lparr>insn_insn = code, insn_n = n, insn_data = 0, insn_subdev = sub, insn_chanspec = chanspec\<rparr>"

definition one_datum ::
  "lsampl_t \<Rightarrow> ('p, 'h) insn_result \<Rightarrow> (int \<times> lsampl_t \<times> ('p, 'h) comedi_device) option" where
  "one_datum x r = do { (ret, dev, _, data) \<leftarrow> r; Some (ret, case data of [] \<Rightarrow> x | y # _ \<Rightarrow> y, dev) }"

definition comedi_dio_config ::
  "('p, 'h) driver_ops \<Rightarrow> nat \<Rightarrow> u32 \<times> u32 \<Rightarrow> ('p, 'h) comedi_device \<Rightarrow> u32 \<Rightarrow> u32 \<Rightarrow> u32 \<Rightarrow>
    (int \<times> lsampl_t \<times> ('p, 'h) comedi_device) option" where
  "comedi_dio_config ops d tv dev sub chan io =
     one_datum io (comedi_do_insn ops d tv dev (klib_insn INSN_CONFIG 1 sub (CR_PACK chan 0 0)) [io])"

definition comedi_dio_read ::
  "('p, 'h) driver_ops \<Rightarrow> nat \<Rightarrow> u32 \<times> u32 \<Rightarrow> ('p, 'h) comedi_device \<Rightarrow> u32 \<Rightarrow> u32 \<Rightarrow> lsampl_t \<Rightarrow>
    (int \<times> lsampl_t \<times> ('p, 'h) comedi_device) option" where
  "comedi_dio_read ops d tv dev sub chan val =
     one_datum val (comedi_do_insn ops d tv dev (klib_insn INSN_READ 1 sub (CR_PACK chan 0 0)) [val])"

definition comedi_dio_write ::
  "('p, 'h) driver_ops \<Rightarrow> nat \<Rightarrow> u32 \<times> u32 \<Rightarrow> ('p, 'h) comedi_device \<Rightarrow> u32 \<Rightarrow> u32 \<Rightarrow> lsampl_t \<Rightarrow>
    (int \<times> lsampl_t \<times> ('p, 'h) comedi_device) option" where
  "comedi_dio_write ops d tv dev sub chan val =
     one_datum val (comedi_do_insn ops d tv dev (klib_insn INSN_WRITE 1 sub (CR_PACK chan 0 0)) [val])"

definition comedi_dio_bitfield ::
  "('p, 'h) driver_ops \<Rightarrow> nat \<Rightarrow> u32 \<times> u32 \<Rightarrow> ('p, 'h) comedi_device \<Rightarrow> u32 \<Rightarrow> u32 \<Rightarrow> u32 \<Rightarrow>
    (int \<times> u32 \<times> ('p, 'h) comedi_device) option" where
  "comedi_dio_bitfield ops d tv dev sub mask_bits bits =
     do {
       (ret, dev, _, data) \<leftarrow> comedi_do_insn ops d tv dev (klib_insn INSN_BITS 2 sub 0) [mask_bits, bits];
       bits \<leftarrow> load_nth data 1;
       Some (ret, bits, dev)
     }"

definition comedi_data_write ::
  "('p, 'h) driver_ops \<Rightarrow> nat \<Rightarrow> u32 \<times> u32 \<Rightarrow> ('p, 'h) comedi_device \<Rightarrow> u32 \<Rightarrow> u32 \<Rightarrow> u32 \<Rightarrow> u32 \<Rightarrow> lsampl_t \<Rightarrow>
    (int \<times> lsampl_t \<times> ('p, 'h) comedi_device) option" where
  "comedi_data_write ops d tv dev sub chan rng aref data =
     one_datum data (comedi_do_insn ops d tv dev (klib_insn INSN_WRITE 1 sub (CR_PACK chan rng aref)) [data])"

definition comedi_data_read ::
  "('p, 'h) driver_ops \<Rightarrow> nat \<Rightarrow> u32 \<times> u32 \<Rightarrow> ('p, 'h) comedi_device \<Rightarrow> u32 \<Rightarrow> u32 \<Rightarrow> u32 \<Rightarrow> u32 \<Rightarrow> lsampl_t \<Rightarrow>
    (int \<times> lsampl_t \<times> ('p, 'h) comedi_device) option" where
  "comedi_data_read ops d tv dev sub chan rng aref data =
     one_datum data (comedi_do_insn ops d tv dev (klib_insn INSN_READ 1 sub (CR_PACK chan rng aref)) [data])"

definition comedi_data_read_hint ::
  "('p, 'h) driver_ops \<Rightarrow> nat \<Rightarrow> u32 \<times> u32 \<Rightarrow> ('p, 'h) comedi_device \<Rightarrow> u32 \<Rightarrow> u32 \<Rightarrow> u32 \<Rightarrow> u32 \<Rightarrow>
    (int \<times> ('p, 'h) comedi_device) option" where
  "comedi_data_read_hint ops d tv dev sub chan rng aref =
     do {
       (ret, dev, _, _) \<leftarrow>
         comedi_do_insn ops d tv dev (klib_insn INSN_READ 0 sub (CR_PACK chan rng aref)) [0];
       Some (ret, dev)
     }"

definition comedi_data_read_delayed ::
  "('p, 'h) driver_ops \<Rightarrow> nat \<Rightarrow> u32 \<times> u32 \<Rightarrow> ('p, 'h) comedi_device \<Rightarrow> u32 \<Rightarrow> u32 \<Rightarrow> u32 \<Rightarrow> u32 \<Rightarrow> lsampl_t \<Rightarrow>
    (int \<times> lsampl_t \<times> ('p, 'h) comedi_device) option" where
  "comedi_data_read_delayed ops d tv dev sub chan rng aref data =
     do {
       (ret, dev) \<leftarrow> comedi_data_read_hint ops d tv dev sub chan rng aref;
       if ret < 0 then Some (ret, data, dev) else comedi_data_read ops d tv dev sub chan rng aref data
     }"

section \<open>Locks, cancellation and callbacks\<close>

definition comedi_lock ::
  "nat \<Rightarrow> ('p, 'h) comedi_device \<Rightarrow> u32 \<Rightarrow> (int \<times> ('p, 'h) comedi_device) option" where
  "comedi_lock d dev sub =
     (if dv_n_subdevices dev \<le> sub then Some (- EINVAL, dev)
      else do {
        s \<leftarrow> subd dev (unat sub);
        if sd_busy s \<noteq> None then Some (- EBUSY, dev)
        else if sd_lock s \<noteq> None then Some (- EBUSY, dev)
        else Some (0, set_subd (unat sub) (s\<lparr>sd_lock := Some (Owner_klib d)\<rparr>) dev)
      })"

definition clear_callback :: "comedi_async \<Rightarrow> comedi_async" where
  "clear_callback a = a\<lparr>cb_mask := 0, cb_func := None, cb_arg := 0\<rparr>"

definition comedi_unlock ::
  "nat \<Rightarrow> ('p, 'h) comedi_device \<Rightarrow> u32 \<Rightarrow> (int \<times> ('p, 'h) comedi_device) option" where
  "comedi_unlock d dev sub =
     (if dv_n_subdevices dev \<le> sub then Some (- EINVAL, dev)
      else do {
        s \<leftarrow> subd dev (unat sub);
        if sd_busy s \<noteq> None then Some (- EBUSY, dev)
        else if sd_lock s \<noteq> None \<and> sd_lock s \<noteq> Some (Owner_klib d) then Some (- EACCES, dev)
        else Some (0, set_subd (unat sub)
          (s\<lparr>sd_lock := None, sd_async := map_option clear_callback (sd_async s)\<rparr>) dev)
      })"

definition klib_cancel ::
  "('p, 'h) driver_ops \<Rightarrow> nat \<Rightarrow> ('p, 'h) comedi_device \<Rightarrow> u32 \<Rightarrow> (int \<times> ('p, 'h) comedi_device) option" where
  "klib_cancel ops d dev sub =
     (if dv_n_subdevices dev \<le> sub then Some (- EINVAL, dev)
      else do {
        s \<leftarrow> subd dev (unat sub);
        if sd_lock s \<noteq> None \<and> sd_lock s \<noteq> Some (Owner_klib d) then Some (- EACCES, dev)
        else case sd_cancel s of
          None \<Rightarrow> Some (- EINVAL, dev)
        | Some f \<Rightarrow>
            if sd_async s = None then Some (- EINVAL, dev)
            else do {
              (ret, dev) \<leftarrow> op_cancel ops f dev (unat sub);
              if ret \<noteq> 0 then Some (ret, dev)
              else do {
                s \<leftarrow> subd dev (unat sub);
                a \<leftarrow> sd_async s;
                Some (0, set_subd (unat sub)
                  ((comedi_set_subdevice_runflags s (SRF_RUNNING OR SRF_RT) 0)
                     \<lparr>sd_async := Some (a\<lparr>inttrig := None\<rparr>), sd_busy := None\<rparr>) dev)
              }
            }
      })"

definition comedi_register_callback ::
  "nat \<Rightarrow> ('p, 'h) comedi_device \<Rightarrow> u32 \<Rightarrow> u32 \<Rightarrow> fnptr option \<Rightarrow> u64 \<Rightarrow>
    (int \<times> ('p, 'h) comedi_device) option" where
  "comedi_register_callback d dev sub m cb arg =
     (if dv_n_subdevices dev \<le> sub then Some (- EINVAL, dev)
      else do {
        s \<leftarrow> subd dev (unat sub);
        case sd_async s of
          None \<Rightarrow> Some (- EIO, dev)
        | Some a \<Rightarrow>
            Some (if sd_type s = COMEDI_SUBD_UNUSED then (- EIO, dev)
              else if sd_lock s \<noteq> None \<and> sd_lock s \<noteq> Some (Owner_klib d) then (- EACCES, dev)
              else if sd_busy s \<noteq> None then (- EBUSY, dev)
              else (0, set_subd (unat sub) (s\<lparr>sd_async := Some
                     (if m = 0 then clear_callback a
                      else a\<lparr>cb_mask := m, cb_func := cb, cb_arg := arg\<rparr>)\<rparr>) dev))
      })"

definition klib_poll ::
  "('p, 'h) driver_ops \<Rightarrow> nat \<Rightarrow> ('p, 'h) comedi_device \<Rightarrow> u32 \<Rightarrow> (int \<times> ('p, 'h) comedi_device) option" where
  "klib_poll ops d dev sub =
     (if dv_n_subdevices dev \<le> sub then Some (- EINVAL, dev)
      else do {
        s \<leftarrow> subd dev (unat sub);
        if sd_type s = COMEDI_SUBD_UNUSED \<or> sd_async s = None then Some (- EIO, dev)
        else if sd_lock s \<noteq> None \<and> sd_lock s \<noteq> Some (Owner_klib d) then Some (- EACCES, dev)
        else if sd_busy s = None then Some (- EIO, dev)
        else do { f \<leftarrow> sd_poll s; call_poll ops f dev (unat sub) }
      })"

section \<open>Enquiries\<close>

definition comedi_find_subdevice_by_type ::
  "('p, 'h) comedi_device \<Rightarrow> u32 \<Rightarrow> u32 \<Rightarrow> int" where
  "comedi_find_subdevice_by_type dev type_code sub =
     (if dv_n_subdevices dev < sub then - ENODEV
      else (case find (\<lambda>i. subd_type_code (sd_type (dv_subdevices dev ! i)) = type_code)
                   [unat sub ..< unat (dv_n_subdevices dev)] of
              Some i \<Rightarrow> int i | None \<Rightarrow> -1))"

definition comedi_get_maxdata :: "('p, 'h) comedi_device \<Rightarrow> u32 \<Rightarrow> u32 \<Rightarrow> lsampl_t option" where
  "comedi_get_maxdata dev sub chan =
     do {
       s \<leftarrow> subd dev (unat sub);
       case sd_maxdata_list s of Some ms \<Rightarrow> load_nth ms (unat chan) | None \<Rightarrow> Some (sd_maxdata s)
     }"

definition klib_range :: "('p, 'h) comedi_device \<Rightarrow> u32 \<Rightarrow> u32 \<Rightarrow> comedi_lrange option" where
  "klib_range dev sub chan =
     do {
       s \<leftarrow> subd dev (unat sub);
       case sd_range_table_list s of Some tabs \<Rightarrow> load_nth tabs (unat chan) | None \<Rightarrow> sd_range_table s
     }"

definition comedi_get_n_ranges :: "('p, 'h) comedi_device \<Rightarrow> u32 \<Rightarrow> u32 \<Rightarrow> int option" where
  "comedi_get_n_ranges dev sub chan = map_option (\<lambda>lr. sint (lr_length lr)) (klib_range dev sub chan)"

definition comedi_get_krange ::
  "('p, 'h) comedi_device \<Rightarrow> u32 \<Rightarrow> u32 \<Rightarrow> u32 \<Rightarrow> (int \<times> comedi_krange option) option" where
  "comedi_get_krange dev sub chan rng =
     do {
       lr \<leftarrow> klib_range dev sub chan;
       if lr_length lr \<le> rng then Some (- EINVAL, None)
       else do { kr \<leftarrow> load_nth (lr_range lr) (unat rng); Some (0, Some kr) }
     }"

section \<open>Direct access to the buffer\<close>

definition comedi_get_buffer_contents :: "('p, 'h) comedi_device \<Rightarrow> u32 \<Rightarrow> int option" where
  "comedi_get_buffer_contents dev sub =
     (if dv_n_subdevices dev \<le> sub then Some (-1)
      else do {
        s \<leftarrow> subd dev (unat sub);
        Some (case sd_async s of None \<Rightarrow> 0 | Some a \<Rightarrow> sint (comedi_buf_read_n_available (Some a)))
      })"

definition consume ::
  "('p, 'h) comedi_device \<Rightarrow> nat \<Rightarrow> 'p comedi_subdevice \<Rightarrow> comedi_async \<Rightarrow> u32 \<Rightarrow>
    (int \<times> ('p, 'h) comedi_device) option" where
  "consume dev i s a num_bytes =
     do {
       (_, a) \<leftarrow> Some (comedi_buf_read_alloc a num_bytes);
       (_, a) \<leftarrow> comedi_buf_read_free a num_bytes;
       Some (0, set_subd i (s\<lparr>sd_async := Some a\<rparr>) dev)
     }"

definition comedi_set_user_int_count ::
  "('p, 'h) comedi_device \<Rightarrow> u32 \<Rightarrow> u32 \<Rightarrow> (int \<times> ('p, 'h) comedi_device) option" where
  "comedi_set_user_int_count dev sub buf_user_count =
     do {
       s \<leftarrow> subd dev (unat sub);
       case sd_async s of
         None \<Rightarrow> Some (-1, dev)
       | Some a \<Rightarrow>
           let num_bytes = buf_user_count - buf_read_count a in
           if num_bytes <s 0 then Some (-1, dev) else consume dev (unat sub) s a num_bytes
     }"

definition comedi_mark_buffer_read ::
  "('p, 'h) comedi_device \<Rightarrow> u32 \<Rightarrow> u32 \<Rightarrow> (int \<times> ('p, 'h) comedi_device) option" where
  "comedi_mark_buffer_read dev sub num_bytes =
     (if dv_n_subdevices dev \<le> sub then Some (-1, dev)
      else do {
        s \<leftarrow> subd dev (unat sub);
        case sd_async s of None \<Rightarrow> Some (-1, dev) | Some a \<Rightarrow> consume dev (unat sub) s a num_bytes
      })"

definition comedi_mark_buffer_written ::
  "munge_ctx \<Rightarrow> ('p, 'h) comedi_device \<Rightarrow> u32 \<Rightarrow> u32 \<Rightarrow> (int \<times> ('p, 'h) comedi_device) option" where
  "comedi_mark_buffer_written mc dev sub num_bytes =
     (if dv_n_subdevices dev \<le> sub then Some (-1, dev)
      else do {
        s \<leftarrow> subd dev (unat sub);
        case sd_async s of
          None \<Rightarrow> Some (-1, dev)
        | Some a \<Rightarrow>
            (case comedi_buf_write_alloc a num_bytes of (bytes_written, a) \<Rightarrow>
             do {
               (_, a) \<leftarrow> comedi_buf_write_free mc a bytes_written;
               Some (if bytes_written \<noteq> num_bytes then -1 else 0,
                     set_subd (unat sub) (s\<lparr>sd_async := Some a\<rparr>) dev)
             })
      })"

definition comedi_get_buffer_size :: "('p, 'h) comedi_device \<Rightarrow> u32 \<Rightarrow> int option" where
  "comedi_get_buffer_size dev sub =
     (if dv_n_subdevices dev \<le> sub then Some (-1)
      else do {
        s \<leftarrow> subd dev (unat sub);
        Some (case sd_async s of None \<Rightarrow> 0 | Some a \<Rightarrow> sint (prealloc_bufsz a))
      })"

definition comedi_get_buffer_offset :: "('p, 'h) comedi_device \<Rightarrow> u32 \<Rightarrow> int option" where
  "comedi_get_buffer_offset dev sub =
     (if dv_n_subdevices dev \<le> sub then Some (-1)
      else do {
        s \<leftarrow> subd dev (unat sub);
        Some (case sd_async s of None \<Rightarrow> 0 | Some a \<Rightarrow> sint (buf_read_ptr a))
      })"

end
