(* ===== verification/Dio_Properties.thy ===== *)
theory Dio_Properties
  imports Dio_8255
begin

text \<open>
  What the 8255 driver guarantees: single-channel writes through the core's emulation, directions by
  group, and what happens when its attach routine runs out of memory.
\<close>

unbundle bit_operations_syntax

section \<open>One channel\<close>


definition null_io :: "unit port_io" where
  "null_io = \<lparr>pi_inb = (\<lambda>_ x. (0, x)), pi_outb = (\<lambda>_ _ x. x), pi_callback = (\<lambda>_ _ _ _ _ x. (0, x))\<rparr>"

definition dio_subd :: "subdev_8255 comedi_subdevice" where
  "dio_subd = zero_subd\<lparr>sd_type := COMEDI_SUBD_DIO, sd_subdev_flags := SDF_READABLE OR SDF_WRITABLE,
     sd_n_chan := 24, sd_insn_bits := Some (Insn_driver insn_8255_fn),
     sd_private := Some \<lparr>cb_8255_arg = 0x300, cb_8255_func = None, have_irq = False\<rparr>\<rparr>"

definition dio_dev :: "unit dio_device" where
  "dio_dev = \<lparr>dv_use_count = 0, dv_driver = None, dv_private = None, dv_class_dev = False,
     dv_minor = 0, dv_hw_dev = None, dv_board_name = None, dv_board_ptr = None, dv_attached = False,
     dv_rt = False, dv_in_request_module = False, dv_n_subdevices = 1, dv_subdevices = [dio_subd],
     dv_iobase = 0, dv_irq = 0, dv_read_subdev = None, dv_write_subdev = None, dv_open = None,
     dv_close = None, dv_hw = \<lparr>dh_regions = [], dh_chip = ()\<rparr>\<rparr>"

lemma subd_dio_dev [simp]: "subd dio_dev 0 = Some dio_subd"
  by (simp add: subd_def dio_dev_def)


section \<open>Directions\<close>

text \<open>The four groups of channels that share a direction.\<close>

definition dio_group :: "nat \<Rightarrow> nat" where
  "dio_group c = (if c < 8 then 0 else if c < 16 then 1 else if c < 20 then 2 else 3)"

definition group_mask :: "nat \<Rightarrow> u32" where
  "group_mask g = (if g = 0 then 0x0000ff else if g = 1 then 0x00ff00 else if g = 2 then 0x0f0000 else 0xf00000)"

lemma group_bits_chan: "c < 24 \<Longrightarrow> group_bits (push_bit c 1) = group_mask (dio_group c)"
proof -
  assume "c < 24"
  then have "c \<in> set [0..<24]" by simp
  then show ?thesis
    by (simp add: upt_rec) (elim disjE; simp add: group_bits_def group_mask_def dio_group_def)
qed

lemma group_bits_pow: "c < 24 \<Longrightarrow> group_bits (2 ^ c) = group_mask (dio_group c)"
  using group_bits_chan[of c] by (simp add: push_bit_eq_mult)

lemma group_mask_nonzero: "group_mask g \<noteq> 0"
  by (simp add: group_mask_def)

lemma group_mask_disjoint:
  assumes "g \<noteq> h" and "g < 4" and "h < 4"
  shows "group_mask g AND group_mask h = 0"
proof -
  have "g \<in> {0, 1, 2, 3}" "h \<in> {0, 1, 2, 3}" using assms by auto
  then show ?thesis using assms(1) by (auto simp: group_mask_def)
qed

lemma dio_group_less: "dio_group c < 4"
  by (simp add: dio_group_def)

lemma set_group:
  assumes "g < 4" and "h < 4"
  shows "(x OR group_mask g) AND group_mask h \<noteq> 0 \<longleftrightarrow> g = h \<or> x AND group_mask h \<noteq> 0"
proof (cases "g = h")
  case True
  have "(x OR group_mask h) AND group_mask h = group_mask h"
    by (rule bit_word_eqI) (auto simp: bit_simps)
  then show ?thesis using True group_mask_nonzero by simp
next
  case False
  have "(x OR group_mask g) AND group_mask h = x AND group_mask h"
    using group_mask_disjoint[OF False assms]
    by (metis bit.conj_disj_distrib2 bit.disj_zero_right)
  then show ?thesis using False by simp
qed

lemma clear_group:
  assumes "g < 4" and "h < 4"
  shows "(x AND NOT (group_mask g)) AND group_mask h \<noteq> 0 \<longleftrightarrow> g \<noteq> h \<and> x AND group_mask h \<noteq> 0"
proof (cases "g = h")
  case True
  have "(x AND NOT (group_mask h)) AND group_mask h = 0"
    by (rule bit_word_eqI) (auto simp: bit_simps)
  then show ?thesis using True by simp
next
  case False
  have "\<not> (bit (group_mask g) n \<and> bit (group_mask h) n)" for n
    using group_mask_disjoint[OF False assms] by (metis bit_and_iff bit_0_eq bot_apply bot_bool_def)
  then have "(x AND NOT (group_mask g)) AND group_mask h = x AND group_mask h"
    by (intro bit_word_eqI) (auto simp: bit_simps)
  then show ?thesis using False by simp
qed

text \<open>What the query instruction reports for a channel.\<close>

definition dio_direction :: "'x dio_device \<Rightarrow> nat \<Rightarrow> nat \<Rightarrow> u32" where
  "dio_direction dev i c =
     (case subd dev i of
        Some s \<Rightarrow> if sd_io_bits s AND group_mask (dio_group c) \<noteq> 0 then 1 else 0 | None \<Rightarrow> 0)"

text \<open>
  Configuring a channel of an 8255 sets the direction of its whole group (two ports of eight
  channels, two half ports of four) and of no other group, and the query instruction reports it.
\<close>

theorem dio_config_query:
  assumes s: "subd dev i = Some s" and p: "sd_private s \<noteq> None"
    and c: "unat (CR_CHAN (insn_chanspec insn)) < 24" and q: "unat (CR_CHAN (insn_chanspec query)) < 24"
    and d: "d = INSN_CONFIG_DIO_INPUT \<or> d = INSN_CONFIG_DIO_OUTPUT"
  shows "\<exists>dev'. subdev_8255_insn_config io dev i insn [d] = Some (1, dev', insn, [d]) \<and>
    subdev_8255_insn_config io dev' i query [INSN_CONFIG_DIO_QUERY, x] =
      Some (sint (insn_n query), dev', query, [INSN_CONFIG_DIO_QUERY,
        if dio_group (unat (CR_CHAN (insn_chanspec query))) = dio_group (unat (CR_CHAN (insn_chanspec insn)))
        then (if d = INSN_CONFIG_DIO_OUTPUT then 1 else 0)
        else dio_direction dev i (unat (CR_CHAN (insn_chanspec query)))])"
proof -
  let ?g = "dio_group (unat (CR_CHAN (insn_chanspec insn)))"
  let ?h = "dio_group (unat (CR_CHAN (insn_chanspec query)))"
  define io' where "io' = (if d = INSN_CONFIG_DIO_INPUT then sd_io_bits s AND NOT (group_mask ?g)
    else sd_io_bits s OR group_mask ?g)"
  let ?s = "s\<lparr>sd_io_bits := io'\<rparr>"
  have p': "sd_private ?s \<noteq> None" using p by simp
  obtain y h where "call_8255 io ?s True 3 (config_word (sd_io_bits ?s)) (set_subd i ?s dev) =
      Some (y, (set_subd i ?s dev)\<lparr>dv_hw := h\<rparr>)" using p' by (rule call_8255_frame)
  then have conf: "do_config io ?s (set_subd i ?s dev) = Some ((set_subd i ?s dev)\<lparr>dv_hw := h\<rparr>)"
    by (simp add: do_config_def)
  let ?dev = "(set_subd i ?s dev)\<lparr>dv_hw := h\<rparr>"
  have dq: "d \<noteq> INSN_CONFIG_DIO_QUERY" using d by (auto simp: INSN_CONFIG_defs)
  have "subdev_8255_insn_config io dev i insn [d] = Some (1, ?dev, insn, [d])"
    using s dq conf d by (elim disjE) (simp_all add: subdev_8255_insn_config_def Let_def group_bits_pow[OF c] io'_def)
  moreover have s': "subd ?dev i = Some ?s" using s by (simp add: subd_def set_subd_def load_nth_eq_Some)
  moreover have "io' AND group_mask ?h \<noteq> 0 \<longleftrightarrow>
      (if ?h = ?g then d = INSN_CONFIG_DIO_OUTPUT else sd_io_bits s AND group_mask ?h \<noteq> 0)"
    using d
  proof (elim disjE)
    assume "d = INSN_CONFIG_DIO_INPUT"
    then show ?thesis
      using clear_group[OF dio_group_less dio_group_less]
      by (simp add: io'_def INSN_CONFIG_DIO_INPUT_def INSN_CONFIG_DIO_OUTPUT_def eq_commute[of ?g ?h])
  next
    assume "d = INSN_CONFIG_DIO_OUTPUT"
    then show ?thesis
      using set_group[OF dio_group_less dio_group_less]
      by (simp add: io'_def INSN_CONFIG_DIO_INPUT_def INSN_CONFIG_DIO_OUTPUT_def eq_commute[of ?g ?h])
  qed
  moreover have "INSN_CONFIG_DIO_QUERY \<noteq> INSN_CONFIG_DIO_INPUT" by (simp add: INSN_CONFIG_defs)
  ultimately show ?thesis
    using s by (intro exI[of _ ?dev]) (auto simp: subdev_8255_insn_config_def Let_def group_bits_pow[OF q] dio_direction_def)
qed

theorem dio_config_query_witness:
  "\<exists>dev'. subdev_8255_insn_config null_io dio_dev 0
      \<lparr>insn_insn = INSN_CONFIG, insn_n = 1, insn_data = 0, insn_subdev = 0, insn_chanspec = 17\<rparr>
      [INSN_CONFIG_DIO_OUTPUT] = Some (1, dev',
        \<lparr>insn_insn = INSN_CONFIG, insn_n = 1, insn_data = 0, insn_subdev = 0, insn_chanspec = 17\<rparr>,
        [INSN_CONFIG_DIO_OUTPUT])"
proof -
  let ?insn = "\<lparr>insn_insn = INSN_CONFIG, insn_n = 1, insn_data = 0, insn_subdev = 0, insn_chanspec = 17\<rparr>"
  have p: "sd_private dio_subd \<noteq> None" by (simp add: dio_subd_def)
  have c: "unat (CR_CHAN (insn_chanspec ?insn)) < 24" by (simp add: CR_CHAN_def)
  show ?thesis
    using dio_config_query[OF subd_dio_dev p c c, of INSN_CONFIG_DIO_OUTPUT null_io] by blast
qed

section \<open>Out of memory in attach\<close>

text \<open>
  When the allocation of the subdevices fails, \<open>alloc_subdevices\<close> has already set their number: the
  clean-up that the core then runs enters the driver's detach routine, which goes through subdevices
  that do not exist, and the attach never returns.
\<close>

theorem attach_8255_nomem_crashes:
  assumes "cs_devices st d = Some dev" and "\<not> dv_attached dev"
    and "pick_driver live (dc_board_name it) (dv_board_ptr dev) (cs_drivers st) = (Some driv, ptr)"
    and "dc_options it = x # xs" and "x \<noteq> 0"
  shows "comedi_device_attach (ops_8255 io free mem False) env live st d it = None"
proof -
  define n where "n = length (takeWhile (\<lambda>x. x \<noteq> 0) (take 32 (dc_options it)))"
  have n: "0 < n" "n \<le> 32"
    using assms(4,5) length_takeWhile_le[of "\<lambda>x. x \<noteq> 0" "take 32 (dc_options it)"] by (auto simp: n_def)
  then have "unat (of_nat n :: u32) = n" by (simp add: unat_of_nat)
  then have sn: "nat (sint (of_nat n :: u32)) = n" using n by (simp add: sint_u32)
  obtain k where k: "n = Suc k" using n(1) by (cases n) auto
  let ?dev = "dev\<lparr>dv_board_ptr := ptr, dv_driver := Some driv, dv_board_name := Some ''8255'',
    dv_n_subdevices := of_nat n, dv_subdevices := []\<rparr>"
  have attach: "dev_8255_attach io free mem False (dev\<lparr>dv_board_ptr := ptr, dv_driver := Some driv\<rparr>) it =
      Some (- ENOMEM, ?dev)"
    using n by (simp add: dev_8255_attach_def Let_def n_def[symmetric] alloc_subdevices_def)
  have "detach_8255_loop 0 n (?dev\<lparr>dv_attached := False\<rparr>) = None"
    by (simp add: k subd_def load_nth_def)
  then have detach: "dev_8255_detach (?dev\<lparr>dv_attached := False\<rparr>) = None"
    by (simp add: dev_8255_detach_def sn)
  show ?thesis
    using assms(1-3) attach detach
    by (simp add: comedi_device_attach_def ops_8255_def put_driver_module_def detach_device_def
        module_put_def module_get_def)
qed

definition dio_state :: "(subdev_8255, unit dio_hw) comedi_state" where
  "dio_state = \<lparr>cs_table = replicate 256 None, cs_devices = (\<lambda>_. Some dio_dev), cs_drivers = [driver_8255],
     cs_refs = (\<lambda>_. 0), cs_flow = \<lparr>pages_taken = [], pages_freed = []\<rparr>\<rparr>"

theorem attach_8255_nomem_crashes_witness:
  "\<forall>env. comedi_device_attach (ops_8255 null_io (\<lambda>_. True) (\<lambda>_. None) False) env (\<lambda>_. True) dio_state 0
    \<lparr>dc_board_name = ''8255'', dc_options = [0x300]\<rparr> = None"
  by (rule allI, rule attach_8255_nomem_crashes[where dev = dio_dev and driv = driver_8255 and ptr = None
        and x = "0x300" and xs = "[]"])
    (simp_all add: dio_state_def dio_dev_def driver_8255_def)

end
