(* ===== verification/Serial_2002.thy ===== *)
theory Serial_2002
  imports Dio_8255
begin

text \<open>
  \<open>comedi/drivers/serial2002.c\<close>: a board at the other end of a serial line. The line is the state of the
  hardware: what the reads of the terminal will give (\<open>None\<close> where nothing has arrived), what the driver has
  written to it, and what the kernel answers when the driver opens it and asks for memory. Once the list of the
  reads is used up the line is silent, so that every loop over it comes to an end.
\<close>

unbundle bit_operations_syntax

section \<open>The terminal\<close>

datatype baud = B2400 | B4800 | B9600 | B19200 | B38400 | B57600 | B115200

record serial_port =
  port_open_error :: "int option"
  port_can_poll :: bool
  port_looks :: "(bool \<times> int) list"
  port_rx :: "u8 option list"
  port_tx :: "u8 list"
  port_speed :: "baud option"
  port_low_latency :: bool
  mem_private :: bool
  mem_subdevices :: bool
  mem_configs :: bool
  mem_maxdata :: "nat \<Rightarrow> bool"
  mem_ranges :: "nat \<Rightarrow> bool"

text \<open>The pointer \<open>devpriv->tty\<close>.\<close>

datatype tty = Tty_null | Tty_error int | Tty_open

definition tty_write :: "serial_port \<Rightarrow> u8 list \<Rightarrow> serial_port" where
  "tty_write f buf = f\<lparr>port_tx := port_tx f @ buf\<rparr>"

text \<open>Looking at the port until there is something to read or the time (in microseconds) is over.\<close>

fun tty_wait :: "int \<Rightarrow> (bool \<times> int) list \<Rightarrow> (bool \<times> int) list" where
  "tty_wait timeout [] = []"
| "tty_wait timeout ((ready, elapsed) # looks) =
     (if ready \<or> timeout < elapsed then looks else tty_wait timeout looks)"

fun tty_retry :: "nat \<Rightarrow> u8 option list \<Rightarrow> u8 option \<times> u8 option list" where
  "tty_retry 0 rx = (None, rx)"
| "tty_retry (Suc k) [] = (None, [])"
| "tty_retry (Suc k) (Some ch # rx) = (Some ch, rx)"
| "tty_retry (Suc k) (None # rx) = tty_retry k rx"

definition tty_read :: "serial_port \<Rightarrow> int \<Rightarrow> u8 option \<times> serial_port" where
  "tty_read f timeout =
     (if port_can_poll f then
        let f = f\<lparr>port_looks := tty_wait timeout (port_looks f)\<rparr> in
        (case port_rx f of [] \<Rightarrow> (None, f) | r # rx \<Rightarrow> (r, f\<lparr>port_rx := rx\<rparr>))
      else
        (case tty_retry (nat (timeout - 1)) (port_rx f) of (r, rx) \<Rightarrow> (r, f\<lparr>port_rx := rx\<rparr>)))"

definition tty_setspeed :: "serial_port \<Rightarrow> u32 \<Rightarrow> serial_port" where
  "tty_setspeed f speed = f\<lparr>port_low_latency := True,
     port_speed := Some (if speed = 2400 then B2400 else if speed = 4800 then B4800 else if speed = 9600 then B9600
       else if speed = 19200 then B19200 else if speed = 38400 then B38400 else if speed = 57600 then B57600
       else if speed = 115200 then B115200 else B9600)\<rparr>"

section \<open>The messages\<close>

datatype serial_kind = is_invalid | is_digital | is_channel

record serial_data =
  sdt_kind :: serial_kind
  sdt_index :: u32
  sdt_value :: u64

definition poll_digital :: "serial_port \<Rightarrow> u32 \<Rightarrow> serial_port" where
  "poll_digital f channel = tty_write f [0x40 OR ucast (channel AND 0x1f)]"

definition poll_channel :: "serial_port \<Rightarrow> u32 \<Rightarrow> serial_port" where
  "poll_channel f channel = tty_write f [0x60 OR ucast (channel AND 0x1f)]"

lemma retry_shorter: "tty_retry k rx = (Some ch, rx') \<Longrightarrow> length rx' < length rx"
  by (induction k rx rule: tty_retry.induct) auto

lemma retry_not_longer: "tty_retry k rx = (r, rx') \<Longrightarrow> length rx' \<le> length rx"
  by (induction k rx rule: tty_retry.induct) auto

lemma read_shorter: "tty_read f timeout = (Some ch, f') \<Longrightarrow> length (port_rx f') < length (port_rx f)"
  by (auto simp: tty_read_def Let_def retry_shorter split: if_splits list.splits prod.splits)

lemma read_not_longer: "tty_read f timeout = (r, f') \<Longrightarrow> length (port_rx f') \<le> length (port_rx f)"
  by (auto simp: tty_read_def Let_def dest: retry_not_longer split: if_splits list.splits prod.splits)

definition serial_last :: "bool \<Rightarrow> u8 \<Rightarrow> serial_data \<Rightarrow> serial_data" where
  "serial_last first data result =
     (if first then
        if drop_bit 5 data AND 3 = 0 then result\<lparr>sdt_value := 0, sdt_kind := is_digital\<rparr>
        else if drop_bit 5 data AND 3 = 1 then result\<lparr>sdt_value := 1, sdt_kind := is_digital\<rparr>
        else result
      else result\<lparr>sdt_value := push_bit 2 (sdt_value result) OR ucast (drop_bit 5 (data AND 0x60)),
                  sdt_kind := is_channel\<rparr>)
     \<lparr>sdt_index := ucast (data AND 0x1f)\<rparr>"

function serial_read_loop :: "serial_port \<Rightarrow> int \<Rightarrow> bool \<Rightarrow> serial_data \<Rightarrow> serial_data \<times> serial_port" where
  "serial_read_loop f timeout first result =
     (case tty_read f timeout of
        (None, f) \<Rightarrow> (result, f)
      | (Some data, f) \<Rightarrow>
          if data AND 0x80 \<noteq> 0
          then serial_read_loop f timeout False
                 (result\<lparr>sdt_value := push_bit 7 (sdt_value result) OR ucast (data AND 0x7f)\<rparr>)
          else (serial_last first data result, f))"
  by auto
termination
  by (relation "measure (\<lambda>(f, _, _, _). length (port_rx f))") (auto dest: read_shorter[OF sym])

declare serial_read_loop.simps [simp del]

definition serial_read :: "serial_port \<Rightarrow> int \<Rightarrow> serial_data \<times> serial_port" where
  "serial_read f timeout =
     serial_read_loop f timeout True \<lparr>sdt_kind = is_invalid, sdt_index = 0, sdt_value = 0\<rparr>"

text \<open>What \<open>serial_write\<close> sends.\<close>

definition serial_bytes :: "serial_data \<Rightarrow> u8 list" where
  "serial_bytes d =
     (let value = sdt_value d; index = ucast (sdt_index d AND 0x1f) in
      if sdt_kind d = is_digital then [ucast (push_bit 5 value AND 0x20) OR index]
      else
        (if value \<ge> 2 ^ 30 then [0x80 OR ucast (drop_bit 30 value AND 0x03)] else []) @
        (if value \<ge> 2 ^ 23 then [0x80 OR ucast (drop_bit 23 value AND 0x7f)] else []) @
        (if value \<ge> 2 ^ 16 then [0x80 OR ucast (drop_bit 16 value AND 0x7f)] else []) @
        (if value \<ge> 2 ^ 9 then [0x80 OR ucast (drop_bit 9 value AND 0x7f)] else []) @
        [0x80 OR ucast (drop_bit 2 value AND 0x7f), ucast (push_bit 5 value AND 0x60) OR index])"

definition serial_write :: "serial_port \<Rightarrow> serial_data \<Rightarrow> serial_port" where
  "serial_write f d = tty_write f (serial_bytes d)"

lemma serial_last_kind: "\<not> first \<Longrightarrow> sdt_kind (serial_last first data r) = is_channel"
  by (simp add: serial_last_def)

lemma serial_read_loop_shorter:
  "serial_read_loop f timeout first r = (d, f') \<Longrightarrow> sdt_kind r = is_invalid \<Longrightarrow> sdt_kind d \<noteq> is_invalid \<Longrightarrow>
    length (port_rx f') < length (port_rx f)"
proof (induction f timeout first r rule: serial_read_loop.induct)
  case (1 f timeout first r)
  obtain a f1 where read: "tty_read f timeout = (a, f1)" by fastforce
  with 1 show ?case
  proof (cases a)
    case (Some ch)
    then have "length (port_rx f1) < length (port_rx f)" using read_shorter read by simp
    then show ?thesis
      using 1 read Some by (subst (asm) (2) serial_read_loop.simps) (fastforce split: if_splits)
  qed (use 1 read in \<open>auto simp: serial_read_loop.simps\<close>)
qed

lemma serial_read_shorter:
  "serial_read f timeout = (d, f') \<Longrightarrow> sdt_kind d \<noteq> is_invalid \<Longrightarrow> length (port_rx f') < length (port_rx f)"
  unfolding serial_read_def by (erule serial_read_loop_shorter) simp_all

section \<open>Instructions\<close>

record serial2002_range_table =
  rt_length :: u32
  rt_range :: comedi_krange

record serial2002_private =
  sp_port :: u32
  sp_speed :: u32
  sp_tty :: tty
  sp_ao_readback :: "lsampl_t list"
  digital_in_mapping :: "u8 list"
  digital_out_mapping :: "u8 list"
  analog_in_mapping :: "u8 list"
  analog_out_mapping :: "u8 list"
  encoder_in_mapping :: "u8 list"
  sp_in_range :: "serial2002_range_table list"
  sp_out_range :: "serial2002_range_table list"

type_synonym serial_dev = "(serial2002_private, serial_port) comedi_device"

text \<open>Messages of the wanted kind for other channels are skipped.\<close>

function awaited :: "bool \<Rightarrow> u32 \<Rightarrow> serial_port \<Rightarrow> serial_data \<times> serial_port" where
  "awaited digital chan f =
     (case serial_read f 1000 of (read, f) \<Rightarrow>
        if sdt_kind read \<noteq> (if digital then is_digital else is_channel) \<or> sdt_index read = chan then (read, f)
        else awaited digital chan f)"
  by auto
termination
  by (relation "measure (\<lambda>(_, _, f). length (port_rx f))") (auto intro!: serial_read_shorter dest: sym split: if_splits)

declare awaited.simps [simp del]

fun serial_read_samples ::
  "(serial_port \<Rightarrow> u32 \<Rightarrow> serial_port) \<Rightarrow> bool \<Rightarrow> u32 \<Rightarrow> nat \<Rightarrow> nat \<Rightarrow> serial_port \<Rightarrow> lsampl_t list \<Rightarrow>
    (serial_port \<times> lsampl_t list) option" where
  "serial_read_samples poll digital chan n 0 f data = Some (f, data)"
| "serial_read_samples poll digital chan n (Suc k) f data =
     (case awaited digital chan (poll f chan) of (read, f) \<Rightarrow> do {
        data \<leftarrow> store_nth data n (ucast (sdt_value read));
        serial_read_samples poll digital chan (Suc n) k f data
      })"

definition serial_rinsn ::
  "(serial_port \<Rightarrow> u32 \<Rightarrow> serial_port) \<Rightarrow> bool \<Rightarrow> (serial2002_private \<Rightarrow> u8 list) \<Rightarrow> serial_dev \<Rightarrow> nat \<Rightarrow>
    comedi_insn \<Rightarrow> lsampl_t list \<Rightarrow> (serial2002_private, serial_port) insn_result" where
  "serial_rinsn poll digital mapping dev i insn data =
     do {
       devpriv \<leftarrow> dv_private dev;
       chan \<leftarrow> load_nth (mapping devpriv) (unat (CR_CHAN (insn_chanspec insn)));
       if insn_n insn \<noteq> 0 \<and> sp_tty devpriv \<noteq> Tty_open then None
       else do {
         (f, data) \<leftarrow> serial_read_samples poll digital (ucast chan) 0 (unat (insn_n insn)) (dv_hw dev) data;
         Some (sint (insn_n insn), dev\<lparr>dv_hw := f\<rparr>, insn, data)
       }
     }"

definition serial2002_di_rinsn ::
  "serial_dev \<Rightarrow> nat \<Rightarrow> comedi_insn \<Rightarrow> lsampl_t list \<Rightarrow> (serial2002_private, serial_port) insn_result" where
  "serial2002_di_rinsn = serial_rinsn poll_digital True digital_in_mapping"

definition serial2002_ai_rinsn ::
  "serial_dev \<Rightarrow> nat \<Rightarrow> comedi_insn \<Rightarrow> lsampl_t list \<Rightarrow> (serial2002_private, serial_port) insn_result" where
  "serial2002_ai_rinsn = serial_rinsn poll_channel False analog_in_mapping"

definition serial2002_ei_rinsn ::
  "serial_dev \<Rightarrow> nat \<Rightarrow> comedi_insn \<Rightarrow> lsampl_t list \<Rightarrow> (serial2002_private, serial_port) insn_result" where
  "serial2002_ei_rinsn = serial_rinsn poll_channel False encoder_in_mapping"

fun serial_write_samples ::
  "serial_kind \<Rightarrow> u32 \<Rightarrow> nat \<Rightarrow> nat \<Rightarrow> serial_port \<Rightarrow> lsampl_t list \<Rightarrow> serial_port option" where
  "serial_write_samples kind chan n 0 f data = Some f"
| "serial_write_samples kind chan n (Suc k) f data =
     do {
       d \<leftarrow> load_nth data n;
       serial_write_samples kind chan (Suc n) k
         (serial_write f \<lparr>sdt_kind = kind, sdt_index = chan, sdt_value = ucast d\<rparr>) data
     }"

definition serial2002_do_winsn ::
  "serial_dev \<Rightarrow> nat \<Rightarrow> comedi_insn \<Rightarrow> lsampl_t list \<Rightarrow> (serial2002_private, serial_port) insn_result" where
  "serial2002_do_winsn dev i insn data =
     do {
       devpriv \<leftarrow> dv_private dev;
       chan \<leftarrow> load_nth (digital_out_mapping devpriv) (unat (CR_CHAN (insn_chanspec insn)));
       if insn_n insn \<noteq> 0 \<and> sp_tty devpriv \<noteq> Tty_open then None
       else do {
         f \<leftarrow> serial_write_samples is_digital (ucast chan) 0 (unat (insn_n insn)) (dv_hw dev) data;
         Some (sint (insn_n insn), dev\<lparr>dv_hw := f\<rparr>, insn, data)
       }
     }"

text \<open>The samples are remembered at the number that the channel has on the board.\<close>

fun remember :: "nat \<Rightarrow> nat \<Rightarrow> nat \<Rightarrow> lsampl_t list \<Rightarrow> lsampl_t list \<Rightarrow> lsampl_t list option" where
  "remember chan n 0 data readback = Some readback"
| "remember chan n (Suc k) data readback =
     do {
       d \<leftarrow> load_nth data n;
       readback \<leftarrow> store_nth readback chan d;
       remember chan (Suc n) k data readback
     }"

definition serial2002_ao_winsn ::
  "serial_dev \<Rightarrow> nat \<Rightarrow> comedi_insn \<Rightarrow> lsampl_t list \<Rightarrow> (serial2002_private, serial_port) insn_result" where
  "serial2002_ao_winsn dev i insn data =
     do {
       devpriv \<leftarrow> dv_private dev;
       chan \<leftarrow> load_nth (analog_out_mapping devpriv) (unat (CR_CHAN (insn_chanspec insn)));
       if insn_n insn \<noteq> 0 \<and> sp_tty devpriv \<noteq> Tty_open then None
       else do {
         f \<leftarrow> serial_write_samples is_channel (ucast chan) 0 (unat (insn_n insn)) (dv_hw dev) data;
         readback \<leftarrow> remember (unat chan) 0 (unat (insn_n insn)) data (sp_ao_readback devpriv);
         Some (sint (insn_n insn),
           dev\<lparr>dv_hw := f, dv_private := Some (devpriv\<lparr>sp_ao_readback := readback\<rparr>)\<rparr>, insn, data)
       }
     }"

fun recall :: "nat \<Rightarrow> nat \<Rightarrow> nat \<Rightarrow> lsampl_t list \<Rightarrow> lsampl_t list \<Rightarrow> lsampl_t list option" where
  "recall chan n 0 readback data = Some data"
| "recall chan n (Suc k) readback data =
     do {
       d \<leftarrow> load_nth readback chan;
       data \<leftarrow> store_nth data n d;
       recall chan (Suc n) k readback data
     }"

definition serial2002_ao_rinsn ::
  "serial_dev \<Rightarrow> nat \<Rightarrow> comedi_insn \<Rightarrow> lsampl_t list \<Rightarrow> (serial2002_private, serial_port) insn_result" where
  "serial2002_ao_rinsn dev i insn data =
     do {
       devpriv \<leftarrow> dv_private dev;
       data \<leftarrow> recall (unat (CR_CHAN (insn_chanspec insn))) 0 (unat (insn_n insn)) (sp_ao_readback devpriv) data;
       Some (sint (insn_n insn), dev, insn, data)
     }"

section \<open>Opening the line\<close>

record config_t =
  cfg_kind :: u16
  cfg_bits :: u16
  cfg_min :: u32
  cfg_max :: u32

text \<open>The four tables of 32 channels, cleared by \<open>kcalloc\<close>.\<close>

record config_tables =
  dig_in_config :: "config_t list"
  dig_out_config :: "config_t list"
  chan_in_config :: "config_t list"
  chan_out_config :: "config_t list"

definition no_config :: "config_t list" where
  "no_config = replicate 32 \<lparr>cfg_kind = 0, cfg_bits = 0, cfg_min = 0, cfg_max = 0\<rparr>"

definition no_configs :: config_tables where
  "no_configs = \<lparr>dig_in_config = no_config, dig_out_config = no_config,
     chan_in_config = no_config, chan_out_config = no_config\<rparr>"

text \<open>A limit of a range: its unit, its sign and its absolute value.\<close>

definition config_limit :: "u64 \<Rightarrow> u32" where
  "config_limit value =
     (let unit = drop_bit 10 value AND 0x7; sign = drop_bit 13 value AND 0x1;
          lim = ucast (drop_bit 14 value AND 0xfffff);
          lim = (if unit = 0 then lim * 1000000 else if unit = 1 then lim * 1000 else lim)
      in if sign \<noteq> 0 then - lim else lim)"

definition config_entry :: "u64 \<Rightarrow> config_t \<Rightarrow> config_t" where
  "config_entry value c =
     (let command = drop_bit 8 value AND 0x3;
          c = c\<lparr>cfg_kind := ucast (drop_bit 5 value AND 0x7)\<rparr>
      in if command = 0 then c\<lparr>cfg_bits := ucast (drop_bit 10 value AND 0x3f)\<rparr>
         else if command = 1 then c\<lparr>cfg_min := config_limit value\<rparr>
         else if command = 2 then c\<lparr>cfg_max := config_limit value\<rparr>
         else c)"

definition configure :: "u64 \<Rightarrow> config_tables \<Rightarrow> config_tables" where
  "configure value t =
     (let channel = unat (value AND 0x1f); kind = drop_bit 5 value AND 0x7;
          entry = (\<lambda>cs. cs[channel := config_entry value (cs ! channel)])
      in if kind = 1 then t\<lparr>dig_in_config := entry (dig_in_config t)\<rparr>
         else if kind = 2 then t\<lparr>dig_out_config := entry (dig_out_config t)\<rparr>
         else if kind = 3 \<or> kind = 5 then t\<lparr>chan_in_config := entry (chan_in_config t)\<rparr>
         else if kind = 4 then t\<lparr>chan_out_config := entry (chan_out_config t)\<rparr>
         else t)"

function read_configs :: "serial_port \<Rightarrow> config_tables \<Rightarrow> config_tables \<times> serial_port" where
  "read_configs f t =
     (case serial_read f 1000 of (data, f) \<Rightarrow>
        if sdt_kind data \<noteq> is_channel \<or> sdt_index data \<noteq> 31 \<or> sdt_value data AND 0xe0 = 0 then (t, f)
        else read_configs f (configure (sdt_value data) t))"
  by auto
termination
  by (relation "measure (\<lambda>(f, _). length (port_rx f))") (auto intro!: serial_read_shorter dest: sym)

declare read_configs.simps [simp del]

text \<open>Subdevice \<open>i\<close> takes the channels of kind \<open>i + 1\<close>.\<close>

definition subd_config :: "nat \<Rightarrow> config_tables \<Rightarrow> config_t list" where
  "subd_config i t = (if i = 0 then dig_in_config t else if i = 1 then dig_out_config t
     else if i = 3 then chan_out_config t else chan_in_config t)"

definition channels_of_kind :: "nat \<Rightarrow> config_t list \<Rightarrow> nat list" where
  "channels_of_kind kind c = filter (\<lambda>j. cfg_kind (c ! j) = of_nat kind) [0..<32]"

definition set_mapping :: "nat \<Rightarrow> nat list \<Rightarrow> serial2002_private \<Rightarrow> serial2002_private" where
  "set_mapping i js p =
     (let put = (\<lambda>mapping. map of_nat js @ drop (length js) mapping) in
      if i = 0 then p\<lparr>digital_in_mapping := put (digital_in_mapping p)\<rparr>
      else if i = 1 then p\<lparr>digital_out_mapping := put (digital_out_mapping p)\<rparr>
      else if i = 2 then p\<lparr>analog_in_mapping := put (analog_in_mapping p)\<rparr>
      else if i = 3 then p\<lparr>analog_out_mapping := put (analog_out_mapping p)\<rparr>
      else p\<lparr>encoder_in_mapping := put (encoder_in_mapping p)\<rparr>)"

definition range_entry :: "config_t \<Rightarrow> serial2002_range_table \<Rightarrow> serial2002_range_table" where
  "range_entry c r = \<lparr>rt_length = 1, rt_range = (rt_range r)\<lparr>kr_min := cfg_min c, kr_max := cfg_max c\<rparr>\<rparr>"

definition set_ranges ::
  "config_t list \<Rightarrow> nat list \<Rightarrow> serial2002_range_table list \<Rightarrow> serial2002_range_table list" where
  "set_ranges c js rs = fold (\<lambda>j rs. rs[j := range_entry (c ! j) (rs ! j)]) js rs"

definition as_lrange :: "serial2002_range_table \<Rightarrow> comedi_lrange" where
  "as_lrange r = \<lparr>lr_length = rt_length r, lr_range = [rt_range r]\<rparr>"

definition config_maxdata :: "config_t \<Rightarrow> lsampl_t" where
  "config_maxdata c = ucast (push_bit (unat (cfg_bits c)) (1 :: u64) - 1)"

definition fill_subd :: "config_tables \<Rightarrow> nat \<Rightarrow> serial_dev \<Rightarrow> (bool \<times> serial_dev) option" where
  "fill_subd t i dev =
     do {
       s \<leftarrow> subd dev i;
       devpriv \<leftarrow> dv_private dev;
       let c = subd_config i t; js = channels_of_kind (i + 1) c;
           s = s\<lparr>sd_n_chan := of_nat (length js), sd_maxdata := 0, sd_maxdata_list := None\<rparr>
       in
       if \<not> mem_maxdata (dv_hw dev) i then Some (False, set_subd i s dev)
       else
         let s = s\<lparr>sd_range_table := None, sd_range_table_list := None\<rparr> in
         if i = 0 \<or> i = 1 then
           Some (True, set_subd i (s\<lparr>sd_range_table := Some range_digital,
             sd_maxdata_list := Some (map (\<lambda>j. config_maxdata (c ! j)) js)\<rparr>)
               (dev\<lparr>dv_private := Some (set_mapping i js devpriv)\<rparr>))
         else if \<not> mem_ranges (dv_hw dev) i then Some (False, set_subd i s dev)
         else
           let rs = set_ranges c js (if i = 3 then sp_out_range devpriv else sp_in_range devpriv) in
           Some (True, set_subd i (s\<lparr>sd_range_table_list := Some (map (\<lambda>j. as_lrange (rs ! j)) js),
             sd_maxdata_list := Some (map (\<lambda>j. config_maxdata (c ! j)) js)\<rparr>)
               (dev\<lparr>dv_private := Some ((set_mapping i js devpriv)
                  \<lparr>sp_out_range := if i = 3 then rs else sp_out_range devpriv,
                   sp_in_range := if i = 3 then sp_in_range devpriv else rs\<rparr>)\<rparr>))
     }"

fun fill_subds :: "config_tables \<Rightarrow> nat list \<Rightarrow> serial_dev \<Rightarrow> (bool \<times> serial_dev) option" where
  "fill_subds t [] dev = Some (True, dev)"
| "fill_subds t (i # is) dev =
     do { (ok, dev) \<leftarrow> fill_subd t i dev; if ok then fill_subds t is dev else Some (False, dev) }"

fun free_lists :: "nat list \<Rightarrow> serial_dev \<Rightarrow> serial_dev option" where
  "free_lists [] dev = Some dev"
| "free_lists (i # is) dev =
     do {
       s \<leftarrow> subd dev i;
       free_lists is (set_subd i (s\<lparr>sd_maxdata_list := None, sd_range_table_list := None\<rparr>) dev)
     }"

definition serial_2002_open :: "serial_dev \<Rightarrow> (int \<times> serial_dev) option" where
  "serial_2002_open dev =
     do {
       devpriv \<leftarrow> dv_private dev;
       case port_open_error (dv_hw dev) of
         Some e \<Rightarrow> Some (e, dev\<lparr>dv_private := Some (devpriv\<lparr>sp_tty := Tty_error e\<rparr>)\<rparr>)
       | None \<Rightarrow>
           if \<not> mem_configs (dv_hw dev)
           then Some (- ENOMEM, dev\<lparr>dv_private := Some (devpriv\<lparr>sp_tty := Tty_null\<rparr>)\<rparr>)
           else
             case read_configs (poll_channel (tty_setspeed (dv_hw dev) (sp_speed devpriv)) 31) no_configs of (t, f) \<Rightarrow>
             do {
               (ok, dev) \<leftarrow> fill_subds t [0, 1, 2, 3, 4]
                  (dev\<lparr>dv_hw := f, dv_private := Some (devpriv\<lparr>sp_tty := Tty_open\<rparr>)\<rparr>);
               if ok then Some (0, dev)
               else do {
                 dev \<leftarrow> free_lists [0, 1, 2, 3, 4] dev;
                 Some (- ENOMEM, dev\<lparr>dv_private := map_option (\<lambda>p. p\<lparr>sp_tty := Tty_null\<rparr>) (dv_private dev)\<rparr>)
               }
             }
     }"

definition serial_2002_close :: "serial_dev \<Rightarrow> serial_dev option" where
  "serial_2002_close dev =
     do {
       devpriv \<leftarrow> dv_private dev;
       Some (if sp_tty devpriv = Tty_open then dev\<lparr>dv_private := Some (devpriv\<lparr>sp_tty := Tty_null\<rparr>)\<rparr> else dev)
     }"

section \<open>Attaching\<close>

definition di_rinsn_fn :: fnptr where "di_rinsn_fn = 0"
definition do_winsn_fn :: fnptr where "do_winsn_fn = 1"
definition ai_rinsn_fn :: fnptr where "ai_rinsn_fn = 2"
definition ao_winsn_fn :: fnptr where "ao_winsn_fn = 3"
definition ao_rinsn_fn :: fnptr where "ao_rinsn_fn = 4"
definition ei_rinsn_fn :: fnptr where "ei_rinsn_fn = 5"
definition serial_open_fn :: fnptr where "serial_open_fn = 6"
definition serial_close_fn :: fnptr where "serial_close_fn = 7"

definition zero_serial_private :: serial2002_private where
  "zero_serial_private =
     (let rs = replicate 32 \<lparr>rt_length = 0, rt_range = \<lparr>kr_min = 0, kr_max = 0, kr_flags = 0\<rparr>\<rparr> in
      \<lparr>sp_port = 0, sp_speed = 0, sp_tty = Tty_null, sp_ao_readback = replicate 32 0,
       digital_in_mapping = replicate 32 0, digital_out_mapping = replicate 32 0,
       analog_in_mapping = replicate 32 0, analog_out_mapping = replicate 32 0,
       encoder_in_mapping = replicate 32 0, sp_in_range = rs, sp_out_range = rs\<rparr>)"

definition serial2002_subds :: "serial2002_private comedi_subdevice list \<Rightarrow> serial2002_private comedi_subdevice list" where
  "serial2002_subds ss =
     [(ss ! 0)\<lparr>sd_type := COMEDI_SUBD_DI, sd_subdev_flags := SDF_READABLE, sd_n_chan := 0, sd_maxdata := 1,
        sd_range_table := Some range_digital, sd_insn_read := Some (Insn_driver di_rinsn_fn)\<rparr>,
      (ss ! 1)\<lparr>sd_type := COMEDI_SUBD_DO, sd_subdev_flags := SDF_WRITABLE, sd_n_chan := 0, sd_maxdata := 1,
        sd_range_table := Some range_digital, sd_insn_write := Some (Insn_driver do_winsn_fn)\<rparr>,
      (ss ! 2)\<lparr>sd_type := COMEDI_SUBD_AI, sd_subdev_flags := SDF_READABLE OR SDF_GROUND, sd_n_chan := 0,
        sd_maxdata := 1, sd_range_table := None, sd_insn_read := Some (Insn_driver ai_rinsn_fn)\<rparr>,
      (ss ! 3)\<lparr>sd_type := COMEDI_SUBD_AO, sd_subdev_flags := SDF_WRITABLE, sd_n_chan := 0, sd_maxdata := 1,
        sd_range_table := None, sd_insn_write := Some (Insn_driver ao_winsn_fn),
        sd_insn_read := Some (Insn_driver ao_rinsn_fn)\<rparr>,
      (ss ! 4)\<lparr>sd_type := COMEDI_SUBD_COUNTER, sd_subdev_flags := SDF_READABLE OR SDF_LSAMPL, sd_n_chan := 0,
        sd_maxdata := 1, sd_range_table := None, sd_insn_read := Some (Insn_driver ei_rinsn_fn)\<rparr>]"

definition serial2002_attach :: "serial_dev \<Rightarrow> comedi_devconfig \<Rightarrow> (int \<times> serial_dev) option" where
  "serial2002_attach dev it =
     (case alloc_private (if mem_private (dv_hw dev) then Some zero_serial_private else None)
         (dev\<lparr>dv_board_name := Some ''serial2002''\<rparr>) of (ret, dev) \<Rightarrow>
      if ret < 0 then Some (- ENOMEM, dev)
      else do {
        devpriv \<leftarrow> dv_private dev;
        port \<leftarrow> load_nth (dc_options it) 0;
        speed \<leftarrow> load_nth (dc_options it) 1;
        let dev = dev\<lparr>dv_open := Some serial_open_fn, dv_close := Some serial_close_fn,
              dv_private := Some (devpriv\<lparr>sp_port := port, sp_speed := speed\<rparr>)\<rparr> in
        case alloc_subdevices (mem_subdevices (dv_hw dev)) dev 5 of (ret, dev) \<Rightarrow>
        if ret < 0 then Some (- ENOMEM, dev)
        else Some (1, dev\<lparr>dv_subdevices := serial2002_subds (dv_subdevices dev)\<rparr>)
      })"

text \<open>The lists are freed, but the pointers stay.\<close>

definition serial2002_detach :: "serial_dev \<Rightarrow> (int \<times> serial_dev) option" where
  "serial2002_detach dev = (if length (dv_subdevices dev) < 5 then None else Some (0, dev))"

definition ops_serial2002 :: "(serial2002_private, serial_port) driver_ops" where
  "ops_serial2002 = \<lparr>
     op_insn = (\<lambda>f dev i insn data.
       if f = di_rinsn_fn then serial2002_di_rinsn dev i insn data
       else if f = do_winsn_fn then serial2002_do_winsn dev i insn data
       else if f = ai_rinsn_fn then serial2002_ai_rinsn dev i insn data
       else if f = ao_winsn_fn then serial2002_ao_winsn dev i insn data
       else if f = ao_rinsn_fn then serial2002_ao_rinsn dev i insn data
       else if f = ei_rinsn_fn then serial2002_ei_rinsn dev i insn data else None),
     op_do_cmd = (\<lambda>_ _ _. None), op_do_cmdtest = (\<lambda>_ _ _ _. None), op_poll = (\<lambda>_ _ _. None),
     op_cancel = (\<lambda>_ _ _. None), op_buf_change = (\<lambda>_ _ _ _. None), op_munge = (\<lambda>_ _ _ bs _. bs),
     op_inttrig = (\<lambda>_ _ _ _. None), op_attach = (\<lambda>_. serial2002_attach), op_detach = (\<lambda>_. serial2002_detach),
     op_open = (\<lambda>_. serial_2002_open), op_close = (\<lambda>_. serial_2002_close)\<rparr>"

end
