(* ===== verification/Serial_Properties.thy ===== *)
theory Serial_Properties
  imports Serial_2002
begin

text \<open>
  The protocol of \<open>serial2002.c\<close>: what \<open>serial_write\<close> sends is read back as the same message, and an input
  instruction yields the answer for its own channel. An abstract line carries messages: \<open>hears f ds rest\<close>.
\<close>

unbundle bit_operations_syntax

section \<open>Bits\<close>

lemma bit_bound: "v < 2 ^ k \<Longrightarrow> bit v n \<Longrightarrow> n < k" for v :: "'a::len word"
  by (metis bit_and_iff bit_mask_iff less_mask_eq)

lemma bit_masks:
  "bit (0x1f :: 'a::len word) n \<longleftrightarrow> n < LENGTH('a) \<and> n < 5"
  "bit (0x7f :: 'a::len word) n \<longleftrightarrow> n < LENGTH('a) \<and> n < 7"
  "bit (0x03 :: 'a::len word) n \<longleftrightarrow> n < LENGTH('a) \<and> n < 2"
  "bit (0x80 :: 'a::len word) n \<longleftrightarrow> n < LENGTH('a) \<and> n = 7"
  "bit (0x60 :: 'a::len word) n \<longleftrightarrow> n < LENGTH('a) \<and> (n = 5 \<or> n = 6)"
  "bit (0x20 :: 'a::len word) n \<longleftrightarrow> n < LENGTH('a) \<and> n = 5"
proof -
  have "(0x1f :: 'a word) = mask 5" "(0x7f :: 'a word) = mask 7" "(0x03 :: 'a word) = mask 2"
    "(0x80 :: 'a word) = push_bit 7 (mask 1)" "(0x60 :: 'a word) = push_bit 5 (mask 2)"
    "(0x20 :: 'a word) = push_bit 5 (mask 1)"
    by (simp_all add: mask_eq_exp_minus_1 push_bit_eq_mult)
  then show "bit (0x1f :: 'a word) n \<longleftrightarrow> n < LENGTH('a) \<and> n < 5" "bit (0x7f :: 'a word) n \<longleftrightarrow> n < LENGTH('a) \<and> n < 7"
    "bit (0x03 :: 'a word) n \<longleftrightarrow> n < LENGTH('a) \<and> n < 2" "bit (0x80 :: 'a word) n \<longleftrightarrow> n < LENGTH('a) \<and> n = 7"
    "bit (0x60 :: 'a word) n \<longleftrightarrow> n < LENGTH('a) \<and> (n = 5 \<or> n = 6)" "bit (0x20 :: 'a word) n \<longleftrightarrow> n < LENGTH('a) \<and> n = 5"
    by (simp_all only: bit_mask_iff bit_push_bit_iff possible_bit_word) auto
qed

lemmas byte_bits = bit_and_iff bit_or_iff bit_push_bit_iff bit_drop_bit_eq bit_ucast_iff bit_masks possible_bit_word o_apply

lemma continued: "(0x80 OR b :: u8) AND 0x80 \<noteq> 0"
proof
  assume "(0x80 OR b) AND 0x80 = 0"
  then have "\<not> bit ((0x80 OR b) AND 0x80) 7" by simp
  then show False by (simp only: byte_bits) simp
qed

text \<open>Seven more bits of the value, and the two in the last byte.\<close>

lemma next_bits:
  "push_bit 7 (drop_bit (k + 7) v) OR ucast ((0x80 OR ucast (drop_bit k v AND 0x7f) :: u8) AND 0x7f) = drop_bit k v"
  for v :: u64
proof (rule bit_eqI)
  fix n
  have "7 \<le> n \<Longrightarrow> k + 7 + (n - 7) = k + n" by simp
  then show "bit (push_bit 7 (drop_bit (k + 7) v) OR
      ucast ((0x80 OR ucast (drop_bit k v AND 0x7f) :: u8) AND 0x7f)) n \<longleftrightarrow> bit (drop_bit k v) n"
    by (cases "n < 7") (simp_all only: byte_bits, auto dest: bit_imp_le_length)
qed

definition last_byte :: "u64 \<Rightarrow> u32 \<Rightarrow> u8" where
  "last_byte v i = ucast (push_bit 5 v AND 0x60) OR ucast (i AND 0x1f)"

lemma bit_last_byte:
  "bit (last_byte v i) n \<longleftrightarrow> (n = 5 \<and> bit v 0) \<or> (n = 6 \<and> bit v 1) \<or> (n < 5 \<and> bit i n)"
  by (simp only: last_byte_def byte_bits) auto

lemma last_bits: "push_bit 2 (drop_bit 2 v) OR ucast (drop_bit 5 (last_byte v i AND 0x60)) = v"
proof (rule bit_eqI)
  fix n :: nat
  have "n = 0 \<or> n = 1 \<or> 2 \<le> n \<and> 2 + (n - 2) = n" by auto
  then show "bit (push_bit 2 (drop_bit 2 v) OR ucast (drop_bit 5 (last_byte v i AND 0x60))) n \<longleftrightarrow> bit v n"
    by (elim disjE) (simp_all only: byte_bits bit_last_byte, auto dest: bit_imp_le_length)
qed

lemma last_index: "i < 32 \<Longrightarrow> ucast (last_byte v i AND 0x1f) = i"
  by (rule bit_eqI, simp only: byte_bits bit_last_byte) (auto dest: bit_bound[of i 5, simplified])

lemma last_not_continued: "last_byte v i AND 0x80 = 0"
  by (rule bit_eqI, simp only: byte_bits bit_last_byte) auto

section \<open>One message\<close>

definition sendable :: "serial_data \<Rightarrow> bool" where
  "sendable d \<longleftrightarrow> sdt_index d < 32 \<and>
     (case sdt_kind d of is_invalid \<Rightarrow> False | is_digital \<Rightarrow> sdt_value d < 2 | is_channel \<Rightarrow> sdt_value d < 2 ^ 32)"

text \<open>The groups of seven bits in front of the last byte.\<close>

primrec groups :: "nat \<Rightarrow> u64 \<Rightarrow> u8 list" where
  "groups 0 v = []"
| "groups (Suc n) v = (0x80 OR ucast (drop_bit (7 * n + 2) v AND 0x7f)) # groups n v"

lemma groups_numeral:
  "groups (numeral k) v = (0x80 OR ucast (drop_bit (7 * pred_numeral k + 2) v AND 0x7f)) # groups (pred_numeral k) v"
  by (simp add: numeral_eq_Suc)

lemma tty_read_Some:
  "port_rx f = Some b # rx \<Longrightarrow> 1 < timeout \<Longrightarrow>
    \<exists>looks. tty_read f timeout = (Some b, f\<lparr>port_looks := looks, port_rx := rx\<rparr>)"
  by (cases "nat (timeout - 1)") (auto simp: tty_read_def Let_def intro: exI[of _ "port_looks f"])

lemma read_groups:
  assumes "1 < timeout" "i < 32"
  shows "port_rx f = map Some (groups n v @ [last_byte v i]) @ rx \<Longrightarrow> sdt_value r = drop_bit (7 * n + 2) v \<Longrightarrow>
    first \<longrightarrow> n \<noteq> 0 \<Longrightarrow> \<exists>looks. serial_read_loop f timeout first r =
      (\<lparr>sdt_kind = is_channel, sdt_index = i, sdt_value = v\<rparr>, f\<lparr>port_looks := looks, port_rx := rx\<rparr>)"
proof (induction n arbitrary: f first r)
  case 0
  then obtain l where "tty_read f timeout = (Some (last_byte v i), f\<lparr>port_looks := l, port_rx := rx\<rparr>)"
    using tty_read_Some[of f "last_byte v i" rx timeout] \<open>1 < timeout\<close> by auto
  moreover have "serial_last False (last_byte v i) r = \<lparr>sdt_kind = is_channel, sdt_index = i, sdt_value = v\<rparr>"
    using 0 \<open>i < 32\<close> by (cases r) (simp add: serial_last_def last_bits last_index numeral_2_eq_2[symmetric] del: drop_bit_and)
  ultimately show ?case using 0 by (auto simp: serial_read_loop.simps last_not_continued)
next
  case (Suc n)
  let ?b = "0x80 OR ucast (drop_bit (7 * n + 2) v AND 0x7f) :: u8"
  from Suc.prems obtain l where
    read: "tty_read f timeout = (Some ?b, f\<lparr>port_looks := l, port_rx := map Some (groups n v @ [last_byte v i]) @ rx\<rparr>)"
    using tty_read_Some[of f ?b _ timeout] \<open>1 < timeout\<close> by auto
  have "push_bit 7 (sdt_value r) OR ucast (?b AND 0x7f) = drop_bit (7 * n + 2) v"
    using Suc.prems next_bits[of "7 * n + 2" v] by (simp add: algebra_simps)
  then show ?case
    using Suc.IH[of "f\<lparr>port_looks := l, port_rx := map Some (groups n v @ [last_byte v i]) @ rx\<rparr>"
        "r\<lparr>sdt_value := push_bit 7 (sdt_value r) OR ucast (?b AND 0x7f)\<rparr>" False]
    by (subst serial_read_loop.simps) (simp add: read continued)
qed

lemma serial_bytes_groups:
  assumes "sdt_kind d = is_channel" "sdt_value d < 2 ^ 32"
  obtains n where "n \<noteq> 0" "sdt_value d < 2 ^ (7 * n + 2)"
    "serial_bytes d = groups n (sdt_value d) @ [last_byte (sdt_value d) (sdt_index d)]"
proof -
  let ?v = "sdt_value d"
  have "drop_bit 30 ?v AND 0x03 = drop_bit 30 ?v AND 0x7f"
    by (rule bit_eqI, simp only: byte_bits) (auto dest: bit_bound[OF assms(2)])
  moreover have mono: "2 ^ 30 \<le> ?v \<Longrightarrow> 2 ^ 23 \<le> ?v" "2 ^ 23 \<le> ?v \<Longrightarrow> 2 ^ 16 \<le> ?v" "2 ^ 16 \<le> ?v \<Longrightarrow> 2 ^ 9 \<le> ?v"
    by (auto elim: order_trans[rotated])
  ultimately have bytes: "serial_bytes d =
      (if ?v \<ge> 2 ^ 30 then groups 5 ?v else if ?v \<ge> 2 ^ 23 then groups 4 ?v else if ?v \<ge> 2 ^ 16 then groups 3 ?v
       else if ?v \<ge> 2 ^ 9 then groups 2 ?v else groups 1 ?v) @ [last_byte ?v (sdt_index d)]"
    using assms(1) by (auto simp: mono[simplified] serial_bytes_def Let_def last_byte_def groups_numeral numeral_2_eq_2)
  show ?thesis
  proof (rule that)
    show "serial_bytes d = groups (if ?v \<ge> 2 ^ 30 then 5 else if ?v \<ge> 2 ^ 23 then 4 else if ?v \<ge> 2 ^ 16 then 3
       else if ?v \<ge> 2 ^ 9 then 2 else 1) ?v @ [last_byte ?v (sdt_index d)]"
      by (simp add: bytes)
  qed (use assms(2) in \<open>auto simp: not_le elim: order_less_trans\<close>)
qed

lemma serial_read_message:
  assumes "port_rx f = map Some (serial_bytes d) @ rx" and "sendable d" and "1 < timeout"
  shows "\<exists>looks. serial_read f timeout = (d, f\<lparr>port_looks := looks, port_rx := rx\<rparr>)"
proof (cases "sdt_kind d")
  case is_channel
  then have v: "sdt_value d < 2 ^ 32" and i: "sdt_index d < 32" using assms(2) by (simp_all add: sendable_def)
  obtain n where n: "n \<noteq> 0" "sdt_value d < 2 ^ (7 * n + 2)"
    "serial_bytes d = groups n (sdt_value d) @ [last_byte (sdt_value d) (sdt_index d)]"
    using serial_bytes_groups[OF is_channel v] .
  have "drop_bit (7 * n + 2) (sdt_value d) = 0" using n(2) by (simp add: drop_bit_eq_div div_word_less)
  moreover have "d = \<lparr>sdt_kind = is_channel, sdt_index = sdt_index d, sdt_value = sdt_value d\<rparr>"
    using is_channel by (cases d) simp
  ultimately show ?thesis
    using read_groups[OF \<open>1 < timeout\<close> i, of f n "sdt_value d" rx] n assms(1) by (simp add: serial_read_def)
next
  case is_digital
  then have d: "sdt_value d < 2" "sdt_index d < 32" using assms(2) by (simp_all add: sendable_def)
  let ?b = "ucast (push_bit 5 (sdt_value d) AND 0x20) OR ucast (sdt_index d AND 0x1f) :: u8"
  have bit_b: "bit ?b n \<longleftrightarrow> (n = 5 \<and> bit (sdt_value d) 0) \<or> (n < 5 \<and> bit (sdt_index d) n)" for n
    by (simp only: byte_bits) auto
  obtain l where read: "tty_read f timeout = (Some ?b, f\<lparr>port_looks := l, port_rx := rx\<rparr>)"
    using tty_read_Some[of f ?b rx timeout] assms(1,3) is_digital by (auto simp: serial_bytes_def)
  have more: "?b AND 0x80 = 0" by (rule bit_eqI, simp only: byte_bits bit_b) auto
  have index: "ucast (?b AND 0x1f) = sdt_index d"
    by (rule bit_eqI, simp only: byte_bits bit_b) (auto dest: bit_bound[of "sdt_index d" 5, simplified, OF d(2)])
  have "drop_bit 5 ?b AND 3 = ucast (sdt_value d)"
    by (rule bit_eqI, simp only: byte_bits bit_b) (auto dest: bit_bound[of "sdt_value d" 1, simplified, OF d(1)])
  moreover have "sdt_value d = 0 \<or> sdt_value d = 1"
    using d(1) by unat_arith
  ultimately show ?thesis
    using read more index is_digital
    by (cases d) (auto simp: serial_read_def serial_read_loop.simps serial_last_def simp del: drop_bit_and)
qed (use assms in \<open>simp add: sendable_def\<close>)

section \<open>Sequences of messages\<close>

definition line_of :: "serial_data list \<Rightarrow> u8 option list" where
  "line_of ds = map Some (concat (map serial_bytes ds))"

lemma line_of_simps [simp]:
  "line_of [] = []" "line_of (d # ds) = map Some (serial_bytes d) @ line_of ds" "line_of (ds @ es) = line_of ds @ line_of es"
  by (simp_all add: line_of_def)

fun hear :: "nat \<Rightarrow> serial_port \<Rightarrow> int \<Rightarrow> serial_data list \<times> serial_port" where
  "hear 0 f timeout = ([], f)"
| "hear (Suc k) f timeout =
     (case serial_read f timeout of (d, f) \<Rightarrow> case hear k f timeout of (ds, f) \<Rightarrow> (d # ds, f))"

lemma hear_line:
  "port_rx f = line_of ds @ rx \<Longrightarrow> list_all sendable ds \<Longrightarrow> 1 < timeout \<Longrightarrow>
    \<exists>looks. hear (length ds) f timeout = (ds, f\<lparr>port_looks := looks, port_rx := rx\<rparr>)"
proof (induction ds arbitrary: f)
  case Nil
  then show ?case by (auto intro: exI[of _ "port_looks f"])
next
  case (Cons d ds)
  then obtain l where "serial_read f timeout = (d, f\<lparr>port_looks := l, port_rx := line_of ds @ rx\<rparr>)"
    using serial_read_message[of f d "line_of ds @ rx" timeout] by auto
  then show ?case using Cons.IH[of "f\<lparr>port_looks := l, port_rx := line_of ds @ rx\<rparr>"] Cons.prems by auto
qed

lemma tx_of_writes: "port_tx (fold (\<lambda>d g. serial_write g d) ds g) = port_tx g @ concat (map serial_bytes ds)"
  by (induction ds arbitrary: g) (simp_all add: serial_write_def tty_write_def)

lemma awaited_answer:
  assumes "sendable d" and "sdt_kind d = (if digital then is_digital else is_channel)"
  shows "port_rx f = line_of ds @ map Some (serial_bytes d) @ rx \<Longrightarrow> list_all sendable ds \<Longrightarrow>
    list_all (\<lambda>e. sdt_kind e = sdt_kind d \<and> sdt_index e \<noteq> sdt_index d) ds \<Longrightarrow>
    \<exists>looks. awaited digital (sdt_index d) f = (d, f\<lparr>port_looks := looks, port_rx := rx\<rparr>)"
proof (induction ds arbitrary: f)
  case Nil
  then show ?case using serial_read_message[of f d rx 1000] assms by (subst awaited.simps) auto
next
  case (Cons e ds)
  then obtain l where
    "serial_read f 1000 = (e, f\<lparr>port_looks := l, port_rx := line_of ds @ map Some (serial_bytes d) @ rx\<rparr>)"
    using serial_read_message[of f e "line_of ds @ map Some (serial_bytes d) @ rx" 1000] by auto
  then show ?case
    using Cons.IH[of "f\<lparr>port_looks := l, port_rx := line_of ds @ map Some (serial_bytes d) @ rx\<rparr>"] Cons.prems assms(2)
    by (subst awaited.simps) auto
qed

section \<open>Opening\<close>

definition mapping_of :: "nat \<Rightarrow> serial2002_private \<Rightarrow> u8 list" where
  "mapping_of i p = (if i = 0 then digital_in_mapping p else if i = 1 then digital_out_mapping p
     else if i = 2 then analog_in_mapping p else if i = 3 then analog_out_mapping p else encoder_in_mapping p)"

text \<open>A subdevice whose channels are the channels \<open>js\<close> of the board.\<close>

definition serves :: "serial_dev \<Rightarrow> nat \<Rightarrow> nat list \<Rightarrow> bool" where
  "serves dev i js \<longleftrightarrow> sorted_wrt (<) js \<and> (\<forall>j\<in>set js. j < 32) \<and>
     (\<exists>s p. subd dev i = Some s \<and> dv_private dev = Some p \<and> unat (sd_n_chan s) = length js \<and>
        take (length js) (mapping_of i p) = map of_nat js \<and>
        map_option length (sd_maxdata_list s) = Some (length js) \<and>
        (2 \<le> i \<longrightarrow> map_option length (sd_range_table_list s) = Some (length js)))"

lemma channels_of_kind: "sorted_wrt (<) (channels_of_kind k c)" "j \<in> set (channels_of_kind k c) \<Longrightarrow> j < 32"
  "length (channels_of_kind k c) \<le> 32"
  using length_filter_le[of "\<lambda>j. cfg_kind (c ! j) = of_nat k" "[0..<32]"]
  by (auto simp: channels_of_kind_def sorted_wrt_filter)

lemma mapping_of_set:
  "i < 5 \<Longrightarrow> k < 5 \<Longrightarrow> mapping_of k (set_mapping i js p) =
    (if k = i then map of_nat js @ drop (length js) (mapping_of k p) else mapping_of k p)"
  by (auto simp: mapping_of_def set_mapping_def Let_def)

lemma mapping_of_update [simp]:
  "mapping_of i (p\<lparr>sp_out_range := a, sp_in_range := b\<rparr>) = mapping_of i p"
  "mapping_of i (p\<lparr>sp_tty := t\<rparr>) = mapping_of i p"
  by (simp_all add: mapping_of_def)

lemma fill_subdD:
  assumes "fill_subd t i dev = Some (True, dev')"
  obtains js s s' p p' where "sorted_wrt (<) js" "\<forall>j\<in>set js. j < 32" "length js \<le> 32"
    "subd dev i = Some s" "dv_private dev = Some p"
    "dev' = set_subd i s' (dev\<lparr>dv_private := Some p'\<rparr>)" "sp_tty p' = sp_tty p"
    "\<forall>k<5. i < 5 \<longrightarrow> mapping_of k p' = mapping_of k (set_mapping i js p)"
    "sd_n_chan s' = of_nat (length js)" "map_option length (sd_maxdata_list s') = Some (length js)"
    "2 \<le> i \<longrightarrow> map_option length (sd_range_table_list s') = Some (length js)"
proof -
  let ?js = "channels_of_kind (i + 1) (subd_config i t)"
  note js = channels_of_kind[where k = "i + 1" and c = "subd_config i t"]
  from assms obtain s p where sp: "subd dev i = Some s" "dv_private dev = Some p"
    by (cases "subd dev i"; cases "dv_private dev") (auto simp: fill_subd_def)
  have tty: "sp_tty (set_mapping i ?js p) = sp_tty p" by (simp add: set_mapping_def Let_def)
  show ?thesis
    using assms js sp tty
    by (auto simp: fill_subd_def Let_def split: if_splits intro!: that[of ?js s p])
qed

lemma fill_subd_serves:
  assumes "fill_subd t i dev = Some (True, dev')" and "i < 5"
  shows "\<exists>js. serves dev' i js" and "k < 5 \<Longrightarrow> k \<noteq> i \<Longrightarrow> serves dev k js \<Longrightarrow> serves dev' k js"
    and "map_option sp_tty (dv_private dev') = map_option sp_tty (dv_private dev)"
proof -
  from assms(1) obtain js' s s' p p' where f: "sorted_wrt (<) js'" "\<forall>j\<in>set js'. j < 32" "length js' \<le> 32"
    "subd dev i = Some s" "dv_private dev = Some p"
    "dev' = set_subd i s' (dev\<lparr>dv_private := Some p'\<rparr>)" "sp_tty p' = sp_tty p"
    "\<forall>k<5. i < 5 \<longrightarrow> mapping_of k p' = mapping_of k (set_mapping i js' p)"
    "sd_n_chan s' = of_nat (length js')" "map_option length (sd_maxdata_list s') = Some (length js')"
    "2 \<le> i \<longrightarrow> map_option length (sd_range_table_list s') = Some (length js')"
    by (rule fill_subdD)
  have "unat (of_nat (length js') :: u32) = length js'" using f(3) by (simp add: unat_of_nat)
  then have "serves dev' i js'"
    using f(1-6) f(8-11) \<open>i < 5\<close> by (auto simp: serves_def mapping_of_set subd_def set_subd_def load_nth_def split: if_splits)
  then show "\<exists>js. serves dev' i js" ..
  show "serves dev' k js" if "k < 5" "k \<noteq> i" "serves dev k js"
    using that f(4-6,8) \<open>i < 5\<close> by (auto simp: serves_def mapping_of_set subd_def set_subd_def load_nth_def split: if_splits)
  show "map_option sp_tty (dv_private dev') = map_option sp_tty (dv_private dev)"
    using f(5-7) by (simp add: set_subd_def)
qed

lemma fill_subds_serves:
  "fill_subds t is dev = Some (True, dev') \<Longrightarrow> \<forall>i\<in>set is. i < 5 \<Longrightarrow>
    (\<forall>i\<in>set is. \<exists>js. serves dev' i js) \<and> (\<forall>k<5. \<forall>js. k \<notin> set is \<longrightarrow> serves dev k js \<longrightarrow> serves dev' k js) \<and>
    map_option sp_tty (dv_private dev') = map_option sp_tty (dv_private dev)"
proof (induction "is" arbitrary: dev)
  case (Cons i "is")
  then obtain dev1 where one: "fill_subd t i dev = Some (True, dev1)" and rest: "fill_subds t is dev1 = Some (True, dev')"
    by (auto split: if_splits bind_splits)
  note filled = fill_subd_serves[OF one]
  have "i < 5" "\<forall>i\<in>set is. i < 5" using Cons.prems(2) by simp_all
  with Cons.IH[OF rest] filled show ?case by (metis set_ConsD list.set_intros)
qed simp

lemma serial_open_serves:
  assumes "serial_2002_open dev = Some (0, dev')" and "\<forall>e. port_open_error (dv_hw dev) = Some e \<longrightarrow> e < 0"
  shows "map_option sp_tty (dv_private dev') = Some Tty_open" and "i < 5 \<Longrightarrow> \<exists>js. serves dev' i js"
proof -
  from assms obtain t dev1 where "fill_subds t [0, 1, 2, 3, 4] dev1 = Some (True, dev')"
    and "map_option sp_tty (dv_private dev1) = Some Tty_open"
    by (auto simp: serial_2002_open_def simp del: fill_subds.simps free_lists.simps
        split: bind_splits option.splits prod.splits if_splits)
  with fill_subds_serves[OF this(1)] show "map_option sp_tty (dv_private dev') = Some Tty_open"
    and "i < 5 \<Longrightarrow> \<exists>js. serves dev' i js"
    by (auto simp: less_Suc_eq numeral_eq_Suc simp del: fill_subds.simps)
qed

section \<open>Instructions\<close>

lemma read_samples_return:
  "n + k \<le> length data \<Longrightarrow> \<exists>f' data'. serial_read_samples poll digital chan n k f data = Some (f', data') \<and>
    length data' = length data"
proof (induction k arbitrary: n f data)
  case (Suc k)
  obtain read f1 where "awaited digital chan (poll f chan) = (read, f1)" by fastforce
  then show ?case
    using Suc.IH[of "Suc n" "data[n := ucast (sdt_value read)]" f1] Suc.prems by (simp add: split_beta)
qed simp

lemma rinsn_returns:
  assumes "serves dev' i js" and "map_option sp_tty (dv_private dev') = Some Tty_open" and "mapping_of i = mapping"
    and "unat (CR_CHAN (insn_chanspec insn)) < length js" and "unat (insn_n insn) = length data"
  shows "\<exists>f' data'. serial_rinsn poll digital mapping dev' k insn data =
    Some (sint (insn_n insn), dev'\<lparr>dv_hw := f'\<rparr>, insn, data') \<and> length data' = length data"
proof -
  from assms(1,2) obtain p where p: "dv_private dev' = Some p" "sp_tty p = Tty_open"
    and "take (length js) (mapping p) = map of_nat js"
    using assms(3) by (auto simp: serves_def)
  then have "length js \<le> length (mapping p)" by (metis length_map length_take min.absorb_iff2)
  then have "unat (CR_CHAN (insn_chanspec insn)) < length (mapping p)" using assms(4) by linarith
  moreover obtain f' data' where "serial_read_samples poll digital
      (ucast (mapping p ! unat (CR_CHAN (insn_chanspec insn)))) 0 (length data) (dv_hw dev') data = Some (f', data')"
    and "length data' = length data"
    using read_samples_return[of 0 "length data" data] by fastforce
  ultimately show ?thesis using p assms(5) by (auto simp: serial_rinsn_def)
qed

section \<open>Properties\<close>

text \<open>
  C18. What goes into the line comes out of it. If the other end hears what \<open>serial_write\<close> sent for a list of
  messages (digital values 0 and 1, other values of up to 32 bits, channels below 32), \<open>serial_read\<close> gives
  exactly these messages, one per call, and leaves what follows them on the line.
\<close>

theorem serial_roundtrip:
  assumes "list_all sendable ds" and "1 < timeout"
    and "port_tx (fold (\<lambda>d g. serial_write g d) ds g) = port_tx g @ sent" and "port_rx f = map Some sent @ rx"
  shows "fst (hear (length ds) f timeout) = ds \<and> port_rx (snd (hear (length ds) f timeout)) = rx"
proof -
  have "sent = concat (map serial_bytes ds)" using assms(3) tx_of_writes[of ds g] by simp
  then have "port_rx f = line_of ds @ rx" using assms(4) by (simp add: line_of_def)
  from hear_line[OF this assms(1,2)] show ?thesis by auto
qed



text \<open>
  The value written to an analog output can be read back only where the board numbers its channels like the
  driver: the sample is remembered under the number that the channel has on the board, and read under the number
  that it has in the subdevice.
\<close>

theorem serial_readback_unmapped:
  assumes "dv_private dev = Some p" and "sp_tty p = Tty_open" and "insn_n insn = 1"
    and "load_nth (analog_out_mapping p) (unat (CR_CHAN (insn_chanspec insn))) = Some c"
    and "unat c < length (sp_ao_readback p)" and "unat (CR_CHAN (insn_chanspec insn)) < length (sp_ao_readback p)"
  shows "\<exists>dev'. serial2002_ao_winsn dev i insn [x] = Some (1, dev', insn, [x]) \<and>
    port_tx (dv_hw dev') = port_tx (dv_hw dev) @
      serial_bytes \<lparr>sdt_kind = is_channel, sdt_index = ucast c, sdt_value = ucast x\<rparr> \<and>
    serial2002_ao_rinsn dev' i insn [y] = Some (1, dev', insn,
      [if unat c = unat (CR_CHAN (insn_chanspec insn)) then x
       else sp_ao_readback p ! unat (CR_CHAN (insn_chanspec insn))])"
  using assms
  by (simp add: serial2002_ao_winsn_def serial2002_ao_rinsn_def serial_write_def tty_write_def)

section \<open>Witnesses\<close>

text \<open>A board with two analog inputs, which calls them 3 and 7, and an output that it calls 2.\<close>

definition example_messages :: "serial_data list" where
  "example_messages = [\<lparr>sdt_kind = is_channel, sdt_index = 31, sdt_value = 0x3063\<rparr>,
     \<lparr>sdt_kind = is_channel, sdt_index = 31, sdt_value = 0x3067\<rparr>,
     \<lparr>sdt_kind = is_channel, sdt_index = 31, sdt_value = 0x3082\<rparr>, \<lparr>sdt_kind = is_digital, sdt_index = 0, sdt_value = 0\<rparr>]"

definition example_line :: "u8 option list \<Rightarrow> serial_port" where
  "example_line rx = \<lparr>port_open_error = None, port_can_poll = True, port_looks = [], port_rx = rx, port_tx = [],
     port_speed = None, port_low_latency = False, mem_private = True, mem_subdevices = True, mem_configs = True,
     mem_maxdata = (\<lambda>_. True), mem_ranges = (\<lambda>_. True)\<rparr>"

lemma example_serial_bytes: "concat (map serial_bytes example_messages) =
   [0x98, 0x98, 0x7f, 0x98, 0x99, 0x7f, 0x98, 0xa0, 0x5f, 0]"
  by code_simp

definition example_board :: serial_dev where
  "example_board = \<lparr>dv_use_count = 0, dv_driver = None, dv_private = Some zero_serial_private, dv_class_dev = False,
     dv_minor = 0, dv_hw_dev = None, dv_board_name = Some ''serial2002'', dv_board_ptr = None, dv_attached = True,
     dv_rt = False, dv_in_request_module = False, dv_n_subdevices = 5,
     dv_subdevices = serial2002_subds (replicate 5 zero_subd), dv_iobase = 0, dv_irq = 0, dv_read_subdev = None,
     dv_write_subdev = None, dv_open = Some serial_open_fn, dv_close = Some serial_close_fn,
     dv_hw = example_line [Some 0x98, Some 0x98, Some 0x7f, Some 0x98, Some 0x99, Some 0x7f, Some 0x98, Some 0xa0,
       Some 0x5f, Some 0]\<rparr>"

definition opened_board :: serial_dev where
  "opened_board = (case serial_2002_open example_board of Some (_, dev) \<Rightarrow> dev)"

lemma example_opens: "map_option fst (serial_2002_open example_board) = Some 0"
  by code_simp

lemma opened_board: "serial_2002_open example_board = Some (0, opened_board)"
  using example_opens by (auto simp: opened_board_def)

lemma opened_facts:
  "map_option (\<lambda>s. sd_n_chan s) (subd opened_board 2) = Some 2"
  "map_option analog_in_mapping (dv_private opened_board) = Some ([3, 7] @ replicate 30 0)"
  "map_option sp_tty (dv_private opened_board) = Some Tty_open"
  by code_simp+

definition channel_insn :: "u32 \<Rightarrow> comedi_insn" where
  "channel_insn c = \<lparr>insn_insn = INSN_READ, insn_n = 1, insn_data = 0, insn_subdev = 2, insn_chanspec = c\<rparr>"

lemma channel_insn_simps [simp]:
  "insn_n (channel_insn c) = 1" "insn_chanspec (channel_insn c) = c"
  by (simp_all add: channel_insn_def)

lemma opened_private:
  obtains p where "dv_private opened_board = Some p" "sp_tty p = Tty_open"
    "analog_in_mapping p = [3, 7] @ replicate 30 0" "load_nth (analog_out_mapping p) 0 = Some 2"
    "length (sp_ao_readback p) = 32"
proof -
  have "map_option (\<lambda>p. (load_nth (analog_out_mapping p) 0, length (sp_ao_readback p))) (dv_private opened_board) =
    Some (Some 2, 32)"
    by code_simp
  then show ?thesis using opened_facts(2,3) by (auto intro: that)
qed

lemma length_example: "length example_messages = 4"
  by (simp add: example_messages_def)

theorem serial_roundtrip_witness:
  "fst (hear 4 (dv_hw example_board) 1000) = example_messages \<and> port_rx (snd (hear 4 (dv_hw example_board) 1000)) = []"
proof -
  let ?sent = "[0x98, 0x98, 0x7f, 0x98, 0x99, 0x7f, 0x98, 0xa0, 0x5f, 0] :: u8 list"
  have "list_all sendable example_messages" by code_simp
  moreover have "port_tx (fold (\<lambda>d g. serial_write g d) example_messages (example_line [])) =
      port_tx (example_line []) @ ?sent"
    by (simp add: tx_of_writes example_serial_bytes)
  moreover have "port_rx (dv_hw example_board) = map Some ?sent @ []"
    by (simp add: example_board_def example_line_def)
  ultimately show ?thesis
    using serial_roundtrip[of example_messages 1000 "example_line []" ?sent "dv_hw example_board" "[]"]
    by (simp add: length_example)
qed



theorem serial_readback_unmapped_witness:
  "\<exists>dev' p. serial2002_ao_winsn opened_board 3 (channel_insn 0) [99] = Some (1, dev', channel_insn 0, [99]) \<and>
    dv_private opened_board = Some p \<and>
    serial2002_ao_rinsn dev' 3 (channel_insn 0) [5] = Some (1, dev', channel_insn 0, [sp_ao_readback p ! 0])"
proof -
  obtain p where p: "dv_private opened_board = Some p" "sp_tty p = Tty_open"
    "load_nth (analog_out_mapping p) 0 = Some 2" "length (sp_ao_readback p) = 32"
    by (rule opened_private)
  then show ?thesis
    using serial_readback_unmapped[OF p(1,2), of "channel_insn 0" 2 3 99 5] by (auto simp: CR_CHAN_def)
qed

end
