(* ===== verification/Comedi_Bond.thy ===== *)
theory Comedi_Bond
  imports Kcomedilib Dio_8255 Proc_Listing
begin

text \<open>
  \<open>comedi/drivers/comedi_bond.c\<close>: one digital subdevice made of those of several boards, which the driver
  reaches through kcomedilib. The hardware of the bonding device is the state of the other devices; \<open>ops\<close> are
  the callbacks of their drivers. A shift of a 32-bit one by 32 or more, which C leaves open, counts modulo 32.
\<close>

unbundle bit_operations_syntax

section \<open>State\<close>

record bonded_device =
  bd_dev :: nat
  bd_minor :: u32
  bd_subdev :: u32
  bd_subdev_type :: u32
  bd_nchans :: u32
  bd_chanid_offset :: u32

abbreviation MAX_BOARD_NAME :: nat where "MAX_BOARD_NAME \<equiv> 256"
abbreviation MAX_CHANS :: nat where "MAX_CHANS \<equiv> 256"

record bond_private =
  bp_name :: string
  bp_devs :: "bonded_device list"
  bp_map :: "bonded_device option list"
  bp_nchans :: u32

type_synonym ('p, 'h) bond_dev = "(bond_private, ('p, 'h) comedi_state) comedi_device"

definition zero_bond_private :: bond_private where
  "zero_bond_private = \<lparr>bp_name = '''', bp_devs = [], bp_map = replicate MAX_CHANS None, bp_nchans = 0\<rparr>"

section \<open>Instructions\<close>

definition bit32 :: "u32 \<Rightarrow> u32" where
  "bit32 k = push_bit (unat k mod 32) 1"

definition subdev_mask :: "bonded_device \<Rightarrow> u32" where
  "subdev_mask bdev = (if 32 \<le> bd_nchans bdev then - 1 else bit32 (bd_nchans bdev) - 1)"

text \<open>The loop: the slices of mask and data go to the subdevices in turn; what they give back is put together.\<close>

fun bond_bits ::
  "('p, 'h) driver_ops \<Rightarrow> u32 \<times> u32 \<Rightarrow> nat \<Rightarrow> bonded_device list \<Rightarrow> nat \<Rightarrow> lsampl_t \<Rightarrow> lsampl_t \<Rightarrow> u32 \<Rightarrow>
    ('p, 'h) comedi_state \<Rightarrow> (bool \<times> lsampl_t \<times> u32 \<times> ('p, 'h) comedi_state) option" where
  "bond_bits ops tv nchans [] num_done m b state w = Some (True, b, state, w)"
| "bond_bits ops tv nchans (bdev # bdevs) num_done m b state w =
     (if nchans \<le> num_done then Some (True, b, state, w)
      else
        let mask = subdev_mask bdev;
            writeMask = drop_bit num_done m AND mask;
            dataBits = drop_bit num_done b AND mask
        in do {
          dev \<leftarrow> cs_devices w (bd_dev bdev);
          (ret, dataBits, dev) \<leftarrow> comedi_dio_bitfield ops (bd_dev bdev) tv dev (bd_subdev bdev) writeMask dataBits;
          let w = put_dev (bd_dev bdev) dev w in
          if ret \<noteq> 2 then Some (False, b, state, w)
          else
            let b = (b AND NOT (push_bit num_done mask)) OR push_bit num_done (dataBits AND mask) in
            bond_bits ops tv nchans bdevs (num_done + unat (bd_nchans bdev)) m b b w
        })"

definition bonding_dio_insn_bits ::
  "('p, 'h) driver_ops \<Rightarrow> u32 \<times> u32 \<Rightarrow> ('p, 'h) bond_dev \<Rightarrow> nat \<Rightarrow> comedi_insn \<Rightarrow> lsampl_t list \<Rightarrow>
    (bond_private, ('p, 'h) comedi_state) insn_result" where
  "bonding_dio_insn_bits ops tv dev i insn data =
     (if insn_n insn \<noteq> 2 then Some (- EINVAL, dev, insn, data)
      else do {
        s \<leftarrow> subd dev i;
        devpriv \<leftarrow> dv_private dev;
        m \<leftarrow> load_nth data 0;
        b \<leftarrow> load_nth data 1;
        let nchans = min 32 (unat (bp_nchans devpriv)) in do {
          (ok, b, state, w) \<leftarrow> bond_bits ops tv nchans (bp_devs devpriv) 0 m b (sd_state s) (dv_hw dev);
          Some (if ok then sint (insn_n insn) else - EINVAL,
            set_subd i (s\<lparr>sd_state := state\<rparr>) (dev\<lparr>dv_hw := w\<rparr>), insn, data[1 := b])
        }
      })"

definition bonding_dio_insn_config ::
  "('p, 'h) driver_ops \<Rightarrow> u32 \<times> u32 \<Rightarrow> ('p, 'h) bond_dev \<Rightarrow> nat \<Rightarrow> comedi_insn \<Rightarrow> lsampl_t list \<Rightarrow>
    (bond_private, ('p, 'h) comedi_state) insn_result" where
  "bonding_dio_insn_config ops tv dev i insn data =
     do {
       s \<leftarrow> subd dev i;
       devpriv \<leftarrow> dv_private dev;
       let chan = CR_CHAN (insn_chanspec insn) in
       if bp_nchans devpriv \<le> chan then Some (- EINVAL, dev, insn, data)
       else do {
         slot \<leftarrow> load_nth (bp_map devpriv) (unat chan);
         op \<leftarrow> load_nth data 0;
         if op = INSN_CONFIG_DIO_QUERY then do {
           data \<leftarrow> store_nth data 1 (if sd_io_bits s AND bit32 chan \<noteq> 0 then COMEDI_OUTPUT else COMEDI_INPUT);
           Some (sint (insn_n insn), dev, insn, data)
         }
         else if op = INSN_CONFIG_DIO_OUTPUT \<or> op = INSN_CONFIG_DIO_INPUT then do {
           bdev \<leftarrow> slot;
           let io = (if op = INSN_CONFIG_DIO_OUTPUT then COMEDI_OUTPUT else COMEDI_INPUT);
               io_bits = (if op = INSN_CONFIG_DIO_OUTPUT then sd_io_bits s OR bit32 chan
                          else sd_io_bits s AND NOT (bit32 chan))
           in do {
             bonded \<leftarrow> cs_devices (dv_hw dev) (bd_dev bdev);
             (ret, _, bonded) \<leftarrow> comedi_dio_config ops (bd_dev bdev) tv bonded (bd_subdev bdev)
                (chan - bd_chanid_offset bdev) io;
             let dev = dev\<lparr>dv_hw := put_dev (bd_dev bdev) bonded (dv_hw dev)\<rparr> in
             if ret \<noteq> 1 then Some (- EINVAL, dev, insn, data)
             else Some (sint (insn_n insn), set_subd i (s\<lparr>sd_io_bits := io_bits\<rparr>) dev, insn, data)
           }
         }
         else Some (- EINVAL, dev, insn, data)
       }
     }"

section \<open>Bonding\<close>

text \<open>What the kernel says: which modules are alive, and which allocations succeed.\<close>

record bond_env =
  be_live :: "nat \<Rightarrow> bool"
  be_private :: bool
  be_subdevices :: bool
  be_device :: "nat \<Rightarrow> bool"
  be_list :: "nat \<Rightarrow> bool"

definition comedi_get_n_channels :: "('p, 'h) comedi_device \<Rightarrow> u32 \<Rightarrow> int option" where
  "comedi_get_n_channels dev sub = map_option (\<lambda>s. sint (sd_n_chan s)) (subd dev (unat sub))"

text \<open>The channels take the next slots of the map; there is no test that they are still in it.\<close>

fun map_channels :: "bonded_device \<Rightarrow> nat \<Rightarrow> bond_private \<Rightarrow> bond_private option" where
  "map_channels bdev 0 p = Some p"
| "map_channels bdev (Suc k) p =
     do {
       slots \<leftarrow> store_nth (bp_map p) (unat (bp_nchans p)) (Some bdev);
       map_channels bdev k (p\<lparr>bp_map := slots, bp_nchans := bp_nchans p + 1\<rparr>)
     }"

definition bond_name :: "int \<Rightarrow> u32 \<Rightarrow> string \<Rightarrow> string" where
  "bond_name own sub name =
     (let buf = take 19 (decimal own @ '':'' @ decimal (sint sub) @ '' '') in
      name @ take (MAX_BOARD_NAME - length name - 1) buf)"

definition bond_subdev ::
  "bond_env \<Rightarrow> int \<Rightarrow> u32 \<Rightarrow> nat \<Rightarrow> ('p, 'h) comedi_device \<Rightarrow> u32 \<Rightarrow> bond_private \<Rightarrow>
    (bool \<times> bond_private) option" where
  "bond_subdev env own minor d dev sdev p =
     do {
       nchans \<leftarrow> comedi_get_n_channels dev sdev;
       if nchans \<le> 0 then Some (False, p)
       else if \<not> be_device env (length (bp_devs p)) then Some (False, p)
       else
         let bdev = \<lparr>bd_dev = d, bd_minor = minor, bd_subdev = sdev, bd_subdev_type = subd_type_code COMEDI_SUBD_DIO,
               bd_nchans = of_int nchans, bd_chanid_offset = bp_nchans p\<rparr>
         in do {
           p \<leftarrow> map_channels bdev (nat nchans) p;
           if \<not> be_list env (length (bp_devs p)) then Some (False, p\<lparr>bp_devs := []\<rparr>)
           else Some (True, p\<lparr>bp_devs := bp_devs p @ [bdev], bp_name := bond_name own sdev (bp_name p)\<rparr>)
         }
     }"

lemma find_subdevice_bounds:
  assumes "- 1 < comedi_find_subdevice_by_type dev t sub"
  shows "uint sub \<le> comedi_find_subdevice_by_type dev t sub"
    "comedi_find_subdevice_by_type dev t sub < uint (dv_n_subdevices dev)"
proof -
  from assms obtain i where i: "comedi_find_subdevice_by_type dev t sub = int i"
    and "find (\<lambda>i. subd_type_code (sd_type (dv_subdevices dev ! i)) = t) [unat sub ..< unat (dv_n_subdevices dev)] = Some i"
    by (auto simp: comedi_find_subdevice_by_type_def split: if_splits option.splits)
  then have "unat sub \<le> i \<and> i < unat (dv_n_subdevices dev)" by (auto simp: find_Some_iff)
  then have "int (unat sub) \<le> int i" "int i < int (unat (dv_n_subdevices dev))"
    by (simp_all only: of_nat_le_iff of_nat_less_iff)
  then show "uint sub \<le> comedi_find_subdevice_by_type dev t sub"
    "comedi_find_subdevice_by_type dev t sub < uint (dv_n_subdevices dev)"
    by (simp_all add: i)
qed

function bond_subdevs ::
  "bond_env \<Rightarrow> int \<Rightarrow> u32 \<Rightarrow> nat \<Rightarrow> ('p, 'h) comedi_device \<Rightarrow> u32 \<Rightarrow> bond_private \<Rightarrow>
    (bool \<times> bond_private) option" where
  "bond_subdevs env own minor d dev sub p =
     (let sdev = comedi_find_subdevice_by_type dev (subd_type_code COMEDI_SUBD_DIO) sub in
      if sdev \<le> - 1 then Some (True, p)
      else
        case bond_subdev env own minor d dev (of_int sdev) p of
          None \<Rightarrow> None
        | Some (False, p) \<Rightarrow> Some (False, p)
        | Some (True, p) \<Rightarrow> bond_subdevs env own minor d dev (of_int sdev + 1) p)"
  by auto
termination
proof (relation "measure (\<lambda>(_, _, _, _, dev, sub, _). unat (dv_n_subdevices dev) - unat sub)", goal_cases)
  case (2 env own minor d dev sub p sdev a b q)
  let ?f = "comedi_find_subdevice_by_type dev (subd_type_code COMEDI_SUBD_DIO) sub"
  from 2(1,2) have f: "sdev = ?f" "- 1 < ?f" by simp_all
  note bounds = find_subdevice_bounds[OF f(2)]
  have "0 \<le> sdev" using order_trans[OF uint_ge_0 bounds(1)] f(1) by simp
  moreover have "sdev + 1 < 2 ^ 32"
    using bounds f(1) uint_lt2p[of "dv_n_subdevices dev"] by simp
  ultimately have "uint (of_int (sdev + 1) :: u32) = sdev + 1"
    by (simp only: uint_word_of_int_eq) (simp add: take_bit_int_eq_self)
  then have next_unat: "unat (of_int sdev + 1 :: u32) = nat (sdev + 1)"
    by (metis of_int_1 of_int_add unat_eq_nat_uint)
  have "int (unat sub) \<le> sdev" "sdev < int (unat (dv_n_subdevices dev))" using bounds f(1) by simp_all
  then have "unat (dv_n_subdevices dev) - nat (sdev + 1) < unat (dv_n_subdevices dev) - unat sub" by linarith
  then show ?case by (simp add: next_unat)
qed simp

declare bond_subdevs.simps [simp del]

text \<open>
  \<open>doDevConfig\<close>: the options are the minors of the boards; only the first may be 0. What is open when something
  fails stays open.
\<close>

fun bond_options ::
  "bond_env \<Rightarrow> int \<Rightarrow> bool \<Rightarrow> u32 list \<Rightarrow> u32 list \<Rightarrow> ('p, 'h) comedi_state \<Rightarrow> bond_private \<Rightarrow>
    (bool \<times> ('p, 'h) comedi_state \<times> bond_private) option" where
  "bond_options env own first opened [] w p = Some (True, w, p)"
| "bond_options env own first opened (minor # minors) w p =
     (if \<not> first \<and> minor = 0 then Some (True, w, p)
      else if minor <s 0 \<or> int COMEDI_NUM_BOARD_MINORS \<le> sint minor then Some (False, w, p)
      else if sint minor = own then Some (False, w, p)
      else if minor \<in> set opened then Some (False, w, p)
      else do {
        (d, w) \<leftarrow> klib_open (be_live env) w (''/dev/comedi'' @ decimal (sint minor)) minor;
        case d of
          None \<Rightarrow> Some (False, w, p)
        | Some d \<Rightarrow> do {
            dev \<leftarrow> cs_devices w d;
            (ok, p) \<leftarrow> bond_subdevs env own minor d dev 0 p;
            if ok then bond_options env own False (minor # opened) minors w p else Some (False, w, p)
          }
      })"

definition doDevConfig ::
  "bond_env \<Rightarrow> ('p, 'h) bond_dev \<Rightarrow> comedi_devconfig \<Rightarrow> (bool \<times> ('p, 'h) bond_dev) option" where
  "doDevConfig env dev it =
     do {
       p \<leftarrow> dv_private dev;
       (ok, w, p) \<leftarrow> bond_options env (dv_minor dev) True [] (dc_options it) (dv_hw dev) (p\<lparr>bp_name := ''''\<rparr>);
       Some (ok \<and> bp_nchans p \<noteq> 0, dev\<lparr>dv_hw := w, dv_private := Some p\<rparr>)
     }"

text \<open>
  \<open>doDevUnconfig\<close> goes through the subdevices from the last to the first and closes each board once; which ones it
  has closed is a set of bits of an \<open>unsigned long\<close>, into which an \<open>int\<close> is extended.
\<close>

definition closed_bit :: "u32 \<Rightarrow> u64" where
  "closed_bit minor = scast (bit32 minor)"

fun close_bonded :: "u64 \<Rightarrow> bonded_device list \<Rightarrow> ('p, 'h) comedi_state \<Rightarrow> ('p, 'h) comedi_state option" where
  "close_bonded devs_closed [] w = Some w"
| "close_bonded devs_closed (bdev # bdevs) w =
     (if devs_closed AND closed_bit (bd_minor bdev) \<noteq> 0 then close_bonded devs_closed bdevs w
      else do {
        (_, w) \<leftarrow> klib_close w (bd_dev bdev);
        close_bonded (devs_closed OR closed_bit (bd_minor bdev)) bdevs w
      })"

definition doDevUnconfig :: "('p, 'h) bond_dev \<Rightarrow> ('p, 'h) bond_dev option" where
  "doDevUnconfig dev =
     (case dv_private dev of
        None \<Rightarrow> Some dev
      | Some p \<Rightarrow> do {
          w \<leftarrow> close_bonded 0 (rev (bp_devs p)) (dv_hw dev);
          Some (dev\<lparr>dv_hw := w, dv_private := None\<rparr>)
        })"

section \<open>Attaching\<close>

definition bond_bits_fn :: fnptr where "bond_bits_fn = 0"
definition bond_config_fn :: fnptr where "bond_config_fn = 1"

definition bonding_attach ::
  "bond_env \<Rightarrow> ('p, 'h) bond_dev \<Rightarrow> comedi_devconfig \<Rightarrow> (int \<times> ('p, 'h) bond_dev) option" where
  "bonding_attach env dev it =
     (case alloc_private (if be_private env then Some zero_bond_private else None) dev of (ret, dev) \<Rightarrow>
      if ret < 0 then Some (- ENOMEM, dev)
      else do {
        (ok, dev) \<leftarrow> doDevConfig env dev it;
        if \<not> ok then Some (- EINVAL, dev)
        else do {
          p \<leftarrow> dv_private dev;
          case alloc_subdevices (be_subdevices env) (dev\<lparr>dv_board_name := Some (bp_name p)\<rparr>) 1 of (ret, dev) \<Rightarrow>
          if ret < 0 then Some (- ENOMEM, dev)
          else do {
            s \<leftarrow> subd dev 0;
            Some (1, set_subd 0 (s\<lparr>sd_type := COMEDI_SUBD_DIO, sd_subdev_flags := SDF_READABLE OR SDF_WRITABLE,
              sd_n_chan := bp_nchans p, sd_maxdata := 1, sd_range_table := Some range_digital,
              sd_insn_bits := Some (Insn_driver bond_bits_fn), sd_insn_config := Some (Insn_driver bond_config_fn)\<rparr>) dev)
          }
        }
      })"

definition bonding_detach :: "('p, 'h) bond_dev \<Rightarrow> (int \<times> ('p, 'h) bond_dev) option" where
  "bonding_detach dev = do { dev \<leftarrow> doDevUnconfig dev; Some (0, dev) }"

end
