(* ===== verification/Bond_Properties.thy ===== *)
theory Bond_Properties
  imports Comedi_Bond Dio_Properties
begin

text \<open>
  What the bonding driver makes of the boards below it: one row of channels. \<open>channel_of\<close> says which channel of
  which bonded subdevice a channel of the row is.
\<close>

unbundle bit_operations_syntax

section \<open>The row of channels\<close>

fun channel_of :: "bonded_device list \<Rightarrow> nat \<Rightarrow> (bonded_device \<times> nat) option" where
  "channel_of [] k = None"
| "channel_of (b # bs) k = (if k < unat (bd_nchans b) then Some (b, k) else channel_of bs (k - unat (bd_nchans b)))"

definition bonded_line :: "bonded_device \<Rightarrow> nat \<times> nat" where
  "bonded_line b = (bd_dev b, unat (bd_subdev b))"

definition row_length :: "bonded_device list \<Rightarrow> nat" where
  "row_length bs = (\<Sum>b\<leftarrow>bs. unat (bd_nchans b))"

text \<open>The output of a channel of the row, as the driver of its board has it in \<open>latched\<close>.\<close>

definition row_bit ::
  "(('p, 'h) comedi_device \<Rightarrow> nat \<Rightarrow> u32) \<Rightarrow> ('p, 'h) comedi_state \<Rightarrow> bonded_device list \<Rightarrow> nat \<Rightarrow> bool option" where
  "row_bit latched w bs k =
     do {
       (b, c) \<leftarrow> channel_of bs k;
       dev \<leftarrow> cs_devices w (bd_dev b);
       Some (bit (latched dev (unat (bd_subdev b))) c)
     }"

definition row_ready ::
  "(('p, 'h) comedi_device \<Rightarrow> nat \<Rightarrow> bool) \<Rightarrow> ('p, 'h) comedi_state \<Rightarrow> bonded_device list \<Rightarrow> bool" where
  "row_ready ready w bs \<longleftrightarrow>
     distinct (map bonded_line bs) \<and>
     (\<forall>b\<in>set bs. 0 < unat (bd_nchans b) \<and> (\<exists>dev. cs_devices w (bd_dev b) = Some dev \<and> ready dev (unat (bd_subdev b))))"

lemma channel_of_in: "channel_of bs k = Some (b, c) \<Longrightarrow> b \<in> set bs"
  by (induction bs k rule: channel_of.induct) (auto split: if_splits)

lemma bit_subdev_mask: "k < 32 \<Longrightarrow> bit (subdev_mask b) k \<longleftrightarrow> k < unat (bd_nchans b)"
proof -
  assume k: "k < 32"
  show ?thesis
  proof (cases "32 \<le> bd_nchans b")
    case True
    then have "32 \<le> unat (bd_nchans b)" by (simp add: word_le_nat_alt)
    then show ?thesis using True k by (simp add: subdev_mask_def)
  next
    case False
    then have n: "unat (bd_nchans b) < 32" by (simp add: word_le_nat_alt)
    then have "subdev_mask b = mask (unat (bd_nchans b))"
      using False by (simp add: subdev_mask_def bit32_def mask_eq_exp_minus_1 push_bit_eq_mult)
    then show ?thesis using k by (simp add: bit_mask_iff)
  qed
qed

section \<open>The contract of the boards\<close>

locale bondable =
  fixes ops :: "('p, 'h) driver_ops" and tv :: "u32 \<times> u32"
    and ready :: "('p, 'h) comedi_device \<Rightarrow> nat \<Rightarrow> bool" and latched :: "('p, 'h) comedi_device \<Rightarrow> nat \<Rightarrow> u32"
  assumes bitfield: "ready dev (unat sub) \<Longrightarrow> \<exists>dev' v'. comedi_dio_bitfield ops d tv dev sub m v = Some (2, v', dev') \<and>
      latched dev' (unat sub) = (latched dev (unat sub) AND NOT m) OR (m AND v) \<and>
      (\<forall>j. ready dev j \<longrightarrow> ready dev' j) \<and> (\<forall>j. j \<noteq> unat sub \<longrightarrow> latched dev' j = latched dev j)"
begin

text \<open>Only the lines of the row change, and nothing becomes unready.\<close>

definition same_elsewhere ::
  "(nat \<times> nat) set \<Rightarrow> ('p, 'h) comedi_state \<Rightarrow> ('p, 'h) comedi_state \<Rightarrow> bool" where
  "same_elsewhere lines w w' \<longleftrightarrow>
     (\<forall>d dev. cs_devices w d = Some dev \<longrightarrow> (\<exists>dev'. cs_devices w' d = Some dev' \<and>
        (\<forall>j. ready dev j \<longrightarrow> ready dev' j) \<and> (\<forall>j. (d, j) \<notin> lines \<longrightarrow> latched dev' j = latched dev j)))"

lemma same_elsewhere_ready: "same_elsewhere lines w w' \<Longrightarrow> row_ready ready w bs \<Longrightarrow> row_ready ready w' bs"
  unfolding same_elsewhere_def row_ready_def by blast

lemma same_elsewhere_trans:
  assumes "same_elsewhere l w w'" and "same_elsewhere l' w' w''"
  shows "same_elsewhere (l \<union> l') w w''"
  unfolding same_elsewhere_def
proof (intro allI impI)
  fix d dev assume "cs_devices w d = Some dev"
  with assms(1) obtain dev' where 1: "cs_devices w' d = Some dev'" "\<forall>j. ready dev j \<longrightarrow> ready dev' j"
    "\<forall>j. (d, j) \<notin> l \<longrightarrow> latched dev' j = latched dev j" unfolding same_elsewhere_def by blast
  with assms(2) obtain dev'' where "cs_devices w'' d = Some dev''" "\<forall>j. ready dev' j \<longrightarrow> ready dev'' j"
    "\<forall>j. (d, j) \<notin> l' \<longrightarrow> latched dev'' j = latched dev' j" unfolding same_elsewhere_def by blast
  with 1 show "\<exists>dev'. cs_devices w'' d = Some dev' \<and> (\<forall>j. ready dev j \<longrightarrow> ready dev' j) \<and>
      (\<forall>j. (d, j) \<notin> l \<union> l' \<longrightarrow> latched dev' j = latched dev j)" by auto
qed

lemma same_elsewhere_row:
  assumes "same_elsewhere lines w w'" and "bonded_line ` set bs \<inter> lines = {}" and "row_ready ready w bs"
  shows "row_bit latched w' bs k = row_bit latched w bs k"
proof (cases "channel_of bs k")
  case (Some bc)
  then obtain b c where b: "channel_of bs k = Some (b, c)" by force
  note in_row = channel_of_in[OF b]
  from in_row assms(3) obtain dev where dev: "cs_devices w (bd_dev b) = Some dev" by (auto simp: row_ready_def)
  have "(bd_dev b, unat (bd_subdev b)) \<notin> lines" using in_row assms(2) by (auto simp: bonded_line_def)
  with assms(1) dev obtain dev' where "cs_devices w' (bd_dev b) = Some dev'"
    "latched dev' (unat (bd_subdev b)) = latched dev (unat (bd_subdev b))"
    unfolding same_elsewhere_def by blast
  then show ?thesis using b dev by (simp add: row_bit_def)
qed (simp add: row_bit_def)

text \<open>One board of the row.\<close>

lemma bonded_step:
  assumes "row_ready ready w (b # bs)"
  obtains dev v' dev' where "cs_devices w (bd_dev b) = Some dev"
    and "comedi_dio_bitfield ops (bd_dev b) tv dev (bd_subdev b) wm db = Some (2, v', dev')"
    and "same_elsewhere {bonded_line b} w (put_dev (bd_dev b) dev' w)"
    and "\<And>c. bit (latched dev' (unat (bd_subdev b))) c =
      (if bit wm c then bit db c else bit (latched dev (unat (bd_subdev b))) c)"
proof -
  from assms obtain dev where dev: "cs_devices w (bd_dev b) = Some dev" "ready dev (unat (bd_subdev b))"
    by (auto simp: row_ready_def)
  from bitfield[OF dev(2), of "bd_dev b" wm db] obtain dev' v' where
    call: "comedi_dio_bitfield ops (bd_dev b) tv dev (bd_subdev b) wm db = Some (2, v', dev')"
    and l: "latched dev' (unat (bd_subdev b)) = (latched dev (unat (bd_subdev b)) AND NOT wm) OR (wm AND db)"
    and r: "\<forall>j. ready dev j \<longrightarrow> ready dev' j" and o: "\<forall>j. j \<noteq> unat (bd_subdev b) \<longrightarrow> latched dev' j = latched dev j"
    by blast
  have "same_elsewhere {bonded_line b} w (put_dev (bd_dev b) dev' w)"
    using dev r o by (auto simp: same_elsewhere_def put_dev_def bonded_line_def)
  moreover have "bit (latched dev' (unat (bd_subdev b))) c =
      (if bit wm c then bit db c else bit (latched dev (unat (bd_subdev b))) c)" for c
    using bit_imp_le_length[of wm c] bit_imp_le_length[of "latched dev (unat (bd_subdev b))" c]
    by (auto simp: l bit_simps)
  ultimately show thesis using that dev(1) call by blast
qed

lemma row_written:
  assumes "row_ready ready w bs" and "n = min 32 (num_done + row_length bs)"
  shows "\<exists>v' st' w'. bond_bits ops tv n bs num_done m v st w = Some (True, v', st', w') \<and>
    same_elsewhere (bonded_line ` set bs) w w' \<and>
    (\<forall>k bc. channel_of bs k = Some bc \<longrightarrow> row_bit latched w' bs k =
       (if bit m (num_done + k) then Some (bit v (num_done + k)) else row_bit latched w bs k))"
  using assms
proof (induction bs arbitrary: num_done v st w)
  case Nil
  then show ?case by (simp add: same_elsewhere_def)
next
  case (Cons b bs)
  let ?nb = "unat (bd_nchans b)"
  show ?case
  proof (cases "32 \<le> num_done")
    case True
    then have "\<not> bit m (num_done + k)" for k using bit_imp_le_length[of m "num_done + k"] by auto
    then show ?thesis using True Cons.prems(2) by (auto simp: same_elsewhere_def)
  next
    case False
    have nb: "0 < ?nb" using Cons.prems(1) by (simp add: row_ready_def)
    then have more: "\<not> n \<le> num_done" using False Cons.prems(2) by (simp add: row_length_def)
    define msk where "msk = subdev_mask b"
    define wm where "wm = drop_bit num_done m AND msk"
    define db where "db = drop_bit num_done v AND msk"
    obtain dev r dev' where dev: "cs_devices w (bd_dev b) = Some dev"
      and call: "comedi_dio_bitfield ops (bd_dev b) tv dev (bd_subdev b) wm db = Some (2, r, dev')"
      and same: "same_elsewhere {bonded_line b} w (put_dev (bd_dev b) dev' w)"
      and written: "\<And>c. bit (latched dev' (unat (bd_subdev b))) c =
        (if bit wm c then bit db c else bit (latched dev (unat (bd_subdev b))) c)"
      using bonded_step[OF Cons.prems(1)] by metis
    define v2 where "v2 = (v AND NOT (push_bit num_done msk)) OR push_bit num_done (r AND msk)"
    let ?w = "put_dev (bd_dev b) dev' w"
    have apart: "bonded_line ` set bs \<inter> {bonded_line b} = {}" and tail: "row_ready ready w bs"
      using Cons.prems(1) by (auto simp: row_ready_def)
    have n: "n = min 32 (num_done + ?nb + row_length bs)" using Cons.prems(2) by (simp add: row_length_def)
    from Cons.IH[OF same_elsewhere_ready[OF same tail] n, of v2 v2]
    obtain v' st' w' where rest: "bond_bits ops tv n bs (num_done + ?nb) m v2 v2 ?w = Some (True, v', st', w')"
      and same': "same_elsewhere (bonded_line ` set bs) ?w w'"
      and row: "\<And>k bc. channel_of bs k = Some bc \<Longrightarrow> row_bit latched w' bs k =
        (if bit m (num_done + ?nb + k) then Some (bit v2 (num_done + ?nb + k)) else row_bit latched ?w bs k)"
      by blast
    have "bond_bits ops tv n (b # bs) num_done m v st w = Some (True, v', st', w')"
      using more dev call rest by (simp add: wm_def db_def v2_def msk_def Let_def)
    moreover have "same_elsewhere (bonded_line ` set (b # bs)) w w'"
      using same_elsewhere_trans[OF same same'] by simp
    moreover have "row_bit latched w' (b # bs) k =
        (if bit m (num_done + k) then Some (bit v (num_done + k)) else row_bit latched w (b # bs) k)"
      if "channel_of (b # bs) k = Some bc" for k bc
    proof -
      have in_reach: "num_done + k < 32" if "bit m (num_done + k)"
        using bit_imp_le_length[OF that] by simp
      show ?thesis
      proof (cases "k < ?nb")
        case True
        have "\<exists>dev''. cs_devices w' (bd_dev b) = Some dev'' \<and>
            latched dev'' (unat (bd_subdev b)) = latched dev' (unat (bd_subdev b))"
        proof -
          have "cs_devices ?w (bd_dev b) = Some dev'" by (simp add: put_dev_def)
          moreover have "(bd_dev b, unat (bd_subdev b)) \<notin> bonded_line ` set bs"
            using apart by (auto simp: bonded_line_def)
          ultimately show ?thesis using same' unfolding same_elsewhere_def by blast
        qed
        then have "row_bit latched w' (b # bs) k = Some (bit (latched dev' (unat (bd_subdev b))) k)"
          using True by (auto simp: row_bit_def)
        moreover have "bit wm k = bit m (num_done + k)"
          using True in_reach bit_subdev_mask[of k b] by (auto simp: wm_def msk_def bit_simps add.commute)
        moreover have "bit db k = bit v (num_done + k)" if "bit m (num_done + k)"
          using True in_reach[OF that] bit_subdev_mask[of k b] by (auto simp: db_def msk_def bit_simps add.commute)
        moreover have "row_bit latched w (b # bs) k = Some (bit (latched dev (unat (bd_subdev b))) k)"
          using True dev by (simp add: row_bit_def)
        ultimately show ?thesis by (simp add: written)
      next
        case False
        then have c: "channel_of bs (k - ?nb) = Some bc" using that by simp
        have v2: "bit v2 (num_done + k) = bit v (num_done + k)" if "bit m (num_done + k)"
          using False in_reach[OF that] bit_subdev_mask[of k b] by (simp add: v2_def msk_def bit_simps)
        have "row_bit latched x (b # bs) k = row_bit latched x bs (k - ?nb)" for x
          using False by (simp add: row_bit_def)
        then show ?thesis
          using row[OF c] same_elsewhere_row[OF same apart tail, of "k - ?nb"] False v2 by simp
      qed
    qed
    ultimately show ?thesis by blast
  qed
qed

text \<open>The instruction as a whole: every channel of the row takes its bit.\<close>

lemma bits_instruction:
  assumes s: "subd dev i = Some s" and p: "dv_private dev = Some p" and n: "insn_n insn = 2"
    and row: "row_ready ready (dv_hw dev) (bp_devs p)" and len: "unat (bp_nchans p) = row_length (bp_devs p)"
  shows "\<exists>dev' w. bonding_dio_insn_bits ops tv dev i insn [m, v] = Some (2, dev', insn, [m, w]) \<and>
    dv_private dev' = Some p \<and> row_ready ready (dv_hw dev') (bp_devs p) \<and>
    (\<forall>k<row_length (bp_devs p). row_bit latched (dv_hw dev') (bp_devs p) k =
       (if bit m k then Some (bit v k) else row_bit latched (dv_hw dev) (bp_devs p) k))"
proof -
  have reach: "\<exists>bc. channel_of bs k = Some bc" if "k < row_length bs" for bs k
    using that by (induction bs k rule: channel_of.induct) (auto simp: row_length_def)
  have "min 32 (unat (bp_nchans p)) = min 32 (0 + row_length (bp_devs p))" by (simp add: len)
  from row_written[OF row this, of m v "sd_state s"]
  obtain v' st' w' where run: "bond_bits ops tv (min 32 (unat (bp_nchans p))) (bp_devs p) 0 m v (sd_state s) (dv_hw dev) =
      Some (True, v', st', w')" and same: "same_elsewhere (bonded_line ` set (bp_devs p)) (dv_hw dev) w'"
    and bits: "\<And>k bc. channel_of (bp_devs p) k = Some bc \<Longrightarrow> row_bit latched w' (bp_devs p) k =
       (if bit m k then Some (bit v k) else row_bit latched (dv_hw dev) (bp_devs p) k)"
    by auto
  have "bonding_dio_insn_bits ops tv dev i insn [m, v] =
      Some (2, set_subd i (s\<lparr>sd_state := st'\<rparr>) (dev\<lparr>dv_hw := w'\<rparr>), insn, [m, v'])"
    using s p n run by (simp add: bonding_dio_insn_bits_def Let_def)
  moreover have "dv_private (set_subd i (s\<lparr>sd_state := st'\<rparr>) (dev\<lparr>dv_hw := w'\<rparr>)) = Some p" using p by simp
  moreover note same_elsewhere_ready[OF same row]
  ultimately show ?thesis using bits reach by fastforce
qed

end

section \<open>Boards with an 8255\<close>

text \<open>A digital subdevice of an 8255 that its driver has set up and nobody is using.\<close>

definition usable_8255 :: "'x dio_device \<Rightarrow> nat \<Rightarrow> bool" where
  "usable_8255 dev j \<longleftrightarrow> j < unat (dv_n_subdevices dev) \<and>
     (\<exists>s. subd dev j = Some s \<and> sd_type s \<noteq> COMEDI_SUBD_UNUSED \<and> sd_busy s = None \<and> check_chanlist s 1 [0] = Some 0 \<and>
        sd_insn_bits s = Some (Insn_driver insn_8255_fn) \<and> sd_private s \<noteq> None)"

lemma check_chanlist_frame [simp]:
  "check_chanlist (s\<lparr>sd_state := st\<rparr>) n cs = check_chanlist s n cs"
  "check_chanlist (s\<lparr>sd_busy := b\<rparr>) n cs = check_chanlist s n cs"
proof -
  have aref: "aref_invalid (s\<lparr>sd_state := st\<rparr>) x = aref_invalid s x" "aref_invalid (s\<lparr>sd_busy := b\<rparr>) x = aref_invalid s x"
    for x by (simp_all add: aref_invalid_def)
  then have bad: "bad_chanspec (s\<lparr>sd_state := st\<rparr>) = bad_chanspec s" "bad_chanspec (s\<lparr>sd_busy := b\<rparr>) = bad_chanspec s"
    by (simp_all add: fun_eq_iff bad_chanspec_def)
  moreover have "bad_chanspec_of_list (s\<lparr>sd_state := st\<rparr>) = bad_chanspec_of_list s"
    "bad_chanspec_of_list (s\<lparr>sd_busy := b\<rparr>) = bad_chanspec_of_list s"
    by (simp_all add: fun_eq_iff bad_chanspec_of_list_def Let_def aref)
  ultimately show "check_chanlist (s\<lparr>sd_state := st\<rparr>) n cs = check_chanlist s n cs"
    "check_chanlist (s\<lparr>sd_busy := b\<rparr>) n cs = check_chanlist s n cs"
    by (auto simp: check_chanlist_def Let_def split: option.split)
qed

interpretation bond_8255: bondable "ops_8255 io free mem ok" tv usable_8255 latched_8255 for io free mem ok tv
proof
  fix dev :: "'a dio_device" and sub :: u32 and d m v
  let ?j = "unat sub"
  assume "usable_8255 dev ?j"
  then obtain s where j: "?j < unat (dv_n_subdevices dev)" and s: "subd dev ?j = Some s" "sd_type s \<noteq> COMEDI_SUBD_UNUSED"
    "sd_busy s = None" "check_chanlist s 1 [0] = Some 0" "sd_insn_bits s = Some (Insn_driver insn_8255_fn)"
    "sd_private s \<noteq> None" by (auto simp: usable_8255_def)
  let ?t = "s\<lparr>sd_busy := Some (Owner_klib d)\<rparr>"
  let ?u = "?t\<lparr>sd_state := (sd_state s AND NOT m) OR (m AND v)\<rparr>"
  let ?insn = "klib_insn INSN_BITS 2 sub 0"
  have busy: "subd (set_subd ?j ?t dev) ?j = Some ?t" "sd_private ?t \<noteq> None" using s by simp_all
  obtain w h where "subdev_8255_insn io (set_subd ?j ?t dev) ?j ?insn [m, v] =
      Some (2, (set_subd ?j (?t\<lparr>sd_state := (sd_state ?t AND NOT m) OR (m AND v)\<rparr>) (set_subd ?j ?t dev))\<lparr>dv_hw := h\<rparr>,
        ?insn, [m, w])"
    by (rule insn_8255_spec[OF busy])
  then have call: "subdev_8255_insn io (set_subd ?j ?t dev) ?j ?insn [m, v] =
      Some (2, (set_subd ?j ?u dev)\<lparr>dv_hw := h\<rparr>, ?insn, [m, w])" by simp
  let ?dev = "set_subd ?j (?u\<lparr>sd_busy := None\<rparr>) (dev\<lparr>dv_hw := h\<rparr>)"
  have hw: "subd (x\<lparr>dv_hw := h\<rparr>) k = subd x k" for x :: "'a dio_device" and k by (simp add: subd_def)
  have eq: "set_subd ?j y (set_subd ?j x dev\<lparr>dv_hw := h\<rparr>) = set_subd ?j y (dev\<lparr>dv_hw := h\<rparr>)" for x y
    by (simp add: set_subd_def)
  have "comedi_dio_bitfield (ops_8255 io free mem ok) d tv dev sub m v = Some (2, w, ?dev)"
    using j s call
    by (simp add: comedi_dio_bitfield_def comedi_do_insn_def klib_insn_def INSN_defs Let_def call_insn_def ops_8255_def
        word_le_nat_alt hw eq)
  moreover have at: "subd ?dev ?j = Some (?u\<lparr>sd_busy := None\<rparr>)" and off: "\<And>k. k \<noteq> ?j \<Longrightarrow> subd ?dev k = subd dev k"
    using s(1) by (auto simp: hw)
  moreover have "usable_8255 ?dev k" if "usable_8255 dev k" for k
    using that s at off by (cases "k = ?j") (auto simp: usable_8255_def)
  moreover have "latched_8255 ?dev ?j = (latched_8255 dev ?j AND NOT m) OR (m AND v)"
    using at s(1) by (simp add: latched_8255_def)
  moreover have "latched_8255 ?dev k = latched_8255 dev k" if "k \<noteq> ?j" for k
    using off[OF that] by (simp add: latched_8255_def)
  ultimately show "\<exists>dev' v'. comedi_dio_bitfield (ops_8255 io free mem ok) d tv dev sub m v = Some (2, v', dev') \<and>
      latched_8255 dev' ?j = (latched_8255 dev ?j AND NOT m) OR (m AND v) \<and>
      (\<forall>k. usable_8255 dev k \<longrightarrow> usable_8255 dev' k) \<and> (\<forall>k. k \<noteq> ?j \<longrightarrow> latched_8255 dev' k = latched_8255 dev k)"
    by blast
qed

section \<open>The map of the channels\<close>

text \<open>What \<open>doDevConfig\<close> builds: slot \<open>k\<close> of the map is the subdevice of channel \<open>k\<close> of the row.\<close>

definition bond_wf :: "bond_private \<Rightarrow> bool" where
  "bond_wf p \<longleftrightarrow> length (bp_map p) = MAX_CHANS \<and> unat (bp_nchans p) = row_length (bp_devs p) \<and>
     row_length (bp_devs p) \<le> MAX_CHANS \<and> (\<forall>b\<in>set (bp_devs p). 0 < unat (bd_nchans b)) \<and>
     (\<forall>k<row_length (bp_devs p). \<exists>b c. channel_of (bp_devs p) k = Some (b, c) \<and> bp_map p ! k = Some b \<and>
        k = unat (bd_chanid_offset b) + c)"

lemma row_length_simps [simp]:
  "row_length [] = 0" "row_length (b # bs) = unat (bd_nchans b) + row_length bs"
  "row_length (as @ bs) = row_length as + row_length bs"
  by (simp_all add: row_length_def)

lemma channel_of_append:
  "channel_of (as @ bs) k = (if k < row_length as then channel_of as k else channel_of bs (k - row_length as))"
  by (induction as k rule: channel_of.induct) auto

lemma slots_taken:
  assumes "length (bp_map p) = MAX_CHANS" and "unat (bp_nchans p) + n \<le> MAX_CHANS"
  shows "\<exists>slots. map_channels b n p = Some (p\<lparr>bp_map := slots, bp_nchans := bp_nchans p + of_nat n\<rparr>) \<and>
    length slots = MAX_CHANS \<and>
    (\<forall>k<MAX_CHANS. slots ! k = (if unat (bp_nchans p) \<le> k \<and> k < unat (bp_nchans p) + n then Some b else bp_map p ! k))"
  using assms
proof (induction n arbitrary: p)
  case 0
  then show ?case by (intro exI[of _ "bp_map p"]) auto
next
  case (Suc n)
  let ?N = "unat (bp_nchans p)"
  let ?p = "p\<lparr>bp_map := (bp_map p)[?N := Some b], bp_nchans := bp_nchans p + 1\<rparr>"
  have next_slot: "unat (bp_nchans p + 1) = ?N + 1" using Suc.prems(2) by (simp add: unat_word_ariths)
  have "length (bp_map ?p) = MAX_CHANS" "unat (bp_nchans ?p) + n \<le> MAX_CHANS"
    using Suc.prems by (simp_all add: next_slot)
  from Suc.IH[OF this] obtain slots where
    "map_channels b n ?p = Some (?p\<lparr>bp_map := slots, bp_nchans := bp_nchans ?p + of_nat n\<rparr>)" "length slots = MAX_CHANS"
    "\<forall>k<MAX_CHANS. slots ! k =
       (if unat (bp_nchans ?p) \<le> k \<and> k < unat (bp_nchans ?p) + n then Some b else bp_map ?p ! k)" by blast
  then show ?case
    using Suc.prems by (intro exI[of _ slots]) (auto simp: next_slot store_nth_def nth_list_update add.assoc)
qed

lemma no_slot_left:
  assumes "length (bp_map p) = MAX_CHANS" and "unat (bp_nchans p) \<le> MAX_CHANS" and "MAX_CHANS < unat (bp_nchans p) + n"
  shows "map_channels b n p = None"
  using assms
proof (induction n arbitrary: p)
  case (Suc n)
  show ?case
  proof (cases "unat (bp_nchans p) = MAX_CHANS")
    case True
    then show ?thesis using Suc.prems(1) by (simp add: store_nth_def)
  next
    case False
    then have "unat (bp_nchans p) < MAX_CHANS" using Suc.prems(2) by simp
    moreover from this have "unat (bp_nchans p + 1) = unat (bp_nchans p) + 1" by (simp add: unat_word_ariths)
    ultimately show ?thesis using Suc.prems by (auto simp: store_nth_def intro!: Suc.IH)
  qed
qed simp

text \<open>What becomes of a subdevice with channels once memory has been found for it.\<close>

lemma bonded_subdevice:
  assumes wf: "bond_wf p" and x: "subd dev (unat sdev) = Some s" "0 < sint (sd_n_chan s)"
    and mem: "be_device env (length (bp_devs p))" "be_list env (length (bp_devs p))"
  shows "if row_length (bp_devs p) + unat (sd_n_chan s) \<le> MAX_CHANS
    then \<exists>p'. bond_subdev env own minor d dev sdev p = Some (True, p') \<and> bond_wf p' \<and>
      (\<exists>b. bp_devs p' = bp_devs p @ [b] \<and> bd_dev b = d \<and> bd_minor b = minor \<and> bd_subdev b = sdev \<and>
        bd_nchans b = sd_n_chan s)
    else bond_subdev env own minor d dev sdev p = None"
proof -
  define b where "b = \<lparr>bd_dev = d, bd_minor = minor, bd_subdev = sdev, bd_subdev_type = subd_type_code COMEDI_SUBD_DIO,
               bd_nchans = sd_n_chan s, bd_chanid_offset = bp_nchans p\<rparr>"
  let ?n = "unat (sd_n_chan s)" and ?N = "row_length (bp_devs p)"
  have "sint (sd_n_chan s) = int ?n"
  proof (cases "?n < 2147483648")
    case False
    then have "sint (sd_n_chan s) = int ?n - 4294967296" by (simp only: sint_u32 if_False)
    then show ?thesis using x(2) unat_u32_less[of "sd_n_chan s"] by linarith
  qed (simp only: sint_u32 if_True)
  then have n: "nat (sint (sd_n_chan s)) = ?n" "0 < ?n" using x(2) by linarith+
  from wf have p: "length (bp_map p) = MAX_CHANS" "unat (bp_nchans p) = ?N" "?N \<le> MAX_CHANS"
    by (simp_all add: bond_wf_def)
  have run: "bond_subdev env own minor d dev sdev p = do {
      p \<leftarrow> map_channels b ?n p;
      if \<not> be_list env (length (bp_devs p)) then Some (False, p\<lparr>bp_devs := []\<rparr>)
      else Some (True, p\<lparr>bp_devs := bp_devs p @ [b], bp_name := bond_name own sdev (bp_name p)\<rparr>)
    }"
    unfolding bond_subdev_def comedi_get_n_channels_def b_def using x mem(1) by (simp add: n Let_def cong: if_cong)
  show ?thesis
  proof (cases "?N + ?n \<le> MAX_CHANS")
    case True
    with slots_taken[of p ?n b] p obtain slots where
      run': "map_channels b ?n p = Some (p\<lparr>bp_map := slots, bp_nchans := bp_nchans p + of_nat ?n\<rparr>)"
      and slots: "length slots = MAX_CHANS"
        "\<And>k. k < MAX_CHANS \<Longrightarrow> slots ! k = (if ?N \<le> k \<and> k < ?N + ?n then Some b else bp_map p ! k)"
      by auto
    define q where "q = p\<lparr>bp_map := slots, bp_nchans := bp_nchans p + of_nat ?n, bp_devs := bp_devs p @ [b],
      bp_name := bond_name own sdev (bp_name p)\<rparr>"
    have "unat (bp_nchans p + of_nat ?n) = ?N + ?n" using True by (simp add: unat_word_ariths p(2))
    moreover have "\<exists>b' c. channel_of (bp_devs p @ [b]) k = Some (b', c) \<and> slots ! k = Some b' \<and>
        k = unat (bd_chanid_offset b') + c" if "k < ?N + ?n" for k
    proof (cases "k < ?N")
      case True
      then show ?thesis using wf that \<open>?N + ?n \<le> MAX_CHANS\<close>
        by (auto simp: channel_of_append slots(2) bond_wf_def)
    next
      case False
      then show ?thesis using that \<open>?N + ?n \<le> MAX_CHANS\<close>
        by (auto simp: channel_of_append slots(2) b_def p(2))
    qed
    ultimately have "bond_wf q"
      using True slots(1) n(2) wf by (auto simp: bond_wf_def q_def b_def)
    moreover have "bond_subdev env own minor d dev sdev p = Some (True, q)"
      using mem(2) by (simp add: run run' q_def)
    ultimately show ?thesis using True by (auto simp: q_def b_def)
  next
    case False
    then have "map_channels b ?n p = None" using p by (intro no_slot_left) simp_all
    then show ?thesis using False by (simp add: run)
  qed
qed

lemma map_channels_devs: "map_channels b n p = Some q \<Longrightarrow> bp_devs q = bp_devs p"
  by (induction n arbitrary: p) (auto elim!: bind_SomeE)

lemma bond_subdev_keeps:
  assumes wf: "bond_wf p" and run: "bond_subdev env own minor d dev sdev p = Some (True, p')"
  shows "bond_wf p'"
proof -
  from run obtain s q where s: "subd dev (unat sdev) = Some s" "0 < sint (sd_n_chan s)" "be_device env (length (bp_devs p))"
    and q: "\<exists>b. map_channels b (nat (sint (sd_n_chan s))) p = Some q" "be_list env (length (bp_devs q))"
    by (fastforce simp: bond_subdev_def comedi_get_n_channels_def Let_def not_le split: if_splits elim!: bind_SomeE)
  from q have "be_list env (length (bp_devs p))" by (auto simp: map_channels_devs)
  from bonded_subdevice[OF wf s this, where own = own and minor = minor and d = d] run show ?thesis
    by (auto split: if_splits)
qed

lemma bond_subdevs_keep:
  "bond_wf p \<Longrightarrow> bond_subdevs env own minor d dev sub p = Some (True, p') \<Longrightarrow> bond_wf p'"
proof (induction env own minor d dev sub p rule: bond_subdevs.induct)
  case (1 env own minor d dev sub p)
  let ?sdev = "comedi_find_subdevice_by_type dev (subd_type_code COMEDI_SUBD_DIO) sub"
  show ?case
  proof (cases "?sdev \<le> - 1")
    case True
    then show ?thesis using 1(2,3) by (simp add: bond_subdevs.simps)
  next
    case False
    then obtain q where q: "bond_subdev env own minor d dev (of_int ?sdev) p = Some (True, q)"
      and rest: "bond_subdevs env own minor d dev (of_int ?sdev + 1) q = Some (True, p')"
      using 1(3) by (subst (asm) bond_subdevs.simps) (auto simp: Let_def split: option.splits bool.splits if_splits)
    from 1(1)[OF refl _ q _ _ bond_subdev_keeps[OF 1(2) q] rest] False show ?thesis by simp
  qed
qed

lemma bond_options_keep:
  "bond_wf p \<Longrightarrow> bond_options env own first opened minors w p = Some (True, w', p') \<Longrightarrow> bond_wf p'"
  for w :: "('p, 'h) comedi_state"
proof (induction minors arbitrary: first opened w p)
  case (Cons minor minors)
  show ?case
  proof (cases "\<not> first \<and> minor = 0")
    case False
    with Cons.prems(2) obtain d u q and board :: "('p, 'h) comedi_device" where
      "bond_subdevs env own minor d board 0 p = Some (True, q)"
      "bond_options env own False (minor # opened) minors u q = Some (True, w', p')"
      by (fastforce split: if_splits option.splits elim!: bind_SomeE)
    then show ?thesis using Cons.IH bond_subdevs_keep[OF Cons.prems(1)] by blast
  qed (use Cons.prems in simp)
qed simp

lemma bond_wf_renamed [simp]: "bond_wf (p\<lparr>bp_name := nm\<rparr>) = bond_wf p"
  by (simp add: bond_wf_def)

lemma bond_wf_zero: "bond_wf zero_bond_private"
  by (simp add: bond_wf_def zero_bond_private_def)

section \<open>Claims\<close>

text \<open>
  C21. The bits instruction of a bonding device on boards with an 8255: it succeeds, and each channel of the row
  whose bit is in the mask takes the value given, on whichever board it is, while all others, also those beyond
  the 32 that an instruction can name, keep theirs.
\<close>

theorem bonded_row_written:
  assumes "subd dev i = Some s" and "dv_private dev = Some p" and "insn_n insn = 2"
    and "row_ready usable_8255 (dv_hw dev) (bp_devs p)" and "unat (bp_nchans p) = row_length (bp_devs p)"
  shows "\<exists>dev' w. bonding_dio_insn_bits (ops_8255 io free mem ok) tv dev i insn [m, v] = Some (2, dev', insn, [m, w]) \<and>
    dv_private dev' = Some p \<and> row_ready usable_8255 (dv_hw dev') (bp_devs p) \<and>
    (\<forall>k<row_length (bp_devs p). row_bit latched_8255 (dv_hw dev') (bp_devs p) k =
       (if bit m k then Some (bit v k) else row_bit latched_8255 (dv_hw dev) (bp_devs p) k))"
  using assms by (rule bond_8255.bits_instruction)

text \<open>
  C22. What a successful attach of the bonding driver leaves is well-formed: the row has at least one and at most
  256 channels, all of which the subdevice offers; each slot of the map is the bonded subdevice that the channel
  belongs to, and the channel's number is that subdevice's offset plus a channel of it.
\<close>

theorem bond_attach_wf:
  assumes "bonding_attach env dev it = Some (1, dev')"
  shows "\<exists>p s. dv_private dev' = Some p \<and> bond_wf p \<and> 0 < row_length (bp_devs p) \<and> subd dev' 0 = Some s \<and>
    unat (sd_n_chan s) = row_length (bp_devs p) \<and> dv_n_subdevices dev' = 1"
proof -
  from assms obtain p q w where run: "bond_options env (dv_minor dev) True [] (dc_options it) (dv_hw dev)
      (zero_bond_private\<lparr>bp_name := ''''\<rparr>) = Some (True, w, p)" and n: "bp_nchans p \<noteq> 0"
    and dev': "dv_private dev' = Some p" "\<exists>s. subd dev' 0 = Some s \<and> sd_n_chan s = bp_nchans p" "dv_n_subdevices dev' = 1"
    by (auto simp: bonding_attach_def alloc_private_def doDevConfig_def alloc_subdevices_def Let_def
        split: if_splits elim!: bind_SomeE)
  have wf: "bond_wf p" using bond_options_keep[OF _ run] bond_wf_zero by simp
  then have "0 < row_length (bp_devs p)" "unat (bp_nchans p) = row_length (bp_devs p)"
    using n by (auto simp: bond_wf_def unat_gt_0[symmetric])
  then show ?thesis using wf dev' by auto
qed

text \<open>
  The configuration of a channel of the row reaches the channel of the board that it stands for, and the
  bonding device remembers the direction only when the board has taken it.
\<close>

theorem bond_config_routed:
  assumes s: "subd dev i = Some s" and p: "dv_private dev = Some p" "bond_wf p"
    and chan: "unat (CR_CHAN (insn_chanspec insn)) < row_length (bp_devs p)"
    and at: "channel_of (bp_devs p) (unat (CR_CHAN (insn_chanspec insn))) = Some (b, c)"
    and op: "op \<in> {INSN_CONFIG_DIO_INPUT, INSN_CONFIG_DIO_OUTPUT}"
    and board: "cs_devices (dv_hw dev) (bd_dev b) = Some board"
    and call: "comedi_dio_config ops (bd_dev b) tv board (bd_subdev b) (of_nat c)
        (if op = INSN_CONFIG_DIO_OUTPUT then COMEDI_OUTPUT else COMEDI_INPUT) = Some (ret, x, board')"
  shows "\<exists>dev'. bonding_dio_insn_config ops tv dev i insn [op] =
      Some (if ret = 1 then sint (insn_n insn) else - EINVAL, dev', insn, [op]) \<and>
    dv_hw dev' = put_dev (bd_dev b) board' (dv_hw dev) \<and>
    map_option sd_io_bits (subd dev' i) = Some (if ret \<noteq> 1 then sd_io_bits s
      else if op = INSN_CONFIG_DIO_OUTPUT then sd_io_bits s OR bit32 (CR_CHAN (insn_chanspec insn))
      else sd_io_bits s AND NOT (bit32 (CR_CHAN (insn_chanspec insn))))"
proof -
  let ?chan = "CR_CHAN (insn_chanspec insn)"
  from p(2) chan at have slot: "load_nth (bp_map p) (unat ?chan) = Some (Some b)"
    and num: "unat ?chan = unat (bd_chanid_offset b) + c" and below: "\<not> bp_nchans p \<le> ?chan"
    by (fastforce simp: bond_wf_def word_le_nat_alt)+
  have "?chan = of_nat (unat ?chan)" by simp
  also have "\<dots> = bd_chanid_offset b + of_nat c" by (simp only: num of_nat_add) simp
  finally have real: "?chan - bd_chanid_offset b = of_nat c" by simp
  have ops: "INSN_CONFIG_DIO_INPUT \<noteq> INSN_CONFIG_DIO_OUTPUT" "INSN_CONFIG_DIO_OUTPUT \<noteq> INSN_CONFIG_DIO_QUERY"
    "INSN_CONFIG_DIO_INPUT \<noteq> INSN_CONFIG_DIO_QUERY" by (simp_all add: INSN_CONFIG_defs)
  define io where "io = (if op = INSN_CONFIG_DIO_OUTPUT then sd_io_bits s OR bit32 ?chan else sd_io_bits s AND NOT (bit32 ?chan))"
  define e where "e = dev\<lparr>dv_hw := put_dev (bd_dev b) board' (dv_hw dev)\<rparr>"
  have "bonding_dio_insn_config ops tv dev i insn [op] =
      (if ret \<noteq> 1 then Some (- EINVAL, e, insn, [op])
       else Some (sint (insn_n insn), set_subd i (s\<lparr>sd_io_bits := io\<rparr>) e, insn, [op]))"
    unfolding io_def e_def using s p(1) slot below real board call ops op
    by (auto simp: bonding_dio_insn_config_def Let_def)
  moreover have "subd e i = Some s" "dv_hw e = put_dev (bd_dev b) board' (dv_hw dev)"
    using s by (simp_all add: e_def subd_def)
  ultimately show ?thesis by (cases "ret = 1") (auto simp: io_def)
qed

text \<open>
  A board without digital subdevices is opened but not remembered: bonding it fails, and the detach routine
  that the core then runs does not close it. Its driver's module is left with one reference too many.
\<close>

theorem bond_leaks_reference:
  assumes "dc_options it = [minor]" and "unat minor < COMEDI_NUM_BOARD_MINORS" and "int (unat minor) \<noteq> dv_minor dev"
    and "comedi_get_device_file_info (dv_hw dev) (unat minor) = Some (Some info)"
    and "cs_devices (dv_hw dev) (fi_device info) = Some board" and "dv_attached board"
    and "dv_driver board = Some drv" and "be_live env (drv_module drv)" and "be_private env"
    and "comedi_find_subdevice_by_type board (subd_type_code COMEDI_SUBD_DIO) 0 \<le> - 1"
  shows "\<exists>dev' dev''. bonding_attach env dev it = Some (- EINVAL, dev') \<and> bonding_detach dev' = Some (0, dev'') \<and>
    cs_refs (dv_hw dev'') (drv_module drv) = cs_refs (dv_hw dev) (drv_module drv) + 1"
proof -
  have signed: "sint minor = int (unat minor)"
    using assms(2) by (simp only: sint_u32 COMEDI_NUM_BOARD_MINORS_def) (simp split: if_splits)
  then have small: "\<not> minor <s 0" "sint minor < int COMEDI_NUM_BOARD_MINORS" "sint minor \<noteq> dv_minor dev"
    using assms(2,3) by (simp_all only: word_sless_alt signed) simp_all
  let ?w = "module_get (drv_module drv) (dv_hw dev)"
  have "klib_open (be_live env) (dv_hw dev) (''/dev/comedi'' @ decimal (sint minor)) minor = Some (Some (fi_device info), ?w)"
    using assms(2,4-8) by (simp add: klib_open_def)
  moreover have "cs_devices ?w = cs_devices (dv_hw dev)" by (simp add: module_get_def)
  moreover have "bond_subdevs env own minor d board 0 p = Some (True, p)" for own d p
    using assms(10) by (simp add: bond_subdevs.simps)
  ultimately have options: "bond_options env (dv_minor dev) True [] [minor] (dv_hw dev) p = Some (True, ?w, p)" for p
    using assms(5) small by simp
  have "zero_bond_private\<lparr>bp_name := []\<rparr> = zero_bond_private" "bp_nchans zero_bond_private = 0"
    by (simp_all add: zero_bond_private_def)
  with options have "doDevConfig env (dev\<lparr>dv_private := Some zero_bond_private\<rparr>) it =
      Some (False, dev\<lparr>dv_private := Some zero_bond_private, dv_hw := ?w\<rparr>)"
    using assms(1) by (simp add: doDevConfig_def del: bond_options.simps)
  then have "bonding_attach env dev it = Some (- EINVAL, dev\<lparr>dv_private := Some zero_bond_private, dv_hw := ?w\<rparr>)"
    using assms(9) by (simp add: bonding_attach_def alloc_private_def)
  moreover have "bonding_detach (dev\<lparr>dv_private := Some zero_bond_private, dv_hw := ?w\<rparr>) =
      Some (0, dev\<lparr>dv_hw := ?w, dv_private := None\<rparr>)"
    by (simp add: bonding_detach_def doDevUnconfig_def zero_bond_private_def)
  ultimately show ?thesis by (simp add: module_get_def)
qed

text \<open>More than 256 channels: the map is written beyond its end.\<close>

lemma bond_map_overflows:
  assumes "bond_wf p" and "subd dev (unat sdev) = Some s" and "0 < sint (sd_n_chan s)"
    and "be_device env (length (bp_devs p))" and "be_list env (length (bp_devs p))"
    and "MAX_CHANS < row_length (bp_devs p) + unat (sd_n_chan s)"
  shows "bond_subdev env own minor d dev sdev p = None"
  using bonded_subdevice[OF assms(1-5), where own = own and minor = minor and d = d] assms(6) by simp

section \<open>Two boards\<close>

text \<open>Two boards with an 8255 at minors 0 and 1, a board without digital subdevices at minor 2.\<close>

definition bond_subd :: "subdev_8255 comedi_subdevice" where
  "bond_subd = dio_subd\<lparr>sd_maxdata := 1, sd_range_table := Some range_digital\<rparr>"

definition bond_board :: "bool \<Rightarrow> unit dio_device" where
  "bond_board digital = dio_dev\<lparr>dv_attached := True, dv_driver := Some driver_8255, dv_n_subdevices := 1,
     dv_subdevices := [if digital then bond_subd else zero_subd]\<rparr>"

definition bond_world :: "(subdev_8255, unit dio_hw) comedi_state" where
  "bond_world = \<lparr>cs_table = map (\<lambda>m. Some \<lparr>fi_device = m, fi_read_subdevice = None,
       fi_write_subdevice = None\<rparr>) [0, 1, 2] @ replicate 253 None,
     cs_devices = (\<lambda>d. if d < 3 then Some (bond_board (d < 2)) else None), cs_drivers = [driver_8255],
     cs_refs = (\<lambda>_. 0), cs_flow = \<lparr>pages_taken = [], pages_freed = []\<rparr>\<rparr>"

definition bonding_dev :: "(subdev_8255, unit dio_hw) bond_dev" where
  "bonding_dev = \<lparr>dv_use_count = 0, dv_driver = None, dv_private = None, dv_class_dev = False, dv_minor = 3,
     dv_hw_dev = None, dv_board_name = None, dv_board_ptr = None, dv_attached = False, dv_rt = False,
     dv_in_request_module = False, dv_n_subdevices = 0, dv_subdevices = [], dv_iobase = 0, dv_irq = 0,
     dv_read_subdev = None, dv_write_subdev = None, dv_open = None, dv_close = None, dv_hw = bond_world\<rparr>"

definition able_env :: bond_env where
  "able_env = \<lparr>be_live = \<lambda>_. True, be_private = True, be_subdevices = True, be_device = \<lambda>_. True, be_list = \<lambda>_. True\<rparr>"

definition bond_options_of :: "u32 list \<Rightarrow> comedi_devconfig" where
  "bond_options_of ms = \<lparr>dc_board_name = ''comedi_bond'', dc_options = ms\<rparr>"

lemma bonded: "\<exists>dev'. bonding_attach able_env bonding_dev (bond_options_of [0]) = Some (1, dev')"
proof -
  let ?p = "zero_bond_private\<lparr>bp_name := []\<rparr>"
  have board: "subd (bond_board True) (unat (0 :: u32)) = Some bond_subd" "sd_n_chan bond_subd = 24"
    "dv_n_subdevices (bond_board True) = 1" "dv_subdevices (bond_board True) = [bond_subd]"
    "sd_type bond_subd = COMEDI_SUBD_DIO" "dv_attached (bond_board True)" "dv_driver (bond_board True) = Some driver_8255"
    by (simp_all add: bond_board_def bond_subd_def dio_subd_def dio_dev_def subd_def)
  have env: "be_device able_env k" "be_list able_env k" "be_live able_env k" "be_private able_env" "be_subdevices able_env"
    for k by (simp_all add: able_env_def)
  have small: "row_length (bp_devs ?p) + unat (sd_n_chan bond_subd) \<le> MAX_CHANS"
    by (simp add: zero_bond_private_def board)
  have "bond_wf ?p" by (simp add: bond_wf_zero)
  from bonded_subdevice[OF this board(1) _ env(1,2), of 3 0 0] small board(2) obtain p b where
    p: "bond_subdev able_env 3 0 0 (bond_board True) 0 ?p = Some (True, p)" "bond_wf p" "bp_devs p = [b]"
      "bd_nchans b = 24"
    by (auto simp: zero_bond_private_def)
  have subs: "bond_subdevs able_env 3 0 0 (bond_board True) 0 ?p = Some (True, p)"
    using p(1) board by (simp add: bond_subdevs.simps comedi_find_subdevice_by_type_def)
  have "unat (bp_nchans p) = 24" using p(2-4) by (simp add: bond_wf_def)
  then have "bp_nchans p \<noteq> 0" by auto
  have "klib_open (be_live able_env) bond_world (''/dev/comedi'' @ decimal (sint (0 :: u32))) 0 =
      Some (Some 0, module_get (drv_module driver_8255) bond_world)"
    using board by (simp add: klib_open_def comedi_get_device_file_info_def bond_world_def COMEDI_MINOR_defs bug_on_def
        env load_nth_def)
  moreover have "cs_devices (module_get (drv_module driver_8255) bond_world) 0 = Some (bond_board True)"
    by (simp add: module_get_def bond_world_def)
  ultimately have "bond_options able_env 3 True [] [0] bond_world ?p =
      Some (True, module_get (drv_module driver_8255) bond_world, p)"
    using subs by (simp add: COMEDI_MINOR_defs)
  then show ?thesis
    using \<open>bp_nchans p \<noteq> 0\<close> env
    by (simp add: bonding_attach_def alloc_private_def doDevConfig_def bond_options_of_def bonding_dev_def
        alloc_subdevices_def subd_def Let_def del: bond_options.simps)
qed

theorem bond_attach_wf_witness:
  "\<exists>dev' p. bonding_attach able_env bonding_dev (bond_options_of [0]) = Some (1, dev') \<and>
    dv_private dev' = Some p \<and> bond_wf p"
proof -
  obtain dev' where "bonding_attach able_env bonding_dev (bond_options_of [0]) = Some (1, dev')"
    using bonded by blast
  with bond_attach_wf[OF this] show ?thesis by blast
qed

text \<open>The row of the two boards has 48 channels; channel 30 is channel 6 of the second board.\<close>

definition two_boards :: "bonded_device list" where
  "two_boards = [\<lparr>bd_dev = 0, bd_minor = 0, bd_subdev = 0, bd_subdev_type = 5, bd_nchans = 24, bd_chanid_offset = 0\<rparr>,
     \<lparr>bd_dev = 1, bd_minor = 1, bd_subdev = 0, bd_subdev_type = 5, bd_nchans = 24, bd_chanid_offset = 24\<rparr>]"

definition two_boards_private :: bond_private where
  "two_boards_private = \<lparr>bp_name = [], bp_devs = two_boards, bp_map = [], bp_nchans = 48\<rparr>"

definition bonded_dev :: "(subdev_8255, unit dio_hw) bond_dev" where
  "bonded_dev = bonding_dev\<lparr>dv_private := Some two_boards_private, dv_n_subdevices := 1, dv_subdevices := [zero_subd]\<rparr>"

theorem bonded_row_written_witness:
  "\<exists>dev' w. bonding_dio_insn_bits (ops_8255 null_io (\<lambda>_. True) (\<lambda>_. None) True) (0, 0) bonded_dev 0
      (klib_insn INSN_BITS 2 0 0) [0x40000000, 0x40000000] =
        Some (2, dev', klib_insn INSN_BITS 2 0 0, [0x40000000, w]) \<and>
    row_bit latched_8255 (dv_hw dev') two_boards 30 = Some True"
proof -
  have ready: "usable_8255 (bond_board True) 0"
    by (simp add: usable_8255_def bond_board_def bond_subd_def dio_subd_def dio_dev_def subd_def check_chanlist_def
        range_digital_def bad_chanspec_def aref_invalid_def CR_CHAN_def CR_RANGE_def zero_subd_def Let_def)
  have row: "row_ready usable_8255 (dv_hw bonded_dev) two_boards"
    using ready by (simp add: row_ready_def two_boards_def bonded_line_def bonded_dev_def bonding_dev_def bond_world_def)
  have s: "subd bonded_dev 0 = Some zero_subd" by (simp add: bonded_dev_def subd_def)
  have p: "dv_private bonded_dev = Some two_boards_private" by (simp add: bonded_dev_def)
  have len: "unat (bp_nchans two_boards_private) = row_length (bp_devs two_boards_private)"
    by (simp add: two_boards_private_def two_boards_def)
  from bonded_row_written[OF s p _ _ len, of "klib_insn INSN_BITS 2 0 0" null_io "\<lambda>_. True" "\<lambda>_. None" True "(0, 0)"
      "0x40000000" "0x40000000"] row
  show ?thesis by (auto simp: klib_insn_def two_boards_private_def two_boards_def)
qed

theorem bond_leaks_reference_witness:
  "\<exists>dev' dev''. bonding_attach able_env bonding_dev (bond_options_of [2]) = Some (- EINVAL, dev') \<and>
    bonding_detach dev' = Some (0, dev'') \<and>
    cs_refs (dv_hw dev'') (drv_module driver_8255) = cs_refs (dv_hw bonding_dev) (drv_module driver_8255) + 1"
  by (rule bond_leaks_reference[where minor = 2 and board = "bond_board False" and env = able_env
        and info = "\<lparr>fi_device = 2, fi_read_subdevice = None, fi_write_subdevice = None\<rparr>"])
    (simp_all add: bond_options_of_def bonding_dev_def bond_world_def bond_board_def dio_dev_def able_env_def zero_subd_def
      comedi_get_device_file_info_def comedi_find_subdevice_by_type_def COMEDI_MINOR_defs bug_on_def)

end
