(* ===== verification/Port_Io.thy ===== *)
theory Port_Io
  imports Bits_Interface "HOL-Library.State_Monad"
begin

text \<open>
  How the drivers reach their registers, and what their bits instructions have in common. A board is a bus with
  a state \<open>'x\<close> of its own, which is kept in the device; \<open>Port\<close> is the address space of \<open>inb\<close> and \<open>outb\<close>, \<open>Mem\<close>
  the one of \<open>readb\<close> and \<open>writeb\<close>. The bus is an argument of every handler.
\<close>

unbundle bit_operations_syntax

section \<open>The bus\<close>

datatype width = W8 | W16 | W32

datatype addr = Port u64 | Mem u64

record 'x bus =
  bus_in :: "width \<Rightarrow> addr \<Rightarrow> 'x \<Rightarrow> u32 \<times> 'x"
  bus_out :: "width \<Rightarrow> addr \<Rightarrow> u32 \<Rightarrow> 'x \<Rightarrow> 'x"

fun trunc :: "width \<Rightarrow> u32 \<Rightarrow> u32" where
  "trunc W8 v = v AND 0xff"
| "trunc W16 v = v AND 0xffff"
| "trunc W32 v = v"

type_synonym ('x, 'a) io = "('x, 'a) state"

abbreviation give :: "'a \<Rightarrow> ('x, 'a) io" where "give \<equiv> State_Monad.return"

definition reg_in :: "width \<Rightarrow> 'x bus \<Rightarrow> addr \<Rightarrow> ('x, u32) io" where
  "reg_in w bus a = State (\<lambda>x. (trunc w (fst (bus_in bus w a x)), snd (bus_in bus w a x)))"

definition reg_out :: "width \<Rightarrow> 'x bus \<Rightarrow> u32 \<Rightarrow> addr \<Rightarrow> ('x, unit) io" where
  "reg_out w bus v a = State (\<lambda>x. ((), bus_out bus w a (trunc w v) x))"

definition inb :: "'x bus \<Rightarrow> u64 \<Rightarrow> ('x, u32) io" where "inb bus a = reg_in W8 bus (Port a)"
definition inw :: "'x bus \<Rightarrow> u64 \<Rightarrow> ('x, u32) io" where "inw bus a = reg_in W16 bus (Port a)"
definition inl :: "'x bus \<Rightarrow> u64 \<Rightarrow> ('x, u32) io" where "inl bus a = reg_in W32 bus (Port a)"
definition outb :: "'x bus \<Rightarrow> u32 \<Rightarrow> u64 \<Rightarrow> ('x, unit) io" where "outb bus v a = reg_out W8 bus v (Port a)"
definition outw :: "'x bus \<Rightarrow> u32 \<Rightarrow> u64 \<Rightarrow> ('x, unit) io" where "outw bus v a = reg_out W16 bus v (Port a)"
definition outl :: "'x bus \<Rightarrow> u32 \<Rightarrow> u64 \<Rightarrow> ('x, unit) io" where "outl bus v a = reg_out W32 bus v (Port a)"
definition readb :: "'x bus \<Rightarrow> u64 \<Rightarrow> ('x, u32) io" where "readb bus a = reg_in W8 bus (Mem a)"
definition readw :: "'x bus \<Rightarrow> u64 \<Rightarrow> ('x, u32) io" where "readw bus a = reg_in W16 bus (Mem a)"
definition readl :: "'x bus \<Rightarrow> u64 \<Rightarrow> ('x, u32) io" where "readl bus a = reg_in W32 bus (Mem a)"
definition writeb :: "'x bus \<Rightarrow> u32 \<Rightarrow> u64 \<Rightarrow> ('x, unit) io" where "writeb bus v a = reg_out W8 bus v (Mem a)"
definition writew :: "'x bus \<Rightarrow> u32 \<Rightarrow> u64 \<Rightarrow> ('x, unit) io" where "writew bus v a = reg_out W16 bus v (Mem a)"
definition writel :: "'x bus \<Rightarrow> u32 \<Rightarrow> u64 \<Rightarrow> ('x, unit) io" where "writel bus v a = reg_out W32 bus v (Mem a)"

definition io_if :: "bool \<Rightarrow> ('x, unit) io \<Rightarrow> ('x, unit) io" where
  "io_if b io = (if b then io else give ())"

fun io_all :: "('a \<Rightarrow> ('x, unit) io) \<Rightarrow> 'a list \<Rightarrow> ('x, unit) io" where
  "io_all f [] = give ()"
| "io_all f (y # ys) = do { f y; io_all f ys }"

named_theorems io_defs

lemmas [io_defs] = inb_def inw_def inl_def outb_def outw_def outl_def readb_def readw_def readl_def
  writeb_def writew_def writel_def reg_in_def reg_out_def io_if_def

text \<open>The error of a board that does not answer in time.\<close>

abbreviation ETIME :: int where "ETIME \<equiv> 62"

section \<open>The bits instruction\<close>

type_synonym ('p, 'x) insn_handler =
  "('p, 'x) comedi_device \<Rightarrow> nat \<Rightarrow> comedi_insn \<Rightarrow> lsampl_t list \<Rightarrow> ('p, 'x) insn_result"

text \<open>The channels of the mask take the given bits.\<close>

definition merge :: "u32 \<Rightarrow> u32 \<Rightarrow> u32 \<Rightarrow> u32" where
  "merge m b st = (st AND NOT m) OR (m AND b)"

definition merged :: "u32 \<Rightarrow> u32 \<Rightarrow> u32 \<Rightarrow> u32" where
  "merged m b st = (if m \<noteq> 0 then merge m b st else st)"

definition checked :: "('p, 'x) insn_handler \<Rightarrow> ('p, 'x) insn_handler" where
  "checked h dev i insn data = (if insn_n insn \<noteq> 2 then Some (- EINVAL, dev, insn, data) else h dev i insn data)"

text \<open>
  A handler that keeps the outputs in the subdevice: \<open>f dev s state mask bits\<close> yields the new state and the two
  samples that go back. \<open>priv_bits\<close> keeps them in the private data of the driver, which is there.
\<close>

type_synonym 'x bits_body = "u32 \<Rightarrow> u32 \<Rightarrow> u32 \<Rightarrow> ('x, u32 \<times> u32 \<times> u32) io"

definition state_bits ::
  "(('p, 'x) comedi_device \<Rightarrow> 'p comedi_subdevice \<Rightarrow> 'x bits_body) \<Rightarrow> ('p, 'x) insn_handler" where
  "state_bits f dev i insn data =
     do {
       s \<leftarrow> subd dev i;
       m \<leftarrow> load_nth data 0;
       b \<leftarrow> load_nth data 1;
       case run_state (f dev s (sd_state s) m b) (dv_hw dev) of ((st, m', b'), x) \<Rightarrow>
         Some (2, set_subd i (s\<lparr>sd_state := st\<rparr>) (dev\<lparr>dv_hw := x\<rparr>), insn, data[0 := m', 1 := b'])
     }"

definition priv_bits ::
  "('p \<Rightarrow> u32) \<Rightarrow> (u32 \<Rightarrow> 'p \<Rightarrow> 'p) \<Rightarrow> (('p, 'x) comedi_device \<Rightarrow> 'p comedi_subdevice \<Rightarrow> 'x bits_body) \<Rightarrow>
    ('p, 'x) insn_handler" where
  "priv_bits get put f dev i insn data =
     do {
       s \<leftarrow> subd dev i;
       p \<leftarrow> dv_private dev;
       m \<leftarrow> load_nth data 0;
       b \<leftarrow> load_nth data 1;
       case run_state (f dev s (get p) m b) (dv_hw dev) of ((st, m', b'), x) \<Rightarrow>
         Some (2, dev\<lparr>dv_hw := x, dv_private := Some (put st p)\<rparr>, insn, data[0 := m', 1 := b'])
     }"

text \<open>A handler that only reads: what it reads goes back, nothing is kept.\<close>

definition input_bits ::
  "(('p, 'x) comedi_device \<Rightarrow> 'p comedi_subdevice \<Rightarrow> ('x, u32) io) \<Rightarrow> ('p, 'x) insn_handler" where
  "input_bits f = state_bits (\<lambda>dev s st m b. do { v \<leftarrow> f dev s; give (st, m, v) })"

definition input_bits_no_mask ::
  "(('p, 'x) comedi_device \<Rightarrow> 'p comedi_subdevice \<Rightarrow> ('x, u32) io) \<Rightarrow> ('p, 'x) insn_handler" where
  "input_bits_no_mask f = state_bits (\<lambda>dev s st m b. do { v \<leftarrow> f dev s; give (st, 0, v) })"

definition returns_n :: "('p, 'x) insn_handler \<Rightarrow> ('p, 'x) insn_handler" where
  "returns_n h dev i insn data =
     do { (r, dev, insn, data) \<leftarrow> h dev i insn data; Some (if r < 0 then r else sint (insn_n insn), dev, insn, data) }"

text \<open>The structure behind the private pointer of a subdevice, and the pointer used as a number.\<close>

definition with_private :: "('p \<Rightarrow> ('p, 'x) insn_handler) \<Rightarrow> ('p, 'x) insn_handler" where
  "with_private h dev i insn data = do { s \<leftarrow> subd dev i; p \<leftarrow> sd_private s; h p dev i insn data }"

definition ulong_private :: "u64 comedi_subdevice \<Rightarrow> u64" where
  "ulong_private s = (case sd_private s of None \<Rightarrow> 0 | Some p \<Rightarrow> p)"

section \<open>Output registers\<close>

text \<open>
  A board whose registers hold what is written to them until the next write: \<open>reg\<close> is what the terminals show.
  \<open>shows ts r st\<close>: every register of \<open>ts\<close> shows its function of the state \<open>st\<close>.
\<close>

definition holding :: "'x bus \<Rightarrow> ('x \<Rightarrow> addr \<Rightarrow> u32) \<Rightarrow> bool" where
  "holding bus reg \<longleftrightarrow>
     (\<forall>w a x. reg (snd (bus_in bus w a x)) = reg x) \<and> (\<forall>w a v x. reg (bus_out bus w a v x) = (reg x)(a := v))"

type_synonym terminals = "(addr \<times> (u32 \<Rightarrow> u32)) list"

definition shows_state :: "terminals \<Rightarrow> (addr \<Rightarrow> u32) \<Rightarrow> u32 \<Rightarrow> bool" where
  "shows_state ts r st \<longleftrightarrow> (\<forall>(a, f) \<in> set ts. r a = f st)"

text \<open>
  The contract of an output: the masked channels within \<open>lim\<close> take the given bits, all others keep theirs, and
  the terminals go on showing the state.
\<close>

locale output_handler =
  fixes insn_bits :: "'x bus \<Rightarrow> ('p, 'x) insn_handler"
    and lim :: "'p comedi_subdevice \<Rightarrow> u32"
    and terminals :: "('p, 'x) comedi_device \<Rightarrow> 'p comedi_subdevice \<Rightarrow> terminals"
  assumes sets: "subd dev i = Some s \<Longrightarrow> insn_n insn = 2 \<Longrightarrow> holding bus reg \<Longrightarrow>
    shows_state (terminals dev s) (reg (dv_hw dev)) (sd_state s) \<Longrightarrow>
    \<exists>x m' w. insn_bits bus dev i insn [m, b] =
      Some (2, set_subd i (s\<lparr>sd_state := merge (m AND lim s) b (sd_state s)\<rparr>) (dev\<lparr>dv_hw := x\<rparr>), insn, [m', w]) \<and>
      shows_state (terminals dev s) (reg x) (merge (m AND lim s) b (sd_state s)) \<and> (lim s = - 1 \<longrightarrow> m' = m)"
    and terminals_fixed: "terminals (set_subd i (s\<lparr>sd_state := st\<rparr>) (dev\<lparr>dv_hw := x\<rparr>)) (s\<lparr>sd_state := st\<rparr>) =
      terminals dev s"
    and lim_fixed: "lim (s\<lparr>sd_state := st\<rparr>) = lim s"

section \<open>Facts for the contracts\<close>

lemma bit_merge: "bit (merge m b st) n \<longleftrightarrow> (if bit m n then bit b n else bit st n)" for m b st :: u32
  by (auto simp: merge_def bit_simps dest: bit_imp_le_length)

lemma merge_no_mask [simp]: "merge 0 b st = st"
  by (simp add: merge_def)

lemma merged_eq [simp]: "merged m b st = merge m b st"
  by (simp add: merged_def)

lemma disjoint_bits: "m AND k = 0 \<longleftrightarrow> (\<forall>n. bit m n \<longrightarrow> \<not> bit k n)" for m k :: u32
proof -
  have "bit m n \<Longrightarrow> n < 32" for n using bit_imp_le_length[of m n] by simp
  then show ?thesis by (auto simp: bit_eq_iff bit_simps)
qed

lemma merge_kept: "m AND k = 0 \<Longrightarrow> merge m b st AND k = st AND k"
  by (rule bit_eqI) (auto simp: bit_simps bit_merge disjoint_bits)

text \<open>A byte that the mask does not touch keeps its value.\<close>

lemma byte_kept:
  "m AND 0xff = 0 \<Longrightarrow> merge m b st AND 0xff = st AND 0xff"
  "m AND 0xff00 = 0 \<Longrightarrow> drop_bit 8 (merge m b st) AND 0xff = drop_bit 8 st AND 0xff"
  "m AND 0xff0000 = 0 \<Longrightarrow> drop_bit 16 (merge m b st) AND 0xff = drop_bit 16 st AND 0xff"
  "m AND 0xff000000 = 0 \<Longrightarrow> drop_bit 24 (merge m b st) AND 0xff = drop_bit 24 st AND 0xff"
proof -
  have shift: "drop_bit k x AND 0xff = drop_bit k (x AND push_bit k 0xff)" for k and x :: u32
    by (rule bit_eqI) (auto simp: bit_simps dest: bit_imp_le_length)
  have moved: "m AND push_bit k 0xff = 0 \<Longrightarrow> drop_bit k (merge m b st) AND 0xff = drop_bit k st AND 0xff" for k
    unfolding shift by (simp only: merge_kept)
  show "m AND 0xff = 0 \<Longrightarrow> merge m b st AND 0xff = st AND 0xff"
    "m AND 0xff00 = 0 \<Longrightarrow> drop_bit 8 (merge m b st) AND 0xff = drop_bit 8 st AND 0xff"
    "m AND 0xff0000 = 0 \<Longrightarrow> drop_bit 16 (merge m b st) AND 0xff = drop_bit 16 st AND 0xff"
    "m AND 0xff000000 = 0 \<Longrightarrow> drop_bit 24 (merge m b st) AND 0xff = drop_bit 24 st AND 0xff"
    using moved[of 0] moved[of 8] moved[of 16] moved[of 24] by simp_all
qed

lemma byte_kept_drop:
  assumes "drop_bit k m AND 0xff = 0"
  shows "drop_bit k (merge m b st) AND 0xff = drop_bit k st AND 0xff"
proof -
  have "drop_bit k (merge m b st) = merge (drop_bit k m) (drop_bit k b) (drop_bit k st)"
    by (rule bit_eqI) (auto simp: bit_simps bit_merge dest: bit_imp_le_length)
  then show ?thesis using assms by (simp add: merge_kept)
qed

lemma inverted_byte: "(x XOR 0xff) AND 0xff = (x AND 0xff) XOR 0xff" for x :: u32
  by (rule bit_eqI) (auto simp: bit_simps)

text \<open>Several registers written one after the other.\<close>

lemma io_all_kept:
  assumes "holding bus reg" and "a \<notin> adr ` set is"
  shows "reg (snd (run_state (io_all (\<lambda>i. io_if (c i) (reg_out w bus (v i) (adr i))) is) x)) a = reg x a"
  using assms by (induction "is" arbitrary: x) (auto simp: reg_out_def io_if_def holding_def)

lemma io_all_shows:
  assumes "holding bus reg" and "distinct (map adr is)" and "i \<in> set is"
  shows "reg (snd (run_state (io_all (\<lambda>i. io_if (c i) (reg_out w bus (v i) (adr i))) is) x)) (adr i) =
    (if c i then trunc w (v i) else reg x (adr i))"
  using assms
proof (induction "is" arbitrary: x)
  case (Cons j "is")
  show ?case
  proof (cases "i \<in> set is")
    case True
    then have "adr i \<noteq> adr j" using Cons.prems(2) by (auto simp: image_iff)
    then show ?thesis using Cons True by (auto simp: reg_out_def io_if_def holding_def)
  next
    case False
    then have "i = j" "adr j \<notin> adr ` set is" using Cons.prems by auto
    then show ?thesis using Cons.prems(1) io_all_kept[OF Cons.prems(1), of "adr j" adr "is" c w v]
      by (simp add: reg_out_def io_if_def holding_def)
  qed
qed simp

text \<open>A handler over the state of its subdevice keeps the contract if its body does.\<close>

definition body_sets ::
  "('x bus \<Rightarrow> ('p, 'x) comedi_device \<Rightarrow> 'p comedi_subdevice \<Rightarrow> 'x bits_body) \<Rightarrow> ('p comedi_subdevice \<Rightarrow> u32) \<Rightarrow>
    (('p, 'x) comedi_device \<Rightarrow> 'p comedi_subdevice \<Rightarrow> terminals) \<Rightarrow> bool" where
  "body_sets f lim terminals \<longleftrightarrow>
     (\<forall>bus (reg :: 'x \<Rightarrow> addr \<Rightarrow> u32) dev s st m b x. holding bus reg \<longrightarrow> shows_state (terminals dev s) (reg x) st \<longrightarrow>
       fst (fst (run_state (f bus dev s st m b) x)) = merge (m AND lim s) b st \<and>
       shows_state (terminals dev s) (reg (snd (run_state (f bus dev s st m b) x))) (merge (m AND lim s) b st) \<and>
       (lim s = - 1 \<longrightarrow> fst (snd (fst (run_state (f bus dev s st m b) x))) = m))"

lemma state_bits_output:
  assumes body: "body_sets f lim terminals"
    and h: "\<And>bus. h bus = checked (state_bits (f bus)) \<or> h bus = state_bits (f bus)"
    and fixed: "\<And>dev i s st x. terminals (set_subd i (s\<lparr>sd_state := st\<rparr>) (dev\<lparr>dv_hw := x\<rparr>)) (s\<lparr>sd_state := st\<rparr>) =
        terminals dev s"
      "\<And>s st. lim (s\<lparr>sd_state := st\<rparr>) = lim s"
  shows "output_handler h lim terminals"
proof
  fix dev :: "('b, 'a) comedi_device" and i s and insn :: comedi_insn and bus and reg :: "'a \<Rightarrow> addr \<Rightarrow> u32" and m b
  assume "subd dev i = Some s" and "insn_n insn = 2" and "holding bus reg"
    and "shows_state (terminals dev s) (reg (dv_hw dev)) (sd_state s)"
  moreover obtain st' m' w x where run: "run_state (f bus dev s (sd_state s) m b) (dv_hw dev) = ((st', m', w), x)"
    by (metis prod.exhaust)
  ultimately have "st' = merge (m AND lim s) b (sd_state s) \<and>
      shows_state (terminals dev s) (reg x) (merge (m AND lim s) b (sd_state s)) \<and> (lim s = - 1 \<longrightarrow> m' = m)"
    using body[unfolded body_sets_def, rule_format, of bus reg dev s "dv_hw dev" "sd_state s" m b] by simp
  moreover from this have "h bus dev i insn [m, b] =
      Some (2, set_subd i (s\<lparr>sd_state := merge (m AND lim s) b (sd_state s)\<rparr>) (dev\<lparr>dv_hw := x\<rparr>), insn, [m', w])"
    using h[of bus] \<open>subd dev i = Some s\<close> \<open>insn_n insn = 2\<close> run by (auto simp: checked_def state_bits_def)
  ultimately show "\<exists>x m' w. h bus dev i insn [m, b] =
      Some (2, set_subd i (s\<lparr>sd_state := merge (m AND lim s) b (sd_state s)\<rparr>) (dev\<lparr>dv_hw := x\<rparr>), insn, [m', w]) \<and>
      shows_state (terminals dev s) (reg x) (merge (m AND lim s) b (sd_state s)) \<and> (lim s = - 1 \<longrightarrow> m' = m)"
    by blast
qed (fact fixed)+

lemmas output_simps = body_sets_def holding_def shows_state_def io_defs Let_def byte_kept ulong_private_def set_subd_def
  split_beta

lemma state_outputI:
  assumes "\<And>bus. h bus = state_bits (f bus)" and "body_sets f lim terminals"
    and "\<And>dev i s st x. terminals (set_subd i (s\<lparr>sd_state := st\<rparr>) (dev\<lparr>dv_hw := x\<rparr>)) (s\<lparr>sd_state := st\<rparr>) =
        terminals dev s"
      "\<And>s st. lim (s\<lparr>sd_state := st\<rparr>) = lim s"
  shows "output_handler h lim terminals"
  using assms by (intro state_bits_output[of f]) auto

lemma checked_outputI:
  assumes "\<And>bus. h bus = checked (state_bits (f bus))" and "body_sets f lim terminals"
    and "\<And>dev i s st x. terminals (set_subd i (s\<lparr>sd_state := st\<rparr>) (dev\<lparr>dv_hw := x\<rparr>)) (s\<lparr>sd_state := st\<rparr>) =
        terminals dev s"
      "\<And>s st. lim (s\<lparr>sd_state := st\<rparr>) = lim s"
  shows "output_handler h lim terminals"
  using assms by (intro state_bits_output[of f]) auto

lemma returns_n_outputI:
  assumes "\<And>bus. h bus = returns_n (state_bits (f bus))" and "body_sets f lim terminals"
    and "\<And>dev i s st x. terminals (set_subd i (s\<lparr>sd_state := st\<rparr>) (dev\<lparr>dv_hw := x\<rparr>)) (s\<lparr>sd_state := st\<rparr>) =
        terminals dev s"
      "\<And>s st. lim (s\<lparr>sd_state := st\<rparr>) = lim s"
  shows "output_handler h lim terminals"
proof -
  have plain: "output_handler (\<lambda>bus. state_bits (f bus)) lim terminals"
    using assms(2-4) by (intro state_outputI[of _ f]) auto
  show ?thesis
  proof
    fix dev :: "('b, 'a) comedi_device" and i s and insn :: comedi_insn and bus and reg :: "'a \<Rightarrow> addr \<Rightarrow> u32" and m b
    assume a: "subd dev i = Some s" "insn_n insn = 2" "holding bus reg"
      "shows_state (terminals dev s) (reg (dv_hw dev)) (sd_state s)"
    from output_handler.sets[OF plain a, of m b] obtain x m' w where
      "state_bits (f bus) dev i insn [m, b] =
        Some (2, set_subd i (s\<lparr>sd_state := merge (m AND lim s) b (sd_state s)\<rparr>) (dev\<lparr>dv_hw := x\<rparr>), insn, [m', w])"
      "shows_state (terminals dev s) (reg x) (merge (m AND lim s) b (sd_state s)) \<and> (lim s = - 1 \<longrightarrow> m' = m)"
      by blast
    then show "\<exists>x m' w. h bus dev i insn [m, b] =
        Some (2, set_subd i (s\<lparr>sd_state := merge (m AND lim s) b (sd_state s)\<rparr>) (dev\<lparr>dv_hw := x\<rparr>), insn, [m', w]) \<and>
        shows_state (terminals dev s) (reg x) (merge (m AND lim s) b (sd_state s)) \<and> (lim s = - 1 \<longrightarrow> m' = m)"
      using \<open>insn_n insn = 2\<close> unfolding assms(1) returns_n_def by (intro exI[of _ x] exI[of _ m'] exI[of _ w]) simp
  qed (fact assms)+
qed

text \<open>All channels can be set.\<close>

definition all_channels :: "'p comedi_subdevice \<Rightarrow> u32" where "all_channels s = - 1"

lemma all_channels_simps [simp]: "all_channels s = - 1"
  by (simp add: all_channels_def)

end
