(* ===== verification/Digital_Outputs.thy ===== *)
theory Digital_Outputs
  imports Port_Io
begin

text \<open>
  The bits instructions of the boards with digital outputs. Most keep the outputs in the subdevice and write the
  registers that the mask touches; some write them all. Each is followed by its contract: which registers show
  which part of the state. A base address that the driver found when it attached is an argument where it is not
  the device's \<open>iobase\<close>.
\<close>

unbundle bit_operations_syntax

section \<open>Outputs that report their state\<close>

text \<open>\<open>acl7225b.c\<close>, \<open>pcl730.c\<close>: two bytes, at an offset kept in the private pointer of the subdevice.\<close>

definition acl7225b_do_insn :: "'x bus \<Rightarrow> (u64, 'x) insn_handler" where
  "acl7225b_do_insn bus = checked (state_bits (\<lambda>dev s st m b.
     let st = merged m b st; a = dv_iobase dev + ulong_private s in
     do {
       io_if (m AND 0x00ff \<noteq> 0) (outb bus (st AND 0xff) a);
       io_if (m AND 0xff00 \<noteq> 0) (outb bus (drop_bit 8 st) (a + 1));
       give (st, m, st)
     }))"

interpretation acl7225b: output_handler acl7225b_do_insn all_channels
  "\<lambda>dev s. let a = dv_iobase dev + ulong_private s in
     [(Port a, \<lambda>st. st AND 0xff), (Port (a + 1), \<lambda>st. drop_bit 8 st AND 0xff)]"
  by (rule checked_outputI[OF acl7225b_do_insn_def]) (auto simp: output_simps)

definition pcl730_do_insn :: "'x bus \<Rightarrow> (u64, 'x) insn_handler" where
  "pcl730_do_insn bus = checked (state_bits (\<lambda>dev s st m b.
     let st = merged m b st; a = dv_iobase dev + ulong_private s in
     do {
       io_if (m AND 0x00ff \<noteq> 0) (outb bus (st AND 0xff) a);
       io_if (m AND 0xff00 \<noteq> 0) (outb bus (drop_bit 8 st) (a + 1));
       give (st, m, st)
     }))"

interpretation pcl730: output_handler pcl730_do_insn all_channels
  "\<lambda>dev s. let a = dv_iobase dev + ulong_private s in
     [(Port a, \<lambda>st. st AND 0xff), (Port (a + 1), \<lambda>st. drop_bit 8 st AND 0xff)]"
  by (rule checked_outputI[OF pcl730_do_insn_def]) (auto simp: output_simps)

text \<open>\<open>pcm3730.c\<close>: one byte.\<close>

definition pcm3730_do_insn_bits :: "'x bus \<Rightarrow> (u64, 'x) insn_handler" where
  "pcm3730_do_insn_bits bus = checked (state_bits (\<lambda>dev s st m b.
     let st = merged m b st in
     do {
       io_if (m \<noteq> 0) (outb bus st (dv_iobase dev + ulong_private s));
       give (st, m, st)
     }))"

interpretation pcm3730: output_handler pcm3730_do_insn_bits all_channels
  "\<lambda>dev s. [(Port (dv_iobase dev + ulong_private s), \<lambda>st. st AND 0xff)]"
  by (rule checked_outputI[OF pcm3730_do_insn_bits_def]) (auto simp: output_simps)

text \<open>\<open>adl_pci7230.c\<close>: the outputs are the upper half of the register. \<open>adl_pci7432.c\<close>: all of it.\<close>

definition adl_pci7230_do_insn_bits :: "'x bus \<Rightarrow> ('p, 'x) insn_handler" where
  "adl_pci7230_do_insn_bits bus = checked (state_bits (\<lambda>dev s st m b.
     let st = merged m b st in
     do { io_if (m \<noteq> 0) (outl bus (push_bit 16 st) (dv_iobase dev + 0x00)); give (st, m, st) }))"

interpretation pci7230: output_handler adl_pci7230_do_insn_bits all_channels
  "\<lambda>dev s. [(Port (dv_iobase dev), push_bit 16)]"
  by (rule checked_outputI[OF adl_pci7230_do_insn_bits_def]) (auto simp: output_simps)

definition adl_pci7432_do_insn_bits :: "'x bus \<Rightarrow> ('p, 'x) insn_handler" where
  "adl_pci7432_do_insn_bits bus = checked (state_bits (\<lambda>dev s st m b.
     let st = merged m b st in
     do { io_if (m \<noteq> 0) (outl bus st (dv_iobase dev + 0x00)); give (st, m, st) }))"

interpretation pci7432: output_handler adl_pci7432_do_insn_bits all_channels
  "\<lambda>dev s. [(Port (dv_iobase dev), \<lambda>st. st)]"
  by (rule checked_outputI[OF adl_pci7432_do_insn_bits_def]) (auto simp: output_simps)

text \<open>\<open>adl_pci7250.c\<close>: up to four modules of eight relays.\<close>

definition adl_pci7250_do_insn_bits :: "'x bus \<Rightarrow> ('p, 'x) insn_handler" where
  "adl_pci7250_do_insn_bits bus = state_bits (\<lambda>dev s st m b.
     let st = merged m b st; a = dv_iobase dev in
     do {
       io_if (m AND 0xff \<noteq> 0) (outb bus (st AND 0xff) (a + 0));
       io_if (m AND 0xff00 \<noteq> 0) (outb bus (drop_bit 8 st AND 0xff) (a + 2));
       io_if (m AND 0xff0000 \<noteq> 0) (outb bus (drop_bit 16 st AND 0xff) (a + 4));
       io_if (m AND 0xff000000 \<noteq> 0) (outb bus (drop_bit 24 st AND 0xff) (a + 6));
       give (st, m, st)
     })"

interpretation pci7250: output_handler adl_pci7250_do_insn_bits all_channels
  "\<lambda>dev s. let a = dv_iobase dev in
     [(Port a, \<lambda>st. st AND 0xff), (Port (a + 2), \<lambda>st. drop_bit 8 st AND 0xff),
      (Port (a + 4), \<lambda>st. drop_bit 16 st AND 0xff), (Port (a + 6), \<lambda>st. drop_bit 24 st AND 0xff)]"
  by (rule state_outputI[OF adl_pci7250_do_insn_bits_def]) (auto simp: output_simps)

text \<open>\<open>adl_pci6208.c\<close>: four outputs; the mask goes back as it came.\<close>

definition pci6208_do_insn_bits :: "'x bus \<Rightarrow> ('p, 'x) insn_handler" where
  "pci6208_do_insn_bits bus = returns_n (state_bits (\<lambda>dev s st m b.
     let mask = m AND 0xf; st = (if m \<noteq> 0 then merge mask b st else st) in
     do { io_if (m \<noteq> 0) (outw bus st (dv_iobase dev + 0x40)); give (st, m, st) }))"

interpretation pci6208: output_handler pci6208_do_insn_bits "\<lambda>s. 0xf"
  "\<lambda>dev s. [(Port (dv_iobase dev + 0x40), \<lambda>st. st AND 0xffff)]"
  by (rule returns_n_outputI[OF pci6208_do_insn_bits_def]) (auto simp: output_simps)

text \<open>\<open>adl_pci9111.c\<close>, \<open>adl_pci9112.c\<close>: 16 outputs, written in any case.\<close>

definition pci9111_do_insn_bits :: "'x bus \<Rightarrow> ('p, 'x) insn_handler" where
  "pci9111_do_insn_bits bus = state_bits (\<lambda>dev s st m b.
     let m = m AND 0xffff; bits = merge m b st in
     do { outw bus bits (dv_iobase dev + 0x02); give (bits, m, bits) })"

interpretation pci9111: output_handler pci9111_do_insn_bits "\<lambda>s. 0xffff"
  "\<lambda>dev s. [(Port (dv_iobase dev + 2), \<lambda>st. st AND 0xffff)]"
  by (rule state_outputI[OF pci9111_do_insn_bits_def]) (auto simp: output_simps)

definition pci9112_do_insn_bits :: "'x bus \<Rightarrow> ('p, 'x) insn_handler" where
  "pci9112_do_insn_bits bus = state_bits (\<lambda>dev s st m b.
     let m = m AND 0xffff; bits = merge m b st in
     do { outw bus bits (dv_iobase dev + 0x1c); give (bits, m, bits) })"

interpretation pci9112: output_handler pci9112_do_insn_bits "\<lambda>s. 0xffff"
  "\<lambda>dev s. [(Port (dv_iobase dev + 0x1c), \<lambda>st. st AND 0xffff)]"
  by (rule state_outputI[OF pci9112_do_insn_bits_def]) (auto simp: output_simps)

text \<open>\<open>adl_pci9118.c\<close>, \<open>adv_pci1710.c\<close>, \<open>contec_pci_dio.c\<close>, \<open>pcl725.c\<close>: one register.\<close>

definition pci9118_insn_bits_do :: "'x bus \<Rightarrow> ('p, 'x) insn_handler" where
  "pci9118_insn_bits_do bus = state_bits (\<lambda>dev s st m b.
     let st = merged m b st in
     do { io_if (m \<noteq> 0) (outl bus (st AND 0x0f) (dv_iobase dev + 0x1c)); give (st, m, st) })"

interpretation pci9118: output_handler pci9118_insn_bits_do all_channels
  "\<lambda>dev s. [(Port (dv_iobase dev + 0x1c), \<lambda>st. st AND 0x0f)]"
  by (rule state_outputI[OF pci9118_insn_bits_do_def]) (auto simp: output_simps)

definition pci171x_insn_bits_do :: "'x bus \<Rightarrow> ('p, 'x) insn_handler" where
  "pci171x_insn_bits_do bus = state_bits (\<lambda>dev s st m b.
     let st = merged m b st in
     do { io_if (m \<noteq> 0) (outw bus st (dv_iobase dev + 16)); give (st, m, st) })"

interpretation pci171x_do: output_handler pci171x_insn_bits_do all_channels
  "\<lambda>dev s. [(Port (dv_iobase dev + 16), \<lambda>st. st AND 0xffff)]"
  by (rule state_outputI[OF pci171x_insn_bits_do_def]) (auto simp: output_simps)

definition contec_do_insn_bits :: "u64 \<Rightarrow> 'x bus \<Rightarrow> ('p, 'x) insn_handler" where
  "contec_do_insn_bits out_offs bus = checked (state_bits (\<lambda>dev s st m b.
     let st = merged m b st in
     do { io_if (m \<noteq> 0) (outw bus st (dv_iobase dev + out_offs)); give (st, m, st) }))"

interpretation contec_do: output_handler "contec_do_insn_bits out_offs" all_channels
  "\<lambda>dev s. [(Port (dv_iobase dev + out_offs), \<lambda>st. st AND 0xffff)]" for out_offs
  by (rule checked_outputI[OF contec_do_insn_bits_def]) (auto simp: output_simps)

definition pcl725_do_insn :: "'x bus \<Rightarrow> ('p, 'x) insn_handler" where
  "pcl725_do_insn bus = checked (state_bits (\<lambda>dev s st m b.
     let st = merged m b st in
     do { io_if (m \<noteq> 0) (outb bus st (dv_iobase dev + 0)); give (st, m, st) }))"

interpretation pcl725: output_handler pcl725_do_insn all_channels
  "\<lambda>dev s. [(Port (dv_iobase dev), \<lambda>st. st AND 0xff)]"
  by (rule checked_outputI[OF pcl725_do_insn_def]) (auto simp: output_simps)

text \<open>\<open>aio_iiro_16.c\<close>, \<open>amplc_pc263.c\<close>, \<open>pcl812.c\<close>: two bytes, both written.\<close>

definition aio_iiro_16_dio_insn_bits_write :: "'x bus \<Rightarrow> ('p, 'x) insn_handler" where
  "aio_iiro_16_dio_insn_bits_write bus = checked (state_bits (\<lambda>dev s st m b.
     let st = merged m b st; a = dv_iobase dev in
     do {
       io_if (m \<noteq> 0) (do { outb bus (st AND 0xff) (a + 0x00); outb bus (drop_bit 8 st AND 0xff) (a + 0x04) });
       give (st, m, st)
     }))"

interpretation aio_iiro_16: output_handler aio_iiro_16_dio_insn_bits_write all_channels
  "\<lambda>dev s. [(Port (dv_iobase dev), \<lambda>st. st AND 0xff), (Port (dv_iobase dev + 4), \<lambda>st. drop_bit 8 st AND 0xff)]"
  by (rule checked_outputI[OF aio_iiro_16_dio_insn_bits_write_def]) (auto simp: output_simps)

definition pc263_do_insn_bits :: "'x bus \<Rightarrow> ('p, 'x) insn_handler" where
  "pc263_do_insn_bits bus = checked (state_bits (\<lambda>dev s st m b.
     let st = merged m b st; a = dv_iobase dev in
     do {
       io_if (m \<noteq> 0) (do { outb bus (st AND 0xff) a; outb bus (drop_bit 8 st) (a + 1) });
       give (st, m, st)
     }))"

interpretation pc263: output_handler pc263_do_insn_bits all_channels
  "\<lambda>dev s. [(Port (dv_iobase dev), \<lambda>st. st AND 0xff), (Port (dv_iobase dev + 1), \<lambda>st. drop_bit 8 st AND 0xff)]"
  by (rule checked_outputI[OF pc263_do_insn_bits_def]) (auto simp: output_simps)

definition pcl812_do_insn_bits :: "'x bus \<Rightarrow> ('p, 'x) insn_handler" where
  "pcl812_do_insn_bits bus = checked (state_bits (\<lambda>dev s st m b.
     let st = merged m b st; a = dv_iobase dev in
     do {
       io_if (m \<noteq> 0) (do { outb bus (st AND 0xff) (a + 13); outb bus (drop_bit 8 st) (a + 14) });
       give (st, m, st)
     }))"

interpretation pcl812_do: output_handler pcl812_do_insn_bits all_channels
  "\<lambda>dev s. [(Port (dv_iobase dev + 13), \<lambda>st. st AND 0xff), (Port (dv_iobase dev + 14), \<lambda>st. drop_bit 8 st AND 0xff)]"
  by (rule checked_outputI[OF pcl812_do_insn_bits_def]) (auto simp: output_simps)

text \<open>\<open>pcl711.c\<close>, \<open>pcl726.c\<close>: two bytes, those that the mask touches.\<close>

definition pcl711_do_insn_bits :: "'x bus \<Rightarrow> ('p, 'x) insn_handler" where
  "pcl711_do_insn_bits bus = checked (state_bits (\<lambda>dev s st m b.
     let st = merged m b st; a = dv_iobase dev in
     do {
       io_if (m AND 0x00ff \<noteq> 0) (outb bus (st AND 0xff) (a + 13));
       io_if (m AND 0xff00 \<noteq> 0) (outb bus (drop_bit 8 st) (a + 14));
       give (st, m, st)
     }))"

interpretation pcl711_do: output_handler pcl711_do_insn_bits all_channels
  "\<lambda>dev s. [(Port (dv_iobase dev + 13), \<lambda>st. st AND 0xff), (Port (dv_iobase dev + 14), \<lambda>st. drop_bit 8 st AND 0xff)]"
  by (rule checked_outputI[OF pcl711_do_insn_bits_def]) (auto simp: output_simps)

definition pcl726_do_insn_bits :: "u64 \<Rightarrow> u64 \<Rightarrow> 'x bus \<Rightarrow> ('p, 'x) insn_handler" where
  "pcl726_do_insn_bits do_lo do_hi bus = checked (state_bits (\<lambda>dev s st m b.
     let st = merged m b st; a = dv_iobase dev in
     do {
       io_if (m AND 0x00ff \<noteq> 0) (outb bus (st AND 0xff) (a + do_lo));
       io_if (m AND 0xff00 \<noteq> 0) (outb bus (drop_bit 8 st) (a + do_hi));
       give (st, m, st)
     }))"

lemma pcl726_output:
  assumes "do_lo \<noteq> do_hi"
  shows "output_handler (pcl726_do_insn_bits do_lo do_hi) all_channels
    (\<lambda>dev s. [(Port (dv_iobase dev + do_lo), \<lambda>st. st AND 0xff), (Port (dv_iobase dev + do_hi), \<lambda>st. drop_bit 8 st AND 0xff)])"
  by (rule checked_outputI[OF pcl726_do_insn_bits_def]) (use assms in \<open>auto simp: output_simps\<close>)

text \<open>\<open>pcl818.c\<close>, \<open>multiq3.c\<close>, \<open>dt2811.c\<close>: written even with an empty mask.\<close>

definition pcl818_do_insn_bits :: "'x bus \<Rightarrow> ('p, 'x) insn_handler" where
  "pcl818_do_insn_bits bus = checked (state_bits (\<lambda>dev s st m b.
     let st = merge m b st; a = dv_iobase dev in
     do { outb bus (st AND 0xff) (a + 3); outb bus (drop_bit 8 st) (a + 11); give (st, m, st) }))"

interpretation pcl818_do: output_handler pcl818_do_insn_bits all_channels
  "\<lambda>dev s. [(Port (dv_iobase dev + 3), \<lambda>st. st AND 0xff), (Port (dv_iobase dev + 11), \<lambda>st. drop_bit 8 st AND 0xff)]"
  by (rule checked_outputI[OF pcl818_do_insn_bits_def]) (auto simp: output_simps)

definition multiq3_do_insn_bits :: "'x bus \<Rightarrow> ('p, 'x) insn_handler" where
  "multiq3_do_insn_bits bus = checked (state_bits (\<lambda>dev s st m b.
     let st = merge m b st in do { outw bus st (dv_iobase dev + 0); give (st, m, st) }))"

interpretation multiq3_do: output_handler multiq3_do_insn_bits all_channels
  "\<lambda>dev s. [(Port (dv_iobase dev), \<lambda>st. st AND 0xffff)]"
  by (rule checked_outputI[OF multiq3_do_insn_bits_def]) (auto simp: output_simps)

definition dt2811_do_insn_bits :: "'x bus \<Rightarrow> ('p, 'x) insn_handler" where
  "dt2811_do_insn_bits bus = checked (state_bits (\<lambda>dev s st m b.
     let st = merge m b st in do { outb bus st (dv_iobase dev + 6); give (st, m, st) }))"

interpretation dt2811_do: output_handler dt2811_do_insn_bits all_channels
  "\<lambda>dev s. [(Port (dv_iobase dev + 6), \<lambda>st. st AND 0xff)]"
  by (rule checked_outputI[OF dt2811_do_insn_bits_def]) (auto simp: output_simps)

text \<open>\<open>poc.c\<close>: four bytes. \<open>rti800.c\<close>, \<open>ni_6527.c\<close>: the outputs are inverted.\<close>

definition pcl734_insn_bits :: "'x bus \<Rightarrow> ('p, 'x) insn_handler" where
  "pcl734_insn_bits bus = checked (state_bits (\<lambda>dev s st m b.
     let st = merged m b st; a = dv_iobase dev in
     do {
       io_if (m AND 0xff \<noteq> 0) (outb bus (st AND 0xff) (a + 0));
       io_if (drop_bit 8 m AND 0xff \<noteq> 0) (outb bus (drop_bit 8 st AND 0xff) (a + 1));
       io_if (drop_bit 16 m AND 0xff \<noteq> 0) (outb bus (drop_bit 16 st AND 0xff) (a + 2));
       io_if (drop_bit 24 m AND 0xff \<noteq> 0) (outb bus (drop_bit 24 st AND 0xff) (a + 3));
       give (st, m, st)
     }))"

interpretation pcl734: output_handler pcl734_insn_bits all_channels
  "\<lambda>dev s. let a = dv_iobase dev in
     [(Port a, \<lambda>st. st AND 0xff), (Port (a + 1), \<lambda>st. drop_bit 8 st AND 0xff),
      (Port (a + 2), \<lambda>st. drop_bit 16 st AND 0xff), (Port (a + 3), \<lambda>st. drop_bit 24 st AND 0xff)]"
  by (rule checked_outputI[OF pcl734_insn_bits_def]) (auto simp: output_simps byte_kept_drop)

definition rti800_do_insn_bits :: "'x bus \<Rightarrow> ('p, 'x) insn_handler" where
  "rti800_do_insn_bits bus = checked (state_bits (\<lambda>dev s st m b.
     let st = merged m b st in
     do { io_if (m \<noteq> 0) (outb bus (st XOR 0xff) (dv_iobase dev + 11)); give (st, m, st) }))"

interpretation rti800_do: output_handler rti800_do_insn_bits all_channels
  "\<lambda>dev s. [(Port (dv_iobase dev + 11), \<lambda>st. (st XOR 0xff) AND 0xff)]"
  by (rule checked_outputI[OF rti800_do_insn_bits_def]) (auto simp: output_simps)

definition ni6527_do_insn_bits :: "u64 \<Rightarrow> 'x bus \<Rightarrow> ('p, 'x) insn_handler" where
  "ni6527_do_insn_bits daq_io_addr bus = checked (state_bits (\<lambda>dev s st m b.
     let st = merged m b st in
     do {
       io_if (m AND 0x0000ff \<noteq> 0) (writeb bus (st XOR 0xff) (daq_io_addr + 3));
       io_if (m AND 0x00ff00 \<noteq> 0) (writeb bus (drop_bit 8 st XOR 0xff) (daq_io_addr + 4));
       io_if (m AND 0xff0000 \<noteq> 0) (writeb bus (drop_bit 16 st XOR 0xff) (daq_io_addr + 5));
       give (st, m, st)
     }))"

interpretation ni6527_do: output_handler "ni6527_do_insn_bits daq_io_addr" all_channels
  "\<lambda>dev s. [(Mem (daq_io_addr + 3), \<lambda>st. (st AND 0xff) XOR 0xff),
     (Mem (daq_io_addr + 4), \<lambda>st. (drop_bit 8 st AND 0xff) XOR 0xff),
     (Mem (daq_io_addr + 5), \<lambda>st. (drop_bit 16 st AND 0xff) XOR 0xff)]" for daq_io_addr
  by (rule checked_outputI[OF ni6527_do_insn_bits_def]) (auto simp: output_simps inverted_byte)

text \<open>\<open>cb_pcidas64.c\<close>, \<open>das16.c\<close>: four outputs, written in any case. \<open>icp_multi.c\<close>: one register in memory.\<close>

definition do_wbits :: "u64 \<Rightarrow> 'x bus \<Rightarrow> ('p, 'x) insn_handler" where
  "do_wbits dio_counter_iobase bus = state_bits (\<lambda>dev s st m b.
     let m = m AND 0xf; st = merge m b st in
     do { writeb bus st (dio_counter_iobase + 0x20); give (st, m, st) })"

interpretation pcidas64_do: output_handler "do_wbits dio_counter_iobase" "\<lambda>s. 0xf"
  "\<lambda>dev s. [(Mem (dio_counter_iobase + 0x20), \<lambda>st. st AND 0xff)]" for dio_counter_iobase
  by (rule state_outputI[OF do_wbits_def]) (auto simp: output_simps)

definition das16_do_wbits :: "'x bus \<Rightarrow> ('p, 'x) insn_handler" where
  "das16_do_wbits bus = state_bits (\<lambda>dev s st m b.
     let m = m AND 0xf; wbits = merge m b st in
     do { outb bus wbits (dv_iobase dev + 3); give (wbits, m, wbits) })"

interpretation das16_do: output_handler das16_do_wbits "\<lambda>s. 0xf"
  "\<lambda>dev s. [(Port (dv_iobase dev + 3), \<lambda>st. st AND 0xff)]"
  by (rule state_outputI[OF das16_do_wbits_def]) (auto simp: output_simps)

definition icp_multi_insn_bits_do :: "u64 \<Rightarrow> 'x bus \<Rightarrow> ('p, 'x) insn_handler" where
  "icp_multi_insn_bits_do io_addr bus = state_bits (\<lambda>dev s st m b.
     let st = merged m b st in
     do { io_if (m \<noteq> 0) (writew bus st (io_addr + 0x0a)); give (st, m, st) })"

interpretation icp_multi_do: output_handler "icp_multi_insn_bits_do io_addr" all_channels
  "\<lambda>dev s. [(Mem (io_addr + 0x0a), \<lambda>st. st AND 0xffff)]" for io_addr
  by (rule state_outputI[OF icp_multi_insn_bits_do_def]) (auto simp: output_simps)

text \<open>
  \<open>adv_pci_dio.c\<close>: \<open>regs\<close> registers from \<open>addr\<close> on, bytes or words; the private pointer of the subdevice says
  which.
\<close>

record diosubd_data =
  diosubd_chans :: nat
  diosubd_addr :: u64
  diosubd_regs :: nat
  diosubd_specflags :: u32

definition pci_dio_do :: "width \<Rightarrow> nat \<Rightarrow> diosubd_data \<Rightarrow> 'x bus \<Rightarrow> ('p, 'x) insn_handler" where
  "pci_dio_do w k d bus = state_bits (\<lambda>dev s st m b.
     let st = merged m b st in
     do {
       io_if (m \<noteq> 0) (io_all (\<lambda>i. reg_out w bus (drop_bit (8 * k * i) st)
         (Port (dv_iobase dev + diosubd_addr d + of_nat (k * i)))) [0..<diosubd_regs d]);
       give (st, m, st)
     })"

definition pci_dio_insn_bits_do_b :: "'x bus \<Rightarrow> (diosubd_data, 'x) insn_handler" where
  "pci_dio_insn_bits_do_b bus = with_private (\<lambda>d. pci_dio_do W8 1 d bus)"

definition pci_dio_insn_bits_do_w :: "'x bus \<Rightarrow> (diosubd_data, 'x) insn_handler" where
  "pci_dio_insn_bits_do_w bus = with_private (\<lambda>d. pci_dio_do W16 2 d bus)"

lemma distinct_addresses:
  assumes "k * n \<le> 2 ^ 64" and "0 < k"
  shows "distinct (map (\<lambda>i. Port (a + of_nat (k * i))) [0..<n])"
proof -
  have "inj_on (\<lambda>i. Port (a + of_nat (k * i))) {0..<n}"
  proof (rule inj_onI)
    fix i j assume i: "i \<in> {0..<n}" and j: "j \<in> {0..<n}" and "Port (a + of_nat (k * i)) = Port (a + of_nat (k * j))"
    then have "(of_nat (k * i) :: u64) = of_nat (k * j)" by simp
    moreover have "k * i < k * n" "k * j < k * n" using i j \<open>0 < k\<close> by simp_all
    then have "k * i < 2 ^ 64" "k * j < 2 ^ 64" using assms(1) by linarith+
    ultimately show "i = j" using \<open>0 < k\<close> by (simp add: word_of_nat_eq_iff take_bit_eq_mod del: of_nat_mult)
  qed
  then show ?thesis by (simp add: distinct_map)
qed

lemma pci_dio_output:
  assumes "0 < k" and "k * diosubd_regs d \<le> 4"
  shows "output_handler (pci_dio_do w k d) all_channels (\<lambda>dev s.
    map (\<lambda>i. (Port (dv_iobase dev + diosubd_addr d + of_nat (k * i)), \<lambda>st. trunc w (drop_bit (8 * k * i) st)))
      [0..<diosubd_regs d])"
proof -
  have shown: "reg (snd (run_state (io_all (\<lambda>i. reg_out w bus (v i) (Port (a + of_nat (k * i)))) [0..<diosubd_regs d]) x))
      (Port (a + of_nat (k * i))) = trunc w (v i)"
    if "holding bus reg" and "i < diosubd_regs d" for bus :: "'x bus" and reg x v a i
    using io_all_shows[OF that(1), of "\<lambda>i. Port (a + of_nat (k * i))" "[0..<diosubd_regs d]" i "\<lambda>_. True" w v x] that(2)
      distinct_addresses[of k "diosubd_regs d" a] assms by (simp add: io_if_def del: of_nat_mult)
  show ?thesis
  proof (rule state_outputI[OF pci_dio_do_def], unfold body_sets_def, intro allI impI conjI)
    fix bus :: "'x bus" and reg :: "'x \<Rightarrow> addr \<Rightarrow> u32" and dev :: "('p, 'x) comedi_device"
      and s :: "'p comedi_subdevice" and st m b x
    let ?ts = "map (\<lambda>i. (Port (dv_iobase dev + diosubd_addr d + of_nat (k * i)),
        \<lambda>st. trunc w (drop_bit (8 * k * i) st))) [0..<diosubd_regs d]"
    assume "holding bus reg" and "shows_state ?ts (reg x) st"
    then show "shows_state ?ts (reg (snd (run_state (let st = merged m b st in do {
          io_if (m \<noteq> 0) (io_all (\<lambda>i. reg_out w bus (drop_bit (8 * k * i) st)
            (Port (dv_iobase dev + diosubd_addr d + of_nat (k * i)))) [0..<diosubd_regs d]);
          give (st, m, st)
        }) x))) (merge (m AND all_channels s) b st)"
      using shown[of bus reg] by (auto simp: shows_state_def Let_def io_if_def split_beta simp del: of_nat_mult)
  qed (auto simp: set_subd_def Let_def io_if_def split_beta)
qed

end
