(* ===== verification/Digital_Lines.thy ===== *)
theory Digital_Lines
  imports Digital_Outputs
begin

text \<open>
  Boards whose channels are inputs or outputs, as configured: the bits instruction writes the outputs and reads
  all lines, and the configuration instruction sets the direction of a channel with those of its group.
\<close>

unbundle bit_operations_syntax

section \<open>Writing and reading back\<close>

definition pci1723_dio_insn_bits :: "'x bus \<Rightarrow> ('p, 'x) insn_handler" where
  "pci1723_dio_insn_bits bus = state_bits (\<lambda>dev s st m b.
     let st = merged m b st in
     do { io_if (m \<noteq> 0) (outw bus st (dv_iobase dev + 0x1c)); v \<leftarrow> inw bus (dv_iobase dev + 0x1c); give (st, m, v) })"

interpretation pci1723: output_handler pci1723_dio_insn_bits all_channels
  "\<lambda>dev s. [(Port (dv_iobase dev + 0x1c), \<lambda>st. st AND 0xffff)]"
  by (rule state_outputI[OF pci1723_dio_insn_bits_def]) (auto simp: output_simps)

definition das16cs_dio_insn_bits :: "'x bus \<Rightarrow> ('p, 'x) insn_handler" where
  "das16cs_dio_insn_bits bus = checked (state_bits (\<lambda>dev s st m b.
     let st = merged m b st in
     do { io_if (m \<noteq> 0) (outw bus st (dv_iobase dev + 16)); v \<leftarrow> inw bus (dv_iobase dev + 16); give (st, m, v) }))"

interpretation das16cs: output_handler das16cs_dio_insn_bits all_channels
  "\<lambda>dev s. [(Port (dv_iobase dev + 16), \<lambda>st. st AND 0xffff)]"
  by (rule checked_outputI[OF das16cs_dio_insn_bits_def]) (auto simp: output_simps)

text \<open>The base addresses of these boards were found when the driver attached.\<close>

definition cb_pcidac_dio_insn_bits :: "u64 \<Rightarrow> 'x bus \<Rightarrow> ('p, 'x) insn_handler" where
  "cb_pcidac_dio_insn_bits dio_counter_iobase bus = checked (state_bits (\<lambda>dev s st m b.
     let st = merged m b st in
     do {
       io_if (m \<noteq> 0) (writeb bus st (dio_counter_iobase + 0x01));
       v \<leftarrow> readb bus (dio_counter_iobase + 0x01);
       give (st, m, v)
     }))"

interpretation cb_pcidac: output_handler "cb_pcidac_dio_insn_bits dio_counter_iobase" all_channels
  "\<lambda>dev s. [(Mem (dio_counter_iobase + 1), \<lambda>st. st AND 0xff)]" for dio_counter_iobase
  by (rule checked_outputI[OF cb_pcidac_dio_insn_bits_def]) (auto simp: output_simps)

definition dio_60xx_wbits :: "u64 \<Rightarrow> 'x bus \<Rightarrow> ('p, 'x) insn_handler" where
  "dio_60xx_wbits dio_counter_iobase bus = state_bits (\<lambda>dev s st m b.
     let st = merged m b st in
     do {
       io_if (m \<noteq> 0) (writeb bus st (dio_counter_iobase + 0x48));
       v \<leftarrow> readb bus (dio_counter_iobase + 0x48);
       give (st, m, v)
     })"

interpretation dio_60xx: output_handler "dio_60xx_wbits dio_counter_iobase" all_channels
  "\<lambda>dev s. [(Mem (dio_counter_iobase + 0x48), \<lambda>st. st AND 0xff)]" for dio_counter_iobase
  by (rule state_outputI[OF dio_60xx_wbits_def]) (auto simp: output_simps)

definition dt282x_dio_insn_bits :: "'x bus \<Rightarrow> ('p, 'x) insn_handler" where
  "dt282x_dio_insn_bits bus = state_bits (\<lambda>dev s st m b.
     let st = merged m b st in
     do { io_if (m \<noteq> 0) (outw bus st (dv_iobase dev + 0x0a)); v \<leftarrow> inw bus (dv_iobase dev + 0x0a); give (st, m, v) })"

interpretation dt282x_dio: output_handler dt282x_dio_insn_bits all_channels
  "\<lambda>dev s. [(Port (dv_iobase dev + 0x0a), \<lambda>st. st AND 0xffff)]"
  by (rule state_outputI[OF dt282x_dio_insn_bits_def]) (auto simp: output_simps)

definition ni_670x_dio_insn_bits :: "u64 \<Rightarrow> 'x bus \<Rightarrow> ('p, 'x) insn_handler" where
  "ni_670x_dio_insn_bits daq_io_addr bus = checked (state_bits (\<lambda>dev s st m b.
     let st = merged m b st in
     do { io_if (m \<noteq> 0) (writel bus st (daq_io_addr + 0x24)); v \<leftarrow> readl bus (daq_io_addr + 0x24); give (st, m, v) }))"

interpretation ni_670x: output_handler "ni_670x_dio_insn_bits daq_io_addr" all_channels
  "\<lambda>dev s. [(Mem (daq_io_addr + 0x24), \<lambda>st. st)]" for daq_io_addr
  by (rule checked_outputI[OF ni_670x_dio_insn_bits_def]) (auto simp: output_simps)

definition atao_dio_insn_bits :: "'x bus \<Rightarrow> ('p, 'x) insn_handler" where
  "atao_dio_insn_bits bus = checked (state_bits (\<lambda>dev s st m b.
     let st = merged m b st in
     do { io_if (m \<noteq> 0) (outw bus st (dv_iobase dev + 0x00)); v \<leftarrow> inw bus (dv_iobase dev + 0x00); give (st, m, v) }))"

interpretation atao: output_handler atao_dio_insn_bits all_channels
  "\<lambda>dev s. [(Port (dv_iobase dev), \<lambda>st. st AND 0xffff)]"
  by (rule checked_outputI[OF atao_dio_insn_bits_def]) (auto simp: output_simps)

definition ni_m_series_dio_insn_bits :: "u64 \<Rightarrow> 'x bus \<Rightarrow> ('p, 'x) insn_handler" where
  "ni_m_series_dio_insn_bits daq_io_addr bus = checked (state_bits (\<lambda>dev s st m b.
     let st = merged m b st in
     do { io_if (m \<noteq> 0) (writel bus st (daq_io_addr + 0x24)); v \<leftarrow> readl bus (daq_io_addr + 0x24); give (st, m, v) }))"

interpretation ni_m_series: output_handler "ni_m_series_dio_insn_bits daq_io_addr" all_channels
  "\<lambda>dev s. [(Mem (daq_io_addr + 0x24), \<lambda>st. st)]" for daq_io_addr
  by (rule checked_outputI[OF ni_m_series_dio_insn_bits_def]) (auto simp: output_simps)

definition ni_pcidio_insn_bits :: "u64 \<Rightarrow> 'x bus \<Rightarrow> ('p, 'x) insn_handler" where
  "ni_pcidio_insn_bits daq_io_addr bus = checked (state_bits (\<lambda>dev s st m b.
     let st = merged m b st in
     do { io_if (m \<noteq> 0) (writel bus st (daq_io_addr + 28)); v \<leftarrow> readl bus (daq_io_addr + 28); give (st, m, v) }))"

interpretation ni_pcidio_dio: output_handler "ni_pcidio_insn_bits daq_io_addr" all_channels
  "\<lambda>dev s. [(Mem (daq_io_addr + 28), \<lambda>st. st)]" for daq_io_addr
  by (rule checked_outputI[OF ni_pcidio_insn_bits_def]) (auto simp: output_simps)

definition rtd_dio_insn_bits :: "u64 \<Rightarrow> 'x bus \<Rightarrow> ('p, 'x) insn_handler" where
  "rtd_dio_insn_bits las0 bus = checked (state_bits (\<lambda>dev s st m b.
     let st = merged m b st in
     do {
       io_if (m \<noteq> 0) (writew bus (st AND 0xff) (las0 + 0x70));
       v \<leftarrow> readw bus (las0 + 0x70);
       give (st, m, v AND 0xff)
     }))"

interpretation rtd_dio: output_handler "rtd_dio_insn_bits las0" all_channels
  "\<lambda>dev s. [(Mem (las0 + 0x70), \<lambda>st. st AND 0xff)]" for las0
  by (rule checked_outputI[OF rtd_dio_insn_bits_def]) (auto simp: output_simps and.assoc)

definition s526_dio_insn_bits :: "'x bus \<Rightarrow> ('p, 'x) insn_handler" where
  "s526_dio_insn_bits bus = checked (state_bits (\<lambda>dev s st m b.
     let st = merged m b st in
     do {
       io_if (m \<noteq> 0) (outw bus st (dv_iobase dev + 0x0a));
       v \<leftarrow> inw bus (dv_iobase dev + 0x0a);
       give (st, m, v AND 0xff)
     }))"

interpretation s526_dio: output_handler s526_dio_insn_bits all_channels
  "\<lambda>dev s. [(Port (dv_iobase dev + 0x0a), \<lambda>st. st AND 0xffff)]"
  by (rule checked_outputI[OF s526_dio_insn_bits_def]) (auto simp: output_simps)

text \<open>\<open>ni_daq_700.c\<close>: eight outputs, and eight inputs above them, through the callback of the driver itself.\<close>

definition subdev_700_cb :: "'x bus \<Rightarrow> bool \<Rightarrow> u32 \<Rightarrow> u64 \<Rightarrow> ('x, u32) io" where
  "subdev_700_cb bus dir data iobase =
     (if dir then do { outb bus data (iobase + 0x04); give 0 } else inb bus (iobase + 0x05))"

definition subdev_700_insn :: "u64 \<Rightarrow> 'x bus \<Rightarrow> ('p, 'x) insn_handler" where
  "subdev_700_insn arg bus = state_bits (\<lambda>dev s st m b.
     let st = merged m b st in
     do {
       io_if (m AND 0xff \<noteq> 0) (do { subdev_700_cb bus True (st AND 0xff) arg; give () });
       v \<leftarrow> subdev_700_cb bus False 0 arg;
       give (st, m, (st AND 0xff) OR push_bit 8 v)
     })"

interpretation subdev_700_dio: output_handler "subdev_700_insn arg" all_channels
  "\<lambda>dev s. [(Port (arg + 4), \<lambda>st. st AND 0xff)]" for arg
  by (rule state_outputI[OF subdev_700_insn_def]) (auto simp: output_simps subdev_700_cb_def)

text \<open>\<open>amplc_dio200.c\<close>: an 8255 in ports or in memory, whose registers are \<open>2 ^ regshift\<close> bytes apart.\<close>

record dio200_region =
  regtype_io :: bool
  region_base :: u64
  regshift :: nat

definition dio200_addr :: "dio200_region \<Rightarrow> u32 \<Rightarrow> addr" where
  "dio200_addr io offset =
     (let a = region_base io + ucast (push_bit (regshift io) offset) in if regtype_io io then Port a else Mem a)"

definition dio200_read8 :: "dio200_region \<Rightarrow> 'x bus \<Rightarrow> u32 \<Rightarrow> ('x, u32) io" where
  "dio200_read8 io bus offset = reg_in W8 bus (dio200_addr io offset)"

definition dio200_write8 :: "dio200_region \<Rightarrow> 'x bus \<Rightarrow> u32 \<Rightarrow> u32 \<Rightarrow> ('x, unit) io" where
  "dio200_write8 io bus offset val = reg_out W8 bus val (dio200_addr io offset)"

definition dio200_subdev_8255_bits :: "dio200_region \<Rightarrow> u32 \<Rightarrow> 'x bus \<Rightarrow> ('p, 'x) insn_handler" where
  "dio200_subdev_8255_bits io ofs bus = state_bits (\<lambda>dev s st m b.
     let st = merged m b st in
     do {
       io_if (m AND 0xff \<noteq> 0) (dio200_write8 io bus ofs (st AND 0xff));
       io_if (m AND 0xff00 \<noteq> 0) (dio200_write8 io bus (ofs + 1) (drop_bit 8 st AND 0xff));
       io_if (m AND 0xff0000 \<noteq> 0) (dio200_write8 io bus (ofs + 2) (drop_bit 16 st AND 0xff));
       x \<leftarrow> dio200_read8 io bus ofs;
       y \<leftarrow> dio200_read8 io bus (ofs + 1);
       z \<leftarrow> dio200_read8 io bus (ofs + 2);
       give (st, m, x OR push_bit 8 y OR push_bit 16 z)
     })"

lemma dio200_8255_output:
  assumes "dio200_addr io ofs \<noteq> dio200_addr io (ofs + 1)" "dio200_addr io ofs \<noteq> dio200_addr io (ofs + 2)"
    "dio200_addr io (ofs + 1) \<noteq> dio200_addr io (ofs + 2)"
  shows "output_handler (dio200_subdev_8255_bits io ofs) all_channels
    (\<lambda>dev s. [(dio200_addr io ofs, \<lambda>st. st AND 0xff), (dio200_addr io (ofs + 1), \<lambda>st. drop_bit 8 st AND 0xff),
       (dio200_addr io (ofs + 2), \<lambda>st. drop_bit 16 st AND 0xff)])"
  by (rule state_outputI[OF dio200_subdev_8255_bits_def])
    (use assms in \<open>auto simp: output_simps dio200_write8_def dio200_read8_def\<close>)

section \<open>Writing only the outputs\<close>

text \<open>
  \<open>dt2817.c\<close> writes the bytes of the outputs that change, \<open>ii_pci20kc.c\<close> those that the mask touches. A byte shows
  the state once all its channels are outputs.
\<close>

definition write_bytes :: "'x bus \<Rightarrow> u32 \<Rightarrow> addr list \<Rightarrow> u32 \<Rightarrow> ('x, unit) io" where
  "write_bytes bus touched as st = io_all (\<lambda>k. io_if (drop_bit (8 * k) touched AND 0xff \<noteq> 0)
     (reg_out W8 bus (drop_bit (8 * k) st) (as ! k))) [0..<length as]"

fun read_bytes :: "'x bus \<Rightarrow> addr list \<Rightarrow> ('x, u32) io" where
  "read_bytes bus [] = give 0"
| "read_bytes bus (a # as) = do { lo \<leftarrow> reg_in W8 bus a; hi \<leftarrow> read_bytes bus as; give (lo OR push_bit 8 hi) }"

definition dt2817_data :: "('p, 'x) comedi_device \<Rightarrow> addr list" where
  "dt2817_data dev = map (\<lambda>k. Port (dv_iobase dev + 1 + k)) [0, 1, 2, 3]"

definition dt2817_dio_insn_bits :: "'x bus \<Rightarrow> ('p, 'x) insn_handler" where
  "dt2817_dio_insn_bits bus = state_bits (\<lambda>dev s old m b.
     let st = merged m b old; changed = (old XOR st) AND sd_io_bits s in
     do {
       io_if (m \<noteq> 0) (write_bytes bus changed (dt2817_data dev) st);
       v \<leftarrow> read_bytes bus (dt2817_data dev);
       give (st, m, v)
     })"

definition pci20xxx_dio :: "u64 \<Rightarrow> addr list" where
  "pci20xxx_dio ioaddr = map (\<lambda>k. Mem (ioaddr + k)) [0x80, 0x81, 0xc0, 0xc1]"

definition pci20xxx_dio_insn_bits :: "u64 \<Rightarrow> 'x bus \<Rightarrow> ('p, 'x) insn_handler" where
  "pci20xxx_dio_insn_bits ioaddr bus = state_bits (\<lambda>dev s st m b.
     let st = merge m b st; mask = m AND sd_io_bits s in
     do {
       write_bytes bus mask (pci20xxx_dio ioaddr) st;
       v \<leftarrow> read_bytes bus (pci20xxx_dio ioaddr);
       give (st, m, v)
     })"

text \<open>The bytes of a board that are outputs as a whole.\<close>

definition output_bytes :: "u32 \<Rightarrow> addr list \<Rightarrow> terminals" where
  "output_bytes io as = map (\<lambda>k. (as ! k, \<lambda>st. drop_bit (8 * k) st AND 0xff))
     (filter (\<lambda>k. drop_bit (8 * k) io AND 0xff = 0xff) [0..<length as])"

lemma unchanged_byte:
  assumes io: "drop_bit k io AND 0xff = (0xff :: u32)" and same: "drop_bit k ((x XOR y) AND io) AND 0xff = 0"
  shows "drop_bit k y AND 0xff = drop_bit k x AND 0xff"
proof (rule bit_eqI)
  fix n
  have "bit (drop_bit k io) n" if "bit (0xff :: u32) n"
    using that by (metis io bit_and_iff)
  moreover have "\<not> bit (drop_bit k ((x XOR y) AND io) AND 0xff) n" unfolding same by simp
  ultimately show "bit (drop_bit k y AND 0xff) n = bit (drop_bit k x AND 0xff) n"
    by (auto simp: bit_simps)
qed

lemma reads_keep: "holding bus reg \<Longrightarrow> reg (snd (run_state (read_bytes bus as) x)) = reg x"
  by (induction "as" arbitrary: x) (simp_all add: reg_in_def holding_def split_beta)

lemma write_bytes_shows:
  assumes hold: "holding bus reg" and dist: "distinct as" and old: "shows_state (output_bytes io as) (reg x) old"
    and touched: "\<And>k. drop_bit (8 * k) touched AND 0xff = 0 \<Longrightarrow> drop_bit (8 * k) ((old XOR st) AND io) AND 0xff = 0"
  shows "shows_state (output_bytes io as) (reg (snd (run_state (write_bytes bus touched as st) x))) st"
proof -
  have "distinct (map ((!) as) [0..<length as])" using dist by (simp add: map_nth)
  note shown = io_all_shows[OF hold this, of _ "\<lambda>k. drop_bit (8 * k) touched AND 0xff \<noteq> 0" W8 "\<lambda>k. drop_bit (8 * k) st" x]
  have "reg (snd (run_state (write_bytes bus touched as st) x)) (as ! k) = drop_bit (8 * k) st AND 0xff"
    if "k < length as" "drop_bit (8 * k) io AND 0xff = 0xff" for k
    using that old shown[of k] unchanged_byte[OF that(2) touched[of k]]
    by (auto simp: write_bytes_def shows_state_def output_bytes_def split: if_splits)
  then show ?thesis by (auto simp: shows_state_def output_bytes_def)
qed

lemma merge_changes: "drop_bit k (m AND io) AND 0xff = 0 \<Longrightarrow> drop_bit k ((st XOR merge m b st) AND io) AND 0xff = 0"
  for st :: u32
  by (rule bit_eqI) (auto simp: bit_simps bit_merge disjoint_bits)

lemma no_changes: "drop_bit k ((st XOR st) AND io) AND 0xff = (0 :: u32)"
  by simp

lemma write_bytes_merged:
  assumes "holding bus reg" and "distinct as" and "shows_state (output_bytes io as) (reg x) st"
  shows "shows_state (output_bytes io as)
      (reg (snd (run_state (write_bytes bus ((st XOR merge m b st) AND io) as (merge m b st)) x))) (merge m b st)"
    "shows_state (output_bytes io as)
      (reg (snd (run_state (write_bytes bus (m AND io) as (merge m b st)) x))) (merge m b st)"
  by (rule write_bytes_shows[OF assms], assumption) (rule write_bytes_shows[OF assms], rule merge_changes)

lemmas bytes_simps = body_sets_def Let_def io_if_def split_beta reads_keep write_bytes_merged

lemma dt2817_distinct: "distinct (dt2817_data dev)"
  by (simp add: dt2817_data_def)

interpretation dt2817: output_handler dt2817_dio_insn_bits all_channels
  "\<lambda>dev s. output_bytes (sd_io_bits s) (dt2817_data dev)"
  by (rule state_outputI[OF dt2817_dio_insn_bits_def])
    (auto simp: bytes_simps dt2817_distinct, simp add: dt2817_data_def set_subd_def)

lemma pci20xxx_distinct: "distinct (pci20xxx_dio ioaddr)"
  by (simp add: pci20xxx_dio_def)

interpretation pci20xxx: output_handler "pci20xxx_dio_insn_bits ioaddr" all_channels
  "\<lambda>dev s. output_bytes (sd_io_bits s) (pci20xxx_dio ioaddr)" for ioaddr
  by (rule state_outputI[OF pci20xxx_dio_insn_bits_def]) (auto simp: bytes_simps pci20xxx_distinct)

section \<open>A board that does not keep the contract\<close>

text \<open>\<open>ni_atmio16d.c\<close> puts mask and bits together.\<close>

definition atmio16d_dio_insn_bits :: "'x bus \<Rightarrow> ('p, 'x) insn_handler" where
  "atmio16d_dio_insn_bits bus = checked (state_bits (\<lambda>dev s st m b.
     let st = (if m \<noteq> 0 then (st AND NOT m) OR (m OR b) else st) in
     do { io_if (m \<noteq> 0) (outw bus st (dv_iobase dev + 0x1c)); v \<leftarrow> inw bus (dv_iobase dev + 0x1c); give (st, m, v) }))"

end
