(* ===== verification/Digital_Directions.thy ===== *)
theory Digital_Directions
  imports Digital_Lines
begin

text \<open>
  The configuration instructions of the digital subdevices: input, output and the query of the direction, for a
  channel with all those of its group. The contract is the round trip of configuration and query. A channel is
  below the number of channels of its subdevice, which the core has checked.
\<close>

unbundle bit_operations_syntax

section \<open>Groups of channels\<close>

definition one_channel :: "u32 \<Rightarrow> u32" where
  "one_channel chan = push_bit (unat chan) 1"

text \<open>Ports A, B and the two halves of C of an 8255.\<close>

definition port_8255 :: "u32 \<Rightarrow> u32" where
  "port_8255 chan =
     (let mask = one_channel chan in
      if mask AND 0x0000ff \<noteq> 0 then 0x0000ff else if mask AND 0x00ff00 \<noteq> 0 then 0x00ff00
      else if mask AND 0x0f0000 \<noteq> 0 then 0x0f0000 else 0xf00000)"

definition byte_group :: "u32 \<Rightarrow> u32" where
  "byte_group chan = (if chan < 8 then 0xff else if chan < 16 then 0xff00 else if chan < 24 then 0xff0000 else 0xff000000)"

definition two_bytes :: "u32 \<Rightarrow> u32" where
  "two_bytes chan = (if chan < 8 then 0x00ff else 0xff00)"

definition two_nibbles :: "u32 \<Rightarrow> u32" where
  "two_nibbles chan = (if chan < 4 then 0x0f else 0xf0)"

definition nibble_group :: "u32 \<Rightarrow> u32" where
  "nibble_group chan = push_bit (4 * (unat chan div 4)) 0xf"

section \<open>The instruction\<close>

type_synonym ('p, 'x) set_direction =
  "bool \<Rightarrow> nat \<Rightarrow> u32 \<Rightarrow> ('p, 'x) comedi_device \<Rightarrow> 'p comedi_subdevice \<Rightarrow> ('p, 'x) comedi_device option"

text \<open>
  \<open>act out i chan dev s\<close> tells the board that \<open>chan\<close> of subdevice \<open>i\<close> is now an output (or an input); \<open>s\<close> has
  the new directions. The return code of a change is \<open>insn->n\<close> or 1.
\<close>

definition dio_config_with ::
  "(u32 \<Rightarrow> u32 \<Rightarrow> u32) \<Rightarrow> (u32 \<Rightarrow> u32 \<Rightarrow> u32) \<Rightarrow> (u32 \<Rightarrow> u32) \<Rightarrow> (comedi_insn \<Rightarrow> int) \<Rightarrow> ('p, 'x) set_direction \<Rightarrow>
    ('p, 'x) insn_handler" where
  "dio_config_with to_input to_output query ret act dev i insn data =
     do {
       s \<leftarrow> subd dev i;
       op \<leftarrow> load_nth data 0;
       let chan = CR_CHAN (insn_chanspec insn);
           change = (\<lambda>out s. do { dev \<leftarrow> act out i chan (set_subd i s dev) s; Some (ret insn, dev, insn, data) })
       in
       if op = INSN_CONFIG_DIO_INPUT then change False (s\<lparr>sd_io_bits := to_input chan (sd_io_bits s)\<rparr>)
       else if op = INSN_CONFIG_DIO_OUTPUT then change True (s\<lparr>sd_io_bits := to_output chan (sd_io_bits s)\<rparr>)
       else if op = INSN_CONFIG_DIO_QUERY then do {
         data \<leftarrow> store_nth data 1 (if sd_io_bits s AND query chan \<noteq> 0 then COMEDI_OUTPUT else COMEDI_INPUT);
         Some (sint (insn_n insn), dev, insn, data)
       }
       else Some (- EINVAL, dev, insn, data)
     }"

definition dio_config ::
  "(u32 \<Rightarrow> u32) \<Rightarrow> (u32 \<Rightarrow> u32) \<Rightarrow> (comedi_insn \<Rightarrow> int) \<Rightarrow> ('p, 'x) set_direction \<Rightarrow> ('p, 'x) insn_handler" where
  "dio_config grp = dio_config_with (\<lambda>chan io. io AND NOT (grp chan)) (\<lambda>chan io. io OR grp chan)"

definition length_of :: "comedi_insn \<Rightarrow> int" where "length_of insn = sint (insn_n insn)"

definition one :: "comedi_insn \<Rightarrow> int" where "one insn = 1"

definition told :: "(('p, 'x) comedi_device \<Rightarrow> 'p comedi_subdevice \<Rightarrow> ('x, unit) io) \<Rightarrow> ('p, 'x) set_direction" where
  "told io out i chan dev s = Some (dev\<lparr>dv_hw := snd (run_state (io dev s) (dv_hw dev))\<rparr>)"

text \<open>Boards that keep the directions in a control word of the driver's own, which is written out.\<close>

definition control_word ::
  "(u32 \<Rightarrow> u32 \<Rightarrow> u32) \<Rightarrow> (('p, 'x) comedi_device \<Rightarrow> u32 \<Rightarrow> ('x, unit) io) \<Rightarrow>
    ('p \<Rightarrow> u32) \<Rightarrow> (u32 \<Rightarrow> 'p \<Rightarrow> 'p) \<Rightarrow> ('p, 'x) set_direction" where
  "control_word upd io get put out i chan dev s =
     do {
       p \<leftarrow> dv_private dev;
       let w = upd (sd_io_bits s) (get p) in
       told (\<lambda>dev s. io dev w) out i chan (dev\<lparr>dv_private := Some (put w p)\<rparr>) s
     }"

section \<open>The contract\<close>

definition direction_code :: "u32 \<Rightarrow> u32" where
  "direction_code op = (if op = INSN_CONFIG_DIO_OUTPUT then COMEDI_OUTPUT else COMEDI_INPUT)"

text \<open>A query after a change: the channels of the group have the new direction, all others the one they had.\<close>

definition reports_directions ::
  "('x bus \<Rightarrow> ('p, 'x) insn_handler) \<Rightarrow> nat \<Rightarrow> (u32 \<Rightarrow> u32) \<Rightarrow> (u32 \<Rightarrow> u32) \<Rightarrow> (('p, 'x) comedi_device \<Rightarrow> bool) \<Rightarrow> bool" where
  "reports_directions config chans grp query ready \<longleftrightarrow>
     (\<forall>bus dev i s insn op. subd dev i = Some s \<longrightarrow> ready dev \<longrightarrow> op \<in> {INSN_CONFIG_DIO_INPUT, INSN_CONFIG_DIO_OUTPUT} \<longrightarrow>
        unat (CR_CHAN (insn_chanspec insn)) < chans \<longrightarrow>
        (\<exists>dev' r. config bus dev i insn [op] = Some (r, dev', insn, [op]) \<and> ready dev' \<and> (r = 1 \<or> r = sint (insn_n insn)) \<and>
           (\<forall>q. unat (CR_CHAN (insn_chanspec q)) < chans \<longrightarrow>
              (\<exists>before r r'. config bus dev i q [INSN_CONFIG_DIO_QUERY, 0] =
                  Some (r, dev, q, [INSN_CONFIG_DIO_QUERY, before]) \<and>
                config bus dev' i q [INSN_CONFIG_DIO_QUERY, 0] = Some (r', dev', q, [INSN_CONFIG_DIO_QUERY,
                  if query (CR_CHAN (insn_chanspec q)) AND grp (CR_CHAN (insn_chanspec insn)) \<noteq> 0
                  then direction_code op else before])))))"

locale direction_handler =
  fixes config :: "'x bus \<Rightarrow> ('p, 'x) insn_handler"
    and chans :: nat and grp query :: "u32 \<Rightarrow> u32"
    and ready :: "('p, 'x) comedi_device \<Rightarrow> bool"
  assumes inputs: "subd dev i = Some s \<Longrightarrow> ready dev \<Longrightarrow> unat (CR_CHAN (insn_chanspec insn)) < chans \<Longrightarrow> \<exists>dev' r.
      config bus dev i insn [INSN_CONFIG_DIO_INPUT] = Some (r, dev', insn, [INSN_CONFIG_DIO_INPUT]) \<and> ready dev' \<and>
      (r = 1 \<or> r = sint (insn_n insn)) \<and>
      map_option sd_io_bits (subd dev' i) = Some (sd_io_bits s AND NOT (grp (CR_CHAN (insn_chanspec insn))))"
    and outputs: "subd dev i = Some s \<Longrightarrow> ready dev \<Longrightarrow> unat (CR_CHAN (insn_chanspec insn)) < chans \<Longrightarrow> \<exists>dev' r.
      config bus dev i insn [INSN_CONFIG_DIO_OUTPUT] = Some (r, dev', insn, [INSN_CONFIG_DIO_OUTPUT]) \<and> ready dev' \<and>
      (r = 1 \<or> r = sint (insn_n insn)) \<and>
      map_option sd_io_bits (subd dev' i) = Some (sd_io_bits s OR grp (CR_CHAN (insn_chanspec insn)))"
    and asked: "subd dev i = Some s \<Longrightarrow> \<exists>r.
      config bus dev i insn [INSN_CONFIG_DIO_QUERY, x] = Some (r, dev, insn, [INSN_CONFIG_DIO_QUERY,
        if sd_io_bits s AND query (CR_CHAN (insn_chanspec insn)) \<noteq> 0 then COMEDI_OUTPUT else COMEDI_INPUT])"
    and within: "unat c < chans \<Longrightarrow> unat c' < chans \<Longrightarrow>
      query c' AND grp c = query c' \<and> query c' \<noteq> 0 \<or> query c' AND grp c = 0"
    and itself: "unat c < chans \<Longrightarrow> query c AND grp c \<noteq> 0"
begin

text \<open>What the query says of a channel.\<close>

definition direction :: "('p, 'x) comedi_device \<Rightarrow> nat \<Rightarrow> u32 \<Rightarrow> u32 option" where
  "direction dev i c = map_option
     (\<lambda>s. if sd_io_bits s AND query c \<noteq> 0 then COMEDI_OUTPUT else COMEDI_INPUT) (subd dev i)"

lemma configured:
  assumes s: "subd dev i = Some s" and ready: "ready dev" and op: "op \<in> {INSN_CONFIG_DIO_INPUT, INSN_CONFIG_DIO_OUTPUT}"
    and c: "unat (CR_CHAN (insn_chanspec insn)) < chans"
  obtains dev' r where "config bus dev i insn [op] = Some (r, dev', insn, [op])" and "ready dev'"
    "r = 1 \<or> r = sint (insn_n insn)"
    "\<And>c'. unat c' < chans \<Longrightarrow> direction dev' i c' =
      (if query c' AND grp (CR_CHAN (insn_chanspec insn)) \<noteq> 0
       then Some (direction_code op) else direction dev i c')"
proof -
  let ?g = "grp (CR_CHAN (insn_chanspec insn))"
  have io: "INSN_CONFIG_DIO_INPUT \<noteq> INSN_CONFIG_DIO_OUTPUT"
    by (simp add: INSN_CONFIG_DIO_INPUT_def INSN_CONFIG_DIO_OUTPUT_def)
  have kept: "(b AND NOT g) AND q = (if q AND g = q then 0 else b AND q)"
    "(b OR g) AND q = (if q AND g = q then q else b AND q)" if "q AND g = q \<and> q \<noteq> 0 \<or> q AND g = 0" for b g q :: u32
  proof -
    have "n < 32" if "bit q n" for n using bit_imp_le_length[OF that] by simp
    then show "(b AND NOT g) AND q = (if q AND g = q then 0 else b AND q)"
      "(b OR g) AND q = (if q AND g = q then q else b AND q)"
      using that by (auto simp: bit_eq_iff bit_simps)
  qed
  show thesis
  proof (cases "op = INSN_CONFIG_DIO_OUTPUT")
    case True
    with outputs[OF s ready c] obtain dev' r where dev': "config bus dev i insn [op] = Some (r, dev', insn, [op])" "ready dev'"
      "r = 1 \<or> r = sint (insn_n insn)" "map_option sd_io_bits (subd dev' i) = Some (sd_io_bits s OR ?g)"
      by metis
    from dev'(4) obtain s' where s': "subd dev' i = Some s'" "sd_io_bits s' = sd_io_bits s OR ?g" by auto
    show thesis
    proof (rule that[OF dev'(1-3)])
      fix c' :: u32
      assume "unat c' < chans"
      from kept(2)[OF within[OF c this]] within[OF c this] show "direction dev' i c' = (if query c' AND ?g \<noteq> 0
          then Some (direction_code op) else direction dev i c')"
        using s' s True by (auto simp: direction_def direction_code_def)
    qed
  next
    case False
    with op have "op = INSN_CONFIG_DIO_INPUT" by simp
    with inputs[OF s ready c] obtain dev' r where dev': "config bus dev i insn [op] = Some (r, dev', insn, [op])" "ready dev'"
      "r = 1 \<or> r = sint (insn_n insn)" "map_option sd_io_bits (subd dev' i) = Some (sd_io_bits s AND NOT ?g)"
      by metis
    from dev'(4) obtain s' where s': "subd dev' i = Some s'" "sd_io_bits s' = sd_io_bits s AND NOT ?g" by auto
    show thesis
    proof (rule that[OF dev'(1-3)])
      fix c' :: u32
      assume "unat c' < chans"
      from kept(1)[OF within[OF c this]] within[OF c this] show "direction dev' i c' = (if query c' AND ?g \<noteq> 0
          then Some (direction_code op) else direction dev i c')"
        using s' s False by (auto simp: direction_def direction_code_def)
    qed
  qed
qed

lemma reported: "reports_directions config chans grp query ready"
  unfolding reports_directions_def
proof (intro allI impI)
  fix bus dev i s op and insn :: comedi_insn
  assume a: "subd dev i = Some s" "ready dev" "op \<in> {INSN_CONFIG_DIO_INPUT, INSN_CONFIG_DIO_OUTPUT}"
    "unat (CR_CHAN (insn_chanspec insn)) < chans"
  from configured[OF a] obtain dev' r where
    dev': "config bus dev i insn [op] = Some (r, dev', insn, [op])" "ready dev'" "r = 1 \<or> r = sint (insn_n insn)"
    "\<And>c'. unat c' < chans \<Longrightarrow> direction dev' i c' = (if query c' AND grp (CR_CHAN (insn_chanspec insn)) \<noteq> 0
       then Some (direction_code op) else direction dev i c')"
    by blast
  have query: "\<exists>r. config bus d i q [INSN_CONFIG_DIO_QUERY, 0] = Some (r, d, q, [INSN_CONFIG_DIO_QUERY, x])"
    if "direction d i (CR_CHAN (insn_chanspec q)) = Some x" for d q x
    using that asked[of d i _ bus q 0] by (auto simp: direction_def)
  have before: "\<exists>b. direction dev i c = Some b" for c using a(1) by (simp add: direction_def)
  show "\<exists>dev' r. config bus dev i insn [op] = Some (r, dev', insn, [op]) \<and> ready dev' \<and> (r = 1 \<or> r = sint (insn_n insn)) \<and>
      (\<forall>q. unat (CR_CHAN (insn_chanspec q)) < chans \<longrightarrow>
        (\<exists>before r r'. config bus dev i q [INSN_CONFIG_DIO_QUERY, 0] = Some (r, dev, q, [INSN_CONFIG_DIO_QUERY, before]) \<and>
          config bus dev' i q [INSN_CONFIG_DIO_QUERY, 0] = Some (r', dev', q, [INSN_CONFIG_DIO_QUERY,
            if query (CR_CHAN (insn_chanspec q)) AND grp (CR_CHAN (insn_chanspec insn)) \<noteq> 0
            then direction_code op else before])))"
  proof (intro exI[of _ dev'] exI[of _ r] conjI allI impI)
    fix q :: comedi_insn
    assume q: "unat (CR_CHAN (insn_chanspec q)) < chans"
    obtain b where "direction dev i (CR_CHAN (insn_chanspec q)) = Some b" using before by blast
    moreover from this have "direction dev' i (CR_CHAN (insn_chanspec q)) = Some
        (if query (CR_CHAN (insn_chanspec q)) AND grp (CR_CHAN (insn_chanspec insn)) \<noteq> 0 then direction_code op else b)"
      using dev'(4)[OF q] by simp
    ultimately show "\<exists>before r r'. config bus dev i q [INSN_CONFIG_DIO_QUERY, 0] =
          Some (r, dev, q, [INSN_CONFIG_DIO_QUERY, before]) \<and>
        config bus dev' i q [INSN_CONFIG_DIO_QUERY, 0] = Some (r', dev', q, [INSN_CONFIG_DIO_QUERY,
          if query (CR_CHAN (insn_chanspec q)) AND grp (CR_CHAN (insn_chanspec insn)) \<noteq> 0
          then direction_code op else before])"
      using query by blast
  qed (use dev' in simp_all)
qed

end

section \<open>Keeping the contract\<close>

text \<open>The groups of the boards: \<open>query\<close> lies in one group, and is not empty.\<close>

definition grouped :: "nat \<Rightarrow> (u32 \<Rightarrow> u32) \<Rightarrow> (u32 \<Rightarrow> u32) \<Rightarrow> bool" where
  "grouped chans grp query \<longleftrightarrow>
     (\<forall>k<chans. \<forall>j<chans. query (of_nat j) AND grp (of_nat k) = query (of_nat j) \<and> query (of_nat j) \<noteq> 0 \<or>
        query (of_nat j) AND grp (of_nat k) = 0) \<and>
     (\<forall>k<chans. query (of_nat k) AND grp (of_nat k) \<noteq> 0)"

lemma groupedD:
  assumes "grouped chans grp query" and "unat c < chans"
  shows "unat c' < chans \<Longrightarrow> query c' AND grp c = query c' \<and> query c' \<noteq> 0 \<or> query c' AND grp c = 0"
    and "query c AND grp c \<noteq> 0"
proof -
  have "of_nat (unat x) = x" for x :: u32 by simp
  then show "unat c' < chans \<Longrightarrow> query c' AND grp c = query c' \<and> query c' \<noteq> 0 \<or> query c' AND grp c = 0"
    and "query c AND grp c \<noteq> 0"
    using assms unfolding grouped_def by metis+
qed

lemma dio_configI:
  assumes "\<And>bus. config bus = dio_config grp query ret (act bus)" and "ret = one \<or> ret = length_of"
    and act: "\<And>bus out i chan dev s. subd dev i = Some s \<Longrightarrow> ready dev \<Longrightarrow> unat chan < chans \<Longrightarrow> \<exists>dev' s'. act bus out i chan dev s = Some dev' \<and>
        subd dev' i = Some s' \<and> sd_io_bits s' = sd_io_bits s \<and> ready dev'"
    and ready: "\<And>dev i s. ready (set_subd i s dev) = ready dev"
    and "grouped chans grp query"
  shows "direction_handler config chans grp query ready"
proof
  fix dev :: "('b, 'a) comedi_device" and i s and insn :: comedi_insn and bus and x
  assume s: "subd dev i = Some s"
  have ret: "ret insn = 1 \<or> ret insn = sint (insn_n insn)" using assms(2) by (auto simp: one_def length_of_def)
  have ops: "INSN_CONFIG_DIO_INPUT \<noteq> INSN_CONFIG_DIO_OUTPUT" "INSN_CONFIG_DIO_QUERY \<noteq> INSN_CONFIG_DIO_OUTPUT"
    "INSN_CONFIG_DIO_QUERY \<noteq> INSN_CONFIG_DIO_INPUT"
    by (simp_all add: INSN_CONFIG_DIO_INPUT_def INSN_CONFIG_DIO_OUTPUT_def INSN_CONFIG_DIO_QUERY_def)
  show "\<exists>r. config bus dev i insn [INSN_CONFIG_DIO_QUERY, x] = Some (r, dev, insn, [INSN_CONFIG_DIO_QUERY,
      if sd_io_bits s AND query (CR_CHAN (insn_chanspec insn)) \<noteq> 0 then COMEDI_OUTPUT else COMEDI_INPUT])"
    using s ops by (simp add: assms(1) dio_config_def dio_config_with_def Let_def)
  assume "ready dev" and c: "unat (CR_CHAN (insn_chanspec insn)) < chans"
  then have act': "\<exists>dev'. act bus out i chan (set_subd i s' dev) s' = Some dev' \<and>
      map_option sd_io_bits (subd dev' i) = Some (sd_io_bits s') \<and> ready dev'"
    if "unat chan < chans" for s' out chan
    using act[of "set_subd i s' dev" i s' chan bus out] s that by (auto simp: ready)
  show "\<exists>dev' r. config bus dev i insn [INSN_CONFIG_DIO_INPUT] = Some (r, dev', insn, [INSN_CONFIG_DIO_INPUT]) \<and>
      ready dev' \<and> (r = 1 \<or> r = sint (insn_n insn)) \<and>
      map_option sd_io_bits (subd dev' i) = Some (sd_io_bits s AND NOT (grp (CR_CHAN (insn_chanspec insn))))"
    using s ops ret act'[OF c, where s' = "s\<lparr>sd_io_bits := sd_io_bits s AND NOT (grp (CR_CHAN (insn_chanspec insn)))\<rparr>" and out = False]
    by (auto simp: assms(1) dio_config_def dio_config_with_def Let_def)
  show "\<exists>dev' r. config bus dev i insn [INSN_CONFIG_DIO_OUTPUT] = Some (r, dev', insn, [INSN_CONFIG_DIO_OUTPUT]) \<and>
      ready dev' \<and> (r = 1 \<or> r = sint (insn_n insn)) \<and>
      map_option sd_io_bits (subd dev' i) = Some (sd_io_bits s OR grp (CR_CHAN (insn_chanspec insn)))"
    using s ops ret act'[OF c, where s' = "s\<lparr>sd_io_bits := sd_io_bits s OR grp (CR_CHAN (insn_chanspec insn))\<rparr>" and out = True]
    by (auto simp: assms(1) dio_config_def dio_config_with_def Let_def)
qed (use groupedD[OF assms(5)] in auto)

definition always :: "('p, 'x) comedi_device \<Rightarrow> bool" where "always dev \<longleftrightarrow> True"

definition has_private :: "('p, 'x) comedi_device \<Rightarrow> bool" where "has_private dev \<longleftrightarrow> dv_private dev \<noteq> None"

lemma told_configI:
  assumes "\<And>bus. config bus = dio_config grp query ret (told (io bus))" and "ret = one \<or> ret = length_of"
    and "grouped chans grp query"
  shows "direction_handler config chans grp query always"
  using assms by (intro dio_configI[where act = "\<lambda>bus. told (io bus)"]) (auto simp: told_def always_def subd_def)

lemma control_word_configI:
  assumes "\<And>bus. config bus = dio_config grp query ret (control_word upd (io bus) get put)"
    and "ret = one \<or> ret = length_of" and "grouped chans grp query"
  shows "direction_handler config chans grp query has_private"
  using assms by (intro dio_configI[where act = "\<lambda>bus. control_word upd (io bus) get put"])
    (auto simp: control_word_def told_def has_private_def set_subd_def subd_def Let_def)

lemma grouped_one_channel:
  assumes "\<forall>k<chans. k < 32 \<and> bit (grp (of_nat k)) k"
  shows "grouped chans grp one_channel"
proof -
  have "one_channel (of_nat j) AND g = (if bit g j then one_channel (of_nat j) else 0) \<and> one_channel (of_nat j) \<noteq> 0"
    if "j < 32" for j and g :: u32
  proof -
    have "one_channel (of_nat j) = push_bit j 1" using that by (simp add: one_channel_def unat_of_nat)
    moreover have "push_bit j 1 AND g = (if bit g j then push_bit j 1 else 0)"
      using that by (intro bit_eqI) (auto simp: bit_simps)
    moreover have "push_bit j (1 :: u32) \<noteq> 0" using that by simp
    ultimately show ?thesis by simp
  qed
  then show ?thesis using assms by (auto simp: grouped_def)
qed

lemma grouped_partition:
  assumes "\<And>k. k < chans \<Longrightarrow> grp (of_nat k) \<in> S" and "\<forall>x\<in>S. x \<noteq> 0 \<and> (\<forall>y\<in>S. x = y \<or> x AND y = 0)"
  shows "grouped chans grp grp"
  using assms unfolding grouped_def by (metis and.idem)

lemma grouped_simps:
  "grouped 32 one_channel one_channel" "grouped 24 port_8255 port_8255" "grouped 32 byte_group byte_group"
  "grouped 16 two_bytes two_bytes" "grouped 8 two_nibbles one_channel" "grouped 8 two_nibbles two_nibbles"
  "grouped 8 nibble_group nibble_group"
proof -
  show "grouped 32 one_channel one_channel"
    by (rule grouped_one_channel) (auto simp: one_channel_def unat_of_nat bit_simps)
  show "grouped 24 port_8255 port_8255"
    by (rule grouped_partition[where S = "{0xff, 0xff00, 0xf0000, 0xf00000}"]) (simp_all add: port_8255_def Let_def)
  show "grouped 32 byte_group byte_group"
    by (rule grouped_partition[where S = "{0xff, 0xff00, 0xff0000, 0xff000000}"]) (simp_all add: byte_group_def)
  show "grouped 16 two_bytes two_bytes"
    by (rule grouped_partition[where S = "{0xff, 0xff00}"]) (simp_all add: two_bytes_def)
  show "grouped 8 two_nibbles two_nibbles"
    by (rule grouped_partition[where S = "{0xf, 0xf0}"]) (simp_all add: two_nibbles_def)
  have "k div 4 = 0 \<or> k div 4 = 1" if "k < 8" for k :: nat using that by auto
  then show "grouped 8 nibble_group nibble_group"
    by (intro grouped_partition[where S = "{0xf, 0xf0}"]) (fastforce simp: nibble_group_def unat_of_nat)+
  have "\<forall>k<8. k < 32 \<and> bit (two_nibbles (of_nat k)) k" by code_simp
  then show "grouped 8 two_nibbles one_channel" by (rule grouped_one_channel)
qed

end
