(* ===== verification/Direction_Boards.thy ===== *)
theory Direction_Boards
  imports Digital_Directions
begin

text \<open>
  The configuration instructions of the boards, each with its contract, and those that do not keep it. A base
  address that the driver found when it attached is an argument.
\<close>

unbundle bit_operations_syntax

section \<open>Boards that only remember\<close>

definition no_board :: "('p, 'x) set_direction" where
  "no_board = told (\<lambda>dev s. give ())"

definition skel_dio_insn_config :: "'x bus \<Rightarrow> ('p, 'x) insn_handler" where
  "skel_dio_insn_config bus = dio_config one_channel one_channel length_of no_board"

definition usbdux_dio_insn_config :: "'x bus \<Rightarrow> ('p, 'x) insn_handler" where
  "usbdux_dio_insn_config bus = dio_config one_channel one_channel length_of no_board"

definition usbduxsigma_dio_insn_config :: "'x bus \<Rightarrow> ('p, 'x) insn_handler" where
  "usbduxsigma_dio_insn_config bus = dio_config one_channel one_channel length_of no_board"

interpretation skel_dir: direction_handler skel_dio_insn_config 32 one_channel one_channel always
  by (rule told_configI[where io = "\<lambda>bus dev s. give ()"]) (auto simp: skel_dio_insn_config_def no_board_def grouped_simps)

interpretation usbdux_dir: direction_handler usbdux_dio_insn_config 32 one_channel one_channel always
  by (rule told_configI[where io = "\<lambda>bus dev s. give ()"])
    (auto simp: usbdux_dio_insn_config_def no_board_def grouped_simps)

interpretation usbduxsigma_dir: direction_handler usbduxsigma_dio_insn_config 32 one_channel one_channel always
  by (rule told_configI[where io = "\<lambda>bus dev s. give ()"])
    (auto simp: usbduxsigma_dio_insn_config_def no_board_def grouped_simps)

section \<open>One register of directions\<close>

definition cb_pcidac_dio_insn_config :: "u64 \<Rightarrow> 'x bus \<Rightarrow> ('p, 'x) insn_handler" where
  "cb_pcidac_dio_insn_config dio_counter_iobase bus = dio_config one_channel one_channel length_of
     (told (\<lambda>dev s. writeb bus (sd_io_bits s) (dio_counter_iobase + 0x00)))"

interpretation cb_pcidac_dir: direction_handler "cb_pcidac_dio_insn_config base" 32 one_channel one_channel always for base
  by (rule told_configI[OF cb_pcidac_dio_insn_config_def]) (simp_all add: grouped_simps)

definition ni_670x_dio_insn_config :: "u64 \<Rightarrow> 'x bus \<Rightarrow> ('p, 'x) insn_handler" where
  "ni_670x_dio_insn_config daq_io_addr bus = dio_config one_channel one_channel length_of
     (told (\<lambda>dev s. writel bus (sd_io_bits s) (daq_io_addr + 0x20)))"

interpretation ni_670x_dir: direction_handler "ni_670x_dio_insn_config base" 32 one_channel one_channel always for base
  by (rule told_configI[OF ni_670x_dio_insn_config_def]) (simp_all add: grouped_simps)

definition ni_m_series_dio_insn_config :: "u64 \<Rightarrow> 'x bus \<Rightarrow> ('p, 'x) insn_handler" where
  "ni_m_series_dio_insn_config daq_io_addr bus = dio_config one_channel one_channel one
     (told (\<lambda>dev s. writel bus (sd_io_bits s) (daq_io_addr + 0x28)))"

interpretation ni_m_series_dir: direction_handler "ni_m_series_dio_insn_config base" 32 one_channel one_channel always
  for base
  by (rule told_configI[OF ni_m_series_dio_insn_config_def]) (simp_all add: grouped_simps)

text \<open>\<open>cb_pcidas64.c\<close> answers the query with 2 whatever the length of the instruction.\<close>

definition dio_60xx_config_insn :: "u64 \<Rightarrow> 'x bus \<Rightarrow> ('p, 'x) insn_handler" where
  "dio_60xx_config_insn dio_counter_iobase bus dev i insn data =
     do {
       (r, dev, insn, data) \<leftarrow> dio_config one_channel one_channel one
         (told (\<lambda>dev s. writeb bus (sd_io_bits s) (dio_counter_iobase + 0x40))) dev i insn data;
       Some (if data ! 0 = INSN_CONFIG_DIO_QUERY then 2 else r, dev, insn, data)
     }"

interpretation dio_60xx_dir: direction_handler "dio_60xx_config_insn base" 32 one_channel one_channel always for base
proof -
  have inner: "direction_handler (\<lambda>bus. dio_config one_channel one_channel one
      (told (\<lambda>dev s. writeb bus (sd_io_bits s) (base + 0x40)))) 32 one_channel one_channel always"
    by (rule told_configI[where io = "\<lambda>bus dev s. writeb bus (sd_io_bits s) (base + 0x40)" and ret = one])
      (simp_all add: grouped_simps)
  have ops: "INSN_CONFIG_DIO_INPUT \<noteq> INSN_CONFIG_DIO_QUERY" "INSN_CONFIG_DIO_OUTPUT \<noteq> INSN_CONFIG_DIO_QUERY"
    by (simp_all add: INSN_CONFIG_DIO_INPUT_def INSN_CONFIG_DIO_OUTPUT_def INSN_CONFIG_DIO_QUERY_def)
  show "direction_handler (dio_60xx_config_insn base) 32 one_channel one_channel always"
  proof (unfold_locales, goal_cases)
    case (1 dev i s insn bus)
    then show ?case using direction_handler.inputs[OF inner 1, of bus] ops by (auto simp: dio_60xx_config_insn_def)
  next
    case (2 dev i s insn bus)
    then show ?case using direction_handler.outputs[OF inner 2, of bus] ops by (auto simp: dio_60xx_config_insn_def)
  next
    case (3 dev i s bus insn x)
    then show ?case using direction_handler.asked[OF inner 3, of bus insn x] by (auto simp: dio_60xx_config_insn_def)
  next
    case (4 c c')
    then show ?case by (rule direction_handler.within[OF inner])
  next
    case (5 c)
    then show ?case by (rule direction_handler.itself[OF inner])
  qed
qed

section \<open>Groups of four, eight and sixteen\<close>

definition pci1723_dio_insn_config :: "'x bus \<Rightarrow> ('p, 'x) insn_handler" where
  "pci1723_dio_insn_config bus = dio_config two_bytes two_bytes one
     (told (\<lambda>dev s. outw bus ((if sd_io_bits s AND 0x00FF = 0 then 1 else 0) OR
        (if sd_io_bits s AND 0xFF00 = 0 then 2 else 0)) (dv_iobase dev + 0x1A)))"

interpretation pci1723_dir: direction_handler pci1723_dio_insn_config 16 two_bytes two_bytes always
  by (rule told_configI[OF pci1723_dio_insn_config_def]) (simp_all add: grouped_simps)

definition dio200_subdev_8255_set_dir ::
  "dio200_region \<Rightarrow> u32 \<Rightarrow> 'x bus \<Rightarrow> 'p comedi_subdevice \<Rightarrow> ('x, unit) io" where
  "dio200_subdev_8255_set_dir io ofs bus s = dio200_write8 io bus (ofs + 3)
     (0x80 OR (if sd_io_bits s AND 0x0000ff = 0 then 0x10 else 0) OR (if sd_io_bits s AND 0x00ff00 = 0 then 0x02 else 0) OR
      (if sd_io_bits s AND 0x0f0000 = 0 then 0x01 else 0) OR (if sd_io_bits s AND 0xf00000 = 0 then 0x08 else 0))"

definition dio200_subdev_8255_config :: "dio200_region \<Rightarrow> u32 \<Rightarrow> 'x bus \<Rightarrow> ('p, 'x) insn_handler" where
  "dio200_subdev_8255_config io ofs bus = dio_config port_8255 port_8255 one
     (told (\<lambda>dev s. dio200_subdev_8255_set_dir io ofs bus s))"

interpretation dio200_dir: direction_handler "dio200_subdev_8255_config io ofs" 24 port_8255 port_8255 always for io ofs
  by (rule told_configI[OF dio200_subdev_8255_config_def]) (simp_all add: grouped_simps)

definition dt2817_dio_insn_config :: "'x bus \<Rightarrow> ('p, 'x) insn_handler" where
  "dt2817_dio_insn_config bus = dio_config byte_group byte_group length_of
     (told (\<lambda>dev s. outb bus
        ((if sd_io_bits s AND 0x000000ff \<noteq> 0 then 0x1 else 0) OR (if sd_io_bits s AND 0x0000ff00 \<noteq> 0 then 0x2 else 0) OR
         (if sd_io_bits s AND 0x00ff0000 \<noteq> 0 then 0x4 else 0) OR (if sd_io_bits s AND 0xff000000 \<noteq> 0 then 0x8 else 0))
        (dv_iobase dev + 0)))"

interpretation dt2817_dir: direction_handler dt2817_dio_insn_config 32 byte_group byte_group always
  by (rule told_configI[OF dt2817_dio_insn_config_def]) (simp_all add: grouped_simps)

text \<open>\<open>dt3000.c\<close>: the board takes a command through a mailbox and answers there.\<close>

fun dt3k_wait :: "'x bus \<Rightarrow> u64 \<Rightarrow> nat \<Rightarrow> u32 \<Rightarrow> ('x, u32) io" where
  "dt3k_wait bus io_addr 0 status = give status"
| "dt3k_wait bus io_addr (Suc k) status =
     do {
       status \<leftarrow> readw bus (io_addr + 4 * 0xfff);
       if status AND 0xff00 \<noteq> 0 then give status else dt3k_wait bus io_addr k status
     }"

definition dt3k_send_cmd :: "'x bus \<Rightarrow> u64 \<Rightarrow> u32 \<Rightarrow> ('x, int) io" where
  "dt3k_send_cmd bus io_addr command =
     do {
       writew bus command (io_addr + 4 * 0xfff);
       status \<leftarrow> dt3k_wait bus io_addr 100 0;
       give (if status AND 0xff00 = 0x5500 then 0 else - ETIME)
     }"

definition dt3k_dio_config :: "'x bus \<Rightarrow> u64 \<Rightarrow> u32 \<Rightarrow> ('x, unit) io" where
  "dt3k_dio_config bus io_addr bits =
     do {
       writew bus 3 (io_addr + 4 * 0xfd3);
       writew bus bits (io_addr + 4 * 0xfd5);
       dt3k_send_cmd bus io_addr 1;
       give ()
     }"

definition dt3k_dio_insn_config :: "u64 \<Rightarrow> 'x bus \<Rightarrow> ('p, 'x) insn_handler" where
  "dt3k_dio_insn_config io_addr bus = dio_config two_nibbles one_channel length_of
     (told (\<lambda>dev s. dt3k_dio_config bus io_addr ((sd_io_bits s AND 0x01) OR drop_bit 3 (sd_io_bits s AND 0x10))))"

interpretation dt3k_dir: direction_handler "dt3k_dio_insn_config io_addr" 8 two_nibbles one_channel always for io_addr
  by (rule told_configI[OF dt3k_dio_insn_config_def]) (simp_all add: grouped_simps)

text \<open>\<open>s526.c\<close>: the direction of a group is a bit of the state that the bits instruction writes too.\<close>

definition s526_set_direction :: "'x bus \<Rightarrow> ('p, 'x) set_direction" where
  "s526_set_direction bus out i chan dev s =
     (let dirbit = push_bit (unat chan div 4 + 10) 1;
          s = s\<lparr>sd_state := if out then sd_state s OR dirbit else sd_state s AND NOT dirbit\<rparr>
      in told (\<lambda>dev s. outw bus (sd_state s) (dv_iobase dev + 0x0a)) out i chan (set_subd i s dev) s)"

definition s526_dio_insn_config :: "'x bus \<Rightarrow> ('p, 'x) insn_handler" where
  "s526_dio_insn_config bus = dio_config nibble_group nibble_group one (s526_set_direction bus)"

interpretation s526_dir: direction_handler s526_dio_insn_config 8 nibble_group nibble_group always
  by (rule dio_configI[OF s526_dio_insn_config_def])
    (auto simp: grouped_simps s526_set_direction_def told_def always_def subd_def set_subd_def load_nth_def Let_def
      split: if_splits)

section \<open>Control words\<close>

definition dt282x_dio_insn_config :: "('p \<Rightarrow> u32) \<Rightarrow> (u32 \<Rightarrow> 'p \<Rightarrow> 'p) \<Rightarrow> 'x bus \<Rightarrow> ('p, 'x) insn_handler" where
  "dt282x_dio_insn_config dacsr set_dacsr bus = dio_config two_bytes two_bytes length_of
     (control_word
        (\<lambda>io w. let w = (if io AND 0x00ff \<noteq> 0 then w OR 0x0001 else w AND NOT 0x0001)
                in if io AND 0xff00 \<noteq> 0 then w OR 0x0002 else w AND NOT 0x0002)
        (\<lambda>dev w. outw bus w (dv_iobase dev + 0x06)) dacsr set_dacsr)"

interpretation dt282x_dir: direction_handler "dt282x_dio_insn_config get put" 16 two_bytes two_bytes has_private for get put
  by (rule control_word_configI[OF dt282x_dio_insn_config_def]) (simp_all add: grouped_simps)

definition atmio16d_dio_insn_config :: "('p \<Rightarrow> u32) \<Rightarrow> (u32 \<Rightarrow> 'p \<Rightarrow> 'p) \<Rightarrow> 'x bus \<Rightarrow> ('p, 'x) insn_handler" where
  "atmio16d_dio_insn_config com_reg_2_state set_com_reg_2_state bus = dio_config two_nibbles two_nibbles length_of
     (control_word
        (\<lambda>io w. (w AND NOT 0x0300) OR (if io AND 0x0f \<noteq> 0 then 0x0100 else 0) OR (if io AND 0xf0 \<noteq> 0 then 0x0200 else 0))
        (\<lambda>dev w. outw bus w (dv_iobase dev + 0x02)) com_reg_2_state set_com_reg_2_state)"

interpretation atmio16d_dir: direction_handler "atmio16d_dio_insn_config get put" 8 two_nibbles two_nibbles has_private
  for get put
  by (rule control_word_configI[OF atmio16d_dio_insn_config_def]) (simp_all add: grouped_simps)

text \<open>\<open>ni_mio_common.c\<close>: the register is written with the board's own routine.\<close>

definition ni_dio_insn_config ::
  "(u32 \<Rightarrow> u32 \<Rightarrow> ('x, unit) io) \<Rightarrow> ('p \<Rightarrow> u32) \<Rightarrow> (u32 \<Rightarrow> 'p \<Rightarrow> 'p) \<Rightarrow> 'x bus \<Rightarrow> ('p, 'x) insn_handler" where
  "ni_dio_insn_config stc_writew dio_control set_dio_control bus = dio_config one_channel one_channel one
     (control_word (\<lambda>io w. (w AND NOT 0xff) OR (io AND 0xff)) (\<lambda>dev w. stc_writew w 11) dio_control set_dio_control)"

interpretation ni_dio_dir: direction_handler "ni_dio_insn_config stc_writew get put" 32 one_channel one_channel has_private
  for stc_writew get put
  by (rule control_word_configI[OF ni_dio_insn_config_def]) (simp_all add: grouped_simps)

text \<open>\<open>rtd520.c\<close>: the status register says what the control register means; its shadow is kept.\<close>

definition rtd_dio_insn_config :: "u64 \<Rightarrow> (u32 \<Rightarrow> 'p \<Rightarrow> 'p) \<Rightarrow> 'x bus \<Rightarrow> ('p, 'x) insn_handler" where
  "rtd_dio_insn_config las0 set_dioStatus bus = dio_config one_channel one_channel one
     (\<lambda>out i chan dev s. do {
        p \<leftarrow> dv_private dev;
        told (\<lambda>dev s. do {
          writew bus 1 (las0 + 0x7c); writew bus (sd_io_bits s AND 0xff) (las0 + 0x78); writew bus 0 (las0 + 0x7c)
        }) out i chan (dev\<lparr>dv_private := Some (set_dioStatus 0 p)\<rparr>) s
      })"

interpretation rtd_dir: direction_handler "rtd_dio_insn_config las0 put" 32 one_channel one_channel has_private for las0 put
  by (rule dio_configI[OF rtd_dio_insn_config_def])
    (auto simp: grouped_simps told_def has_private_def subd_def set_subd_def)

text \<open>\<open>ni_at_ao.c\<close>: only the bit of the group changes.\<close>

definition atao_dio_insn_config :: "('p \<Rightarrow> u32) \<Rightarrow> (u32 \<Rightarrow> 'p \<Rightarrow> 'p) \<Rightarrow> 'x bus \<Rightarrow> ('p, 'x) insn_handler" where
  "atao_dio_insn_config cfg3 set_cfg3 bus = dio_config two_nibbles one_channel one
     (\<lambda>out i chan. let enable = (if chan < 4 then 0x0004 else 0x0008) in
        control_word (\<lambda>io w. if out then w OR enable else w AND NOT enable)
          (\<lambda>dev w. outw bus w (dv_iobase dev + 0x04)) cfg3 set_cfg3 out i chan)"

interpretation atao_dir: direction_handler "atao_dio_insn_config get put" 8 two_nibbles one_channel has_private for get put
  by (rule dio_configI[OF atao_dio_insn_config_def])
    (auto simp: grouped_simps control_word_def told_def has_private_def subd_def set_subd_def Let_def)

section \<open>Open-collector lines\<close>

text \<open>\<open>pcmuio.c\<close>, \<open>pcmmio.c\<close>: every line can be read; an input is let go by writing a zero.\<close>

definition release_line :: "'x bus \<Rightarrow> u64 list \<Rightarrow> ('p, 'x) set_direction" where
  "release_line bus iobases out i chan dev s =
     do {
       ioaddr \<leftarrow> load_nth iobases (unat chan div 8);
       told (\<lambda>dev s. if out then give () else do {
         byte \<leftarrow> inb bus ioaddr;
         outb bus (byte AND NOT (push_bit (unat chan mod 8) 1)) ioaddr
       }) out i chan dev s
     }"

definition pcmuio_dio_insn_config :: "u64 list \<Rightarrow> 'x bus \<Rightarrow> ('p, 'x) insn_handler" where
  "pcmuio_dio_insn_config iobases bus = dio_config one_channel one_channel length_of (release_line bus iobases)"

definition pcmmio_dio_insn_config :: "u64 list \<Rightarrow> 'x bus \<Rightarrow> ('p, 'x) insn_handler" where
  "pcmmio_dio_insn_config iobases bus = dio_config one_channel one_channel length_of (release_line bus iobases)"

lemma release_directions:
  assumes "\<And>bus. config bus = dio_config one_channel one_channel length_of (release_line bus iobases)"
    and "chans \<le> 8 * length iobases" and "chans \<le> 32"
  shows "direction_handler config chans one_channel one_channel always"
proof (rule dio_configI[OF assms(1)])
  show "grouped chans one_channel one_channel"
    by (rule grouped_one_channel) (use assms(3) in \<open>auto simp: one_channel_def unat_of_nat bit_simps\<close>)
  fix chan :: u32
  assume "unat chan < chans"
  then have "unat chan div 8 < length iobases" using assms(2) by (simp add: less_mult_imp_div_less)
  then show "\<exists>dev' s'. release_line bus iobases out i chan dev s = Some dev' \<and> subd dev' i = Some s' \<and>
      sd_io_bits s' = sd_io_bits s \<and> always dev'" if "subd dev i = Some s" for bus out i and dev :: "('b, 'a) comedi_device" and s
    using that by (auto simp: release_line_def told_def always_def subd_def)
qed (simp_all add: always_def)

section \<open>Boards that do not keep the contract\<close>

text \<open>\<open>cb_das16_cs.c\<close>: an input keeps the bits of its own group and clears the others.\<close>

definition das16cs_set_direction :: "('p \<Rightarrow> u32) \<Rightarrow> (u32 \<Rightarrow> 'p \<Rightarrow> 'p) \<Rightarrow> 'x bus \<Rightarrow> ('p, 'x) set_direction" where
  "das16cs_set_direction status2 set_status2 bus = control_word
     (\<lambda>io w. (w AND NOT 0xc0) OR (if io AND 0xf0 \<noteq> 0 then 0x80 else 0) OR (if io AND 0x0f \<noteq> 0 then 0x40 else 0))
     (\<lambda>dev w. outw bus w (dv_iobase dev + 6)) status2 set_status2"

definition das16cs_dio_insn_config :: "('p \<Rightarrow> u32) \<Rightarrow> (u32 \<Rightarrow> 'p \<Rightarrow> 'p) \<Rightarrow> 'x bus \<Rightarrow> ('p, 'x) insn_handler" where
  "das16cs_dio_insn_config status2 set_status2 bus =
     dio_config_with (\<lambda>chan io. io AND two_nibbles chan) (\<lambda>chan io. io OR two_nibbles chan) one_channel length_of
       (das16cs_set_direction status2 set_status2 bus)"

text \<open>\<open>ni_pcidio.c\<close>: only an instruction of one sample is let through, also for the query, which needs two.\<close>

definition ni_pcidio_insn_config :: "u64 \<Rightarrow> 'x bus \<Rightarrow> ('p, 'x) insn_handler" where
  "ni_pcidio_insn_config daq_io_addr bus dev i insn data =
     (if insn_n insn \<noteq> 1 then Some (- EINVAL, dev, insn, data)
      else dio_config one_channel one_channel one
        (told (\<lambda>dev s. writel bus (sd_io_bits s) (daq_io_addr + 32))) dev i insn data)"

text \<open>\<open>comedi_parport.c\<close>: the query returns the direction instead of storing it.\<close>

definition parport_insn_config_a :: "('p \<Rightarrow> u32) \<Rightarrow> (u32 \<Rightarrow> 'p \<Rightarrow> 'p) \<Rightarrow> 'x bus \<Rightarrow> ('p, 'x) insn_handler" where
  "parport_insn_config_a c_data set_c_data bus dev i insn data =
     do {
       s \<leftarrow> subd dev i;
       op \<leftarrow> load_nth data 0;
       let change = (\<lambda>io upd. do {
             dev \<leftarrow> control_word (\<lambda>_. upd) (\<lambda>dev w. outb bus w (dv_iobase dev + 2)) c_data set_c_data (io \<noteq> 0) i 0
               (set_subd i (s\<lparr>sd_io_bits := io\<rparr>) dev) (s\<lparr>sd_io_bits := io\<rparr>);
             Some (sint (insn_n insn), dev, insn, data)
           })
       in
       if op = INSN_CONFIG_DIO_INPUT then change 0 (\<lambda>w. w OR 0x20)
       else if op = INSN_CONFIG_DIO_OUTPUT then change 0xff (\<lambda>w. w AND NOT 0x20)
       else if op = INSN_CONFIG_DIO_QUERY
         then Some (if sd_io_bits s \<noteq> 0 then uint COMEDI_OUTPUT else uint COMEDI_INPUT, dev, insn, data)
       else Some (- EINVAL, dev, insn, data)
     }"

text \<open>\<open>ii_pci20kc.c\<close>, \<open>me_daq.c\<close>: whatever is not the code of an input, the query too, makes an output.\<close>

definition pci20xxx_dio_config :: "'x bus \<Rightarrow> u64 \<Rightarrow> u32 \<Rightarrow> ('x, unit) io" where
  "pci20xxx_dio_config bus ioaddr io =
     do {
       control_01 \<leftarrow> readb bus (ioaddr + 0x83);
       control_23 \<leftarrow> readb bus (ioaddr + 0xc3);
       buffer \<leftarrow> readb bus (ioaddr + 0x82);
       let even = (\<lambda>out c. if out then c AND 0xef else (c AND 0x12) OR 0x90);
           odd = (\<lambda>out c. if out then c AND 0xfd else (c AND 0x12) OR 0x82);
           buf = (\<lambda>out k b. if out then (b AND NOT (push_bit k 0x01)) OR push_bit k 0x04 else b AND NOT (push_bit k 0x05));
           p0 = (io AND 0xff \<noteq> 0); p1 = (io AND 0xff00 \<noteq> 0); p2 = (io AND 0xff0000 \<noteq> 0); p3 = (io AND 0xff000000 \<noteq> 0)
       in do {
         writeb bus (odd p1 (even p0 control_01)) (ioaddr + 0x83);
         writeb bus (odd p3 (even p2 control_23)) (ioaddr + 0xc3);
         writeb bus (buf p3 5 (buf p2 4 (buf p1 1 (buf p0 0 buffer)))) (ioaddr + 0x82)
       }
     }"

definition pci20xxx_dio_insn_config :: "u64 \<Rightarrow> 'x bus \<Rightarrow> ('p, 'x) insn_handler" where
  "pci20xxx_dio_insn_config ioaddr bus dev i insn data =
     do {
       s \<leftarrow> subd dev i;
       op \<leftarrow> load_nth data 0;
       let bits = byte_group (CR_CHAN (insn_chanspec insn));
           s = s\<lparr>sd_io_bits := if op \<noteq> 0 then sd_io_bits s OR bits else sd_io_bits s AND NOT bits\<rparr>
       in do {
         dev \<leftarrow> told (\<lambda>dev s. pci20xxx_dio_config bus ioaddr (sd_io_bits s)) (op \<noteq> 0) i 0 (set_subd i s dev) s;
         Some (1, dev, insn, data)
       }
     }"

definition me_dio_insn_config :: "u64 \<Rightarrow> ('p \<Rightarrow> u32) \<Rightarrow> (u32 \<Rightarrow> 'p \<Rightarrow> 'p) \<Rightarrow> 'x bus \<Rightarrow> ('p, 'x) insn_handler" where
  "me_dio_insn_config me_regbase control_2 set_control_2 bus dev i insn data =
     do {
       s \<leftarrow> subd dev i;
       op \<leftarrow> load_nth data 0;
       let low = CR_CHAN (insn_chanspec insn) < 16;
           bits = (if low then 0x0000ffff else 0xffff0000);
           s = s\<lparr>sd_io_bits := if op \<noteq> 0 then sd_io_bits s OR bits else sd_io_bits s AND NOT bits\<rparr>
       in do {
         dev \<leftarrow> control_word (\<lambda>_ w. w OR (if low then 0x40 else 0x80)) (\<lambda>dev w. writew bus w (me_regbase + 0x0002))
           control_2 set_control_2 (op \<noteq> 0) i 0 (set_subd i s dev) s;
         Some (1, dev, insn, data)
       }
     }"

text \<open>
  \<open>pcm3724.c\<close>: the two halves of port C are configured apart, but the board has one direction for the port. The
  private data are the channels that have been configured.
\<close>

record priv_pcm3724 =
  dio_1 :: u32
  dio_2 :: u32

definition compute_buffer :: "u32 \<Rightarrow> bool \<Rightarrow> 'p comedi_subdevice \<Rightarrow> u32" where
  "compute_buffer config second s =
     (let bit = (\<lambda>m a b config. if sd_io_bits s AND m \<noteq> 0 then config OR (if second then b else a) else config)
      in bit 0xff0000 0x1 0x8 (bit 0x00ff00 0x2 0x10 (bit 0x0000ff 0x4 0x20 config)))"

definition config_3724 :: "'p comedi_subdevice \<Rightarrow> u32" where
  "config_3724 s = 0x80 OR (if sd_io_bits s AND 0x0000ff = 0 then 0x10 else 0) OR
     (if sd_io_bits s AND 0x00ff00 = 0 then 0x02 else 0) OR (if sd_io_bits s AND 0xff0000 = 0 then 0x09 else 0)"

definition do_3724_config ::
  "'x bus \<Rightarrow> nat \<Rightarrow> ('p, 'x) comedi_device \<Rightarrow> 'p comedi_subdevice \<Rightarrow> ('p, 'x) comedi_device option" where
  "do_3724_config bus i dev s =
     do {
       s0 \<leftarrow> subd dev 0;
       s1 \<leftarrow> subd dev 1;
       told (\<lambda>dev s. do {
         outb bus (compute_buffer (compute_buffer 0 False s0) True s1) (dv_iobase dev + 8);
         outb bus (config_3724 s) (dv_iobase dev + (if i = 0 then 3 else 7))
       }) True i 0 dev s
     }"

definition enable_chan ::
  "'x bus \<Rightarrow> nat \<Rightarrow> u32 \<Rightarrow> (priv_pcm3724, 'x) comedi_device \<Rightarrow> (priv_pcm3724, 'x) comedi_device option" where
  "enable_chan bus i chan dev =
     do {
       p \<leftarrow> dv_private dev;
       let p = (if i = 0 then p\<lparr>dio_1 := dio_1 p OR one_channel chan\<rparr> else p\<lparr>dio_2 := dio_2 p OR one_channel chan\<rparr>);
           gate = (\<lambda>x m b. if x AND m \<noteq> 0 then b else 0);
           gatecfg = gate (dio_1 p) 0xff0000 0x1 OR gate (dio_1 p) 0xff00 0x2 OR gate (dio_1 p) 0xff 0x4 OR
             gate (dio_2 p) 0xff0000 0x8 OR gate (dio_2 p) 0xff00 0x10 OR gate (dio_2 p) 0xff 0x20
       in Some (dev\<lparr>dv_private := Some p, dv_hw := snd (run_state (outb bus gatecfg (dv_iobase dev + 9)) (dv_hw dev))\<rparr>)
     }"

definition subdev_3724_insn_config :: "'x bus \<Rightarrow> (priv_pcm3724, 'x) insn_handler" where
  "subdev_3724_insn_config bus = dio_config port_8255 port_8255 one
     (\<lambda>out i chan dev s. do { dev \<leftarrow> do_3724_config bus i dev s; enable_chan bus i chan dev })"

end
