(* ===== verification/Line_Contracts.thy ===== *)
theory Line_Contracts
  imports Direction_Boards
begin

text \<open>
  The contract of the outputs without its locale, so that it can be stated of many boards at once, and what the
  core makes of it: a write to one channel through \<open>insn_rw_emulate_bits\<close>.
\<close>

unbundle bit_operations_syntax

text \<open>The masked channels within \<open>lim\<close> take the bits, the others keep theirs, the terminals show all of them.\<close>

definition keeps_outputs ::
  "('x bus \<Rightarrow> ('p, 'x) insn_handler) \<Rightarrow> u32 \<Rightarrow> (('p, 'x) comedi_device \<Rightarrow> 'p comedi_subdevice \<Rightarrow> terminals) \<Rightarrow> bool" where
  "keeps_outputs h lim terminals \<longleftrightarrow>
     (\<forall>bus reg dev i s insn m b. subd dev i = Some s \<longrightarrow> insn_n insn = 2 \<longrightarrow> holding bus reg \<longrightarrow>
        shows_state (terminals dev s) (reg (dv_hw dev)) (sd_state s) \<longrightarrow>
        (\<exists>dev' s' m' w. h bus dev i insn [m, b] = Some (2, dev', insn, [m', w]) \<and> subd dev' i = Some s' \<and>
           terminals dev' s' = terminals dev s \<and> shows_state (terminals dev s) (reg (dv_hw dev')) (sd_state s') \<and>
           (\<forall>j \<noteq> i. subd dev' j = subd dev j) \<and>
           (\<forall>k<32. bit (sd_state s') k = (if bit m k \<and> bit lim k then bit b k else bit (sd_state s) k))))"

text \<open>The same for a write to one channel, by which the core serves a driver that has the bits instruction only.\<close>

definition writes_one_channel ::
  "('x bus \<Rightarrow> ('p, 'x) insn_handler) \<Rightarrow> (('p, 'x) comedi_device \<Rightarrow> 'p comedi_subdevice \<Rightarrow> terminals) \<Rightarrow> bool" where
  "writes_one_channel h terminals \<longleftrightarrow>
     (\<forall>ops g bus reg dev i s insn d. op_insn ops g = h bus \<longrightarrow> holding bus reg \<longrightarrow> subd dev i = Some s \<longrightarrow>
        sd_insn_bits s = Some (Insn_driver g) \<longrightarrow> sd_subdev_flags s AND SDF_WRITABLE \<noteq> 0 \<longrightarrow>
        shows_state (terminals dev s) (reg (dv_hw dev)) (sd_state s) \<longrightarrow>
        insn_insn insn = INSN_WRITE \<longrightarrow> insn_n insn \<noteq> 0 \<longrightarrow> CR_CHAN (insn_chanspec insn) < 32 \<longrightarrow>
        (\<exists>dev' s'. insn_rw_emulate_bits ops dev i insn [d] = Some (1, dev', insn, [d]) \<and> subd dev' i = Some s' \<and>
           shows_state (terminals dev s) (reg (dv_hw dev')) (sd_state s') \<and>
           (\<forall>k<32. bit (sd_state s') k =
              (if k = unat (CR_CHAN (insn_chanspec insn)) then d \<noteq> 0 else bit (sd_state s) k))))"

context output_handler
begin

lemma kept:
  assumes "\<forall>s. lim s = l"
  shows "keeps_outputs insn_bits l terminals"
  unfolding keeps_outputs_def
proof (intro allI impI)
  fix bus reg dev i s m b and insn :: comedi_insn
  assume a: "subd dev i = Some s" "insn_n insn = 2" "holding bus reg"
    "shows_state (terminals dev s) (reg (dv_hw dev)) (sd_state s)"
  let ?s = "s\<lparr>sd_state := merge (m AND l) b (sd_state s)\<rparr>"
  from sets[OF a, of m b] obtain x m' w where
    call: "insn_bits bus dev i insn [m, b] = Some (2, set_subd i ?s (dev\<lparr>dv_hw := x\<rparr>), insn, [m', w])"
      and shown: "shows_state (terminals dev s) (reg x) (sd_state ?s)"
    by (auto simp: assms)
  show "\<exists>dev' s' m' w. insn_bits bus dev i insn [m, b] = Some (2, dev', insn, [m', w]) \<and> subd dev' i = Some s' \<and>
      terminals dev' s' = terminals dev s \<and> shows_state (terminals dev s) (reg (dv_hw dev')) (sd_state s') \<and>
      (\<forall>j \<noteq> i. subd dev' j = subd dev j) \<and>
      (\<forall>k<32. bit (sd_state s') k = (if bit m k \<and> bit l k then bit b k else bit (sd_state s) k))"
  proof (intro exI conjI)
    show "terminals (set_subd i ?s (dev\<lparr>dv_hw := x\<rparr>)) ?s = terminals dev s" by (rule terminals_fixed)
    show "subd (set_subd i ?s (dev\<lparr>dv_hw := x\<rparr>)) i = Some ?s"
      using a(1) by (intro subd_set_subd_same) (simp add: subd_def)
    show "\<forall>j \<noteq> i. subd (set_subd i ?s (dev\<lparr>dv_hw := x\<rparr>)) j = subd dev j" by (auto simp: subd_def set_subd_def load_nth_def)
  qed (use call shown in \<open>auto simp: bit_merge bit_simps set_subd_def\<close>)
qed

text \<open>With all channels in reach this is the contract that the core relies on.\<close>

definition shown_outputs :: "fnptr \<Rightarrow> ('x \<Rightarrow> addr \<Rightarrow> u32) \<Rightarrow> terminals \<Rightarrow> ('p, 'x) comedi_device \<Rightarrow> nat \<Rightarrow> bool" where
  "shown_outputs g reg ts dev i \<longleftrightarrow> (\<exists>s. subd dev i = Some s \<and> sd_insn_bits s = Some (Insn_driver g) \<and>
     terminals dev s = ts \<and> shows_state ts (reg (dv_hw dev)) (sd_state s))"

definition state_of :: "('p, 'x) comedi_device \<Rightarrow> nat \<Rightarrow> u32" where
  "state_of dev i = (case subd dev i of None \<Rightarrow> 0 | Some s \<Rightarrow> sd_state s)"

lemma provides_bits:
  assumes "\<forall>s. lim s = - 1" and "op_insn ops g = insn_bits bus" and "holding bus reg"
  shows "bits_provider ops g (shown_outputs g reg ts) state_of"
proof
  fix dev i m v and insn :: comedi_insn
  assume "shown_outputs g reg ts dev i"
  then obtain s where s: "subd dev i = Some s" "sd_insn_bits s = Some (Insn_driver g)" "terminals dev s = ts"
    "shows_state ts (reg (dv_hw dev)) (sd_state s)" by (auto simp: shown_outputs_def)
  then show "\<exists>s. subd dev i = Some s \<and> sd_insn_bits s = Some (Insn_driver g)" by blast
  assume n: "insn_n insn = 2"
  let ?s = "s\<lparr>sd_state := merge m v (sd_state s)\<rparr>"
  from sets[OF s(1) n assms(3), of m v] s(3,4) obtain x w where
    "insn_bits bus dev i insn [m, v] = Some (2, set_subd i ?s (dev\<lparr>dv_hw := x\<rparr>), insn, [m, w])"
    and "shows_state ts (reg x) (merge m v (sd_state s))"
    by (auto simp: assms(1)[rule_format])
  moreover have "subd (set_subd i ?s (dev\<lparr>dv_hw := x\<rparr>)) i = Some ?s" for x
    using s(1) by (intro subd_set_subd_same) (simp add: subd_def)
  moreover have "dv_hw (set_subd i ?s (dev\<lparr>dv_hw := x\<rparr>)) = x" for x by (simp add: set_subd_def)
  ultimately show "\<exists>dev' w. op_insn ops g dev i insn [m, v] = Some (2, dev', insn, [m, w]) \<and>
      state_of dev' i = (state_of dev i AND NOT m) OR (m AND v) \<and> shown_outputs g reg ts dev' i"
    using s terminals_fixed[where dev = dev and i = i and s = s and st = "merge m v (sd_state s)"]
    by (auto simp: assms(2) state_of_def shown_outputs_def merge_def)
qed

lemma channel_written:
  assumes "\<forall>s. lim s = - 1"
  shows "writes_one_channel insn_bits terminals"
  unfolding writes_one_channel_def
proof (intro allI impI)
  fix ops :: "('p, 'x) driver_ops" and g bus and reg :: "'x \<Rightarrow> addr \<Rightarrow> u32" and dev :: "('p, 'x) comedi_device"
    and i s d and insn :: comedi_insn
  assume ops: "op_insn ops g = insn_bits bus" "holding bus reg" and s: "subd dev i = Some s"
    "sd_insn_bits s = Some (Insn_driver g)" and wr: "sd_subdev_flags s AND SDF_WRITABLE \<noteq> 0"
    and shown: "shows_state (terminals dev s) (reg (dv_hw dev)) (sd_state s)"
    and insn: "insn_insn insn = INSN_WRITE" "insn_n insn \<noteq> 0" "CR_CHAN (insn_chanspec insn) < 32"
  have rdy: "shown_outputs g reg (terminals dev s) dev i" using s shown by (auto simp: shown_outputs_def)
  from bits_provider.emulated_write[OF provides_bits[OF assms ops] rdy s(1) wr insn, of d "[]"]
  show "\<exists>dev' s'. insn_rw_emulate_bits ops dev i insn [d] = Some (1, dev', insn, [d]) \<and> subd dev' i = Some s' \<and>
      shows_state (terminals dev s) (reg (dv_hw dev')) (sd_state s') \<and>
      (\<forall>k<32. bit (sd_state s') k =
         (if k = unat (CR_CHAN (insn_chanspec insn)) then d \<noteq> 0 else bit (sd_state s) k))"
    using s by (auto simp: shown_outputs_def state_of_def)
qed

end

end
