(* ===== verification/Line_Properties.thy ===== *)
theory Line_Properties
  imports Line_Contracts Attach
begin

text \<open>
  What holds of the digital lines of all the boards, and of those whose drivers go wrong.
\<close>

unbundle bit_operations_syntax

section \<open>A board\<close>

text \<open>Registers that hold what is written to them, and a device with one writable subdevice of 16 channels.\<close>

definition register_bus :: "(addr \<Rightarrow> u32) bus" where
  "register_bus = \<lparr>bus_in = \<lambda>w a x. (x a, x), bus_out = \<lambda>w a v x. x(a := v)\<rparr>"

lemma register_bus_holds: "holding register_bus (\<lambda>x. x)"
  by (simp add: holding_def register_bus_def)

definition line_subd :: "u64 comedi_subdevice" where
  "line_subd = zero_subd\<lparr>sd_type := COMEDI_SUBD_DO, sd_subdev_flags := SDF_WRITABLE, sd_n_chan := 16,
     sd_insn_bits := Some (Insn_driver 0)\<rparr>"

definition line_dev :: "(u64, addr \<Rightarrow> u32) comedi_device" where
  "line_dev = \<lparr>dv_use_count = 0, dv_driver = None, dv_private = Some 0, dv_class_dev = False, dv_minor = 0,
     dv_hw_dev = None, dv_board_name = None, dv_board_ptr = None, dv_attached = True, dv_rt = False,
     dv_in_request_module = False, dv_n_subdevices = 1, dv_subdevices = [line_subd], dv_iobase = 0x300, dv_irq = 0,
     dv_read_subdev = None, dv_write_subdev = None, dv_open = None, dv_close = None, dv_hw = \<lambda>_. 0\<rparr>"

definition line_insn :: "u32 \<Rightarrow> u32 \<Rightarrow> comedi_insn" where
  "line_insn op n = \<lparr>insn_insn = op, insn_n = n, insn_data = 0, insn_subdev = 0, insn_chanspec = 5\<rparr>"

lemma line_dev_simps: "subd line_dev 0 = Some line_subd" "dv_hw line_dev = (\<lambda>_. 0)" "dv_iobase line_dev = 0x300"
  "dv_private line_dev = Some 0" "sd_state line_subd = 0" "CR_CHAN (insn_chanspec (line_insn op n)) = 5"
  "insn_insn (line_insn op n) = op" "insn_n (line_insn op n) = n" "sd_insn_bits line_subd = Some (Insn_driver 0)"
  "sd_subdev_flags line_subd AND SDF_WRITABLE \<noteq> 0"
  by (simp_all add: subd_def line_dev_def line_subd_def line_insn_def zero_subd_def CR_CHAN_def SDF_defs)

definition line_ops :: "(u64, addr \<Rightarrow> u32) insn_handler \<Rightarrow> (u64, addr \<Rightarrow> u32) driver_ops" where
  "line_ops h = \<lparr>op_insn = (\<lambda>f. h), op_do_cmd = (\<lambda>f dev i. None), op_do_cmdtest = (\<lambda>f dev i cmd. None),
     op_poll = (\<lambda>f dev i. None), op_cancel = (\<lambda>f dev i. None), op_buf_change = (\<lambda>f dev i n. None),
     op_munge = (\<lambda>f dev i bs c. bs), op_inttrig = (\<lambda>f dev i t. None), op_attach = (\<lambda>f dev it. None),
     op_detach = (\<lambda>f dev. None), op_open = (\<lambda>f dev. None),
     op_close = (\<lambda>f dev. None)\<rparr>"

section \<open>Outputs\<close>

text \<open>
  C10. The bits instructions of 40 digital subdevices keep the contract of outputs: they succeed, the channels of
  the mask take the given bits and all others keep theirs, no other subdevice changes, and on a board whose
  registers hold what is written to them the terminals go on showing the channels, in the registers listed for
  each board.
\<close>

theorem boards_keep_outputs:
  "keeps_outputs pcl711_do_insn_bits (- 1)
     (\<lambda>dev s. [(Port (dv_iobase dev + 13), \<lambda>st. st AND 0xff),
        (Port (dv_iobase dev + 14), \<lambda>st. drop_bit 8 st AND 0xff)]) \<and>
   keeps_outputs acl7225b_do_insn (- 1)
     (\<lambda>dev s. let a = dv_iobase dev + ulong_private s in [(Port a, \<lambda>st. st AND 0xff),
        (Port (a + 1), \<lambda>st. drop_bit 8 st AND 0xff)]) \<and>
   keeps_outputs pcl730_do_insn (- 1)
     (\<lambda>dev s. let a = dv_iobase dev + ulong_private s in [(Port a, \<lambda>st. st AND 0xff),
        (Port (a + 1), \<lambda>st. drop_bit 8 st AND 0xff)]) \<and>
   keeps_outputs pcm3730_do_insn_bits (- 1) (\<lambda>dev s. [(Port (dv_iobase dev + ulong_private s), \<lambda>st. st AND 0xff)]) \<and>
   keeps_outputs adl_pci7230_do_insn_bits (- 1) (\<lambda>dev s. [(Port (dv_iobase dev), push_bit 16)]) \<and>
   keeps_outputs adl_pci7432_do_insn_bits (- 1) (\<lambda>dev s. [(Port (dv_iobase dev), \<lambda>st. st)]) \<and>
   keeps_outputs adl_pci7250_do_insn_bits (- 1)
     (\<lambda>dev s. let a = dv_iobase dev in [(Port a, \<lambda>st. st AND 0xff),
        (Port (a + 2), \<lambda>st. drop_bit 8 st AND 0xff), (Port (a + 4), \<lambda>st. drop_bit 16 st AND 0xff),
        (Port (a + 6), \<lambda>st. drop_bit 24 st AND 0xff)]) \<and>
   keeps_outputs pci6208_do_insn_bits 0xf (\<lambda>dev s. [(Port (dv_iobase dev + 0x40), \<lambda>st. st AND 0xffff)]) \<and>
   keeps_outputs pci9111_do_insn_bits 0xffff (\<lambda>dev s. [(Port (dv_iobase dev + 2), \<lambda>st. st AND 0xffff)]) \<and>
   keeps_outputs pci9112_do_insn_bits 0xffff (\<lambda>dev s. [(Port (dv_iobase dev + 0x1c), \<lambda>st. st AND 0xffff)]) \<and>
   keeps_outputs pci9118_insn_bits_do (- 1) (\<lambda>dev s. [(Port (dv_iobase dev + 0x1c), \<lambda>st. st AND 0x0f)]) \<and>
   keeps_outputs pci171x_insn_bits_do (- 1) (\<lambda>dev s. [(Port (dv_iobase dev + 16), \<lambda>st. st AND 0xffff)]) \<and>
   keeps_outputs (contec_do_insn_bits out_offs) (- 1)
     (\<lambda>dev s. [(Port (dv_iobase dev + out_offs), \<lambda>st. st AND 0xffff)]) \<and>
   keeps_outputs pcl725_do_insn (- 1) (\<lambda>dev s. [(Port (dv_iobase dev), \<lambda>st. st AND 0xff)]) \<and>
   keeps_outputs aio_iiro_16_dio_insn_bits_write (- 1)
     (\<lambda>dev s. [(Port (dv_iobase dev), \<lambda>st. st AND 0xff),
        (Port (dv_iobase dev + 4), \<lambda>st. drop_bit 8 st AND 0xff)]) \<and>
   keeps_outputs pc263_do_insn_bits (- 1)
     (\<lambda>dev s. [(Port (dv_iobase dev), \<lambda>st. st AND 0xff),
        (Port (dv_iobase dev + 1), \<lambda>st. drop_bit 8 st AND 0xff)]) \<and>
   keeps_outputs pcl812_do_insn_bits (- 1)
     (\<lambda>dev s. [(Port (dv_iobase dev + 13), \<lambda>st. st AND 0xff),
        (Port (dv_iobase dev + 14), \<lambda>st. drop_bit 8 st AND 0xff)]) \<and>
   keeps_outputs pcl818_do_insn_bits (- 1)
     (\<lambda>dev s. [(Port (dv_iobase dev + 3), \<lambda>st. st AND 0xff),
        (Port (dv_iobase dev + 11), \<lambda>st. drop_bit 8 st AND 0xff)]) \<and>
   keeps_outputs multiq3_do_insn_bits (- 1) (\<lambda>dev s. [(Port (dv_iobase dev), \<lambda>st. st AND 0xffff)]) \<and>
   keeps_outputs dt2811_do_insn_bits (- 1) (\<lambda>dev s. [(Port (dv_iobase dev + 6), \<lambda>st. st AND 0xff)]) \<and>
   keeps_outputs pcl734_insn_bits (- 1)
     (\<lambda>dev s. let a = dv_iobase dev in [(Port a, \<lambda>st. st AND 0xff),
        (Port (a + 1), \<lambda>st. drop_bit 8 st AND 0xff), (Port (a + 2), \<lambda>st. drop_bit 16 st AND 0xff),
        (Port (a + 3), \<lambda>st. drop_bit 24 st AND 0xff)]) \<and>
   keeps_outputs rti800_do_insn_bits (- 1) (\<lambda>dev s. [(Port (dv_iobase dev + 11), \<lambda>st. (st XOR 0xff) AND 0xff)]) \<and>
   keeps_outputs (ni6527_do_insn_bits daq_io_addr) (- 1)
     (\<lambda>dev s. [(Mem (daq_io_addr + 3), \<lambda>st. (st AND 0xff) XOR 0xff),
        (Mem (daq_io_addr + 4), \<lambda>st. (drop_bit 8 st AND 0xff) XOR 0xff),
        (Mem (daq_io_addr + 5), \<lambda>st. (drop_bit 16 st AND 0xff) XOR 0xff)]) \<and>
   keeps_outputs (do_wbits dio_counter_iobase) 0xf (\<lambda>dev s. [(Mem (dio_counter_iobase + 0x20), \<lambda>st. st AND 0xff)]) \<and>
   keeps_outputs das16_do_wbits 0xf (\<lambda>dev s. [(Port (dv_iobase dev + 3), \<lambda>st. st AND 0xff)]) \<and>
   keeps_outputs (icp_multi_insn_bits_do io_addr) (- 1) (\<lambda>dev s. [(Mem (io_addr + 0x0a), \<lambda>st. st AND 0xffff)]) \<and>
   keeps_outputs pci1723_dio_insn_bits (- 1) (\<lambda>dev s. [(Port (dv_iobase dev + 0x1c), \<lambda>st. st AND 0xffff)]) \<and>
   keeps_outputs das16cs_dio_insn_bits (- 1) (\<lambda>dev s. [(Port (dv_iobase dev + 16), \<lambda>st. st AND 0xffff)]) \<and>
   keeps_outputs (cb_pcidac_dio_insn_bits dio_counter_iobase) (- 1)
     (\<lambda>dev s. [(Mem (dio_counter_iobase + 1), \<lambda>st. st AND 0xff)]) \<and>
   keeps_outputs (dio_60xx_wbits dio_counter_iobase) (- 1)
     (\<lambda>dev s. [(Mem (dio_counter_iobase + 0x48), \<lambda>st. st AND 0xff)]) \<and>
   keeps_outputs dt282x_dio_insn_bits (- 1) (\<lambda>dev s. [(Port (dv_iobase dev + 0x0a), \<lambda>st. st AND 0xffff)]) \<and>
   keeps_outputs (ni_670x_dio_insn_bits daq_io_addr) (- 1) (\<lambda>dev s. [(Mem (daq_io_addr + 0x24), \<lambda>st. st)]) \<and>
   keeps_outputs atao_dio_insn_bits (- 1) (\<lambda>dev s. [(Port (dv_iobase dev), \<lambda>st. st AND 0xffff)]) \<and>
   keeps_outputs (ni_m_series_dio_insn_bits daq_io_addr) (- 1) (\<lambda>dev s. [(Mem (daq_io_addr + 0x24), \<lambda>st. st)]) \<and>
   keeps_outputs (ni_pcidio_insn_bits daq_io_addr) (- 1) (\<lambda>dev s. [(Mem (daq_io_addr + 28), \<lambda>st. st)]) \<and>
   keeps_outputs (rtd_dio_insn_bits las0) (- 1) (\<lambda>dev s. [(Mem (las0 + 0x70), \<lambda>st. st AND 0xff)]) \<and>
   keeps_outputs s526_dio_insn_bits (- 1) (\<lambda>dev s. [(Port (dv_iobase dev + 0x0a), \<lambda>st. st AND 0xffff)]) \<and>
   keeps_outputs (subdev_700_insn arg) (- 1) (\<lambda>dev s. [(Port (arg + 4), \<lambda>st. st AND 0xff)]) \<and>
   keeps_outputs dt2817_dio_insn_bits (- 1) (\<lambda>dev s. output_bytes (sd_io_bits s) (dt2817_data dev)) \<and>
   keeps_outputs (pci20xxx_dio_insn_bits ioaddr) (- 1) (\<lambda>dev s. output_bytes (sd_io_bits s) (pci20xxx_dio ioaddr))"
  by (intro conjI pcl711_do.kept acl7225b.kept pcl730.kept pcm3730.kept pci7230.kept pci7432.kept pci7250.kept pci6208.kept
      pci9111.kept pci9112.kept pci9118.kept pci171x_do.kept contec_do.kept pcl725.kept aio_iiro_16.kept
      pc263.kept pcl812_do.kept pcl818_do.kept multiq3_do.kept dt2811_do.kept pcl734.kept rti800_do.kept
      ni6527_do.kept pcidas64_do.kept das16_do.kept icp_multi_do.kept pci1723.kept das16cs.kept cb_pcidac.kept
      dio_60xx.kept dt282x_dio.kept ni_670x.kept atao.kept ni_m_series.kept ni_pcidio_dio.kept rtd_dio.kept
      s526_dio.kept subdev_700_dio.kept dt2817.kept pci20xxx.kept)
    simp_all

text \<open>Channels 8 to 11 of the board of \<open>pcl711.c\<close>: the mask takes 8 and 9, the bits set 9 and 10.\<close>

theorem boards_keep_outputs_witness:
  "\<exists>dev' s' m' w. pcl711_do_insn_bits register_bus line_dev 0 (line_insn INSN_BITS 2) [0x300, 0x600] =
      Some (2, dev', line_insn INSN_BITS 2, [m', w]) \<and> subd dev' 0 = Some s' \<and>
    \<not> bit (sd_state s') 8 \<and> bit (sd_state s') 9 \<and> \<not> bit (sd_state s') 10 \<and>
    dv_hw dev' (Port 0x30e) = drop_bit 8 (sd_state s') AND 0xff"
proof -
  have "keeps_outputs pcl711_do_insn_bits (- 1)
     (\<lambda>dev s. [(Port (dv_iobase dev + 13), \<lambda>st. st AND 0xff), (Port (dv_iobase dev + 14), \<lambda>st. drop_bit 8 st AND 0xff)])"
    by (rule boards_keep_outputs[THEN conjunct1])
  from this[unfolded keeps_outputs_def, rule_format, of line_dev 0 line_subd "line_insn INSN_BITS 2" register_bus
      "\<lambda>x. x" "0x300" "0x600"] register_bus_holds
  show ?thesis by (fastforce simp: line_dev_simps shows_state_def bit_simps)
qed

text \<open>
  C11. A write to a single channel reaches the terminals of these boards through the core, which emulates it with
  the driver's bits instruction: that channel takes the value written and no other one changes.
\<close>

theorem boards_write_channels:
  "writes_one_channel pcl711_do_insn_bits
     (\<lambda>dev s. [(Port (dv_iobase dev + 13), \<lambda>st. st AND 0xff),
        (Port (dv_iobase dev + 14), \<lambda>st. drop_bit 8 st AND 0xff)]) \<and>
   writes_one_channel pcm3730_do_insn_bits (\<lambda>dev s. [(Port (dv_iobase dev + ulong_private s), \<lambda>st. st AND 0xff)]) \<and>
   writes_one_channel adl_pci7432_do_insn_bits (\<lambda>dev s. [(Port (dv_iobase dev), \<lambda>st. st)]) \<and>
   writes_one_channel adl_pci7250_do_insn_bits
     (\<lambda>dev s. let a = dv_iobase dev in [(Port a, \<lambda>st. st AND 0xff),
        (Port (a + 2), \<lambda>st. drop_bit 8 st AND 0xff), (Port (a + 4), \<lambda>st. drop_bit 16 st AND 0xff),
        (Port (a + 6), \<lambda>st. drop_bit 24 st AND 0xff)]) \<and>
   writes_one_channel pcl725_do_insn (\<lambda>dev s. [(Port (dv_iobase dev), \<lambda>st. st AND 0xff)]) \<and>
   writes_one_channel aio_iiro_16_dio_insn_bits_write
     (\<lambda>dev s. [(Port (dv_iobase dev), \<lambda>st. st AND 0xff),
        (Port (dv_iobase dev + 4), \<lambda>st. drop_bit 8 st AND 0xff)]) \<and>
   writes_one_channel pc263_do_insn_bits
     (\<lambda>dev s. [(Port (dv_iobase dev), \<lambda>st. st AND 0xff),
        (Port (dv_iobase dev + 1), \<lambda>st. drop_bit 8 st AND 0xff)]) \<and>
   writes_one_channel pcl812_do_insn_bits
     (\<lambda>dev s. [(Port (dv_iobase dev + 13), \<lambda>st. st AND 0xff),
        (Port (dv_iobase dev + 14), \<lambda>st. drop_bit 8 st AND 0xff)]) \<and>
   writes_one_channel pcl818_do_insn_bits
     (\<lambda>dev s. [(Port (dv_iobase dev + 3), \<lambda>st. st AND 0xff),
        (Port (dv_iobase dev + 11), \<lambda>st. drop_bit 8 st AND 0xff)]) \<and>
   writes_one_channel multiq3_do_insn_bits (\<lambda>dev s. [(Port (dv_iobase dev), \<lambda>st. st AND 0xffff)]) \<and>
   writes_one_channel dt2811_do_insn_bits (\<lambda>dev s. [(Port (dv_iobase dev + 6), \<lambda>st. st AND 0xff)]) \<and>
   writes_one_channel pcl734_insn_bits
     (\<lambda>dev s. let a = dv_iobase dev in [(Port a, \<lambda>st. st AND 0xff),
        (Port (a + 1), \<lambda>st. drop_bit 8 st AND 0xff), (Port (a + 2), \<lambda>st. drop_bit 16 st AND 0xff),
        (Port (a + 3), \<lambda>st. drop_bit 24 st AND 0xff)]) \<and>
   writes_one_channel rti800_do_insn_bits (\<lambda>dev s. [(Port (dv_iobase dev + 11), \<lambda>st. (st XOR 0xff) AND 0xff)]) \<and>
   writes_one_channel (ni6527_do_insn_bits daq_io_addr)
     (\<lambda>dev s. [(Mem (daq_io_addr + 3), \<lambda>st. (st AND 0xff) XOR 0xff),
        (Mem (daq_io_addr + 4), \<lambda>st. (drop_bit 8 st AND 0xff) XOR 0xff),
        (Mem (daq_io_addr + 5), \<lambda>st. (drop_bit 16 st AND 0xff) XOR 0xff)]) \<and>
   writes_one_channel (icp_multi_insn_bits_do io_addr) (\<lambda>dev s. [(Mem (io_addr + 0x0a), \<lambda>st. st AND 0xffff)]) \<and>
   writes_one_channel pci1723_dio_insn_bits (\<lambda>dev s. [(Port (dv_iobase dev + 0x1c), \<lambda>st. st AND 0xffff)]) \<and>
   writes_one_channel das16cs_dio_insn_bits (\<lambda>dev s. [(Port (dv_iobase dev + 16), \<lambda>st. st AND 0xffff)]) \<and>
   writes_one_channel dt282x_dio_insn_bits (\<lambda>dev s. [(Port (dv_iobase dev + 0x0a), \<lambda>st. st AND 0xffff)]) \<and>
   writes_one_channel (ni_670x_dio_insn_bits daq_io_addr) (\<lambda>dev s. [(Mem (daq_io_addr + 0x24), \<lambda>st. st)]) \<and>
   writes_one_channel atao_dio_insn_bits (\<lambda>dev s. [(Port (dv_iobase dev), \<lambda>st. st AND 0xffff)]) \<and>
   writes_one_channel s526_dio_insn_bits (\<lambda>dev s. [(Port (dv_iobase dev + 0x0a), \<lambda>st. st AND 0xffff)])"
  by (intro conjI pcl711_do.channel_written pcm3730.channel_written pci7432.channel_written pci7250.channel_written
      pcl725.channel_written aio_iiro_16.channel_written pc263.channel_written pcl812_do.channel_written
      pcl818_do.channel_written multiq3_do.channel_written dt2811_do.channel_written pcl734.channel_written
      rti800_do.channel_written ni6527_do.channel_written icp_multi_do.channel_written pci1723.channel_written
      das16cs.channel_written dt282x_dio.channel_written ni_670x.channel_written atao.channel_written
      s526_dio.channel_written)
    simp_all

text \<open>Channel 5 of the board of \<open>pcl711.c\<close>.\<close>

theorem boards_write_channels_witness:
  "\<exists>dev' s'. insn_rw_emulate_bits (line_ops (pcl711_do_insn_bits register_bus)) line_dev 0
      (line_insn INSN_WRITE 1) [1] = Some (1, dev', line_insn INSN_WRITE 1, [1]) \<and> subd dev' 0 = Some s' \<and>
    dv_hw dev' (Port 0x30d) = sd_state s' AND 0xff \<and> (\<forall>k\<in>{0..<32}. bit (sd_state s') k = (k = 5))"
proof -
  have "writes_one_channel pcl711_do_insn_bits
     (\<lambda>dev s. [(Port (dv_iobase dev + 13), \<lambda>st. st AND 0xff), (Port (dv_iobase dev + 14), \<lambda>st. drop_bit 8 st AND 0xff)])"
    by (rule boards_write_channels[THEN conjunct1])
  from this[unfolded writes_one_channel_def, rule_format, of "line_ops (pcl711_do_insn_bits register_bus)" 0 register_bus
      "\<lambda>x. x" line_dev 0 line_subd "line_insn INSN_WRITE 1" 1] register_bus_holds
  show ?thesis by (fastforce simp: line_dev_simps shows_state_def bit_simps line_ops_def)
qed

section \<open>Directions\<close>

text \<open>
  C12. The configuration instructions of 17 boards: after a channel has been made an input or an output, the query
  reports that for each channel of its group, and for every other channel what it reported before.
\<close>

theorem boards_report_directions:
  "reports_directions skel_dio_insn_config 32 one_channel one_channel always \<and>
   reports_directions usbdux_dio_insn_config 32 one_channel one_channel always \<and>
   reports_directions usbduxsigma_dio_insn_config 32 one_channel one_channel always \<and>
   reports_directions (cb_pcidac_dio_insn_config base) 32 one_channel one_channel always \<and>
   reports_directions (ni_670x_dio_insn_config base) 32 one_channel one_channel always \<and>
   reports_directions (ni_m_series_dio_insn_config base) 32 one_channel one_channel always \<and>
   reports_directions (dio_60xx_config_insn base) 32 one_channel one_channel always \<and>
   reports_directions pci1723_dio_insn_config 16 two_bytes two_bytes always \<and>
   reports_directions (dio200_subdev_8255_config region ofs) 24 port_8255 port_8255 always \<and>
   reports_directions dt2817_dio_insn_config 32 byte_group byte_group always \<and>
   reports_directions (dt3k_dio_insn_config base) 8 two_nibbles one_channel always \<and>
   reports_directions s526_dio_insn_config 8 nibble_group nibble_group always \<and>
   reports_directions (dt282x_dio_insn_config get put) 16 two_bytes two_bytes has_private \<and>
   reports_directions (atmio16d_dio_insn_config get put) 8 two_nibbles two_nibbles has_private \<and>
   reports_directions (ni_dio_insn_config stc_writew get put) 32 one_channel one_channel has_private \<and>
   reports_directions (rtd_dio_insn_config base put) 32 one_channel one_channel has_private \<and>
   reports_directions (atao_dio_insn_config get put) 8 two_nibbles one_channel has_private"
  by (intro conjI skel_dir.reported usbdux_dir.reported usbduxsigma_dir.reported cb_pcidac_dir.reported ni_670x_dir.reported
      ni_m_series_dir.reported dio_60xx_dir.reported pci1723_dir.reported dio200_dir.reported dt2817_dir.reported
      dt3k_dir.reported s526_dir.reported dt282x_dir.reported atmio16d_dir.reported ni_dio_dir.reported
      rtd_dir.reported atao_dir.reported)

section \<open>Faults\<close>

lemma subd_elsewhere: "subd (d\<lparr>dv_hw := x\<rparr>) i = subd d i" "subd (d\<lparr>dv_private := q\<rparr>) i = subd d i"
  by (simp_all add: subd_def)

lemma masked_set:
  assumes "subd dev i = Some s" and "insn_n insn = 2" and "m \<noteq> 0"
  shows "\<exists>dev' s' w. atmio16d_dio_insn_bits bus dev i insn [m, b] = Some (2, dev', insn, [m, w]) \<and>
    subd dev' i = Some s' \<and> (\<forall>k<32. bit m k \<longrightarrow> bit (sd_state s') k)"
proof -
  have "subd (set_subd i s' (dev\<lparr>dv_hw := x\<rparr>)) i = Some s'" for s' x
    by (rule subd_set_subd_same[where ?s0.0 = s]) (simp add: assms(1) subd_elsewhere)
  then show ?thesis
    using assms by (auto simp: atmio16d_dio_insn_bits_def checked_def state_bits_def Let_def split_beta bit_simps)
qed

lemma das16cs_told:
  assumes "subd dev i = Some s" and "dv_private dev = Some p"
  obtains dev' p' where "das16cs_set_direction get put bus out i chan (set_subd i s' dev) s' = Some dev'"
    and "subd dev' i = Some s'" and "dv_private dev' = Some p'"
  using assms by (simp add: das16cs_set_direction_def control_word_def told_def Let_def subd_elsewhere)

lemma still_output:
  assumes s: "subd dev i = Some s" and p: "dv_private dev = Some p" and c: "unat (CR_CHAN (insn_chanspec insn)) < 8"
  shows "\<exists>dev1 dev2.
      das16cs_dio_insn_config get put bus dev i insn [INSN_CONFIG_DIO_OUTPUT] =
        Some (sint (insn_n insn), dev1, insn, [INSN_CONFIG_DIO_OUTPUT]) \<and>
      das16cs_dio_insn_config get put bus dev1 i insn [INSN_CONFIG_DIO_INPUT] =
        Some (sint (insn_n insn), dev2, insn, [INSN_CONFIG_DIO_INPUT]) \<and>
      das16cs_dio_insn_config get put bus dev2 i insn [INSN_CONFIG_DIO_QUERY, 0] =
        Some (sint (insn_n insn), dev2, insn, [INSN_CONFIG_DIO_QUERY, COMEDI_OUTPUT])"
proof -
  let ?g = "two_nibbles (CR_CHAN (insn_chanspec insn))"
  let ?c = "das16cs_dio_insn_config get put bus"
  let ?s1 = "s\<lparr>sd_io_bits := sd_io_bits s OR ?g\<rparr>"
  let ?s2 = "?s1\<lparr>sd_io_bits := sd_io_bits ?s1 AND ?g\<rparr>"
  obtain dev1 p1 where 1: "das16cs_set_direction get put bus True i (CR_CHAN (insn_chanspec insn))
      (set_subd i ?s1 dev) ?s1 = Some dev1" "subd dev1 i = Some ?s1" "dv_private dev1 = Some p1"
    by (rule das16cs_told[OF s p])
  obtain dev2 p2 where 2: "das16cs_set_direction get put bus False i (CR_CHAN (insn_chanspec insn))
      (set_subd i ?s2 dev1) ?s2 = Some dev2" "subd dev2 i = Some ?s2" "dv_private dev2 = Some p2"
    by (rule das16cs_told[OF 1(2,3)])
  note config = das16cs_dio_insn_config_def dio_config_with_def Let_def INSN_CONFIG_defs length_of_def
  have "?c dev i insn [INSN_CONFIG_DIO_OUTPUT] = Some (sint (insn_n insn), dev1, insn, [INSN_CONFIG_DIO_OUTPUT])"
    using s 1 by (simp add: config)
  moreover have "?c dev1 i insn [INSN_CONFIG_DIO_INPUT] = Some (sint (insn_n insn), dev2, insn, [INSN_CONFIG_DIO_INPUT])"
    using 1 2 by (simp add: config)
  moreover have "?c dev2 i insn [INSN_CONFIG_DIO_QUERY, 0] =
      Some (sint (insn_n insn), dev2, insn, [INSN_CONFIG_DIO_QUERY, COMEDI_OUTPUT])"
  proof -
    have "(x OR g) AND g = g" for x g :: u32 by (rule bit_eqI) (auto simp: bit_simps)
    moreover have "?g AND one_channel (CR_CHAN (insn_chanspec insn)) \<noteq> 0"
      using groupedD(2)[OF grouped_simps(5) c] by (simp add: and.commute)
    ultimately show ?thesis using 2 by (simp add: config)
  qed
  ultimately show ?thesis by blast
qed

lemma query_turns:
  assumes s: "subd dev i = Some s" and op: "op \<noteq> 0"
  shows "\<exists>dev' s'. pci20xxx_dio_insn_config base bus dev i insn [op, x] = Some (1, dev', insn, [op, x]) \<and>
    subd dev' i = Some s' \<and>
    sd_io_bits s' AND byte_group (CR_CHAN (insn_chanspec insn)) = byte_group (CR_CHAN (insn_chanspec insn))"
proof -
  have "(y OR g) AND g = g" for y g :: u32 by (rule bit_eqI) (auto simp: bit_simps)
  then show ?thesis
    using s op by (simp add: pci20xxx_dio_insn_config_def told_def Let_def subd_elsewhere)
qed

text \<open>
  C13. Five drivers do not do what is asked for. Whatever the bits, \<open>ni_atmio16d.c\<close> sets all channels of the mask.
  \<open>cb_das16_cs.c\<close> goes on reporting an output after the channel has been made an input. The query is refused by
  \<open>ni_pcidio.c\<close> at the length that the core insists on, is answered without storing the answer by
  \<open>comedi_parport.c\<close>, and turns the whole group of the channel into outputs on the boards of \<open>ii_pci20kc.c\<close>.
\<close>

theorem line_faults:
  assumes s: "subd dev i = Some s" and c: "unat (CR_CHAN (insn_chanspec insn)) < 8"
  shows "insn_n insn = 2 \<longrightarrow> m \<noteq> 0 \<longrightarrow> (\<exists>dev' s' w.
      atmio16d_dio_insn_bits bus dev i insn [m, b] = Some (2, dev', insn, [m, w]) \<and> subd dev' i = Some s' \<and>
      (\<forall>k<32. bit m k \<longrightarrow> bit (sd_state s') k)) \<and>
    (dv_private dev = Some p \<longrightarrow> (\<exists>dev1 dev2.
      das16cs_dio_insn_config get put bus dev i insn [INSN_CONFIG_DIO_OUTPUT] =
        Some (sint (insn_n insn), dev1, insn, [INSN_CONFIG_DIO_OUTPUT]) \<and>
      das16cs_dio_insn_config get put bus dev1 i insn [INSN_CONFIG_DIO_INPUT] =
        Some (sint (insn_n insn), dev2, insn, [INSN_CONFIG_DIO_INPUT]) \<and>
      das16cs_dio_insn_config get put bus dev2 i insn [INSN_CONFIG_DIO_QUERY, 0] =
        Some (sint (insn_n insn), dev2, insn, [INSN_CONFIG_DIO_QUERY, COMEDI_OUTPUT]))) \<and>
    (check_insn_config_length insn [INSN_CONFIG_DIO_QUERY, 0] = Some 0 \<longrightarrow>
      ni_pcidio_insn_config base bus dev i insn [INSN_CONFIG_DIO_QUERY, 0] =
        Some (- EINVAL, dev, insn, [INSN_CONFIG_DIO_QUERY, 0])) \<and>
    (\<exists>r. parport_insn_config_a get put bus dev i insn [INSN_CONFIG_DIO_QUERY, x] =
        Some (r, dev, insn, [INSN_CONFIG_DIO_QUERY, x])) \<and>
    (\<exists>dev' s'. pci20xxx_dio_insn_config base bus dev i insn [INSN_CONFIG_DIO_QUERY, x] =
        Some (1, dev', insn, [INSN_CONFIG_DIO_QUERY, x]) \<and> subd dev' i = Some s' \<and>
      sd_io_bits s' AND byte_group (CR_CHAN (insn_chanspec insn)) = byte_group (CR_CHAN (insn_chanspec insn)))"
proof -
  have refused: "ni_pcidio_insn_config base bus dev i insn [INSN_CONFIG_DIO_QUERY, 0] =
      Some (- EINVAL, dev, insn, [INSN_CONFIG_DIO_QUERY, 0])"
    if "check_insn_config_length insn [INSN_CONFIG_DIO_QUERY, 0] = Some 0"
  proof -
    from that have "insn_n insn = 2"
      by (simp add: check_insn_config_length_def INSN_CONFIG_defs Let_def split: if_splits)
    then show ?thesis by (simp add: ni_pcidio_insn_config_def)
  qed
  have unanswered: "\<exists>r. parport_insn_config_a get put bus dev i insn [INSN_CONFIG_DIO_QUERY, x] =
      Some (r, dev, insn, [INSN_CONFIG_DIO_QUERY, x])"
    using s by (simp add: parport_insn_config_a_def INSN_CONFIG_defs)
  have "INSN_CONFIG_DIO_QUERY \<noteq> 0" by (simp add: INSN_CONFIG_defs)
  from masked_set[OF s] still_output[OF s _ c] refused unanswered query_turns[OF s this] show ?thesis
    by (intro conjI impI) assumption+
qed

theorem line_faults_witness:
  "(\<exists>dev' s' w. atmio16d_dio_insn_bits register_bus line_dev 0 (line_insn INSN_BITS 2) [4, 0] =
      Some (2, dev', line_insn INSN_BITS 2, [4, w]) \<and> subd dev' 0 = Some s' \<and> bit (sd_state s') 2) \<and>
   (\<exists>dev1 dev2. das16cs_dio_insn_config ucast (\<lambda>w p. ucast w) register_bus line_dev 0 (line_insn INSN_BITS 2)
        [INSN_CONFIG_DIO_OUTPUT] = Some (2, dev1, line_insn INSN_BITS 2, [INSN_CONFIG_DIO_OUTPUT]) \<and>
      das16cs_dio_insn_config ucast (\<lambda>w p. ucast w) register_bus dev1 0 (line_insn INSN_BITS 2)
        [INSN_CONFIG_DIO_INPUT] = Some (2, dev2, line_insn INSN_BITS 2, [INSN_CONFIG_DIO_INPUT]) \<and>
      das16cs_dio_insn_config ucast (\<lambda>w p. ucast w) register_bus dev2 0 (line_insn INSN_BITS 2)
        [INSN_CONFIG_DIO_QUERY, 0] = Some (2, dev2, line_insn INSN_BITS 2, [INSN_CONFIG_DIO_QUERY, COMEDI_OUTPUT]))"
proof -
  note faults = line_faults[where dev = line_dev and i = 0 and s = line_subd and insn = "line_insn INSN_BITS 2"
      and bus = register_bus and m = 4 and b = 0 and get = ucast and put = "\<lambda>w p. ucast w" and p = 0
      and base = 0 and x = 0]
  have c: "unat (CR_CHAN (insn_chanspec (line_insn INSN_BITS 2))) < 8" by (simp add: line_dev_simps)
  have all: "\<forall>k<32. bit (4 :: u32) k \<longrightarrow> bit x k \<Longrightarrow> bit x 2" for x :: u32
    by (drule spec[of _ 2]) (simp add: bit_numeral_rec numeral_2_eq_2)
  show ?thesis
    using faults[OF line_dev_simps(1) c] by (fastforce simp: line_dev_simps(4,8) dest: all)
qed

end
