(* ===== verification/Rt_Support.thy ===== *)
theory Rt_Support
  imports Minors
begin

text \<open>
  Real-time support. \<open>comedi/rt_pend_tq.c\<close>: a ring of calls that real-time code leaves for Linux to make.
  \<open>comedi/rt.c\<close>: interrupt lines that go over to the real-time kernel while a command runs. The real-time kernel
  (RTAI, RTLinux or Fusion) and Linux are outside of the program: of them the model has who owns an interrupt line.
\<close>

unbundle bit_operations_syntax

section \<open>Pending calls\<close>

record pend_call =
  pc_func :: "fnptr option"
  pc_arg1 :: u32
  pc_arg2 :: u64

definition RT_PEND_TQ_SIZE :: nat where "RT_PEND_TQ_SIZE = 16"

text \<open>The array with its two pointers, as indices, and the number of the soft interrupt.\<close>

record rt_pend_tq =
  pq_slots :: "pend_call list"
  rt_pend_head :: nat
  rt_pend_tail :: nat
  rt_pend_tq_irq :: int

definition INC_CIRCULAR_PTR :: "nat \<Rightarrow> nat" where
  "INC_CIRCULAR_PTR p = (if RT_PEND_TQ_SIZE \<le> p + 1 then 0 else p + 1)"

definition DEC_CIRCULAR_PTR :: "nat \<Rightarrow> nat" where
  "DEC_CIRCULAR_PTR p = (if p = 0 then RT_PEND_TQ_SIZE - 1 else p - 1)"

text \<open>\<open>rt_pend_call\<close>: the return code, and the ring.\<close>

definition rt_pend_call :: "fnptr option \<Rightarrow> u32 \<Rightarrow> u64 \<Rightarrow> rt_pend_tq \<Rightarrow> int \<times> rt_pend_tq" where
  "rt_pend_call func arg1 arg2 q =
     (if func = None then (- EINVAL, q)
      else if rt_pend_tq_irq q \<le> 0 then (- ENODEV, q)
      else
        let q = q\<lparr>rt_pend_head := INC_CIRCULAR_PTR (rt_pend_head q)\<rparr> in
        if rt_pend_head q = rt_pend_tail q
        then (- EAGAIN, q\<lparr>rt_pend_head := DEC_CIRCULAR_PTR (rt_pend_head q)\<rparr>)
        else (0, q\<lparr>pq_slots := (pq_slots q)[rt_pend_head q := \<lparr>pc_func = func, pc_arg1 = arg1, pc_arg2 = arg2\<rparr>]\<rparr>))"

text \<open>One round of the loop of \<open>rt_pend_irq_handler\<close>: the call it makes.\<close>

definition pend_round :: "rt_pend_tq \<Rightarrow> (pend_call \<times> rt_pend_tq) option" where
  "pend_round q =
     (if rt_pend_head q = rt_pend_tail q then None
      else let q = q\<lparr>rt_pend_tail := INC_CIRCULAR_PTR (rt_pend_tail q)\<rparr> in Some (pq_slots q ! rt_pend_tail q, q))"

definition rt_pend_tq_init :: "int \<Rightarrow> rt_pend_tq \<Rightarrow> int \<times> rt_pend_tq" where
  "rt_pend_tq_init irq q = (0, q\<lparr>rt_pend_head := 0, rt_pend_tail := 0, rt_pend_tq_irq := irq\<rparr>)"

text \<open>The loop as a whole, as long as nothing is added. The fuel counts the rounds.\<close>

fun rt_pend_irq_handler :: "nat \<Rightarrow> rt_pend_tq \<Rightarrow> (pend_call list \<times> rt_pend_tq) option" where
  "rt_pend_irq_handler 0 q = None"
| "rt_pend_irq_handler (Suc k) q =
     (case pend_round q of
        None \<Rightarrow> Some ([], q)
      | Some (c, q) \<Rightarrow> map_option (\<lambda>(cs, q). (c # cs, q)) (rt_pend_irq_handler k q))"

subsection \<open>Two processors\<close>

text \<open>
  The handler takes no lock. Where the two sides stand: \<open>rt_pend_call\<close> has moved the head and not yet filled the
  slot; the handler has moved the tail and not yet made the call.
\<close>

datatype caller = Caller_idle | Caller_moved pend_call
datatype handler = Handler_idle | Handler_moved

record pend_machine =
  pm_ring :: rt_pend_tq
  pm_caller :: caller
  pm_handler :: handler
  pm_accepted :: "pend_call list"
  pm_made :: "pend_call list"

inductive pend_step :: "pend_machine \<Rightarrow> pend_machine \<Rightarrow> bool" where
  move_head: "pm_caller m = Caller_idle \<Longrightarrow> pc_func c \<noteq> None \<Longrightarrow>
    INC_CIRCULAR_PTR (rt_pend_head (pm_ring m)) \<noteq> rt_pend_tail (pm_ring m) \<Longrightarrow>
    pend_step m (m\<lparr>pm_ring := (pm_ring m)\<lparr>rt_pend_head := INC_CIRCULAR_PTR (rt_pend_head (pm_ring m))\<rparr>,
      pm_caller := Caller_moved c\<rparr>)"
| fill_slot: "pm_caller m = Caller_moved c \<Longrightarrow>
    pend_step m (m\<lparr>pm_ring := (pm_ring m)\<lparr>pq_slots := (pq_slots (pm_ring m))[rt_pend_head (pm_ring m) := c]\<rparr>,
      pm_caller := Caller_idle, pm_accepted := pm_accepted m @ [c]\<rparr>)"
| move_tail: "pm_handler m = Handler_idle \<Longrightarrow> rt_pend_head (pm_ring m) \<noteq> rt_pend_tail (pm_ring m) \<Longrightarrow>
    pend_step m (m\<lparr>pm_ring := (pm_ring m)\<lparr>rt_pend_tail := INC_CIRCULAR_PTR (rt_pend_tail (pm_ring m))\<rparr>,
      pm_handler := Handler_moved\<rparr>)"
| make_call: "pm_handler m = Handler_moved \<Longrightarrow>
    pend_step m (m\<lparr>pm_handler := Handler_idle,
      pm_made := pm_made m @ [pq_slots (pm_ring m) ! rt_pend_tail (pm_ring m)]\<rparr>)"

text \<open>On one processor the handler does not get in between: a call of \<open>rt_pend_call\<close> runs to its end.\<close>

inductive pend_step_up :: "pend_machine \<Rightarrow> pend_machine \<Rightarrow> bool" where
  queued: "pend_step m m1 \<Longrightarrow> pm_caller m1 = Caller_moved c \<Longrightarrow> pm_caller m = Caller_idle \<Longrightarrow> pend_step m1 m2 \<Longrightarrow>
    pm_caller m2 = Caller_idle \<Longrightarrow> pend_step_up m m2"
| handled: "pend_step m m' \<Longrightarrow> pm_caller m = Caller_idle \<Longrightarrow> pm_caller m' = Caller_idle \<Longrightarrow> pend_step_up m m'"

inductive_cases pend_stepE: "pend_step m m'"

section \<open>Interrupt lines\<close>

record comedi_irq_struct =
  it_rt :: bool
  it_irq :: nat
  it_handler :: fnptr
  it_flags :: u64
  it_device :: string
  it_dev_id :: nat

text \<open>\<open>comedi_irqs\<close>, and who owns a line.\<close>

record rt_irqs =
  comedi_irqs :: "nat \<Rightarrow> comedi_irq_struct option"
  linux_owns :: "nat \<Rightarrow> bool"
  rt_owns :: "nat \<Rightarrow> bool"

abbreviation IRQF_SHARED :: u64 where "IRQF_SHARED \<equiv> 0x80"

text \<open>\<open>answer flags\<close> is what \<open>request_irq\<close> returns; \<open>alloc\<close>: there is memory.\<close>

definition comedi_request_irq ::
  "(u64 \<Rightarrow> int) \<Rightarrow> bool \<Rightarrow> nat \<Rightarrow> fnptr \<Rightarrow> u64 \<Rightarrow> string \<Rightarrow> nat \<Rightarrow> rt_irqs \<Rightarrow> int \<times> rt_irqs" where
  "comedi_request_irq answer alloc irq handler flags device dev_id st =
     (let unshared_flags = flags AND NOT IRQF_SHARED; owned = st\<lparr>linux_owns := (linux_owns st)(irq := True)\<rparr> in
      if answer unshared_flags < 0 then
        let ret = (if flags AND IRQF_SHARED \<noteq> 0 then answer flags else answer unshared_flags) in
        if ret < 0 then (ret, st) else (0, owned)
      else if \<not> alloc then (- ENOMEM, owned)
      else (0, owned\<lparr>comedi_irqs := (comedi_irqs st)(irq := Some
        \<lparr>it_rt = False, it_irq = irq, it_handler = handler, it_flags = unshared_flags, it_device = device,
         it_dev_id = dev_id\<rparr>)\<rparr>))"

text \<open>The variant of RTAI whose handlers take an argument; \<open>answer\<close> is what \<open>rt_request_global_irq_arg\<close> returns.\<close>

definition comedi_rt_get_irq :: "int \<Rightarrow> comedi_irq_struct \<Rightarrow> rt_irqs \<Rightarrow> int \<times> rt_irqs" where
  "comedi_rt_get_irq answer it st =
     (if answer < 0 then (answer, st) else (0, st\<lparr>rt_owns := (rt_owns st)(it_irq it := True)\<rparr>))"

definition comedi_rt_release_irq :: "comedi_irq_struct \<Rightarrow> rt_irqs \<Rightarrow> int \<times> rt_irqs" where
  "comedi_rt_release_irq it st = (0, st\<lparr>rt_owns := (rt_owns st)(it_irq it := False)\<rparr>)"

definition comedi_free_irq :: "nat \<Rightarrow> rt_irqs \<Rightarrow> rt_irqs" where
  "comedi_free_irq irq st =
     (let st = st\<lparr>linux_owns := (linux_owns st)(irq := False)\<rparr> in
      case comedi_irqs st irq of
        None \<Rightarrow> st
      | Some it \<Rightarrow>
          let st = (if it_rt it then snd (comedi_rt_release_irq it st) else st)
          in st\<lparr>comedi_irqs := (comedi_irqs st)(irq := None)\<rparr>)"

text \<open>\<open>rt\<close> is the counter of the device, \<open>irq\<close> its line.\<close>

definition comedi_switch_to_rt :: "int \<Rightarrow> nat \<Rightarrow> int \<Rightarrow> rt_irqs \<Rightarrow> int \<times> int \<times> rt_irqs" where
  "comedi_switch_to_rt answer irq rt st =
     (case comedi_irqs st irq of
        None \<Rightarrow> (-1, rt, st)
      | Some it \<Rightarrow>
          let st = (if rt = 0 then snd (comedi_rt_get_irq answer it st) else st)
          in (0, rt + 1, st\<lparr>comedi_irqs := (comedi_irqs st)(irq := Some (it\<lparr>it_rt := True\<rparr>))\<rparr>))"

definition comedi_switch_to_non_rt :: "nat \<Rightarrow> int \<Rightarrow> rt_irqs \<Rightarrow> int \<times> rt_irqs" where
  "comedi_switch_to_non_rt irq rt st =
     (case comedi_irqs st irq of
        None \<Rightarrow> (rt, st)
      | Some it \<Rightarrow>
          let rt = rt - 1; st = (if rt = 0 then snd (comedi_rt_release_irq it st) else st)
          in (rt, st\<lparr>comedi_irqs := (comedi_irqs st)(irq := Some (it\<lparr>it_rt := False\<rparr>))\<rparr>))"

end
