(* ===== verification/Rt_Properties.thy ===== *)
theory Rt_Properties
  imports Rt_Support
begin

text \<open>
  The ring of pending calls is a bounded queue as long as \<open>rt_pend_call\<close> and the handler do not run at the same
  time, and not on two processors. What becomes of the interrupt lines of a board.
\<close>

section \<open>A bounded queue\<close>

text \<open>Any sequence of requests (\<open>Some x\<close>) and rounds (\<open>None\<close>): what was accepted, what came out, the queue.\<close>

fun serve :: "('a \<Rightarrow> 'q \<Rightarrow> 'q option) \<Rightarrow> ('q \<Rightarrow> ('a \<times> 'q) option) \<Rightarrow> 'a option list \<Rightarrow> 'q \<Rightarrow> 'a list \<times> 'a list \<times> 'q" where
  "serve enq deq [] q = ([], [], q)"
| "serve enq deq (Some x # es) q =
     (case enq x q of
        None \<Rightarrow> serve enq deq es q
      | Some q \<Rightarrow> (case serve enq deq es q of (ins, outs, q) \<Rightarrow> (x # ins, outs, q)))"
| "serve enq deq (None # es) q =
     (case deq q of
        None \<Rightarrow> serve enq deq es q
      | Some (y, q) \<Rightarrow> (case serve enq deq es q of (ins, outs, q) \<Rightarrow> (ins, y # outs, q)))"

locale bounded_queue =
  fixes enq :: "'a \<Rightarrow> 'q \<Rightarrow> 'q option" and deq :: "'q \<Rightarrow> ('a \<times> 'q) option"
    and content :: "'q \<Rightarrow> 'a list" and invar :: "'q \<Rightarrow> bool" and room :: nat and valid :: "'a \<Rightarrow> bool"
  assumes accepts: "invar q \<Longrightarrow> valid x \<Longrightarrow> length (content q) < room \<Longrightarrow>
      \<exists>q'. enq x q = Some q' \<and> content q' = content q @ [x] \<and> invar q'"
    and refuses: "invar q \<Longrightarrow> valid x \<Longrightarrow> room \<le> length (content q) \<Longrightarrow> enq x q = None"
    and takes: "invar q \<Longrightarrow> content q = x # xs \<Longrightarrow> \<exists>q'. deq q = Some (x, q') \<and> content q' = xs \<and> invar q'"
    and ends: "invar q \<Longrightarrow> content q = [] \<Longrightarrow> deq q = None"
    and bounded: "invar q \<Longrightarrow> length (content q) \<le> room"
begin

lemma first_in_first_out:
  assumes "invar q" and "\<forall>x. Some x \<in> set es \<longrightarrow> valid x" and "serve enq deq es q = (ins, outs, q')"
  shows "content q @ ins = outs @ content q' \<and> invar q'"
  using assms
proof (induction es arbitrary: q ins outs)
  case (Cons e es)
  note IH = Cons.IH and prem = Cons.prems(1) and run = Cons.prems(3)
  have later: "\<forall>x. Some x \<in> set es \<longrightarrow> valid x" using Cons.prems(2) by simp
  show ?case
  proof (cases e)
    case (Some x)
    have valid: "valid x" using Cons.prems(2) Some by simp
    show ?thesis
    proof (cases "length (content q) < room")
      case True
      from accepts[OF Cons.prems(1) valid True] obtain r
        where r: "enq x q = Some r" "content r = content q @ [x]" "invar r" by blast
      obtain ins' where "serve enq deq es r = (ins', outs, q')" "ins = x # ins'"
        using Cons.prems(3) Some r(1) by (auto split: prod.splits)
      with Cons.IH[OF r(3) later] r(2) show ?thesis by fastforce
    next
      case False
      then have "enq x q = None" using refuses[OF Cons.prems(1) valid] by simp
      then show ?thesis using Cons.IH[OF Cons.prems(1) later] Cons.prems(3) Some by simp
    qed
  next
    case None
    show ?thesis
    proof (cases "content q")
      case Nil
      then show ?thesis using IH[OF prem later] prem run None ends by simp
    next
      case (Cons y ys)
      from takes[OF prem this] obtain r where r: "deq q = Some (y, r)" "content r = ys" "invar r" by blast
      obtain outs' where "serve enq deq es r = (ins, outs', q')" "outs = y # outs'"
        using run None r(1) by (auto split: prod.splits)
      with IH[OF r(3) later] r(2) Cons show ?thesis by fastforce
    qed
  qed
qed simp

end

section \<open>The ring\<close>

definition ring_of :: "pend_call list \<Rightarrow> nat \<Rightarrow> nat \<Rightarrow> pend_call list" where
  "ring_of slots tail n = map (\<lambda>k. slots ! ((tail + 1 + k) mod RT_PEND_TQ_SIZE)) [0..<n]"

definition pending_calls :: "rt_pend_tq \<Rightarrow> pend_call list" where
  "pending_calls q = ring_of (pq_slots q) (rt_pend_tail q)
     ((rt_pend_head q + RT_PEND_TQ_SIZE - rt_pend_tail q) mod RT_PEND_TQ_SIZE)"

definition ring_wf :: "rt_pend_tq \<Rightarrow> bool" where
  "ring_wf q \<longleftrightarrow> length (pq_slots q) = RT_PEND_TQ_SIZE \<and> rt_pend_head q < RT_PEND_TQ_SIZE \<and> rt_pend_tail q < RT_PEND_TQ_SIZE"

lemma inc_mod: "p < RT_PEND_TQ_SIZE \<Longrightarrow> INC_CIRCULAR_PTR p = (p + 1) mod RT_PEND_TQ_SIZE"
  by (auto simp: INC_CIRCULAR_PTR_def RT_PEND_TQ_SIZE_def mod_if)

lemma dec_inc: "p < RT_PEND_TQ_SIZE \<Longrightarrow> DEC_CIRCULAR_PTR (INC_CIRCULAR_PTR p) = p"
  by (auto simp: INC_CIRCULAR_PTR_def DEC_CIRCULAR_PTR_def RT_PEND_TQ_SIZE_def)

text \<open>The head is the number of pending calls ahead of the tail.\<close>

lemma ring_numbered:
  assumes "ring_wf q"
  obtains n where "n < RT_PEND_TQ_SIZE" and "rt_pend_head q = (rt_pend_tail q + n) mod RT_PEND_TQ_SIZE"
    and "pending_calls q = ring_of (pq_slots q) (rt_pend_tail q) n"
proof
  let ?n = "(rt_pend_head q + RT_PEND_TQ_SIZE - rt_pend_tail q) mod RT_PEND_TQ_SIZE"
  show "?n < RT_PEND_TQ_SIZE" by (simp add: RT_PEND_TQ_SIZE_def)
  show "rt_pend_head q = (rt_pend_tail q + ?n) mod RT_PEND_TQ_SIZE"
    using assms by (simp add: ring_wf_def RT_PEND_TQ_SIZE_def mod_simps)
  show "pending_calls q = ring_of (pq_slots q) (rt_pend_tail q) ?n" by (simp add: pending_calls_def)
qed

lemma pending_numbered:
  assumes "n < RT_PEND_TQ_SIZE" and "rt_pend_tail q < RT_PEND_TQ_SIZE"
    and "rt_pend_head q = (rt_pend_tail q + n) mod RT_PEND_TQ_SIZE"
  shows "pending_calls q = ring_of (pq_slots q) (rt_pend_tail q) n"
proof -
  have "((t + n) mod 16 + 16 - t) mod 16 = n" if "t < 16" "n < 16" for t :: nat
  proof (cases "t + n < 16")
    case False
    then have "(t + n) mod 16 = t + n - 16" using that by (simp add: mod_if)
    then show ?thesis using that False by simp
  qed (use that in simp)
  then show ?thesis using assms by (simp add: pending_calls_def RT_PEND_TQ_SIZE_def)
qed

text \<open>Moving the head and filling the slot appends a call; moving the tail takes the first one.\<close>

lemma ring_append:
  assumes wf: "ring_wf q" and more: "INC_CIRCULAR_PTR (rt_pend_head q) \<noteq> rt_pend_tail q"
  defines "h \<equiv> INC_CIRCULAR_PTR (rt_pend_head q)"
  shows "pending_calls (q\<lparr>rt_pend_head := h, pq_slots := (pq_slots q)[h := c]\<rparr>) = pending_calls q @ [c]"
    and "ring_wf (q\<lparr>rt_pend_head := h, pq_slots := (pq_slots q)[h := c]\<rparr>)"
    and "length (pending_calls q) < RT_PEND_TQ_SIZE - 1"
proof -
  from wf obtain n where n: "n < RT_PEND_TQ_SIZE" "rt_pend_head q = (rt_pend_tail q + n) mod RT_PEND_TQ_SIZE"
    "pending_calls q = ring_of (pq_slots q) (rt_pend_tail q) n" by (rule ring_numbered)
  let ?t = "rt_pend_tail q"
  have t: "?t < 16" and len: "length (pq_slots q) = 16" using wf by (simp_all add: ring_wf_def RT_PEND_TQ_SIZE_def)
  have h: "h = (?t + (n + 1)) mod 16"
    using wf n(2) by (simp add: h_def inc_mod ring_wf_def RT_PEND_TQ_SIZE_def mod_simps add.assoc)
  have n1: "n + 1 < 16"
  proof -
    have "(?t + 16) mod 16 = ?t" using t by simp
    then have "n + 1 \<noteq> 16" using more h by (auto simp: h_def)
    then show ?thesis using n(1) by (simp add: RT_PEND_TQ_SIZE_def)
  qed
  let ?q = "q\<lparr>rt_pend_head := h, pq_slots := (pq_slots q)[h := c]\<rparr>"
  have other: "(?t + 1 + k) mod 16 \<noteq> h" if "k < n" for k
  proof
    assume "(?t + 1 + k) mod 16 = h"
    then have "16 dvd ?t + (n + 1) - (?t + 1 + k)" using that mod_eq_dvd_iff_nat[of "?t + 1 + k" "?t + (n + 1)" 16] h by simp
    moreover have "?t + (n + 1) - (?t + 1 + k) = n - k" by simp
    ultimately show False using that n1 by (auto dest: dvd_imp_le)
  qed
  have "pending_calls ?q = ring_of ((pq_slots q)[h := c]) ?t (n + 1)"
    using pending_numbered[of "n + 1" ?q] n1 t h by (simp add: RT_PEND_TQ_SIZE_def)
  also have "\<dots> = ring_of (pq_slots q) ?t n @ [c]"
  proof -
    let ?ys = "(pq_slots q)[h := c]"
    have "ring_of ?ys ?t (n + 1) = map (\<lambda>k. ?ys ! ((?t + 1 + k) mod 16)) [0..<n] @ [?ys ! h]"
      by (simp add: ring_of_def RT_PEND_TQ_SIZE_def h)
    also have "map (\<lambda>k. ?ys ! ((?t + 1 + k) mod 16)) [0..<n] = ring_of (pq_slots q) ?t n"
      unfolding ring_of_def RT_PEND_TQ_SIZE_def
    proof (rule map_cong[OF refl])
      fix k assume "k \<in> set [0..<n]"
      then show "?ys ! ((?t + 1 + k) mod 16) = pq_slots q ! ((?t + 1 + k) mod 16)"
        using other[of k] by (metis atLeastLessThan_iff nth_list_update_neq set_upt)
    qed
    finally show ?thesis using len by (simp add: h)
  qed
  finally show "pending_calls ?q = pending_calls q @ [c]" by (simp add: n(3))
  show "ring_wf ?q" using t len h by (simp add: ring_wf_def RT_PEND_TQ_SIZE_def)
  show "length (pending_calls q) < RT_PEND_TQ_SIZE - 1" using n1 by (simp add: n(3) ring_of_def RT_PEND_TQ_SIZE_def)
qed

lemma ring_full:
  assumes wf: "ring_wf q" and "INC_CIRCULAR_PTR (rt_pend_head q) = rt_pend_tail q"
  shows "length (pending_calls q) = RT_PEND_TQ_SIZE - 1"
proof -
  from wf obtain n where n: "n < RT_PEND_TQ_SIZE" "rt_pend_head q = (rt_pend_tail q + n) mod RT_PEND_TQ_SIZE"
    "pending_calls q = ring_of (pq_slots q) (rt_pend_tail q) n" by (rule ring_numbered)
  have "n = 15" if "((t + n) mod 16 + 1) mod 16 = t" "t < 16" for t :: nat
  proof -
    have "(t + (n + 1)) mod 16 = t mod 16" using that by (simp add: mod_simps)
    then have "16 dvd t + (n + 1) - t" by (subst (asm) mod_eq_dvd_iff_nat) simp_all
    then have "16 \<le> n + 1" by (auto dest: dvd_imp_le)
    then show ?thesis using n(1) by (simp add: RT_PEND_TQ_SIZE_def)
  qed
  moreover have "((rt_pend_tail q + n) mod 16 + 1) mod 16 = rt_pend_tail q" "rt_pend_tail q < 16"
    using assms n(2) by (simp_all add: inc_mod ring_wf_def RT_PEND_TQ_SIZE_def)
  ultimately have "n = 15" by blast
  then show ?thesis by (simp add: n(3) ring_of_def RT_PEND_TQ_SIZE_def)
qed

lemma ring_take:
  assumes wf: "ring_wf q" and more: "rt_pend_head q \<noteq> rt_pend_tail q"
  defines "t \<equiv> INC_CIRCULAR_PTR (rt_pend_tail q)"
  shows "pending_calls q = pq_slots q ! t # pending_calls (q\<lparr>rt_pend_tail := t\<rparr>)" and "ring_wf (q\<lparr>rt_pend_tail := t\<rparr>)"
proof -
  from wf obtain n where n: "n < RT_PEND_TQ_SIZE" "rt_pend_head q = (rt_pend_tail q + n) mod RT_PEND_TQ_SIZE"
    "pending_calls q = ring_of (pq_slots q) (rt_pend_tail q) n" by (rule ring_numbered)
  have t: "t = (rt_pend_tail q + 1) mod 16" and tail: "rt_pend_tail q < 16"
    using wf by (simp_all add: t_def inc_mod ring_wf_def RT_PEND_TQ_SIZE_def)
  obtain k where k: "n = Suc k" using more n(2) tail by (cases n) (auto simp: RT_PEND_TQ_SIZE_def)
  have "rt_pend_head q = (t + k) mod 16" using n(2) k by (simp add: t RT_PEND_TQ_SIZE_def mod_simps)
  then have "pending_calls (q\<lparr>rt_pend_tail := t\<rparr>) = ring_of (pq_slots q) t k"
    using pending_numbered[of k "q\<lparr>rt_pend_tail := t\<rparr>"] n(1) k t by (simp add: RT_PEND_TQ_SIZE_def)
  moreover have "ring_of (pq_slots q) (rt_pend_tail q) (Suc k) = pq_slots q ! t # ring_of (pq_slots q) t k"
  proof -
    have "[0..<Suc k] = 0 # map Suc [0..<k]" by (simp add: map_Suc_upt upt_conv_Cons del: upt_Suc)
    moreover have "(rt_pend_tail q + 1 + Suc j) mod 16 = (t + 1 + j) mod 16" for j
      using mod_add_left_eq[of "rt_pend_tail q + 1" 16 "1 + j"] by (simp add: t)
    ultimately show ?thesis by (simp add: ring_of_def RT_PEND_TQ_SIZE_def t)
  qed
  ultimately show "pending_calls q = pq_slots q ! t # pending_calls (q\<lparr>rt_pend_tail := t\<rparr>)" by (simp add: n(3) k)
  show "ring_wf (q\<lparr>rt_pend_tail := t\<rparr>)" using wf t by (simp add: ring_wf_def RT_PEND_TQ_SIZE_def)
qed

lemma pending_none: "ring_wf q \<Longrightarrow> pending_calls q = [] \<longleftrightarrow> rt_pend_head q = rt_pend_tail q"
  using ring_take(1)[of q] by (cases "rt_pend_head q = rt_pend_tail q") (auto simp: pending_calls_def ring_of_def)

lemma pending_at_most: "ring_wf q \<Longrightarrow> length (pending_calls q) \<le> RT_PEND_TQ_SIZE - 1"
  using ring_full[of q] ring_append(3)[of q] by (cases "INC_CIRCULAR_PTR (rt_pend_head q) = rt_pend_tail q") auto

section \<open>One at a time\<close>

definition pend_enq :: "pend_call \<Rightarrow> rt_pend_tq \<Rightarrow> rt_pend_tq option" where
  "pend_enq c q = (case rt_pend_call (pc_func c) (pc_arg1 c) (pc_arg2 c) q of (ret, q') \<Rightarrow> if ret = 0 then Some q' else None)"

definition pend_ready :: "rt_pend_tq \<Rightarrow> bool" where
  "pend_ready q \<longleftrightarrow> ring_wf q \<and> 0 < rt_pend_tq_irq q"

lemma pend_enq_ready:
  assumes "pend_ready q" and "pc_func c \<noteq> None"
  defines "h \<equiv> INC_CIRCULAR_PTR (rt_pend_head q)"
  shows "pend_enq c q = (if h = rt_pend_tail q then None
    else Some (q\<lparr>rt_pend_head := h, pq_slots := (pq_slots q)[h := c]\<rparr>))"
  using assms by (cases c) (auto simp: pend_enq_def rt_pend_call_def Let_def pend_ready_def h_def)

text \<open>What is refused leaves the ring as it was.\<close>

lemma rt_pend_call_refused:
  "ring_wf q \<Longrightarrow> rt_pend_call f a b q = (ret, q') \<Longrightarrow> ret \<noteq> 0 \<Longrightarrow> q' = q"
  using dec_inc[of "rt_pend_head q"] by (cases q) (auto simp: rt_pend_call_def Let_def ring_wf_def split: if_splits)

interpretation pend: bounded_queue pend_enq pend_round pending_calls pend_ready "RT_PEND_TQ_SIZE - 1" "\<lambda>c. pc_func c \<noteq> None"
proof (unfold_locales, goal_cases)
  case (1 q x)
  then have "INC_CIRCULAR_PTR (rt_pend_head q) \<noteq> rt_pend_tail q" using ring_full[of q] by (auto simp: pend_ready_def)
  then show ?case using 1 ring_append(1,2)[of q x] by (simp add: pend_enq_ready pend_ready_def)
next
  case (2 q x)
  then have "INC_CIRCULAR_PTR (rt_pend_head q) = rt_pend_tail q"
    using ring_append(3)[of q] by (force simp: pend_ready_def)
  then show ?case using 2 by (simp add: pend_enq_ready)
next
  case (3 q x xs)
  then have "rt_pend_head q \<noteq> rt_pend_tail q" using pending_none[of q] by (auto simp: pend_ready_def)
  then show ?case using 3 ring_take[of q] by (auto simp: pend_round_def Let_def pend_ready_def)
next
  case (4 q)
  then show ?case using pending_none[of q] by (simp add: pend_round_def pend_ready_def)
next
  case (5 q)
  then show ?case using pending_at_most by (simp add: pend_ready_def)
qed

lemma handler_drains:
  assumes "pend_ready q" and "length (pending_calls q) < k"
  shows "\<exists>q'. rt_pend_irq_handler k q = Some (pending_calls q, q') \<and> pending_calls q' = [] \<and> pend_ready q'"
  using assms
proof (induction k arbitrary: q)
  case (Suc k)
  show ?case
  proof (cases "pending_calls q")
    case Nil
    then show ?thesis using Suc.prems pend.ends[of q] by simp
  next
    case (Cons c cs)
    from pend.takes[OF Suc.prems(1) this] obtain r where r: "pend_round q = Some (c, r)" "pending_calls r = cs" "pend_ready r"
      by blast
    from Suc.IH[OF r(3)] Suc.prems(2) Cons r show ?thesis by auto
  qed
qed simp

section \<open>On one processor\<close>

definition pend_start :: "rt_pend_tq \<Rightarrow> pend_machine" where
  "pend_start q = \<lparr>pm_ring = q, pm_caller = Caller_idle, pm_handler = Handler_idle, pm_accepted = [], pm_made = []\<rparr>"

text \<open>The call whose turn it is: the tail is past its slot, and it has not been made yet.\<close>

definition pend_in_hand :: "pend_machine \<Rightarrow> pend_call list" where
  "pend_in_hand m = (if pm_handler m = Handler_moved then [pq_slots (pm_ring m) ! rt_pend_tail (pm_ring m)] else [])"

definition pend_in_order :: "pend_machine \<Rightarrow> bool" where
  "pend_in_order m \<longleftrightarrow> pm_caller m = Caller_idle \<and> ring_wf (pm_ring m) \<and>
     pm_accepted m = pm_made m @ pend_in_hand m @ pending_calls (pm_ring m)"

lemma pending_calls_cong:
  "pq_slots q = pq_slots q' \<Longrightarrow> rt_pend_head q = rt_pend_head q' \<Longrightarrow> rt_pend_tail q = rt_pend_tail q' \<Longrightarrow>
    pending_calls q = pending_calls q'"
  by (simp add: pending_calls_def)

lemma queued_in_order:
  assumes ok: "pend_in_order m" and more: "INC_CIRCULAR_PTR (rt_pend_head (pm_ring m)) \<noteq> rt_pend_tail (pm_ring m)"
  defines "q \<equiv> (pm_ring m)\<lparr>rt_pend_head := INC_CIRCULAR_PTR (rt_pend_head (pm_ring m))\<rparr>"
  shows "pend_in_order (m\<lparr>pm_ring := q\<lparr>pq_slots := (pq_slots q)[rt_pend_head q := c]\<rparr>,
    pm_caller := Caller_idle, pm_accepted := pm_accepted m @ [c]\<rparr>)"
proof -
  have wf: "ring_wf (pm_ring m)" using ok by (simp add: pend_in_order_def)
  have "(pq_slots q)[rt_pend_head q := c] ! rt_pend_tail q = pq_slots (pm_ring m) ! rt_pend_tail (pm_ring m)"
    using more by (simp add: q_def)
  then show ?thesis using ok ring_append(1,2)[OF wf more, of c]
    by (simp add: pend_in_order_def pend_in_hand_def q_def)
qed

lemma pend_step_up_in_order:
  assumes "pend_step_up m m'" and "pend_in_order m"
  shows "pend_in_order m'"
  using assms
proof (induction rule: pend_step_up.induct)
  case (queued m m1 c m2)
  from queued.hyps(1-3) have m1: "INC_CIRCULAR_PTR (rt_pend_head (pm_ring m)) \<noteq> rt_pend_tail (pm_ring m)"
    "m1 = m\<lparr>pm_ring := (pm_ring m)\<lparr>rt_pend_head := INC_CIRCULAR_PTR (rt_pend_head (pm_ring m))\<rparr>, pm_caller := Caller_moved c\<rparr>"
    by (auto elim!: pend_stepE)
  from queued.hyps(2,4,5) have m2: "m2 = m1\<lparr>pm_ring := (pm_ring m1)\<lparr>pq_slots :=
      (pq_slots (pm_ring m1))[rt_pend_head (pm_ring m1) := c]\<rparr>, pm_caller := Caller_idle, pm_accepted := pm_accepted m1 @ [c]\<rparr>"
    by (auto elim!: pend_stepE)
  show ?case using queued_in_order[OF queued.prems m1(1), of c] unfolding m2 m1(2) by simp
next
  case (handled m m')
  show ?case using handled.hyps(1)
  proof (rule pend_stepE, goal_cases)
    case 3
    have "ring_wf (pm_ring m)" using handled.prems by (simp add: pend_in_order_def)
    from ring_take[OF this 3(3)] show ?case using handled.prems 3
      by (simp add: pend_in_order_def pend_in_hand_def)
  qed (use handled in \<open>simp_all add: pend_in_order_def pend_in_hand_def\<close>)
qed

lemma pend_reach_in_order:
  "pend_step_up\<^sup>*\<^sup>* m m' \<Longrightarrow> pend_in_order m \<Longrightarrow> pend_in_order m'"
  by (induction rule: rtranclp_induct) (auto intro: pend_step_up_in_order)

section \<open>Properties\<close>

definition zeroed_ring :: rt_pend_tq where
  "zeroed_ring = \<lparr>pq_slots = replicate RT_PEND_TQ_SIZE \<lparr>pc_func = None, pc_arg1 = 0, pc_arg2 = 0\<rparr>,
     rt_pend_head = 0, rt_pend_tail = 0, rt_pend_tq_irq = 0\<rparr>"

lemma rt_pend_tq_init_ready:
  assumes "rt_pend_tq_init irq zeroed_ring = (ret, q)"
  shows "ret = 0 \<and> ring_wf q \<and> pending_calls q = [] \<and> rt_pend_tq_irq q = irq"
  using assms by (auto simp: rt_pend_tq_init_def zeroed_ring_def ring_wf_def RT_PEND_TQ_SIZE_def pending_calls_def ring_of_def)

text \<open>
  C23. The ring of pending calls is a queue. From a ring that is set up, take any sequence of requests
  (\<open>rt_pend_call\<close>) and rounds of the handler: what was pending and what was accepted is what was made, in that order,
  and what is still pending. A run of \<open>rt_pend_irq_handler\<close> then makes exactly the calls that are still pending, in at
  most 16 rounds, and leaves the ring empty.
\<close>

theorem pend_calls_in_order:
  assumes "ring_wf q" and "0 < rt_pend_tq_irq q" and "\<forall>c. Some c \<in> set es \<longrightarrow> pc_func c \<noteq> None"
    and "serve pend_enq pend_round es q = (accepted, made, q')"
  shows "pending_calls q @ accepted = made @ pending_calls q' \<and>
    (\<exists>q''. rt_pend_irq_handler RT_PEND_TQ_SIZE q' = Some (pending_calls q', q'') \<and> pending_calls q'' = [])"
proof -
  have "pending_calls q @ accepted = made @ pending_calls q' \<and> pend_ready q'"
    by (rule pend.first_in_first_out[OF _ assms(3,4)]) (simp add: pend_ready_def assms)
  moreover from this have "length (pending_calls q') < RT_PEND_TQ_SIZE"
    using pending_at_most[of q'] by (auto simp: pend_ready_def RT_PEND_TQ_SIZE_def)
  ultimately show ?thesis using handler_drains[of q' RT_PEND_TQ_SIZE] by blast
qed



text \<open>Going over to the real-time kernel and coming back, for the counter of the device and the lines.\<close>

definition line_over :: "nat \<Rightarrow> int \<times> rt_irqs \<Rightarrow> int \<times> rt_irqs" where
  "line_over irq s = (case s of (rt, st) \<Rightarrow> snd (comedi_switch_to_rt 0 irq rt st))"

definition line_back :: "nat \<Rightarrow> int \<times> rt_irqs \<Rightarrow> int \<times> rt_irqs" where
  "line_back irq s = (case s of (rt, st) \<Rightarrow> comedi_switch_to_non_rt irq rt st)"

lemma line_over_pair [simp]: "line_over irq (rt, st) = snd (comedi_switch_to_rt 0 irq rt st)"
  by (simp add: line_over_def)

lemma line_back_pair [simp]: "line_back irq (rt, st) = comedi_switch_to_non_rt irq rt st"
  by (simp add: line_back_def)

lemma lines_over:
  assumes "comedi_irqs st irq = Some it" and "it_irq it = irq" and "0 < n"
  defines "s \<equiv> (line_over irq ^^ n) (0, st)"
  shows "fst s = int n \<and> comedi_irqs (snd s) irq = Some (it\<lparr>it_rt := True\<rparr>) \<and> rt_owns (snd s) irq"
  using assms(3) unfolding s_def
proof (induction n)
  case (Suc n)
  obtain r t where s: "(line_over irq ^^ n) (0, st) = (r, t)" by fastforce
  show ?case
  proof (cases "n = 0")
    case True
    then show ?thesis using assms(1,2) by (simp add: comedi_switch_to_rt_def comedi_rt_get_irq_def)
  next
    case False
    with Suc.IH s have "r = int n" "comedi_irqs t irq = Some (it\<lparr>it_rt := True\<rparr>)" "rt_owns t irq" by simp_all
    with False s show ?thesis by (simp add: comedi_switch_to_rt_def)
  qed
qed simp

lemma lines_back:
  assumes "comedi_irqs (snd s) irq = Some it" and "it_irq it = irq" and "fst s = int n" and "rt_owns (snd s) irq"
    and "0 < k" and "k \<le> n"
  defines "s' \<equiv> (line_back irq ^^ k) s"
  shows "fst s' = int (n - k) \<and> comedi_irqs (snd s') irq = Some (it\<lparr>it_rt := False\<rparr>) \<and> (rt_owns (snd s') irq \<longleftrightarrow> k < n)"
  using assms(5,6) unfolding s'_def
proof (induction k)
  case (Suc k)
  obtain r t where s: "(line_back irq ^^ k) s = (r, t)" by fastforce
  show ?case
  proof (cases "k = 0")
    case True
    then show ?thesis using assms(1-4) Suc.prems
      by (cases s) (auto simp: comedi_switch_to_non_rt_def comedi_rt_release_irq_def Let_def)
  next
    case False
    with Suc.IH Suc.prems s have "r = int (n - k)" "comedi_irqs t irq = Some (it\<lparr>it_rt := False\<rparr>)" "rt_owns t irq"
      by simp_all
    with assms(2) Suc.prems s show ?thesis
      by (auto simp: comedi_switch_to_non_rt_def comedi_rt_release_irq_def Let_def)
  qed
qed simp

text \<open>
  C26. \<open>n\<close> commands of a device take its interrupt line over to the real-time kernel, \<open>k\<close> of them come back, and the line is
  freed. It leaves the table, and Linux gives it up; but the real-time kernel keeps it, with a handler that is gone,
  exactly when some came back and not all: the first to come back marks the line as Linux's own.
\<close>

theorem rt_line_kept:
  assumes "comedi_irqs st irq = Some it" and "it_irq it = irq" and "0 < n" and "k \<le> n"
  defines "freed \<equiv> comedi_free_irq irq (snd ((line_back irq ^^ k) ((line_over irq ^^ n) (0, st))))"
  shows "comedi_irqs freed irq = None \<and> \<not> linux_owns freed irq \<and> (rt_owns freed irq \<longleftrightarrow> 0 < k \<and> k < n)"
proof -
  note over = lines_over[OF assms(1-3)]
  show ?thesis
  proof (cases "0 < k")
    case True
    have "it_irq (it\<lparr>it_rt := True\<rparr>) = irq" using assms(2) by simp
    from lines_back[OF _ this _ _ True assms(4)] over assms(2) show ?thesis unfolding freed_def
      by (simp add: comedi_free_irq_def Let_def True)
  next
    case False
    then show ?thesis using over assms(2) unfolding freed_def
      by (simp add: comedi_free_irq_def comedi_rt_release_irq_def Let_def)
  qed
qed

subsection \<open>Instances\<close>

definition three_calls :: "pend_call list" where
  "three_calls = map (\<lambda>n. \<lparr>pc_func = Some n, pc_arg1 = 1, pc_arg2 = 2\<rparr>) [1, 2, 3]"

theorem pend_calls_in_order_witness:
  "\<exists>accepted made q'. serve pend_enq pend_round (None # map Some three_calls @ [None]) (zeroed_ring\<lparr>rt_pend_tq_irq := 3\<rparr>) =
      (accepted, made, q') \<and> accepted = three_calls \<and> made = take 1 three_calls \<and>
    accepted = made @ pending_calls q'"
proof -
  let ?q = "zeroed_ring\<lparr>rt_pend_tq_irq := 3\<rparr>" and ?es = "None # map Some three_calls @ [None]"
  obtain accepted made q' where s: "serve pend_enq pend_round ?es ?q = (accepted, made, q')"
    by (metis prod_cases3)
  have "accepted = three_calls" "made = take 1 three_calls"
    using s by (auto simp: three_calls_def pend_enq_def rt_pend_call_def pend_round_def zeroed_ring_def
      INC_CIRCULAR_PTR_def RT_PEND_TQ_SIZE_def)
  moreover have "pending_calls ?q = []" "ring_wf ?q" "0 < rt_pend_tq_irq ?q" "\<forall>c. Some c \<in> set ?es \<longrightarrow> pc_func c \<noteq> None"
    by (auto simp: zeroed_ring_def pending_calls_def ring_of_def ring_wf_def RT_PEND_TQ_SIZE_def three_calls_def)
  ultimately show ?thesis using pend_calls_in_order[OF _ _ _ s] s by auto
qed


definition one_line :: rt_irqs where
  "one_line = snd (comedi_request_irq (\<lambda>_. 0) True 5 1 0 ''board'' 7
     \<lparr>comedi_irqs = \<lambda>_. None, linux_owns = \<lambda>_. False, rt_owns = \<lambda>_. False\<rparr>)"

theorem rt_line_kept_witness:
  "rt_owns (comedi_free_irq 5 (snd ((line_back 5 ^^ 1) ((line_over 5 ^^ 2) (0, one_line))))) 5 \<and>
    \<not> rt_owns (comedi_free_irq 5 (snd ((line_back 5 ^^ 2) ((line_over 5 ^^ 2) (0, one_line))))) 5"
proof -
  let ?it = "\<lparr>it_rt = False, it_irq = 5, it_handler = 1, it_flags = 0, it_device = ''board'', it_dev_id = 7\<rparr>"
  have line: "comedi_irqs one_line 5 = Some ?it" "it_irq ?it = 5"
    by (simp_all add: one_line_def comedi_request_irq_def Let_def)
  show ?thesis
    using rt_line_kept[of one_line 5 ?it 2 1] rt_line_kept[of one_line 5 ?it 2 2] line by simp
qed

end
