(* ===== verification/Analog_Io.thy ===== *)
theory Analog_Io
  imports Port_Io
begin

text \<open>
  What the drivers of analog boards have in common: loops over the samples of an instruction, polling with a
  time limit, the samples kept to be read back. The two contracts: what a write leaves to be read back, and what
  an input instruction returns whatever the board answers.
\<close>

unbundle bit_operations_syntax

abbreviation ETIMEDOUT :: int where "ETIMEDOUT \<equiv> 110"

section \<open>Handlers over samples\<close>

text \<open>
  How a handler comes to its end: with all samples, with an error, or not at all (a loop without an end, an access
  outside of an array).
\<close>

datatype ending = Fine | Fails int | Never

fun ending_code :: "ending \<Rightarrow> int \<Rightarrow> int option" where
  "ending_code Fine r = Some r"
| "ending_code (Fails e) r = Some e"
| "ending_code Never r = None"

fun write_each :: "(u32 \<Rightarrow> 'p \<Rightarrow> ('x, ending \<times> 'p) io) \<Rightarrow> u32 list \<Rightarrow> 'p \<Rightarrow> ('x, ending \<times> 'p) io" where
  "write_each f [] p = give (Fine, p)"
| "write_each f (d # ds) p = do { (e, p) \<leftarrow> f d p; if e = Fine then write_each f ds p else give (e, p) }"

fun read_each :: "nat \<Rightarrow> ('p \<Rightarrow> ('x, ending \<times> 'p \<times> u32) io) \<Rightarrow> 'p \<Rightarrow> ('x, ending \<times> 'p \<times> u32 list) io" where
  "read_each 0 f p = give (Fine, p, [])"
| "read_each (Suc n) f p =
     do {
       (e, p, v) \<leftarrow> f p;
       if e = Fine then do { (e, p, vs) \<leftarrow> read_each n f p; give (e, p, v # vs) } else give (e, p, [])
     }"

text \<open>
  The handler of a write: \<open>f\<close> gets the samples of the instruction. \<open>count\<close> is the number it takes and returns,
  which is the whole of them or one.
\<close>

definition out_insn ::
  "(nat \<Rightarrow> nat) \<Rightarrow> (('p, 'x) comedi_device \<Rightarrow> 'p comedi_subdevice \<Rightarrow> comedi_insn \<Rightarrow> u32 list \<Rightarrow> 'p \<Rightarrow> ('x, ending \<times> 'p) io) \<Rightarrow>
    ('p, 'x) insn_handler" where
  "out_insn count f dev i insn data =
     do {
       s \<leftarrow> subd dev i;
       p \<leftarrow> dv_private dev;
       let n = count (unat (insn_n insn));
       if length data < n then None
       else case run_state (f dev s insn (take n data) p) (dv_hw dev) of ((e, p), x) \<Rightarrow>
         do { r \<leftarrow> ending_code e (int n); Some (r, dev\<lparr>dv_hw := x, dv_private := Some p\<rparr>, insn, data) }
     }"

text \<open>The handler of a read: \<open>f\<close> gets what the samples were, and yields as many as it read.\<close>

definition in_insn ::
  "(nat \<Rightarrow> nat) \<Rightarrow> (('p, 'x) comedi_device \<Rightarrow> 'p comedi_subdevice \<Rightarrow> comedi_insn \<Rightarrow> u32 list \<Rightarrow> 'p \<Rightarrow> ('x, ending \<times> 'p \<times> u32 list) io) \<Rightarrow>
    ('p, 'x) insn_handler" where
  "in_insn count f dev i insn data =
     do {
       s \<leftarrow> subd dev i;
       p \<leftarrow> dv_private dev;
       let n = count (unat (insn_n insn));
       if length data < n then None
       else case run_state (f dev s insn (take n data) p) (dv_hw dev) of ((e, p, vs), x) \<Rightarrow>
         do { r \<leftarrow> ending_code e (int n);
              Some (r, dev\<lparr>dv_hw := x, dv_private := Some p\<rparr>, insn, vs @ drop (length vs) data) }
     }"

text \<open>A handler that does nothing when there are no samples, and looks at the first one only.\<close>

definition unless_empty :: "('p, 'x) insn_handler \<Rightarrow> ('p, 'x) insn_handler" where
  "unless_empty h dev i insn data = (if insn_n insn = 0 then Some (0, dev, insn, data) else h dev i insn data)"

definition all_samples :: "nat \<Rightarrow> nat" where "all_samples n = n"
definition one_sample :: "nat \<Rightarrow> nat" where "one_sample n = 1"

text \<open>\<open>poll_until k c\<close>: up to \<open>k\<close> times, until the condition holds; whether it did.\<close>

fun poll_until :: "nat \<Rightarrow> ('x, bool) io \<Rightarrow> ('x, bool) io" where
  "poll_until 0 c = give False"
| "poll_until (Suc k) c = do { b \<leftarrow> c; if b then give True else poll_until k c }"

text \<open>\<open>poll_for k c d\<close>: the same for a condition that yields a result.\<close>

fun poll_for :: "nat \<Rightarrow> ('x, 'a option) io \<Rightarrow> 'a \<Rightarrow> ('x, 'a) io" where
  "poll_for 0 c d = give d"
| "poll_for (Suc k) c d = do { r \<leftarrow> c; case r of None \<Rightarrow> poll_for k c d | Some v \<Rightarrow> give v }"

text \<open>A bit of a register.\<close>

definition reg_bits :: "('x, u32) io \<Rightarrow> u32 \<Rightarrow> ('x, bool) io" where
  "reg_bits m k = do { v \<leftarrow> m; give (v AND k \<noteq> 0) }"

definition reg_no_bits :: "('x, u32) io \<Rightarrow> u32 \<Rightarrow> ('x, bool) io" where
  "reg_no_bits m k = do { v \<leftarrow> m; give (v AND k = 0) }"

section \<open>Samples to be read back\<close>

text \<open>The array \<open>ao_readback\<close> (or \<open>ao_data\<close>, \<open>ao_value\<close>), at the head of the private data of each driver.\<close>

record ao_private =
  ao_readback :: "u32 list"

definition chan_of :: "comedi_insn \<Rightarrow> nat" where "chan_of insn = unat (CR_CHAN (insn_chanspec insn))"

definition keep_sample :: "nat \<Rightarrow> u32 \<Rightarrow> 'z ao_private_scheme \<Rightarrow> ('x, ending \<times> 'z ao_private_scheme) io" where
  "keep_sample c d p =
     give (if c < length (ao_readback p) then (Fine, p\<lparr>ao_readback := (ao_readback p)[c := d]\<rparr>) else (Never, p))"

definition kept_sample :: "nat \<Rightarrow> 'z ao_private_scheme \<Rightarrow> ('x, ending \<times> 'z ao_private_scheme \<times> u32) io" where
  "kept_sample c p = give (if c < length (ao_readback p) then (Fine, p, ao_readback p ! c) else (Never, p, 0))"

text \<open>The loop that most drivers have for reading back.\<close>

definition readback_insn :: "('z ao_private_scheme, 'x) insn_handler" where
  "readback_insn = in_insn all_samples (\<lambda>dev s insn ds. read_each (length ds) (kept_sample (chan_of insn)))"

definition readback_one :: "('z ao_private_scheme, 'x) insn_handler" where
  "readback_one = unless_empty (in_insn one_sample (\<lambda>dev s insn ds. read_each (length ds) (kept_sample (chan_of insn))))"

section \<open>Reasoning about what a board may answer\<close>

text \<open>\<open>yields m Q\<close>: what \<open>m\<close> yields satisfies \<open>Q\<close>, in every state of every board.\<close>

definition yields :: "('x, 'a) io \<Rightarrow> ('a \<Rightarrow> bool) \<Rightarrow> bool" where
  "yields m Q \<longleftrightarrow> (\<forall>x. Q (fst (run_state m x)))"

definition fits :: "nat \<Rightarrow> u32 \<Rightarrow> bool" where "fits k v \<longleftrightarrow> take_bit k v = v"

named_theorems yields_intros

lemma yieldsD: "yields m Q \<Longrightarrow> run_state m x = (v, x') \<Longrightarrow> Q v"
  by (metis yields_def fst_conv)

lemma yields_give [yields_intros]: "Q v \<Longrightarrow> yields (give v) Q"
  by (simp add: yields_def)

lemma yields_bind: "yields m R \<Longrightarrow> (\<And>v. R v \<Longrightarrow> yields (f v) Q) \<Longrightarrow> yields (m \<bind> f) Q"
  by (auto simp: yields_def split_beta)

lemma yields_anything: "yields m (\<lambda>_. True)"
  by (simp add: yields_def)

lemma yields_mono: "yields m R \<Longrightarrow> (\<And>v. R v \<Longrightarrow> Q v) \<Longrightarrow> yields m Q"
  by (auto simp: yields_def)

lemma yields_if [yields_intros]:
  "(b \<Longrightarrow> yields m Q) \<Longrightarrow> (\<not> b \<Longrightarrow> yields m' Q) \<Longrightarrow> yields (if b then m else m') Q"
  by simp

lemma yields_case_prod [yields_intros]:
  "(\<And>a b. v = (a, b) \<Longrightarrow> yields (f a b) Q) \<Longrightarrow> yields (case v of (a, b) \<Rightarrow> f a b) Q"
  by (cases v) simp

text \<open>A register gives what fits into its width.\<close>

lemma fits_simps [simp]:
  "fits k 0"
  "fits k x \<Longrightarrow> fits k y \<Longrightarrow> fits k (x OR y)"
  "fits k x \<Longrightarrow> fits k y \<Longrightarrow> fits k (x XOR y)"
  "fits (k + j) x \<Longrightarrow> fits k (drop_bit j x)"
  by (auto simp: fits_def take_bit_or take_bit_xor take_bit_drop_bit)

lemma fits_iff: "fits k v \<longleftrightarrow> (\<forall>n\<ge>k. \<not> bit v n)"
proof
  assume "fits k v"
  then have "bit v n \<Longrightarrow> n < k" for n by (metis bit_take_bit_iff fits_def)
  then show "\<forall>n\<ge>k. \<not> bit v n" by (auto simp: not_less[symmetric])
next
  assume "\<forall>n\<ge>k. \<not> bit v n"
  then show "fits k v" unfolding fits_def by (intro bit_eqI) (auto simp: bit_take_bit_iff not_less[symmetric])
qed

lemma fits_mono: "fits k v \<Longrightarrow> k \<le> m \<Longrightarrow> fits m v"
  by (auto simp: fits_iff)

lemma fits_and1: "fits k x \<Longrightarrow> fits k (x AND y)"
  and fits_and2: "fits k y \<Longrightarrow> fits k (x AND y)"
  by (auto simp: fits_iff bit_simps)

lemma fits_push: "fits k x \<Longrightarrow> k + j \<le> m \<Longrightarrow> fits m (push_bit j x)"
  by (auto simp: fits_iff bit_simps)

lemma fits_drop: "fits m x \<Longrightarrow> m \<le> k + j \<Longrightarrow> fits k (drop_bit j x)"
  by (auto simp: fits_iff bit_simps)

lemma fits_unat: "k \<le> 32 \<Longrightarrow> fits k v \<longleftrightarrow> unat v < 2 ^ k"
proof -
  have "fits k v \<longleftrightarrow> unat (take_bit k v) = unat v" unfolding fits_def by (rule word_unat_eq_iff)
  also have "\<dots> \<longleftrightarrow> unat v mod 2 ^ k = unat v" by (simp add: unsigned_take_bit_eq flip: take_bit_eq_mod)
  finally show ?thesis by (metis mod_less mod_less_divisor zero_less_numeral zero_less_power)
qed


lemma fits_low: "v = take_bit k v \<Longrightarrow> fits k v"
  by (simp add: fits_def)

lemma fits_const: "unat (c :: u32) < 2 ^ k \<Longrightarrow> k \<le> 32 \<Longrightarrow> fits k c"
  by (simp add: fits_unat)

lemma yields_reg_in: "yields (reg_in w bus a) (fits (case w of W8 \<Rightarrow> 8 | W16 \<Rightarrow> 16 | W32 \<Rightarrow> 32))"
proof (cases w)
  case W32
  have "fits 32 v" for v using bit_imp_le_length[of v] by (auto simp: fits_iff not_less[symmetric])
  with W32 show ?thesis by (simp add: yields_def)
qed (auto simp: yields_def reg_in_def intro!: fits_and2 fits_const)

lemma yields_in:
  "yields (inb bus b) (fits 8)" "yields (inw bus b) (fits 16)" "yields (inl bus b) (fits 32)"
  "yields (readb bus b) (fits 8)" "yields (readw bus b) (fits 16)" "yields (readl bus b) (fits 32)"
  using yields_reg_in[of W8 bus] yields_reg_in[of W16 bus] yields_reg_in[of W32 bus]
  by (simp_all add: inb_def inw_def inl_def readb_def readw_def readl_def)

lemma fits_more: "fits k v \<Longrightarrow> (\<And>m. k \<le> m \<Longrightarrow> fits m v)"
  by (rule fits_mono)

lemma yields_read [yields_intros]:
  "(\<And>v. (\<And>m. 8 \<le> m \<Longrightarrow> fits m v) \<Longrightarrow> yields (f v) Q) \<Longrightarrow> yields (inb bus b \<bind> f) Q"
  "(\<And>v. (\<And>m. 16 \<le> m \<Longrightarrow> fits m v) \<Longrightarrow> yields (f v) Q) \<Longrightarrow> yields (inw bus b \<bind> f) Q"
  "(\<And>v. yields (f v) Q) \<Longrightarrow> yields (inl bus b \<bind> f) Q"
  "(\<And>v. (\<And>m. 8 \<le> m \<Longrightarrow> fits m v) \<Longrightarrow> yields (f v) Q) \<Longrightarrow> yields (readb bus b \<bind> f) Q"
  "(\<And>v. (\<And>m. 16 \<le> m \<Longrightarrow> fits m v) \<Longrightarrow> yields (f v) Q) \<Longrightarrow> yields (readw bus b \<bind> f) Q"
  "(\<And>v. yields (f v) Q) \<Longrightarrow> yields (readl bus b \<bind> f) Q"
  by (rule yields_bind[OF yields_in(1)], metis fits_more)
    (rule yields_bind[OF yields_in(2)], metis fits_more,
     rule yields_bind[OF yields_in(3)], blast,
     rule yields_bind[OF yields_in(4)], metis fits_more,
     rule yields_bind[OF yields_in(5)], metis fits_more,
     rule yields_bind[OF yields_in(6)], blast)

text \<open>Any other step may yield anything.\<close>

lemma yields_unit [yields_intros]: "yields (f ()) Q \<Longrightarrow> yields (m \<bind> f) Q" for m :: "('x, unit) io"
  by (rule yields_bind[OF yields_anything]) simp

lemma yields_poll [yields_intros]:
  "yields (f True) Q \<Longrightarrow> yields (f False) Q \<Longrightarrow> yields (poll_until k c \<bind> f) Q"
  by (rule yields_bind[OF yields_anything]) (case_tac v; simp)

section \<open>What is left to be read back\<close>

text \<open>After the samples \<open>ds\<close> the channel \<open>c\<close> keeps the last one.\<close>

definition left_back :: "nat \<Rightarrow> (u32 \<Rightarrow> u32) \<Rightarrow> u32 list \<Rightarrow> u32 list \<Rightarrow> ending \<times> 'z ao_private_scheme \<Rightarrow> bool" where
  "left_back c conv ds rb ep \<longleftrightarrow>
     (fst ep = Fine \<longrightarrow> ao_readback (snd ep) = (if ds = [] then rb else rb[c := conv (last ds)])) \<and>
     (\<forall>r. fst ep = Fails r \<longrightarrow> r \<le> 0)"

lemma left_back_simps [simp]:
  "left_back c conv ds rb (Fine, p) \<longleftrightarrow> ao_readback p = (if ds = [] then rb else rb[c := conv (last ds)])"
  "left_back c conv ds rb (Fails r, p) \<longleftrightarrow> r \<le> 0"
  "left_back c conv ds rb (Never, p)"
  by (auto simp: left_back_def)

lemma yields_keep [yields_intros]:
  "ao_readback p = rb \<Longrightarrow> d = conv x \<Longrightarrow> yields (keep_sample c d p) (left_back c conv [x] rb)"
  by (auto simp: keep_sample_def intro!: yields_intros)

lemma yields_write_each:
  assumes "\<And>d p. d \<in> set ds \<Longrightarrow> yields (f d p) (left_back c conv [d] (ao_readback p))" and "ao_readback p = rb"
  shows "yields (write_each f ds p) (left_back c conv ds rb)"
  using assms
proof (induction ds arbitrary: p rb)
  case (Cons d ds)
  have step: "yields (f d p) (left_back c conv [d] rb)" using Cons.prems(1)[of d p] Cons.prems(2) by simp
  have rest: "yields (if e = Fine then write_each f ds p' else give (e, p')) (left_back c conv (d # ds) rb)"
    if first: "left_back c conv [d] rb (e, p')" for e p'
  proof (intro yields_intros)
    assume "e = Fine"
    with first have "ao_readback p' = rb[c := conv d]" by simp
    with Cons.IH[of p'] Cons.prems(1) have "yields (write_each f ds p') (left_back c conv ds (rb[c := conv d]))" by simp
    then show "yields (write_each f ds p') (left_back c conv (d # ds) rb)"
      by (rule yields_mono) (auto simp: left_back_def)
  next
    assume "e \<noteq> Fine"
    with first show "left_back c conv (d # ds) rb (e, p')" by (auto simp: left_back_def)
  qed
  show ?case unfolding write_each.simps 
    by (rule yields_bind[OF step], rule yields_case_prod, rule rest, simp)
qed (auto intro!: yields_intros)

text \<open>
  What a user of a pair of handlers sees: when a write of samples to a channel has succeeded, a read of that channel
  yields the last of them as the board keeps it (\<open>conv\<close>), and a read of any other channel yields what it yielded.
\<close>

definition reads_back ::
  "('x bus \<Rightarrow> ('z ao_private_scheme, 'x) insn_handler) \<Rightarrow> ('x bus \<Rightarrow> ('z ao_private_scheme, 'x) insn_handler) \<Rightarrow>
    (comedi_insn \<Rightarrow> u32 \<Rightarrow> u32) \<Rightarrow> bool" where
  "reads_back insn_write insn_read conv \<longleftrightarrow>
     (\<forall>bus dev i insn data r dev' insn' data' p s insn2 data2.
        insn_write bus dev i insn data = Some (r, dev', insn', data') \<longrightarrow> 0 < r \<longrightarrow>
        dv_private dev = Some p \<longrightarrow> subd dev i = Some s \<longrightarrow>
        chan_of insn < length (ao_readback p) \<longrightarrow> chan_of insn2 < length (ao_readback p) \<longrightarrow>
        0 < insn_n insn2 \<longrightarrow> length data2 = unat (insn_n insn2) \<longrightarrow>
        (\<exists>r2 dev2 data3. insn_read bus dev' i insn2 data2 = Some (r2, dev2, insn2, data3) \<and> 0 < r2 \<and>
          (\<forall>k<nat r2. data3 ! k =
            (if chan_of insn2 = chan_of insn then conv insn (data ! (nat r - 1)) else ao_readback p ! chan_of insn2))))"

text \<open>
  The contract of a pair of write and read handlers for analog outputs: a write that returns a positive number leaves
  the last sample it took in its channel, and all else as it was; a read yields what the channel keeps.
\<close>

locale readable_output =
  fixes insn_write insn_read :: "'x bus \<Rightarrow> ('z ao_private_scheme, 'x) insn_handler" and conv :: "comedi_insn \<Rightarrow> u32 \<Rightarrow> u32"
  assumes writes: "insn_write bus dev i insn data = Some (r, dev', insn', data') \<Longrightarrow> 0 < r \<Longrightarrow> dv_private dev = Some p \<Longrightarrow>
      insn' = insn \<and> data' = data \<and> nat r \<le> length data \<and> subd dev' = subd dev \<and> (\<exists>p'. dv_private dev' = Some p' \<and>
        ao_readback p' = (ao_readback p)[chan_of insn := conv insn (data ! (nat r - 1))])"
    and reads: "subd dev i = Some s \<Longrightarrow> dv_private dev = Some p \<Longrightarrow> chan_of insn < length (ao_readback p) \<Longrightarrow>
      0 < insn_n insn \<Longrightarrow> length data = unat (insn_n insn) \<Longrightarrow>
      \<exists>r dev' data' p'. insn_read bus dev i insn data = Some (r, dev', insn, data') \<and> 0 < r \<and>
        (\<forall>k<nat r. data' ! k = ao_readback p ! chan_of insn) \<and> dv_private dev' = Some p' \<and> ao_readback p' = ao_readback p"
begin

lemma write_read:
  assumes w: "insn_write bus dev i insn data = Some (r, dev', insn', data')" and r: "0 < r"
    and p: "dv_private dev = Some p" and s: "subd dev i = Some s"
    and c: "chan_of insn < length (ao_readback p)" "chan_of insn2 < length (ao_readback p)"
    and n: "0 < insn_n insn2" "length data2 = unat (insn_n insn2)"
  shows "\<exists>r2 dev2 data3. insn_read bus dev' i insn2 data2 = Some (r2, dev2, insn2, data3) \<and> 0 < r2 \<and>
    (\<forall>k<nat r2. data3 ! k =
      (if chan_of insn2 = chan_of insn then conv insn (data ! (nat r - 1)) else ao_readback p ! chan_of insn2))"
proof -
  from writes[OF w r p] obtain p' where p': "dv_private dev' = Some p'"
    "ao_readback p' = (ao_readback p)[chan_of insn := conv insn (data ! (nat r - 1))]" "subd dev' = subd dev" by blast
  have "chan_of insn2 < length (ao_readback p')" using c p'(2) by simp
  moreover have "subd dev' i = Some s" using s p'(3) by simp
  ultimately obtain r2 dev2 data3 where "insn_read bus dev' i insn2 data2 = Some (r2, dev2, insn2, data3)" "0 < r2"
    "\<forall>k<nat r2. data3 ! k = ao_readback p' ! chan_of insn2"
    using reads[OF _ p'(1) _ n, of i s] by blast
  moreover have "ao_readback p' ! chan_of insn2 =
      (if chan_of insn2 = chan_of insn then conv insn (data ! (nat r - 1)) else ao_readback p ! chan_of insn2)"
    using p'(2) c by simp
  ultimately show ?thesis by auto
qed

lemma kept: "reads_back insn_write insn_read conv"
  unfolding reads_back_def by (intro allI impI write_read)

end

lemma read_each_kept:
  "run_state (read_each n (kept_sample c) p) x =
    ((if n = 0 \<or> c < length (ao_readback p) then (Fine, p, replicate n (ao_readback p ! c)) else (Never, p, [])), x)"
  by (induction n) (auto simp: kept_sample_def)

lemma readback_insn_reads:
  assumes "subd dev i = Some s" and "dv_private dev = Some p" and "chan_of insn < length (ao_readback p)"
    and "0 < insn_n insn" and "length data = unat (insn_n insn)"
  shows "readback_insn dev i insn data =
      Some (int (unat (insn_n insn)), dev, insn, replicate (unat (insn_n insn)) (ao_readback p ! chan_of insn))"
    and "readback_one dev i insn data = Some (1, dev, insn, data[0 := ao_readback p ! chan_of insn])"
proof -
  have "0 < unat (insn_n insn)" using assms(4) by (simp add: unat_gt_0)
  moreover obtain y ys where "data = y # ys" using assms(5) calculation by (cases data) auto
  moreover have "dev\<lparr>dv_hw := dv_hw dev, dv_private := Some p\<rparr> = dev" using assms(2) by simp
  ultimately show "readback_insn dev i insn data =
      Some (int (unat (insn_n insn)), dev, insn, replicate (unat (insn_n insn)) (ao_readback p ! chan_of insn))"
    and "readback_one dev i insn data = Some (1, dev, insn, data[0 := ao_readback p ! chan_of insn])"
    using assms by (auto simp: readback_insn_def readback_one_def unless_empty_def in_insn_def read_each_kept
      all_samples_def one_sample_def Let_def simp del: read_each.simps)
qed


lemma subd_same_board: "subd (dev\<lparr>dv_hw := x, dv_private := y\<rparr>) = subd dev"
  by (simp add: subd_def fun_eq_iff)

lemma out_insn_writes:
  assumes ret: "out_insn count f dev i insn data = Some (r, dev', insn', data')" "0 < r" "dv_private dev = Some p"
    and body: "\<And>s ds. yields (f dev s insn ds p) (left_back (chan_of insn) conv ds (ao_readback p))"
  shows "insn' = insn \<and> data' = data \<and> nat r \<le> length data \<and> subd dev' = subd dev \<and> (\<exists>p'. dv_private dev' = Some p' \<and>
    ao_readback p' = (ao_readback p)[chan_of insn := conv (data ! (nat r - 1))])"
proof -
  let ?n = "count (unat (insn_n insn))"
  from ret obtain s e p' x where run: "length data \<ge> ?n" "run_state (f dev s insn (take ?n data) p) (dv_hw dev) = ((e, p'), x)"
    and res: "ending_code e (int ?n) = Some r" "dev' = dev\<lparr>dv_hw := x, dv_private := Some p'\<rparr>" "insn' = insn" "data' = data"
    by (fastforce simp: out_insn_def Let_def split: if_splits prod.splits Option.bind_splits)
  from yieldsD[OF body run(2)] have left: "left_back (chan_of insn) conv (take ?n data) (ao_readback p) (e, p')" .
  with res(1) ret(2) have "e = Fine" "r = int ?n" by (cases e; simp)+
  moreover from this ret(2) have "0 < ?n" by simp
  moreover from this run(1) have "take ?n data \<noteq> []" by auto
  moreover from this run(1) have "last (take ?n data) = data ! (?n - 1)"
    using \<open>0 < ?n\<close> by (simp add: last_conv_nth min_def del: take_eq_Nil)
  ultimately show ?thesis using left res(2-) run(1) by (simp add: subd_same_board)
qed

text \<open>The loops for reading back keep the contract, and so does a write whose body leaves the last sample.\<close>

lemma readable_outputI:
  assumes w: "\<And>bus. w bus = out_insn all_samples (f bus) \<or> w bus = unless_empty (out_insn one_sample (f bus))"
    and r: "\<And>bus. r bus = readback_insn \<or> r bus = readback_one"
    and body: "\<And>bus dev s insn ds p. yields (f bus dev s insn ds p) (left_back (chan_of insn) (conv insn) ds (ao_readback p))"
  shows "readable_output w r conv"
proof
  fix bus and dev dev' :: "('b ao_private_ext, 'a) comedi_device" and i insn data ret insn' data' p
  assume run: "w bus dev i insn data = Some (ret, dev', insn', data')" "0 < ret" "dv_private dev = Some p"
  then obtain count where "out_insn count (f bus) dev i insn data = Some (ret, dev', insn', data')"
    using w[of bus] by (auto simp: unless_empty_def split: if_splits)
  from out_insn_writes[OF this run(2,3) body] show "insn' = insn \<and> data' = data \<and> nat ret \<le> length data \<and> subd dev' = subd dev \<and>
    (\<exists>p'. dv_private dev' = Some p' \<and> ao_readback p' = (ao_readback p)[chan_of insn := conv insn (data ! (nat ret - 1))])" .
next
  fix bus and dev :: "('b ao_private_ext, 'a) comedi_device" and i s insn data p
  assume a: "subd dev i = Some s" "dv_private dev = Some p" "chan_of insn < length (ao_readback p)" "0 < insn_n insn"
    "length (data :: u32 list) = unat (insn_n insn)"
  from a(4) have "0 < int (unat (insn_n insn))" by (simp add: unat_gt_0 del: of_nat_unat)
  moreover define v where "v = ao_readback p ! chan_of insn"
  moreover note readback_insn_reads[OF a]
  ultimately have "\<exists>ret data'. r bus dev i insn data = Some (ret, dev, insn, data') \<and> 0 < ret \<and> (\<forall>k<nat ret. data' ! k = v)"
    using r[of bus] a(5) by (elim disjE) (simp_all del: of_nat_unat)
  then show "\<exists>ret dev' data' p'. r bus dev i insn data = Some (ret, dev', insn, data') \<and> 0 < ret \<and>
      (\<forall>k<nat ret. data' ! k = ao_readback p ! chan_of insn) \<and> dv_private dev' = Some p' \<and> ao_readback p' = ao_readback p"
    using a(2) unfolding v_def by blast
qed

text \<open>A step that leaves the samples to be read back alone.\<close>

lemma yields_write_loop [yields_intros]:
  assumes "ao_readback p = rb" and "\<And>d p. yields (f d p) (left_back c conv [d] (ao_readback p))"
  shows "yields (write_each f ds p) (left_back c conv ds rb)"
  by (rule yields_write_each[OF assms(2,1)])

end
