(* ===== verification/Analog_Outputs.thy ===== *)
theory Analog_Outputs
  imports Analog_Io Direction_Boards
begin

text \<open>
  The write and read instructions of analog outputs. Each pair is followed by the interpretation of the contract:
  what is read back is what was written last. Register numbers are those of the drivers; a base address that the
  driver found when it attached is an argument where it is not the device's \<open>iobase\<close>. The sample is kept at the end
  of a round, also where the code keeps it between two writes to registers.
\<close>

unbundle bit_operations_syntax

section \<open>One loop over the samples\<close>

text \<open>\<open>skel.c\<close>: the example has no hardware.\<close>

definition skel_ao_winsn :: "('z ao_private_scheme, 'x) insn_handler" where
  "skel_ao_winsn = out_insn all_samples (\<lambda>dev s insn. write_each (keep_sample (chan_of insn)))"

definition skel_ao_rinsn :: "('z ao_private_scheme, 'x) insn_handler" where
  "skel_ao_rinsn = readback_insn"

interpretation skel_ao: readable_output "\<lambda>_. skel_ao_winsn" "\<lambda>_. skel_ao_rinsn" "\<lambda>_ d. d"
  by (rule readable_outputI) (auto simp: skel_ao_winsn_def skel_ao_rinsn_def intro!: yields_intros)

text \<open>\<open>rti802.c\<close>, \<open>rti800.c\<close>: \<open>dac_2comp\<close> tells the channels whose coding is two's complement.\<close>

record rti_private = ao_private +
  dac_2comp :: "nat \<Rightarrow> bool"

definition rti802_ao_insn_write :: "'x bus \<Rightarrow> ('z rti_private_scheme, 'x) insn_handler" where
  "rti802_ao_insn_write bus = out_insn all_samples (\<lambda>dev s insn. write_each (\<lambda>data p.
     let chan = chan_of insn; a = dv_iobase dev; d = (if dac_2comp p chan then data XOR 0x800 else data) in
     do {
       outb bus (of_nat chan) (a + 0);
       outb bus (d AND 0xff) (a + 1);
       outb bus (drop_bit 8 d) (a + 2);
       keep_sample chan data p
     }))"

definition rti802_ao_insn_read :: "('z rti_private_scheme, 'x) insn_handler" where
  "rti802_ao_insn_read = readback_insn"

definition rti800_ao_insn_write :: "'x bus \<Rightarrow> ('z rti_private_scheme, 'x) insn_handler" where
  "rti800_ao_insn_write bus = out_insn all_samples (\<lambda>dev s insn. write_each (\<lambda>data p.
     let chan = chan_of insn; a = dv_iobase dev; d = (if dac_2comp p chan then data XOR 0x800 else data) in
     do {
       outb bus (d AND 0xff) (a + (if chan \<noteq> 0 then 7 else 5));
       outb bus (drop_bit 8 d) (a + (if chan \<noteq> 0 then 8 else 6));
       keep_sample chan data p
     }))"

definition rti800_ao_insn_read :: "('z rti_private_scheme, 'x) insn_handler" where
  "rti800_ao_insn_read = readback_insn"

interpretation rti802: readable_output rti802_ao_insn_write "\<lambda>_. rti802_ao_insn_read" "\<lambda>_ d. d"
  by (rule readable_outputI) (auto simp: rti802_ao_insn_write_def rti802_ao_insn_read_def Let_def intro!: yields_intros)

interpretation rti800_ao: readable_output rti800_ao_insn_write "\<lambda>_. rti800_ao_insn_read" "\<lambda>_ d. d"
  by (rule readable_outputI) (auto simp: rti800_ao_insn_write_def rti800_ao_insn_read_def Let_def intro!: yields_intros)

text \<open>\<open>aio_aio12_8.c\<close>.\<close>

definition aio_aio12_8_ao_write :: "'x bus \<Rightarrow> ('z ao_private_scheme, 'x) insn_handler" where
  "aio_aio12_8_ao_write bus = out_insn all_samples (\<lambda>dev s insn ds p.
     let chan = chan_of insn; port = dv_iobase dev + 4 + 2 * of_nat chan in
     do {
       outb bus 0x01 (dv_iobase dev + 0x18);
       write_each (\<lambda>d p. do {
         outb bus (d AND 0xff) port;
         outb bus (drop_bit 8 d AND 0x0f) (port + 1);
         keep_sample chan d p
       }) ds p
     })"

definition aio_aio12_8_ao_read :: "('z ao_private_scheme, 'x) insn_handler" where
  "aio_aio12_8_ao_read = readback_insn"

interpretation aio12_8: readable_output aio_aio12_8_ao_write "\<lambda>_. aio_aio12_8_ao_read" "\<lambda>_ d. d"
  by (rule readable_outputI) (auto simp: aio_aio12_8_ao_write_def aio_aio12_8_ao_read_def Let_def intro!: yields_intros)

text \<open>\<open>multiq3.c\<close>.\<close>

definition multiq3_ao_insn_write :: "'x bus \<Rightarrow> ('z ao_private_scheme, 'x) insn_handler" where
  "multiq3_ao_insn_write bus = out_insn all_samples (\<lambda>dev s insn. write_each (\<lambda>d p.
     let chan = chan_of insn; a = dv_iobase dev in
     do {
       outw bus (0x0600 OR 0x1800 OR of_nat chan) (a + 6);
       outw bus d (a + 2);
       outw bus 0x0600 (a + 6);
       keep_sample chan d p
     }))"

definition multiq3_ao_insn_read :: "('z ao_private_scheme, 'x) insn_handler" where
  "multiq3_ao_insn_read = readback_insn"

interpretation multiq3_ao: readable_output multiq3_ao_insn_write "\<lambda>_. multiq3_ao_insn_read" "\<lambda>_ d. d"
  by (rule readable_outputI) (auto simp: multiq3_ao_insn_write_def multiq3_ao_insn_read_def Let_def intro!: yields_intros)

text \<open>\<open>pcl726.c\<close>: \<open>bipolar\<close> tells the channels with a bipolar range.\<close>

record pcl726_private = ao_private +
  bipolar :: "nat \<Rightarrow> bool"

definition pcl726_ao_insn :: "'x bus \<Rightarrow> ('z pcl726_private_scheme, 'x) insn_handler" where
  "pcl726_ao_insn bus = out_insn all_samples (\<lambda>dev s insn. write_each (\<lambda>d p.
     let chan = chan_of insn; a = dv_iobase dev; lo = d AND 0xff; hi = drop_bit 8 d AND 0xf;
       hi = (if bipolar p chan then hi XOR 0x8 else hi) in
     do {
       outb bus hi (a + 0 + 2 * of_nat chan);
       outb bus lo (a + 1 + 2 * of_nat chan);
       keep_sample chan d p
     }))"

definition pcl726_ao_insn_read :: "('z pcl726_private_scheme, 'x) insn_handler" where
  "pcl726_ao_insn_read = readback_insn"

interpretation pcl726: readable_output pcl726_ao_insn "\<lambda>_. pcl726_ao_insn_read" "\<lambda>_ d. d"
  by (rule readable_outputI) (auto simp: pcl726_ao_insn_def pcl726_ao_insn_read_def Let_def intro!: yields_intros)

text \<open>\<open>pcl711.c\<close>, \<open>pcl812.c\<close>, \<open>pcl818.c\<close>, \<open>dt2811.c\<close>: two bytes per channel.\<close>

definition pcl711_ao_insn :: "'x bus \<Rightarrow> ('z ao_private_scheme, 'x) insn_handler" where
  "pcl711_ao_insn bus = out_insn all_samples (\<lambda>dev s insn. write_each (\<lambda>d p.
     let chan = chan_of insn; a = dv_iobase dev in
     do {
       outb bus (d AND 0xff) (a + (if chan \<noteq> 0 then 6 else 4));
       outb bus (drop_bit 8 d) (a + (if chan \<noteq> 0 then 7 else 5));
       keep_sample chan d p
     }))"

definition pcl711_ao_insn_read :: "('z ao_private_scheme, 'x) insn_handler" where
  "pcl711_ao_insn_read = readback_insn"

definition pcl812_ao_insn_write :: "'x bus \<Rightarrow> ('z ao_private_scheme, 'x) insn_handler" where
  "pcl812_ao_insn_write bus = out_insn all_samples (\<lambda>dev s insn. write_each (\<lambda>d p.
     let chan = chan_of insn; a = dv_iobase dev in
     do {
       outb bus (d AND 0xff) (a + (if chan \<noteq> 0 then 6 else 4));
       outb bus (drop_bit 8 d AND 0x0f) (a + (if chan \<noteq> 0 then 7 else 5));
       keep_sample chan d p
     }))"

definition pcl812_ao_insn_read :: "('z ao_private_scheme, 'x) insn_handler" where
  "pcl812_ao_insn_read = readback_insn"

definition pcl818_ao_insn_write :: "'x bus \<Rightarrow> ('z ao_private_scheme, 'x) insn_handler" where
  "pcl818_ao_insn_write bus = out_insn all_samples (\<lambda>dev s insn. write_each (\<lambda>d p.
     let chan = chan_of insn; a = dv_iobase dev in
     do {
       outb bus (push_bit 4 (d AND 0x000f)) (a + (if chan \<noteq> 0 then 6 else 4));
       outb bus (drop_bit 4 (d AND 0x0ff0)) (a + (if chan \<noteq> 0 then 7 else 5));
       keep_sample chan d p
     }))"

definition pcl818_ao_insn_read :: "('z ao_private_scheme, 'x) insn_handler" where
  "pcl818_ao_insn_read = readback_insn"

definition dt2811_ao_insn :: "'x bus \<Rightarrow> ('z ao_private_scheme, 'x) insn_handler" where
  "dt2811_ao_insn bus = out_insn all_samples (\<lambda>dev s insn. write_each (\<lambda>d p.
     let chan = chan_of insn; a = dv_iobase dev in
     do {
       outb bus (d AND 0xff) (a + 2 + 2 * of_nat chan);
       outb bus (drop_bit 8 d AND 0xff) (a + 3 + 2 * of_nat chan);
       keep_sample chan d p
     }))"

definition dt2811_ao_insn_read :: "('z ao_private_scheme, 'x) insn_handler" where
  "dt2811_ao_insn_read = readback_insn"

interpretation pcl711_ao: readable_output pcl711_ao_insn "\<lambda>_. pcl711_ao_insn_read" "\<lambda>_ d. d"
  by (rule readable_outputI) (auto simp: pcl711_ao_insn_def pcl711_ao_insn_read_def Let_def intro!: yields_intros)

interpretation pcl812_ao: readable_output pcl812_ao_insn_write "\<lambda>_. pcl812_ao_insn_read" "\<lambda>_ d. d"
  by (rule readable_outputI) (auto simp: pcl812_ao_insn_write_def pcl812_ao_insn_read_def Let_def intro!: yields_intros)

interpretation pcl818_ao: readable_output pcl818_ao_insn_write "\<lambda>_. pcl818_ao_insn_read" "\<lambda>_ d. d"
  by (rule readable_outputI) (auto simp: pcl818_ao_insn_write_def pcl818_ao_insn_read_def Let_def intro!: yields_intros)

interpretation dt2811_ao: readable_output dt2811_ao_insn "\<lambda>_. dt2811_ao_insn_read" "\<lambda>_ d. d"
  by (rule readable_outputI) (auto simp: dt2811_ao_insn_def dt2811_ao_insn_read_def Let_def intro!: yields_intros)


text \<open>\<open>fl512.c\<close>: both bytes go to the register of the low byte, and a read from it starts the conversion. The array holds
  16-bit samples.\<close>

definition fl512_ao_insn :: "'x bus \<Rightarrow> ('z ao_private_scheme, 'x) insn_handler" where
  "fl512_ao_insn bus = out_insn all_samples (\<lambda>dev s insn. write_each (\<lambda>d p.
     let chan = chan_of insn; a = dv_iobase dev + 4 + 2 * of_nat chan in
     do {
       outb bus (d AND 0x0ff) a;
       outb bus (drop_bit 8 (d AND 0xf00)) a;
       v \<leftarrow> inb bus a;
       keep_sample chan (d AND 0xffff) p
     }))"

definition fl512_ao_insn_readback :: "('z ao_private_scheme, 'x) insn_handler" where
  "fl512_ao_insn_readback = readback_insn"

interpretation fl512: readable_output fl512_ao_insn "\<lambda>_. fl512_ao_insn_readback" "\<lambda>_ d. d AND 0xffff"
  by (rule readable_outputI) (auto simp: fl512_ao_insn_def fl512_ao_insn_readback_def Let_def intro!: yields_intros)

text \<open>\<open>ni_670x.c\<close>: the channel is selected first. \<open>ni_at_ao.c\<close>: the registers of the first channel are in the second group.\<close>

definition ni_670x_ao_winsn :: "u64 \<Rightarrow> 'x bus \<Rightarrow> ('z ao_private_scheme, 'x) insn_handler" where
  "ni_670x_ao_winsn base bus = out_insn all_samples (\<lambda>dev s insn. write_each (\<lambda>d p.
     let chan = CR_CHAN (insn_chanspec insn) in
     do {
       writel bus (push_bit 1 (chan AND 15) OR drop_bit 4 (chan AND 16)) (base + 0x0c);
       writel bus d (base + 0x00);
       keep_sample (unat chan) d p
     }))"

definition ni_670x_ao_rinsn :: "('z ao_private_scheme, 'x) insn_handler" where
  "ni_670x_ao_rinsn = readback_insn"

interpretation ni_670x_ao: readable_output "ni_670x_ao_winsn base" "\<lambda>_. ni_670x_ao_rinsn" "\<lambda>_ d. d"
  by (rule readable_outputI) (auto simp: ni_670x_ao_winsn_def ni_670x_ao_rinsn_def chan_of_def Let_def intro!: yields_intros)

record atao_private = ao_private +
  atao_cfg1 :: u32

definition atao_ao_winsn :: "'x bus \<Rightarrow> ('z atao_private_scheme, 'x) insn_handler" where
  "atao_ao_winsn bus = out_insn all_samples (\<lambda>dev s insn. write_each (\<lambda>d p.
     let chan = chan_of insn; a = dv_iobase dev; bits = d - 0x800;
       selected = (if chan = 0 then p\<lparr>atao_cfg1 := atao_cfg1 p OR 0x0080\<rparr> else p);
       released = (if chan = 0 then selected\<lparr>atao_cfg1 := atao_cfg1 selected AND NOT 0x0080\<rparr> else selected) in
     do {
       io_if (chan = 0) (outw bus (atao_cfg1 selected) (a + 0x0a));
       outw bus bits (a + 0x0c + 2 * of_nat chan);
       io_if (chan = 0) (outw bus (atao_cfg1 released) (a + 0x0a));
       keep_sample chan d released
     }))"

definition atao_ao_rinsn :: "('z atao_private_scheme, 'x) insn_handler" where
  "atao_ao_rinsn = readback_insn"

interpretation atao_ao: readable_output atao_ao_winsn "\<lambda>_. atao_ao_rinsn" "\<lambda>_ d. d"
  by (rule readable_outputI) (auto simp: atao_ao_winsn_def atao_ao_rinsn_def Let_def intro!: yields_intros)

text \<open>\<open>cb_pcimdas.c\<close>, \<open>ni_atmio16d.c\<close>: another channel than the two is an error.\<close>

definition cb_pcimdas_ao_winsn :: "u64 \<Rightarrow> 'x bus \<Rightarrow> ('z ao_private_scheme, 'x) insn_handler" where
  "cb_pcimdas_ao_winsn badr2 bus = out_insn all_samples (\<lambda>dev s insn. write_each (\<lambda>d p.
     let chan = chan_of insn in
     if chan = 0 then do { outw bus (d AND 0x0FFF) (badr2 + 2); keep_sample chan d p }
     else if chan = 1 then do { outw bus (d AND 0x0FFF) (badr2 + 4); keep_sample chan d p }
     else give (Fails (-1), p)))"

definition cb_pcimdas_ao_rinsn :: "('z ao_private_scheme, 'x) insn_handler" where
  "cb_pcimdas_ao_rinsn = readback_insn"

interpretation cb_pcimdas: readable_output "cb_pcimdas_ao_winsn badr2" "\<lambda>_. cb_pcimdas_ao_rinsn" "\<lambda>_ d. d"
  by (rule readable_outputI) (auto simp: cb_pcimdas_ao_winsn_def cb_pcimdas_ao_rinsn_def Let_def intro!: yields_intros)

record atmio16d_private = ao_private +
  dac0_2comp :: bool
  dac1_2comp :: bool

definition atmio16d_ao_insn_write :: "'x bus \<Rightarrow> ('z atmio16d_private_scheme, 'x) insn_handler" where
  "atmio16d_ao_insn_write bus = out_insn all_samples (\<lambda>dev s insn. write_each (\<lambda>data p.
     let chan = chan_of insn; a = dv_iobase dev in
     if chan = 0 then do { outw bus (if dac0_2comp p then data XOR 0x800 else data) (a + 0x10); keep_sample chan data p }
     else if chan = 1 then do { outw bus (if dac1_2comp p then data XOR 0x800 else data) (a + 0x12); keep_sample chan data p }
     else give (Fails (- EINVAL), p)))"

definition atmio16d_ao_insn_read :: "('z atmio16d_private_scheme, 'x) insn_handler" where
  "atmio16d_ao_insn_read = readback_insn"

interpretation atmio16d_ao: readable_output atmio16d_ao_insn_write "\<lambda>_. atmio16d_ao_insn_read" "\<lambda>_ d. d"
  by (rule readable_outputI) (auto simp: atmio16d_ao_insn_write_def atmio16d_ao_insn_read_def Let_def intro!: yields_intros)

text \<open>\<open>adl_pci9118.c\<close>, \<open>adv_pci1723.c\<close>: the arrays hold 16-bit samples.\<close>

definition pci9118_insn_write_ao :: "'x bus \<Rightarrow> ('z ao_private_scheme, 'x) insn_handler" where
  "pci9118_insn_write_ao bus = out_insn all_samples (\<lambda>dev s insn.
     let ch = chan_of insn; chanreg = (if ch \<noteq> 0 then 0x14 else 0x10) in
     write_each (\<lambda>d p. do { outl bus d (dv_iobase dev + chanreg); keep_sample ch (d AND 0xffff) p }))"

definition pci9118_insn_read_ao :: "('z ao_private_scheme, 'x) insn_handler" where
  "pci9118_insn_read_ao = readback_insn"

interpretation pci9118_ao: readable_output pci9118_insn_write_ao "\<lambda>_. pci9118_insn_read_ao" "\<lambda>_ d. d AND 0xffff"
  by (rule readable_outputI) (auto simp: pci9118_insn_write_ao_def pci9118_insn_read_ao_def Let_def intro!: yields_intros)

definition pci1723_ao_write_winsn :: "'x bus \<Rightarrow> ('z ao_private_scheme, 'x) insn_handler" where
  "pci1723_ao_write_winsn bus = out_insn all_samples (\<lambda>dev s insn. write_each (\<lambda>d p.
     let chan = chan_of insn in
     do { outw bus d (dv_iobase dev + push_bit 1 (of_nat chan)); keep_sample chan (d AND 0xffff) p }))"

definition pci1723_insn_read_ao :: "('z ao_private_scheme, 'x) insn_handler" where
  "pci1723_insn_read_ao = readback_insn"

interpretation pci1723_ao: readable_output pci1723_ao_write_winsn "\<lambda>_. pci1723_insn_read_ao" "\<lambda>_ d. d AND 0xffff"
  by (rule readable_outputI) (auto simp: pci1723_ao_write_winsn_def pci1723_insn_read_ao_def Let_def intro!: yields_intros)

text \<open>\<open>s526.c\<close>, \<open>dt3000.c\<close>, \<open>cb_das16_cs.c\<close> (whose converter is fed bit by bit).\<close>

definition s526_ao_winsn :: "'x bus \<Rightarrow> ('z ao_private_scheme, 'x) insn_handler" where
  "s526_ao_winsn bus = out_insn all_samples (\<lambda>dev s insn ds p.
     let chan = chan_of insn; a = dv_iobase dev; val = push_bit 1 (of_nat chan) in
     do {
       outw bus val (a + 4);
       write_each (\<lambda>d p. do {
         outw bus d (a + 8);
         outw bus (val + 1) (a + 4);
         keep_sample chan d p
       }) ds p
     })"

definition s526_ao_rinsn :: "('z ao_private_scheme, 'x) insn_handler" where
  "s526_ao_rinsn = readback_insn"

interpretation s526_ao: readable_output s526_ao_winsn "\<lambda>_. s526_ao_rinsn" "\<lambda>_ d. d"
  by (rule readable_outputI) (auto simp: s526_ao_winsn_def s526_ao_rinsn_def Let_def intro!: yields_intros)

definition dt3k_writesingle :: "'x bus \<Rightarrow> u64 \<Rightarrow> u32 \<Rightarrow> u32 \<Rightarrow> u32 \<Rightarrow> ('x, unit) io" where
  "dt3k_writesingle bus io_addr subsys chan data =
     do {
       writew bus subsys (io_addr + 4 * 0xfd3);
       writew bus chan (io_addr + 4 * 0xfd5);
       writew bus 0 (io_addr + 4 * 0xfd6);
       writew bus data (io_addr + 4 * 0xfd7);
       r \<leftarrow> dt3k_send_cmd bus io_addr 6;
       give ()
     }"

definition dt3k_ao_insn :: "u64 \<Rightarrow> 'x bus \<Rightarrow> ('z ao_private_scheme, 'x) insn_handler" where
  "dt3k_ao_insn io_addr bus = out_insn all_samples (\<lambda>dev s insn. write_each (\<lambda>d p.
     do { dt3k_writesingle bus io_addr 1 (CR_CHAN (insn_chanspec insn)) d; keep_sample (chan_of insn) d p }))"

definition dt3k_ao_insn_read :: "('z ao_private_scheme, 'x) insn_handler" where
  "dt3k_ao_insn_read = readback_insn"

interpretation dt3k_ao: readable_output "dt3k_ao_insn io_addr" "\<lambda>_. dt3k_ao_insn_read" "\<lambda>_ d. d"
  by (rule readable_outputI) (auto simp: dt3k_ao_insn_def dt3k_ao_insn_read_def Let_def intro!: yields_intros)

record das16cs_ao_private = ao_private +
  das16cs_status1 :: u32

definition das16cs_ao_winsn :: "'x bus \<Rightarrow> ('z das16cs_ao_private_scheme, 'x) insn_handler" where
  "das16cs_ao_winsn bus = out_insn all_samples (\<lambda>dev s insn. write_each (\<lambda>d p.
     let chan = chan_of insn; a = dv_iobase dev + 4;
       status1 = das16cs_status1 p AND NOT 0xf OR (if chan \<noteq> 0 then 0x0001 else 0x0008) in
     do {
       outw bus (das16cs_status1 p) a;
       outw bus status1 a;
       io_all (\<lambda>k. let b = push_bit 1 (drop_bit k (d AND 0xffff) AND 0x1) in
         do { outw bus (status1 OR b OR 0x0000) a; outw bus (status1 OR b OR 0x0004) a }) (rev [0..<16]);
       outw bus (status1 OR 0x9) a;
       keep_sample chan d p
     }))"

definition das16cs_ao_rinsn :: "('z das16cs_ao_private_scheme, 'x) insn_handler" where
  "das16cs_ao_rinsn = readback_insn"

interpretation das16cs_ao: readable_output das16cs_ao_winsn "\<lambda>_. das16cs_ao_rinsn" "\<lambda>_ d. d"
  by (rule readable_outputI) (auto simp: das16cs_ao_winsn_def das16cs_ao_rinsn_def Let_def intro!: yields_intros)

section \<open>Outputs with a range\<close>

text \<open>\<open>adv_pci1710.c\<close>: a register with the ranges of the channels; the last sample is kept after the loop.\<close>

record pci171x_private = ao_private +
  da_ranges :: u32

definition keep_last :: "nat \<Rightarrow> u32 list \<Rightarrow> 'z ao_private_scheme \<Rightarrow> ('x, ending \<times> 'z ao_private_scheme) io" where
  "keep_last c ds p = (if ds = [] then give (Fine, p) else keep_sample c (last ds AND 0xffff) p)"

definition pci171x_insn_write_ao :: "'x bus \<Rightarrow> ('z pci171x_private_scheme, 'x) insn_handler" where
  "pci171x_insn_write_ao bus = out_insn all_samples (\<lambda>dev s insn ds p.
     let chan = chan_of insn; range = CR_RANGE (insn_chanspec insn); a = dv_iobase dev;
       ranges = (if chan \<noteq> 0 then da_ranges p AND 0xfb OR push_bit 2 range else da_ranges p AND 0xfe OR range) AND 0xff;
       p = p\<lparr>da_ranges := ranges\<rparr> in
     do {
       outw bus ranges (a + 14);
       io_all (\<lambda>d. outw bus d (a + (if chan \<noteq> 0 then 12 else 10))) ds;
       keep_last chan ds p
     })"

definition pci1720_insn_write_ao :: "'x bus \<Rightarrow> ('z pci171x_private_scheme, 'x) insn_handler" where
  "pci1720_insn_write_ao bus = out_insn all_samples (\<lambda>dev s insn ds p.
     let chan = chan_of insn; range = CR_RANGE (insn_chanspec insn); a = dv_iobase dev;
       rangereg = da_ranges p AND NOT (push_bit (2 * chan) 0x03) OR push_bit (2 * chan) range;
       p' = (if rangereg \<noteq> da_ranges p then p\<lparr>da_ranges := rangereg AND 0xff\<rparr> else p) in
     do {
       io_if (rangereg \<noteq> da_ranges p) (outb bus rangereg (a + 8));
       io_all (\<lambda>d. do { outw bus d (a + 0 + push_bit 1 (of_nat chan)); outb bus 0 (a + 9) }) ds;
       keep_last chan ds p'
     })"

definition pci171x_insn_read_ao :: "('z pci171x_private_scheme, 'x) insn_handler" where
  "pci171x_insn_read_ao = readback_insn"

lemma yields_keep_last [yields_intros]:
  "ao_readback p = rb \<Longrightarrow> yields (keep_last c ds p) (left_back c (\<lambda>d. d AND 0xffff) ds rb)"
  by (auto simp: keep_last_def keep_sample_def intro!: yields_intros)

interpretation pci171x_ao: readable_output pci171x_insn_write_ao "\<lambda>_. pci171x_insn_read_ao" "\<lambda>_ d. d AND 0xffff"
  by (rule readable_outputI) (auto simp: pci171x_insn_write_ao_def pci171x_insn_read_ao_def Let_def intro!: yields_intros)

interpretation pci1720_ao: readable_output pci1720_insn_write_ao "\<lambda>_. pci171x_insn_read_ao" "\<lambda>_ d. d AND 0xffff"
  by (rule readable_outputI) (auto simp: pci1720_insn_write_ao_def pci171x_insn_read_ao_def Let_def intro!: yields_intros)

text \<open>\<open>amplc_pci224.c\<close>: \<open>hwrange\<close> are the control bits of the ranges of the board, \<open>bits\<close> its resolution.\<close>

record pci224_private = ao_private +
  daccon :: u32

definition COMBINE :: "u32 \<Rightarrow> u32 \<Rightarrow> u32 \<Rightarrow> u32" where
  "COMBINE old new k = (old AND NOT k) OR (new AND k)"

definition pci224_ao_set_data ::
  "nat \<Rightarrow> u32 list \<Rightarrow> 'x bus \<Rightarrow> u64 \<Rightarrow> nat \<Rightarrow> u32 \<Rightarrow> u32 \<Rightarrow> 'z pci224_private_scheme \<Rightarrow> ('x, ending \<times> 'z pci224_private_scheme) io" where
  "pci224_ao_set_data bits hwrange bus a chan rng data p =
     (if length hwrange \<le> unat rng then give (Never, p)
      else
        let con = COMBINE (daccon p) (hwrange ! unat rng) (0x08 OR 0x30) AND 0xffff;
          mangled = push_bit (16 - bits) (data AND 0xffff) AND 0xffff;
          mangled = (if con AND 0x08 = 0x08 then mangled XOR 0x8000 else mangled)
        in do {
          outw bus (push_bit chan 1) (a + 0x06);
          outw bus (con OR 0x1000) (a + 0x02);
          outw bus mangled (a + 0x00);
          v \<leftarrow> inw bus (a + 0x00);
          keep_sample chan data (p\<lparr>daccon := con\<rparr>)
        })"

definition pci224_ao_insn_write :: "nat \<Rightarrow> u32 list \<Rightarrow> 'x bus \<Rightarrow> ('z pci224_private_scheme, 'x) insn_handler" where
  "pci224_ao_insn_write bits hwrange bus = out_insn all_samples (\<lambda>dev s insn.
     write_each (pci224_ao_set_data bits hwrange bus (dv_iobase dev) (chan_of insn) (CR_RANGE (insn_chanspec insn))))"

definition pci224_ao_insn_read :: "('z pci224_private_scheme, 'x) insn_handler" where
  "pci224_ao_insn_read = readback_insn"

interpretation pci224_ao: readable_output "pci224_ao_insn_write bits hwrange" "\<lambda>_. pci224_ao_insn_read" "\<lambda>_ d. d"
  by (rule readable_outputI) (auto simp: pci224_ao_insn_write_def pci224_ao_insn_read_def Let_def pci224_ao_set_data_def intro!: yields_intros)

text \<open>\<open>amplc_pci230.c\<close>: \<open>datum\<close> is a 16-bit sample. The table of the ranges has two entries.\<close>

record pci230_ao_private = ao_private +
  ao_bipolar :: bool

definition pci230_ao_mangle_datum :: "nat \<Rightarrow> bool \<Rightarrow> u32 \<Rightarrow> u32" where
  "pci230_ao_mangle_datum bits bip datum =
     push_bit (16 - bits) (if bip then datum XOR push_bit (bits - 1) 1 else datum) AND 0xffff"

definition pci230_ao_winsn :: "nat \<Rightarrow> 'x bus \<Rightarrow> ('z pci230_ao_private_scheme, 'x) insn_handler" where
  "pci230_ao_winsn bits bus = out_insn all_samples (\<lambda>dev s insn ds p.
     let chan = chan_of insn; range = CR_RANGE (insn_chanspec insn); a = dv_iobase dev in
     if 2 \<le> range then give (Never, p)
     else do {
       outw bus range (a + 0x00);
       write_each (\<lambda>d p. do {
         outw bus (pci230_ao_mangle_datum bits (ao_bipolar p) (d AND 0xffff)) (a + (if chan = 0 then 0x02 else 0x04));
         keep_sample chan (d AND 0xffff) p
       }) ds (p\<lparr>ao_bipolar := (range = 1)\<rparr>)
     })"

definition pci230_ao_rinsn :: "('z pci230_ao_private_scheme, 'x) insn_handler" where
  "pci230_ao_rinsn = readback_insn"

interpretation pci230_ao: readable_output "pci230_ao_winsn bits" "\<lambda>_. pci230_ao_rinsn" "\<lambda>_ d. d AND 0xffff"
  by (rule readable_outputI) (auto simp: pci230_ao_winsn_def pci230_ao_rinsn_def Let_def intro!: yields_intros)


text \<open>\<open>rtd520.c\<close>: \<open>las0\<close> and \<open>las1\<close> are its memory regions; a bipolar value below the middle is shifted down.\<close>

definition rtd_ao_winsn :: "u64 \<Rightarrow> u64 \<Rightarrow> 'x bus \<Rightarrow> ('z ao_private_scheme, 'x) insn_handler" where
  "rtd_ao_winsn las0 las1 bus = out_insn all_samples (\<lambda>dev s insn ds p.
     let chan = chan_of insn; range = CR_RANGE (insn_chanspec insn) in
     do {
       writew bus (range AND 7) (las0 + (if chan = 0 then 0x0150 else 0x0164));
       write_each (\<lambda>d p.
         let val = (if 1 < range \<and> d < 2048 then push_bit 3 (d - 2048) else push_bit 3 d) in
         do {
           writew bus val (las1 + (if chan = 0 then 0x0008 else 0x000C));
           writew bus 0 (las0 + (if chan = 0 then 0x0014 else 0x0018));
           done \<leftarrow> poll_until 2000 (reg_bits (readl bus (las0 + 0x0010)) (if chan = 0 then 0x0001 else 0x0010));
           (e, p) \<leftarrow> keep_sample chan d p;
           give (if e = Fine \<and> \<not> done then (Fails (- ETIMEDOUT), p) else (e, p))
         }) ds p
     })"

definition rtd_ao_rinsn :: "('z ao_private_scheme, 'x) insn_handler" where
  "rtd_ao_rinsn = readback_insn"

lemma yields_kept_then [yields_intros]:
  assumes "ao_readback p = rb" and "\<And>e p'. left_back c conv [x] rb (e, p') \<Longrightarrow> yields (f e p') (left_back c conv [x] rb)" and "d = conv x"
  shows "yields (keep_sample c d p \<bind> (\<lambda>(e, p). f e p)) (left_back c conv [x] rb)"
  by (rule yields_bind, rule yields_keep[where conv = conv and x = x, OF assms(1,3)]) (auto intro!: assms(2) yields_case_prod)

interpretation rtd_ao: readable_output "rtd_ao_winsn las0 las1" "\<lambda>_. rtd_ao_rinsn" "\<lambda>_ d. d"
  by (rule readable_outputI) (auto simp: rtd_ao_winsn_def rtd_ao_rinsn_def Let_def intro!: yields_intros)

section \<open>One sample\<close>

text \<open>\<open>dt282x.c\<close>: \<open>bits\<close> is the resolution of the converters; the array holds 16-bit samples.\<close>

record dt282x_ao_private = ao_private +
  dacsr :: u32
  supcsr :: u32
  da0_2scomp :: bool
  da1_2scomp :: bool

definition dt282x_ao_insn_write :: "nat \<Rightarrow> 'x bus \<Rightarrow> ('z dt282x_ao_private_scheme, 'x) insn_handler" where
  "dt282x_ao_insn_write bits bus = unless_empty (out_insn one_sample (\<lambda>dev s insn. write_each (\<lambda>data p.
     let chan = chan_of insn; a = dv_iobase dev;
       d = data AND 0xffff AND (push_bit bits 1 - 1);
       p = p\<lparr>dacsr := dacsr p OR 0x0100\<rparr>;
       p' = (if chan \<noteq> 0 then p\<lparr>dacsr := dacsr p OR 0x0200\<rparr> else p\<lparr>dacsr := dacsr p AND NOT 0x0200\<rparr>);
       v = (if (if chan \<noteq> 0 then da1_2scomp p else da0_2scomp p) then d XOR push_bit (bits - 1) 1 else d)
     in do {
       outw bus (dacsr p' OR 0) (a + 0x06);
       outw bus v (a + 0x08);
       outw bus (supcsr p' OR 0x0080) (a + 0x0c);
       keep_sample chan d p'
     })))"

definition dt282x_ao_insn_read :: "('z dt282x_ao_private_scheme, 'x) insn_handler" where
  "dt282x_ao_insn_read = readback_one"

interpretation dt282x_ao: readable_output "dt282x_ao_insn_write bits" "\<lambda>_. dt282x_ao_insn_read" "\<lambda>_ d. d AND 0xffff AND (push_bit bits 1 - 1)"
  by (rule readable_outputI) (auto simp: dt282x_ao_insn_write_def dt282x_ao_insn_read_def Let_def intro!: yields_intros)

text \<open>\<open>cb_pcidas.c\<close>: without and with a buffer.\<close>

record pcidas_ao_private = ao_private +
  ao_control_bits :: u32

definition DAC_RANGE :: "u32 \<Rightarrow> u32 \<Rightarrow> u32" where
  "DAC_RANGE channel rng = push_bit (8 + 2 * unat (channel AND 0x1)) (rng AND 0x3)"

definition DAC_RANGE_MASK :: "u32 \<Rightarrow> u32" where
  "DAC_RANGE_MASK channel = push_bit (8 + 2 * unat (channel AND 0x1)) 0x3"

definition DAC_CHAN_EN :: "u32 \<Rightarrow> u32" where
  "DAC_CHAN_EN channel = push_bit (5 + unat (channel AND 0x1)) 1"

definition cb_pcidas_ao_nofifo_winsn :: "u64 \<Rightarrow> u64 \<Rightarrow> 'x bus \<Rightarrow> ('z pcidas_ao_private_scheme, 'x) insn_handler" where
  "cb_pcidas_ao_nofifo_winsn control_status ao_registers bus =
     unless_empty (out_insn one_sample (\<lambda>dev s insn. write_each (\<lambda>d p.
       let channel = CR_CHAN (insn_chanspec insn);
         bits = ao_control_bits p AND NOT 0x80 AND NOT (DAC_RANGE_MASK channel) OR
           (0x2 OR DAC_RANGE channel (CR_RANGE (insn_chanspec insn)))
       in do {
         outw bus bits (control_status + 0x8);
         outw bus d (ao_registers + 2 * (ucast channel AND 0x1));
         keep_sample (unat channel) d (p\<lparr>ao_control_bits := bits\<rparr>)
       })))"

definition cb_pcidas_ao_fifo_winsn :: "u64 \<Rightarrow> u64 \<Rightarrow> 'x bus \<Rightarrow> ('z pcidas_ao_private_scheme, 'x) insn_handler" where
  "cb_pcidas_ao_fifo_winsn control_status ao_registers bus =
     unless_empty (out_insn one_sample (\<lambda>dev s insn. write_each (\<lambda>d p.
       let channel = CR_CHAN (insn_chanspec insn);
         bits = ao_control_bits p AND NOT (DAC_CHAN_EN 0) AND NOT (DAC_CHAN_EN 1) AND NOT (DAC_RANGE_MASK channel) AND NOT 0x18 OR
           (0x2 OR DAC_RANGE channel (CR_RANGE (insn_chanspec insn)) OR DAC_CHAN_EN channel OR 0x4)
       in do {
         outw bus 0 (ao_registers + 2);
         outw bus bits (control_status + 0x8);
         outw bus d (ao_registers + 0);
         keep_sample (unat channel) d (p\<lparr>ao_control_bits := bits\<rparr>)
       })))"

definition cb_pcidas_ao_readback_insn :: "('z pcidas_ao_private_scheme, 'x) insn_handler" where
  "cb_pcidas_ao_readback_insn = readback_one"

interpretation pcidas_nofifo: readable_output "cb_pcidas_ao_nofifo_winsn control_status ao_registers" "\<lambda>_. cb_pcidas_ao_readback_insn" "\<lambda>_ d. d"
  by (rule readable_outputI) (auto simp: cb_pcidas_ao_nofifo_winsn_def cb_pcidas_ao_readback_insn_def Let_def chan_of_def intro!: yields_intros)

interpretation pcidas_fifo: readable_output "cb_pcidas_ao_fifo_winsn control_status ao_registers" "\<lambda>_. cb_pcidas_ao_readback_insn" "\<lambda>_ d. d"
  by (rule readable_outputI) (auto simp: cb_pcidas_ao_fifo_winsn_def cb_pcidas_ao_readback_insn_def Let_def chan_of_def intro!: yields_intros)

text \<open>\<open>ni_labpc.c\<close>: the registers are reached through ports or memory (\<open>write_byte\<close>); \<open>is_1200\<close> is the newer layout.\<close>

record labpc_private = ao_private +
  command2_bits :: u32
  command6_bits :: u32

definition labpc_ao_winsn ::
  "(u32 \<Rightarrow> u64 \<Rightarrow> ('x, unit) io) \<Rightarrow> bool \<Rightarrow> ('z labpc_private_scheme, 'x) insn_handler" where
  "labpc_ao_winsn write_byte is_1200 = unless_empty (out_insn one_sample (\<lambda>dev s insn. write_each (\<lambda>d p.
     let channel = CR_CHAN (insn_chanspec insn); a = dv_iobase dev; k = unat (channel AND 0x1);
       p = p\<lparr>command2_bits := command2_bits p AND NOT (push_bit k 0x40)\<rparr>;
       unip = push_bit k 0x4;
       p' = (if \<not> is_1200 then p
             else if CR_RANGE (insn_chanspec insn) AND 0x1 \<noteq> 0 then p\<lparr>command6_bits := command6_bits p OR unip\<rparr>
             else p\<lparr>command6_bits := command6_bits p AND NOT unip\<rparr>)
     in do {
       write_byte (command2_bits p) (a + 0x1);
       io_if is_1200 (write_byte (command6_bits p') (a + 0xe));
       write_byte (d AND 0xff) (a + (0x4 + 2 * of_nat k));
       write_byte (drop_bit 8 d AND 0xff) (a + (0x5 + 2 * of_nat k));
       keep_sample (unat channel) d p'
     })))"

definition labpc_ao_rinsn :: "('z labpc_private_scheme, 'x) insn_handler" where
  "labpc_ao_rinsn = readback_one"

interpretation labpc_ao: readable_output "\<lambda>_. labpc_ao_winsn write_byte is_1200" "\<lambda>_. labpc_ao_rinsn" "\<lambda>_ d. d"
  by (rule readable_outputI) (auto simp: labpc_ao_winsn_def labpc_ao_rinsn_def chan_of_def Let_def intro!: yields_intros)

section \<open>Reading back with a look at the board\<close>

text \<open>\<open>pcmda12.c\<close>: in the simultaneous mode reading starts the conversion. \<open>cb_pcimdda.c\<close>: reading always does.\<close>

definition looked_at :: "('x, u32) io \<Rightarrow> ('x, unit) io" where
  "looked_at m = do { v \<leftarrow> m; give () }"

record pcmda12_private = ao_private +
  simultaneous_xfer_mode :: bool

definition pcmda12_ao_winsn :: "'x bus \<Rightarrow> ('z pcmda12_private_scheme, 'x) insn_handler" where
  "pcmda12_ao_winsn bus = out_insn all_samples (\<lambda>dev s insn. write_each (\<lambda>d p.
     let chan = chan_of insn; port = dv_iobase dev + of_nat chan * 2 in
     do {
       outb bus (d AND 0xff) port;
       outb bus (drop_bit 8 (d AND 0xffff) AND 0xff) (port + 1);
       io_if (\<not> simultaneous_xfer_mode p) (looked_at (inb bus port));
       keep_sample chan d p
     }))"

definition pcmda12_ao_rinsn :: "'x bus \<Rightarrow> ('z pcmda12_private_scheme, 'x) insn_handler" where
  "pcmda12_ao_rinsn bus = in_insn all_samples (\<lambda>dev s insn ds. read_each (length ds) (\<lambda>p.
     do {
       io_if (simultaneous_xfer_mode p) (looked_at (inb bus (dv_iobase dev + of_nat (chan_of insn) * 2)));
       kept_sample (chan_of insn) p
     }))"

definition pcimdda_ao_winsn :: "u64 \<Rightarrow> 'x bus \<Rightarrow> ('z ao_private_scheme, 'x) insn_handler" where
  "pcimdda_ao_winsn registers bus = out_insn all_samples (\<lambda>dev s insn. write_each (\<lambda>d p.
     let chan = chan_of insn; offset = registers + of_nat chan * 2 in
     do {
       outb bus (d AND 0x00ff) offset;
       outb bus (drop_bit 8 d AND 0x00ff) (offset + 1);
       keep_sample chan d p
     }))"

definition pcimdda_ao_rinsn :: "u64 \<Rightarrow> 'x bus \<Rightarrow> ('z ao_private_scheme, 'x) insn_handler" where
  "pcimdda_ao_rinsn registers bus = in_insn all_samples (\<lambda>dev s insn ds. read_each (length ds) (\<lambda>p.
     do {
       looked_at (inw bus (registers + of_nat (chan_of insn) * 2));
       kept_sample (chan_of insn) p
     }))"

lemma read_each_looking:
  fixes look :: "'z ao_private_scheme \<Rightarrow> ('x, 'a) io"
  assumes "c < length (ao_readback p)"
  shows "\<exists>x'. run_state (read_each n (\<lambda>p. do { v \<leftarrow> look p; kept_sample c p }) p) x = ((Fine, p, replicate n (ao_readback p ! c)), x')"
proof (induction n arbitrary: x)
  case (Suc n)
  obtain v x1 where "run_state (look p) x = (v, x1)" by fastforce
  moreover obtain x2 where "run_state (read_each n (\<lambda>p. do { v \<leftarrow> look p; kept_sample c p }) p) x1 =
      ((Fine, p, replicate n (ao_readback p ! c)), x2)" using Suc.IH by blast
  ultimately show ?case using assms by (simp add: kept_sample_def)
qed simp

lemma readback_looking:
  assumes r: "\<And>bus. r bus = in_insn all_samples (\<lambda>dev s insn ds. read_each (length ds) (\<lambda>p. do { look bus dev insn p; kept_sample (chan_of insn) p }))"
    and a: "subd dev i = Some s" "dv_private dev = Some p" "chan_of insn < length (ao_readback p)" "0 < insn_n insn"
      "length data = unat (insn_n insn)"
  shows "\<exists>ret dev' data' p'. r bus dev i insn data = Some (ret, dev', insn, data') \<and> 0 < ret \<and>
    (\<forall>k<nat ret. data' ! k = ao_readback p ! chan_of insn) \<and> dv_private dev' = Some p' \<and> ao_readback p' = ao_readback p"
proof -
  have n: "0 < unat (insn_n insn)" using a(4) by (simp add: unat_gt_0)
  from read_each_looking[OF a(3), of _ "look bus dev insn" "dv_hw dev"] obtain x' where
    "run_state (read_each (unat (insn_n insn)) (\<lambda>p. do { look bus dev insn p; kept_sample (chan_of insn) p }) p) (dv_hw dev) =
      ((Fine, p, replicate (unat (insn_n insn)) (ao_readback p ! chan_of insn)), x')" by blast
  with a n show ?thesis by (simp add: r in_insn_def all_samples_def Let_def del: of_nat_unat)
qed

lemma readable_lookingI:
  assumes w: "\<And>bus. w bus = out_insn all_samples (f bus)"
    and r: "\<And>bus. r bus = in_insn all_samples (\<lambda>dev s insn ds. read_each (length ds) (\<lambda>p. do { look bus dev insn p; kept_sample (chan_of insn) p }))"
    and body: "\<And>bus dev s insn ds p. yields (f bus dev s insn ds p) (left_back (chan_of insn) (conv insn) ds (ao_readback p))"
  shows "readable_output w r conv"
proof
  fix bus and dev dev' :: "('b ao_private_ext, 'a) comedi_device" and i insn data ret insn' data' p
  assume run: "w bus dev i insn data = Some (ret, dev', insn', data')" "0 < ret" "dv_private dev = Some p"
  show "insn' = insn \<and> data' = data \<and> nat ret \<le> length data \<and> subd dev' = subd dev \<and> (\<exists>p'. dv_private dev' = Some p' \<and>
      ao_readback p' = (ao_readback p)[chan_of insn := conv insn (data ! (nat ret - 1))])"
    using out_insn_writes[OF run(1)[unfolded w] run(2,3) body] .
qed (rule readback_looking[OF r])

interpretation pcmda12: readable_output pcmda12_ao_winsn pcmda12_ao_rinsn "\<lambda>_ d. d"
  by (rule readable_lookingI[OF pcmda12_ao_winsn_def pcmda12_ao_rinsn_def]) (auto simp: Let_def intro!: yields_intros)

interpretation pcimdda: readable_output "pcimdda_ao_winsn registers" "pcimdda_ao_rinsn registers" "\<lambda>_ d. d"
  by (rule readable_lookingI[OF pcimdda_ao_winsn_def pcimdda_ao_rinsn_def]) (auto simp: Let_def intro!: yields_intros)

section \<open>Outputs that wait\<close>

text \<open>\<open>icp_multi.c\<close>: \<open>rangecode\<close> is the table of the board; a converter that stays busy is an error.\<close>

record icp_multi_private = ao_private +
  DacCmdStatus :: u32
  IntEnable :: u32
  IntStatus :: u32

definition icp_multi_ready_off :: "u64 \<Rightarrow> 'x bus \<Rightarrow> u32 \<Rightarrow> 'z icp_multi_private_scheme \<Rightarrow> ('x, 'z icp_multi_private_scheme) io" where
  "icp_multi_ready_off io_addr bus flag p =
     (let p = p\<lparr>IntEnable := IntEnable p AND NOT flag, IntStatus := IntStatus p OR flag\<rparr> in
      do {
        writew bus (IntEnable p) (io_addr + 0x0C);
        writew bus (IntStatus p) (io_addr + 0x0E);
        give p
      })"

definition icp_multi_insn_write_ao :: "u32 list \<Rightarrow> u64 \<Rightarrow> 'x bus \<Rightarrow> ('z icp_multi_private_scheme, 'x) insn_handler" where
  "icp_multi_insn_write_ao rangecode io_addr bus = out_insn all_samples (\<lambda>dev s insn ds p.
     let chan = chan_of insn; range = unat (CR_RANGE (insn_chanspec insn)) in
     if length rangecode \<le> range then give (Never, p)
     else do {
       p \<leftarrow> icp_multi_ready_off io_addr bus 0x0002 p;
       let status = DacCmdStatus p AND 0xfccf OR rangecode ! range OR push_bit 8 (of_nat chan);
       writew bus status (io_addr + 4);
       write_each (\<lambda>d p. do {
         ready \<leftarrow> poll_until 100 (reg_no_bits (readw bus (io_addr + 4)) 0x0001);
         if \<not> ready then do {
           p \<leftarrow> icp_multi_ready_off io_addr bus 0x0002 p;
           (e, p) \<leftarrow> keep_sample chan 0 p;
           give (if e = Fine then (Fails (- ETIME), p) else (e, p))
         }
         else do {
           writew bus d (io_addr + 6);
           writew bus (DacCmdStatus p OR 0x0001) (io_addr + 4);
           keep_sample chan (d AND 0xffff) (p\<lparr>DacCmdStatus := (DacCmdStatus p OR 0x0001) AND NOT 0x0001\<rparr>)
         }
       }) ds (p\<lparr>DacCmdStatus := status\<rparr>)
     })"

definition icp_multi_insn_read_ao :: "('z icp_multi_private_scheme, 'x) insn_handler" where
  "icp_multi_insn_read_ao = readback_insn"

lemma yields_ready_off [yields_intros]:
  "(\<And>p'. ao_readback p' = ao_readback p \<Longrightarrow> yields (f p') Q) \<Longrightarrow> yields (icp_multi_ready_off io_addr bus flag p \<bind> f) Q"
  by (rule yields_bind[where R = "\<lambda>p'. ao_readback p' = ao_readback p"])
    (auto simp: icp_multi_ready_off_def Let_def intro!: yields_intros)

lemma yields_keep_any [yields_intros]:
  "(\<And>e p'. (e = Fine \<or> e = Never) \<Longrightarrow> yields (f e p') Q) \<Longrightarrow> yields (keep_sample c d p \<bind> (\<lambda>(e, p). f e p)) Q"
  by (rule yields_bind[where R = "\<lambda>(e, p). e = Fine \<or> e = Never"]) (auto simp: keep_sample_def intro!: yields_intros)

interpretation icp_multi_ao: readable_output "icp_multi_insn_write_ao rangecode io_addr" "\<lambda>_. icp_multi_insn_read_ao" "\<lambda>_ d. d AND 0xffff"
  by (rule readable_outputI) (auto simp: icp_multi_insn_write_ao_def icp_multi_insn_read_ao_def Let_def intro!: yields_intros)

text \<open>\<open>dt2815.c\<close>: what the waiting returns is its argument; the upper byte is computed and not written.\<close>

definition dt2815_wait_for_status :: "'x bus \<Rightarrow> u64 \<Rightarrow> u32 \<Rightarrow> ('x, u32) io" where
  "dt2815_wait_for_status bus a status =
     do { b \<leftarrow> poll_until 100 (do { v \<leftarrow> inb bus (a + 1); give (v = status) }); give status }"

definition dt2815_ao_send :: "'x bus \<Rightarrow> u64 \<Rightarrow> nat \<Rightarrow> u32 \<Rightarrow> 'z ao_private_scheme \<Rightarrow> ('x, ending \<times> 'z ao_private_scheme) io" where
  "dt2815_ao_send bus a chan d p =
     (let lo = push_bit 4 (d AND 0x0f) OR push_bit 1 (of_nat chan) OR 0x01;
       hi = drop_bit 4 (d AND 0xff0)
     in do {
       status \<leftarrow> dt2815_wait_for_status bus a 0x00;
       if status \<noteq> 0 then give (Fails (- EBUSY), p)
       else do {
         outb bus lo (a + 0);
         status \<leftarrow> dt2815_wait_for_status bus a 0x10;
         if status \<noteq> 0x10 then give (Fails (- EBUSY), p)
         else keep_sample chan d p
       }
     })"

definition dt2815_ao_insn :: "'x bus \<Rightarrow> ('z ao_private_scheme, 'x) insn_handler" where
  "dt2815_ao_insn bus =
     out_insn all_samples (\<lambda>dev s insn. write_each (dt2815_ao_send bus (dv_iobase dev) (chan_of insn)))"

definition dt2815_ao_insn_read :: "('z ao_private_scheme, 'x) insn_handler" where
  "dt2815_ao_insn_read = readback_insn"

lemma yields_wait_for_status [yields_intros]:
  "yields (f status) Q \<Longrightarrow> yields (dt2815_wait_for_status bus a status \<bind> f) Q"
  by (rule yields_bind[where R = "\<lambda>v. v = status"]) (auto simp: dt2815_wait_for_status_def intro!: yields_intros)

interpretation dt2815_ao: readable_output dt2815_ao_insn "\<lambda>_. dt2815_ao_insn_read" "\<lambda>_ d. d"
  by (rule readable_outputI) (auto simp: dt2815_ao_insn_def dt2815_ao_send_def dt2815_ao_insn_read_def Let_def intro!: yields_intros)


end
