(* ===== verification/Analog_Inputs.thy ===== *)
theory Analog_Inputs
  imports Analog_Io Command_Rounding
begin

text \<open>
  The read instructions of analog inputs that poll their converter, with the contract they keep on every board,
  whatever it answers: they return, either with an error or with samples that fit into the resolution.
\<close>

unbundle bit_operations_syntax

section \<open>The contract\<close>

definition samples_fit :: "nat \<Rightarrow> nat \<Rightarrow> ending \<times> 'p \<times> u32 list \<Rightarrow> bool" where
  "samples_fit bits n r \<longleftrightarrow>
     (case r of (e, p, vs) \<Rightarrow> e \<noteq> Never \<and> (\<forall>c. e = Fails c \<longrightarrow> c < 0) \<and> length vs \<le> n \<and>
       (e = Fine \<longrightarrow> length vs = n) \<and> (\<forall>v\<in>set vs. fits bits v))"

definition sample_fits :: "nat \<Rightarrow> ending \<times> 'p \<times> u32 \<Rightarrow> bool" where
  "sample_fits bits r \<longleftrightarrow> (case r of (e, p, v) \<Rightarrow> e \<noteq> Never \<and> (\<forall>c. e = Fails c \<longrightarrow> c < 0) \<and> (e = Fine \<longrightarrow> fits bits v))"

lemma fit_simps [simp]:
  "sample_fits bits (Fine, p, v) \<longleftrightarrow> fits bits v"
  "sample_fits bits (Fails c, p, v) \<longleftrightarrow> c < 0"
  "samples_fit bits n (Fails c, p, []) \<longleftrightarrow> c < 0"
  "samples_fit bits n (Fine, p, vs) \<longleftrightarrow> length vs = n \<and> (\<forall>v\<in>set vs. fits bits v)"
  by (auto simp: sample_fits_def samples_fit_def)

lemma yields_read_each:
  assumes "\<And>p. yields (f p) (sample_fits bits)"
  shows "yields (read_each n f p) (samples_fit bits n)"
proof (induction n arbitrary: p)
  case (Suc n)
  have rest: "yields (if e = Fine then do { (e, p, vs) \<leftarrow> read_each n f p'; give (e, p, v # vs) } else give (e, p', []))
      (samples_fit bits (Suc n))" if "sample_fits bits (e, p', v)" for e p' v
  proof (intro yields_intros)
    assume "e = Fine"
    then show "yields (do { (e, p, vs) \<leftarrow> read_each n f p'; give (e, p, v # vs) }) (samples_fit bits (Suc n))"
      using that by (intro yields_bind[OF Suc.IH]) (auto simp: samples_fit_def intro!: yields_intros)
  qed (use that in \<open>auto simp: samples_fit_def sample_fits_def\<close>)
  show ?case unfolding read_each.simps
    by (rule yields_bind[OF assms]) (auto intro!: rest yields_case_prod)
qed (auto intro!: yields_intros)

text \<open>A loop, and a loop with something to follow.\<close>

lemma yields_read_loop [yields_intros]:
  "n = length ds \<Longrightarrow> (\<And>p. yields (f p) (sample_fits bits)) \<Longrightarrow> yields (read_each (length ds) f p) (samples_fit bits n)"
  by (simp add: yields_read_each)

lemma yields_read_loop_then [yields_intros]:
  assumes "n = length ds" and "\<And>p. yields (f p) (sample_fits bits)"
    and "\<And>e p vs. samples_fit bits n (e, p, vs) \<Longrightarrow> yields (g e p vs) (samples_fit bits n)"
  shows "yields (read_each (length ds) f p \<bind> (\<lambda>(e, p, vs). g e p vs)) (samples_fit bits n)"
  by (rule yields_bind[OF yields_read_each, OF assms(2)]) (auto simp: assms(1) intro!: assms(3)[unfolded assms(1)] yields_case_prod)

lemma yields_poll_for [yields_intros]:
  assumes "yields c (\<lambda>r. \<forall>v. r = Some v \<longrightarrow> Q v)" and "Q d" and "\<And>v. Q v \<Longrightarrow> yields (f v) R"
  shows "yields (poll_for k c d \<bind> f) R"
proof (rule yields_bind[where R = Q])
  show "yields (poll_for k c d) Q"
    by (induction k) (auto intro!: yields_give yields_bind[OF assms(1)] assms(2) split: option.split)
qed (rule assms(3))

text \<open>
  The contract: the handler returns, with an error or with as many samples as it says, each of at most \<open>bits\<close> bits,
  whatever the board answers. \<open>able\<close> is what the handler relies on the core to have checked.
\<close>

locale bounded_input =
  fixes insn_read :: "'x bus \<Rightarrow> ('p, 'x) insn_handler" and bits :: nat and able :: "comedi_insn \<Rightarrow> 'p \<Rightarrow> bool"
  assumes answers: "subd dev i = Some s \<Longrightarrow> dv_private dev = Some p \<Longrightarrow> able insn p \<Longrightarrow> length data = unat (insn_n insn) \<Longrightarrow>
    \<exists>r dev' data'. insn_read bus dev i insn data = Some (r, dev', insn, data') \<and> length data' = length data \<and>
      (r < 0 \<or> r \<le> int (length data) \<and> (data = [] \<or> 0 < r) \<and> (\<forall>k<nat r. unat (data' ! k) < 2 ^ bits))"

text \<open>The same for a user of the handler.\<close>

definition samples_within ::
  "('x bus \<Rightarrow> ('p, 'x) insn_handler) \<Rightarrow> nat \<Rightarrow> (comedi_insn \<Rightarrow> 'p \<Rightarrow> bool) \<Rightarrow> bool" where
  "samples_within insn_read bits able \<longleftrightarrow>
     (\<forall>bus dev i s p insn data. subd dev i = Some s \<longrightarrow> dv_private dev = Some p \<longrightarrow> able insn p \<longrightarrow>
        length data = unat (insn_n insn) \<longrightarrow>
        (\<exists>r dev' data'. insn_read bus dev i insn data = Some (r, dev', insn, data') \<and> length data' = length data \<and>
          (r < 0 \<or> r \<le> int (length data) \<and> (data = [] \<or> 0 < r) \<and> (\<forall>k<nat r. unat (data' ! k) < 2 ^ bits))))"

context bounded_input
begin

lemma kept: "samples_within insn_read bits able"
  unfolding samples_within_def by (intro allI impI answers)

end

definition any_insn :: "comedi_insn \<Rightarrow> 'p \<Rightarrow> bool" where "any_insn insn p \<longleftrightarrow> True"

definition range_below :: "nat \<Rightarrow> comedi_insn \<Rightarrow> 'p \<Rightarrow> bool" where
  "range_below n insn p \<longleftrightarrow> unat (CR_RANGE (insn_chanspec insn)) < n"

lemma in_insn_answers:
  assumes dev: "subd dev i = Some s" "dv_private dev = Some p" and len: "count (unat (insn_n insn)) \<le> length data"
    and some: "data = [] \<or> 0 < count (unat (insn_n insn))" and bits: "bits \<le> 32"
    and body: "yields (f dev s insn (take (count (unat (insn_n insn))) data) p) (samples_fit bits (count (unat (insn_n insn))))"
  shows "\<exists>r dev' data'. in_insn count f dev i insn data = Some (r, dev', insn, data') \<and> length data' = length data \<and>
    (r < 0 \<or> r \<le> int (length data) \<and> (data = [] \<or> 0 < r) \<and> (\<forall>k<nat r. unat (data' ! k) < 2 ^ bits))"
proof -
  let ?n = "count (unat (insn_n insn))"
  obtain e p' vs x where run: "run_state (f dev s insn (take ?n data) p) (dv_hw dev) = ((e, p', vs), x)"
    by (metis prod.exhaust)
  have fit: "samples_fit bits ?n (e, p', vs)" by (rule yieldsD[OF body run])
  then obtain r where r: "ending_code e (int ?n) = Some r" and "r < 0 \<or> r = int ?n \<and> length vs = ?n"
    by (cases e) (auto simp: samples_fit_def)
  moreover have "\<forall>v\<in>set vs. unat v < 2 ^ bits" using fit fits_unat[OF bits] by (auto simp: samples_fit_def)
  moreover have "length (vs @ drop (length vs) data) = length data" using fit len by (auto simp: samples_fit_def)
  ultimately show ?thesis using dev len run some by (auto simp: in_insn_def Let_def nth_append)
qed

text \<open>A handler with a loop keeps the contract if its body does.\<close>

lemma bounded_inputI:
  assumes h: "\<And>bus. h bus = in_insn all_samples (f bus)" and "bits \<le> 32"
    and "\<And>bus dev s insn ds p. able insn p \<Longrightarrow> yields (f bus dev s insn ds p) (samples_fit bits (length ds))"
  shows "bounded_input h bits able"
proof
  fix bus and dev :: "('b, 'a) comedi_device" and i s p insn and data :: "u32 list"
  assume a: "subd dev i = Some s" "dv_private dev = Some p" "able insn p" "length data = unat (insn_n insn)"
  show "\<exists>r dev' data'. h bus dev i insn data = Some (r, dev', insn, data') \<and> length data' = length data \<and>
      (r < 0 \<or> r \<le> int (length data) \<and> (data = [] \<or> 0 < r) \<and> (\<forall>k<nat r. unat (data' ! k) < 2 ^ bits))"
    unfolding h by (rule in_insn_answers[OF a(1,2) _ _ assms(2)])
      (use a(4) assms(3)[OF a(3), of bus dev s data] in \<open>auto simp: all_samples_def simp flip: length_greater_0_conv\<close>)
qed

lemma bounded_input_oneI:
  assumes h: "\<And>bus. h bus = unless_empty (in_insn one_sample (f bus))" and "bits \<le> 32"
    and "\<And>bus dev s insn ds p. able insn p \<Longrightarrow> length ds = 1 \<Longrightarrow> yields (f bus dev s insn ds p) (samples_fit bits 1)"
  shows "bounded_input h bits able"
proof
  fix bus and dev :: "('b, 'a) comedi_device" and i s p insn and data :: "u32 list"
  assume a: "subd dev i = Some s" "dv_private dev = Some p" "able insn p" "length data = unat (insn_n insn)"
  show "\<exists>r dev' data'. h bus dev i insn data = Some (r, dev', insn, data') \<and> length data' = length data \<and>
      (r < 0 \<or> r \<le> int (length data) \<and> (data = [] \<or> 0 < r) \<and> (\<forall>k<nat r. unat (data' ! k) < 2 ^ bits))"
  proof (cases "insn_n insn = 0")
    case False
    then have "1 \<le> length data" using a(4) by (simp add: Suc_le_eq unat_gt_0 word_gt_0)
    then have "length (take 1 data) = 1" by simp
    from in_insn_answers[OF a(1,2) _ _ assms(2), of one_sample insn data "f bus"] assms(3)[OF a(3) this, of bus dev s] \<open>1 \<le> length data\<close>
    show ?thesis unfolding h by (simp add: unless_empty_def False one_sample_def)
  qed (use a(4) in \<open>simp add: h unless_empty_def\<close>)
qed

text \<open>Whether a combination of registers fits.\<close>

lemma fits_rules [simp]:
  "j \<le> m \<Longrightarrow> fits (m - j) x \<Longrightarrow> fits m (push_bit j x)"
  "fits m (numeral c) \<Longrightarrow> fits m (x AND numeral c)"
  "unat (numeral c :: u32) < 2 ^ m \<Longrightarrow> m \<le> 32 \<Longrightarrow> fits m (numeral c)"
  "fits m x \<Longrightarrow> fits m y \<Longrightarrow> fits m (if b then x else y)"
  by (auto simp: fits_push fits_and2 fits_const)

lemma fits_32 [simp]: "fits 32 v"
  using bit_imp_le_length[of v] by (auto simp: fits_iff not_less[symmetric])

lemma add_high [simp]:
  assumes "fits 8 lo" and "numeral c AND 0xff = (0 :: u32)"
  shows "lo + (y AND numeral c) = lo OR (y AND numeral c)"
proof (rule disjunctive_add)
  fix n
  have "\<not> (bit (numeral c :: u32) n \<and> n < 8)"
  proof
    assume "bit (numeral c :: u32) n \<and> n < 8"
    moreover have "(0xff :: u32) = mask 8" by (simp add: mask_eq_exp_minus_1)
    moreover have "bit (mask 8 :: u32) n \<longleftrightarrow> n < 8" by (auto simp: bit_mask_iff)
    ultimately have "bit (numeral c :: u32) n \<and> bit (0xff :: u32) n" by metis
    from bit_and_iff[THEN iffD2, OF this] show False unfolding assms(2) by simp
  qed
  then show "\<not> bit lo n \<or> \<not> bit (y AND numeral c) n" using assms(1) by (auto simp: fits_iff bit_simps not_less)
qed

section \<open>A delay or a poll\<close>

text \<open>\<open>fl512.c\<close> waits for a fixed time.\<close>

definition fl512_ai_insn :: "'x bus \<Rightarrow> ('p, 'x) insn_handler" where
  "fl512_ai_insn bus = in_insn all_samples (\<lambda>dev s insn ds. read_each (length ds) (\<lambda>p.
     let a = dv_iobase dev in
     do {
       outb bus (CR_CHAN (insn_chanspec insn)) (a + 2);
       outb bus 0 (a + 3);
       lo_byte \<leftarrow> inb bus (a + 2);
       hi_byte \<leftarrow> inb bus (a + 3);
       give (Fine, p, lo_byte + push_bit 8 (hi_byte AND 0xf))
     }))"

interpretation fl512_ai: bounded_input fl512_ai_insn 12 any_insn
  by (rule bounded_inputI[OF fl512_ai_insn_def]) (auto simp: Let_def intro!: yields_intros)

text \<open>\<open>pcmad.c\<close>: the samples are read also after the time is over. \<open>width\<close> is the resolution of the board.\<close>

record pcmad_private =
  twos_comp :: bool

definition pcmad_ai_insn_read :: "nat \<Rightarrow> 'x bus \<Rightarrow> ('z pcmad_private_scheme, 'x) insn_handler" where
  "pcmad_ai_insn_read width bus = in_insn all_samples (\<lambda>dev s insn ds. read_each (length ds) (\<lambda>p.
     let a = dv_iobase dev in
     do {
       outb bus (CR_CHAN (insn_chanspec insn)) (a + 1);
       ready \<leftarrow> poll_until 100 (do { v \<leftarrow> inb bus (a + 0); give (v AND 0x3 = 0x3) });
       lsb \<leftarrow> inb bus (a + 1);
       msb \<leftarrow> inb bus (a + 2);
       let d = lsb OR push_bit 8 msb;
       give (Fine, p, if twos_comp p then d XOR push_bit (width - 1) 1 else d)
     }))"

text \<open>\<open>pcl711.c\<close>: a count down to one, so 99 polls. \<open>is_8112\<close> is the board that needs no trigger.\<close>

definition pcl711_ai_insn :: "bool \<Rightarrow> 'x bus \<Rightarrow> ('p, 'x) insn_handler" where
  "pcl711_ai_insn is_8112 bus = in_insn all_samples (\<lambda>dev s insn ds p.
     let a = dv_iobase dev; chan = CR_CHAN (insn_chanspec insn) in
     do {
       outb bus (CR_RANGE (insn_chanspec insn)) (a + 9);
       io_if (\<not> is_8112) (outb bus chan (a + 10));
       read_each (length ds) (\<lambda>p. do {
         outb bus 1 (a + 11);
         io_if (\<not> is_8112) (outb bus 0 (a + 12));
         r \<leftarrow> poll_for 99 (do { hi \<leftarrow> inb bus (a + 5); give (if hi AND 0x10 = 0 then Some (Some hi) else None) }) None;
         case r of
           None \<Rightarrow> give (Fails (- ETIME), p, 0)
         | Some hi \<Rightarrow> do { lo \<leftarrow> inb bus (a + 4); give (Fine, p, push_bit 8 (hi AND 0xf) OR lo) }
       }) p
     })"

lemma yields_case_option [yields_intros]:
  "(r = None \<Longrightarrow> yields m Q) \<Longrightarrow> (\<And>v. r = Some v \<Longrightarrow> yields (f v) Q) \<Longrightarrow> yields (case r of None \<Rightarrow> m | Some v \<Rightarrow> f v) Q"
  by (cases r) auto

interpretation pcl711_ai: bounded_input "pcl711_ai_insn is_8112" 12 any_insn
  by (rule bounded_inputI[OF pcl711_ai_insn_def])
    (auto simp: Let_def intro!: yields_intros yields_poll_for[where Q = "\<lambda>_. True"])


text \<open>\<open>dt2811.c\<close>: the five polls are for all samples together.\<close>

fun dt2811_wait :: "'x bus \<Rightarrow> u64 \<Rightarrow> nat \<Rightarrow> ('x, nat) io" where
  "dt2811_wait bus a 0 = give 0"
| "dt2811_wait bus a (Suc timeout) =
     do { v \<leftarrow> inb bus (a + 0); if v AND 0x20 \<noteq> 0 then dt2811_wait bus a timeout else give (Suc timeout) }"

definition dt2811_ai_insn :: "'x bus \<Rightarrow> ('p, 'x) insn_handler" where
  "dt2811_ai_insn bus = in_insn all_samples (\<lambda>dev s insn ds p.
     let a = dv_iobase dev in
     do {
       (e, (p, timeout), vs) \<leftarrow> read_each (length ds) (\<lambda>(p, timeout). do {
         outb bus (CR_CHAN (insn_chanspec insn)) (a + 1);
         timeout \<leftarrow> dt2811_wait bus a timeout;
         if timeout = 0 then give (Fails (- ETIME), (p, timeout), 0)
         else do {
           lo \<leftarrow> inb bus (a + 2);
           hi \<leftarrow> inb bus (a + 3);
           give (Fine, (p, timeout), (lo OR push_bit 8 hi) AND 0xfff)
         }
       }) (p, 5);
       give (e, p, vs)
     })"

lemma yields_any [yields_intros]: "(\<And>t. yields (f t) Q) \<Longrightarrow> yields (dt2811_wait bus a k \<bind> f) Q"
  by (rule yields_bind[OF yields_anything]) simp

lemma yields_prod_state [yields_intros]:
  "(\<And>a b. yields (f a b) Q) \<Longrightarrow> yields ((\<lambda>(a, b). f a b) x) Q"
  by (cases x) simp

lemma samples_fit_inner [simp]: "samples_fit bits n (e, (p, t), vs) \<longleftrightarrow> samples_fit bits n (e, p, vs)"
  by (simp add: samples_fit_def)

interpretation dt2811_ai: bounded_input dt2811_ai_insn 12 any_insn
  by (rule bounded_inputI[OF dt2811_ai_insn_def])
    (auto simp: Let_def intro!: yields_intros yields_bind[OF yields_read_each])

text \<open>\<open>dt2814.c\<close>, \<open>adq12b.c\<close> (which reads also after the time is over).\<close>

definition dt2814_ai_insn_read :: "'x bus \<Rightarrow> ('p, 'x) insn_handler" where
  "dt2814_ai_insn_read bus = in_insn all_samples (\<lambda>dev s insn ds. read_each (length ds) (\<lambda>p.
     let a = dv_iobase dev in
     do {
       outb bus (CR_CHAN (insn_chanspec insn)) (a + 0);
       ready \<leftarrow> poll_until 10 (reg_bits (inb bus (a + 0)) 0x80);
       if \<not> ready then give (Fails (- ETIMEDOUT), p, 0)
       else do {
         hi \<leftarrow> inb bus (a + 1);
         lo \<leftarrow> inb bus (a + 1);
         give (Fine, p, push_bit 4 hi OR drop_bit 4 lo)
       }
     }))"

interpretation dt2814_ai: bounded_input dt2814_ai_insn_read 12 any_insn
  by (rule bounded_inputI[OF dt2814_ai_insn_read_def]) (auto simp: Let_def intro!: yields_intros)

record adq12b_private =
  last_channel :: u32
  last_range :: u32

definition adq12b_ai_rinsn :: "'x bus \<Rightarrow> ('z adq12b_private_scheme, 'x) insn_handler" where
  "adq12b_ai_rinsn bus = in_insn all_samples (\<lambda>dev s insn ds p.
     let a = dv_iobase dev; range = CR_RANGE (insn_chanspec insn); channel = CR_CHAN (insn_chanspec insn) in
     do {
       io_if (channel \<noteq> last_channel p \<or> range \<noteq> last_range p) (outb bus (push_bit 4 range OR channel) (a + 0x00));
       status \<leftarrow> inb bus (a + 0x08);
       read_each (length ds) (\<lambda>p. do {
         ready \<leftarrow> poll_until 20 (reg_bits (inb bus (a + 0x00)) 0x20);
         hi \<leftarrow> inb bus (a + 0x09);
         lo \<leftarrow> inb bus (a + 0x08);
         give (Fine, p, push_bit 8 hi OR lo)
       }) p
     })"

interpretation adq12b_ai: bounded_input adq12b_ai_rinsn 16 any_insn
  by (rule bounded_inputI[OF adq12b_ai_rinsn_def]) (auto simp: Let_def intro!: yields_intros)

text \<open>\<open>cb_pcimdas.c\<close>, \<open>das16m1.c\<close>.\<close>

definition cb_pcimdas_ai_rinsn :: "u64 \<Rightarrow> u64 \<Rightarrow> 'x bus \<Rightarrow> ('p, 'x) insn_handler" where
  "cb_pcimdas_ai_rinsn badr2 badr3 bus = in_insn all_samples (\<lambda>dev s insn ds p.
     let chan = CR_CHAN (insn_chanspec insn) in
     do {
       d \<leftarrow> inb bus (badr3 + 5);
       io_if (0 < d AND 0x03) (outb bus (d AND 0xfd) (badr3 + 5));
       outb bus 0x01 (badr3 + 6);
       outb bus (CR_RANGE (insn_chanspec insn)) (badr3 + 7);
       outb bus (chan OR push_bit 4 chan) (badr3 + 0);
       read_each (length ds) (\<lambda>p. do {
         outw bus 0 (badr2 + 0);
         ready \<leftarrow> poll_until 1000 (reg_no_bits (inb bus (badr3 + 2)) 0x80);
         if \<not> ready then give (Fails (- ETIMEDOUT), p, 0)
         else do { d \<leftarrow> inw bus (badr2 + 0); give (Fine, p, d) }
       }) p
     })"

interpretation cb_pcimdas_ai: bounded_input "cb_pcimdas_ai_rinsn badr2 badr3" 16 any_insn
  by (rule bounded_inputI[OF cb_pcimdas_ai_rinsn_def]) (auto simp: Let_def intro!: yields_intros)

record das16m1_private =
  das16m1_control_state :: u32

definition munge_sample :: "u32 \<Rightarrow> u32" where
  "munge_sample data = drop_bit 4 data AND 0xfff"

definition das16m1_ai_rinsn :: "'x bus \<Rightarrow> ('z das16m1_private_scheme, 'x) insn_handler" where
  "das16m1_ai_rinsn bus = in_insn all_samples (\<lambda>dev s insn ds p.
     let a = dv_iobase dev; p = p\<lparr>das16m1_control_state := das16m1_control_state p AND NOT 0x80 AND NOT 0x3\<rparr>;
       byte = (CR_CHAN (insn_chanspec insn) AND 0x7) OR push_bit 4 (CR_RANGE (insn_chanspec insn) AND 0xf) in
     do {
       outb bus (das16m1_control_state p) (a + 5);
       outb bus 0 (a + 6);
       outb bus byte (a + 7);
       read_each (length ds) (\<lambda>p. do {
         outb bus 0 (a + 4);
         outb bus 0 a;
         ready \<leftarrow> poll_until 1000 (reg_bits (inb bus (a + 2)) 0x80);
         if \<not> ready then give (Fails (- ETIME), p, 0)
         else do { d \<leftarrow> inw bus a; give (Fine, p, munge_sample d) }
       }) p
     })"

interpretation das16m1_ai: bounded_input das16m1_ai_rinsn 12 any_insn
  by (rule bounded_inputI[OF das16m1_ai_rinsn_def]) (auto simp: Let_def munge_sample_def intro!: yields_intros)


text \<open>\<open>das800.c\<close>, \<open>das16.c\<close>, \<open>das08.c\<close>: boards of 12 and of 16 bits; the sample is put together accordingly.\<close>

record das800_private =
  das800_do_bits :: u32

definition disable_das800 :: "'x bus \<Rightarrow> u64 \<Rightarrow> ('x, unit) io" where
  "disable_das800 bus a = do { outb bus 0xa0 (a + 3); outb bus 0x0 (a + 2) }"

definition das800_ai_rinsn :: "bool \<Rightarrow> 'x bus \<Rightarrow> ('z das800_private_scheme, 'x) insn_handler" where
  "das800_ai_rinsn is_12bit bus = in_insn all_samples (\<lambda>dev s insn ds p.
     let a = dv_iobase dev; chan = CR_CHAN (insn_chanspec insn); range = CR_RANGE (insn_chanspec insn);
       range = (if is_12bit \<and> range \<noteq> 0 then range + 0x7 else range) AND 0xf in
     do {
       disable_das800 bus a;
       outb bus 0x80 (a + 3);
       outb bus (chan OR das800_do_bits p) (a + 2);
       outb bus range (a + 3);
       read_each (length ds) (\<lambda>p. do {
         outb bus 0 (a + 1);
         ready \<leftarrow> poll_until 1000 (reg_no_bits (inb bus (a + 2)) 0x80);
         if \<not> ready then give (Fails (- ETIME), p, 0)
         else do {
           lsb \<leftarrow> inb bus (a + 0);
           msb \<leftarrow> inb bus (a + 1);
           give (Fine, p, if is_12bit then (drop_bit 4 lsb AND 0xff) OR push_bit 4 msb else push_bit 8 msb OR lsb)
         }
       }) p
     })"

interpretation das800_ai: bounded_input "das800_ai_rinsn is_12bit" "if is_12bit then 12 else 16" any_insn
  by (rule bounded_inputI[OF das800_ai_rinsn_def]) (auto simp: Let_def intro!: yields_intros)

record das16_private =
  das16_control_state :: u32

definition das16_ai_rinsn :: "bool \<Rightarrow> u32 list option \<Rightarrow> 'x bus \<Rightarrow> ('z das16_private_scheme, 'x) insn_handler" where
  "das16_ai_rinsn is_12bit gainlist bus = in_insn all_samples (\<lambda>dev s insn ds p.
     let a = dv_iobase dev; p = p\<lparr>das16_control_state := das16_control_state p AND NOT 0x80 AND NOT 0x4 AND NOT 0x3\<rparr>;
       chan = CR_CHAN (insn_chanspec insn) OR push_bit 4 (CR_CHAN (insn_chanspec insn));
       range = unat (CR_RANGE (insn_chanspec insn)) in
     if \<exists>gs. gainlist = Some gs \<and> length gs \<le> range then give (Never, p, [])
     else do {
       outb bus (das16_control_state p) (a + 9);
       outb bus chan (a + 2);
       io_if (gainlist \<noteq> None) (outb bus (the gainlist ! range) (a + 0x0B));
       read_each (length ds) (\<lambda>p. do {
         outb bus 0 (a + 0);
         ready \<leftarrow> poll_until 1000 (reg_no_bits (inb bus (a + 8)) 0x80);
         if \<not> ready then give (Fails (- ETIME), p, 0)
         else do {
           msb \<leftarrow> inb bus (a + 1);
           lsb \<leftarrow> inb bus (a + 0);
           give (Fine, p, if is_12bit then (drop_bit 4 lsb AND 0xf) OR push_bit 4 msb else lsb OR push_bit 8 msb)
         }
       }) p
     })"

definition gain_listed :: "u32 list option \<Rightarrow> comedi_insn \<Rightarrow> 'p \<Rightarrow> bool" where
  "gain_listed gainlist insn p \<longleftrightarrow> (\<forall>gs. gainlist = Some gs \<longrightarrow> unat (CR_RANGE (insn_chanspec insn)) < length gs)"

interpretation das16_ai: bounded_input "das16_ai_rinsn is_12bit gainlist" "if is_12bit then 12 else 16" "gain_listed gainlist"
  by (rule bounded_inputI[OF das16_ai_rinsn_def])
    (auto simp: Let_def gain_listed_def not_le[symmetric] intro!: yields_intros)

datatype das08_encoding = das08_encode12 | das08_encode16 | das08_pcm_encode12

record das08_private =
  do_mux_bits :: u32

definition das08_sample :: "das08_encoding \<Rightarrow> u32 \<Rightarrow> u32 \<Rightarrow> u32" where
  "das08_sample enc lsb msb =
     (case enc of
        das08_encode12 \<Rightarrow> drop_bit 4 lsb OR push_bit 4 msb
      | das08_pcm_encode12 \<Rightarrow> push_bit 8 msb + lsb
      | das08_encode16 \<Rightarrow>
          if msb AND 0x80 \<noteq> 0 then push_bit 15 1 OR lsb OR push_bit 8 (msb AND 0x7f)
          else push_bit 15 1 - (lsb OR push_bit 8 (msb AND 0x7f)))"

text \<open>\<open>gainlist\<close> is there when the board has more than one range.\<close>

definition das08_ai_rinsn :: "das08_encoding \<Rightarrow> bool \<Rightarrow> u32 list option \<Rightarrow> 'x bus \<Rightarrow> ('z das08_private_scheme, 'x) insn_handler" where
  "das08_ai_rinsn enc is_16bit gainlist bus = in_insn all_samples (\<lambda>dev s insn ds p.
     let a = dv_iobase dev; range = unat (CR_RANGE (insn_chanspec insn));
       p = p\<lparr>do_mux_bits := do_mux_bits p AND NOT 0x7 OR (CR_CHAN (insn_chanspec insn) AND 0x7)\<rparr> in
     if \<exists>gs. gainlist = Some gs \<and> length gs \<le> range then give (Never, p, [])
     else do {
       v \<leftarrow> inb bus (a + 0);
       v \<leftarrow> inb bus (a + 1);
       outb bus (do_mux_bits p) (a + 2);
       io_if (gainlist \<noteq> None) (outb bus (the gainlist ! range) (a + 3));
       read_each (length ds) (\<lambda>p. do {
         io_if is_16bit (do { v \<leftarrow> inb bus (a + 1); give () });
         outb bus 0 (a + 1);
         ready \<leftarrow> poll_until 100000 (reg_no_bits (inb bus (a + 2)) 0x80);
         if \<not> ready then give (Fails (- ETIME), p, 0)
         else do {
           msb \<leftarrow> inb bus (a + 1);
           lsb \<leftarrow> inb bus (a + 0);
           give (Fine, p, das08_sample enc lsb msb)
         }
       }) p
     })"

lemma das08_sample_fits:
  assumes "fits 8 lsb" and "fits 8 msb"
  shows "fits 12 (das08_sample das08_encode12 lsb msb)" and "fits 16 (das08_sample enc lsb msb)"
proof -
  note wide [simp] = fits_more[OF assms(1)] fits_more[OF assms(2)]
  show "fits 12 (das08_sample das08_encode12 lsb msb)" by (simp add: das08_sample_def)
  have pcm: "push_bit 8 msb + lsb = push_bit 8 msb OR lsb"
    by (rule disjunctive_add) (use assms(1) in \<open>auto simp: fits_iff bit_simps not_le\<close>)
  let ?v = "lsb OR push_bit 8 (msb AND 0x7f)"
  have "fits 15 ?v" by simp
  then have v: "unat ?v < 2 ^ 15" by (subst (asm) fits_unat) simp_all
  then have "?v \<le> 0x8000" by (simp add: word_le_nat_alt)
  then have "unat (0x8000 - ?v) \<le> 0x8000" by (simp add: unat_sub)
  then have "fits 16 (0x8000 - ?v)" by (subst fits_unat) simp_all
  with pcm show "fits 16 (das08_sample enc lsb msb)"
    by (cases enc) (simp_all add: das08_sample_def push_bit_of_1)
qed

interpretation das08_ai: bounded_input "das08_ai_rinsn enc is_16bit gainlist" "if enc = das08_encode12 then 12 else 16" "gain_listed gainlist"
  by (rule bounded_inputI[OF das08_ai_rinsn_def])
    (auto simp: Let_def gain_listed_def not_le[symmetric] intro!: yields_intros das08_sample_fits)


text \<open>\<open>aio_aio12_8.c\<close>, \<open>multiq3.c\<close>, \<open>s526.c\<close>, \<open>cb_das16_cs.c\<close>.\<close>

definition aio_aio12_8_ai_read :: "'x bus \<Rightarrow> ('p, 'x) insn_handler" where
  "aio_aio12_8_ai_read bus = in_insn all_samples (\<lambda>dev s insn ds p.
     let a = dv_iobase dev; control = 0x00 OR push_bit 3 (CR_RANGE (insn_chanspec insn)) OR CR_CHAN (insn_chanspec insn) in
     do {
       v \<leftarrow> inb bus (a + 0);
       read_each (length ds) (\<lambda>p. do {
         outb bus control (a + 2);
         ready \<leftarrow> poll_until 5 (reg_bits (inb bus (a + 0)) 0x80);
         if \<not> ready then give (Fails (- EIO), p, 0)
         else do { d \<leftarrow> inw bus (a + 2); give (Fine, p, d AND 0x0FFF) }
       }) p
     })"

interpretation aio12_8_ai: bounded_input aio_aio12_8_ai_read 12 any_insn
  by (rule bounded_inputI[OF aio_aio12_8_ai_read_def]) (auto simp: Let_def intro!: yields_intros)

definition multiq3_ai_insn_read :: "'x bus \<Rightarrow> ('p, 'x) insn_handler" where
  "multiq3_ai_insn_read bus = in_insn all_samples (\<lambda>dev s insn ds p.
     let a = dv_iobase dev in
     do {
       outw bus (0x0600 OR 0x0040 OR push_bit 3 (CR_CHAN (insn_chanspec insn))) (a + 6);
       ready \<leftarrow> poll_until 30 (reg_bits (inw bus (a + 6)) 0x008);
       if \<not> ready then give (Fails (- ETIMEDOUT), p, [])
       else read_each (length ds) (\<lambda>p. do {
         outw bus 0 (a + 4);
         ready \<leftarrow> poll_until 30 (reg_bits (inw bus (a + 6)) 0x010);
         if \<not> ready then give (Fails (- ETIMEDOUT), p, 0)
         else do {
           hi \<leftarrow> inb bus (a + 4);
           lo \<leftarrow> inb bus (a + 4);
           give (Fine, p, ((push_bit 8 hi OR lo) + 0x1000) AND 0x1fff)
         }
       }) p
     })"

interpretation multiq3_ai: bounded_input multiq3_ai_insn_read 13 any_insn
  by (rule bounded_inputI[OF multiq3_ai_insn_read_def]) (auto simp: Let_def intro!: yields_intros)

definition multiq3_encoder_insn_read :: "'x bus \<Rightarrow> ('p, 'x) insn_handler" where
  "multiq3_encoder_insn_read bus = in_insn all_samples (\<lambda>dev s insn ds. read_each (length ds) (\<lambda>p.
     let a = dv_iobase dev in
     do {
       outw bus (0x0600 OR 0x0040 OR push_bit 3 (CR_CHAN (insn_chanspec insn))) (a + 6);
       outb bus 0x01 (a + 14);
       outb bus 0x10 (a + 14);
       v0 \<leftarrow> inb bus (a + 12);
       v1 \<leftarrow> inb bus (a + 12);
       v2 \<leftarrow> inb bus (a + 12);
       give (Fine, p, ((v0 OR push_bit 8 v1 OR push_bit 16 v2) + 0x800000) AND 0xffffff)
     }))"

interpretation multiq3_encoder: bounded_input multiq3_encoder_insn_read 24 any_insn
  by (rule bounded_inputI[OF multiq3_encoder_insn_read_def]) (auto simp: Let_def intro!: yields_intros)

record s526_ai_private =
  s526_ai_config :: u32

definition s526_ai_rinsn :: "'x bus \<Rightarrow> ('z s526_ai_private_scheme, 'x) insn_handler" where
  "s526_ai_rinsn bus = in_insn all_samples (\<lambda>dev s insn ds p.
     let a = dv_iobase dev; chan = CR_CHAN (insn_chanspec insn);
       value = (s526_ai_config p AND 0x8000) OR push_bit (unat chan) (push_bit 5 1) OR push_bit 1 chan OR 0x0001 in
     read_each (length ds) (\<lambda>p. do {
       outw bus value (a + 6);
       done \<leftarrow> poll_until 100 (do {
         status \<leftarrow> inw bus (a + 0x0E);
         io_if (status AND 0x4 \<noteq> 0) (outw bus 0x4 (a + 0x0E));
         give (status AND 0x4 \<noteq> 0)
       });
       if \<not> done then do { v \<leftarrow> inw bus (a + 0x0E); give (Fails (- ETIMEDOUT), p, 0) }
       else do { d \<leftarrow> inw bus (a + 8); give (Fine, p, d XOR 0x8000) }
     }) p)"

interpretation s526_ai: bounded_input s526_ai_rinsn 16 any_insn
  by (rule bounded_inputI[OF s526_ai_rinsn_def]) (auto simp: Let_def intro!: yields_intros)

record das16cs_ai_private =
  ai_status1 :: u32
  ai_status2 :: u32

definition das16cs_ai_rinsn :: "'x bus \<Rightarrow> ('z das16cs_ai_private_scheme, 'x) insn_handler" where
  "das16cs_ai_rinsn bus = in_insn all_samples (\<lambda>dev s insn ds p.
     let a = dv_iobase dev; range = unat (CR_RANGE (insn_chanspec insn)); range_bits = [0x800, 0x000, 0x100, 0x200];
       st1 = (ai_status1 p AND NOT 0xf320) OR (if CR_AREF (insn_chanspec insn) = AREF_DIFF then 0 else 0x0020);
       st2 = (ai_status2 p AND NOT 0xff00) OR range_bits ! range in
     if length range_bits \<le> range then give (Never, p, [])
     else do {
       outw bus (CR_CHAN (insn_chanspec insn)) (a + 2);
       outw bus st1 (a + 4);
       outw bus st2 (a + 6);
       read_each (length ds) (\<lambda>p. do {
         outw bus 0 a;
         ready \<leftarrow> poll_until 1000 (reg_bits (inw bus (a + 4)) 0x0080);
         if \<not> ready then give (Fails (- ETIME), p, 0)
         else do { d \<leftarrow> inw bus (a + 0); give (Fine, p, d) }
       }) (p\<lparr>ai_status1 := st1, ai_status2 := st2\<rparr>)
     })"

interpretation das16cs_ai: bounded_input das16cs_ai_rinsn 16 "range_below 4"
  by (rule bounded_inputI[OF das16cs_ai_rinsn_def]) (auto simp: Let_def range_below_def intro!: yields_intros)

text \<open>\<open>rti800.c\<close>: an overrun of the converter ends the polling.\<close>

record rti800_ai_private =
  muxgain_bits :: u32
  adc_2comp :: bool

definition rti800_ai_insn_read :: "'x bus \<Rightarrow> ('z rti800_ai_private_scheme, 'x) insn_handler" where
  "rti800_ai_insn_read bus = in_insn all_samples (\<lambda>dev s insn ds p.
     let a = dv_iobase dev; chan = CR_CHAN (insn_chanspec insn); gain = CR_RANGE (insn_chanspec insn);
       bits = chan OR push_bit 5 gain in
     if bits \<noteq> muxgain_bits p \<and> ds \<noteq> [] \<and> 4 \<le> unat gain then give (Never, p, [])
     else do {
       v \<leftarrow> inb bus (a + 4);
       outb bus 0 (a + 9);
       io_if (bits \<noteq> muxgain_bits p) (outb bus bits (a + 1));
       read_each (length ds) (\<lambda>p. do {
         outb bus 0 (a + 2);
         status \<leftarrow> poll_for 100 (do {
           status \<leftarrow> inb bus (a + 0);
           give (if status AND 0x20 \<noteq> 0 then Some (- EIO) else if status AND 0x40 \<noteq> 0 then Some 0 else None)
         }) (- ETIME);
         if status = - EIO then do { outb bus 0 (a + 9); give (Fails (- EIO), p, 0) }
         else if status \<noteq> 0 then give (Fails (- ETIME), p, 0)
         else do {
           lo \<leftarrow> inb bus (a + 3);
           hi \<leftarrow> inb bus (a + 4);
           let d = lo OR push_bit 8 (0xf AND hi);
           give (Fine, p, if adc_2comp p then d XOR 0x800 else d)
         }
       }) (p\<lparr>muxgain_bits := bits\<rparr>)
     })"

lemma and_numeral_left [simp]: "fits m (numeral c) \<Longrightarrow> fits m (numeral c AND x)"
  by (simp add: fits_and1)

interpretation rti800_ai: bounded_input rti800_ai_insn_read 12 "range_below 4"
  by (rule bounded_inputI[OF rti800_ai_insn_read_def])
    (auto simp: Let_def range_below_def intro!: yields_intros yields_poll_for[where Q = "\<lambda>_. True"])

text \<open>\<open>pcl812.c\<close> (and its relative \<open>acl8216\<close>), \<open>pcl818.c\<close>.\<close>

record pcl812_ai_private =
  mode_reg_int :: u32
  range_correction :: u32
  old_chan_reg :: u32
  old_gain_reg :: u32
  use_MPC :: bool
  use_diff :: bool

definition setup_range_channel :: "'x bus \<Rightarrow> u64 \<Rightarrow> u32 \<Rightarrow> 'z pcl812_ai_private_scheme \<Rightarrow> ('x, 'z pcl812_ai_private_scheme) io" where
  "setup_range_channel bus a rangechan p =
     (let chan_reg = CR_CHAN rangechan AND 0xff; gain_reg = (CR_RANGE rangechan + range_correction p) AND 0xff in
      if chan_reg = old_chan_reg p \<and> gain_reg = old_gain_reg p then give p
      else
        let p = p\<lparr>old_chan_reg := chan_reg, old_gain_reg := gain_reg\<rparr>;
          chan_reg = (if use_MPC p then
              if use_diff p then chan_reg OR 0x30
              else if chan_reg AND 0x80 \<noteq> 0 then chan_reg OR 0x20 else chan_reg OR 0x10
            else chan_reg)
        in do { outb bus chan_reg (a + 10); outb bus gain_reg (a + 9); give p })"

definition pcl812_ai_insn_read :: "'x bus \<Rightarrow> ('z pcl812_ai_private_scheme, 'x) insn_handler" where
  "pcl812_ai_insn_read bus = in_insn all_samples (\<lambda>dev s insn ds p.
     let a = dv_iobase dev in
     do {
       outb bus (mode_reg_int p OR 1) (a + 11);
       p \<leftarrow> setup_range_channel bus a (insn_chanspec insn) p;
       (e, p, vs) \<leftarrow> read_each (length ds) (\<lambda>p. do {
         outb bus 255 (a + 12);
         r \<leftarrow> poll_for 50 (do { hi \<leftarrow> inb bus (a + 5); give (if hi AND 0x10 = 0 then Some (Some hi) else None) }) None;
         case r of
           None \<Rightarrow> give (Fails (- ETIME), p, 0)
         | Some hi \<Rightarrow> do { lo \<leftarrow> inb bus (a + 4); give (Fine, p, push_bit 8 (hi AND 0xf) OR lo) }
       }) p;
       outb bus (mode_reg_int p OR 0) (a + 11);
       give (e, p, vs)
     })"

definition acl8216_ai_insn_read :: "'x bus \<Rightarrow> ('z pcl812_ai_private_scheme, 'x) insn_handler" where
  "acl8216_ai_insn_read bus = in_insn all_samples (\<lambda>dev s insn ds p.
     let a = dv_iobase dev in
     do {
       outb bus 1 (a + 11);
       p \<leftarrow> setup_range_channel bus a (insn_chanspec insn) p;
       (e, p, vs) \<leftarrow> read_each (length ds) (\<lambda>p. do {
         outb bus 255 (a + 12);
         ready \<leftarrow> poll_until 50 (reg_no_bits (inb bus (a + 8)) 0x20);
         if \<not> ready then give (Fails (- ETIME), p, 0)
         else do { hi \<leftarrow> inb bus (a + 5); lo \<leftarrow> inb bus (a + 4); give (Fine, p, push_bit 8 hi OR lo) }
       }) p;
       outb bus 0 (a + 11);
       give (e, p, vs)
     })"

lemma yields_setup [yields_intros]: "(\<And>p'. yields (f p') Q) \<Longrightarrow> yields (setup_range_channel bus a c p \<bind> f) Q"
  by (rule yields_bind[OF yields_anything]) simp

interpretation pcl812_ai: bounded_input pcl812_ai_insn_read 12 any_insn
  by (rule bounded_inputI[OF pcl812_ai_insn_read_def])
    (auto simp: Let_def intro!: yields_intros yields_poll_for[where Q = "\<lambda>_. True"])

interpretation acl8216_ai: bounded_input acl8216_ai_insn_read 16 any_insn
  by (rule bounded_inputI[OF acl8216_ai_insn_read_def]) (auto simp: Let_def intro!: yields_intros)

definition pcl818_ai_insn_read :: "'x bus \<Rightarrow> ('p, 'x) insn_handler" where
  "pcl818_ai_insn_read bus = in_insn all_samples (\<lambda>dev s insn ds p.
     let a = dv_iobase dev; chan = unat (CR_CHAN (insn_chanspec insn)); muxonechan = map (\<lambda>k. of_nat k * 0x11) [0..<16] in
     if length muxonechan \<le> chan then give (Never, p, [])
     else do {
       outb bus 0 (a + 9);
       outb bus (muxonechan ! chan) (a + 2);
       outb bus (CR_RANGE (insn_chanspec insn)) (a + 1);
       read_each (length ds) (\<lambda>p. do {
         outb bus 0 (a + 8);
         outb bus 0 (a + 0);
         ready \<leftarrow> poll_until 100 (reg_bits (inb bus (a + 8)) 0x10);
         if \<not> ready then do { outb bus 0 (a + 8); give (Fails (- EIO), p, 0) }
         else do { hi \<leftarrow> inb bus (a + 1); lo \<leftarrow> inb bus (a + 0); give (Fine, p, push_bit 4 hi OR drop_bit 4 lo) }
       }) p
     })"

definition chan_below :: "nat \<Rightarrow> comedi_insn \<Rightarrow> 'p \<Rightarrow> bool" where
  "chan_below n insn p \<longleftrightarrow> unat (CR_CHAN (insn_chanspec insn)) < n"

interpretation pcl818_ai: bounded_input pcl818_ai_insn_read 12 "chan_below 16"
  by (rule bounded_inputI[OF pcl818_ai_insn_read_def]) (auto simp: Let_def chan_below_def intro!: yields_intros)

text \<open>\<open>dmm32at.c\<close>: the channel is taken modulo the number of channels.\<close>

definition dmm32at_ai_rinsn :: "'x bus \<Rightarrow> ('p, 'x) insn_handler" where
  "dmm32at_ai_rinsn bus = in_insn all_samples (\<lambda>dev s insn ds p.
     let a = dv_iobase dev; chan = CR_CHAN (insn_chanspec insn) AND (sd_n_chan s - 1) AND 0xff;
       range = unat (CR_RANGE (insn_chanspec insn)); rangebits = [0x0c, 0x0d, 0x08, 0x00]
     in
     if length rangebits \<le> range then give (Never, p, [])
     else do {
       outb bus 0x02 (a + 7);
       outb bus chan (a + 2);
       outb bus chan (a + 3);
       outb bus (rangebits ! range) (a + 0x0b);
       settled \<leftarrow> poll_until 40000 (reg_no_bits (inb bus (a + 0x0b)) 0x80);
       if \<not> settled then give (Fails (- ETIMEDOUT), p, [])
       else read_each (length ds) (\<lambda>p. do {
         outb bus 0xff (a + 0);
         ready \<leftarrow> poll_until 40000 (reg_no_bits (inb bus (a + 8)) 0x80);
         if \<not> ready then give (Fails (- ETIMEDOUT), p, 0)
         else do {
           lsb \<leftarrow> inb bus (a + 0);
           msb \<leftarrow> inb bus (a + 1);
           give (Fine, p, push_bit 8 (msb XOR 0x0080) + lsb)
         }
       }) p
     })"

lemma bytes_disjoint: "fits 8 lsb \<Longrightarrow> push_bit 8 msb + lsb = push_bit 8 msb OR lsb" for lsb msb :: u32
  by (rule disjunctive_add) (auto simp: fits_iff bit_simps not_le)

lemma signed_bytes_fit:
  assumes "fits 8 lsb" and "fits 8 msb"
  shows "fits 16 ((push_bit 8 msb XOR 0x8000) + lsb)"
proof -
  have "fits 8 (0x80 :: u32)" by (simp add: fits_const)
  with assms have "fits 8 (msb XOR 0x80)" by (intro fits_simps)
  then have "fits 16 (push_bit 8 (msb XOR 0x80) OR lsb)"
    by (intro fits_simps(2) fits_push[where k = 8] fits_mono[OF assms(1)]) simp_all
  then show ?thesis using bytes_disjoint[OF assms(1), of "msb XOR 0x80"] by (simp add: push_bit_xor)
qed

interpretation dmm32at_ai: bounded_input dmm32at_ai_rinsn 16 "range_below 4"
  by (rule bounded_inputI[OF dmm32at_ai_rinsn_def])
    (auto simp: Let_def range_below_def intro!: yields_intros signed_bytes_fit)

text \<open>\<open>dt282x.c\<close>: \<open>bits\<close> is the resolution; the list of channels has one entry.\<close>

record dt282x_ai_private =
  ai_adcsr :: u32
  ai_supcsr :: u32
  ad_2scomp :: bool

definition dt282x_load_changain :: "'x bus \<Rightarrow> u64 \<Rightarrow> u32 \<Rightarrow> u32 list \<Rightarrow> ('x, unit) io" where
  "dt282x_load_changain bus a adcsr chans =
     do {
       outw bus (0x8000 OR (of_nat (length chans) - 1)) (a + 2);
       io_all (\<lambda>c. outw bus (adcsr OR (push_bit 4 (CR_RANGE c) OR CR_CHAN c)) (a + 0)) chans;
       outw bus (of_nat (length chans) - 1) (a + 2)
     }"

definition dt282x_ai_insn_read :: "nat \<Rightarrow> 'x bus \<Rightarrow> ('z dt282x_ai_private_scheme, 'x) insn_handler" where
  "dt282x_ai_insn_read bits bus = in_insn all_samples (\<lambda>dev s insn ds p.
     let a = dv_iobase dev; p = p\<lparr>ai_adcsr := 0x0200\<rparr> in
     do {
       outw bus (ai_adcsr p OR 0) (a + 0);
       dt282x_load_changain bus a (ai_adcsr p) [insn_chanspec insn];
       outw bus (ai_supcsr p OR 0x0010) (a + 0x0c);
       loaded \<leftarrow> poll_until 100 (reg_no_bits (inw bus (a + 0)) 0x0100);
       if \<not> loaded then give (Fails (- ETIME), p, [])
       else read_each (length ds) (\<lambda>p. do {
         outw bus (ai_supcsr p OR 0x0008) (a + 0x0c);
         ready \<leftarrow> poll_until 100 (reg_bits (inw bus (a + 0)) 0x0080);
         if \<not> ready then give (Fails (- ETIME), p, 0)
         else do {
           v \<leftarrow> inw bus (a + 4);
           let d = v AND (push_bit bits 1 - 1);
           give (Fine, p, if ad_2scomp p then d XOR push_bit (bits - 1) 1 else d)
         }
       }) p
     })"

interpretation dt282x_ai: bounded_input "dt282x_ai_insn_read 12" 12 any_insn
  by (rule bounded_inputI[OF dt282x_ai_insn_read_def])
    (auto simp: Let_def push_bit_of_1 fits_and2 fits_const intro!: yields_intros)

interpretation dt282x_wide_ai: bounded_input "dt282x_ai_insn_read 16" 16 any_insn
  by (rule bounded_inputI[OF dt282x_ai_insn_read_def])
    (auto simp: Let_def push_bit_of_1 fits_and2 fits_const intro!: yields_intros)

text \<open>\<open>ni_atmio16d.c\<close>: an overflow of the converter ends the polling.\<close>

definition atmio16d_ai_insn_read :: "bool \<Rightarrow> 'x bus \<Rightarrow> ('p, 'x) insn_handler" where
  "atmio16d_ai_insn_read two_comp bus = in_insn all_samples (\<lambda>dev s insn ds p.
     let a = dv_iobase dev in
     do {
       outw bus (CR_CHAN (insn_chanspec insn) OR push_bit 6 (CR_RANGE (insn_chanspec insn))) (a + 6);
       read_each (length ds) (\<lambda>p. do {
         outw bus 0 (a + 8);
         poll_for 10 (do {
           status \<leftarrow> inw bus (a + 0);
           if status AND 0x2000 \<noteq> 0 then do {
             d \<leftarrow> inw bus (a + 0x16);
             give (Some (Fine, p, if two_comp then d XOR 0x800 else d))
           }
           else if status AND 0x0200 \<noteq> 0 then do { outw bus 0 (a + 0x0C); give (Some (Fails (- ETIME), p, 0)) }
           else give None
         }) (Fails (- ETIME), p, 0)
       }) p
     })"

lemma yields_poll_last [yields_intros]:
  assumes "yields c (\<lambda>r. \<forall>v. r = Some v \<longrightarrow> Q v)" and "Q d"
  shows "yields (poll_for k c d) Q"
  by (induction k) (auto intro!: yields_give yields_bind[OF assms(1)] assms(2) split: option.split)

interpretation atmio16d_ai: bounded_input "atmio16d_ai_insn_read two_comp" 16 any_insn
  by (rule bounded_inputI[OF atmio16d_ai_insn_read_def]) (auto simp: Let_def intro!: yields_intros)

text \<open>\<open>cb_pcidas.c\<close>: three windows of registers; the calibration source takes the place of channel 0.\<close>

definition cal_enable_bits :: "u32 \<Rightarrow> u32" where
  "cal_enable_bits calibration_source = 0x4000 OR push_bit 11 (calibration_source AND 0x7)"

definition cb_pcidas_ai_rinsn :: "u64 \<Rightarrow> u64 \<Rightarrow> u32 \<Rightarrow> 'x bus \<Rightarrow> ('p, 'x) insn_handler" where
  "cb_pcidas_ai_rinsn control_status adc_fifo calibration_source bus = in_insn all_samples (\<lambda>dev s insn ds p.
     let alt = insn_chanspec insn AND push_bit 27 1 \<noteq> 0; range = CR_RANGE (insn_chanspec insn);
       channel = (if alt then 0 else CR_CHAN (insn_chanspec insn));
       bits = (channel AND 0xf) OR push_bit 4 (channel AND 0xf) OR push_bit 8 (range AND 0x3);
       bits = (if range AND 0x4 \<noteq> 0 then bits OR 0x800 else bits);
       bits = (if CR_AREF (insn_chanspec insn) \<noteq> AREF_DIFF then bits OR 0x400 else bits)
     in do {
       outw bus (if alt then cal_enable_bits calibration_source else 0) (control_status + 6);
       outw bus bits (control_status + 2);
       outw bus 0 (adc_fifo + 2);
       read_each (length ds) (\<lambda>p. do {
         outw bus 0 (adc_fifo + 0);
         ready \<leftarrow> poll_until 10000 (reg_bits (inw bus (control_status + 2)) 0x4000);
         if \<not> ready then give (Fails (- ETIMEDOUT), p, 0)
         else do { d \<leftarrow> inw bus (adc_fifo + 0); give (Fine, p, d) }
       }) p
     })"

interpretation cb_pcidas_ai: bounded_input "cb_pcidas_ai_rinsn control_status adc_fifo calibration_source" 16 any_insn
  by (rule bounded_inputI[OF cb_pcidas_ai_rinsn_def]) (auto simp: Let_def intro!: yields_intros)

text \<open>\<open>me_daq.c\<close>: one sample, through memory.\<close>

record me_ai_private =
  control_1 :: u32
  control_2 :: u32

definition me_ai_insn_read :: "u64 \<Rightarrow> 'x bus \<Rightarrow> ('z me_ai_private_scheme, 'x) insn_handler" where
  "me_ai_insn_read me_regbase bus = unless_empty (in_insn one_sample (\<lambda>dev s insn ds p.
     let chan = CR_CHAN (insn_chanspec insn); rang = CR_RANGE (insn_chanspec insn);
       c1 = control_1 p AND 0xFFFC; off = control_2 p AND NOT (push_bit 10 1 OR push_bit 9 1);
       on = off OR (push_bit 10 1 OR push_bit 9 1);
       value = (chan AND 0x0f) OR push_bit 4 (rang AND 0x03) OR push_bit 4 (rang AND 0x04) OR
         (if CR_AREF (insn_chanspec insn) AND AREF_DIFF \<noteq> 0 then 0x80 else 0);
       p = p\<lparr>control_1 := c1 OR 1, control_2 := on\<rparr>
     in do {
       writew bus c1 (me_regbase + 0x0000);
       writew bus off (me_regbase + 0x0002);
       writew bus 0x00 (me_regbase + 0x0004);
       writew bus on (me_regbase + 0x0002);
       writew bus (value AND 0xff) (me_regbase + 0x0010);
       writew bus (c1 OR 1) (me_regbase + 0x0000);
       v \<leftarrow> readw bus (me_regbase + 0x0000);
       ready \<leftarrow> poll_until 100000 (reg_no_bits (readw bus (me_regbase + 0x0004)) 0x0004);
       if \<not> ready then give (Fails (- EIO), p, [])
       else do {
         d \<leftarrow> readw bus (me_regbase + 0x0010);
         let p = p\<lparr>control_1 := control_1 p AND 0xFFFC\<rparr>;
         writew bus (control_1 p) (me_regbase + 0x0000);
         give (Fine, p, [(d XOR 0x800) AND 0x0FFF])
       }
     }))"

interpretation me_ai: bounded_input "me_ai_insn_read me_regbase" 12 any_insn
  by (rule bounded_input_oneI[OF me_ai_insn_read_def]) (auto simp: Let_def intro!: yields_intros)

text \<open>\<open>adl_pci9111.c\<close>: \<open>hr\<close> is the board with 16 bits. A sample that is not read is zero.\<close>

definition pci9111_fifo_reset :: "'x bus \<Rightarrow> u64 \<Rightarrow> ('x, unit) io" where
  "pci9111_fifo_reset bus a = do { outb bus 0 (a + 0x0C); outb bus (push_bit 2 1) (a + 0x0C); outb bus 0 (a + 0x0C) }"

definition pci9111_ai_insn_read :: "bool \<Rightarrow> 'x bus \<Rightarrow> ('p, 'x) insn_handler" where
  "pci9111_ai_insn_read hr bus = in_insn all_samples (\<lambda>dev s insn ds p.
     let a = dv_iobase dev; range = CR_RANGE (insn_chanspec insn) in
     do {
       outb bus (CR_CHAN (insn_chanspec insn) AND 0x0F) (a + 6);
       now \<leftarrow> inb bus (a + 8);
       io_if (now AND 0x07 \<noteq> range) (outb bus (range AND 0x07) (a + 8));
       pci9111_fifo_reset bus a;
       (e, p, vs) \<leftarrow> read_each (length ds) (\<lambda>p. do {
         outb bus 0 (a + 0x0E);
         ready \<leftarrow> poll_until 100 (reg_bits (inb bus (a + 8)) 0x10);
         if \<not> ready then do { pci9111_fifo_reset bus a; give (Fails (- ETIME), p, 0) }
         else do {
           v \<leftarrow> inw bus (a + 0);
           give (Fine, p, if hr then (v AND 0xFFFF) XOR 0x8000 else (drop_bit 4 v AND 0x0FFF) XOR 0x0800)
         }
       }) p;
       give (e, p, if e = Fine then vs else take (length ds) (vs @ [0]))
     })"

lemma samples_fit_padded:
  "samples_fit bits n (e, p, vs) \<Longrightarrow> e \<noteq> Fine \<Longrightarrow> samples_fit bits n (e, p, take n (vs @ [0]))"
  by (auto simp: samples_fit_def dest: in_set_takeD)

interpretation pci9111_ai: bounded_input "pci9111_ai_insn_read False" 12 any_insn
  by (rule bounded_inputI[OF pci9111_ai_insn_read_def]) (auto simp: Let_def simp del: take_append intro!: yields_intros samples_fit_padded)

interpretation pci9111_hr_ai: bounded_input "pci9111_ai_insn_read True" 16 any_insn
  by (rule bounded_inputI[OF pci9111_ai_insn_read_def]) (auto simp: Let_def simp del: take_append intro!: yields_intros samples_fit_padded)

end
