(* ===== verification/Analog_Faults.thy ===== *)
theory Analog_Faults
  imports Analog_Outputs Analog_Inputs Line_Properties "HOL-Library.While_Combinator"
begin

text \<open>
  Handlers of analog channels that do not keep the contracts: \<open>dmm32at.c\<close>, \<open>pcl816.c\<close>, \<open>das1800.c\<close>,
  \<open>adl_pci9112.c\<close> and, although it keeps its samples, \<open>dt2815.c\<close>.
\<close>

unbundle bit_operations_syntax

section \<open>Definitions\<close>

text \<open>A loop \<open>for (i = 0; i < k; i++) if (c) break;\<close>: the value of its counter at the end.\<close>

fun poll_count :: "nat \<Rightarrow> ('x, bool) io \<Rightarrow> nat \<Rightarrow> ('x, nat) io" where
  "poll_count 0 c i = give i"
| "poll_count (Suc k) c i = do { b \<leftarrow> c; if b then give i else poll_count k c (Suc i) }"

text \<open>
  \<open>dmm32at.c\<close>: the loop over the samples and the loop that waits for the board share the variable \<open>i\<close>. Whether
  the outer one ends is up to the board.
\<close>

definition dmm32at_ao_send :: "'x bus \<Rightarrow> u64 \<Rightarrow> nat \<Rightarrow> u32 \<Rightarrow> ('x, nat) io" where
  "dmm32at_ao_send bus a chan d =
     do {
       outb bus (d AND 0x00ff) (a + 4);
       outb bus (drop_bit 8 d + of_nat chan * 64) (a + 5);
       poll_count 40000 (reg_no_bits (inb bus (a + 4)) 0x80) 0
     }"

definition dmm32at_ao_step ::
  "'x bus \<Rightarrow> u64 \<Rightarrow> nat \<Rightarrow> u32 list \<Rightarrow> ending \<times> nat \<times> 'z ao_private_scheme \<times> 'x \<Rightarrow> ending \<times> nat \<times> 'z ao_private_scheme \<times> 'x" where
  "dmm32at_ao_step bus a chan ds = (\<lambda>(e, i, p, x).
     if length (ao_readback p) \<le> chan then (Never, i, p, x)
     else
       let p = p\<lparr>ao_readback := (ao_readback p)[chan := ds ! i]\<rparr>; (i, x) = run_state (dmm32at_ao_send bus a chan (ds ! i)) x in
       if i = 40000 then (Fails (- ETIMEDOUT), i, p, x)
       else (Fine, Suc i, p, snd (run_state (inb bus (a + 5)) x)))"

definition dmm32at_ao_winsn :: "'x bus \<Rightarrow> ('z ao_private_scheme, 'x) insn_handler" where
  "dmm32at_ao_winsn bus dev i insn data =
     do {
       p \<leftarrow> dv_private dev;
       let n = unat (insn_n insn);
       if length data < n then None
       else do {
         (e, i, p, x) \<leftarrow> while_option (\<lambda>(e, i, p, x). e = Fine \<and> i < n)
           (dmm32at_ao_step bus (dv_iobase dev) (chan_of insn) data) (Fine, 0, p, dv_hw dev);
         r \<leftarrow> ending_code e (int i);
         Some (r, dev\<lparr>dv_hw := x, dv_private := Some p\<rparr>, insn, data)
       }
     }"

definition dmm32at_ao_rinsn :: "('z ao_private_scheme, 'x) insn_handler" where
  "dmm32at_ao_rinsn = readback_insn"

text \<open>
  \<open>pcl816.c\<close>: the counter of \<open>while (timeout--)\<close> is zero after an answer to the last question and negative after
  none; the test for the timeout asks whether it is zero. A sample that is not read keeps its value.
\<close>

fun pcl816_samples :: "'x bus \<Rightarrow> u64 \<Rightarrow> u32 list \<Rightarrow> ('x, ending \<times> u32 list) io" where
  "pcl816_samples bus a [] = give (Fine, [])"
| "pcl816_samples bus a (d # ds) =
     do {
       outb bus 0 (a + 8);
       k \<leftarrow> poll_count 100 (reg_no_bits (inb bus (a + 13)) 0x80) 0;
       v \<leftarrow> (if k < 100 then do {
             hi \<leftarrow> inb bus (a + 9);
             lo \<leftarrow> inb bus (a + 8);
             outb bus 0 (a + 10);
             give (push_bit 8 hi OR lo)
           } else give d);
       let timeout = (if k < 100 then 99 - int k else - 1);
       if timeout = 0 then do { outb bus 0 (a + 10); give (Fails (- EIO), [v]) }
       else do { (e, vs) \<leftarrow> pcl816_samples bus a ds; give (e, v # vs) }
     }"

definition pcl816_ai_insn_read :: "'x bus \<Rightarrow> ('p, 'x) insn_handler" where
  "pcl816_ai_insn_read bus = in_insn all_samples (\<lambda>dev s insn ds p.
     let a = dv_iobase dev in
     do {
       outb bus 0 (a + 12);
       outb bus 0 (a + 10);
       outb bus (CR_CHAN (insn_chanspec insn) AND 0xf) (a + 11);
       outb bus (CR_RANGE (insn_chanspec insn)) (a + 9);
       (e, vs) \<leftarrow> pcl816_samples bus a ds;
       give (e, p, if e = Fine then vs else vs[0 := 0])
     })"

text \<open>\<open>das1800.c\<close>: what is read goes through a signed 16-bit variable into the 32 bits of a sample.\<close>

definition das1800_sample :: "nat \<Rightarrow> bool \<Rightarrow> u32 \<Rightarrow> u32" where
  "das1800_sample resolution unipolar v =
     (let dpnt = (ucast v :: 16 word); dpnt = (if unipolar then dpnt else dpnt + push_bit (resolution - 1) 1) in scast dpnt)"

definition das1800_ai_rinsn :: "nat \<Rightarrow> 'x bus \<Rightarrow> ('p, 'x) insn_handler" where
  "das1800_ai_rinsn resolution bus = in_insn all_samples (\<lambda>dev s insn ds p.
     let a = dv_iobase dev; aref = CR_AREF (insn_chanspec insn);
       unipolar = CR_RANGE (insn_chanspec insn) AND 0x4 \<noteq> 0;
       conv_flags = 0x10 OR (if aref \<noteq> AREF_DIFF then 0x40 else 0) OR (if aref = 1 then 0x8 else 0) OR
         (if unipolar then 0x80 else 0);
       range = CR_RANGE (insn_chanspec insn) AND 0x3
     in do {
       outb bus conv_flags (a + 6);
       outb bus 0x80 (a + 7);
       outb bus 0x0 (a + 4);
       outb bus 0x1 (a + 4);
       outb bus 0x1 (a + 2);
       outb bus 0x0 (a + 10);
       outw bus (CR_CHAN (insn_chanspec insn) OR push_bit 8 range) (a + 0);
       outb bus 0x0 (a + 10);
       outb bus 0x0 (a + 2);
       read_each (length ds) (\<lambda>p. do {
         outb bus 0 (a + 0);
         ready \<leftarrow> poll_until 1000 (reg_bits (inb bus (a + 7)) 0x40);
         if \<not> ready then give (Fails (- ETIME), p, 0)
         else do { v \<leftarrow> inw bus (a + 0); give (Fine, p, das1800_sample resolution unipolar v) }
       }) p
     })"

text \<open>\<open>adl_pci9112.c\<close>: two channels with one register and one sample kept.\<close>

record pci9112_ao_private =
  pci9112_ao_readback :: u32

definition pci9112_ao_set_data :: "'x bus \<Rightarrow> u64 \<Rightarrow> u32 \<Rightarrow> ('x, unit) io" where
  "pci9112_ao_set_data bus a d = outw bus (d AND 0x0FFF) (a + 0x10)"

definition pci9112_ao_insn_write :: "'x bus \<Rightarrow> ('z pci9112_ao_private_scheme, 'x) insn_handler" where
  "pci9112_ao_insn_write bus = out_insn all_samples (\<lambda>dev s insn. write_each (\<lambda>d p.
     do { pci9112_ao_set_data bus (dv_iobase dev) d; give (Fine, p\<lparr>pci9112_ao_readback := d\<rparr>) }))"

definition pci9112_ao_insn_read :: "('z pci9112_ao_private_scheme, 'x) insn_handler" where
  "pci9112_ao_insn_read =
     in_insn all_samples (\<lambda>dev s insn ds. read_each (length ds) (\<lambda>p. give (Fine, p, pci9112_ao_readback p AND 0x0FFF)))"

section \<open>What they do\<close>

lemma poll_count_ready:
  assumes "\<And>x. fst (run_state c x)"
  shows "fst (run_state (poll_count (Suc k) c i) x) = i"
  using assms[of x] by (cases "run_state c x") simp

lemma poll_count_never:
  assumes "\<And>x. \<not> fst (run_state c x)"
  shows "fst (run_state (poll_count k c i) x) = i + k"
proof (induction k arbitrary: i x)
  case (Suc k)
  then show ?case using assms[of x] by (cases "run_state c x") simp
qed simp

lemma always_ready:
  assumes "\<And>x. fst (run_state (inb bus (a + 4)) x) AND 0x80 = 0"
  shows "fst (run_state (dmm32at_ao_send bus a chan d) x) = 0"
proof -
  have "fst (run_state (poll_count (Suc 39999) (reg_no_bits (inb bus (a + 4)) 0x80) 0) y) = 0" for y
    by (rule poll_count_ready) (use assms in \<open>simp add: reg_no_bits_def split_beta\<close>)
  then show ?thesis by (simp add: dmm32at_ao_send_def outb_def reg_out_def)
qed

text \<open>With more than one sample the counter comes back to one and never gets further.\<close>

text \<open>A single sample is written, and what the write returns is one more than the times the board was busy.\<close>

theorem dmm32at_returns_polls:
  assumes "dv_private dev = Some p" and "insn_n insn = 1" and "chan_of insn < length (ao_readback p)"
    and sent: "run_state (dmm32at_ao_send bus (dv_iobase dev) (chan_of insn) d) (dv_hw dev) = (k, x)" and "k < 40000"
  shows "\<exists>dev'. dmm32at_ao_winsn bus dev i insn [d] = Some (int k + 1, dev', insn, [d])"
  using assms
  by (simp add: dmm32at_ao_winsn_def Let_def while_option_unfold dmm32at_ao_step_def)

text \<open>A board that never has a sample: every read succeeds and leaves what was in the buffer.\<close>

lemma pcl816_silent:
  assumes silent: "\<And>x. fst (run_state (inb bus (a + 13)) x) AND 0x80 \<noteq> 0"
  shows "fst (run_state (pcl816_samples bus a ds) x) = (Fine, ds)"
proof (induction ds arbitrary: x)
  case (Cons d ds)
  have k: "fst (run_state (poll_count 100 (reg_no_bits (inb bus (a + 13)) 0x80) 0) y) = 100" for y
    using poll_count_never[of "reg_no_bits (inb bus (a + 13)) 0x80" 100 0 y] silent
    by (simp add: reg_no_bits_def split_beta)
  show ?case using k Cons by (simp add: split_beta Let_def)
qed simp

text \<open>A board of 16 bits gives samples beyond its largest one, for half of the values it converts.\<close>

lemma scast_large: "0xffff < (scast (w :: 16 word) :: u32) \<longleftrightarrow> bit w 15"
proof -
  have "\<not> 0xffff < (scast w :: u32) \<longleftrightarrow> fits 16 (scast w)"
    by (auto simp: fits_unat word_less_nat_alt)
  also have "\<dots> \<longleftrightarrow> \<not> bit w 15"
    by (auto simp: fits_iff bit_simps intro!: exI[of _ "16 :: nat"])
  finally show ?thesis by blast
qed

lemma top_bit: "bit (w :: 16 word) 15 \<longleftrightarrow> 32768 \<le> unat w"
proof -
  have "unat w < 65536" using unsigned_less[of w] by simp
  then have "unat w div 32768 = (if 32768 \<le> unat w then 1 else 0)" by (simp add: div_nat_eqI)
  then show ?thesis using bit_iff_odd[of "unat w" 15] by (simp add: bit_unsigned_iff)
qed

lemma top_bit_flips: "bit (w + 0x8000 :: 16 word) 15 \<longleftrightarrow> \<not> bit w 15"
proof -
  have less: "unat w < 65536" using unsigned_less[of w] by simp
  have "unat (w + 0x8000) = (unat w + 32768) mod 65536" by (simp add: unat_word_ariths)
  also have "\<dots> = (if unat w < 32768 then unat w + 32768 else unat w - 32768)"
    using less by (simp add: mod_if)
  finally show ?thesis using less unfolding top_bit by (simp split: if_splits)
qed

theorem das1800_sample_too_large: "0xffff < das1800_sample 16 unipolar v \<longleftrightarrow> unipolar = bit v 15"
proof -
  have "push_bit 15 1 = (0x8000 :: 16 word)" by (simp add: push_bit_of_1)
  then show ?thesis by (cases unipolar) (simp_all add: das1800_sample_def Let_def scast_large top_bit_flips bit_ucast_iff)
qed

text \<open>What was written to one channel is what the other one reads.\<close>

lemma pci9112_writes:
  "\<exists>x'. run_state (write_each (\<lambda>d p. do { pci9112_ao_set_data bus a d; give (Fine, p\<lparr>pci9112_ao_readback := d\<rparr>) }) ds p) x =
    ((Fine, if ds = [] then p else p\<lparr>pci9112_ao_readback := last ds\<rparr>), x')"
proof (induction ds arbitrary: p x)
  case (Cons d ds)
  obtain y where "run_state (pci9112_ao_set_data bus a d) x = ((), y)" by (metis (full_types) old.unit.exhaust prod.exhaust)
  then show ?case using Cons[of "p\<lparr>pci9112_ao_readback := d\<rparr>" y] by auto
qed simp

lemma pci9112_reads:
  "run_state (read_each n (\<lambda>p. give (Fine, p, pci9112_ao_readback p AND 0x0FFF)) p) x =
    ((Fine, p, replicate n (pci9112_ao_readback p AND 0x0FFF)), x)"
  by (induction n) auto

theorem pci9112_channels_mixed:
  assumes w: "pci9112_ao_insn_write bus dev i insn data = Some (r, dev', insn', data')" and "0 < r"
    and n: "0 < insn_n insn2" "length data2 = unat (insn_n insn2)"
  shows "\<exists>r2 dev2 data3. pci9112_ao_insn_read dev' i insn2 data2 = Some (r2, dev2, insn2, data3) \<and> 0 < r2 \<and>
    (\<forall>k<nat r2. data3 ! k = data ! (nat r - 1) AND 0x0FFF)"
proof -
  let ?n = "unat (insn_n insn)"
  from w obtain s p where dev: "subd dev i = Some s" "dv_private dev = Some p" and len: "?n \<le> length data"
    by (auto simp: pci9112_ao_insn_write_def out_insn_def Let_def all_samples_def split: Option.bind_splits if_splits)
  obtain x' where "run_state (write_each (\<lambda>d p. do { pci9112_ao_set_data bus (dv_iobase dev) d;
      give (Fine, p\<lparr>pci9112_ao_readback := d\<rparr>) }) (take ?n data) p) (dv_hw dev) =
    ((Fine, if take ?n data = [] then p else p\<lparr>pci9112_ao_readback := last (take ?n data)\<rparr>), x')"
    using pci9112_writes[of bus "dv_iobase dev" "take ?n data" p "dv_hw dev"] by blast
  with w dev len have r: "r = int ?n" and dev': "dev' = dev\<lparr>dv_hw := x',
      dv_private := Some (if take ?n data = [] then p else p\<lparr>pci9112_ao_readback := last (take ?n data)\<rparr>)\<rparr>"
    by (auto simp: pci9112_ao_insn_write_def out_insn_def Let_def all_samples_def simp del: of_nat_unat take_eq_Nil)
  from r \<open>0 < r\<close> len have ne: "take ?n data \<noteq> []" by (auto simp del: of_nat_unat)
  with r len have last: "last (take ?n data) = data ! (nat r - 1)"
    by (simp add: last_conv_nth min_def del: of_nat_unat take_eq_Nil) (simp add: take_eq_Nil)
  have "subd dev' i = Some s" using dev(1) dev' by (simp add: subd_same_board)
  moreover have "0 < unat (insn_n insn2)" using n(1) by (simp add: unat_gt_0 word_gt_0)
  ultimately show ?thesis using dev' ne last n(2)
    by (simp add: pci9112_ao_insn_read_def in_insn_def Let_def all_samples_def pci9112_reads del: of_nat_unat)
qed

text \<open>The board of \<open>dt2815.c\<close> gets the lower four bits of a sample only.\<close>

lemma dt2815_sends_low_bits:
  assumes "map (\<lambda>d. d AND 0x0f) ds1 = map (\<lambda>d. d AND 0x0f) ds2" and "length (ao_readback p1) = length (ao_readback p2)"
  shows "\<exists>e p1' p2' x'. run_state (write_each (dt2815_ao_send bus a c) ds1 p1) x = ((e, p1'), x') \<and>
    run_state (write_each (dt2815_ao_send bus a c) ds2 p2) x = ((e, p2'), x')"
  using assms
proof (induction ds1 arbitrary: ds2 p1 p2 x)
  case (Cons d ds1)
  then obtain d' ds2' where ds2: "ds2 = d' # ds2'" and low: "d AND 0x0f = d' AND 0x0f"
    and rest: "map (\<lambda>d. d AND 0x0f) ds1 = map (\<lambda>d. d AND 0x0f) ds2'" by (cases ds2) auto
  have wait: "\<exists>x'. run_state (dt2815_wait_for_status bus a st) y = (st, x')" for st y
    by (cases "run_state (poll_until 100 (do { v \<leftarrow> inb bus (a + 1); give (v = st) })) y")
      (simp add: dt2815_wait_for_status_def)
  obtain x1 where x1: "run_state (dt2815_wait_for_status bus a 0) x = (0, x1)" using wait by blast
  obtain x2 where x2: "run_state (outb bus (push_bit 4 (d' AND 0x0f) OR push_bit 1 (of_nat c) OR 0x01) a) x1 = ((), x2)"
    by (metis (full_types) old.unit.exhaust prod.exhaust)
  obtain x3 where x3: "run_state (dt2815_wait_for_status bus a 0x10) x2 = (0x10, x3)" using wait by blast
  have sent: "run_state (dt2815_ao_send bus a c v p) x =
      ((if c < length (ao_readback p) then (Fine, p\<lparr>ao_readback := (ao_readback p)[c := v]\<rparr>) else (Never, p)), x3)"
    if "v AND 0x0f = d' AND 0x0f" for v p
    using x1 x2 x3 that by (simp add: dt2815_ao_send_def keep_sample_def)
  show ?case
    using Cons.IH[OF rest, of "p1\<lparr>ao_readback := (ao_readback p1)[c := d]\<rparr>" "p2\<lparr>ao_readback := (ao_readback p2)[c := d']\<rparr>" x3]
      Cons.prems(2) sent[OF low, of p1] sent[OF refl, of p2] ds2 by auto
qed auto

theorem dt2815_loses_high_bits:
  assumes "map (\<lambda>d. d AND 0x0f) ds1 = map (\<lambda>d. d AND 0x0f) ds2"
  shows "map_option (\<lambda>(r, dev', _). (r, dv_hw dev')) (dt2815_ao_insn bus dev i insn ds1) =
    map_option (\<lambda>(r, dev', _). (r, dv_hw dev')) (dt2815_ao_insn bus dev i insn ds2)"
proof (cases "subd dev i = None \<or> dv_private dev = None \<or> length ds1 < unat (insn_n insn)")
  case True
  moreover have "length ds1 = length ds2" using assms by (rule map_eq_imp_length_eq)
  ultimately show ?thesis by (auto simp: dt2815_ao_insn_def out_insn_def all_samples_def Let_def split: Option.bind_splits)
next
  case False
  then obtain s p where dev: "subd dev i = Some s" "dv_private dev = Some p" by auto
  let ?n = "unat (insn_n insn)"
  have "map (\<lambda>d. d AND 0x0f) (take ?n ds1) = map (\<lambda>d. d AND 0x0f) (take ?n ds2)" using assms by (simp flip: take_map)
  from dt2815_sends_low_bits[OF this refl, of bus "dv_iobase dev" "chan_of insn" p "dv_hw dev"] obtain e p1 p2 x where
    "run_state (write_each (dt2815_ao_send bus (dv_iobase dev) (chan_of insn)) (take ?n ds1) p) (dv_hw dev) = ((e, p1), x)"
    "run_state (write_each (dt2815_ao_send bus (dv_iobase dev) (chan_of insn)) (take ?n ds2) p) (dv_hw dev) = ((e, p2), x)"
    by blast
  moreover have "length ds1 = length ds2" using assms by (rule map_eq_imp_length_eq)
  ultimately show ?thesis using dev False by (cases e) (simp_all add: dt2815_ao_insn_def out_insn_def all_samples_def Let_def)
qed

end
