(* ===== verification/Analog_Properties.thy ===== *)
theory Analog_Properties
  imports Analog_Faults
begin

text \<open>What holds of the analog channels of all the boards, and of those whose drivers go wrong.\<close>

unbundle bit_operations_syntax

section \<open>A board\<close>

text \<open>A device with eight channels kept for reading back; every register of its board answers 0 or 0x80.\<close>

definition constant_bus :: "u32 \<Rightarrow> unit bus" where
  "constant_bus v = \<lparr>bus_in = \<lambda>w a x. (v, x), bus_out = \<lambda>w a v x. x\<rparr>"

definition analog_dev :: "'p \<Rightarrow> ('p, unit) comedi_device" where
  "analog_dev p = \<lparr>dv_use_count = 0, dv_driver = None, dv_private = Some p, dv_class_dev = False, dv_minor = 0,
     dv_hw_dev = None, dv_board_name = None, dv_board_ptr = None, dv_attached = True, dv_rt = False,
     dv_in_request_module = False, dv_n_subdevices = 1, dv_subdevices = [zero_subd], dv_iobase = 0x300, dv_irq = 0,
     dv_read_subdev = None, dv_write_subdev = None, dv_open = None, dv_close = None, dv_hw = ()\<rparr>"

definition eight_kept :: ao_private where "eight_kept = \<lparr>ao_readback = replicate 8 0\<rparr>"

definition analog_insn :: "u32 \<Rightarrow> u32 \<Rightarrow> comedi_insn" where
  "analog_insn chanspec n = \<lparr>insn_insn = INSN_WRITE, insn_n = n, insn_data = 0, insn_subdev = 0, insn_chanspec = chanspec\<rparr>"

lemma analog_simps [simp]:
  "subd (analog_dev p) 0 = Some zero_subd" "dv_private (analog_dev p) = Some p" "dv_iobase (analog_dev p) = 0x300"
  "insn_n (analog_insn c n) = n" "insn_chanspec (analog_insn c n) = c" "ao_readback eight_kept = replicate 8 0"
  by (simp_all add: analog_dev_def subd_def analog_insn_def eight_kept_def)

section \<open>Outputs\<close>

text \<open>
  C14. The write and read instructions of 33 boards agree: after a successful write of samples to a channel a read
  of this channel yields the last of them, cut to the width of the array that keeps it, and reads of the other channels
  yield what they did.
\<close>

theorem boards_read_back:
  "reads_back (\<lambda>_. skel_ao_winsn) (\<lambda>_. skel_ao_rinsn) (\<lambda>_ d. d) \<and>
   reads_back rti802_ao_insn_write (\<lambda>_. rti802_ao_insn_read) (\<lambda>_ d. d) \<and>
   reads_back rti800_ao_insn_write (\<lambda>_. rti800_ao_insn_read) (\<lambda>_ d. d) \<and>
   reads_back aio_aio12_8_ao_write (\<lambda>_. aio_aio12_8_ao_read) (\<lambda>_ d. d) \<and>
   reads_back multiq3_ao_insn_write (\<lambda>_. multiq3_ao_insn_read) (\<lambda>_ d. d) \<and>
   reads_back pcl726_ao_insn (\<lambda>_. pcl726_ao_insn_read) (\<lambda>_ d. d) \<and>
   reads_back pcl711_ao_insn (\<lambda>_. pcl711_ao_insn_read) (\<lambda>_ d. d) \<and>
   reads_back pcl812_ao_insn_write (\<lambda>_. pcl812_ao_insn_read) (\<lambda>_ d. d) \<and>
   reads_back pcl818_ao_insn_write (\<lambda>_. pcl818_ao_insn_read) (\<lambda>_ d. d) \<and>
   reads_back dt2811_ao_insn (\<lambda>_. dt2811_ao_insn_read) (\<lambda>_ d. d) \<and>
   reads_back fl512_ao_insn (\<lambda>_. fl512_ao_insn_readback) (\<lambda>_ d. d AND 0xffff) \<and>
   reads_back (ni_670x_ao_winsn base) (\<lambda>_. ni_670x_ao_rinsn) (\<lambda>_ d. d) \<and>
   reads_back atao_ao_winsn (\<lambda>_. atao_ao_rinsn) (\<lambda>_ d. d) \<and>
   reads_back (cb_pcimdas_ao_winsn badr2) (\<lambda>_. cb_pcimdas_ao_rinsn) (\<lambda>_ d. d) \<and>
   reads_back atmio16d_ao_insn_write (\<lambda>_. atmio16d_ao_insn_read) (\<lambda>_ d. d) \<and>
   reads_back pci9118_insn_write_ao (\<lambda>_. pci9118_insn_read_ao) (\<lambda>_ d. d AND 0xffff) \<and>
   reads_back pci1723_ao_write_winsn (\<lambda>_. pci1723_insn_read_ao) (\<lambda>_ d. d AND 0xffff) \<and>
   reads_back s526_ao_winsn (\<lambda>_. s526_ao_rinsn) (\<lambda>_ d. d) \<and>
   reads_back (dt3k_ao_insn io_addr) (\<lambda>_. dt3k_ao_insn_read) (\<lambda>_ d. d) \<and>
   reads_back das16cs_ao_winsn (\<lambda>_. das16cs_ao_rinsn) (\<lambda>_ d. d) \<and>
   reads_back pci171x_insn_write_ao (\<lambda>_. pci171x_insn_read_ao) (\<lambda>_ d. d AND 0xffff) \<and>
   reads_back pci1720_insn_write_ao (\<lambda>_. pci171x_insn_read_ao) (\<lambda>_ d. d AND 0xffff) \<and>
   reads_back (pci224_ao_insn_write bits hwrange) (\<lambda>_. pci224_ao_insn_read) (\<lambda>_ d. d) \<and>
   reads_back (pci230_ao_winsn bits) (\<lambda>_. pci230_ao_rinsn) (\<lambda>_ d. d AND 0xffff) \<and>
   reads_back (rtd_ao_winsn las0 las1) (\<lambda>_. rtd_ao_rinsn) (\<lambda>_ d. d) \<and>
   reads_back (dt282x_ao_insn_write bits) (\<lambda>_. dt282x_ao_insn_read) (\<lambda>_ d. d AND 0xffff AND (push_bit bits 1 - 1)) \<and>
   reads_back (cb_pcidas_ao_nofifo_winsn control_status ao_registers) (\<lambda>_. cb_pcidas_ao_readback_insn) (\<lambda>_ d. d) \<and>
   reads_back (cb_pcidas_ao_fifo_winsn control_status ao_registers) (\<lambda>_. cb_pcidas_ao_readback_insn) (\<lambda>_ d. d) \<and>
   reads_back (\<lambda>_. labpc_ao_winsn write_byte is_1200) (\<lambda>_. labpc_ao_rinsn) (\<lambda>_ d. d) \<and>
   reads_back pcmda12_ao_winsn pcmda12_ao_rinsn (\<lambda>_ d. d) \<and>
   reads_back (pcimdda_ao_winsn registers) (pcimdda_ao_rinsn registers) (\<lambda>_ d. d) \<and>
   reads_back (icp_multi_insn_write_ao rangecode io_addr) (\<lambda>_. icp_multi_insn_read_ao) (\<lambda>_ d. d AND 0xffff) \<and>
   reads_back dt2815_ao_insn (\<lambda>_. dt2815_ao_insn_read) (\<lambda>_ d. d)"
  by (intro conjI skel_ao.kept rti802.kept rti800_ao.kept aio12_8.kept multiq3_ao.kept pcl726.kept pcl711_ao.kept
      pcl812_ao.kept pcl818_ao.kept dt2811_ao.kept fl512.kept ni_670x_ao.kept atao_ao.kept cb_pcimdas.kept
  atmio16d_ao.kept pci9118_ao.kept pci1723_ao.kept s526_ao.kept dt3k_ao.kept das16cs_ao.kept pci171x_ao.kept
  pci1720_ao.kept pci224_ao.kept pci230_ao.kept rtd_ao.kept dt282x_ao.kept pcidas_nofifo.kept pcidas_fifo.kept
  labpc_ao.kept pcmda12.kept pcimdda.kept icp_multi_ao.kept dt2815_ao.kept)

text \<open>Samples 7 and 9 to channel 3 of the board of \<open>multiq3.c\<close>, and what channels 3 and 4 read then.\<close>

theorem boards_read_back_witness:
  "\<exists>dev' r3 d3 v3 r4 d4 v4.
    multiq3_ao_insn_write (constant_bus 0) (analog_dev eight_kept) 0 (analog_insn 3 2) [7, 9] =
      Some (2, dev', analog_insn 3 2, [7, 9]) \<and>
    multiq3_ao_insn_read dev' 0 (analog_insn 3 1) [5] = Some (r3, d3, analog_insn 3 1, v3) \<and> 0 < r3 \<and> v3 ! 0 = 9 \<and>
    multiq3_ao_insn_read dev' 0 (analog_insn 4 1) [5] = Some (r4, d4, analog_insn 4 1, v4) \<and> 0 < r4 \<and> v4 ! 0 = 0"
proof -
  have agree: "reads_back multiq3_ao_insn_write (\<lambda>_. multiq3_ao_insn_read) (\<lambda>_ d. d)"
    using boards_read_back by blast
  obtain dev' where w: "multiq3_ao_insn_write (constant_bus 0) (analog_dev eight_kept) 0 (analog_insn 3 2) [7, 9] =
      Some (2, dev', analog_insn 3 2, [7, 9])"
    by (simp add: multiq3_ao_insn_write_def out_insn_def all_samples_def chan_of_def CR_CHAN_def keep_sample_def
        io_defs constant_bus_def Let_def)
  have "\<exists>r2 dev2 data3. multiq3_ao_insn_read dev' 0 (analog_insn 3 1) [5] = Some (r2, dev2, analog_insn 3 1, data3) \<and>
      0 < r2 \<and> (\<forall>k<nat r2. data3 ! k = 9)"
    using agree[unfolded reads_back_def, rule_format, OF w, of eight_kept zero_subd "analog_insn 3 1" "[5]"]
    by (simp add: chan_of_def CR_CHAN_def)
  moreover have "\<exists>r2 dev2 data3. multiq3_ao_insn_read dev' 0 (analog_insn 4 1) [5] =
      Some (r2, dev2, analog_insn 4 1, data3) \<and> 0 < r2 \<and> (\<forall>k<nat r2. data3 ! k = 0)"
    using agree[unfolded reads_back_def, rule_format, OF w, of eight_kept zero_subd "analog_insn 4 1" "[5]"]
    by (simp add: chan_of_def CR_CHAN_def)
  ultimately show ?thesis using w by fastforce
qed

section \<open>Inputs\<close>



section \<open>Boards that go wrong\<close>

text \<open>
  C16. A board of \<open>dmm32at.c\<close> that is never busy takes no list of samples: with two of them or more the counter of the
  loop, which the waiting for the board uses too, comes back to one after each, and the write goes on for ever.
\<close>

theorem dmm32at_ready_board_hangs:
  fixes dev :: "('z ao_private_scheme, 'x) comedi_device"
  assumes ready: "\<And>x. fst (run_state (inb bus (dv_iobase dev + 4)) x) AND 0x80 = 0" and n: "1 < insn_n insn"
    and p: "dv_private dev = Some p" and chan: "chan_of insn < length (ao_readback p)"
  shows "while_option (\<lambda>(e, i, p, x). e = Fine \<and> i < unat (insn_n insn))
      (dmm32at_ao_step bus (dv_iobase dev) (chan_of insn) data) (Fine, 0, p, dv_hw dev) = None \<and>
    dmm32at_ao_winsn bus dev i insn data = None"
proof -
  let ?b = "\<lambda>(e, i, p, x). e = Fine \<and> i < unat (insn_n insn)"
    and ?c = "dmm32at_ao_step bus (dv_iobase dev) (chan_of insn) data"
    and ?P = "\<lambda>(e, i, p :: 'z ao_private_scheme, x :: 'x). e = Fine \<and> i \<le> 1 \<and> chan_of insn < length (ao_readback p)"
  have len: "1 < unat (insn_n insn)" using n by (simp add: word_less_nat_alt)
  have inv: "?P (?c s)" if "?P s" for s
    using that always_ready[OF ready, of "chan_of insn"]
    by (cases s) (auto simp: dmm32at_ao_step_def Let_def split_beta)
  have "while_option ?b ?c (Fine, 0, p, dv_hw dev) = None"
  proof (rule ccontr)
    assume "while_option ?b ?c (Fine, 0, p, dv_hw dev) \<noteq> None"
    then obtain t where t: "while_option ?b ?c (Fine, 0, p, dv_hw dev) = Some t" by blast
    have "?P t" by (rule while_option_rule[OF _ t]) (use inv chan in auto)
    with while_option_stop[OF t] len show False by auto
  qed
  with p show ?thesis by (simp add: dmm32at_ao_winsn_def Let_def)
qed

theorem dmm32at_ready_board_hangs_witness:
  "dmm32at_ao_winsn (constant_bus 0) (analog_dev eight_kept) 0 (analog_insn 3 2) [7, 9] = None"
  by (rule dmm32at_ready_board_hangs[where p = eight_kept, THEN conjunct2])
    (simp_all add: io_defs constant_bus_def chan_of_def CR_CHAN_def)

text \<open>
  C17. A board of \<open>pcl816.c\<close> that never has a sample: every read succeeds, and leaves in the buffer what was there.
\<close>

theorem pcl816_silent_board_succeeds:
  assumes silent: "\<And>x. fst (run_state (inb bus (dv_iobase dev + 13)) x) AND 0x80 \<noteq> 0"
    and "subd dev i = Some s" and "dv_private dev = Some p" and "length data = unat (insn_n insn)"
  shows "\<exists>dev'. pcl816_ai_insn_read bus dev i insn data = Some (int (length data), dev', insn, data)"
proof -
  note ready = pcl816_silent[OF silent]
  show ?thesis using assms(2-) ready
    by (simp add: pcl816_ai_insn_read_def in_insn_def all_samples_def Let_def split_beta del: of_nat_unat)
qed

theorem pcl816_silent_board_succeeds_witness:
  "\<exists>dev'. pcl816_ai_insn_read (constant_bus 0x80) (analog_dev eight_kept) 0 (analog_insn 3 2) [7, 9] =
    Some (2, dev', analog_insn 3 2, [7, 9])"
  using pcl816_silent_board_succeeds[where bus = "constant_bus 0x80" and dev = "analog_dev eight_kept" and i = 0 and
      s = zero_subd and p = eight_kept and insn = "analog_insn 3 2" and data = "[7, 9]"]
  by (simp add: io_defs constant_bus_def)

end
