(* ===== verification/Spec2Isabelle.thy ===== *)
theory Spec2Isabelle
  imports Buffer_Properties File_Ops Compat_Properties Proc_Listing Waveform_Overflow Command_Faults Pacing_Properties
    Rounding_Properties File_Io_Properties Lock_Properties Kcomedilib Dio_Properties Timer_Properties
    Subdevice_Properties Serial_Properties Bond_Properties Line_Properties Rt_Properties Analog_Properties
begin

text \<open>
  A verification development for the Comedi kernel modules: the core (\<open>comedi/comedi_fops.c\<close>, \<open>drivers.c\<close>,
  \<open>range.c\<close>, \<open>proc.c\<close>, \<open>comedi_compat32.c\<close>, \<open>rt.c\<close>, \<open>rt_pend_tq.c\<close>), the client library for other modules
  (\<open>comedi/kcomedilib\<close>), the drivers that are programs of their own (\<open>comedi_test.c\<close>, \<open>8255.c\<close>, \<open>serial2002.c\<close>,
  \<open>comedi_bond.c\<close>, the helpers \<open>comedi_fc.c\<close> and \<open>8253.h\<close>), and the logic of the hardware drivers: their command
  tests, munge callbacks, digital lines and analog channels.

  \<^bold>\<open>The program.\<close> A process opens a device file. Its minor number leads to a device, which a driver has attached
  to, and the device has subdevices: analog inputs, digital lines, counters. A client carries out single instructions
  (\<open>INSN\<close>), or starts a streaming command (\<open>CMD\<close>) on a subdevice, which it then owns; the interrupt routine of the
  driver fills (or drains) a ring buffer, which the client reads (or writes), and reports events that end the command.
  The core checks what the client asks for and keeps owners and locks; the driver is reached through callbacks of the
  subdevice and through the callbacks of \<open>comedi_driver\<close>. Other modules get at the same devices by \<open>kcomedilib\<close>.

  \<^bold>\<open>How the code becomes definitions.\<close> Structures are records with the fields the code uses, a pointer that may be
  \<open>NULL\<close> is an option, a C \<open>int\<close> or \<open>unsigned\<close> a 32-bit word where its width matters, and return codes are
  integers with the kernel's error numbers. A function that changes state gets it and returns it. \<^term>\<open>None\<close> in the
  option monad is code that does not return normally: a \<open>BUG()\<close>, a trap, an access outside of an object, a loop
  without an end; that a function returns is then a theorem of its own (\<open>\<exists>r. f x = Some r\<close>). The data model is
  LP64, little-endian. What is not in this repository is an argument: the callbacks of a driver (\<open>driver_ops\<close>), the
  user's memory (\<open>user_env\<close>), the allocator (\<open>alloc_env\<close>), the scheduler (a list of wake-ups), the registers of a
  board (\<open>bus\<close>), the serial line. Definitions carry the names of the C functions.

  \<^bold>\<open>Data and machine types.\<close> \<open>Comedi_Prelude\<close> has the words, the error numbers, the option monad and the lemmas on
  wrapping counters and byte rings; \<open>Comedi_Types\<close> the structures and constants of \<open>comedi.h\<close> and \<open>comedidev.h\<close>;
  \<open>Example_State\<close> a small device for the witnesses.

  \<^bold>\<open>The streaming buffer.\<close> \<open>Async_Buffer\<close> models \<open>comedi_buf_*\<close>: five wrapping 32-bit counters, two pointers into the
  ring and the munge stage. \<open>Ring_Invariant\<close>, \<open>Ring_Copy\<close> and \<open>Ring_Operations\<close> show that the counters stay ordered,
  that each request is granted as far as there is room, and that the copying loops are ring reads and writes.
  \<open>Stream_Content\<close> abstracts the ring to the bytes that are ready and those still to be munged; \<open>Byte_Channel\<close> is the
  locale of a lossless channel, and \<open>Stream_Channel\<close> shows that the helpers of \<open>Comedi_Fc\<close> are its two ends, with any
  munge callback that keeps the locale \<open>munge_contract\<close>; \<open>Driver_Munge\<close> shows it of the drivers' callbacks.
  \<open>Buffer_Alloc\<close> models the allocation and the resizing, with every page accounted for on every failure.
  \<open>Buffer_Properties\<close> has the theorems, for requests below \<open>2 ^ 31\<close> bytes, and what greater ones do.

  \<^bold>\<open>Subdevices and ioctls.\<close> \<open>Subdevice_State\<close> and \<open>Subdevice_Properties\<close>: run flags, events, busy owner and lock.
  \<open>Range_Info\<close>: ranges and the check of channel lists. \<open>Instructions\<close> and \<open>Bits_Interface\<close>: \<open>parse_insn\<close>, the
  instruction ioctls, and the emulation of single channels by a driver's bits instruction (a locale). \<open>Command_Test\<close>:
  the stages every \<open>do_cmdtest\<close> is made of and the contract it keeps. \<open>Commands\<close> and \<open>Command_Flow\<close>: CMD and CMDTEST.
  \<open>Info_Ioctls\<close>, \<open>File_Io\<close>, \<open>File_Ops\<close>: the other ioctls, read, write, poll, mmap, open, close and the dispatcher;
  \<open>File_Io_Properties\<close> and \<open>Lock_Properties\<close> say what a reader gets and what a lock keeps out. \<open>Compat32\<close> and
  \<open>Compat_Properties\<close>: the ioctls of 32-bit processes are those of 64-bit ones.

  \<^bold>\<open>Devices and modules.\<close> \<open>Minors\<close>, \<open>Board_Minors\<close>, \<open>Attach\<close>, \<open>Proc_Listing\<close>: the table of device files, attaching and
  detaching drivers, DEVCONFIG, the listing in \<open>/proc\<close>. \<open>Kcomedilib\<close>: the client library. \<open>Rt_Support\<close> and
  \<open>Rt_Properties\<close>: the ring of pending calls as a bounded queue, with the interleavings of two processors as explicit
  steps, and the interrupt lines that real-time commands take over.

  \<^bold>\<open>Drivers in full.\<close> \<open>Comedi_Test\<close>, \<open>Waveform_Command\<close>, \<open>Waveform_Properties\<close>, \<open>Waveform_Interrupt\<close> and
  \<open>Waveform_Overflow\<close>: the simulated board, together with the core, from CMD through any sequence of timer interrupts.
  \<open>Dio_8255\<close> and \<open>Dio_Properties\<close>: the 8255 chip. \<open>Serial_2002\<close> and \<open>Serial_Properties\<close>: the serial protocol, as
  a refinement of a line that carries messages. \<open>Comedi_Bond\<close> and \<open>Bond_Properties\<close>: one row of channels made of many
  boards. \<open>Timer_8253\<close> and \<open>Timer_Properties\<close>: the search for two dividers.

  \<^bold>\<open>Hardware drivers.\<close> The command tests: \<open>Command_Rounding\<close> has what they share, \<open>Digital_Commands\<close>,
  \<open>Analog_Commands\<close>, \<open>Cascade_Commands\<close>, \<open>Board_Commands\<close> and \<open>Ni_Commands\<close> the routines;
  \<open>Command_Contracts\<close> shows the documented contract of each, \<open>Rounding_Properties\<close> and \<open>Pacing_Properties\<close> that
  periods are rounded as asked and that the dividers left behind give what was accepted, \<open>Command_Faults\<close> where they go
  wrong. The digital lines: \<open>Port_Io\<close> has the bus and the contract of outputs (locale \<open>output_handler\<close>),
  \<open>Digital_Outputs\<close> and \<open>Digital_Lines\<close> the bits instructions, \<open>Digital_Directions\<close> and \<open>Direction_Boards\<close> the
  configuration instructions with their round trip; \<open>Line_Contracts\<close> and \<open>Line_Properties\<close> what holds of all of them. The
  analog channels: \<open>Analog_Io\<close> has loops over samples, polling, and the contract of outputs that can be read back
  (locale \<open>readable_output\<close>); \<open>Analog_Outputs\<close> has the boards. \<open>Analog_Inputs\<close> has the contract of inputs (locale
  \<open>bounded_input\<close>: they return whatever the board answers, and what they return fits the resolution) and the boards that
  keep it; \<open>Analog_Faults\<close> has the handlers that keep neither or drive their board wrongly, \<open>Analog_Properties\<close> what holds.

  \<^bold>\<open>Bounds and loops.\<close> A loop of the code with a limit of its own (a number of polls, the entries of a list) is
  recursion on that limit. The loops without one: the copying loops of the ring are \<open>partial_function\<close> and shown to
  return under the invariant; the interrupt routine of the simulated board and the divider search are shown to return; a
  blocking read or write sleeps once per element of a list of wake-ups and ends as interrupted when the list does, the
  theorems holding for every list; the loops of the serial driver run over the list of what the line will yield, and
  the line is silent afterwards, so that its length bounds them; the write of \<open>dmm32at.c\<close> is a \<open>while_option\<close>, and that
  it does not return is a theorem. The handler of pending calls takes at most as many rounds as the ring has slots.

  \<^bold>\<open>Not modelled.\<close> The register programming of the hardware drivers for streaming commands, interrupts, DMA,
  counters and calibration: most of their lines are sequences of writes whose effect is in the data sheet of the
  board and not in the repository. Their attach routines, which probe PCI, USB or PCMCIA. The drivers under
  \<open>drivers/addi-data\<close>, which reach their boards through a framework of their own. Memory barriers and delays, which have
  no effect on the model's state; spin locks, where the code takes them, make the step that the model takes at once. The
  registration of files in the class device and in \<open>/proc\<close>, beyond its success or failure. The start of the
  real-time kernels (\<open>rt.c\<close>, the per-line dispatchers). The headers under \<open>inc-wrap\<close>, which hide versions of the kernel.
\<close>

end
